(* ===== verification/Py_Prelude.thy ===== *)
theory Py_Prelude
  imports Main "HOL-Library.AList" "HOL-Library.Char_ord" "HOL-Library.List_Lexorder"
    "HOL-Library.Sublist"
begin

text \<open>
  The part of Python that the modelled modules use: strings, dynamically typed values,
  dictionaries and the conversions between them, with the lemmas every component shares.

  A Python \<open>str\<close> is a list of characters whose codes are the code points 0..255 (Latin-1).
  On that range \<open>lower\<close>, \<open>strip\<close>, \<open>split\<close>, \<open>isalnum\<close>, slicing and substring tests are
  the exact Python functions. \<open>upper\<close> is exact but for the two code points 181 and 255,
  whose upper case lies outside the range and which are left alone.
  A Python \<open>dict\<close> with string keys is an association list in insertion order.
\<close>


section \<open>Characters\<close>

definition code :: "char \<Rightarrow> nat" where
  "code c = of_char c"

definition py_isspace :: "char \<Rightarrow> bool" where
  "py_isspace c = (let n = code c in (9 \<le> n \<and> n \<le> 13) \<or> (28 \<le> n \<and> n \<le> 32) \<or> n = 133 \<or> n = 160)"

definition py_isalnum :: "char \<Rightarrow> bool" where
  "py_isalnum c = (let n = code c in
     (48 \<le> n \<and> n \<le> 57) \<or> (65 \<le> n \<and> n \<le> 90) \<or> (97 \<le> n \<and> n \<le> 122)
     \<or> n \<in> {170, 178, 179, 181, 185, 186, 188, 189, 190}
     \<or> (192 \<le> n \<and> n \<noteq> 215 \<and> n \<noteq> 247))"

definition py_isword :: "char \<Rightarrow> bool" where
  "py_isword c = (py_isalnum c \<or> c = CHR ''_'')"

definition lower_char :: "char \<Rightarrow> char" where
  "lower_char c = (let n = code c in
     if (65 \<le> n \<and> n \<le> 90) \<or> (192 \<le> n \<and> n \<le> 222 \<and> n \<noteq> 215) then char_of (n + 32) else c)"

definition upper_char :: "char \<Rightarrow> string" where
  "upper_char c = (let n = code c in
     if (97 \<le> n \<and> n \<le> 122) \<or> (224 \<le> n \<and> n \<le> 254 \<and> n \<noteq> 247) then [char_of (n - 32)]
     else if n = 223 then ''SS'' else [c])"

lemma code_less [simp]: "code c < 256"
  by (simp add: code_def)

lemma code_char_of [simp]: "code (char_of n) = n mod 256"
  by (simp add: code_def)

lemma code_inject: "code c = code d \<longleftrightarrow> c = d"
  by (simp add: code_def)

lemma lower_char_idem [simp]: "lower_char (lower_char c) = lower_char c"
  by (auto simp: lower_char_def Let_def)

lemma py_isspace_lower_char [simp]: "py_isspace (lower_char c) = py_isspace c"
  by (auto simp: py_isspace_def lower_char_def Let_def)

lemma py_isalnum_lower_char [simp]: "py_isalnum (lower_char c) = py_isalnum c"
  using code_less [of c] by (auto simp: py_isalnum_def lower_char_def Let_def simp del: code_less)

section \<open>Strings\<close>

definition py_lower :: "string \<Rightarrow> string" where
  "py_lower = map lower_char"

definition py_upper :: "string \<Rightarrow> string" where
  "py_upper s = concat (map upper_char s)"

definition py_lstrip :: "string \<Rightarrow> string" where
  "py_lstrip = dropWhile py_isspace"

definition py_rstrip :: "string \<Rightarrow> string" where
  "py_rstrip s = rev (dropWhile py_isspace (rev s))"

definition py_strip :: "string \<Rightarrow> string" where
  "py_strip s = py_rstrip (py_lstrip s)"

text \<open>\<open>s.replace(a, b)\<close> for one-character strings \<open>a\<close> and \<open>b\<close>.\<close>

definition py_replace_char :: "char \<Rightarrow> char \<Rightarrow> string \<Rightarrow> string" where
  "py_replace_char a b = map (\<lambda>c. if c = a then b else c)"

definition dash_to_underscore :: "string \<Rightarrow> string" where
  "dash_to_underscore = py_replace_char (CHR ''-'') (CHR ''_'')"

definition py_startswith :: "string \<Rightarrow> string \<Rightarrow> bool" where
  "py_startswith p s = (take (length p) s = p)"

definition py_endswith :: "string \<Rightarrow> string \<Rightarrow> bool" where
  "py_endswith p s = (length p \<le> length s \<and> drop (length s - length p) s = p)"

text \<open>\<open>needle in haystack\<close>.\<close>

fun py_contains :: "string \<Rightarrow> string \<Rightarrow> bool" where
  "py_contains p [] = (p = [])"
| "py_contains p (c # cs) = (py_startswith p (c # cs) \<or> py_contains p cs)"

definition contains_any :: "string list \<Rightarrow> string \<Rightarrow> bool" where
  "contains_any ms s = list_ex (\<lambda>m. py_contains m s) ms"

text \<open>\<open>s.split()\<close> on whitespace; \<open>" ".join(s.split())\<close>.\<close>

fun split_words :: "string \<Rightarrow> string \<Rightarrow> string list" where
  "split_words w [] = (if w = [] then [] else [rev w])"
| "split_words w (c # cs) =
     (if py_isspace c then (if w = [] then split_words [] cs else rev w # split_words [] cs)
      else split_words (c # w) cs)"

definition py_split :: "string \<Rightarrow> string list" where
  "py_split s = split_words [] s"

fun py_join :: "string \<Rightarrow> string list \<Rightarrow> string" where
  "py_join sep [] = []"
| "py_join sep [w] = w"
| "py_join sep (w # ws) = w @ sep @ py_join sep ws"

definition squash_spaces :: "string \<Rightarrow> string" where
  "squash_spaces s = py_join '' '' (py_split s)"

subsection \<open>Facts about string operations\<close>

lemma py_startswith_append: "py_startswith p s \<longleftrightarrow> (\<exists>v. s = p @ v)"
proof
  assume "py_startswith p s"
  then have "s = p @ drop (length p) s"
    unfolding py_startswith_def by (metis append_take_drop_id)
  then show "\<exists>v. s = p @ v" by blast
qed (auto simp: py_startswith_def)

lemma py_contains_iff: "py_contains p s \<longleftrightarrow> (\<exists>u v. s = u @ p @ v)"
proof (induction s)
  case Nil
  then show ?case by auto
next
  case (Cons c cs)
  have "(\<exists>u v. c # cs = u @ p @ v) \<longleftrightarrow> (\<exists>v. c # cs = p @ v) \<or> (\<exists>u v. cs = u @ p @ v)"
    by (metis append_Cons append_Nil list.inject neq_Nil_conv)
  then show ?case
    using Cons.IH by (simp add: py_startswith_append)
qed

lemma py_contains_sublist: "py_contains p s = sublist p s"
  by (auto simp: py_contains_iff sublist_def)

lemma contains_any_mono:
  "contains_any ms s \<Longrightarrow> sublist s t \<Longrightarrow> contains_any ms t"
  by (auto simp: contains_any_def list_ex_iff py_contains_sublist intro: sublist_order.order.trans)

lemma contains_any_take: "contains_any ms (take n s) \<Longrightarrow> contains_any ms s"
  by (erule contains_any_mono) (auto intro: prefix_imp_sublist take_is_prefix)

lemma length_py_lower [simp]: "length (py_lower s) = length s"
  by (simp add: py_lower_def)

lemma py_lower_idem [simp]: "py_lower (py_lower s) = py_lower s"
  by (simp add: py_lower_def)

lemma py_lower_Nil_iff [simp]: "py_lower s = [] \<longleftrightarrow> s = []"
  by (simp add: py_lower_def)

lemma py_lower_take: "py_lower (take n s) = take n (py_lower s)"
  by (simp add: py_lower_def take_map)

lemma dropWhile_map_pred:
  "(\<And>x. P (f x) = P x) \<Longrightarrow> dropWhile P (map f xs) = map f (dropWhile P xs)"
  by (induction xs) auto

lemma py_strip_map:
  assumes "\<And>c. py_isspace (f c) = py_isspace c"
  shows "py_strip (map f s) = map f (py_strip s)"
  unfolding py_strip_def py_rstrip_def py_lstrip_def
  by (simp add: dropWhile_map_pred [where P = py_isspace and f = f] assms rev_map)

lemma py_strip_lower: "py_strip (py_lower s) = py_lower (py_strip s)"
  unfolding py_lower_def by (rule py_strip_map) simp

lemma not_isspace_dash [simp]: "\<not> py_isspace (CHR ''-'')" and
  not_isspace_underscore [simp]: "\<not> py_isspace (CHR ''_'')"
  by (simp_all add: py_isspace_def code_def)

lemma py_strip_dash: "py_strip (dash_to_underscore s) = dash_to_underscore (py_strip s)"
  unfolding dash_to_underscore_def py_replace_char_def by (rule py_strip_map) auto

lemma dash_to_underscore_idem [simp]:
  "dash_to_underscore (dash_to_underscore s) = dash_to_underscore s"
  by (simp add: dash_to_underscore_def py_replace_char_def)

lemma length_dash_to_underscore [simp]: "length (dash_to_underscore s) = length s"
  by (simp add: dash_to_underscore_def py_replace_char_def)

lemma lower_dash_commute:
  "py_lower (dash_to_underscore s) = dash_to_underscore (py_lower s)"
proof -
  have dash: "lower_char c = CHR ''-'' \<longleftrightarrow> c = CHR ''-''" for c
  proof
    assume h: "lower_char c = CHR ''-''"
    then have "code (lower_char c) = 45" by (simp add: code_def)
    then have "code c = 45"
      by (auto simp: lower_char_def Let_def split: if_splits)
    then show "c = CHR ''-''" by (simp add: code_def flip: code_inject)
  qed (simp add: lower_char_def code_def)
  have under: "lower_char (CHR ''_'') = CHR ''_''" by (simp add: lower_char_def code_def)
  show ?thesis
    unfolding py_lower_def dash_to_underscore_def py_replace_char_def
    by (auto simp: dash under)
qed

lemma dropWhile_hd: "dropWhile P xs = [] \<or> \<not> P (hd (dropWhile P xs))"
  by (metis hd_dropWhile)

lemma py_strip_Nil [simp]: "py_strip [] = []"
  by (simp add: py_strip_def py_lstrip_def py_rstrip_def)

lemma py_rstrip_lstrip_commute: "py_rstrip (py_lstrip s) = py_lstrip (py_rstrip s)"
proof (cases "\<forall>c \<in> set s. py_isspace c")
  case True
  then have "py_lstrip s = []" "py_rstrip s = []"
    by (simp_all add: py_rstrip_def py_lstrip_def dropWhile_eq_Nil_conv)
  moreover have "py_rstrip [] = []" "py_lstrip [] = []"
    by (simp_all add: py_rstrip_def py_lstrip_def)
  ultimately show ?thesis by simp
next
  case False
  then obtain a x b where s: "s = a @ x # b" "\<forall>y \<in> set a. py_isspace y" "\<not> py_isspace x"
    using split_list_first_prop [of s "\<lambda>c. \<not> py_isspace c"] by blast
  then have "py_lstrip s = x # b"
    by (simp add: py_lstrip_def dropWhile_append2)
  moreover have "py_rstrip (x # b) = x # py_rstrip b" "py_rstrip s = a @ x # py_rstrip b"
    using s(3) by (simp_all add: py_rstrip_def s(1) dropWhile_append3)
  ultimately show ?thesis
    using s(2,3) by (simp add: py_lstrip_def dropWhile_append2)
qed

lemma py_lstrip_idem [simp]: "py_lstrip (py_lstrip s) = py_lstrip s"
  by (simp add: py_lstrip_def)

lemma py_rstrip_idem [simp]: "py_rstrip (py_rstrip s) = py_rstrip s"
  by (simp add: py_rstrip_def)

lemma py_strip_idem [simp]: "py_strip (py_strip s) = py_strip s"
  unfolding py_strip_def by (metis py_lstrip_idem py_rstrip_idem py_rstrip_lstrip_commute)

lemma sublist_py_strip: "sublist (py_strip s) s"
proof -
  have "suffix (py_lstrip s) s" by (simp add: py_lstrip_def suffix_dropWhile)
  moreover have "prefix (py_rstrip t) t" for t
    by (metis py_rstrip_def rev_rev_ident suffix_dropWhile suffix_to_prefix)
  ultimately show ?thesis
    unfolding py_strip_def
    by (meson prefix_imp_sublist suffix_imp_sublist sublist_order.order.trans)
qed

lemma length_py_strip_le: "length (py_strip s) \<le> length s"
  by (rule sublist_length_le [OF sublist_py_strip])

text \<open>Marker words hold no white space, so stripping a text neither removes nor adds one.\<close>

lemma sublist_lstrip_word:
  assumes m: "m \<noteq> []" "\<not> py_isspace (hd m)" and sub: "sublist m t"
  shows "sublist m (py_lstrip t)"
proof -
  obtain u v where t: "t = u @ m @ v" using sub by (auto simp: sublist_def)
  obtain c m' where m': "m = c # m'" "\<not> py_isspace c" using m by (cases m) auto
  have "py_lstrip t = dropWhile py_isspace u @ m @ v"
    unfolding t py_lstrip_def m'(1) using m'(2) by (simp add: dropWhile_append3)
  then show ?thesis by simp
qed

lemma sublist_strip_word:
  assumes m: "m \<noteq> []" "\<forall>c \<in> set m. \<not> py_isspace c" and sub: "sublist m s"
  shows "sublist m (py_strip s)"
proof -
  have "sublist m (py_lstrip s)"
    using m sub by (auto intro: sublist_lstrip_word)
  then have "sublist (rev m) (rev (py_lstrip s))"
    by simp
  then have "sublist (rev m) (py_lstrip (rev (py_lstrip s)))"
    using m by (auto intro!: sublist_lstrip_word simp: hd_rev)
  then have "sublist (rev (rev m)) (rev (py_lstrip (rev (py_lstrip s))))"
    by (simp only: sublist_rev)
  then show ?thesis by (simp add: py_strip_def py_rstrip_def py_lstrip_def)
qed

definition word_markers :: "string list \<Rightarrow> bool" where
  "word_markers ms = list_all (\<lambda>m. m \<noteq> [] \<and> list_all (\<lambda>c. \<not> py_isspace c) m) ms"

lemma contains_any_strip:
  assumes "word_markers ms"
  shows "contains_any ms (py_strip s) = contains_any ms s"
proof
  assume "contains_any ms s"
  then obtain m where m: "m \<in> set ms" "sublist m s"
    by (auto simp: contains_any_def list_ex_iff py_contains_sublist)
  then have "sublist m (py_strip s)"
    using assms by (intro sublist_strip_word) (auto simp: word_markers_def list_all_iff)
  with m show "contains_any ms (py_strip s)"
    by (auto simp: contains_any_def list_ex_iff py_contains_sublist)
qed (erule contains_any_mono, rule sublist_py_strip)

text \<open>Keys in canonical spelling: lower case, no dash. Slices of canonical keys are canonical.\<close>

definition canonical :: "string \<Rightarrow> bool" where
  "canonical s = (py_lower s = s \<and> dash_to_underscore s = s)"

lemma map_fixed_iff: "map f xs = xs \<longleftrightarrow> (\<forall>x \<in> set xs. f x = x)"
  by (induction xs) auto

lemma canonical_chars: "canonical s \<longleftrightarrow> (\<forall>c \<in> set s. lower_char c = c \<and> c \<noteq> CHR ''-'')"
  unfolding canonical_def py_lower_def dash_to_underscore_def py_replace_char_def map_fixed_iff
  by auto

lemma canonical_sublist: "canonical s \<Longrightarrow> sublist t s \<Longrightarrow> canonical t"
  using set_mono_sublist [of t s] by (auto simp: canonical_chars)

lemma canonical_lower_dash: "canonical (dash_to_underscore (py_lower s))"
  by (simp add: canonical_def lower_dash_commute)

section \<open>Values\<close>

text \<open>
  The JSON-like values that cross the modelled interfaces. Floating point numbers, sets and
  user objects do not occur in the modelled metadata.
\<close>

datatype pyval =
    PNone
  | PBool bool
  | PInt int
  | PStr string
  | PList "pyval list"
  | PTuple "pyval list"
  | PDict "(string \<times> pyval) list"

type_synonym pydict = "(string \<times> pyval) list"

text \<open>Truth value testing.\<close>

fun truthy :: "pyval \<Rightarrow> bool" where
  "truthy PNone = False"
| "truthy (PBool b) = b"
| "truthy (PInt n) = (n \<noteq> 0)"
| "truthy (PStr s) = (s \<noteq> [])"
| "truthy (PList xs) = (xs \<noteq> [])"
| "truthy (PTuple xs) = (xs \<noteq> [])"
| "truthy (PDict d) = (d \<noteq> [])"

text \<open>Decimal and hexadecimal numerals.\<close>

fun dec_nat :: "nat \<Rightarrow> string" where
  "dec_nat n = (if n < 10 then [char_of (48 + n)] else dec_nat (n div 10) @ [char_of (48 + n mod 10)])"

declare dec_nat.simps [simp del]

definition dec_int :: "int \<Rightarrow> string" where
  "dec_int i = (if i < 0 then CHR ''-'' # dec_nat (nat (- i)) else dec_nat (nat i))"

definition hex_digit :: "nat \<Rightarrow> char" where
  "hex_digit n = (if n < 10 then char_of (48 + n) else char_of (87 + n))"

text \<open>\<open>repr\<close> of a string: single quotes unless it holds a single quote and no double quote.\<close>

definition repr_char :: "char \<Rightarrow> char \<Rightarrow> string" where
  "repr_char q c = (let n = code c in
     if c = q \<or> n = 92 then [char_of (92::nat), c]
     else if n = 10 then [char_of (92::nat), CHR ''n'']
     else if n = 13 then [char_of (92::nat), CHR ''r'']
     else if n = 9 then [char_of (92::nat), CHR ''t'']
     else if n < 32 \<or> (127 \<le> n \<and> n \<le> 160) \<or> n = 173
       then [char_of (92::nat), CHR ''x'', hex_digit (n div 16), hex_digit (n mod 16)]
     else [c])"

definition repr_str :: "string \<Rightarrow> string" where
  "repr_str s = (let q = (if char_of (39::nat) \<in> set s \<and> CHR 0x22 \<notin> set s then CHR 0x22 else char_of (39::nat))
     in q # concat (map (repr_char q) s) @ [q])"

text \<open>\<open>repr(v)\<close> and \<open>str(v)\<close>.\<close>

fun py_repr :: "pyval \<Rightarrow> string" where
  "py_repr PNone = ''None''"
| "py_repr (PBool b) = (if b then ''True'' else ''False'')"
| "py_repr (PInt n) = dec_int n"
| "py_repr (PStr s) = repr_str s"
| "py_repr (PList xs) = ''['' @ py_join '', '' (map py_repr xs) @ '']''"
| "py_repr (PTuple xs) =
     ''('' @ py_join '', '' (map py_repr xs) @ (if length xs = 1 then '',)'' else '')'')"
| "py_repr (PDict d) =
     ''{'' @ py_join '', '' (map (\<lambda>(k, v). repr_str k @ '': '' @ py_repr v) d) @ ''}''"

fun py_str :: "pyval \<Rightarrow> string" where
  "py_str (PStr s) = s"
| "py_str v = py_repr v"

text \<open>The idiom \<open>str(value or "")\<close>.\<close>

definition str_or_empty :: "pyval \<Rightarrow> string" where
  "str_or_empty v = (if truthy v then py_str v else [])"

lemma str_or_empty_simps [simp]:
  "str_or_empty (PStr s) = s" "str_or_empty PNone = []"
  by (simp_all add: str_or_empty_def)

text \<open>Dictionaries: \<open>d.get(k)\<close>, \<open>d[k] = v\<close> and \<open>dict(pairs)\<close> (a later pair wins, in the
  position of the first).\<close>

definition dict_get :: "(string \<times> 'v) list \<Rightarrow> string \<Rightarrow> 'v option" where
  "dict_get d k = map_of d k"

definition dict_set :: "string \<Rightarrow> 'v \<Rightarrow> (string \<times> 'v) list \<Rightarrow> (string \<times> 'v) list" where
  "dict_set k v d = AList.update k v d"

definition dict_keys :: "(string \<times> 'v) list \<Rightarrow> string list" where
  "dict_keys d = map fst d"

lemma dict_keys_empty [simp]: "dict_keys [] = []"
  by (simp add: dict_keys_def)

lemma dict_get_Nil [simp]: "dict_get [] k = None"
  by (simp add: dict_get_def)

lemma dict_get_Cons [simp]: "dict_get ((k', v) # d) k = (if k' = k then Some v else dict_get d k)"
  by (simp add: dict_get_def)

lemma dict_get_set [simp]: "dict_get (dict_set k v d) = (dict_get d)(k \<mapsto> v)"
  by (simp add: dict_get_def dict_set_def update_conv' fun_eq_iff)

lemma set_dict_keys_set [simp]: "set (dict_keys (dict_set k v d)) = insert k (set (dict_keys d))"
  by (simp add: dict_keys_def dict_set_def dom_update)

lemma distinct_dict_keys_set: "distinct (dict_keys d) \<Longrightarrow> distinct (dict_keys (dict_set k v d))"
  by (simp add: dict_keys_def dict_set_def distinct_update)

lemma set_dict_set: "set (dict_set k v d) \<subseteq> insert (k, v) (set d)"
proof (induction d)
  case (Cons p d)
  then show ?case by (cases p) (auto simp: dict_set_def)
qed (simp add: dict_set_def)

text \<open>Order-preserving removal of duplicates, as the loops \<open>if x not in result: result.append(x)\<close>
  do it.\<close>

fun append_new :: "'a list \<Rightarrow> 'a list \<Rightarrow> 'a list" where
  "append_new acc [] = acc"
| "append_new acc (x # xs) = append_new (if x \<in> set acc then acc else acc @ [x]) xs"

lemma set_append_new [simp]: "set (append_new acc xs) = set acc \<union> set xs"
  by (induction acc xs rule: append_new.induct) auto

lemma distinct_append_new: "distinct acc \<Longrightarrow> distinct (append_new acc xs)"
  by (induction acc xs rule: append_new.induct) auto

lemma dropWhile_none: "\<forall>c \<in> set s. \<not> P c \<Longrightarrow> dropWhile P s = s"
  by (cases s) auto

lemma py_strip_no_space: "\<forall>c \<in> set s. \<not> py_isspace c \<Longrightarrow> py_strip s = s"
  by (simp add: py_strip_def py_lstrip_def py_rstrip_def dropWhile_none)

lemma isword_not_space: "py_isword c \<Longrightarrow> \<not> py_isspace c"
  by (auto simp: py_isword_def py_isalnum_def py_isspace_def Let_def code_def)

lemma filter_all: "\<forall>x \<in> set xs. P x \<Longrightarrow> filter P xs = xs"
  by (induction xs) auto

end
