(* ===== verification/Gates.thy ===== *)
theory Gates
  imports Py_Prelude
begin

text \<open>
  The shape every fail-closed decision of Wiii Connect has: a chain of checks, each with the
  reason reported when it is the first to fail, and one reason for "all passed". The locale
  states the contract once; each decision of the development is an interpretation of it.
\<close>

fun first_failure :: "(bool \<times> 'r) list \<Rightarrow> 'r \<Rightarrow> 'r" where
  "first_failure [] ok = ok"
| "first_failure ((pass, r) # cs) ok = (if pass then first_failure cs ok else r)"

lemma first_failure_ok:
  "(\<And>b r. (b, r) \<in> set cs \<Longrightarrow> r \<noteq> ok) \<Longrightarrow>
   first_failure cs ok = ok \<longleftrightarrow> (\<forall>c \<in> set cs. fst c)"
  by (induction cs ok rule: first_failure.induct) auto

lemma first_failure_split:
  "first_failure cs ok = r \<Longrightarrow> r \<noteq> ok \<Longrightarrow>
   \<exists>before after. cs = before @ (False, r) # after \<and> (\<forall>c \<in> set before. fst c)"
proof (induction cs ok rule: first_failure.induct)
  case (2 pass r' cs ok)
  show ?case
  proof (cases pass)
    case True
    with 2 obtain before after where
      "cs = before @ (False, r) # after" "\<forall>c \<in> set before. fst c" by auto
    with True show ?thesis
      by (intro exI [of _ "(True, r') # before"] exI [of _ after]) auto
  next
    case False
    with 2 show ?thesis by (intro exI [of _ "[]"] exI [of _ cs]) auto
  qed
qed simp

lemma first_failure_append:
  "first_failure (cs @ ds) ok =
     (if \<forall>c \<in> set cs. fst c then first_failure ds ok else first_failure cs ok)"
  by (induction cs ok rule: first_failure.induct) auto

locale ordered_gate =
  fixes reason :: "'a \<Rightarrow> 'r"
    and checks :: "'a \<Rightarrow> (bool \<times> 'r) list"
    and ok :: 'r
  assumes reason_checks: "reason x = first_failure (checks x) ok"
    and ok_fresh: "(b, r) \<in> set (checks x) \<Longrightarrow> r \<noteq> ok"
begin

lemma passes_iff: "reason x = ok \<longleftrightarrow> (\<forall>c \<in> set (checks x). fst c)"
  unfolding reason_checks by (rule first_failure_ok) (rule ok_fresh)

lemma fail_closed: "(False, r) \<in> set (checks x) \<Longrightarrow> reason x \<noteq> ok"
  using passes_iff [of x] by force

lemma reason_is_first_failure:
  "reason x \<noteq> ok \<Longrightarrow>
   \<exists>before after. checks x = before @ (False, reason x) # after \<and> (\<forall>c \<in> set before. fst c)"
  using first_failure_split [of "checks x" ok "reason x"] reason_checks [of x] by metis

lemma monotone:
  assumes "reason x = ok" "map snd (checks y) = map snd (checks x)"
    "\<And>i. i < length (checks x) \<Longrightarrow> fst (checks x ! i) \<Longrightarrow> fst (checks y ! i)"
  shows "reason y = ok"
proof -
  have "length (checks y) = length (checks x)" using assms(2) by (metis length_map)
  then show ?thesis
    using assms(1,3) unfolding passes_iff by (metis in_set_conv_nth nth_mem)
qed

end

end
