(* ===== verification/Py_Hashlib.thy ===== *)
theory Py_Hashlib
  imports Py_Prelude "HOL-Library.Word"
begin

text \<open>
  The parts of \<open>hashlib\<close> and \<open>hmac\<close> that Wiii Connect uses: UTF-8 encoding of a string and
  \<open>hashlib.sha256(data).hexdigest()\<close> (FIPS 180-4), executable and on 32-bit words. Bytes are
  natural numbers below 256. Proved here: a hex digest always has 64 lower-case hex digits.
\<close>

unbundle bit_operations_syntax

section \<open>UTF-8 of code points below 256\<close>

definition utf8_char :: "char \<Rightarrow> nat list" where
  "utf8_char c = (let n = code c in if n < 128 then [n] else [192 + n div 64, 128 + n mod 64])"

definition utf8 :: "string \<Rightarrow> nat list" where
  "utf8 s = concat (map utf8_char s)"

section \<open>SHA-256\<close>

type_synonym w32 = "32 word"

text \<open>
  The round constants are the first 32 bits of the fractions of the cube roots of the first 64
  primes, the initial state those of the square roots of the first eight: \<open>iroot k n b 0\<close> is the
  integer \<open>k\<close>-th root of \<open>n\<close>, found bit by bit from \<open>2 ^ (b - 1)\<close> down.
\<close>

definition small_primes :: "int list" where
  "small_primes = filter (\<lambda>n. \<not> list_ex (\<lambda>d. n mod d = 0) [2..n - 1]) [2..311]"

primrec iroot :: "nat \<Rightarrow> int \<Rightarrow> nat \<Rightarrow> int \<Rightarrow> int" where
  "iroot k n 0 acc = acc"
| "iroot k n (Suc b) acc = iroot k n b (if (acc + 2 ^ b) ^ k \<le> n then acc + 2 ^ b else acc)"

definition sha_k :: "w32 list" where
  "sha_k = map (\<lambda>p. of_int (iroot 3 (p * 2 ^ 96) 35 0)) small_primes"

datatype sha_state = Sha w32 w32 w32 w32 w32 w32 w32 w32

definition sha_init :: sha_state where
  "sha_init = (let h = (\<lambda>i. of_int (iroot 2 (small_primes ! i * 2 ^ 64) 35 0))
     in Sha (h 0) (h 1) (h 2) (h 3) (h 4) (h 5) (h 6) (h 7))"

definition rotr :: "nat \<Rightarrow> w32 \<Rightarrow> w32" where
  "rotr n x = (drop_bit n x OR push_bit (32 - n) x)"

definition sha_ch :: "w32 \<Rightarrow> w32 \<Rightarrow> w32 \<Rightarrow> w32" where
  "sha_ch x y z = ((x AND y) XOR (NOT x AND z))"

definition sha_maj :: "w32 \<Rightarrow> w32 \<Rightarrow> w32 \<Rightarrow> w32" where
  "sha_maj x y z = ((x AND y) XOR (x AND z) XOR (y AND z))"

definition sha_S0 :: "w32 \<Rightarrow> w32" where "sha_S0 x = (rotr 2 x XOR rotr 13 x XOR rotr 22 x)"
definition sha_S1 :: "w32 \<Rightarrow> w32" where "sha_S1 x = (rotr 6 x XOR rotr 11 x XOR rotr 25 x)"
definition sha_s0 :: "w32 \<Rightarrow> w32" where "sha_s0 x = (rotr 7 x XOR rotr 18 x XOR drop_bit 3 x)"
definition sha_s1 :: "w32 \<Rightarrow> w32" where "sha_s1 x = (rotr 17 x XOR rotr 19 x XOR drop_bit 10 x)"

text \<open>The message schedule: 48 words appended to the sixteen of the block.\<close>

fun sha_extend :: "nat \<Rightarrow> w32 list \<Rightarrow> w32 list" where
  "sha_extend 0 ws = ws"
| "sha_extend (Suc n) ws = (let t = length ws in
     sha_extend n (ws @ [sha_s1 (ws ! (t - 2)) + ws ! (t - 7) + sha_s0 (ws ! (t - 15)) + ws ! (t - 16)]))"

fun sha_round :: "sha_state \<Rightarrow> w32 \<times> w32 \<Rightarrow> sha_state" where
  "sha_round (Sha a b c d e f g h) (k, w) =
     (let t1 = h + sha_S1 e + sha_ch e f g + k + w; t2 = sha_S0 a + sha_maj a b c
      in Sha (t1 + t2) a b c (d + t1) e f g)"

fun sha_add :: "sha_state \<Rightarrow> sha_state \<Rightarrow> sha_state" where
  "sha_add (Sha a b c d e f g h) (Sha a' b' c' d' e' f' g' h') =
     Sha (a + a') (b + b') (c + c') (d + d') (e + e') (f + f') (g + g') (h + h')"

definition sha_block :: "sha_state \<Rightarrow> w32 list \<Rightarrow> sha_state" where
  "sha_block st ws = sha_add st (foldl sha_round st (zip sha_k (sha_extend 48 ws)))"

text \<open>Padding to a multiple of 64 bytes with the bit length at the end.\<close>

definition be_bytes :: "nat \<Rightarrow> nat \<Rightarrow> nat list" where
  "be_bytes n x = map (\<lambda>i. (x div 256 ^ i) mod 256) (rev [0..<n])"

definition sha_pad :: "nat list \<Rightarrow> nat list" where
  "sha_pad bs = (let n = length bs in
     bs @ [128] @ replicate ((119 - n mod 64) mod 64) 0 @ be_bytes 8 (8 * n))"

fun bytes_to_words :: "nat list \<Rightarrow> w32 list" where
  "bytes_to_words (a # b # c # d # bs) =
     word_of_nat (((a * 256 + b) * 256 + c) * 256 + d) # bytes_to_words bs"
| "bytes_to_words _ = []"

fun sha_blocks :: "nat \<Rightarrow> sha_state \<Rightarrow> w32 list \<Rightarrow> sha_state" where
  "sha_blocks 0 st ws = st"
| "sha_blocks (Suc n) st ws = sha_blocks n (sha_block st (take 16 ws)) (drop 16 ws)"

fun state_words :: "sha_state \<Rightarrow> w32 list" where
  "state_words (Sha a b c d e f g h) = [a, b, c, d, e, f, g, h]"

definition sha256_words :: "nat list \<Rightarrow> w32 list" where
  "sha256_words bs = (let ws = bytes_to_words (sha_pad bs) in
     state_words (sha_blocks (length ws div 16) sha_init ws))"

section \<open>Digests\<close>

definition hex_word :: "w32 \<Rightarrow> string" where
  "hex_word w = map (\<lambda>i. hex_digit (unat w div 16 ^ i mod 16)) (rev [0..<8])"

text \<open>\<open>hashlib.sha256(s.encode("utf-8")).hexdigest()\<close>.\<close>

definition sha256_hex :: "string \<Rightarrow> string" where
  "sha256_hex s = concat (map hex_word (sha256_words (utf8 s)))"

definition is_hex_lower :: "char \<Rightarrow> bool" where
  "is_hex_lower c = (c \<in> set ''0123456789abcdef'')"

lemma hex_digit_lower [simp]: "n < 16 \<Longrightarrow> is_hex_lower (hex_digit n)"
proof -
  have "list_all (\<lambda>k. is_hex_lower (hex_digit k)) [0..<16]"
    by code_simp
  then show "n < 16 \<Longrightarrow> is_hex_lower (hex_digit n)"
    by (simp add: list_all_iff)
qed

lemma length_hex_word [simp]: "length (hex_word w) = 8"
  by (simp add: hex_word_def)

lemma hex_word_lower: "list_all is_hex_lower (hex_word w)"
  by (simp add: hex_word_def list_all_iff)

lemma length_sha256_words [simp]: "length (sha256_words bs) = 8"
proof -
  have "length (state_words st) = 8" for st by (cases st) simp
  then show ?thesis by (simp add: sha256_words_def Let_def)
qed

lemma length_sha256_hex [simp]: "length (sha256_hex s) = 64"
proof -
  have "length (concat (map hex_word ws)) = 8 * length ws" for ws
    by (induction ws) auto
  then show ?thesis by (simp add: sha256_hex_def)
qed

lemma sha256_hex_lower: "list_all is_hex_lower (sha256_hex s)"
  using hex_word_lower by (auto simp: sha256_hex_def list_all_iff)

end
