(* ===== verification/Sanitizer.thy ===== *)
theory Sanitizer
  imports Py_Prelude
begin

text \<open>
  \<open>app/engine/runtime/event_payload_sanitizer.py\<close>: secret redaction in diagnostic text and the
  recursive payload sanitizer every durable runtime event goes through.

  The three compiled patterns are modelled by backtracking matchers: a matcher maps a position
  (the previous character and the remaining text) to the positions it can reach, in the order
  Python's \<open>re\<close> tries them, so that the head of the list is the match \<open>re\<close> takes.
  \<open>json.loads\<close> and the keyed BLAKE2b digest are arguments (\<open>loads\<close>, \<open>digest\<close>) of the functions
  that use them; nothing is assumed about either.
\<close>

section \<open>Backtracking matchers\<close>

type_synonym rpos = "char option \<times> string"
type_synonym matcher = "rpos \<Rightarrow> rpos list"

definition rx_set :: "(char \<Rightarrow> bool) \<Rightarrow> matcher" where
  "rx_set P st = (case snd st of [] \<Rightarrow> [] | c # cs \<Rightarrow> if P c then [(Some c, cs)] else [])"

definition rx_seq :: "matcher \<Rightarrow> matcher \<Rightarrow> matcher" where
  "rx_seq a b st = concat (map b (a st))"

definition rx_opt :: "matcher \<Rightarrow> matcher" where
  "rx_opt a st = a st @ [st]"

fun rx_alts :: "matcher list \<Rightarrow> matcher" where
  "rx_alts [] st = []"
| "rx_alts (a # as) st = a st @ rx_alts as st"

fun rx_seqs :: "matcher list \<Rightarrow> matcher" where
  "rx_seqs [] st = [st]"
| "rx_seqs (a # as) st = rx_seq a (rx_seqs as) st"

text \<open>A character class repeated at least \<open>n\<close> times, longest first.\<close>

definition rx_rep :: "(char \<Rightarrow> bool) \<Rightarrow> nat \<Rightarrow> matcher" where
  "rx_rep P n st = (let s = snd st; k = length (takeWhile P s) in
     map (\<lambda>j. (if j = 0 then fst st else Some (s ! (j - 1)), drop j s)) (rev [n..<Suc k]))"

text \<open>The word boundary \<open>\b\<close>.\<close>

definition rx_bound :: matcher where
  "rx_bound st = (let before = (case fst st of None \<Rightarrow> False | Some c \<Rightarrow> py_isword c);
                      after = (case snd st of [] \<Rightarrow> False | c # _ \<Rightarrow> py_isword c)
                  in if before \<noteq> after then [st] else [])"

definition rx_lit :: "string \<Rightarrow> matcher" where
  "rx_lit w = rx_seqs (map (\<lambda>c. rx_set (\<lambda>d. d = c)) w)"

definition rx_lit_ci :: "string \<Rightarrow> matcher" where
  "rx_lit_ci w = rx_seqs (map (\<lambda>c. rx_set (\<lambda>d. lower_char d = lower_char c)) w)"

text \<open>\<open>pattern.sub\<close> with a constant replacement, counting the substitutions. The patterns
  below never match the empty string; a match that does not advance would be skipped.\<close>

function rx_sub :: "matcher \<Rightarrow> string \<Rightarrow> char option \<Rightarrow> string \<Rightarrow> string \<times> nat" where
  "rx_sub r repl p [] = ([], 0)"
| "rx_sub r repl p (c # cs) =
     (case r (p, c # cs) of
        (p', rest) # _ \<Rightarrow>
          if length rest \<le> length cs
          then (let (t, n) = rx_sub r repl p' rest in (repl @ t, Suc n))
          else (let (t, n) = rx_sub r repl (Some c) cs in (c # t, n))
      | [] \<Rightarrow> (let (t, n) = rx_sub r repl (Some c) cs in (c # t, n)))"
  by pat_completeness auto
termination
  by (relation "measure (\<lambda>(r, repl, p, s). length s)") auto

section \<open>The patterns\<close>

definition is_alpha_ascii :: "char \<Rightarrow> bool" where
  "is_alpha_ascii c = (let n = code c in (65 \<le> n \<and> n \<le> 90) \<or> (97 \<le> n \<and> n \<le> 122))"

definition is_digit_ascii :: "char \<Rightarrow> bool" where
  "is_digit_ascii c = (let n = code c in 48 \<le> n \<and> n \<le> 57)"

text \<open>The class of letters, digits and the characters of \<open>extra\<close>.\<close>

definition cls :: "string \<Rightarrow> char \<Rightarrow> bool" where
  "cls extra c = (is_alpha_ascii c \<or> is_digit_ascii c \<or> c \<in> set extra)"

definition is_quote :: "char \<Rightarrow> bool" where
  "is_quote c = (c = CHR 0x22 \<or> c = CHR 0x27)"

definition bearer_secret_re :: matcher where
  "bearer_secret_re = rx_seqs
     [rx_bound, rx_lit_ci ''Bearer'', rx_rep py_isspace 1, rx_rep (cls ''._~+/=-'') 8]"

text \<open>Two words joined by an optional dash or underscore, as in \<open>access[_-]?token\<close>.\<close>

definition rx_words :: "string list \<Rightarrow> matcher" where
  "rx_words ws = (case ws of [] \<Rightarrow> rx_seqs []
     | w # vs \<Rightarrow> rx_seqs (rx_lit_ci w #
         concat (map (\<lambda>v. [rx_opt (rx_set (\<lambda>c. c = CHR ''_'' \<or> c = CHR ''-'')), rx_lit_ci v]) vs)))"

definition secret_key_words :: "string list list" where
  "secret_key_words =
     [[''access'', ''token''], [''refresh'', ''token''], [''approval'', ''token''],
      [''api'', ''key''], [''apikey''], [''ak'', ''secret''], [''client'', ''secret''], [''authorization''],
      [''connection'', ''id''], [''connection'', ''ref''], [''connected'', ''account'', ''id''],
      [''external'', ''account'', ''ref''], [''image'', ''base64''], [''page'', ''id''],
      [''password''], [''provider'', ''payload''], [''secret''], [''token''], [''credential''],
      [''private'', ''key''], [''cookie''], [''vault'', ''key'', ''id'']]"

definition key_value_secret_re :: matcher where
  "key_value_secret_re = rx_seqs
     [rx_opt (rx_set is_quote), rx_alts (map rx_words secret_key_words), rx_opt (rx_set is_quote),
      rx_rep py_isspace 0, rx_set (\<lambda>c. c = CHR '':'' \<or> c = CHR ''=''), rx_rep py_isspace 0,
      rx_opt (rx_set is_quote),
      rx_rep (\<lambda>c. \<not> (is_quote c \<or> py_isspace c \<or> c \<in> set '',;}{'')) 6,
      rx_opt (rx_set is_quote)]"

definition bare_secret_re :: matcher where
  "bare_secret_re = rx_seqs
     [rx_bound,
      rx_alts
        [rx_seqs [rx_lit ''sk-'', rx_opt (rx_lit ''proj-''), rx_rep (cls ''_-'') 12],
         rx_seqs [rx_lit ''ghp_'', rx_rep (cls ''_'') 20],
         rx_seqs [rx_lit ''github_pat_'', rx_rep (cls ''_'') 20],
         rx_seqs [rx_lit ''xox'', rx_set (\<lambda>c. c \<in> set ''baprs''), rx_lit ''-'', rx_rep (cls ''-'') 10],
         rx_seqs [rx_lit ''ya29.'', rx_rep (cls ''_-'') 10],
         rx_seqs [rx_lit ''wcn_'', rx_rep (cls ''_-'') 8],
         rx_seqs [rx_lit ''eyJ'', rx_rep (cls ''_-'') 10, rx_lit ''.'', rx_rep (cls ''_-'') 10,
                  rx_lit ''.'', rx_rep (cls ''_-'') 10]],
      rx_bound]"

section \<open>Text redaction\<close>

definition redacted_secret :: string where
  "redacted_secret = ''<redacted-secret>''"

definition max_sanitized_depth :: nat where "max_sanitized_depth = 8"
definition max_sanitized_items :: nat where "max_sanitized_items = 64"
definition max_sanitized_string :: nat where "max_sanitized_string = 4000"

definition redact_secret_text :: "string \<Rightarrow> string \<times> nat" where
  "redact_secret_text value =
     (let (t1, n1) = rx_sub bearer_secret_re (''Bearer '' @ redacted_secret) None value;
          (t2, n2) = rx_sub key_value_secret_re redacted_secret None t1;
          (t3, n3) = rx_sub bare_secret_re redacted_secret None t2
      in (t3, n1 + n2 + n3))"

definition redact_runtime_secret_text :: "nat option \<Rightarrow> string \<Rightarrow> string" where
  "redact_runtime_secret_text max_length value =
     fst (redact_secret_text (case max_length of None \<Rightarrow> value | Some n \<Rightarrow> take n value))"

text \<open>The call without an explicit \<open>max_length\<close>.\<close>

abbreviation redact_default :: "string \<Rightarrow> string" where
  "redact_default \<equiv> redact_runtime_secret_text (Some max_sanitized_string)"

section \<open>Keys\<close>

definition payload_sensitive_markers :: "string list" where
  "payload_sensitive_markers =
     [''access_token'', ''ak_secret'', ''api_key'', ''apikey'', ''approval_token'', ''authorization'',
      ''bearer'', ''client_secret'', ''connection_id'', ''connection_ref'', ''cookie'', ''credential'',
      ''external_account_ref'', ''image_base64'', ''page_id'', ''password'', ''private_key'',
      ''provider_payload'', ''raw_provider'', ''refresh_token'', ''secret'', ''token'', ''vault_ref'']"

definition control_keys :: "string list" where
  "control_keys = [''__proto__'', ''constructor'', ''prototype'']"

definition json_string_keys :: "string list" where
  "json_string_keys = [''content'', ''result'', ''tool_result'', ''payload'']"

definition normalize_key :: "string \<Rightarrow> string" where
  "normalize_key k = py_replace_char (CHR ''.'') (CHR ''_'') (dash_to_underscore (py_lower (py_strip k)))"

definition looks_sensitive_key :: "string \<Rightarrow> bool" where
  "looks_sensitive_key key = contains_any payload_sensitive_markers key"

definition is_safe_presence_flag :: "string \<Rightarrow> pyval \<Rightarrow> bool" where
  "is_safe_presence_flag key v =
     ((case v of PBool _ \<Rightarrow> True | _ \<Rightarrow> False)
      \<and> (py_endswith ''_present'' key \<or> py_endswith ''_configured'' key \<or> py_endswith ''_enabled'' key))"

definition hash_runtime_identifier :: "(string \<Rightarrow> string) \<Rightarrow> pyval \<Rightarrow> string option" where
  "hash_runtime_identifier digest v =
     (let text = py_strip (str_or_empty v) in if text = [] then None else Some (''sha256:'' @ digest text))"

definition parse_json_string :: "(string \<Rightarrow> pyval option) \<Rightarrow> string \<Rightarrow> pyval option" where
  "parse_json_string loads s =
     (let text = py_strip s in
      case text of [] \<Rightarrow> None
      | c # _ \<Rightarrow> if c = CHR ''['' \<or> c = CHR ''{'' then loads text else None)"

text \<open>\<open>int(v)\<close>: \<open>None\<close> where Python raises \<open>TypeError\<close> or \<open>ValueError\<close>.\<close>

fun parse_digits :: "nat \<Rightarrow> bool \<Rightarrow> string \<Rightarrow> nat option" where
  "parse_digits acc ok [] = (if ok then Some acc else None)"
| "parse_digits acc ok (c # cs) =
     (if is_digit_ascii c then parse_digits (10 * acc + (code c - 48)) True cs
      else if c = CHR ''_'' \<and> ok then parse_digits acc False cs else None)"

definition parse_int :: "string \<Rightarrow> int option" where
  "parse_int s = (case py_strip s of [] \<Rightarrow> None
     | c # cs \<Rightarrow> if c = CHR ''-'' then map_option (\<lambda>n. - int n) (parse_digits 0 False cs)
                else if c = CHR ''+'' then map_option int (parse_digits 0 False cs)
                else map_option int (parse_digits 0 False (c # cs)))"

fun py_int :: "pyval \<Rightarrow> int option" where
  "py_int (PBool b) = Some (if b then 1 else 0)"
| "py_int (PInt n) = Some n"
| "py_int (PStr s) = parse_int s"
| "py_int _ = None"

section \<open>The payload sanitizer\<close>

text \<open>\<open>raw_item not in (None, "", [], {})\<close>.\<close>

definition nonempty_item :: "pyval \<Rightarrow> bool" where
  "nonempty_item v = (v \<notin> {PNone, PStr [], PList [], PDict []})"

definition finish_dict :: "pydict \<Rightarrow> nat \<Rightarrow> pyval" where
  "finish_dict cleaned n =
     (if n = 0 then PDict cleaned
      else PDict (dict_set ''redacted_secret_count''
        (PInt ((case dict_get cleaned ''redacted_secret_count'' of Some (PInt i) \<Rightarrow> i | _ \<Rightarrow> 0) + int n)) cleaned))"

text \<open>
  What the loop body does with one item: nothing, store a value, drop it and count \<open>m\<close>
  redactions, or sanitize a value one level down, store it and count \<open>m\<close> redactions.
\<close>

datatype item_plan = Skip | Put string pyval | Redacted nat | Descend string pyval nat

definition plan_item :: "(string \<Rightarrow> pyval option) \<Rightarrow> (string \<Rightarrow> string) \<Rightarrow> string \<Rightarrow> pyval \<Rightarrow> item_plan" where
  "plan_item loads digest key item =
     (let nk = normalize_key key in
      if nk = [] \<or> nk \<in> set control_keys then Skip
      else if nk = ''user_id'' then
        (case hash_runtime_identifier digest item of
           Some h \<Rightarrow> Put ''user_id_hash'' (PStr h) | None \<Rightarrow> Skip)
      else if nk = ''redacted_secret_count'' then
        (case py_int item of Some i \<Rightarrow> Put ''redacted_secret_count'' (PInt i) | None \<Rightarrow> Skip)
      else if looks_sensitive_key nk then
        (if is_safe_presence_flag nk item then Put key item
         else Redacted (if nonempty_item item then 1 else 0))
      else
        (case item of
           PStr s \<Rightarrow>
             (case (if nk \<in> set json_string_keys then parse_json_string loads s else None) of
                Some parsed \<Rightarrow> Descend key parsed 0
              | None \<Rightarrow> Descend key item (snd (redact_secret_text (take max_sanitized_string s))))
         | _ \<Rightarrow> Descend key item 0))"

text \<open>
  \<open>sanitize_payload\<close> is \<open>sanitize_runtime_payload\<close>; \<open>sanitize_items\<close> is its loop over the
  first 64 items of a dictionary with the accumulators \<open>cleaned\<close> and \<open>redacted_count\<close>, and
  \<open>sanitize_list\<close> the list comprehension. The only value the loop itself stores under
  \<open>redacted_secret_count\<close> is an integer, which \<open>finish_dict\<close> reads back.
\<close>

function (sequential) sanitize_payload ::
    "(string \<Rightarrow> pyval option) \<Rightarrow> (string \<Rightarrow> string) \<Rightarrow> nat \<Rightarrow> pyval \<Rightarrow> pyval"
  and sanitize_items ::
    "(string \<Rightarrow> pyval option) \<Rightarrow> (string \<Rightarrow> string) \<Rightarrow> nat \<Rightarrow> pydict \<Rightarrow> pydict \<Rightarrow> nat \<Rightarrow> pydict \<times> nat"
  and sanitize_list ::
    "(string \<Rightarrow> pyval option) \<Rightarrow> (string \<Rightarrow> string) \<Rightarrow> nat \<Rightarrow> pyval list \<Rightarrow> pyval list" where
  "sanitize_payload loads digest depth v =
     (if depth > max_sanitized_depth then PStr ''<truncated>''
      else case v of
        PDict d \<Rightarrow>
          (let (cleaned, n) = sanitize_items loads digest depth (take max_sanitized_items d) [] 0
           in finish_dict cleaned n)
      | PList xs \<Rightarrow> PList (sanitize_list loads digest depth (take max_sanitized_items xs))
      | PStr s \<Rightarrow> PStr (redact_default s)
      | PTuple xs \<Rightarrow> PStr (take max_sanitized_string (py_str (PTuple xs)))
      | _ \<Rightarrow> v)"
| "sanitize_items loads digest depth [] cleaned n = (cleaned, n)"
| "sanitize_items loads digest depth ((key, item) # rest) cleaned n =
     (if depth > max_sanitized_depth then (cleaned, n)
      else case plan_item loads digest key item of
        Skip \<Rightarrow> sanitize_items loads digest depth rest cleaned n
      | Put k v \<Rightarrow> sanitize_items loads digest depth rest (dict_set k v cleaned) n
      | Redacted m \<Rightarrow> sanitize_items loads digest depth rest cleaned (n + m)
      | Descend k v m \<Rightarrow> sanitize_items loads digest depth rest
          (dict_set k (sanitize_payload loads digest (depth + 1) v) cleaned) (n + m))"
| "sanitize_list loads digest depth [] = []"
| "sanitize_list loads digest depth (x # xs) =
     (if depth > max_sanitized_depth then []
      else sanitize_payload loads digest (depth + 1) x # sanitize_list loads digest depth xs)"
  by pat_completeness auto
termination
  by (relation "measures [
        (\<lambda>x. case x of Inl (l, g, d, v) \<Rightarrow> 2 * (9 - d) | Inr (Inl (l, g, d, ys, c, n)) \<Rightarrow> 2 * (9 - d) - 1
               | Inr (Inr (l, g, d, xs)) \<Rightarrow> 2 * (9 - d) - 1),
        (\<lambda>x. case x of Inl (l, g, d, v) \<Rightarrow> 0 | Inr (Inl (l, g, d, ys, c, n)) \<Rightarrow> length ys
               | Inr (Inr (l, g, d, xs)) \<Rightarrow> length xs)]")
    (auto simp: max_sanitized_depth_def)

declare sanitize_payload.simps [simp del] sanitize_items.simps [simp del] sanitize_list.simps [simp del]

section \<open>What the sanitizer promises\<close>

text \<open>A dictionary entry a durable log may hold: no control key, no raw \<open>user_id\<close>, and nothing
  under a sensitive key but a boolean presence flag (or the sanitizer's own counter).\<close>

definition log_safe_entry :: "string \<Rightarrow> pyval \<Rightarrow> bool" where
  "log_safe_entry k v = (let nk = normalize_key k in
     nk \<noteq> [] \<and> nk \<notin> set control_keys \<and> nk \<noteq> ''user_id''
     \<and> (looks_sensitive_key nk \<longrightarrow>
          is_safe_presence_flag nk v \<or> (k = ''redacted_secret_count'' \<and> (\<exists>i. v = PInt i))))"

fun log_safe :: "pyval \<Rightarrow> bool" where
  "log_safe (PDict d) = (\<forall>(k, v) \<in> set d. log_safe_entry k v \<and> log_safe v)"
| "log_safe (PList xs) = (\<forall>x \<in> set xs. log_safe x)"
| "log_safe _ = True"

text \<open>The nesting depth of a value and a bound on its fan-out.\<close>

fun vdepth :: "pyval \<Rightarrow> nat" where
  "vdepth (PDict d) = Suc (Max (insert 0 (set (map (\<lambda>(k, v). vdepth v) d))))"
| "vdepth (PList xs) = Suc (Max (insert 0 (set (map vdepth xs))))"
| "vdepth _ = 0"

fun fan_out_le :: "nat \<Rightarrow> pyval \<Rightarrow> bool" where
  "fan_out_le m (PDict d) = (length d \<le> m \<and> (\<forall>(k, v) \<in> set d. fan_out_le m v))"
| "fan_out_le m (PList xs) = (length xs \<le> m \<and> (\<forall>x \<in> set xs. fan_out_le m x))"
| "fan_out_le m _ = True"

lemma normalize_user_id_hash [simp]: "normalize_key ''user_id_hash'' = ''user_id_hash''"
  and normalize_redacted_count [simp]:
    "normalize_key ''redacted_secret_count'' = ''redacted_secret_count''"
  by code_simp+

lemma log_safe_entry_own [simp]:
  "log_safe_entry ''user_id_hash'' v" "log_safe_entry ''redacted_secret_count'' (PInt i)"
proof -
  have "\<not> looks_sensitive_key ''user_id_hash''" "''user_id_hash'' \<notin> set control_keys"
    "''redacted_secret_count'' \<notin> set control_keys"
    by code_simp+
  then show "log_safe_entry ''user_id_hash'' v" "log_safe_entry ''redacted_secret_count'' (PInt i)"
    by (simp_all add: log_safe_entry_def)
qed

lemma log_safe_dict_set:
  "log_safe (PDict d) \<Longrightarrow> log_safe_entry k v \<Longrightarrow> log_safe v \<Longrightarrow> log_safe (PDict (dict_set k v d))"
  using set_dict_set [of k v d] by fastforce

lemma log_safe_finish: "log_safe (PDict d) \<Longrightarrow> log_safe (finish_dict d n)"
  by (simp add: finish_dict_def log_safe_dict_set del: log_safe.simps(1))

lemma presence_flag_bool: "is_safe_presence_flag k v \<Longrightarrow> \<exists>b. v = PBool b"
  by (auto simp: is_safe_presence_flag_def split: pyval.splits)

lemma length_dict_set_le: "length (dict_set k v d) \<le> Suc (length d)"
proof (induction d)
  case (Cons p d)
  then show ?case by (cases p) (auto simp: dict_set_def)
qed (simp add: dict_set_def)

lemma log_safe_empty: "log_safe (PDict [])"
  by simp

lemma log_safe_entry_flag:
  "normalize_key k \<noteq> [] \<Longrightarrow> normalize_key k \<notin> set control_keys \<Longrightarrow> normalize_key k \<noteq> ''user_id'' \<Longrightarrow>
   is_safe_presence_flag (normalize_key k) v \<Longrightarrow> log_safe_entry k v"
  by (simp add: log_safe_entry_def)

lemma plan_item_Put_safe:
  "plan_item loads digest key item = Put k v \<Longrightarrow>
   log_safe_entry k v \<and> log_safe v \<and> fan_out_le m v \<and> vdepth v = 0"
  by (auto simp: plan_item_def Let_def split: if_splits option.splits pyval.splits
      dest: presence_flag_bool intro: log_safe_entry_flag)
    (metis log_safe_entry_own(2))

lemma plan_item_Descend_safe:
  "plan_item loads digest key item = Descend k v m \<Longrightarrow> log_safe_entry k w"
  by (auto simp: plan_item_def Let_def log_safe_entry_def split: if_splits option.splits pyval.splits)

lemma sanitize_log_safe_all:
  "log_safe (sanitize_payload loads digest depth v)"
  "log_safe (PDict cleaned) \<Longrightarrow> log_safe (PDict (fst (sanitize_items loads digest depth ys cleaned n)))"
  "log_safe (PList (sanitize_list loads digest depth xs))"
proof (induction loads digest depth v and loads digest depth ys cleaned n and loads digest depth xs
    rule: sanitize_payload_sanitize_items_sanitize_list.induct)
  case (1 loads digest depth v)
  then show ?case
    by (subst sanitize_payload.simps) (auto simp add: log_safe_empty split: prod.splits pyval.splits
        intro!: log_safe_finish simp del: log_safe.simps(1,2)) 
next
  case (3 loads digest depth key item rest cleaned n)
  show ?case
  proof (cases "depth > max_sanitized_depth")
    case False
    then show ?thesis
      using 3 by (cases "plan_item loads digest key item")
        (auto simp: sanitize_items.simps(2) simp del: log_safe.simps(1,2)
          dest: plan_item_Put_safe plan_item_Descend_safe intro!: log_safe_dict_set)
  qed (use 3 in \<open>simp add: sanitize_items.simps\<close>)
next
  case (5 loads digest depth x xs)
  then show ?case by (simp add: sanitize_list.simps)
qed (simp_all add: sanitize_items.simps sanitize_list.simps)

definition entries_within :: "nat \<Rightarrow> nat \<Rightarrow> pydict \<Rightarrow> bool" where
  "entries_within m k d = (\<forall>(x, v) \<in> set d. fan_out_le m v \<and> vdepth v \<le> k)"

lemma entries_within_set:
  "entries_within m k d \<Longrightarrow> fan_out_le m v \<Longrightarrow> vdepth v \<le> k \<Longrightarrow> entries_within m k (dict_set x v d)"
  using set_dict_set [of x v d] by (fastforce simp: entries_within_def)

lemma entries_within_dict:
  "entries_within m k d \<Longrightarrow> length d \<le> m \<Longrightarrow> fan_out_le m (PDict d) \<and> vdepth (PDict d) \<le> Suc k"
  by (force simp: entries_within_def)

lemma entries_within_finish:
  assumes "entries_within 65 k d" "length d \<le> 64"
  shows "fan_out_le 65 (finish_dict d n) \<and> vdepth (finish_dict d n) \<le> Suc k"
proof -
  have "length (dict_set ''redacted_secret_count'' v d) \<le> 65" for v
    using length_dict_set_le [of "''redacted_secret_count''" v d] assms(2) by simp
  with assms show ?thesis
    unfolding finish_dict_def
    by (auto simp del: vdepth.simps(1) fan_out_le.simps(1) intro!: entries_within_dict entries_within_set)
qed

lemma sanitize_bounded_all:
  "fan_out_le 65 (sanitize_payload loads digest depth v)
     \<and> vdepth (sanitize_payload loads digest depth v) \<le> 9 - depth"
  "entries_within 65 (8 - depth) cleaned \<Longrightarrow>
     entries_within 65 (8 - depth) (fst (sanitize_items loads digest depth ys cleaned n))
     \<and> length (fst (sanitize_items loads digest depth ys cleaned n)) \<le> length cleaned + length ys"
  "length (sanitize_list loads digest depth xs) \<le> length xs \<and>
   (\<forall>x \<in> set (sanitize_list loads digest depth xs). fan_out_le 65 x \<and> vdepth x \<le> 8 - depth)"
proof (induction loads digest depth v and loads digest depth ys cleaned n and loads digest depth xs
    rule: sanitize_payload_sanitize_items_sanitize_list.induct)
  case (1 loads digest depth v)
  show ?case
  proof (cases "depth > max_sanitized_depth")
    case False
    then have d: "9 - depth = Suc (8 - depth)" by (simp add: max_sanitized_depth_def)
    show ?thesis
    proof (cases v)
      case (PList xs)
      with 1(1)[OF False PList] False show ?thesis
        unfolding d by (auto simp: sanitize_payload.simps max_sanitized_items_def)
    next
      case (PDict items)
      obtain c m where cm: "sanitize_items loads digest depth (take 64 items) [] 0 = (c, m)"
        by fastforce
      have "entries_within 65 (8 - depth) c \<and> length c \<le> 64"
        using 1(2)[OF False PDict] cm by (simp add: max_sanitized_items_def entries_within_def)
      with cm PDict False show ?thesis
        unfolding d using entries_within_finish [of "8 - depth" c m]
        by (simp add: sanitize_payload.simps max_sanitized_items_def)
    qed (use False in \<open>simp_all add: sanitize_payload.simps\<close>)
  qed (simp add: sanitize_payload.simps)
next
  case (3 loads digest depth key item rest cleaned n)
  show ?case
  proof (cases "depth > max_sanitized_depth")
    case False
    show ?thesis
    proof (cases "plan_item loads digest key item")
      case Skip
      show ?thesis using False 3 Skip by (auto simp: sanitize_items.simps(2))
    next
      case (Put k v)
      have "entries_within 65 (8 - depth) (dict_set k v cleaned)"
        using 3(6) plan_item_Put_safe [OF Put, of 65] by (simp add: entries_within_set)
      then show ?thesis using False 3 Put length_dict_set_le [of k v cleaned]
        by (fastforce simp: sanitize_items.simps(2))
    next
      case (Redacted m)
      show ?thesis using False 3 Redacted by (auto simp: sanitize_items.simps(2))
    next
      case (Descend k v m)
      have "entries_within 65 (8 - depth)
          (dict_set k (sanitize_payload loads digest (depth + 1) v) cleaned)"
        using 3 False Descend by (fastforce intro: entries_within_set)
      then show ?thesis
        using False 3 Descend length_dict_set_le [of k "sanitize_payload loads digest (depth + 1) v" cleaned]
        by (fastforce simp: sanitize_items.simps(2))
    qed
  next
    case True
    show ?thesis using 3 True by (simp add: sanitize_items.simps)
  qed
next
  case (5 loads digest depth x xs)
  then show ?case by (auto simp add: sanitize_list.simps)
qed (simp_all add: sanitize_items.simps sanitize_list.simps)

section \<open>What text redaction promises\<close>

lemma rx_sub_zero: "snd (rx_sub r repl p s) = 0 \<Longrightarrow> fst (rx_sub r repl p s) = s"
proof (induction r repl p s rule: rx_sub.induct)
  case (2 r repl p c cs)
  then show ?case
    by (auto split: list.splits prod.splits if_splits)
qed simp

lemma rx_sub_pos: "snd (rx_sub r repl p s) > 0 \<Longrightarrow> sublist repl (fst (rx_sub r repl p s))"
proof (induction r repl p s rule: rx_sub.induct)
  case (2 r repl p c cs)
  then show ?case
    by (auto split: list.splits prod.splits if_splits simp: sublist_Cons_right)
qed simp

lemma rx_sub_no_match:
  "(\<And>p s. r (p, s) = []) \<Longrightarrow> rx_sub r repl p s = (s, 0)"
  by (induction r repl p s rule: rx_sub.induct) auto

text \<open>A run of the substitution keeps everything between two matches.\<close>

lemma redact_secret_text_Nil [simp]: "redact_secret_text [] = ([], 0)"
  by (simp add: redact_secret_text_def)

lemma redact_secret_text_zero:
  "snd (redact_secret_text s) = 0 \<Longrightarrow> fst (redact_secret_text s) = s"
  by (auto simp: redact_secret_text_def split: prod.splits)
    (metis fst_conv rx_sub_zero snd_conv)

section \<open>Properties\<close>

text \<open>Property C34: whatever goes in, no dictionary at any depth of a sanitized payload holds a control
  key, a raw \<open>user_id\<close>, or a value other than a boolean presence flag under a sensitive key.\<close>

theorem sanitize_payload_log_safe:
  "log_safe (sanitize_payload loads digest depth v)"
  by (rule sanitize_log_safe_all(1))

text \<open>A sanitized payload is bounded whatever the size of the input: at most 65 entries in a
  dictionary (64 and the redaction counter), at most 64 items in a list, and at most nine levels
  of nesting.\<close>

theorem sanitize_payload_bounded:
  "fan_out_le 65 (sanitize_payload loads digest 0 v) \<and> vdepth (sanitize_payload loads digest 0 v) \<le> 9"
  using sanitize_bounded_all(1)[of loads digest 0 v] by simp

text \<open>Redaction leaves text exactly as it was unless it reports a redaction, so the counters
  of the payload sanitizer account for every change.\<close>

theorem redact_secret_text_accounts:
  "snd (redact_secret_text s) = 0 \<Longrightarrow> length s \<le> 4000 \<Longrightarrow> redact_default s = s"
  by (simp add: redact_runtime_secret_text_def redact_secret_text_zero max_sanitized_string_def)

theorem redact_secret_text_accounts_witness:
  "snd (redact_secret_text ''#'') = 0 \<and> redact_default ''#'' = ''#''"
proof -
  have zero: "snd (redact_secret_text ''#'') = 0" by code_simp
  have "redact_default ''#'' = ''#''"
    by (rule redact_secret_text_accounts [OF zero]) simp
  with zero show ?thesis ..
qed

text \<open>A tuple is not sanitized item by item: it is rendered with \<open>str\<close> and never redacted, so
  a secret that is redacted inside a list survives inside a tuple.\<close>

theorem sanitize_tuple_not_redacted:
  "sanitize_payload loads digest 0 (PTuple [PStr s]) = PStr (take 4000 (''('' @ repr_str s @ '',)''))
   \<and> sanitize_payload loads digest 0 (PList [PStr s]) = PList [PStr (redact_default s)]"
  by (simp add: sanitize_payload.simps sanitize_list.simps max_sanitized_depth_def
      max_sanitized_items_def max_sanitized_string_def)

end
