(* ===== verification/Argument_Keys.thy ===== *)
theory Argument_Keys
  imports Py_Prelude
begin

text \<open>
  \<open>app/engine/wiii_connect/argument_key_policy.py\<close>: which argument keys of a provider action a
  model may see and author, and how the others are spelled in public metadata. Keys arrive as
  strings; the values they carry are left abstract (a type variable).
\<close>

section \<open>Normal forms\<close>

definition redacted_sensitive_argument_key :: string where
  "redacted_sensitive_argument_key = ''redacted_sensitive_field''"

definition backend_owned_argument_key :: string where
  "backend_owned_argument_key = ''backend_owned_field''"

definition sensitive_key_markers :: "string list" where
  "sensitive_key_markers =
     [''token'', ''secret'', ''password'', ''credential'', ''key'', ''code'', ''authorization'']"

definition backend_owned_argument_keys :: "string list" where
  "backend_owned_argument_keys =
     [''account_id'', ''account_ref'', ''approval_token'', ''connected_account_id'', ''connection_id'',
      ''connection_ref'', ''cursor'', ''external_account_ref'', ''file'', ''files'', ''image'',
      ''image_base64'', ''image_filename'', ''image_media_type'', ''image_url'', ''media'',
      ''page_access_token'', ''page_id'', ''page_ids'', ''photo'', ''preview_evidence_id'',
      ''provider_payload'', ''published'', ''raw_prompt'', ''scheduled_publish_time'', ''upload'',
      ''user_id'', ''vault_key_id'']"

definition model_argument_keys_by_action :: "((string \<times> string) \<times> string list) list" where
  "model_argument_keys_by_action =
     [((''gmail'', ''GMAIL_FETCH_EMAILS''), [''query'', ''max_results'']),
      ((''facebook'', ''FACEBOOK_LIST_MANAGED_PAGES''), [''fields'', ''limit'']),
      ((''facebook'', ''FACEBOOK_CREATE_POST''), [''message'', ''link'']),
      ((''facebook'', ''FACEBOOK_CREATE_PHOTO_POST''), [''message''])]"

definition normalize_argument_key :: "string \<Rightarrow> string" where
  "normalize_argument_key value = take 120 (dash_to_underscore (py_lower (py_strip value)))"

text \<open>\<open>_provider_slug\<close> and \<open>_action_slug\<close>, repeated verbatim in several modules of the package.\<close>

definition provider_slug80 :: "string \<Rightarrow> string" where
  "provider_slug80 value = take 80 (dash_to_underscore (py_lower (py_strip value)))"

definition action_slug120 :: "string \<Rightarrow> string" where
  "action_slug120 value = take 120 (dash_to_underscore (py_upper (py_strip value)))"

section \<open>Classification\<close>

definition is_sensitive_argument_key :: "string \<Rightarrow> bool" where
  "is_sensitive_argument_key value = contains_any sensitive_key_markers (normalize_argument_key value)"

definition is_backend_owned_argument_key :: "string \<Rightarrow> bool" where
  "is_backend_owned_argument_key value =
     (normalize_argument_key value \<in> set backend_owned_argument_keys)"

definition safe_public_argument_key :: "string \<Rightarrow> string" where
  "safe_public_argument_key value =
     (let key = normalize_argument_key value in
      if key = [] then ''empty''
      else if is_sensitive_argument_key key then redacted_sensitive_argument_key
      else if is_backend_owned_argument_key key then backend_owned_argument_key
      else take 80 key)"

definition dedupe :: "string list \<Rightarrow> string list" where
  "dedupe values = take 50 (append_new [] (filter (\<lambda>item. item \<noteq> []) (map py_strip values)))"

definition safe_public_argument_keys :: "string list \<Rightarrow> string list" where
  "safe_public_argument_keys values = dedupe (map safe_public_argument_key values)"

section \<open>What a model may author\<close>

definition model_allowlist :: "string \<Rightarrow> string \<Rightarrow> string list option" where
  "model_allowlist provider_slug action_slug =
     map_of model_argument_keys_by_action (provider_slug80 provider_slug, action_slug120 action_slug)"

definition model_visible_argument_keys :: "string \<Rightarrow> string \<Rightarrow> string list \<Rightarrow> string list" where
  "model_visible_argument_keys provider_slug action_slug argument_keys =
     (let keys = map normalize_argument_key argument_keys in
      case model_allowlist provider_slug action_slug of
        Some allowlist \<Rightarrow> dedupe (filter (\<lambda>key. key \<in> set allowlist) keys)
      | None \<Rightarrow> dedupe (map safe_public_argument_key
                 (filter (\<lambda>key. key \<noteq> [] \<and> \<not> is_backend_owned_argument_key key) keys)))"

fun keep_allowed :: "string list \<Rightarrow> (string \<times> 'v) list \<Rightarrow> (string \<times> 'v) list \<Rightarrow> (string \<times> 'v) list" where
  "keep_allowed allowed [] result = result"
| "keep_allowed allowed ((key, value) # rest) result =
     (let normalized = normalize_argument_key key in
      keep_allowed allowed rest
        (if normalized \<noteq> [] \<and> normalized \<in> set allowed
         then dict_set normalized value result else result))"

definition model_visible_arguments ::
    "string \<Rightarrow> string \<Rightarrow> (string \<times> 'v) list option \<Rightarrow> (string \<times> 'v) list" where
  "model_visible_arguments provider_slug action_slug arguments =
     (case arguments of
        None \<Rightarrow> []
      | Some args \<Rightarrow>
          keep_allowed (model_visible_argument_keys provider_slug action_slug (dict_keys args)) args [])"

definition hidden_model_argument_key_count :: "string \<Rightarrow> string \<Rightarrow> string list \<Rightarrow> nat" where
  "hidden_model_argument_key_count provider_slug action_slug argument_keys =
     (let keys = filter (\<lambda>key. key \<noteq> []) (map normalize_argument_key argument_keys) in
      case model_allowlist provider_slug action_slug of
        Some allowlist \<Rightarrow> length (filter (\<lambda>key. key \<notin> set allowlist) keys)
      | None \<Rightarrow> length (filter (\<lambda>key. is_backend_owned_argument_key key
                                          \<or> is_sensitive_argument_key key) keys))"

section \<open>Lemmas\<close>

lemma normalize_argument_key_length: "length (normalize_argument_key v) \<le> 120"
  by (simp add: normalize_argument_key_def)

text \<open>Normalisation is idempotent only up to the white space a cut at 120 characters may expose;
  it is idempotent on keys that need no cut.\<close>

lemma normalize_argument_key_idem:
  assumes "length (py_strip v) \<le> 120"
  shows "normalize_argument_key (normalize_argument_key v) = normalize_argument_key v"
  using assms by (simp add: normalize_argument_key_def py_strip_dash py_strip_lower lower_dash_commute)

lemma set_dedupe: "x \<in> set (dedupe xs) \<Longrightarrow> x \<noteq> [] \<and> x \<in> py_strip ` set xs"
  by (auto simp: dedupe_def dest: in_set_takeD)

lemma distinct_dedupe: "distinct (dedupe xs)"
  by (simp add: dedupe_def distinct_append_new)

lemma length_dedupe: "length (dedupe xs) \<le> 50"
  by (simp add: dedupe_def)

lemma keep_allowed_entries:
  "(k, v) \<in> set (keep_allowed allowed args result) \<Longrightarrow>
   (k, v) \<in> set result \<or>
   (k \<noteq> [] \<and> k \<in> set allowed \<and> (\<exists>raw. (raw, v) \<in> set args \<and> normalize_argument_key raw = k))"
proof (induction allowed args result rule: keep_allowed.induct)
  case (2 allowed key v' rest result)
  then show ?case
    using set_dict_set [of "normalize_argument_key key" v' result]
    by (fastforce simp: Let_def split: if_splits)
qed simp

lemma keep_allowed_distinct:
  "distinct (dict_keys result) \<Longrightarrow> distinct (dict_keys (keep_allowed allowed args result))"
  by (induction allowed args result rule: keep_allowed.induct)
    (auto simp: Let_def distinct_dict_keys_set)

text \<open>The curated table lists only keys that are neither sensitive nor backend-owned.\<close>

lemma model_table_clean:
  assumes "model_allowlist p a = Some ks" "k \<in> set ks"
  shows "\<not> is_sensitive_argument_key k \<and> \<not> is_backend_owned_argument_key k \<and> py_strip k = k"
proof -
  have "list_all (\<lambda>(pa, ks). list_all (\<lambda>k. \<not> is_sensitive_argument_key k
      \<and> \<not> is_backend_owned_argument_key k \<and> py_strip k = k) ks) model_argument_keys_by_action"
    by code_simp
  moreover have "((provider_slug80 p, action_slug120 a), ks) \<in> set model_argument_keys_by_action"
    using assms(1) by (simp add: model_allowlist_def map_of_SomeD)
  ultimately show ?thesis
    using assms(2) by (fastforce simp: list_all_iff)
qed

lemma canonical_normalize: "canonical (normalize_argument_key v)"
  unfolding normalize_argument_key_def
  by (rule canonical_sublist [OF canonical_lower_dash]) (rule sublist_take)

lemma canonical_strip: "canonical s \<Longrightarrow> canonical (py_strip s)"
  by (erule canonical_sublist) (rule sublist_py_strip)

lemma normalize_canonical:
  "canonical s \<Longrightarrow> normalize_argument_key s = take 120 (py_strip s)"
  using canonical_strip [of s] by (simp add: normalize_argument_key_def canonical_def)

lemma word_sensitive: "word_markers sensitive_key_markers"
  by code_simp

lemma is_sensitive_canonical:
  assumes "canonical s" "length s \<le> 120"
  shows "is_sensitive_argument_key s = contains_any sensitive_key_markers s"
proof -
  have "take 120 (py_strip s) = py_strip s"
    using length_py_strip_le [of s] assms(2) by simp
  then show ?thesis
    by (simp add: is_sensitive_argument_key_def normalize_canonical [OF assms(1)]
        contains_any_strip [OF word_sensitive])
qed

lemma is_sensitive_sublist:
  assumes "canonical s" "length s \<le> 120" "sublist t s" "\<not> is_sensitive_argument_key s"
  shows "\<not> is_sensitive_argument_key t"
  using assms canonical_sublist [OF assms(1,3)] sublist_length_le [OF assms(3)]
  by (auto simp: is_sensitive_canonical dest: contains_any_mono)

lemma safe_public_argument_key_not_sensitive:
  "\<not> is_sensitive_argument_key (safe_public_argument_key v)"
  "\<not> is_sensitive_argument_key (py_strip (safe_public_argument_key v))"
proof -
  have fixed: "\<not> is_sensitive_argument_key ''empty''"
    "\<not> is_sensitive_argument_key redacted_sensitive_argument_key"
    "\<not> is_sensitive_argument_key backend_owned_argument_key"
    by code_simp+
  let ?key = "normalize_argument_key v"
  have "\<not> is_sensitive_argument_key (take 80 ?key)" if "\<not> is_sensitive_argument_key ?key"
    by (rule is_sensitive_sublist [OF canonical_normalize normalize_argument_key_length sublist_take that])
  with fixed have main: "\<not> is_sensitive_argument_key (safe_public_argument_key v)"
    by (simp add: safe_public_argument_key_def Let_def)
  then show "\<not> is_sensitive_argument_key (safe_public_argument_key v)" .
  from main show "\<not> is_sensitive_argument_key (py_strip (safe_public_argument_key v))"
    by (simp add: is_sensitive_argument_key_def normalize_argument_key_def)
qed


lemma model_visible_keys_not_sensitive:
  assumes "k \<in> set (model_visible_argument_keys p a keys)"
  shows "\<not> is_sensitive_argument_key k"
proof (cases "model_allowlist p a")
  case None
  with assms obtain v where "k = py_strip (safe_public_argument_key v)"
    by (auto simp: model_visible_argument_keys_def dest!: set_dedupe)
  then show ?thesis by (simp add: safe_public_argument_key_not_sensitive)
next
  case (Some ks)
  with assms obtain k' where "k' \<in> set ks" "k = py_strip k'"
    by (auto simp: model_visible_argument_keys_def dest!: set_dedupe)
  with Some show ?thesis using model_table_clean by fastforce
qed

section \<open>Properties\<close>

text \<open>For an action of the curated table, every argument that crosses the model boundary
  has a key of that action's list, a key that is neither sensitive nor backend-owned, and the
  value the caller gave under a spelling of that key; no key occurs twice.\<close>

theorem model_visible_arguments_curated:
  assumes "model_allowlist p a = Some ks"
  shows "distinct (dict_keys (model_visible_arguments p a (Some args)))
    \<and> (\<forall>(k, v) \<in> set (model_visible_arguments p a (Some args)).
        k \<in> set ks \<and> \<not> is_sensitive_argument_key k \<and> \<not> is_backend_owned_argument_key k
        \<and> (\<exists>raw. (raw, v) \<in> set args \<and> normalize_argument_key raw = k))"
proof -
  have "k \<in> set ks \<and> \<not> is_sensitive_argument_key k \<and> \<not> is_backend_owned_argument_key k
      \<and> (\<exists>raw. (raw, v) \<in> set args \<and> normalize_argument_key raw = k)"
    if "(k, v) \<in> set (model_visible_arguments p a (Some args))" for k v
  proof -
    from that have *: "k \<in> set (model_visible_argument_keys p a (dict_keys args))"
      "\<exists>raw. (raw, v) \<in> set args \<and> normalize_argument_key raw = k"
      by (auto simp: model_visible_arguments_def dest!: keep_allowed_entries)
    then obtain k' where "k' \<in> set ks" "k = py_strip k'"
      using assms by (auto simp: model_visible_argument_keys_def dest!: set_dedupe)
    with model_table_clean [OF assms] * show ?thesis by simp
  qed
  moreover have "distinct (dict_keys (model_visible_arguments p a (Some args)))"
    unfolding model_visible_arguments_def by (simp add: keep_allowed_distinct dict_keys_empty)
  ultimately show ?thesis by blast
qed

theorem model_visible_arguments_curated_witness:
  "model_visible_arguments '' Gmail '' ''gmail-fetch-emails''
      (Some [(''Query'', 1 :: int), (''page-id'', 2), (''max-results'', 3)])
     = [(''query'', 1), (''max_results'', 3)]
   \<and> \<not> is_backend_owned_argument_key ''query''"
proof -
  let ?args = "[(''Query'', 1 :: int), (''page-id'', 2), (''max-results'', 3)]"
  have eq: "model_visible_arguments '' Gmail '' ''gmail-fetch-emails'' (Some ?args)
      = [(''query'', 1), (''max_results'', 3)]" by code_simp
  have "model_allowlist '' Gmail '' ''gmail-fetch-emails'' = Some [''query'', ''max_results'']" by code_simp
  from model_visible_arguments_curated [OF this, of ?args] eq show ?thesis by auto
qed

text \<open>For any action, curated or not, no argument with a sensitive key (token, secret, password,
  credential, key, code, authorization) crosses the model boundary.\<close>

theorem model_visible_arguments_never_sensitive:
  "(k, v) \<in> set (model_visible_arguments p a args) \<Longrightarrow> \<not> is_sensitive_argument_key k"
  by (auto simp: model_visible_arguments_def split: option.splits
      dest!: keep_allowed_entries model_visible_keys_not_sensitive)

theorem model_visible_arguments_never_sensitive_witness:
  "(''text'', True) \<in> set (model_visible_arguments ''slack'' ''SLACK_POST''
      (Some [(''Access-Token'', False), (''text'', True)]))
   \<and> \<not> is_sensitive_argument_key ''text''"
proof -
  have "(''text'', True) \<in> set (model_visible_arguments ''slack'' ''SLACK_POST''
      (Some [(''Access-Token'', False), (''text'', True)]))" by code_simp
  with model_visible_arguments_never_sensitive [OF this] show ?thesis by blast
qed

text \<open>The spelling of a key in public metadata is never a sensitive key itself, and the list of
  public keys is duplicate-free and at most 50 long.\<close>

theorem safe_public_argument_keys_safe:
  "length (safe_public_argument_keys keys) \<le> 50 \<and> distinct (safe_public_argument_keys keys)
   \<and> filter is_sensitive_argument_key (safe_public_argument_keys keys) = []"
  using safe_public_argument_key_not_sensitive(2)
  by (auto simp: safe_public_argument_keys_def length_dedupe distinct_dedupe filter_empty_conv
      dest!: set_dedupe)

text \<open>For an action outside the curated table the backend-owned filter can be bypassed: a key that
  is cut at 80 characters and then stripped becomes \<open>page_id\<close> in the list of visible keys, so the
  caller's own \<open>page_id\<close> argument crosses the boundary; without that decoy key it does not.\<close>

theorem model_visible_arguments_backend_bypass:
  "is_backend_owned_argument_key ''page_id''
   \<and> model_visible_arguments ''slack'' ''SLACK_POST''
       (Some [(''page_id'' @ replicate 73 CHR '' '' @ ''x'', False), (''page_id'', True)])
     = [(''page_id'', True)]
   \<and> model_visible_arguments ''slack'' ''SLACK_POST'' (Some [(''page_id'', True)]) = []"
  by code_simp

end
