(* ===== verification/Connection_Lifecycle.thy ===== *)
theory Connection_Lifecycle
  imports Py_Prelude
begin

text \<open>
  \<open>app/engine/wiii_connect/connection_lifecycle.py\<close>: the projection of a provider connection into
  one of six flow states with a reason and a next step, and the sanitizer for lifecycle metadata
  that comes back from elsewhere. The duck-typed \<open>connection\<close> argument is the triple of the three
  attributes the code reads (\<open>state\<close>, \<open>active\<close>, \<open>reason\<close>).
\<close>

datatype flow_status =
  FlowDisconnected | FlowAuthorizing | FlowWaiting | FlowConnected | FlowExpired | FlowError

fun flow_status_name :: "flow_status \<Rightarrow> string" where
  "flow_status_name FlowDisconnected = ''disconnected''"
| "flow_status_name FlowAuthorizing = ''authorizing''"
| "flow_status_name FlowWaiting = ''waiting''"
| "flow_status_name FlowConnected = ''connected''"
| "flow_status_name FlowExpired = ''expired''"
| "flow_status_name FlowError = ''error''"

record lifecycle_decision =
  ld_provider_slug :: string
  ld_status :: flow_status
  ld_reason :: string
  ld_active :: bool
  ld_connection_present :: bool
  ld_agent_ready :: bool
  ld_ready_to_connect :: bool
  ld_ready_to_execute_action :: bool
  ld_required_next :: "string list"

record connection_view =
  cv_state :: string
  cv_active :: bool
  cv_reason :: string

definition lifecycle_version :: string where
  "lifecycle_version = ''wiii_connect_connection_lifecycle.v1''"

definition safe_key :: "string \<Rightarrow> string" where
  "safe_key value = take 96 (filter py_isword (dash_to_underscore (py_lower (py_strip value))))"

definition safe_public_lifecycle_token :: "pyval \<Rightarrow> string" where
  "safe_public_lifecycle_token value =
     take 96 (filter (\<lambda>ch. py_isword ch \<or> ch = CHR ''.'')
       (dash_to_underscore (py_lower (py_strip (str_or_empty value)))))"

definition lifecycle_to_public_metadata :: "lifecycle_decision \<Rightarrow> pydict" where
  "lifecycle_to_public_metadata d =
     [(''version'', PStr lifecycle_version),
      (''provider_slug'', PStr (safe_key (ld_provider_slug d))),
      (''status'', PStr (flow_status_name (ld_status d))),
      (''reason'', PStr (safe_key (ld_reason d))),
      (''active'', PBool (ld_active d)),
      (''connection_present'', PBool (ld_connection_present d)),
      (''agent_ready'', PBool (ld_agent_ready d)),
      (''ready_to_connect'', PBool (ld_ready_to_connect d)),
      (''ready_to_execute_action'', PBool (ld_ready_to_execute_action d)),
      (''required_next'', PList (map (\<lambda>i. PStr (safe_key i)) (ld_required_next d)))]"

definition normalize_connection_flow_status :: "string \<Rightarrow> bool \<Rightarrow> flow_status" where
  "normalize_connection_flow_status value active =
     (if active then FlowConnected
      else let normalized = safe_key value in
      if normalized \<in> {''connected'', ''active'', ''preview''} then FlowConnected
      else if normalized = ''authorizing'' then FlowAuthorizing
      else if normalized \<in> {''waiting'', ''pending'', ''initiated'', ''initializing''} then FlowWaiting
      else if normalized = ''expired'' then FlowExpired
      else if normalized \<in> {''error'', ''failed''} then FlowError
      else FlowDisconnected)"

fun default_reason_for_status :: "flow_status \<Rightarrow> bool \<Rightarrow> string" where
  "default_reason_for_status FlowConnected rtc = ''connected''"
| "default_reason_for_status FlowAuthorizing rtc = ''authorization_started''"
| "default_reason_for_status FlowWaiting rtc = ''waiting_for_oauth''"
| "default_reason_for_status FlowExpired rtc = ''connection_expired''"
| "default_reason_for_status FlowError rtc = ''connection_error''"
| "default_reason_for_status FlowDisconnected rtc =
     (if rtc then ''ready_to_connect'' else ''connection_missing'')"

definition disconnected_reason_next :: "(string \<times> string list) list" where
  "disconnected_reason_next =
     [(''connection_storage_unavailable'', [''configure_wiii_connect_storage'']),
      (''provider_adapter_disabled'', [''configure_composio_adapter'']),
      (''provider_adapter_not_bound'', [''bind_provider_adapter'']),
      (''provider_adapter_not_configured'', [''configure_provider_adapter'']),
      (''provider_disabled'', [''enable_provider_registry_entry''])]"

fun required_next_for_lifecycle ::
    "flow_status \<Rightarrow> string \<Rightarrow> bool \<Rightarrow> bool \<Rightarrow> bool \<Rightarrow> string list" where
  "required_next_for_lifecycle FlowConnected reason agent_ready rtc rtx =
     (if rtx then []
      else if agent_ready then [''select_action_and_evaluate_gateway'']
      else [''inspect_provider_readiness''])"
| "required_next_for_lifecycle FlowAuthorizing reason agent_ready rtc rtx = [''complete_provider_oauth'']"
| "required_next_for_lifecycle FlowWaiting reason agent_ready rtc rtx = [''complete_provider_oauth'']"
| "required_next_for_lifecycle FlowExpired reason agent_ready rtc rtx = [''reconnect_provider_account'']"
| "required_next_for_lifecycle FlowError reason agent_ready rtc rtx =
     [''inspect_provider_connection_error'']"
| "required_next_for_lifecycle FlowDisconnected reason agent_ready rtc rtx =
     (case map_of disconnected_reason_next reason of
        Some next_steps \<Rightarrow> next_steps
      | None \<Rightarrow> if rtc then [''complete_provider_oauth''] else [''connect_provider_account''])"

text \<open>The keyword arguments of \<open>build_connection_lifecycle_decision\<close>.\<close>

record lifecycle_args =
  la_provider_slug :: string
  la_connection :: "connection_view option"
  la_status :: "string option"
  la_reason :: string
  la_connection_present :: "bool option"
  la_active :: "bool option"
  la_agent_ready :: bool
  la_ready_to_connect :: bool
  la_ready_to_execute_action :: bool
  la_required_next :: "string list option"

text \<open>\<open>a or b\<close> on strings.\<close>

definition str_or :: "string \<Rightarrow> string \<Rightarrow> string" where
  "str_or a b = (if a \<noteq> [] then a else b)"

definition build_connection_lifecycle_decision :: "lifecycle_args \<Rightarrow> lifecycle_decision" where
  "build_connection_lifecycle_decision a =
     (let raw_state = (case la_connection a of
            None \<Rightarrow> (case la_status a of None \<Rightarrow> [] | Some s \<Rightarrow> s)
          | Some c \<Rightarrow> str_or (cv_state c) (case la_status a of None \<Rightarrow> [] | Some s \<Rightarrow> s));
          resolved_active = (case la_active a of
            Some b \<Rightarrow> b | None \<Rightarrow> (case la_connection a of None \<Rightarrow> False | Some c \<Rightarrow> cv_active c));
          resolved_present = (case la_connection_present a of
            Some b \<Rightarrow> b | None \<Rightarrow> la_connection a \<noteq> None);
          resolved_status = normalize_connection_flow_status raw_state resolved_active;
          resolved_reason = safe_key (str_or (la_reason a)
            (str_or (case la_connection a of None \<Rightarrow> [] | Some c \<Rightarrow> cv_reason c)
              (default_reason_for_status resolved_status (la_ready_to_connect a))))
      in \<lparr> ld_provider_slug = la_provider_slug a,
           ld_status = resolved_status,
           ld_reason = resolved_reason,
           ld_active = resolved_active,
           ld_connection_present = resolved_present,
           ld_agent_ready = la_agent_ready a,
           ld_ready_to_connect = la_ready_to_connect a,
           ld_ready_to_execute_action = la_ready_to_execute_action a,
           ld_required_next = (case la_required_next a of
              Some items \<Rightarrow> map safe_key items
            | None \<Rightarrow> required_next_for_lifecycle resolved_status resolved_reason
                (la_agent_ready a) (la_ready_to_connect a) (la_ready_to_execute_action a)) \<rparr>)"

definition lifecycle_allowed_keys :: "string list" where
  "lifecycle_allowed_keys =
     [''version'', ''provider_slug'', ''status'', ''reason'', ''active'', ''connection_present'',
      ''agent_ready'', ''ready_to_connect'', ''ready_to_execute_action'', ''required_next'']"

definition sanitize_lifecycle_list :: "pyval list \<Rightarrow> pyval" where
  "sanitize_lifecycle_list items =
     PList (map PStr (take 8 (filter (\<lambda>t. t \<noteq> []) (map safe_public_lifecycle_token items))))"

definition sanitize_lifecycle_item :: "string \<Rightarrow> pyval \<Rightarrow> pydict \<Rightarrow> pydict" where
  "sanitize_lifecycle_item key item safe =
     (if key \<notin> set lifecycle_allowed_keys then safe
      else case item of
        PNone \<Rightarrow> safe
      | PBool b \<Rightarrow> dict_set key (PBool b) safe
      | PList xs \<Rightarrow> dict_set key (sanitize_lifecycle_list xs) safe
      | PTuple xs \<Rightarrow> dict_set key (sanitize_lifecycle_list xs) safe
      | v \<Rightarrow> (let token = safe_public_lifecycle_token v in
             if token \<noteq> [] then dict_set key (PStr token) safe else safe))"

definition sanitize_connection_lifecycle_metadata :: "pyval \<Rightarrow> pydict" where
  "sanitize_connection_lifecycle_metadata value =
     (case value of
        PDict d \<Rightarrow> foldl (\<lambda>safe (key, item). sanitize_lifecycle_item key item safe) [] d
      | _ \<Rightarrow> [])"

section \<open>Tokens\<close>

definition is_token :: "string \<Rightarrow> bool" where
  "is_token s = (length s \<le> 96 \<and> canonical s \<and> (\<forall>c \<in> set s. py_isword c \<or> c = CHR ''.''))"

lemma dot_not_space [simp]: "\<not> py_isspace CHR ''.''"
  by (simp add: py_isspace_def code_def)

lemma token_strip: "\<forall>c \<in> set s. py_isword c \<or> c = CHR ''.'' \<Longrightarrow> py_strip s = s"
  by (rule py_strip_no_space) (auto dest: isword_not_space)

lemma sublist_filter_canonical: "canonical s \<Longrightarrow> canonical (filter P s)"
  by (auto simp: canonical_chars)

lemma is_token_safe_key: "is_token (safe_key s)" "\<forall>c \<in> set (safe_key s). py_isword c"
  by (auto simp: is_token_def safe_key_def dest: in_set_takeD
      intro!: canonical_sublist [OF sublist_filter_canonical [OF canonical_lower_dash] sublist_take])

lemma is_token_lifecycle_token: "is_token (safe_public_lifecycle_token v)"
  by (auto simp: is_token_def safe_public_lifecycle_token_def dest: in_set_takeD
      intro!: canonical_sublist [OF sublist_filter_canonical [OF canonical_lower_dash] sublist_take])

lemma lifecycle_token_fixed: "is_token s \<Longrightarrow> safe_public_lifecycle_token (PStr s) = s"
  by (simp add: is_token_def safe_public_lifecycle_token_def token_strip canonical_def filter_all)

lemma safe_key_fixed:
  assumes "is_token s" "\<forall>c \<in> set s. py_isword c"
  shows "safe_key s = s"
  using assms by (simp add: is_token_def safe_key_def token_strip canonical_def filter_all)

lemma safe_key_idem: "safe_key (safe_key s) = safe_key s"
  by (rule safe_key_fixed) (rule is_token_safe_key)+

section \<open>Properties\<close>

text \<open>What \<open>sanitize_connection_lifecycle_metadata\<close> may return under a key.\<close>

fun lifecycle_value_ok :: "pyval \<Rightarrow> bool" where
  "lifecycle_value_ok (PBool b) = True"
| "lifecycle_value_ok (PStr s) = (s \<noteq> [] \<and> is_token s)"
| "lifecycle_value_ok (PList xs) =
     (length xs \<le> 8 \<and> (\<forall>x \<in> set xs. \<exists>s. x = PStr s \<and> s \<noteq> [] \<and> is_token s))"
| "lifecycle_value_ok _ = False"

definition lifecycle_dict_ok :: "pydict \<Rightarrow> bool" where
  "lifecycle_dict_ok d = (distinct (dict_keys d)
     \<and> (\<forall>(k, v) \<in> set d. k \<in> set lifecycle_allowed_keys \<and> lifecycle_value_ok v))"

lemma lifecycle_dict_ok_set:
  "lifecycle_dict_ok d \<Longrightarrow> k \<in> set lifecycle_allowed_keys \<Longrightarrow> lifecycle_value_ok v \<Longrightarrow>
   lifecycle_dict_ok (dict_set k v d)"
  using set_dict_set [of k v d] by (fastforce simp: lifecycle_dict_ok_def distinct_dict_keys_set)

lemma lifecycle_tokens_ok:
  assumes "length ts \<le> 8" "\<forall>t \<in> set ts. t \<noteq> [] \<and> is_token t"
  shows "lifecycle_value_ok (PList (map PStr ts))"
  using assms by auto

lemma lifecycle_list_ok: "lifecycle_value_ok (sanitize_lifecycle_list xs)"
  unfolding sanitize_lifecycle_list_def
proof (rule lifecycle_tokens_ok)
  let ?us = "filter (\<lambda>t. t \<noteq> []) (map safe_public_lifecycle_token xs)"
  show "length (take 8 ?us) \<le> 8" by (simp only: length_take min.cobounded2)
  have "\<forall>t \<in> set ?us. t \<noteq> [] \<and> is_token t" by (auto simp: is_token_lifecycle_token)
  then show "\<forall>t \<in> set (take 8 ?us). t \<noteq> [] \<and> is_token t" by (meson in_set_takeD)
qed

lemma sanitize_lifecycle_item_ok:
  "lifecycle_dict_ok d \<Longrightarrow> lifecycle_dict_ok (sanitize_lifecycle_item k v d)"
  by (auto simp: sanitize_lifecycle_item_def Let_def lifecycle_list_ok is_token_lifecycle_token
      split: pyval.splits intro!: lifecycle_dict_ok_set)

text \<open>Whatever metadata comes in, the sanitized lifecycle dictionary has only the ten contract
  keys, each once, and under them only booleans, non-empty tokens of at most 96 characters
  (letters, digits, underscore, dot) and lists of at most eight such tokens.\<close>

theorem sanitize_connection_lifecycle_metadata_safe:
  "lifecycle_dict_ok (sanitize_connection_lifecycle_metadata value)"
proof -
  have "lifecycle_dict_ok (foldl (\<lambda>safe (key, item). sanitize_lifecycle_item key item safe) acc d)"
    if "lifecycle_dict_ok acc" for acc d
    using that by (induction d arbitrary: acc) (auto simp: sanitize_lifecycle_item_ok)
  moreover have "lifecycle_dict_ok []" by (simp add: lifecycle_dict_ok_def)
  ultimately show ?thesis
    by (simp add: sanitize_connection_lifecycle_metadata_def split: pyval.splits)
qed

text \<open>The sanitizer accepts the contract's own output unchanged: the public metadata of a decision
  with a usable slug and reason and at most eight non-empty next steps is a fixed point.\<close>

theorem lifecycle_metadata_roundtrip:
  assumes "safe_key (ld_provider_slug d) \<noteq> []" "safe_key (ld_reason d) \<noteq> []"
    and "length (ld_required_next d) \<le> 8" "\<forall>i \<in> set (ld_required_next d). safe_key i \<noteq> []"
  shows "sanitize_connection_lifecycle_metadata (PDict (lifecycle_to_public_metadata d))
    = lifecycle_to_public_metadata d"
proof -
  have names: "is_token lifecycle_version" "lifecycle_version \<noteq> []" by code_simp+
  have status: "is_token (flow_status_name s) \<and> flow_status_name s \<noteq> []" for s
  proof -
    have "list_all (\<lambda>s. is_token (flow_status_name s) \<and> flow_status_name s \<noteq> [])
        [FlowDisconnected, FlowAuthorizing, FlowWaiting, FlowConnected, FlowExpired, FlowError]"
      by code_simp
    then show ?thesis by (cases s) (simp_all del: flow_status_name.simps)
  qed
  have list: "sanitize_lifecycle_list (map (\<lambda>i. PStr (safe_key i)) (ld_required_next d))
      = PList (map (\<lambda>i. PStr (safe_key i)) (ld_required_next d))"
    using assms(3,4) by (simp add: sanitize_lifecycle_list_def comp_def
        lifecycle_token_fixed is_token_safe_key filter_all)
  show ?thesis
    using assms names status [of "ld_status d"] list
    by (simp add: sanitize_connection_lifecycle_metadata_def lifecycle_to_public_metadata_def
        sanitize_lifecycle_item_def lifecycle_allowed_keys_def lifecycle_token_fixed is_token_safe_key
        dict_set_def)
qed

theorem lifecycle_metadata_roundtrip_witness:
  "sanitize_connection_lifecycle_metadata (PDict (lifecycle_to_public_metadata
      \<lparr> ld_provider_slug = ''gmail'', ld_status = FlowWaiting, ld_reason = ''waiting_for_oauth'',
        ld_active = False, ld_connection_present = True, ld_agent_ready = False,
        ld_ready_to_connect = True, ld_ready_to_execute_action = False,
        ld_required_next = [''complete_provider_oauth''] \<rparr>))
   = lifecycle_to_public_metadata
      \<lparr> ld_provider_slug = ''gmail'', ld_status = FlowWaiting, ld_reason = ''waiting_for_oauth'',
        ld_active = False, ld_connection_present = True, ld_agent_ready = False,
        ld_ready_to_connect = True, ld_ready_to_execute_action = False,
        ld_required_next = [''complete_provider_oauth''] \<rparr>"
proof -
  have "safe_key ''gmail'' \<noteq> []" "safe_key ''waiting_for_oauth'' \<noteq> []"
    "safe_key ''complete_provider_oauth'' \<noteq> []"
    by code_simp+
  then show ?thesis by (intro lifecycle_metadata_roundtrip) simp_all
qed

text \<open>With no explicit overrides the flow status of a decision is \<open>connected\<close> exactly when the
  connection is active or its stored state word is one of connected, active, preview; an active
  connection is never projected into another status, and the next step is empty only when an
  action may be executed.\<close>

theorem lifecycle_connected_iff:
  "let d = build_connection_lifecycle_decision
       \<lparr> la_provider_slug = p, la_connection = Some c, la_status = None, la_reason = r,
         la_connection_present = None, la_active = None, la_agent_ready = ar,
         la_ready_to_connect = rtc, la_ready_to_execute_action = rtx, la_required_next = None \<rparr>
   in (ld_status d = FlowConnected \<longleftrightarrow>
         cv_active c \<or> safe_key (cv_state c) \<in> {''connected'', ''active'', ''preview''})
      \<and> ld_connection_present d \<and> ld_active d = cv_active c
      \<and> (ld_required_next d = [] \<longleftrightarrow> ld_status d = FlowConnected \<and> rtx)"
proof -
  have next_nonempty: "required_next_for_lifecycle st re ar rtc rtx = [] \<longleftrightarrow> st = FlowConnected \<and> rtx"
    for st re
    by (cases st) (auto simp: disconnected_reason_next_def split: option.splits if_splits)
  have status: "normalize_connection_flow_status w b = FlowConnected \<longleftrightarrow>
      b \<or> safe_key w \<in> {''connected'', ''active'', ''preview''}" for w b
    by (auto simp: normalize_connection_flow_status_def Let_def)
  show ?thesis
    by (simp add: build_connection_lifecycle_decision_def Let_def next_nonempty status str_or_def)
qed

end
