(* ===== verification/Adapter_V1.thy ===== *)
theory Adapter_V1
  imports Gates Py_Hashlib Sanitizer Argument_Keys Connection_Lifecycle
begin

text \<open>
  \<open>app/engine/wiii_connect/adapter_v1.py\<close>: the provider-neutral contract of Wiii Connect. The
  \<open>Literal\<close> types are datatypes with a \<open>_name\<close> function giving the string the code
  uses, the frozen dataclasses are records, and \<open>decide_external_execution\<close> is the fail-closed
  decision taken before any provider action runs.
\<close>

section \<open>Literals\<close>

datatype provider_kind = WiiiNative | Composio | Mcp | CustomOauth | Workflow
datatype auth_mode = AuthNone | AuthOauth2 | AuthApiKey | AuthMcp | AuthDelegated
datatype lifecycle_state = Disconnected | Authorizing | Waiting | Connected | Expired | Errored | Disabled
datatype scope_name = Read | Preview | Write | Apply | Admin

type_synonym mutation = scope_name

datatype decision_outcome = Allowed | Denied

datatype deny_reason =
    ReasonAllowed | ProviderDisabled | ProviderNotAgentReady | ProviderAdapterMismatch
  | ProviderAdapterNotBound | ProviderAdapterNotConfigured | ProviderAdapterCannotExecute
  | AuditLedgerNotPersistent | ConnectionSelectionRequired | ConnectionMissing
  | ConnectionProviderMismatch | ConnectionNotConnected | PathNotAllowed | ActionNotAllowed
  | MissingScope | ScopePolicyDenied | MissingPreviewEvidence | MissingApprovalToken

datatype audit_stage = StageRequested | StageDenied | StageStarted | StageSucceeded | StageFailed

fun provider_kind_name :: "provider_kind \<Rightarrow> string" where
  "provider_kind_name WiiiNative = ''wiii_native''"
| "provider_kind_name Composio = ''composio''"
| "provider_kind_name Mcp = ''mcp''"
| "provider_kind_name CustomOauth = ''custom_oauth''"
| "provider_kind_name Workflow = ''workflow''"

fun auth_mode_name :: "auth_mode \<Rightarrow> string" where
  "auth_mode_name AuthNone = ''none''"
| "auth_mode_name AuthOauth2 = ''oauth2''"
| "auth_mode_name AuthApiKey = ''api_key''"
| "auth_mode_name AuthMcp = ''mcp''"
| "auth_mode_name AuthDelegated = ''delegated''"

fun state_name :: "lifecycle_state \<Rightarrow> string" where
  "state_name Disconnected = ''disconnected''"
| "state_name Authorizing = ''authorizing''"
| "state_name Waiting = ''waiting''"
| "state_name Connected = ''connected''"
| "state_name Expired = ''expired''"
| "state_name Errored = ''error''"
| "state_name Disabled = ''disabled''"

fun scope_str :: "scope_name \<Rightarrow> string" where
  "scope_str Read = ''read''"
| "scope_str Preview = ''preview''"
| "scope_str Write = ''write''"
| "scope_str Apply = ''apply''"
| "scope_str Admin = ''admin''"

fun outcome_name :: "decision_outcome \<Rightarrow> string" where
  "outcome_name Allowed = ''allowed''"
| "outcome_name Denied = ''denied''"

fun deny_reason_name :: "deny_reason \<Rightarrow> string" where
  "deny_reason_name ReasonAllowed = ''allowed''"
| "deny_reason_name ProviderDisabled = ''provider_disabled''"
| "deny_reason_name ProviderNotAgentReady = ''provider_not_agent_ready''"
| "deny_reason_name ProviderAdapterMismatch = ''provider_adapter_mismatch''"
| "deny_reason_name ProviderAdapterNotBound = ''provider_adapter_not_bound''"
| "deny_reason_name ProviderAdapterNotConfigured = ''provider_adapter_not_configured''"
| "deny_reason_name ProviderAdapterCannotExecute = ''provider_adapter_cannot_execute''"
| "deny_reason_name AuditLedgerNotPersistent = ''audit_ledger_not_persistent''"
| "deny_reason_name ConnectionSelectionRequired = ''connection_selection_required''"
| "deny_reason_name ConnectionMissing = ''connection_missing''"
| "deny_reason_name ConnectionProviderMismatch = ''connection_provider_mismatch''"
| "deny_reason_name ConnectionNotConnected = ''connection_not_connected''"
| "deny_reason_name PathNotAllowed = ''path_not_allowed''"
| "deny_reason_name ActionNotAllowed = ''action_not_allowed''"
| "deny_reason_name MissingScope = ''missing_scope''"
| "deny_reason_name ScopePolicyDenied = ''scope_policy_denied''"
| "deny_reason_name MissingPreviewEvidence = ''missing_preview_evidence''"
| "deny_reason_name MissingApprovalToken = ''missing_approval_token''"

fun stage_name :: "audit_stage \<Rightarrow> string" where
  "stage_name StageRequested = ''requested''"
| "stage_name StageDenied = ''denied''"
| "stage_name StageStarted = ''started''"
| "stage_name StageSucceeded = ''succeeded''"
| "stage_name StageFailed = ''failed''"

definition adapter_version :: string where
  "adapter_version = ''wiii_connect_adapter.v1''"

section \<open>Scope grants\<close>

record scope_grant =
  sg_read :: bool
  sg_preview :: bool
  sg_write :: bool
  sg_apply :: bool
  sg_admin :: bool

definition no_scopes :: scope_grant where
  "no_scopes = \<lparr> sg_read = False, sg_preview = False, sg_write = False, sg_apply = False,
     sg_admin = False \<rparr>"

fun scope_allows :: "scope_grant \<Rightarrow> scope_name \<Rightarrow> bool" where
  "scope_allows g Read = sg_read g"
| "scope_allows g Preview = sg_preview g"
| "scope_allows g Write = sg_write g"
| "scope_allows g Apply = sg_apply g"
| "scope_allows g Admin = sg_admin g"

definition enabled_scopes :: "scope_grant \<Rightarrow> scope_name list" where
  "enabled_scopes g = filter (scope_allows g) [Read, Preview, Write, Apply, Admin]"

definition scope_to_metadata :: "scope_grant \<Rightarrow> pydict" where
  "scope_to_metadata g =
     [(''read'', PBool (sg_read g)), (''preview'', PBool (sg_preview g)),
      (''write'', PBool (sg_write g)), (''apply'', PBool (sg_apply g)),
      (''admin'', PBool (sg_admin g))]"

section \<open>Provider registry entries\<close>

record required_field =
  rf_key :: string
  rf_label :: string
  rf_required :: bool
  rf_secret :: bool
  rf_help_text :: string

definition required_field_metadata :: "required_field \<Rightarrow> pyval" where
  "required_field_metadata f = PDict
     [(''key'', PStr (rf_key f)), (''label'', PStr (rf_label f)),
      (''required'', PBool (rf_required f)), (''secret'', PBool (rf_secret f)),
      (''help_text'', PStr (rf_help_text f))]"

record provider_entry =
  pe_slug :: string
  pe_label :: string
  pe_provider_kind :: provider_kind
  pe_auth_mode :: auth_mode
  pe_enabled :: bool
  pe_agent_ready :: bool
  pe_category :: string
  pe_description :: string
  pe_allowed_paths :: "string list"
  pe_action_allowlist :: "string list"
  pe_requirements :: "string list"
  pe_connect_requirements :: "string list"
  pe_agent_ready_requirements :: "string list"
  pe_required_fields :: "required_field list"
  pe_default_scopes :: scope_grant
  pe_source :: string
  pe_warnings :: "string list"

definition connection_requirements :: "provider_entry \<Rightarrow> string list" where
  "connection_requirements e =
     (if pe_connect_requirements e \<noteq> [] then pe_connect_requirements e
      else if pe_agent_ready_requirements e \<noteq> [] then []
      else pe_requirements e)"

definition all_requirements :: "provider_entry \<Rightarrow> string list" where
  "all_requirements e = append_new []
     (filter (\<lambda>r. r \<noteq> [])
       (if pe_requirements e \<noteq> [] then pe_requirements e
        else pe_connect_requirements e @ pe_agent_ready_requirements e))"

definition pattern_grants :: "string \<Rightarrow> string \<Rightarrow> bool" where
  "pattern_grants action pattern =
     (let normalized = py_upper (py_strip pattern) in
      if normalized = [] then False
      else if py_endswith ''*'' normalized then
        (let prefix = butlast normalized in prefix \<noteq> [] \<and> py_startswith prefix action)
      else action = normalized)"

definition allows_action :: "provider_entry \<Rightarrow> string \<Rightarrow> bool" where
  "allows_action e action_slug =
     (let action = py_upper (py_strip action_slug) in
      action \<noteq> [] \<and> list_ex (pattern_grants action) (pe_action_allowlist e))"

definition str_list :: "string list \<Rightarrow> pyval" where
  "str_list xs = PList (map PStr xs)"

definition provider_to_public_metadata :: "provider_entry \<Rightarrow> pydict" where
  "provider_to_public_metadata e =
     [(''version'', PStr adapter_version),
      (''slug'', PStr (pe_slug e)),
      (''label'', PStr (pe_label e)),
      (''provider_kind'', PStr (provider_kind_name (pe_provider_kind e))),
      (''auth_mode'', PStr (auth_mode_name (pe_auth_mode e))),
      (''enabled'', PBool (pe_enabled e)),
      (''agent_ready'', PBool (pe_agent_ready e)),
      (''category'', PStr (pe_category e)),
      (''description'', PStr (pe_description e)),
      (''allowed_paths'', str_list (pe_allowed_paths e)),
      (''action_count'', PInt (int (length (pe_action_allowlist e)))),
      (''requirements'', str_list (all_requirements e)),
      (''connect_requirements'', str_list (connection_requirements e)),
      (''agent_ready_requirements'', str_list (pe_agent_ready_requirements e)),
      (''required_fields'', PList (map required_field_metadata (pe_required_fields e))),
      (''default_scopes'', PDict (scope_to_metadata (pe_default_scopes e))),
      (''source'', PStr (pe_source e)),
      (''warnings'', str_list (pe_warnings e))]"

section \<open>Connections\<close>

record vault_secret_ref =
  vr_provider_slug :: string
  vr_connection_id :: string
  vr_vault_key_id :: string
  vr_secret_version :: string

definition vault_ref_metadata :: "vault_secret_ref \<Rightarrow> pydict" where
  "vault_ref_metadata r =
     [(''provider_slug'', PStr (vr_provider_slug r)),
      (''connection_ref_present'', PBool (vr_connection_id r \<noteq> [])),
      (''vault_ref_present'', PBool (vr_vault_key_id r \<noteq> [])),
      (''secret_version'', PStr (vr_secret_version r))]"

record connection_record =
  cr_connection_id :: string
  cr_provider_slug :: string
  cr_state :: lifecycle_state
  cr_scopes :: scope_grant
  cr_vault_ref :: "vault_secret_ref option"
  cr_account_label :: string
  cr_external_account_ref :: string
  cr_last_checked_at :: "string option"
  cr_reason :: string
  cr_warnings :: "string list"

definition conn_active :: "connection_record \<Rightarrow> bool" where
  "conn_active c = (cr_state c = Connected)"

definition normalize_connection_state :: "string option \<Rightarrow> lifecycle_state" where
  "normalize_connection_state status =
     (let normalized = py_upper (py_strip (case status of None \<Rightarrow> [] | Some s \<Rightarrow> s)) in
      if normalized \<in> {''ACTIVE'', ''CONNECTED''} then Connected
      else if normalized = ''AUTHORIZING'' then Authorizing
      else if normalized \<in> {''PENDING'', ''INITIATED'', ''INITIALIZING''} then Waiting
      else if normalized = ''EXPIRED'' then Expired
      else if normalized \<in> {''FAILED'', ''ERROR''} then Errored
      else if normalized = ''DISABLED'' then Disabled
      else Disconnected)"

definition ref_material :: "string \<Rightarrow> string \<Rightarrow> string" where
  "ref_material provider_slug connection_id =
     dash_to_underscore (py_lower (py_strip provider_slug)) @ '':'' @ py_strip connection_id"

definition public_connection_ref :: "string \<Rightarrow> string \<Rightarrow> string" where
  "public_connection_ref provider_slug connection_id =
     (if dash_to_underscore (py_lower (py_strip provider_slug)) = [] \<or> py_strip connection_id = []
      then []
      else ''wcn_'' @ take 24 (sha256_hex (ref_material provider_slug connection_id)))"

definition connection_ref_matches :: "string \<Rightarrow> string \<Rightarrow> string \<Rightarrow> bool" where
  "connection_ref_matches provider_slug connection_id candidate =
     (let normalized_candidate = py_strip candidate in
      normalized_candidate \<noteq> [] \<and>
      normalized_candidate = public_connection_ref provider_slug connection_id)"

definition connection_ref :: "connection_record \<Rightarrow> string" where
  "connection_ref c = public_connection_ref (cr_provider_slug c) (cr_connection_id c)"

definition connection_lifecycle_of :: "connection_record \<Rightarrow> lifecycle_decision" where
  "connection_lifecycle_of c = build_connection_lifecycle_decision
     \<lparr> la_provider_slug = cr_provider_slug c,
       la_connection = Some \<lparr> cv_state = state_name (cr_state c), cv_active = conn_active c,
         cv_reason = cr_reason c \<rparr>,
       la_status = None, la_reason = [], la_connection_present = None, la_active = None,
       la_agent_ready = False, la_ready_to_connect = False, la_ready_to_execute_action = False,
       la_required_next = None \<rparr>"

definition connection_to_public_metadata :: "connection_record \<Rightarrow> pydict" where
  "connection_to_public_metadata c =
     [(''version'', PStr adapter_version),
      (''connection_ref'', PStr (connection_ref c)),
      (''connection_ref_present'', PBool (connection_ref c \<noteq> [])),
      (''provider_slug'', PStr (cr_provider_slug c)),
      (''state'', PStr (state_name (cr_state c))),
      (''active'', PBool (conn_active c)),
      (''scopes'', PDict (scope_to_metadata (cr_scopes c))),
      (''vault_ref_present'', PBool (cr_vault_ref c \<noteq> None)),
      (''account_label'', PStr (cr_account_label c)),
      (''external_account_ref_present'', PBool (cr_external_account_ref c \<noteq> [])),
      (''last_checked_at'', (case cr_last_checked_at c of None \<Rightarrow> PNone | Some t \<Rightarrow> PStr t)),
      (''reason'', PStr (cr_reason c)),
      (''warnings'', str_list (cr_warnings c)),
      (''connection_lifecycle'', PDict (lifecycle_to_public_metadata (connection_lifecycle_of c)))]"

section \<open>Execution requests, decisions and audit events\<close>

record exec_request =
  xr_provider_slug :: string
  xr_action_slug :: string
  xr_path :: string
  xr_mutation :: mutation
  xr_approval_token_present :: bool
  xr_preview_evidence_id :: "string option"
  xr_preview_evidence_required :: bool
  xr_argument_keys :: "string list"
  xr_request_id :: string

definition present :: "string option \<Rightarrow> bool" where
  "present v = (case v of None \<Rightarrow> False | Some s \<Rightarrow> s \<noteq> [])"

definition safe_request_id :: "string \<Rightarrow> string" where
  "safe_request_id value =
     take 96 (py_join '' '' (py_split (redact_runtime_secret_text (Some 160) value)))"

definition request_to_audit_metadata :: "exec_request \<Rightarrow> pydict" where
  "request_to_audit_metadata r =
     [(''provider_slug'', PStr (xr_provider_slug r)),
      (''action_slug'', PStr (xr_action_slug r)),
      (''path'', PStr (xr_path r)),
      (''mutation'', PStr (scope_str (xr_mutation r))),
      (''approval_token_present'', PBool (xr_approval_token_present r)),
      (''preview_evidence_present'', PBool (present (xr_preview_evidence_id r))),
      (''argument_keys'', str_list (map safe_public_argument_key (xr_argument_keys r)))]
     @ (let request_id = safe_request_id (xr_request_id r) in
        if request_id \<noteq> [] then [(''request_id'', PStr request_id)] else [])"

record exec_decision =
  xd_outcome :: decision_outcome
  xd_reason :: deny_reason
  xd_provider_slug :: string
  xd_action_slug :: string
  xd_path :: string
  xd_required_scopes :: "scope_name list"
  xd_audit_tags :: "string list"

definition decision_allowed :: "exec_decision \<Rightarrow> bool" where
  "decision_allowed d = (xd_outcome d = Allowed)"

definition decision_to_metadata :: "exec_decision \<Rightarrow> pydict" where
  "decision_to_metadata d =
     [(''version'', PStr adapter_version),
      (''outcome'', PStr (outcome_name (xd_outcome d))),
      (''reason'', PStr (deny_reason_name (xd_reason d))),
      (''provider_slug'', PStr (xd_provider_slug d)),
      (''action_slug'', PStr (xd_action_slug d)),
      (''path'', PStr (xd_path d)),
      (''required_scopes'', str_list (map scope_str (xd_required_scopes d))),
      (''audit_tags'', str_list (xd_audit_tags d))]"

record audit_event =
  ae_stage :: audit_stage
  ae_request :: exec_request
  ae_decision :: exec_decision
  ae_connection_id :: string
  ae_created_at :: string

definition audit_event_to_metadata :: "audit_event \<Rightarrow> pydict" where
  "audit_event_to_metadata e =
     [(''version'', PStr adapter_version),
      (''stage'', PStr (stage_name (ae_stage e))),
      (''created_at'', PStr (ae_created_at e)),
      (''connection_ref_present'', PBool (ae_connection_id e \<noteq> [])),
      (''request'', PDict (request_to_audit_metadata (ae_request e))),
      (''decision'', PDict (decision_to_metadata (ae_decision e)))]"

section \<open>The policy decision\<close>

definition is_connection_baseline_ready :: "provider_entry \<Rightarrow> connection_record option \<Rightarrow> bool" where
  "is_connection_baseline_ready e c =
     (pe_enabled e \<and> pe_agent_ready e \<and>
      (case c of None \<Rightarrow> False | Some c \<Rightarrow> cr_provider_slug c = pe_slug e \<and> conn_active c))"

fun required_scope_for_mutation :: "mutation \<Rightarrow> scope_name" where
  "required_scope_for_mutation Admin = Admin"
| "required_scope_for_mutation Apply = Apply"
| "required_scope_for_mutation Write = Write"
| "required_scope_for_mutation Preview = Preview"
| "required_scope_for_mutation Read = Read"

definition deny_external ::
    "provider_entry \<Rightarrow> exec_request \<Rightarrow> deny_reason \<Rightarrow> scope_name list \<Rightarrow> exec_decision" where
  "deny_external e r reason scopes =
     \<lparr> xd_outcome = Denied, xd_reason = reason, xd_provider_slug = pe_slug e,
       xd_action_slug = xr_action_slug r, xd_path = xr_path r, xd_required_scopes = scopes,
       xd_audit_tags =
         [''provider:'' @ provider_kind_name (pe_provider_kind e),
          ''auth:'' @ auth_mode_name (pe_auth_mode e),
          ''deny:'' @ deny_reason_name reason] \<rparr>"

definition allow_external :: "provider_entry \<Rightarrow> exec_request \<Rightarrow> exec_decision" where
  "allow_external e r =
     \<lparr> xd_outcome = Allowed, xd_reason = ReasonAllowed, xd_provider_slug = pe_slug e,
       xd_action_slug = xr_action_slug r, xd_path = xr_path r,
       xd_required_scopes = [required_scope_for_mutation (xr_mutation r)],
       xd_audit_tags =
         [''provider:'' @ provider_kind_name (pe_provider_kind e),
          ''auth:'' @ auth_mode_name (pe_auth_mode e),
          ''mutation:'' @ scope_str (xr_mutation r)] \<rparr>"

definition decide_external_execution ::
    "provider_entry \<Rightarrow> connection_record option \<Rightarrow> exec_request \<Rightarrow> exec_decision" where
  "decide_external_execution e connection r =
     (if \<not> pe_enabled e then deny_external e r ProviderDisabled []
      else if \<not> pe_agent_ready e then deny_external e r ProviderNotAgentReady []
      else case connection of
        None \<Rightarrow> deny_external e r ConnectionMissing []
      | Some c \<Rightarrow>
          if cr_provider_slug c \<noteq> pe_slug e \<or> xr_provider_slug r \<noteq> pe_slug e
            then deny_external e r ConnectionProviderMismatch []
          else if \<not> conn_active c then deny_external e r ConnectionNotConnected []
          else if xr_path r \<notin> set (pe_allowed_paths e) then deny_external e r PathNotAllowed []
          else if \<not> allows_action e (xr_action_slug r) then deny_external e r ActionNotAllowed []
          else let required_scope = required_scope_for_mutation (xr_mutation r) in
          if \<not> scope_allows (cr_scopes c) required_scope
            then deny_external e r MissingScope [required_scope]
          else if xr_preview_evidence_required r \<and> \<not> present (xr_preview_evidence_id r)
            then deny_external e r MissingPreviewEvidence []
          else if xr_mutation r = Apply \<and> \<not> xr_approval_token_present r
            then deny_external e r MissingApprovalToken [Apply]
          else allow_external e r)"

section \<open>The decision as an ordered gate\<close>

definition external_checks ::
    "provider_entry \<times> connection_record option \<times> exec_request \<Rightarrow> (bool \<times> deny_reason) list" where
  "external_checks = (\<lambda>(e, c, r).
     [(pe_enabled e, ProviderDisabled),
      (pe_agent_ready e, ProviderNotAgentReady),
      (c \<noteq> None, ConnectionMissing),
      (cr_provider_slug (the c) = pe_slug e \<and> xr_provider_slug r = pe_slug e,
       ConnectionProviderMismatch),
      (conn_active (the c), ConnectionNotConnected),
      (xr_path r \<in> set (pe_allowed_paths e), PathNotAllowed),
      (allows_action e (xr_action_slug r), ActionNotAllowed),
      (scope_allows (cr_scopes (the c)) (xr_mutation r), MissingScope),
      (xr_preview_evidence_required r \<longrightarrow> present (xr_preview_evidence_id r),
       MissingPreviewEvidence),
      (xr_mutation r = Apply \<longrightarrow> xr_approval_token_present r, MissingApprovalToken)])"

definition external_reason ::
    "provider_entry \<times> connection_record option \<times> exec_request \<Rightarrow> deny_reason" where
  "external_reason = (\<lambda>(e, c, r). xd_reason (decide_external_execution e c r))"

lemma required_scope_is_mutation [simp]: "required_scope_for_mutation m = m"
  by (cases m) simp_all

lemma deny_external_simps [simp]:
  "xd_reason (deny_external e r reason scopes) = reason"
  "xd_outcome (deny_external e r reason scopes) = Denied"
  "xd_required_scopes (deny_external e r reason scopes) = scopes"
  by (simp_all add: deny_external_def)

lemma allow_external_simps [simp]:
  "xd_reason (allow_external e r) = ReasonAllowed"
  "xd_outcome (allow_external e r) = Allowed"
  by (simp_all add: allow_external_def)

interpretation external: ordered_gate external_reason external_checks ReasonAllowed
proof
  show "external_reason x = first_failure (external_checks x) ReasonAllowed" for x
    by (cases x) (auto simp: external_reason_def external_checks_def decide_external_execution_def
        Let_def split: option.splits)
  show "(b, r) \<in> set (external_checks x) \<Longrightarrow> r \<noteq> ReasonAllowed" for b r x
    by (cases x) (auto simp: external_checks_def)
qed

lemma decision_allowed_iff_reason:
  "decision_allowed (decide_external_execution e c r) \<longleftrightarrow> external_reason (e, c, r) = ReasonAllowed"
  by (auto simp: external_reason_def decision_allowed_def decide_external_execution_def Let_def
      split: option.splits)

lemma external_allowed_iff:
  "decision_allowed (decide_external_execution e c r) \<longleftrightarrow>
     pe_enabled e \<and> pe_agent_ready e \<and>
     (\<exists>conn. c = Some conn \<and> cr_provider_slug conn = pe_slug e \<and> xr_provider_slug r = pe_slug e
        \<and> conn_active conn \<and> scope_allows (cr_scopes conn) (xr_mutation r))
     \<and> xr_path r \<in> set (pe_allowed_paths e) \<and> allows_action e (xr_action_slug r)
     \<and> (xr_preview_evidence_required r \<longrightarrow> present (xr_preview_evidence_id r))
     \<and> (xr_mutation r = Apply \<longrightarrow> xr_approval_token_present r)"
  unfolding decision_allowed_iff_reason external.passes_iff
  by (auto simp: external_checks_def)

lemma external_allowed_baseline:
  "decision_allowed (decide_external_execution e c r) \<Longrightarrow> is_connection_baseline_ready e c"
  by (auto simp: external_allowed_iff is_connection_baseline_ready_def)

section \<open>Concrete values\<close>

text \<open>A registry entry, a connection and a request on which the witnesses of the development are evaluated.\<close>

definition example_entry :: provider_entry where
  "example_entry = \<lparr> pe_slug = ''gmail'', pe_label = ''Gmail'', pe_provider_kind = Composio,
     pe_auth_mode = AuthDelegated, pe_enabled = True, pe_agent_ready = True,
     pe_category = ''integration'', pe_description = [], pe_allowed_paths = [''external_app_action''],
     pe_action_allowlist = [''GMAIL_SEND_EMAIL''], pe_requirements = [],
     pe_connect_requirements = [], pe_agent_ready_requirements = [], pe_required_fields = [],
     pe_default_scopes = \<lparr> sg_read = True, sg_preview = True, sg_write = True, sg_apply = True,
       sg_admin = False \<rparr>,
     pe_source = ''wiii_connect_registry'', pe_warnings = [] \<rparr>"

definition example_connection :: connection_record where
  "example_connection = \<lparr> cr_connection_id = ''c1'', cr_provider_slug = ''gmail'',
     cr_state = Connected, cr_scopes = pe_default_scopes example_entry, cr_vault_ref = None,
     cr_account_label = [], cr_external_account_ref = [], cr_last_checked_at = None,
     cr_reason = [], cr_warnings = [] \<rparr>"

definition example_request :: exec_request where
  "example_request = \<lparr> xr_provider_slug = ''gmail'', xr_action_slug = ''gmail_send_email'',
     xr_path = ''external_app_action'', xr_mutation = Apply, xr_approval_token_present = True,
     xr_preview_evidence_id = Some ''ev1'', xr_preview_evidence_required = True,
     xr_argument_keys = [''subject''], xr_request_id = [] \<rparr>"

section \<open>Properties\<close>

text \<open>An external action is allowed exactly when every gate passes: the provider is enabled and
  agent-ready, an active connection of that provider grants the scope of the mutation, the path and
  the action are allowed, required preview evidence is there and an apply carries an approval token.\<close>

theorem decide_external_execution_allowed_iff:
  "decision_allowed (decide_external_execution e c r) \<longleftrightarrow>
     pe_enabled e \<and> pe_agent_ready e \<and>
     (\<exists>conn. c = Some conn \<and> cr_provider_slug conn = pe_slug e \<and> xr_provider_slug r = pe_slug e
        \<and> conn_active conn \<and> scope_allows (cr_scopes conn) (xr_mutation r))
     \<and> xr_path r \<in> set (pe_allowed_paths e) \<and> allows_action e (xr_action_slug r)
     \<and> (xr_preview_evidence_required r \<longrightarrow> present (xr_preview_evidence_id r))
     \<and> (xr_mutation r = Apply \<longrightarrow> xr_approval_token_present r)"
  by (rule external_allowed_iff)

theorem decide_external_execution_allowed_iff_witness:
  "decision_allowed (decide_external_execution example_entry (Some example_connection) example_request)
   \<and> \<not> decision_allowed (decide_external_execution example_entry (Some example_connection)
        (example_request\<lparr>xr_approval_token_present := False\<rparr>))"
  unfolding decide_external_execution_allowed_iff
  by (simp add: example_entry_def example_connection_def example_request_def conn_active_def
      present_def) code_simp

text \<open>The public metadata of a connection depends on its vault reference and its external account
  reference only through their presence: two connections that differ in these values alone, both
  present, have the same metadata.\<close>

theorem connection_metadata_hides_references:
  "connection_to_public_metadata (c\<lparr>cr_vault_ref := Some v, cr_external_account_ref := x # xs\<rparr>)
   = connection_to_public_metadata (c\<lparr>cr_vault_ref := Some w, cr_external_account_ref := y # ys\<rparr>)"
  by (simp add: connection_to_public_metadata_def connection_ref_def connection_lifecycle_of_def
      conn_active_def)

text \<open>The metadata of an audit event depends on the connection id and on the preview evidence id
  only through their presence: neither value can be recovered from the ledger.\<close>

theorem audit_event_metadata_hides_identifiers:
  "audit_event_to_metadata (ev\<lparr>ae_connection_id := c # cs,
      ae_request := r\<lparr>xr_preview_evidence_id := Some (p # ps)\<rparr>\<rparr>)
   = audit_event_to_metadata (ev\<lparr>ae_connection_id := d # ds,
      ae_request := r\<lparr>xr_preview_evidence_id := Some (q # qs)\<rparr>\<rparr>)"
  by (simp add: audit_event_to_metadata_def request_to_audit_metadata_def present_def)

text \<open>Property C40: a public connection reference is empty exactly when the provider or the connection id is
  blank, and otherwise is the prefix \<open>wcn_\<close> and 24 lower-case hexadecimal digits; it is stable under
  letter case, dashes and surrounding blanks of the provider slug.\<close>

theorem public_connection_ref_shape:
  "(public_connection_ref p i = [] \<longleftrightarrow> py_strip p = [] \<or> py_strip i = [])
   \<and> (public_connection_ref p i = []
      \<or> length (public_connection_ref p i) = 28
        \<and> py_startswith ''wcn_'' (public_connection_ref p i)
        \<and> list_all is_hex_lower (drop 4 (public_connection_ref p i)))
   \<and> public_connection_ref (dash_to_underscore (py_lower (py_strip p))) (py_strip i)
      = public_connection_ref p i"
proof -
  have hex: "list_all is_hex_lower (take 24 (sha256_hex m))" for m
    using sha256_hex_lower [of m] by (auto simp: list_all_iff dest: in_set_takeD)
  have blank: "dash_to_underscore (py_lower (py_strip p)) = [] \<longleftrightarrow> py_strip p = []"
    using length_dash_to_underscore [of "py_lower (py_strip p)"] by (metis length_0_conv length_py_lower)
  have stable: "dash_to_underscore (py_lower (py_strip (dash_to_underscore (py_lower (py_strip p)))))
      = dash_to_underscore (py_lower (py_strip p))"
    by (simp add: py_strip_dash py_strip_lower lower_dash_commute)
  show ?thesis
    by (simp add: public_connection_ref_def ref_material_def stable blank hex py_startswith_def)
qed

text \<open>The name of a connection state reads back as that state except for \<open>waiting\<close>, which reads
  back as \<open>disconnected\<close>: \<open>normalize_connection_state\<close> knows the provider words for a waiting
  connection but not the word Wiii itself stores.\<close>

theorem normalize_connection_state_roundtrip:
  "normalize_connection_state (Some (state_name s)) = (if s = Waiting then Disconnected else s)"
proof -
  have "list_all (\<lambda>s. normalize_connection_state (Some (state_name s))
      = (if s = Waiting then Disconnected else s))
      [Disconnected, Authorizing, Waiting, Connected, Expired, Errored, Disabled]"
    by code_simp
  then show ?thesis by (cases s) simp_all
qed

text \<open>The lifecycle shown for a stored connection follows its state: a connected record is shown
  connected and active, and no other record is active; a disabled one is shown as disconnected.\<close>

theorem connection_lifecycle_of_status:
  "ld_status (connection_lifecycle_of c) =
     (case cr_state c of Connected \<Rightarrow> FlowConnected | Authorizing \<Rightarrow> FlowAuthorizing
        | Waiting \<Rightarrow> FlowWaiting | Expired \<Rightarrow> FlowExpired | Errored \<Rightarrow> FlowError
        | Disconnected \<Rightarrow> FlowDisconnected | Disabled \<Rightarrow> FlowDisconnected)
   \<and> ld_active (connection_lifecycle_of c) = (cr_state c = Connected)"
proof -
  have active: "normalize_connection_flow_status w True = FlowConnected" for w
    by (simp add: normalize_connection_flow_status_def)
  have "list_all (\<lambda>s. normalize_connection_flow_status (state_name s) False =
      (case s of Connected \<Rightarrow> FlowConnected | Authorizing \<Rightarrow> FlowAuthorizing
        | Waiting \<Rightarrow> FlowWaiting | Expired \<Rightarrow> FlowExpired | Errored \<Rightarrow> FlowError
        | Disconnected \<Rightarrow> FlowDisconnected | Disabled \<Rightarrow> FlowDisconnected))
      [Disconnected, Authorizing, Waiting, Connected, Expired, Errored, Disabled]"
    by code_simp
  then show ?thesis
    by (cases "cr_state c") (simp_all add: connection_lifecycle_of_def conn_active_def str_or_def
        build_connection_lifecycle_decision_def Let_def active)
qed

end
