(* ===== verification/Vault.thy ===== *)
theory Vault
  imports Adapter_V1
begin

text \<open>
  \<open>app/engine/wiii_connect/vault.py\<close>: whether a provider secret may be stored, and the opaque
  reference issued when it may. \<open>now\<close> is the creation time of the audit event.
\<close>

datatype vault_backend = BackendDisabled | BackendProviderManaged | BackendExternalKms

fun vault_backend_name :: "vault_backend \<Rightarrow> string" where
  "vault_backend_name BackendDisabled = ''disabled''"
| "vault_backend_name BackendProviderManaged = ''provider_managed''"
| "vault_backend_name BackendExternalKms = ''external_kms''"

datatype vault_reason =
  VaultDisabled | VaultProviderDisabled | MissingSecretMaterial | UnsupportedSecretKind
| SecretMaterialNotAccepted | ReadyToStore

fun vault_reason_name :: "vault_reason \<Rightarrow> string" where
  "vault_reason_name VaultDisabled = ''vault_disabled''"
| "vault_reason_name VaultProviderDisabled = ''provider_disabled''"
| "vault_reason_name MissingSecretMaterial = ''missing_secret_material''"
| "vault_reason_name UnsupportedSecretKind = ''unsupported_secret_kind''"
| "vault_reason_name SecretMaterialNotAccepted = ''secret_material_not_accepted''"
| "vault_reason_name ReadyToStore = ''ready_to_store''"

definition secret_markers :: "string list" where
  "secret_markers = [''token'', ''secret'', ''password'', ''credential'', ''key'', ''code'']"

definition supported_secret_kinds :: "string list" where
  "supported_secret_kinds = [''oauth_token'', ''api_key'', ''provider_session'', ''webhook_secret'']"

record vault_capability =
  vc_enabled :: bool
  vc_backend :: vault_backend
  vc_accepts_secret_material :: bool
  vc_provider_managed :: bool
  vc_key_namespace :: string
  vc_reason :: string
  vc_warnings :: "string list"

definition can_store_external_secret :: "vault_capability \<Rightarrow> bool" where
  "can_store_external_secret c = (vc_enabled c \<and> vc_accepts_secret_material c)"

definition vault_capability_metadata :: "vault_capability \<Rightarrow> pydict" where
  "vault_capability_metadata c =
     [(''version'', PStr ''wiii_connect_vault.v1''),
      (''enabled'', PBool (vc_enabled c)),
      (''backend'', PStr (vault_backend_name (vc_backend c))),
      (''provider_managed'', PBool (vc_provider_managed c)),
      (''can_store_external_secret'', PBool (can_store_external_secret c)),
      (''reason'', PStr (vc_reason c)),
      (''warnings'', str_list (vc_warnings c))]"

definition default_vault_capability :: vault_capability where
  "default_vault_capability =
     \<lparr> vc_enabled = False, vc_backend = BackendDisabled, vc_accepts_secret_material = False,
       vc_provider_managed = False, vc_key_namespace = [], vc_reason = ''vault_disabled'',
       vc_warnings = [] \<rparr>"

definition or_default :: "'a option \<Rightarrow> 'a \<Rightarrow> 'a" where
  "or_default v d = (case v of None \<Rightarrow> d | Some x \<Rightarrow> x)"

record vault_write_request =
  vw_provider_slug :: string
  vw_connection_id :: string
  vw_secret_kind :: string
  vw_secret_material_present :: bool
  vw_metadata_keys :: "string list"

definition vault_safe_metadata_key :: "string \<Rightarrow> string" where
  "vault_safe_metadata_key key =
     (let normalized = py_lower (py_strip key) in
      if normalized = [] then ''empty''
      else if contains_any secret_markers normalized then ''redacted_sensitive_field''
      else take 80 normalized)"

definition vault_request_metadata :: "vault_write_request \<Rightarrow> pydict" where
  "vault_request_metadata q =
     [(''provider_slug'', PStr (vw_provider_slug q)),
      (''connection_ref_present'', PBool (vw_connection_id q \<noteq> [])),
      (''secret_kind'', PStr (vw_secret_kind q)),
      (''secret_material_present'', PBool (vw_secret_material_present q)),
      (''metadata_keys'', str_list (map vault_safe_metadata_key (vw_metadata_keys q)))]"

record vault_audit_event =
  va_reason :: vault_reason
  va_request :: vault_write_request
  va_created_at :: string

definition vault_audit_metadata :: "vault_audit_event \<Rightarrow> pydict" where
  "vault_audit_metadata ev =
     [(''version'', PStr ''wiii_connect_vault.v1''),
      (''stage'', PStr ''vault_write_decided''),
      (''reason'', PStr (vault_reason_name (va_reason ev))),
      (''created_at'', PStr (va_created_at ev)),
      (''request'', PDict (vault_request_metadata (va_request ev)))]"

record vault_decision =
  vd_ready :: bool
  vd_reason :: vault_reason
  vd_provider_slug :: string
  vd_connection_id :: string
  vd_secret_kind :: string
  vd_vault_ref :: "vault_secret_ref option"
  vd_audit_event :: "vault_audit_event option"

definition vault_decision_metadata :: "vault_decision \<Rightarrow> pydict" where
  "vault_decision_metadata d =
     [(''version'', PStr ''wiii_connect_vault.v1''),
      (''status'', PStr (if vd_ready d then ''ready'' else ''blocked'')),
      (''reason'', PStr (vault_reason_name (vd_reason d))),
      (''provider_slug'', PStr (vd_provider_slug d)),
      (''connection_ref_present'', PBool (vd_connection_id d \<noteq> [])),
      (''secret_kind'', PStr (vd_secret_kind d)),
      (''vault_ref'', (case vd_vault_ref d of None \<Rightarrow> PNone | Some r \<Rightarrow> PDict (vault_ref_metadata r))),
      (''audit_event'', (case vd_audit_event d of None \<Rightarrow> PNone
         | Some ev \<Rightarrow> PDict (vault_audit_metadata ev)))]"

definition vault_decision_reason ::
    "provider_entry \<Rightarrow> vault_write_request \<Rightarrow> vault_capability \<Rightarrow> vault_reason" where
  "vault_decision_reason e q c =
     (if \<not> pe_enabled e then VaultProviderDisabled
      else if \<not> vc_enabled c then VaultDisabled
      else if vw_secret_kind q \<notin> set supported_secret_kinds then UnsupportedSecretKind
      else if \<not> vw_secret_material_present q then MissingSecretMaterial
      else if \<not> vc_accepts_secret_material c then SecretMaterialNotAccepted
      else ReadyToStore)"

definition build_vault_ref ::
    "provider_entry \<Rightarrow> vault_write_request \<Rightarrow> vault_capability \<Rightarrow> vault_secret_ref" where
  "build_vault_ref e q c =
     \<lparr> vr_provider_slug = pe_slug e,
       vr_connection_id = vw_connection_id q,
       vr_vault_key_id = str_or (vc_key_namespace c) ''wiii_connect'' @ ''/''
         @ provider_kind_name (pe_provider_kind e) @ ''/'' @ pe_slug e @ ''/''
         @ vw_connection_id q @ ''/'' @ vw_secret_kind q,
       vr_secret_version = ''pending'' \<rparr>"

definition decide_vault_secret_write ::
    "string \<Rightarrow> provider_entry \<Rightarrow> vault_write_request \<Rightarrow> vault_capability option \<Rightarrow> vault_decision" where
  "decide_vault_secret_write now e q capability =
     (let c = or_default capability default_vault_capability;
          reason = vault_decision_reason e q c;
          ready = (reason = ReadyToStore)
      in \<lparr> vd_ready = ready, vd_reason = reason, vd_provider_slug = pe_slug e,
           vd_connection_id = vw_connection_id q, vd_secret_kind = vw_secret_kind q,
           vd_vault_ref = (if ready then Some (build_vault_ref e q c) else None),
           vd_audit_event =
             Some \<lparr> va_reason = reason, va_request = q, va_created_at = now \<rparr> \<rparr>)"

definition vault_status_public_metadata :: "vault_capability option \<Rightarrow> pydict" where
  "vault_status_public_metadata capability =
     vault_capability_metadata (or_default capability default_vault_capability)"

section \<open>The decision as an ordered gate\<close>

definition vault_checks ::
    "provider_entry \<times> vault_write_request \<times> vault_capability \<Rightarrow> (bool \<times> vault_reason) list" where
  "vault_checks = (\<lambda>(e, q, c).
     [(pe_enabled e, VaultProviderDisabled), (vc_enabled c, VaultDisabled),
      (vw_secret_kind q \<in> set supported_secret_kinds, UnsupportedSecretKind),
      (vw_secret_material_present q, MissingSecretMaterial),
      (vc_accepts_secret_material c, SecretMaterialNotAccepted)])"

interpretation vault: ordered_gate "\<lambda>(e, q, c). vault_decision_reason e q c" vault_checks ReadyToStore
proof
  show "(\<lambda>(e, q, c). vault_decision_reason e q c) x = first_failure (vault_checks x) ReadyToStore" for x
    by (cases x) (simp add: vault_decision_reason_def vault_checks_def)
  show "(b, r) \<in> set (vault_checks x) \<Longrightarrow> r \<noteq> ReadyToStore" for b r x
    by (cases x) (auto simp: vault_checks_def)
qed

lemma vault_ready_iff:
  "vault_decision_reason e q c = ReadyToStore \<longleftrightarrow>
     pe_enabled e \<and> can_store_external_secret c \<and> vw_secret_kind q \<in> set supported_secret_kinds
     \<and> vw_secret_material_present q"
  using vault.passes_iff [of "(e, q, c)"]
  by (auto simp: vault_checks_def can_store_external_secret_def)

lemma split_first:
  assumes "a @ x # b = a' @ x # b'" "x \<notin> set a" "x \<notin> set a'"
  shows "a = a' \<and> b = b'"
  using assms by (induction a arbitrary: a') (auto simp: Cons_eq_append_conv append_eq_Cons_conv)

lemma split_last:
  assumes "b @ x # a = b' @ x # a'" "x \<notin> set a" "x \<notin> set a'"
  shows "a = a' \<and> b = b'"
proof -
  have "rev a @ x # rev b = rev a' @ x # rev b'"
    using arg_cong [OF assms(1), of rev] by simp
  with assms(2,3) show ?thesis by (auto dest: split_first)
qed

lemma kind_no_slash: "CHR ''/'' \<notin> set (provider_kind_name k)"
  by (cases k) simp_all

lemma secret_kind_no_slash: "k \<in> set supported_secret_kinds \<Longrightarrow> CHR ''/'' \<notin> set k"
  by (auto simp: supported_secret_kinds_def)

lemma provider_kind_name_inject: "provider_kind_name k = provider_kind_name k' \<longleftrightarrow> k = k'"
  by (cases k; cases k') simp_all

definition example_vault :: vault_capability where
  "example_vault = default_vault_capability\<lparr>vc_enabled := True, vc_accepts_secret_material := True\<rparr>"

definition example_vault_write :: vault_write_request where
  "example_vault_write = \<lparr> vw_provider_slug = ''gmail'', vw_connection_id = ''a/b'',
     vw_secret_kind = ''api_key'', vw_secret_material_present = True, vw_metadata_keys = [] \<rparr>"

section \<open>Properties\<close>

text \<open>A vault write is ready exactly when the provider is enabled, the vault is enabled and accepts
  secret material, the secret kind is supported and material is present; a reference is issued
  exactly then, and never under the default capability.\<close>

theorem decide_vault_secret_write_ready_iff:
  "(vd_ready (decide_vault_secret_write now e q cap) \<longleftrightarrow>
      pe_enabled e \<and> can_store_external_secret (or_default cap default_vault_capability)
      \<and> vw_secret_kind q \<in> set supported_secret_kinds \<and> vw_secret_material_present q)
   \<and> (vd_vault_ref (decide_vault_secret_write now e q cap) \<noteq> None \<longleftrightarrow>
      vd_ready (decide_vault_secret_write now e q cap))
   \<and> \<not> vd_ready (decide_vault_secret_write now e q None)"
  by (simp_all add: decide_vault_secret_write_def Let_def vault_ready_iff or_default_def
      can_store_external_secret_def default_vault_capability_def)

text \<open>Vault keys do not collide: in one vault, with provider slugs free of slashes, two issued
  references with the same key are for the same provider kind, provider, connection and secret
  kind, whatever characters the connection ids contain.\<close>

theorem vault_key_injective:
  assumes "vd_vault_ref (decide_vault_secret_write t e q cap) = Some r"
    and "vd_vault_ref (decide_vault_secret_write t' e' q' cap) = Some r'"
    and "vr_vault_key_id r = vr_vault_key_id r'"
    and "CHR ''/'' \<notin> set (pe_slug e)" "CHR ''/'' \<notin> set (pe_slug e')"
  shows "pe_provider_kind e = pe_provider_kind e' \<and> pe_slug e = pe_slug e'
    \<and> vw_connection_id q = vw_connection_id q' \<and> vw_secret_kind q = vw_secret_kind q'"
proof -
  let ?c = "or_default cap default_vault_capability"
  have r: "r = build_vault_ref e q ?c" "vw_secret_kind q \<in> set supported_secret_kinds"
    using assms(1) by (auto simp: decide_vault_secret_write_def Let_def vault_ready_iff split: if_splits)
  have r': "r' = build_vault_ref e' q' ?c" "vw_secret_kind q' \<in> set supported_secret_kinds"
    using assms(2) by (auto simp: decide_vault_secret_write_def Let_def vault_ready_iff split: if_splits)
  let ?tail = "\<lambda>q. vw_connection_id q @ CHR ''/'' # vw_secret_kind q"
  have "provider_kind_name (pe_provider_kind e) @ CHR ''/'' # pe_slug e @ CHR ''/'' # ?tail q
      = provider_kind_name (pe_provider_kind e') @ CHR ''/'' # pe_slug e' @ CHR ''/'' # ?tail q'"
    using assms(3) by (simp add: r(1) r'(1) build_vault_ref_def)
  then have kind: "pe_provider_kind e = pe_provider_kind e'"
    and "pe_slug e @ CHR ''/'' # ?tail q = pe_slug e' @ CHR ''/'' # ?tail q'"
    by (auto dest!: split_first simp: kind_no_slash provider_kind_name_inject)
  then have "pe_slug e = pe_slug e'" and "?tail q = ?tail q'"
    using assms(4,5) by (auto dest!: split_first)
  with kind show ?thesis
    using r(2) r'(2) by (auto dest!: split_last simp: secret_kind_no_slash)
qed

theorem vault_key_injective_witness:
  "vr_vault_key_id (build_vault_ref example_entry example_vault_write example_vault)
     = ''wiii_connect/composio/gmail/a/b/api_key''
   \<and> vw_connection_id example_vault_write
     = vw_connection_id (example_vault_write\<lparr>vw_metadata_keys := [''scope'']\<rparr>)"
proof -
  let ?q' = "example_vault_write\<lparr>vw_metadata_keys := [''scope'']\<rparr>"
  have q: "vd_vault_ref (decide_vault_secret_write ''t1'' example_entry example_vault_write
      (Some example_vault)) = Some (build_vault_ref example_entry example_vault_write example_vault)"
    by code_simp
  have q': "vd_vault_ref (decide_vault_secret_write ''t2'' example_entry ?q' (Some example_vault))
      = Some (build_vault_ref example_entry ?q' example_vault)"
    by code_simp
  have slug: "CHR ''/'' \<notin> set (pe_slug example_entry)" by code_simp
  have key: "vr_vault_key_id (build_vault_ref example_entry example_vault_write example_vault)
      = vr_vault_key_id (build_vault_ref example_entry ?q' example_vault)"
    by (simp add: build_vault_ref_def)
  show ?thesis
    using vault_key_injective [OF q q' key slug slug]
    by (simp add: build_vault_ref_def example_entry_def example_vault_write_def example_vault_def
        default_vault_capability_def str_or_def)
qed

text \<open>The public metadata of a vault decision depends on the connection id, and so on the vault key
  built from it, only through its presence.\<close>

theorem vault_decision_metadata_hides_connection:
  "vault_decision_metadata (decide_vault_secret_write now e (q\<lparr>vw_connection_id := c # cs\<rparr>) cap)
   = vault_decision_metadata (decide_vault_secret_write now e (q\<lparr>vw_connection_id := d # ds\<rparr>) cap)"
  by (simp add: vault_decision_metadata_def decide_vault_secret_write_def Let_def
      vault_decision_reason_def vault_audit_metadata_def vault_request_metadata_def
      vault_ref_metadata_def build_vault_ref_def)

end
