(* ===== verification/Audit_Ledger.thy ===== *)
theory Audit_Ledger
  imports Sanitizer Argument_Keys
begin

text \<open>
  \<open>app/engine/wiii_connect/audit_ledger.py\<close>: ledger records whose metadata is sanitized when they
  are built and again when they are shown, and the in-memory ledger. The creation time is an
  argument of the constructor.
\<close>

section \<open>Metadata sanitizer\<close>

definition ledger_sensitive_markers :: "string list" where
  "ledger_sensitive_markers =
     [''authorization'', ''bearer'', ''connection_id'', ''connection_ref'', ''credential'',
      ''external_account_ref'', ''page_id'', ''password'', ''provider_payload'', ''raw_provider'',
      ''secret'', ''token'', ''vault_ref'']"

definition safe_structural_key_names :: "string list" where
  "safe_structural_key_names =
     [''argument_keys'', ''required_argument_keys'', ''missing_argument_keys'', ''data_keys'']"

definition safe_presence_key_names :: "string list" where
  "safe_presence_key_names =
     [''code_present'', ''connection_id_present'', ''connection_ref_present'',
      ''preview_evidence_present'', ''provider_connection_ref_present'', ''state_present'',
      ''vault_ref_present'']"

definition is_structural_key_name :: "string \<Rightarrow> bool" where
  "is_structural_key_name key = (py_lower (py_strip key) \<in> set safe_structural_key_names)"

definition is_sensitive_key :: "string \<Rightarrow> bool" where
  "is_sensitive_key key =
     (let normalized = py_lower (py_strip key) in
      if is_structural_key_name normalized then False
      else if normalized \<in> set safe_presence_key_names then False
      else contains_any ledger_sensitive_markers normalized)"

fun structural_loop :: "string list \<Rightarrow> pyval list \<Rightarrow> string list" where
  "structural_loop result [] = result"
| "structural_loop result (item # rest) =
     (let safe_key = safe_public_argument_key (str_or_empty item);
          result' = (if safe_key \<in> set result then result else result @ [safe_key])
      in if length result' \<ge> 50 then result' else structural_loop result' rest)"

fun sanitize_structural_key_values :: "pyval \<Rightarrow> pyval" where
  "sanitize_structural_key_values (PList xs) = PList (map PStr (structural_loop [] xs))"
| "sanitize_structural_key_values (PTuple xs) = PList (map PStr (structural_loop [] xs))"
| "sanitize_structural_key_values v = PList (map PStr (structural_loop [] [v]))"

text \<open>\<open>_sanitize_metadata\<close>, with the loop over the items of a dictionary as \<open>sanitize_meta_items\<close>.\<close>

fun sanitize_meta :: "pyval \<Rightarrow> pyval" and sanitize_meta_items :: "pydict \<Rightarrow> pydict \<Rightarrow> pydict" where
  "sanitize_meta (PDict d) = PDict (sanitize_meta_items [] d)"
| "sanitize_meta (PList xs) = PList (map sanitize_meta xs)"
| "sanitize_meta (PTuple xs) = PList (map sanitize_meta xs)"
| "sanitize_meta (PStr s) = PStr (redact_default s)"
| "sanitize_meta v = v"
| "sanitize_meta_items sanitized [] = sanitized"
| "sanitize_meta_items sanitized ((key, v) # rest) = sanitize_meta_items
     (if is_sensitive_key key then
        dict_set ''redacted_sensitive_field'' (PStr ''[redacted]'') sanitized
      else if is_structural_key_name key then
        dict_set key (sanitize_structural_key_values v) sanitized
      else dict_set key (sanitize_meta v) sanitized) rest"

definition safe_public_token :: "string \<Rightarrow> string" where
  "safe_public_token value = take 120 (py_join '' '' (py_split (redact_default value)))"

section \<open>Records and the in-memory ledger\<close>

datatype audit_kind = KSession | KCallback | KVault | KExecution | KProvider

fun audit_kind_name :: "audit_kind \<Rightarrow> string" where
  "audit_kind_name KSession = ''session''"
| "audit_kind_name KCallback = ''callback''"
| "audit_kind_name KVault = ''vault''"
| "audit_kind_name KExecution = ''execution''"
| "audit_kind_name KProvider = ''provider''"

record ledger_record =
  lr_event_kind :: audit_kind
  lr_provider_slug :: string
  lr_status :: string
  lr_reason :: string
  lr_surface :: string
  lr_metadata :: pydict
  lr_created_at :: string

definition build_audit_ledger_record ::
    "string \<Rightarrow> audit_kind \<Rightarrow> string \<Rightarrow> string \<Rightarrow> string \<Rightarrow> string \<Rightarrow> pydict option \<Rightarrow> ledger_record" where
  "build_audit_ledger_record now kind provider_slug status reason surface metadata =
     \<lparr> lr_event_kind = kind, lr_provider_slug = provider_slug, lr_status = status,
       lr_reason = reason, lr_surface = surface,
       lr_metadata = sanitize_meta_items [] (case metadata of None \<Rightarrow> [] | Some d \<Rightarrow> d),
       lr_created_at = now \<rparr>"

definition ledger_to_public_metadata :: "ledger_record \<Rightarrow> pydict" where
  "ledger_to_public_metadata r =
     [(''version'', PStr ''wiii_connect_audit_ledger.v1''),
      (''event_kind'', PStr (safe_public_token (audit_kind_name (lr_event_kind r)))),
      (''provider_slug'', PStr (safe_public_token (lr_provider_slug r))),
      (''status'', PStr (safe_public_token (lr_status r))),
      (''reason'', PStr (safe_public_token (lr_reason r))),
      (''surface'', PStr (safe_public_token (lr_surface r))),
      (''created_at'', PStr (lr_created_at r)),
      (''metadata'', sanitize_meta (PDict (lr_metadata r)))]"

definition ledger_append :: "ledger_record list \<Rightarrow> ledger_record \<Rightarrow> ledger_record list" where
  "ledger_append records r = records @ [r]"

text \<open>The slice \<open>xs[-n:]\<close>: \<open>-0\<close> is 0, so \<open>xs[-0:]\<close> is the whole list.\<close>

definition slice_last :: "nat \<Rightarrow> 'a list \<Rightarrow> 'a list" where
  "slice_last n xs = (if n = 0 then xs else drop (length xs - n) xs)"

definition recent_public_metadata :: "ledger_record list \<Rightarrow> int \<Rightarrow> pydict list" where
  "recent_public_metadata records limit =
     (let safe_limit = max 0 (min limit 200)
      in map ledger_to_public_metadata (slice_last (nat safe_limit) records))"

definition audit_ledger_status_public_metadata :: "bool \<Rightarrow> string \<Rightarrow> pydict" where
  "audit_ledger_status_public_metadata persistent backend =
     [(''version'', PStr ''wiii_connect_audit_ledger.v1''),
      (''enabled'', PBool True),
      (''persistent'', PBool persistent),
      (''backend'', PStr backend),
      (''reason'', PStr (if \<not> persistent then ''persistent_store_not_configured'' else ''ready''))]"

section \<open>What may be in a ledger\<close>

text \<open>The metadata with every value under a sensitive key forgotten.\<close>

fun erase_sensitive :: "pyval \<Rightarrow> pyval" where
  "erase_sensitive (PDict d) =
     PDict (map (\<lambda>(k, v). (k, if is_sensitive_key k then PNone
        else if is_structural_key_name k then v else erase_sensitive v)) d)"
| "erase_sensitive (PList xs) = PList (map erase_sensitive xs)"
| "erase_sensitive (PTuple xs) = PTuple (map erase_sensitive xs)"
| "erase_sensitive v = v"

fun erase_items :: "pydict \<Rightarrow> pydict" where
  "erase_items [] = []"
| "erase_items ((k, v) # d) =
     (k, if is_sensitive_key k then PNone
         else if is_structural_key_name k then v else erase_sensitive v) # erase_items d"

lemma erase_items_map: "erase_sensitive (PDict d) = PDict (erase_items d)"
  by (induction d rule: erase_items.induct) auto

text \<open>No key of the metadata, at any depth, is a sensitive one.\<close>

fun ledger_clean :: "pyval \<Rightarrow> bool" where
  "ledger_clean (PDict d) = (\<forall>(k, v) \<in> set d. \<not> is_sensitive_key k \<and> ledger_clean v)"
| "ledger_clean (PList xs) = (\<forall>x \<in> set xs. ledger_clean x)"
| "ledger_clean _ = True"

lemma redacted_field_not_sensitive [simp]: "\<not> is_sensitive_key ''redacted_sensitive_field''"
  by code_simp

lemma structural_values_clean: "ledger_clean (sanitize_structural_key_values v)"
  by (cases v) (auto simp del: structural_loop.simps)

lemma ledger_clean_set:
  "ledger_clean (PDict d) \<Longrightarrow> \<not> is_sensitive_key k \<Longrightarrow> ledger_clean v \<Longrightarrow> ledger_clean (PDict (dict_set k v d))"
  using set_dict_set [of k v d] by fastforce

lemma sanitize_meta_clean_all:
  "ledger_clean (sanitize_meta v)"
  "ledger_clean (PDict acc) \<Longrightarrow> ledger_clean (PDict (sanitize_meta_items acc d))"
proof (induction v and acc d rule: sanitize_meta_sanitize_meta_items.induct)
  case (7 acc key v rest)
  then show ?case
    by (simp del: ledger_clean.simps(1) add: ledger_clean_set structural_values_clean)
qed (simp_all del: ledger_clean.simps(1), simp_all)

lemma sanitize_meta_erase_all:
  "sanitize_meta (erase_sensitive v) = sanitize_meta v"
  "sanitize_meta_items acc (erase_items d) = sanitize_meta_items acc d"
proof (induction v and acc d rule: sanitize_meta_sanitize_meta_items.induct)
  case (7 acc key v rest)
  then show ?case by (cases "is_sensitive_key key"; cases "is_structural_key_name key") simp_all
qed (simp_all add: erase_items_map del: erase_sensitive.simps(1))

section \<open>Properties\<close>

text \<open>What the ledger stores and shows does not depend on any value held under a sensitive key:
  erasing those values from the caller's metadata, at every depth, changes neither the stored
  record nor its public form, and no sensitive key is left in it.\<close>

theorem ledger_record_hides_sensitive_values:
  "build_audit_ledger_record now kind p st re su (Some (erase_items d))
     = build_audit_ledger_record now kind p st re su (Some d)
   \<and> ledger_clean (PDict (lr_metadata (build_audit_ledger_record now kind p st re su (Some d))))
   \<and> ledger_clean (PDict (ledger_to_public_metadata r))"
proof -
  have "ledger_clean (PDict (sanitize_meta_items [] d))"
    by (rule sanitize_meta_clean_all(2)) simp
  moreover have "list_all (\<lambda>k. \<not> is_sensitive_key k)
      [''version'', ''event_kind'', ''provider_slug'', ''status'', ''reason'', ''surface'',
       ''created_at'', ''metadata'']"
    by code_simp
  ultimately show ?thesis
    by (simp add: build_audit_ledger_record_def sanitize_meta_erase_all ledger_to_public_metadata_def
        sanitize_meta_clean_all(1) del: sanitize_meta.simps)
qed

text \<open>A positive limit shows the last records, at most 200 of them, in the order they were
  appended; a limit of zero or less is cut to 0 and shows the whole ledger.\<close>

theorem recent_public_metadata_limit:
  "recent_public_metadata records limit =
     (if limit \<le> 0 then map ledger_to_public_metadata records
      else map ledger_to_public_metadata
        (drop (length records - min (nat limit) 200) records))"
  by (auto simp: recent_public_metadata_def slice_last_def Let_def min_def max_def nat_le_iff)

text \<open>After appending to the ledger, the newest record is the last one shown under every limit.\<close>

theorem recent_public_metadata_append:
  "recent_public_metadata (ledger_append records r) limit \<noteq> []
   \<and> last (recent_public_metadata (ledger_append records r) limit) = ledger_to_public_metadata r"
  by (auto simp: recent_public_metadata_def ledger_append_def slice_last_def Let_def last_map)

end
