(* ===== verification/Gateway.thy ===== *)
theory Gateway
  imports Vault Audit_Ledger
begin

text \<open>
  The two decisions that stand between a registry entry and a provider:
  \<open>scope_policy.py\<close> (Wiii's own scope grants), \<open>provider_adapters.py\<close> (may an authorization URL be
  issued) and \<open>execution_gateway.py\<close> (may a provider action run) of \<open>app/engine/wiii_connect\<close>.
\<close>

section \<open>Scope policy\<close>

definition safe_slug120 :: "string \<Rightarrow> string" where
  "safe_slug120 value =
     str_or (take 120 (dash_to_underscore (py_lower (py_strip value)))) ''unknown''"

record scope_policy =
  sp_provider_slug :: string
  sp_allowed_scopes :: scope_grant
  sp_source :: string
  sp_warnings :: "string list"

definition scope_policy_metadata :: "scope_policy \<Rightarrow> pydict" where
  "scope_policy_metadata p =
     [(''version'', PStr ''wiii_connect_scope_policy.v1''),
      (''provider_slug'', PStr (safe_slug120 (sp_provider_slug p))),
      (''allowed_scopes'', str_list (map scope_str (enabled_scopes (sp_allowed_scopes p)))),
      (''source'', PStr (safe_slug120 (sp_source p))),
      (''warnings'', str_list (map safe_slug120 (sp_warnings p)))]"

datatype scope_policy_reason = ScopeAllowed | ScopeDenied | ScopeProviderMismatch

fun scope_policy_reason_name :: "scope_policy_reason \<Rightarrow> string" where
  "scope_policy_reason_name ScopeAllowed = ''allowed''"
| "scope_policy_reason_name ScopeDenied = ''scope_policy_denied''"
| "scope_policy_reason_name ScopeProviderMismatch = ''scope_policy_provider_mismatch''"

record scope_policy_decision =
  sd_allowed :: bool
  sd_reason :: scope_policy_reason
  sd_provider_slug :: string
  sd_required_scopes :: "scope_name list"
  sd_allowed_scopes :: "scope_name list"

definition scope_decision_metadata :: "scope_policy_decision \<Rightarrow> pydict" where
  "scope_decision_metadata d =
     [(''version'', PStr ''wiii_connect_scope_policy.v1''),
      (''status'', PStr (if sd_allowed d then ''allowed'' else ''blocked'')),
      (''reason'', PStr (scope_policy_reason_name (sd_reason d))),
      (''provider_slug'', PStr (safe_slug120 (sd_provider_slug d))),
      (''required_scopes'', str_list (map scope_str (sd_required_scopes d))),
      (''allowed_scopes'', str_list (map scope_str (sd_allowed_scopes d)))]"

definition scope_policy_for_provider_entry :: "provider_entry \<Rightarrow> scope_policy" where
  "scope_policy_for_provider_entry e =
     \<lparr> sp_provider_slug = pe_slug e, sp_allowed_scopes = pe_default_scopes e,
       sp_source = ''provider_registry_default_scopes'', sp_warnings = [] \<rparr>"

definition decide_scope_policy :: "scope_policy \<Rightarrow> exec_request \<Rightarrow> scope_policy_decision" where
  "decide_scope_policy p r =
     (let required_scope = required_scope_for_mutation (xr_mutation r);
          decision = (\<lambda>allowed reason.
            \<lparr> sd_allowed = allowed, sd_reason = reason, sd_provider_slug = xr_provider_slug r,
              sd_required_scopes = [required_scope],
              sd_allowed_scopes = enabled_scopes (sp_allowed_scopes p) \<rparr>)
      in if safe_slug120 (sp_provider_slug p) \<noteq> safe_slug120 (xr_provider_slug r)
           then decision False ScopeProviderMismatch
         else if \<not> scope_allows (sp_allowed_scopes p) required_scope
           then decision False ScopeDenied
         else decision True ScopeAllowed)"

section \<open>Provider adapters\<close>

record adapter_capability =
  ac_provider_kind :: provider_kind
  ac_adapter_name :: string
  ac_bound :: bool
  ac_configured :: bool
  ac_can_create_authorization_url :: bool
  ac_can_exchange_callback :: bool
  ac_can_execute_actions :: bool
  ac_reason :: string
  ac_warnings :: "string list"

definition authorization_ready :: "adapter_capability \<Rightarrow> bool" where
  "authorization_ready a = (ac_bound a \<and> ac_configured a \<and> ac_can_create_authorization_url a)"

definition adapter_metadata :: "adapter_capability \<Rightarrow> pydict" where
  "adapter_metadata a =
     [(''version'', PStr ''wiii_connect_provider_adapter.v1''),
      (''provider_kind'', PStr (provider_kind_name (ac_provider_kind a))),
      (''adapter_name'', PStr (str_or (ac_adapter_name a)
         (provider_kind_name (ac_provider_kind a) @ ''_adapter''))),
      (''bound'', PBool (ac_bound a)),
      (''configured'', PBool (ac_configured a)),
      (''can_create_authorization_url'', PBool (ac_can_create_authorization_url a)),
      (''can_exchange_callback'', PBool (ac_can_exchange_callback a)),
      (''can_execute_actions'', PBool (ac_can_execute_actions a)),
      (''authorization_ready'', PBool (authorization_ready a)),
      (''reason'', PStr (ac_reason a)),
      (''warnings'', str_list (ac_warnings a))]"

definition default_provider_adapter_capability :: "provider_kind \<Rightarrow> adapter_capability" where
  "default_provider_adapter_capability kind =
     \<lparr> ac_provider_kind = kind, ac_adapter_name = provider_kind_name kind @ ''_adapter'',
       ac_bound = False, ac_configured = False, ac_can_create_authorization_url = False,
       ac_can_exchange_callback = False, ac_can_execute_actions = False,
       ac_reason = ''provider_adapter_not_bound'', ac_warnings = [] \<rparr>"

definition default_provider_kinds :: "provider_kind list" where
  "default_provider_kinds = [Composio, CustomOauth, Mcp, Workflow]"

text \<open>A dictionary comprehension keeps the last capability of a kind.\<close>

definition provider_adapter_status_public_metadata ::
    "provider_kind list \<Rightarrow> adapter_capability list \<Rightarrow> pydict" where
  "provider_adapter_status_public_metadata provider_kinds capabilities =
     (let kinds = (if provider_kinds \<noteq> [] then provider_kinds else default_provider_kinds);
          overrides = map_of (rev (map (\<lambda>c. (ac_provider_kind c, c)) capabilities))
      in [(''version'', PStr ''wiii_connect_provider_adapter.v1''),
          (''adapters'', PList (map (\<lambda>kind. PDict (adapter_metadata
             (or_default (overrides kind) (default_provider_adapter_capability kind)))) kinds))])"

record auth_url_request =
  aq_provider_slug :: string
  aq_surface :: string
  aq_requested_scopes :: scope_grant
  aq_state_present :: bool
  aq_redirect_uri_present :: bool
  aq_request_metadata_keys :: "string list"

definition adapter_safe_metadata_key :: "string \<Rightarrow> string" where
  "adapter_safe_metadata_key key =
     (let normalized = py_lower (py_strip key) in
      if normalized = [] then ''empty''
      else if contains_any secret_markers normalized then ''redacted_sensitive_field''
      else take 80 normalized)"

definition auth_url_request_metadata :: "auth_url_request \<Rightarrow> pydict" where
  "auth_url_request_metadata q =
     [(''provider_slug'', PStr (aq_provider_slug q)),
      (''surface'', PStr (aq_surface q)),
      (''requested_scopes'', PDict (scope_to_metadata (aq_requested_scopes q))),
      (''state_present'', PBool (aq_state_present q)),
      (''redirect_uri_present'', PBool (aq_redirect_uri_present q)),
      (''request_metadata_keys'',
         str_list (map adapter_safe_metadata_key (aq_request_metadata_keys q)))]"

datatype auth_url_reason =
    AuthProviderDisabled | MissingState | MissingRedirectUri | AuthAdapterMismatch
  | AuthAdapterNotBound | AuthAdapterNotConfigured | AuthAdapterCannotAuthorize
  | VaultNotConfigured | AuthLedgerNotPersistent | AuthorizationUrlMissing | AuthorizationUrlIssued

fun auth_url_reason_name :: "auth_url_reason \<Rightarrow> string" where
  "auth_url_reason_name AuthProviderDisabled = ''provider_disabled''"
| "auth_url_reason_name MissingState = ''missing_state''"
| "auth_url_reason_name MissingRedirectUri = ''missing_redirect_uri''"
| "auth_url_reason_name AuthAdapterMismatch = ''provider_adapter_mismatch''"
| "auth_url_reason_name AuthAdapterNotBound = ''provider_adapter_not_bound''"
| "auth_url_reason_name AuthAdapterNotConfigured = ''provider_adapter_not_configured''"
| "auth_url_reason_name AuthAdapterCannotAuthorize = ''provider_adapter_cannot_authorize''"
| "auth_url_reason_name VaultNotConfigured = ''vault_not_configured''"
| "auth_url_reason_name AuthLedgerNotPersistent = ''audit_ledger_not_persistent''"
| "auth_url_reason_name AuthorizationUrlMissing = ''authorization_url_missing''"
| "auth_url_reason_name AuthorizationUrlIssued = ''authorization_url_issued''"

text \<open>The decision with its audit event (same reason, the request, the creation time) kept flat.\<close>

record auth_url_decision =
  ad_ready :: bool
  ad_reason :: auth_url_reason
  ad_provider_slug :: string
  ad_label :: string
  ad_provider_kind :: provider_kind
  ad_auth_mode :: auth_mode
  ad_authorization_url :: string
  ad_adapter :: adapter_capability
  ad_required_next :: "string list"
  ad_request :: auth_url_request
  ad_created_at :: string

definition auth_url_decision_metadata :: "auth_url_decision \<Rightarrow> pydict" where
  "auth_url_decision_metadata d =
     [(''version'', PStr ''wiii_connect_provider_adapter.v1''),
      (''status'', PStr (if ad_ready d then ''ready'' else ''blocked'')),
      (''reason'', PStr (auth_url_reason_name (ad_reason d))),
      (''provider_slug'', PStr (ad_provider_slug d)),
      (''label'', PStr (ad_label d)),
      (''provider_kind'', PStr (provider_kind_name (ad_provider_kind d))),
      (''auth_mode'', PStr (auth_mode_name (ad_auth_mode d))),
      (''authorization_url'', PStr (if ad_ready d then ad_authorization_url d else [])),
      (''adapter'', PDict (adapter_metadata (ad_adapter d))),
      (''required_next'', str_list (ad_required_next d)),
      (''audit_event'', PDict
        [(''version'', PStr ''wiii_connect_provider_adapter.v1''),
         (''stage'', PStr ''authorization_url_decided''),
         (''reason'', PStr (auth_url_reason_name (ad_reason d))),
         (''created_at'', PStr (ad_created_at d)),
         (''request'', PDict (auth_url_request_metadata (ad_request d)))])]"

text \<open>The truth value of \<open>metadata.get("persistent")\<close>.\<close>

definition ledger_persistent :: "pydict \<Rightarrow> bool" where
  "ledger_persistent metadata =
     (case dict_get metadata ''persistent'' of None \<Rightarrow> False | Some v \<Rightarrow> truthy v)"

definition authorization_reason ::
    "provider_entry \<Rightarrow> auth_url_request \<Rightarrow> adapter_capability \<Rightarrow> vault_capability \<Rightarrow> pydict \<Rightarrow>
     string option \<Rightarrow> bool \<Rightarrow> auth_url_reason" where
  "authorization_reason e q a v ledger url require_persistent_audit =
     (if \<not> pe_enabled e then AuthProviderDisabled
      else if \<not> aq_state_present q then MissingState
      else if \<not> aq_redirect_uri_present q then MissingRedirectUri
      else if ac_provider_kind a \<noteq> pe_provider_kind e then AuthAdapterMismatch
      else if \<not> ac_bound a then AuthAdapterNotBound
      else if \<not> ac_configured a then AuthAdapterNotConfigured
      else if \<not> ac_can_create_authorization_url a then AuthAdapterCannotAuthorize
      else if \<not> can_store_external_secret v then VaultNotConfigured
      else if require_persistent_audit \<and> \<not> ledger_persistent ledger then AuthLedgerNotPersistent
      else if \<not> present url then AuthorizationUrlMissing
      else AuthorizationUrlIssued)"

fun auth_required_next :: "auth_url_reason \<Rightarrow> string list" where
  "auth_required_next AuthProviderDisabled = [''enable_provider_registry_entry'']"
| "auth_required_next MissingState = [''create_backend_state_nonce'']"
| "auth_required_next MissingRedirectUri = [''bind_backend_redirect_uri'']"
| "auth_required_next AuthAdapterMismatch = [''bind_matching_provider_adapter'']"
| "auth_required_next AuthAdapterNotBound = [''bind_provider_adapter'']"
| "auth_required_next AuthAdapterNotConfigured = [''configure_provider_adapter'']"
| "auth_required_next AuthAdapterCannotAuthorize = [''implement_authorization_url_provider'']"
| "auth_required_next VaultNotConfigured = [''configure_vault'']"
| "auth_required_next AuthLedgerNotPersistent = [''configure_persistent_audit_ledger'']"
| "auth_required_next AuthorizationUrlMissing = [''adapter_return_authorization_url'']"
| "auth_required_next AuthorizationUrlIssued = []"

text \<open>\<open>a or b\<close> on an optional dictionary: an empty dictionary counts as missing.\<close>

definition dict_or :: "pydict option \<Rightarrow> pydict \<Rightarrow> pydict" where
  "dict_or d e = (case d of None \<Rightarrow> e | Some d' \<Rightarrow> if d' = [] then e else d')"

definition decide_authorization_url ::
    "string \<Rightarrow> provider_entry \<Rightarrow> auth_url_request \<Rightarrow> adapter_capability option \<Rightarrow> vault_capability option \<Rightarrow>
     pydict option \<Rightarrow> string option \<Rightarrow> bool \<Rightarrow> auth_url_decision" where
  "decide_authorization_url now e q adapter vault ledger url require_persistent_audit =
     (let a = or_default adapter (default_provider_adapter_capability (pe_provider_kind e));
          v = or_default vault default_vault_capability;
          l = dict_or ledger (audit_ledger_status_public_metadata False ''memory_contract'');
          reason = authorization_reason e q a v l url require_persistent_audit;
          ready = (reason = AuthorizationUrlIssued)
      in \<lparr> ad_ready = ready, ad_reason = reason, ad_provider_slug = pe_slug e,
           ad_label = pe_label e, ad_provider_kind = pe_provider_kind e,
           ad_auth_mode = pe_auth_mode e,
           ad_authorization_url = (if ready then or_default url [] else []),
           ad_adapter = a, ad_required_next = auth_required_next reason,
           ad_request = q, ad_created_at = now \<rparr>)"

section \<open>Execution gateway\<close>

record gateway_decision =
  gd_decision :: exec_decision
  gd_adapter :: adapter_capability
  gd_connection_present :: bool
  gd_audit_persistent :: bool
  gd_scope_policy :: "scope_policy_decision option"
  gd_required_next :: "string list"
  gd_metadata :: pydict

definition gateway_allowed :: "gateway_decision \<Rightarrow> bool" where
  "gateway_allowed d = decision_allowed (gd_decision d)"

definition gateway_next_steps :: "(string \<times> string list) list" where
  "gateway_next_steps =
     [(''provider_disabled'', [''enable_provider_registry_entry'']),
      (''provider_not_agent_ready'',
         [''enable_curated_action_catalog'', ''enable_provider_agent_policy'']),
      (''provider_adapter_mismatch'', [''bind_matching_provider_adapter'']),
      (''provider_adapter_not_bound'', [''bind_provider_adapter'']),
      (''provider_adapter_not_configured'', [''configure_provider_adapter'']),
      (''provider_adapter_cannot_execute'', [''implement_provider_action_adapter'']),
      (''audit_ledger_not_persistent'', [''configure_persistent_audit_ledger'']),
      (''connection_selection_required'', [''select_provider_connection'']),
      (''connection_missing'', [''connect_provider_account'']),
      (''connection_provider_mismatch'', [''select_matching_connection'']),
      (''connection_not_connected'', [''refresh_or_reconnect_provider_account'']),
      (''path_not_allowed'', [''select_allowed_product_path'']),
      (''action_not_allowed'', [''curate_action_for_provider'']),
      (''missing_scope'', [''grant_required_scope'']),
      (''scope_policy_denied'', [''grant_required_scope_policy'']),
      (''missing_preview_evidence'', [''create_preview_evidence'']),
      (''missing_approval_token'', [''collect_approval_token''])]"

definition required_next_for_reason :: "string \<Rightarrow> string list" where
  "required_next_for_reason reason =
     (if reason = ''allowed'' then []
      else or_default (map_of gateway_next_steps reason) [''inspect_execution_policy''])"

text \<open>\<open>_gateway_deny\<close> builds the same value as \<open>_deny\<close> of the adapter contract.\<close>

definition gateway_deny ::
    "provider_entry \<Rightarrow> exec_request \<Rightarrow> deny_reason \<Rightarrow> scope_name list \<Rightarrow> exec_decision" where
  "gateway_deny e r reason scopes =
     \<lparr> xd_outcome = Denied, xd_reason = reason, xd_provider_slug = pe_slug e,
       xd_action_slug = xr_action_slug r, xd_path = xr_path r, xd_required_scopes = scopes,
       xd_audit_tags =
         [''provider:'' @ provider_kind_name (pe_provider_kind e),
          ''auth:'' @ auth_mode_name (pe_auth_mode e),
          ''deny:'' @ deny_reason_name reason] \<rparr>"

definition metadata_for_request :: "exec_request \<Rightarrow> scope_policy_decision option \<Rightarrow> pydict" where
  "metadata_for_request r policy =
     (''request'', PDict (request_to_audit_metadata r)) #
     (case policy of None \<Rightarrow> [] | Some d \<Rightarrow> [(''scope_policy'', PDict (scope_decision_metadata d))])"

fun safe_metadata :: "pyval \<Rightarrow> pyval" and safe_metadata_items :: "pydict \<Rightarrow> pydict \<Rightarrow> pydict" where
  "safe_metadata (PDict d) = PDict (safe_metadata_items [] d)"
| "safe_metadata (PList xs) = PList (map safe_metadata xs)"
| "safe_metadata (PTuple xs) = PList (map safe_metadata xs)"
| "safe_metadata v = v"
| "safe_metadata_items acc [] = acc"
| "safe_metadata_items acc ((key, v) # rest) = safe_metadata_items
     (if contains_any secret_markers (py_lower key)
        then dict_set ''redacted_sensitive_field'' (PStr ''[redacted]'') acc
        else dict_set key (safe_metadata v) acc) rest"

definition gateway_to_public_metadata :: "gateway_decision \<Rightarrow> pydict" where
  "gateway_to_public_metadata d =
     [(''version'', PStr ''wiii_connect_execution_gateway.v1''),
      (''adapter_version'', PStr ''wiii_connect_provider_adapter.v1''),
      (''policy_version'', PStr adapter_version),
      (''status'', PStr (if gateway_allowed d then ''allowed'' else ''blocked'')),
      (''reason'', PStr (deny_reason_name (xd_reason (gd_decision d)))),
      (''connection_present'', PBool (gd_connection_present d)),
      (''audit_persistent'', PBool (gd_audit_persistent d)),
      (''scope_policy_version'', PStr ''wiii_connect_scope_policy.v1''),
      (''scope_policy'', (case gd_scope_policy d of None \<Rightarrow> PNone
         | Some p \<Rightarrow> PDict (scope_decision_metadata p))),
      (''decision'', PDict (decision_to_metadata (gd_decision d))),
      (''adapter'', PDict (adapter_metadata (gd_adapter d))),
      (''required_next'', str_list (gd_required_next d)),
      (''metadata'', safe_metadata (PDict (gd_metadata d)))]"

text \<open>The arguments of \<open>decide_execution_gateway\<close>.\<close>

record gateway_args =
  ga_entry :: provider_entry
  ga_connection :: "connection_record option"
  ga_request :: exec_request
  ga_adapter :: "adapter_capability option"
  ga_ledger :: "pydict option"
  ga_require_persistent_audit :: bool
  ga_connection_selection_required :: bool
  ga_scope_policy :: "scope_policy option"

definition ga_resolved_adapter :: "gateway_args \<Rightarrow> adapter_capability" where
  "ga_resolved_adapter g =
     or_default (ga_adapter g) (default_provider_adapter_capability (pe_provider_kind (ga_entry g)))"

definition ga_audit_persistent :: "gateway_args \<Rightarrow> bool" where
  "ga_audit_persistent g = ledger_persistent (or_default (ga_ledger g) [])"

definition decide_execution_gateway :: "gateway_args \<Rightarrow> gateway_decision" where
  "decide_execution_gateway g =
     (let e = ga_entry g; r = ga_request g; adapter = ga_resolved_adapter g;
          audit_persistent = ga_audit_persistent g;
          policy = map_option (\<lambda>p. decide_scope_policy p r) (ga_scope_policy g);
          base = (if ga_connection_selection_required g
            then gateway_deny e r ConnectionSelectionRequired []
            else decide_external_execution e (ga_connection g) r);
          decision =
            (if \<not> decision_allowed base then base
             else if (case policy of None \<Rightarrow> False | Some d \<Rightarrow> \<not> sd_allowed d)
               then gateway_deny e r ScopePolicyDenied (sd_required_scopes (the policy))
             else if ac_provider_kind adapter \<noteq> pe_provider_kind e
               then gateway_deny e r ProviderAdapterMismatch []
             else if \<not> ac_bound adapter then gateway_deny e r ProviderAdapterNotBound []
             else if \<not> ac_configured adapter then gateway_deny e r ProviderAdapterNotConfigured []
             else if \<not> ac_can_execute_actions adapter
               then gateway_deny e r ProviderAdapterCannotExecute []
             else if ga_require_persistent_audit g \<and> \<not> audit_persistent
               then gateway_deny e r AuditLedgerNotPersistent []
             else base)
      in \<lparr> gd_decision = decision, gd_adapter = adapter,
           gd_connection_present = (ga_connection g \<noteq> None),
           gd_audit_persistent = audit_persistent, gd_scope_policy = policy,
           gd_required_next = required_next_for_reason (deny_reason_name (xd_reason decision)),
           gd_metadata = metadata_for_request r policy \<rparr>)"

section \<open>The decisions as ordered gates\<close>

definition policy_passes :: "gateway_args \<Rightarrow> bool" where
  "policy_passes g = (case ga_scope_policy g of None \<Rightarrow> True
     | Some p \<Rightarrow> sd_allowed (decide_scope_policy p (ga_request g)))"

definition gateway_checks :: "gateway_args \<Rightarrow> (bool \<times> deny_reason) list" where
  "gateway_checks g =
     (\<not> ga_connection_selection_required g, ConnectionSelectionRequired) #
     external_checks (ga_entry g, ga_connection g, ga_request g) @
     [(policy_passes g, ScopePolicyDenied),
      (ac_provider_kind (ga_resolved_adapter g) = pe_provider_kind (ga_entry g), ProviderAdapterMismatch),
      (ac_bound (ga_resolved_adapter g), ProviderAdapterNotBound),
      (ac_configured (ga_resolved_adapter g), ProviderAdapterNotConfigured),
      (ac_can_execute_actions (ga_resolved_adapter g), ProviderAdapterCannotExecute),
      (ga_require_persistent_audit g \<longrightarrow> ga_audit_persistent g, AuditLedgerNotPersistent)]"

definition gateway_reason :: "gateway_args \<Rightarrow> deny_reason" where
  "gateway_reason g = xd_reason (gd_decision (decide_execution_gateway g))"

lemma gateway_deny_is_deny: "gateway_deny = deny_external"
  by (intro ext) (simp add: gateway_deny_def deny_external_def)

lemma decision_allowed_simps [simp]:
  "\<not> decision_allowed (deny_external e r reason scopes)"
  "decision_allowed (allow_external e r)"
  by (simp_all add: decision_allowed_def)

lemma external_decision_reason:
  "xd_reason (decide_external_execution e c r) = first_failure (external_checks (e, c, r)) ReasonAllowed"
  using external.reason_checks [of "(e, c, r)"] by (simp add: external_reason_def)

lemma external_decision_allowed:
  "decision_allowed (decide_external_execution e c r) \<longleftrightarrow> (\<forall>k \<in> set (external_checks (e, c, r)). fst k)"
  by (simp add: decision_allowed_iff_reason external.passes_iff)

interpretation gateway: ordered_gate gateway_reason gateway_checks ReasonAllowed
proof
  fix g
  show "gateway_reason g = first_failure (gateway_checks g) ReasonAllowed"
  proof (cases "decision_allowed (decide_external_execution (ga_entry g) (ga_connection g) (ga_request g))")
    case True
    then have "xd_reason (decide_external_execution (ga_entry g) (ga_connection g) (ga_request g)) = ReasonAllowed"
      by (simp add: decision_allowed_iff_reason external_reason_def)
    with True show ?thesis
      by (auto simp: gateway_reason_def decide_execution_gateway_def Let_def gateway_deny_is_deny
          gateway_checks_def policy_passes_def first_failure_append external_decision_allowed
          split: option.splits)
  next
    case False
    then show ?thesis
      by (auto simp: gateway_reason_def decide_execution_gateway_def Let_def gateway_deny_is_deny
          gateway_checks_def first_failure_append external_decision_allowed external_decision_reason)
  qed
next
  fix b r g
  assume "(b, r) \<in> set (gateway_checks g)"
  then show "r \<noteq> ReasonAllowed" by (auto simp: gateway_checks_def dest: external.ok_fresh)
qed

lemma gateway_allowed_iff_reason:
  "gateway_allowed (decide_execution_gateway g) \<longleftrightarrow> gateway_reason g = ReasonAllowed"
  by (auto simp: gateway_allowed_def gateway_reason_def decide_execution_gateway_def Let_def
      gateway_deny_is_deny decision_allowed_iff_reason external_reason_def)

lemma scope_policy_passes:
  "sd_allowed (decide_scope_policy p r) \<longleftrightarrow>
     safe_slug120 (sp_provider_slug p) = safe_slug120 (xr_provider_slug r)
     \<and> scope_allows (sp_allowed_scopes p) (xr_mutation r)"
  by (simp add: decide_scope_policy_def Let_def)

lemma gateway_allowed_cases:
  "gateway_allowed (decide_execution_gateway g) \<longleftrightarrow>
     \<not> ga_connection_selection_required g
     \<and> decision_allowed (decide_external_execution (ga_entry g) (ga_connection g) (ga_request g))
     \<and> policy_passes g
     \<and> ac_provider_kind (ga_resolved_adapter g) = pe_provider_kind (ga_entry g)
     \<and> ac_bound (ga_resolved_adapter g) \<and> ac_configured (ga_resolved_adapter g)
     \<and> ac_can_execute_actions (ga_resolved_adapter g)
     \<and> (ga_require_persistent_audit g \<longrightarrow> ga_audit_persistent g)"
  unfolding gateway_allowed_iff_reason gateway.passes_iff
  by (auto simp: gateway_checks_def external_decision_allowed)

definition auth_checks ::
    "provider_entry \<times> auth_url_request \<times> adapter_capability \<times> vault_capability \<times> pydict \<times>
     string option \<times> bool \<Rightarrow> (bool \<times> auth_url_reason) list" where
  "auth_checks = (\<lambda>(e, q, a, v, l, url, req).
     [(pe_enabled e, AuthProviderDisabled), (aq_state_present q, MissingState),
      (aq_redirect_uri_present q, MissingRedirectUri),
      (ac_provider_kind a = pe_provider_kind e, AuthAdapterMismatch),
      (ac_bound a, AuthAdapterNotBound), (ac_configured a, AuthAdapterNotConfigured),
      (ac_can_create_authorization_url a, AuthAdapterCannotAuthorize),
      (can_store_external_secret v, VaultNotConfigured),
      (req \<longrightarrow> ledger_persistent l, AuthLedgerNotPersistent),
      (present url, AuthorizationUrlMissing)])"

interpretation auth_url: ordered_gate
  "\<lambda>(e, q, a, v, l, url, req). authorization_reason e q a v l url req" auth_checks AuthorizationUrlIssued
proof
  show "(\<lambda>(e, q, a, v, l, url, req). authorization_reason e q a v l url req) x
      = first_failure (auth_checks x) AuthorizationUrlIssued" for x
    by (cases x) (auto simp: authorization_reason_def auth_checks_def)
  show "(b, r) \<in> set (auth_checks x) \<Longrightarrow> r \<noteq> AuthorizationUrlIssued" for b r x
    by (cases x) (auto simp: auth_checks_def)
qed

lemma auth_issued_iff:
  "authorization_reason e q a v l url req = AuthorizationUrlIssued \<longleftrightarrow>
     pe_enabled e \<and> aq_state_present q \<and> aq_redirect_uri_present q
     \<and> ac_provider_kind a = pe_provider_kind e \<and> authorization_ready a
     \<and> can_store_external_secret v \<and> (req \<longrightarrow> ledger_persistent l) \<and> present url"
  using auth_url.passes_iff [of "(e, q, a, v, l, url, req)"]
  by (auto simp: auth_checks_def authorization_ready_def)

lemma default_capabilities_closed [simp]:
  "\<not> can_store_external_secret default_vault_capability"
  "\<not> authorization_ready (default_provider_adapter_capability k)"
  "\<not> ac_can_execute_actions (default_provider_adapter_capability k)"
  by (simp_all add: can_store_external_secret_def default_vault_capability_def
      authorization_ready_def default_provider_adapter_capability_def)

section \<open>The public form of gateway metadata\<close>

fun gateway_clean :: "pyval \<Rightarrow> bool" where
  "gateway_clean (PDict d) =
     (\<forall>(k, v) \<in> set d. \<not> contains_any secret_markers (py_lower k) \<and> gateway_clean v)"
| "gateway_clean (PList xs) = (\<forall>x \<in> set xs. gateway_clean x)"
| "gateway_clean _ = True"

lemma redacted_field_clean [simp]:
  "\<not> contains_any secret_markers (py_lower ''redacted_sensitive_field'')"
  by code_simp

lemma gateway_clean_set:
  "gateway_clean (PDict d) \<Longrightarrow> \<not> contains_any secret_markers (py_lower k) \<Longrightarrow> gateway_clean v \<Longrightarrow>
   gateway_clean (PDict (dict_set k v d))"
  using set_dict_set [of k v d] by fastforce

lemma safe_metadata_clean:
  "gateway_clean (safe_metadata v)"
  "gateway_clean (PDict acc) \<Longrightarrow> gateway_clean (PDict (safe_metadata_items acc d))"
proof (induction v and acc d rule: safe_metadata_safe_metadata_items.induct)
  case (6 acc key v rest)
  then show ?case by (simp del: gateway_clean.simps(1) add: gateway_clean_set)
qed (simp_all del: gateway_clean.simps(1), simp_all)

definition example_gateway :: gateway_args where
  "example_gateway = \<lparr> ga_entry = example_entry, ga_connection = Some example_connection,
     ga_request = example_request,
     ga_adapter = Some ((default_provider_adapter_capability Composio)
       \<lparr>ac_bound := True, ac_configured := True, ac_can_execute_actions := True\<rparr>),
     ga_ledger = Some [(''persistent'', PBool True)], ga_require_persistent_audit = True,
     ga_connection_selection_required = False,
     ga_scope_policy = Some (scope_policy_for_provider_entry example_entry) \<rparr>"

section \<open>Properties\<close>

text \<open>Property C1: the execution gateway allows an action exactly when no connection choice is open, the
  adapter contract allows it, the scope policy (if there is one) is for this provider and grants the
  mutation, a bound and configured adapter of the same kind can execute actions, and the audit
  ledger is persistent where that is required. Without an adapter nothing is allowed.\<close>

theorem decide_execution_gateway_allowed_iff:
  "(gateway_allowed (decide_execution_gateway g) \<longleftrightarrow>
      \<not> ga_connection_selection_required g
      \<and> decision_allowed (decide_external_execution (ga_entry g) (ga_connection g) (ga_request g))
      \<and> (case ga_scope_policy g of None \<Rightarrow> True
         | Some p \<Rightarrow> safe_slug120 (sp_provider_slug p) = safe_slug120 (xr_provider_slug (ga_request g))
             \<and> scope_allows (sp_allowed_scopes p) (xr_mutation (ga_request g)))
      \<and> (case ga_adapter g of None \<Rightarrow> False
         | Some a \<Rightarrow> ac_provider_kind a = pe_provider_kind (ga_entry g) \<and> ac_bound a
             \<and> ac_configured a \<and> ac_can_execute_actions a)
      \<and> (ga_require_persistent_audit g \<longrightarrow> ga_audit_persistent g))"
  by (auto simp: gateway_allowed_cases policy_passes_def scope_policy_passes ga_resolved_adapter_def
      or_default_def split: option.splits)

theorem decide_execution_gateway_allowed_iff_witness:
  "gateway_allowed (decide_execution_gateway example_gateway)
   \<and> \<not> gateway_allowed (decide_execution_gateway (example_gateway\<lparr>ga_ledger := None\<rparr>))"
  unfolding decide_execution_gateway_allowed_iff by code_simp

text \<open>A blocked gateway decision names the first check that failed, in the order of the code: all
  checks before it pass, and the decision is never a blocked one with the reason of success.\<close>

theorem gateway_reports_first_failure:
  assumes "\<not> gateway_allowed (decide_execution_gateway g)"
  shows "\<exists>before after. gateway_checks g
      = before @ (False, xd_reason (gd_decision (decide_execution_gateway g))) # after
    \<and> (\<forall>c \<in> set before. fst c)"
  using gateway.reason_is_first_failure [of g] assms
  by (simp add: gateway_allowed_iff_reason gateway_reason_def)

theorem gateway_reports_first_failure_witness:
  "\<exists>before after. gateway_checks (example_gateway\<lparr>ga_ledger := None\<rparr>)
      = before @ (False, xd_reason (gd_decision (decide_execution_gateway
          (example_gateway\<lparr>ga_ledger := None\<rparr>)))) # after
    \<and> (\<forall>c \<in> set before. fst c)"
  by (rule gateway_reports_first_failure) code_simp

text \<open>A gateway decision has no next step exactly when it is allowed, and every blocked decision
  gets a specific next step, never the fallback \<open>inspect_execution_policy\<close>.\<close>

theorem gateway_required_next:
  "(gd_required_next (decide_execution_gateway g) = []
      \<longleftrightarrow> gateway_allowed (decide_execution_gateway g))
   \<and> gd_required_next (decide_execution_gateway g) \<noteq> [''inspect_execution_policy'']"
proof -
  have "list_all (\<lambda>r. (required_next_for_reason (deny_reason_name r) = [] \<longleftrightarrow> r = ReasonAllowed)
      \<and> required_next_for_reason (deny_reason_name r) \<noteq> [''inspect_execution_policy''])
    [ReasonAllowed, ProviderDisabled, ProviderNotAgentReady, ProviderAdapterMismatch,
     ProviderAdapterNotBound, ProviderAdapterNotConfigured, ProviderAdapterCannotExecute,
     AuditLedgerNotPersistent, ConnectionSelectionRequired, ConnectionMissing,
     ConnectionProviderMismatch, ConnectionNotConnected, PathNotAllowed, ActionNotAllowed,
     MissingScope, ScopePolicyDenied, MissingPreviewEvidence, MissingApprovalToken]"
    by code_simp
  then have next_steps: "(required_next_for_reason (deny_reason_name r) = [] \<longleftrightarrow> r = ReasonAllowed)
      \<and> required_next_for_reason (deny_reason_name r) \<noteq> [''inspect_execution_policy'']" for r
    by (cases r) simp_all
  have "gd_required_next (decide_execution_gateway g)
      = required_next_for_reason (deny_reason_name (gateway_reason g))"
    by (simp add: gateway_reason_def decide_execution_gateway_def Let_def)
  with next_steps show ?thesis by (simp add: gateway_allowed_iff_reason)
qed

text \<open>The metadata a gateway decision publishes about the request has no key with a sensitive marker,
  at any depth. As \<open>key\<close> and \<open>token\<close> are markers, the argument keys and the approval flag of the
  request are themselves folded into the one redaction entry.\<close>

theorem gateway_metadata_clean:
  "gateway_clean (safe_metadata (PDict (gd_metadata d)))
   \<and> (\<exists>m. safe_metadata (PDict (metadata_for_request r policy)) = PDict m
       \<and> (\<exists>q. dict_get m ''request'' = Some (PDict q)
            \<and> dict_get q ''argument_keys'' = None \<and> dict_get q ''approval_token_present'' = None
            \<and> dict_get q ''redacted_sensitive_field'' = Some (PStr ''[redacted]'')))"
proof -
  have marks: "contains_any secret_markers (py_lower ''approval_token_present'')"
    "contains_any secret_markers (py_lower ''argument_keys'')"
    "\<not> contains_any secret_markers (py_lower ''request'')"
    "\<not> contains_any secret_markers (py_lower ''provider_slug'')"
    "\<not> contains_any secret_markers (py_lower ''action_slug'')"
    "\<not> contains_any secret_markers (py_lower ''path'')"
    "\<not> contains_any secret_markers (py_lower ''mutation'')"
    "\<not> contains_any secret_markers (py_lower ''preview_evidence_present'')"
    "\<not> contains_any secret_markers (py_lower ''request_id'')"
    "\<not> contains_any secret_markers (py_lower ''scope_policy'')"
    by code_simp+
  have "\<exists>m. safe_metadata (PDict (metadata_for_request r policy)) = PDict m
       \<and> (\<exists>q. dict_get m ''request'' = Some (PDict q)
            \<and> dict_get q ''argument_keys'' = None \<and> dict_get q ''approval_token_present'' = None
            \<and> dict_get q ''redacted_sensitive_field'' = Some (PStr ''[redacted]''))"
    by (simp add: metadata_for_request_def request_to_audit_metadata_def Let_def marks
        split: option.split)
  with safe_metadata_clean(1) show ?thesis by blast
qed

text \<open>An authorization URL is handed out exactly when the provider is enabled, state and redirect
  URI are present, a matching adapter can create URLs, the vault can store a secret, the ledger is
  persistent where required and the adapter returned a URL; otherwise the decision carries no URL
  and a next step.\<close>

theorem decide_authorization_url_ready_iff:
  "let d = decide_authorization_url now e q adapter vault ledger url req;
       a = or_default adapter (default_provider_adapter_capability (pe_provider_kind e))
   in (ad_ready d \<longleftrightarrow> pe_enabled e \<and> aq_state_present q \<and> aq_redirect_uri_present q
          \<and> ac_provider_kind a = pe_provider_kind e \<and> authorization_ready a
          \<and> can_store_external_secret (or_default vault default_vault_capability)
          \<and> (req \<longrightarrow> ledger_persistent (or_default ledger [])) \<and> present url)
      \<and> (ad_authorization_url d \<noteq> [] \<longleftrightarrow> ad_ready d)
      \<and> (ad_required_next d = [] \<longleftrightarrow> ad_ready d)"
proof -
  have steps: "auth_required_next r = [] \<longleftrightarrow> r = AuthorizationUrlIssued" for r by (cases r) simp_all
  have ledger: "ledger_persistent (dict_or ledger
        (audit_ledger_status_public_metadata False ''memory_contract''))
      = ledger_persistent (or_default ledger [])"
    by (auto simp: dict_or_def or_default_def ledger_persistent_def dict_get_def
        audit_ledger_status_public_metadata_def split: option.splits)
  have url: "authorization_reason e q a v l url req = AuthorizationUrlIssued \<Longrightarrow> or_default url [] \<noteq> []"
    for a v l by (auto simp: auth_issued_iff present_def or_default_def split: option.splits)
  show ?thesis
    unfolding Let_def
    by (simp add: decide_authorization_url_def Let_def steps url)
      (simp add: auth_issued_iff ledger)
qed

theorem decide_authorization_url_ready_iff_witness:
  "ad_ready (decide_authorization_url ''t'' example_entry
     \<lparr> aq_provider_slug = ''gmail'', aq_surface = ''desktop'', aq_requested_scopes = no_scopes,
       aq_state_present = True, aq_redirect_uri_present = True, aq_request_metadata_keys = [] \<rparr>
     (Some ((default_provider_adapter_capability Composio)
       \<lparr>ac_bound := True, ac_configured := True, ac_can_create_authorization_url := True\<rparr>))
     (Some example_vault) (Some [(''persistent'', PBool True)]) (Some ''https://x'') True)"
  by (rule iffD2 [OF conjunct1 [OF decide_authorization_url_ready_iff [unfolded Let_def]]]) code_simp

end
