(* ===== verification/Sessions.thy ===== *)
theory Sessions
  imports Gateway "HOL-Library.Multiset" "HOL-Library.List_Lexorder" "HOL-Library.Product_Lexorder" "HOL-Library.Char_ord"
begin

text \<open>
  The control plane of an authorization: \<open>provider_registry.py\<close> (the static catalogue),
  \<open>connection_sessions.py\<close> (starting an authorization) and \<open>callback_boundary.py\<close> (accepting the
  provider's callback) of \<open>app/engine/wiii_connect\<close>.
\<close>

section \<open>Provider registry\<close>

definition composio_connect_requirements :: "string list" where
  "composio_connect_requirements =
     [''oauth_or_connect_link'', ''provider_managed_vault_ref'', ''audit_ledger'']"

definition composio_agent_ready_requirements :: "string list" where
  "composio_agent_ready_requirements =
     [''scope_policy'', ''curated_action_catalog'', ''execution_gateway'']"

definition registry_entry :: "string \<Rightarrow> string \<Rightarrow> string \<Rightarrow> string \<Rightarrow> provider_entry" where
  "registry_entry slug label category description =
     \<lparr> pe_slug = slug, pe_label = label, pe_provider_kind = Composio, pe_auth_mode = AuthOauth2,
       pe_enabled = False, pe_agent_ready = False, pe_category = category,
       pe_description = description, pe_allowed_paths = [''external_app_action''],
       pe_action_allowlist = [],
       pe_requirements = composio_connect_requirements @ composio_agent_ready_requirements,
       pe_connect_requirements = composio_connect_requirements,
       pe_agent_ready_requirements = composio_agent_ready_requirements,
       pe_required_fields = [], pe_default_scopes = no_scopes,
       pe_source = ''wiii_connect_registry'', pe_warnings = [''adapter_disabled''] \<rparr>"

definition provider_registry :: "provider_entry list" where
  "provider_registry =
     [registry_entry ''facebook'' ''Facebook'' ''social''
        ''Facebook Pages/content via a brokered OAuth adapter.'',
      registry_entry ''gmail'' ''Gmail'' ''productivity''
        ''Gmail read/write actions with explicit scope gates.'',
      registry_entry ''google_calendar'' ''Google Calendar'' ''productivity''
        ''Calendar lookup and event drafting through Composio.'',
      registry_entry ''google_drive'' ''Google Drive'' ''productivity''
        ''Drive file lookup and source reference workflows.'',
      registry_entry ''notion'' ''Notion'' ''productivity''
        ''Notion workspace search and page drafting.'',
      registry_entry ''slack'' ''Slack'' ''chat''
        ''Slack workspace/channel read and message drafting.'',
      registry_entry ''github'' ''GitHub'' ''platform''
        ''GitHub issue, PR, and repository workflows.'',
      registry_entry ''airtable'' ''Airtable'' ''productivity''
        ''Airtable base lookup and record drafting.'',
      registry_entry ''asana'' ''Asana'' ''productivity''
        ''Asana project/task lookup and task drafting.'']"

definition list_provider_registry :: "provider_kind option \<Rightarrow> provider_entry list" where
  "list_provider_registry kind =
     sort_key (\<lambda>e. (provider_kind_name (pe_provider_kind e), pe_slug e))
       (case kind of None \<Rightarrow> provider_registry
        | Some k \<Rightarrow> filter (\<lambda>e. pe_provider_kind e = k) provider_registry)"

definition get_provider_entry :: "string \<Rightarrow> provider_entry option" where
  "get_provider_entry slug =
     (let key = dash_to_underscore (py_lower (py_strip slug)) in
      if key = [] then None else find (\<lambda>e. pe_slug e = key) provider_registry)"

section \<open>Connection sessions\<close>

datatype session_reason =
    SProviderDisabled | SMissingConnectPrerequisites | SAdapterNotBound | SAdapterMismatch
  | SAdapterNotConfigured | SAdapterCannotAuthorize | SMissingState | SMissingRedirectUri
  | SVaultNotConfigured | SLedgerNotPersistent | SAuthorizationUrlMissing | SAuthorizationUrlIssued

fun session_reason_name :: "session_reason \<Rightarrow> string" where
  "session_reason_name SProviderDisabled = ''provider_disabled''"
| "session_reason_name SMissingConnectPrerequisites = ''missing_connect_prerequisites''"
| "session_reason_name SAdapterNotBound = ''provider_adapter_not_bound''"
| "session_reason_name SAdapterMismatch = ''provider_adapter_mismatch''"
| "session_reason_name SAdapterNotConfigured = ''provider_adapter_not_configured''"
| "session_reason_name SAdapterCannotAuthorize = ''provider_adapter_cannot_authorize''"
| "session_reason_name SMissingState = ''missing_state''"
| "session_reason_name SMissingRedirectUri = ''missing_redirect_uri''"
| "session_reason_name SVaultNotConfigured = ''vault_not_configured''"
| "session_reason_name SLedgerNotPersistent = ''audit_ledger_not_persistent''"
| "session_reason_name SAuthorizationUrlMissing = ''authorization_url_missing''"
| "session_reason_name SAuthorizationUrlIssued = ''authorization_url_issued''"

record session_request =
  sr_provider_slug :: string
  sr_surface :: string
  sr_requested_scopes :: scope_grant
  sr_redirect_uri_present :: bool
  sr_request_metadata_keys :: "string list"

definition session_safe_metadata_key :: "string \<Rightarrow> string" where
  "session_safe_metadata_key key =
     (let normalized = py_lower (py_strip key) in
      if normalized = [] then ''empty''
      else if contains_any secret_markers normalized then ''redacted_sensitive_field''
      else take 80 normalized)"

definition session_request_metadata :: "session_request \<Rightarrow> pydict" where
  "session_request_metadata q =
     [(''provider_slug'', PStr (sr_provider_slug q)),
      (''surface'', PStr (sr_surface q)),
      (''requested_scopes'', PDict (scope_to_metadata (sr_requested_scopes q))),
      (''redirect_uri_present'', PBool (sr_redirect_uri_present q)),
      (''request_metadata_keys'',
         str_list (map session_safe_metadata_key (sr_request_metadata_keys q)))]"

record session_audit_event =
  se_stage :: string
  se_reason :: session_reason
  se_request :: session_request
  se_created_at :: string

definition session_audit_metadata :: "session_audit_event \<Rightarrow> pydict" where
  "session_audit_metadata ev =
     [(''version'', PStr ''wiii_connect_session.v1''),
      (''stage'', PStr (se_stage ev)),
      (''reason'', PStr (session_reason_name (se_reason ev))),
      (''created_at'', PStr (se_created_at ev)),
      (''request'', PDict (session_request_metadata (se_request ev)))]"

record session_status =
  ss_provider_slug :: string
  ss_label :: string
  ss_provider_kind :: provider_kind
  ss_auth_mode :: auth_mode
  ss_enabled :: bool
  ss_agent_ready :: bool
  ss_can_start_authorization :: bool
  ss_reason :: session_reason
  ss_missing_requirements :: "string list"
  ss_warnings :: "string list"

definition session_status_metadata :: "session_status \<Rightarrow> pydict" where
  "session_status_metadata s =
     [(''version'', PStr ''wiii_connect_session.v1''),
      (''provider_slug'', PStr (ss_provider_slug s)),
      (''label'', PStr (ss_label s)),
      (''provider_kind'', PStr (provider_kind_name (ss_provider_kind s))),
      (''auth_mode'', PStr (auth_mode_name (ss_auth_mode s))),
      (''enabled'', PBool (ss_enabled s)),
      (''agent_ready'', PBool (ss_agent_ready s)),
      (''can_start_authorization'', PBool (ss_can_start_authorization s)),
      (''reason'', PStr (session_reason_name (ss_reason s))),
      (''missing_requirements'', str_list (ss_missing_requirements s)),
      (''warnings'', str_list (ss_warnings s))]"

record session_decision =
  sn_ready :: bool
  sn_reason :: session_reason
  sn_provider_slug :: string
  sn_label :: string
  sn_provider_kind :: provider_kind
  sn_auth_mode :: auth_mode
  sn_authorization_url :: string
  sn_required_next :: "string list"
  sn_audit_event :: "session_audit_event option"

definition session_decision_metadata :: "session_decision \<Rightarrow> pydict" where
  "session_decision_metadata d =
     [(''version'', PStr ''wiii_connect_session.v1''),
      (''status'', PStr (if sn_ready d then ''ready'' else ''blocked'')),
      (''reason'', PStr (session_reason_name (sn_reason d))),
      (''provider_slug'', PStr (sn_provider_slug d)),
      (''label'', PStr (sn_label d)),
      (''provider_kind'', PStr (provider_kind_name (sn_provider_kind d))),
      (''auth_mode'', PStr (auth_mode_name (sn_auth_mode d))),
      (''authorization_url'', PStr (sn_authorization_url d)),
      (''required_next'', str_list (sn_required_next d)),
      (''audit_event'', (case sn_audit_event d of None \<Rightarrow> PNone
         | Some ev \<Rightarrow> PDict (session_audit_metadata ev)))]"

definition session_block_reason :: "provider_entry \<Rightarrow> string list \<Rightarrow> session_reason" where
  "session_block_reason e missing_requirements =
     (if \<not> pe_enabled e then SProviderDisabled
      else if missing_requirements \<noteq> [] then SMissingConnectPrerequisites
      else SAuthorizationUrlIssued)"

fun session_reason_from_authorization :: "auth_url_reason \<Rightarrow> session_reason" where
  "session_reason_from_authorization AuthProviderDisabled = SProviderDisabled"
| "session_reason_from_authorization AuthAdapterMismatch = SAdapterMismatch"
| "session_reason_from_authorization AuthAdapterNotBound = SAdapterNotBound"
| "session_reason_from_authorization AuthAdapterNotConfigured = SAdapterNotConfigured"
| "session_reason_from_authorization AuthAdapterCannotAuthorize = SAdapterCannotAuthorize"
| "session_reason_from_authorization MissingState = SMissingState"
| "session_reason_from_authorization MissingRedirectUri = SMissingRedirectUri"
| "session_reason_from_authorization VaultNotConfigured = SVaultNotConfigured"
| "session_reason_from_authorization AuthLedgerNotPersistent = SLedgerNotPersistent"
| "session_reason_from_authorization AuthorizationUrlMissing = SAuthorizationUrlMissing"
| "session_reason_from_authorization AuthorizationUrlIssued = SAdapterNotBound"

definition provider_connection_status_for_entry :: "provider_entry \<Rightarrow> session_status" where
  "provider_connection_status_for_entry e =
     (let missing_requirements = connection_requirements e;
          reason = session_block_reason e missing_requirements
      in \<lparr> ss_provider_slug = pe_slug e, ss_label = pe_label e,
           ss_provider_kind = pe_provider_kind e, ss_auth_mode = pe_auth_mode e,
           ss_enabled = pe_enabled e, ss_agent_ready = pe_agent_ready e,
           ss_can_start_authorization = False,
           ss_reason = (if reason = SAuthorizationUrlIssued then SAdapterNotBound else reason),
           ss_missing_requirements = missing_requirements, ss_warnings = pe_warnings e \<rparr>)"

definition provider_connection_status :: "string \<Rightarrow> session_status option" where
  "provider_connection_status slug =
     map_option provider_connection_status_for_entry (get_provider_entry slug)"

text \<open>The keyword argument \<open>authorization_url\<close> of the function is never read.\<close>

definition begin_connection_session ::
    "string \<Rightarrow> provider_entry \<Rightarrow> session_request \<Rightarrow> auth_url_decision option \<Rightarrow> session_decision" where
  "begin_connection_session now e q decision =
     (let missing_requirements = connection_requirements e;
          reason0 = session_block_reason e missing_requirements;
          (reason, required_next, url) =
            (if reason0 = SAuthorizationUrlIssued then
               (case decision of
                  None \<Rightarrow> (SAdapterNotBound, [''bind_provider_adapter''], [])
                | Some d \<Rightarrow>
                    if \<not> ad_ready d then
                      (session_reason_from_authorization (ad_reason d), ad_required_next d, [])
                    else if ad_authorization_url d = [] then
                      (SAuthorizationUrlMissing, [''adapter_return_authorization_url''], [])
                    else (reason0, missing_requirements, ad_authorization_url d))
             else (reason0, missing_requirements, []));
          ready = (reason = SAuthorizationUrlIssued \<and> url \<noteq> [])
      in \<lparr> sn_ready = ready, sn_reason = reason, sn_provider_slug = pe_slug e,
           sn_label = pe_label e, sn_provider_kind = pe_provider_kind e,
           sn_auth_mode = pe_auth_mode e, sn_authorization_url = (if ready then url else []),
           sn_required_next = required_next,
           sn_audit_event = Some \<lparr> se_stage = ''start_requested'', se_reason = reason,
             se_request = q, se_created_at = now \<rparr> \<rparr>)"

text \<open>\<open>bool(mapping.get(key, False))\<close>.\<close>

definition get_flag :: "pydict \<Rightarrow> string \<Rightarrow> bool" where
  "get_flag d key = (case dict_get d key of None \<Rightarrow> False | Some v \<Rightarrow> truthy v)"

definition scope_grant_from_mapping :: "pydict option \<Rightarrow> scope_grant" where
  "scope_grant_from_mapping d =
     (let scopes = or_default d [] in
      \<lparr> sg_read = get_flag scopes ''read'', sg_preview = get_flag scopes ''preview'',
        sg_write = get_flag scopes ''write'', sg_apply = get_flag scopes ''apply'',
        sg_admin = get_flag scopes ''admin'' \<rparr>)"

section \<open>Callbacks\<close>

datatype callback_reason =
    CbProviderDisabled | CbProviderError | CbMissingState | CbInvalidState | CbMissingCode
  | CbMissingConnectionRef | CbVaultNotConfigured | CbAdapterNotBound | CbAccepted

fun callback_reason_name :: "callback_reason \<Rightarrow> string" where
  "callback_reason_name CbProviderDisabled = ''provider_disabled''"
| "callback_reason_name CbProviderError = ''provider_error''"
| "callback_reason_name CbMissingState = ''missing_state''"
| "callback_reason_name CbInvalidState = ''invalid_state''"
| "callback_reason_name CbMissingCode = ''missing_code''"
| "callback_reason_name CbMissingConnectionRef = ''missing_connection_ref''"
| "callback_reason_name CbVaultNotConfigured = ''vault_not_configured''"
| "callback_reason_name CbAdapterNotBound = ''provider_adapter_not_bound''"
| "callback_reason_name CbAccepted = ''accepted''"

record callback_request =
  cb_provider_slug :: string
  cb_surface :: string
  cb_state_present :: bool
  cb_code_present :: bool
  cb_connection_ref_present :: bool
  cb_error_present :: bool
  cb_state_valid :: bool
  cb_request_metadata_keys :: "string list"

definition callback_safe_metadata_key :: "string \<Rightarrow> string" where
  "callback_safe_metadata_key key =
     (let normalized = py_lower (py_strip key) in
      if normalized = [] then ''empty''
      else if contains_any secret_markers normalized then ''redacted_sensitive_field''
      else take 80 normalized)"

definition callback_request_metadata :: "callback_request \<Rightarrow> pydict" where
  "callback_request_metadata q =
     [(''provider_slug'', PStr (cb_provider_slug q)),
      (''surface'', PStr (cb_surface q)),
      (''state_present'', PBool (cb_state_present q)),
      (''code_present'', PBool (cb_code_present q)),
      (''connection_ref_present'', PBool (cb_connection_ref_present q)),
      (''error_present'', PBool (cb_error_present q)),
      (''state_valid'', PBool (cb_state_valid q)),
      (''request_metadata_keys'',
         str_list (map callback_safe_metadata_key (cb_request_metadata_keys q)))]"

record callback_audit_event =
  ce_reason :: callback_reason
  ce_request :: callback_request
  ce_created_at :: string

definition callback_audit_metadata :: "callback_audit_event \<Rightarrow> pydict" where
  "callback_audit_metadata ev =
     [(''version'', PStr ''wiii_connect_callback.v1''),
      (''stage'', PStr ''callback_received''),
      (''reason'', PStr (callback_reason_name (ce_reason ev))),
      (''created_at'', PStr (ce_created_at ev)),
      (''request'', PDict (callback_request_metadata (ce_request ev)))]"

record callback_decision =
  cd_accepted :: bool
  cd_reason :: callback_reason
  cd_provider_slug :: string
  cd_label :: string
  cd_provider_kind :: provider_kind
  cd_auth_mode :: auth_mode
  cd_vault_ref_issued :: bool
  cd_connection_ref :: string
  cd_audit_event :: "callback_audit_event option"

definition callback_decision_metadata :: "callback_decision \<Rightarrow> pydict" where
  "callback_decision_metadata d =
     [(''version'', PStr ''wiii_connect_callback.v1''),
      (''status'', PStr (if cd_accepted d then ''accepted'' else ''blocked'')),
      (''reason'', PStr (callback_reason_name (cd_reason d))),
      (''provider_slug'', PStr (cd_provider_slug d)),
      (''label'', PStr (cd_label d)),
      (''provider_kind'', PStr (provider_kind_name (cd_provider_kind d))),
      (''auth_mode'', PStr (auth_mode_name (cd_auth_mode d))),
      (''vault_ref_issued'', PBool (cd_vault_ref_issued d)),
      (''connection_ref'', PStr (cd_connection_ref d)),
      (''connection_ref_present'', PBool (cd_connection_ref d \<noteq> [])),
      (''audit_event'', (case cd_audit_event d of None \<Rightarrow> PNone
         | Some ev \<Rightarrow> PDict (callback_audit_metadata ev)))]"

definition callback_reason_of ::
    "provider_entry \<Rightarrow> callback_request \<Rightarrow> bool \<Rightarrow> bool \<Rightarrow> callback_reason" where
  "callback_reason_of e q vault_ready provider_adapter_bound =
     (if \<not> pe_enabled e then CbProviderDisabled
      else if \<not> cb_state_present q then CbMissingState
      else if \<not> cb_state_valid q then CbInvalidState
      else if cb_error_present q then CbProviderError
      else if \<not> cb_code_present q \<and> \<not> cb_connection_ref_present q then CbMissingCode
      else if \<not> cb_connection_ref_present q then CbMissingConnectionRef
      else if \<not> vault_ready then CbVaultNotConfigured
      else if \<not> provider_adapter_bound then CbAdapterNotBound
      else CbAccepted)"

definition resolved_vault_ready :: "bool \<Rightarrow> vault_capability option \<Rightarrow> bool" where
  "resolved_vault_ready vault_ready capability =
     (vault_ready \<or> (case capability of None \<Rightarrow> False | Some c \<Rightarrow> can_store_external_secret c))"

definition provider_callback_decision_for_entry ::
    "string \<Rightarrow> provider_entry \<Rightarrow> callback_request \<Rightarrow> bool \<Rightarrow> vault_capability option \<Rightarrow> bool \<Rightarrow>
     callback_decision" where
  "provider_callback_decision_for_entry now e q vault_ready capability provider_adapter_bound =
     (let reason = callback_reason_of e q (resolved_vault_ready vault_ready capability)
            provider_adapter_bound;
          accepted = (reason = CbAccepted)
      in \<lparr> cd_accepted = accepted, cd_reason = reason, cd_provider_slug = pe_slug e,
           cd_label = pe_label e, cd_provider_kind = pe_provider_kind e,
           cd_auth_mode = pe_auth_mode e, cd_vault_ref_issued = accepted,
           cd_connection_ref = (if accepted then ''pending_connection_ref'' else []),
           cd_audit_event = Some \<lparr> ce_reason = reason, ce_request = q, ce_created_at = now \<rparr> \<rparr>)"

definition provider_callback_decision ::
    "string \<Rightarrow> string \<Rightarrow> callback_request \<Rightarrow> bool \<Rightarrow> vault_capability option \<Rightarrow> bool \<Rightarrow>
     callback_decision option" where
  "provider_callback_decision now slug q vault_ready capability provider_adapter_bound =
     map_option (\<lambda>e. provider_callback_decision_for_entry now e q vault_ready capability
       provider_adapter_bound) (get_provider_entry slug)"

section \<open>Registry lemmas\<close>

lemma registry_slugs:
  "map pe_slug provider_registry =
     [''facebook'', ''gmail'', ''google_calendar'', ''google_drive'', ''notion'', ''slack'',
      ''github'', ''airtable'', ''asana'']"
  by (simp add: provider_registry_def registry_entry_def)

lemma registry_entries:
  assumes "e \<in> set provider_registry"
  shows "\<not> pe_enabled e \<and> \<not> pe_agent_ready e \<and> pe_action_allowlist e = []
    \<and> pe_default_scopes e = no_scopes \<and> pe_provider_kind e = Composio"
  using assms by (auto simp: provider_registry_def registry_entry_def)

lemma find_by_key:
  "distinct (map f xs) \<Longrightarrow> x \<in> set xs \<Longrightarrow> find (\<lambda>y. f y = f x) xs = Some x"
  by (induction xs) force+

lemma get_provider_entry_Some:
  "get_provider_entry slug = Some e \<Longrightarrow> e \<in> set provider_registry"
  by (auto simp: get_provider_entry_def Let_def find_Some_iff split: if_splits)

section \<open>Gates\<close>

definition callback_checks ::
    "provider_entry \<times> callback_request \<times> bool \<times> bool \<Rightarrow> (bool \<times> callback_reason) list" where
  "callback_checks = (\<lambda>(e, q, vault_ready, bound).
     [(pe_enabled e, CbProviderDisabled), (cb_state_present q, CbMissingState),
      (cb_state_valid q, CbInvalidState), (\<not> cb_error_present q, CbProviderError),
      (cb_code_present q \<or> cb_connection_ref_present q, CbMissingCode),
      (cb_connection_ref_present q, CbMissingConnectionRef),
      (vault_ready, CbVaultNotConfigured), (bound, CbAdapterNotBound)])"

interpretation callback: ordered_gate
  "\<lambda>(e, q, vault_ready, bound). callback_reason_of e q vault_ready bound" callback_checks CbAccepted
proof
  show "(\<lambda>(e, q, vault_ready, bound). callback_reason_of e q vault_ready bound) x
      = first_failure (callback_checks x) CbAccepted" for x
    by (cases x) (simp add: callback_reason_of_def callback_checks_def)
  show "(b, r) \<in> set (callback_checks x) \<Longrightarrow> r \<noteq> CbAccepted" for b r x
    by (cases x) (auto simp: callback_checks_def)
qed

lemma callback_accepted_iff:
  "callback_reason_of e q v b = CbAccepted \<longleftrightarrow>
     pe_enabled e \<and> cb_state_present q \<and> cb_state_valid q \<and> \<not> cb_error_present q
     \<and> cb_connection_ref_present q \<and> v \<and> b"
  using callback.passes_iff [of "(e, q, v, b)"] by (auto simp: callback_checks_def)

lemma session_reason_issued:
  "session_reason_from_authorization r \<noteq> SAuthorizationUrlIssued"
  by (cases r) simp_all

lemma session_ready_iff:
  "sn_ready (begin_connection_session now e q dec) \<longleftrightarrow>
     pe_enabled e \<and> connection_requirements e = []
     \<and> (\<exists>d. dec = Some d \<and> ad_ready d \<and> ad_authorization_url d \<noteq> [])"
  by (cases dec) (simp_all add: begin_connection_session_def Let_def session_block_reason_def
      session_reason_issued)

lemma auth_decision_url:
  "ad_authorization_url (decide_authorization_url now e q a v l url req) \<noteq> [] \<longleftrightarrow>
     ad_ready (decide_authorization_url now e q a v l url req)"
  by (auto simp: decide_authorization_url_def Let_def auth_issued_iff present_def or_default_def
      split: option.splits)

section \<open>Properties\<close>

text \<open>Every provider of the catalogue is found under its slug, in any spelling with blanks around it,
  capital letters or dashes for underscores, and nothing is found that is not in the catalogue; the
  listing is a sorted permutation of it.\<close>

theorem provider_registry_lookup:
  "(\<forall>e. get_provider_entry slug = Some e \<longleftrightarrow>
        e \<in> set provider_registry \<and> pe_slug e = dash_to_underscore (py_lower (py_strip slug)))
   \<and> get_provider_entry (dash_to_underscore (py_lower (py_strip slug))) = get_provider_entry slug
   \<and> mset (list_provider_registry None) = mset provider_registry
   \<and> sorted (map (\<lambda>e. (provider_kind_name (pe_provider_kind e), pe_slug e)) (list_provider_registry None))"
proof -
  have dist: "distinct (map pe_slug provider_registry)" by (simp add: registry_slugs)
  have nonempty: "[] \<notin> pe_slug ` set provider_registry"
    unfolding set_map [symmetric] registry_slugs by simp
  have "get_provider_entry slug = Some e \<longleftrightarrow>
        e \<in> set provider_registry \<and> pe_slug e = dash_to_underscore (py_lower (py_strip slug))" for e
  proof
    assume "get_provider_entry slug = Some e"
    then show "e \<in> set provider_registry \<and> pe_slug e = dash_to_underscore (py_lower (py_strip slug))"
      by (auto simp: get_provider_entry_def Let_def find_Some_iff split: if_splits)
  next
    assume e: "e \<in> set provider_registry \<and> pe_slug e = dash_to_underscore (py_lower (py_strip slug))"
    then have "dash_to_underscore (py_lower (py_strip slug)) \<noteq> []" using nonempty by force
    with e find_by_key [OF dist, of e] show "get_provider_entry slug = Some e"
      by (simp add: get_provider_entry_def Let_def)
  qed
  moreover have "dash_to_underscore (py_lower (py_strip (dash_to_underscore (py_lower (py_strip slug)))))
      = dash_to_underscore (py_lower (py_strip slug))"
    by (simp add: py_strip_dash py_strip_lower lower_dash_commute)
  then have "get_provider_entry (dash_to_underscore (py_lower (py_strip slug))) = get_provider_entry slug"
    unfolding get_provider_entry_def by (simp only:)
  moreover have "mset (list_provider_registry None) = mset provider_registry"
    by (simp add: list_provider_registry_def)
  moreover have "sorted (map (\<lambda>e. (provider_kind_name (pe_provider_kind e), pe_slug e))
      (list_provider_registry None))"
    unfolding list_provider_registry_def by (rule sorted_sort_key)
  ultimately show ?thesis by blast
qed

text \<open>The catalogue is inert: for an entry found in it no action is allowed, no authorization URL is
  issued, no session starts, no callback is accepted and no secret is stored, whatever the request,
  the connection, the adapter, the vault and the ledger are.\<close>

theorem registry_entries_fail_closed:
  assumes "get_provider_entry slug = Some e"
  shows "\<not> decision_allowed (decide_external_execution e c r)
    \<and> \<not> gateway_allowed (decide_execution_gateway (g\<lparr>ga_entry := e\<rparr>))
    \<and> \<not> ad_ready (decide_authorization_url now e q a v l url req)
    \<and> \<not> sn_ready (begin_connection_session now e sq dec)
    \<and> \<not> cd_accepted (provider_callback_decision_for_entry now e cq vr v bound)
    \<and> \<not> vd_ready (decide_vault_secret_write now e w v)"
proof -
  have off: "\<not> pe_enabled e" using registry_entries [OF get_provider_entry_Some [OF assms]] by simp
  then have "\<not> decision_allowed (decide_external_execution e c r)" for c r
    by (simp add: external_allowed_iff)
  with off show ?thesis
    by (simp add: gateway_allowed_cases session_ready_iff provider_callback_decision_for_entry_def
        callback_accepted_iff decide_vault_secret_write_def vault_ready_iff
        decide_authorization_url_def auth_issued_iff Let_def)
qed

theorem registry_entries_fail_closed_witness:
  "\<exists>e. get_provider_entry '' Google-Drive'' = Some e
     \<and> \<not> decision_allowed (decide_external_execution e (Some example_connection) example_request)"
proof -
  have "get_provider_entry '' Google-Drive'' = Some (registry_entry ''google_drive'' ''Google Drive''
      ''productivity'' ''Drive file lookup and source reference workflows.'')"
    by code_simp
  from registry_entries_fail_closed [OF this] this show ?thesis by blast
qed

text \<open>A session starts exactly when the provider is enabled, has no open connect requirement and the
  adapter layer issued a URL, and then it hands out exactly that URL with no next step left; a
  blocked session hands out none.\<close>

theorem begin_connection_session_ready_iff:
  "let d = decide_authorization_url t e aq a v l url req;
       s = begin_connection_session now e q (Some d)
   in (sn_ready s \<longleftrightarrow> ad_ready d \<and> connection_requirements e = [])
      \<and> sn_authorization_url s = (if sn_ready s then ad_authorization_url d else [])
      \<and> (sn_reason s = SAuthorizationUrlIssued \<longleftrightarrow> sn_ready s)
      \<and> (if sn_ready s then sn_required_next s = [] else True)"
proof -
  let ?d = "decide_authorization_url t e aq a v l url req"
  have enabled: "ad_ready ?d \<Longrightarrow> pe_enabled e"
    by (auto simp: decide_authorization_url_def Let_def auth_issued_iff)
  show ?thesis
    using enabled auth_decision_url [of t e aq a v l url req]
    by (auto simp: begin_connection_session_def Let_def session_block_reason_def session_reason_issued)
qed

text \<open>A callback is accepted exactly when the provider is enabled, its state is present and valid, it
  carries a connection reference and no provider error, the vault can store and an adapter is bound;
  a vault reference and a connection reference are issued exactly then. An authorization code alone
  is never enough.\<close>

theorem provider_callback_accepted_iff:
  "let d = provider_callback_decision_for_entry now e q vr cap bound
   in (cd_accepted d \<longleftrightarrow> pe_enabled e \<and> cb_state_present q \<and> cb_state_valid q
          \<and> \<not> cb_error_present q \<and> cb_connection_ref_present q
          \<and> resolved_vault_ready vr cap \<and> bound)
      \<and> cd_vault_ref_issued d = cd_accepted d \<and> (cd_connection_ref d \<noteq> []) = cd_accepted d"
  by (simp add: provider_callback_decision_for_entry_def Let_def callback_accepted_iff)

end
