(* ===== verification/Actions.thy ===== *)
theory Actions
  imports Sessions
begin

text \<open>
  Which external action may be offered and chosen: \<open>action_catalog.py\<close> (the reviewed catalogue),
  \<open>action_policy.py\<close> (ranking and selection against a prompt) and \<open>action_authorization.py\<close>
  (mutations need an authorization the backend verified) of \<open>app/engine/wiii_connect\<close>.
  Python sets of strings are lists without duplicates.
\<close>

section \<open>The curated catalogue\<close>

record curated_action =
  ca_slug :: string
  ca_provider_slug :: string
  ca_provider_kind :: provider_kind
  ca_label :: string
  ca_mutation :: mutation
  ca_path :: string
  ca_enabled :: bool
  ca_requires_preview :: bool
  ca_requires_approval :: bool
  ca_required_scopes :: "scope_name list"
  ca_argument_keys :: "string list"
  ca_description :: string
  ca_source :: string
  ca_warnings :: "string list"

definition curated_action_metadata :: "curated_action \<Rightarrow> pydict" where
  "curated_action_metadata a =
     (let visible = str_list (model_visible_argument_keys (ca_provider_slug a) (ca_slug a)
            (ca_argument_keys a))
      in [(''version'', PStr ''wiii_connect_action_catalog.v1''),
          (''slug'', PStr (ca_slug a)),
          (''provider_slug'', PStr (ca_provider_slug a)),
          (''provider_kind'', PStr (provider_kind_name (ca_provider_kind a))),
          (''label'', PStr (ca_label a)),
          (''mutation'', PStr (scope_str (ca_mutation a))),
          (''path'', PStr (ca_path a)),
          (''enabled'', PBool (ca_enabled a)),
          (''requires_preview'', PBool (ca_requires_preview a)),
          (''requires_approval'', PBool (ca_requires_approval a)),
          (''required_scopes'', str_list (map scope_str (ca_required_scopes a))),
          (''argument_policy_version'', PStr ''wiii_connect_argument_key_policy.v1''),
          (''argument_keys'', visible),
          (''model_argument_keys'', visible),
          (''hidden_argument_count'', PInt (int (hidden_model_argument_key_count
             (ca_provider_slug a) (ca_slug a) (ca_argument_keys a)))),
          (''description'', PStr (ca_description a)),
          (''source'', PStr (ca_source a)),
          (''warnings'', str_list (ca_warnings a))])"

definition composio_action ::
    "string \<Rightarrow> string \<Rightarrow> string \<Rightarrow> mutation \<Rightarrow> bool \<Rightarrow> string list \<Rightarrow> string \<Rightarrow> string \<Rightarrow> curated_action" where
  "composio_action slug provider label mutation gated keys description warning =
     \<lparr> ca_slug = slug, ca_provider_slug = provider, ca_provider_kind = Composio, ca_label = label,
       ca_mutation = mutation, ca_path = ''external_app_action'', ca_enabled = False,
       ca_requires_preview = gated, ca_requires_approval = gated, ca_required_scopes = [mutation],
       ca_argument_keys = keys, ca_description = description,
       ca_source = ''wiii_connect_action_catalog'', ca_warnings = [warning] \<rparr>"

definition curated_actions :: "curated_action list" where
  "curated_actions =
     [composio_action ''GMAIL_FETCH_EMAILS'' ''gmail'' ''Fetch Gmail emails'' Read False
        [''query'', ''max_results'']
        (''Read-only candidate listed in current Composio Gmail docs. Enable ''
         @ ''only after a real Gmail auth-config and live tool schema are verified.'')
        ''disabled_until_live_gmail_schema_verified'',
      composio_action ''FACEBOOK_LIST_MANAGED_PAGES'' ''facebook'' ''List managed Facebook Pages''
        Read False [''fields'', ''limit'', ''after'', ''before'', ''user_id'']
        (''Read-only Facebook Page selector. It may expose Page ids and ''
         @ ''names to the authenticated user, but must not expose Page access ''
         @ ''tokens returned by Facebook/Composio.'')
        ''runtime_enabled_requires_live_facebook_schema_verification'',
      composio_action ''FACEBOOK_CREATE_POST'' ''facebook'' ''Create Facebook Page post''
        Apply True [''page_id'', ''message'', ''link'', ''published'', ''scheduled_publish_time'']
        (''Creates a text/link post on a Facebook Page. Wiii may call this ''
         @ ''only after a preview, explicit user approval, selected account, ''
         @ ''scope grant, schema verification, and audit append.'')
        ''external_mutation_requires_preview_and_approval'',
      composio_action ''FACEBOOK_CREATE_PHOTO_POST'' ''facebook'' ''Create Facebook Page photo post''
        Apply True [''page_id'', ''message'', ''photo'', ''media'', ''url'', ''published'']
        (''Creates a photo post on a Facebook Page. User-uploaded images ''
         @ ''must stay behind Wiii preview/apply and use controlled Composio ''
         @ ''file staging, never arbitrary local paths from the model.'')
        ''external_mutation_requires_preview_and_approval'']"

definition normalize_provider_slug :: "string \<Rightarrow> string" where
  "normalize_provider_slug value = dash_to_underscore (py_lower (py_strip value))"

definition normalize_action_slug :: "string \<Rightarrow> string" where
  "normalize_action_slug value = dash_to_underscore (py_upper (py_strip value))"

definition list_curated_actions :: "string option \<Rightarrow> bool \<Rightarrow> curated_action list" where
  "list_curated_actions provider_slug include_disabled =
     (let provider = normalize_provider_slug (or_default provider_slug []) in
      sort_key (\<lambda>a. (ca_provider_slug a, ca_slug a))
        (filter (\<lambda>a. (provider = [] \<or> ca_provider_slug a = provider)
           \<and> (include_disabled \<or> ca_enabled a)) curated_actions))"

definition get_curated_action :: "string \<Rightarrow> string \<Rightarrow> curated_action option" where
  "get_curated_action provider_slug action_slug =
     (let provider = normalize_provider_slug provider_slug;
          action_key = normalize_action_slug action_slug
      in if provider = [] \<or> action_key = [] then None
         else find (\<lambda>a. ca_provider_slug a = provider \<and> ca_slug a = action_key) curated_actions)"

definition normalized_slugs :: "string list \<Rightarrow> string list" where
  "normalized_slugs slugs = remdups (filter (\<lambda>s. s \<noteq> []) (map normalize_action_slug slugs))"

definition enabled_action_slugs_for_provider :: "string \<Rightarrow> string list option \<Rightarrow> string list" where
  "enabled_action_slugs_for_provider provider_slug enabled_slugs =
     (let allowed = normalized_slugs (or_default enabled_slugs []) in
      map ca_slug (filter (\<lambda>a. allowed = [] \<or> ca_slug a \<in> set allowed)
        (list_curated_actions (Some provider_slug) False)))"

definition configured_action_slugs_for_provider ::
    "string \<Rightarrow> string list \<Rightarrow> mutation list option \<Rightarrow> string list" where
  "configured_action_slugs_for_provider provider_slug enabled_slugs mutations =
     (let allowed = normalized_slugs enabled_slugs in
      if allowed = [] then []
      else let allowed_mutations = or_default mutations [] in
      map ca_slug (filter (\<lambda>a. ca_slug a \<in> set allowed
          \<and> (allowed_mutations = [] \<or> ca_mutation a \<in> set allowed_mutations))
        (list_curated_actions (Some provider_slug) True)))"

definition is_mutating :: "mutation \<Rightarrow> bool" where
  "is_mutating m = (m \<in> {Write, Apply, Admin})"

definition sorted_set :: "string list \<Rightarrow> string list" where
  "sorted_set xs = sort (remdups xs)"

definition action_catalog_summary_for_provider :: "string \<Rightarrow> string list option \<Rightarrow> pydict" where
  "action_catalog_summary_for_provider provider_slug enabled_slugs =
     (let actions = list_curated_actions (Some provider_slug) True;
          runtime_enabled = normalized_slugs (or_default enabled_slugs []);
          enabled = filter (\<lambda>a. ca_enabled a \<or> ca_slug a \<in> set runtime_enabled) actions;
          count = (\<lambda>xs. PInt (int (length xs)))
      in [(''version'', PStr ''wiii_connect_action_catalog.v1''),
          (''provider_slug'', PStr (normalize_provider_slug provider_slug)),
          (''catalog_action_count'', count actions),
          (''enabled_action_count'', count enabled),
          (''read_only_action_count'', count (filter (\<lambda>a. ca_mutation a = Read) actions)),
          (''write_action_count'', count (filter (\<lambda>a. is_mutating (ca_mutation a)) actions)),
          (''enabled_action_slugs'', str_list (map ca_slug enabled)),
          (''warnings'', str_list (sorted_set (concat (map ca_warnings actions))))])"

definition public_metadata_with_runtime_enabled :: "curated_action \<Rightarrow> bool \<Rightarrow> pydict" where
  "public_metadata_with_runtime_enabled a runtime_enabled =
     (let metadata = curated_action_metadata a in
      if runtime_enabled \<and> \<not> ca_enabled a then
        dict_set ''warnings'' (str_list (sorted_set
            (ca_warnings a @ [''runtime_enabled_requires_live_schema_verification''])))
          (dict_set ''enabled'' (PBool True) metadata)
      else metadata)"

definition action_catalog_public_metadata ::
    "string option \<Rightarrow> bool \<Rightarrow> string list option \<Rightarrow> pydict" where
  "action_catalog_public_metadata provider_slug include_disabled enabled_slugs =
     (let enabled = normalized_slugs (or_default enabled_slugs []);
          all_actions = list_curated_actions provider_slug True;
          is_on = (\<lambda>a. ca_enabled a \<or> ca_slug a \<in> set enabled);
          actions = (if include_disabled then all_actions else filter is_on all_actions);
          provider = normalize_provider_slug (or_default provider_slug [])
      in [(''version'', PStr ''wiii_connect_action_catalog.v1''),
          (''provider_slug'', if provider \<noteq> [] then PStr provider else PNone),
          (''action_count'', PInt (int (length actions))),
          (''enabled_action_count'', PInt (int (length (filter is_on actions)))),
          (''actions'', PList (map (\<lambda>a. PDict (public_metadata_with_runtime_enabled a
             (ca_slug a \<in> set enabled))) actions))])"

section \<open>Prompt tokens\<close>

text \<open>
  \<open>_ascii_fold\<close>: NFKD without combining marks, on Latin-1. The two results outside that range, the
  fraction slash of the three fractions and the Greek letter of code 181, are neither letters nor
  digits of the token pattern; a slash and the character itself stand for them.
\<close>

definition fold_char :: "char \<Rightarrow> string" where
  "fold_char c = (let n = code c in
     if n \<in> {160, 168, 175, 180, 184} then '' ''
     else if n = 170 \<or> (224 \<le> n \<and> n \<le> 229) then ''a''
     else if n = 178 then ''2'' else if n = 179 then ''3'' else if n = 185 then ''1''
     else if n = 186 \<or> (242 \<le> n \<and> n \<le> 246) then ''o''
     else if n = 188 then ''1/4'' else if n = 189 then ''1/2'' else if n = 190 then ''3/4''
     else if 192 \<le> n \<and> n \<le> 197 then ''A'' else if n = 199 then ''C''
     else if 200 \<le> n \<and> n \<le> 203 then ''E'' else if 204 \<le> n \<and> n \<le> 207 then ''I''
     else if n = 209 then ''N'' else if 210 \<le> n \<and> n \<le> 214 then ''O''
     else if 217 \<le> n \<and> n \<le> 220 then ''U'' else if n = 221 then ''Y''
     else if n = 231 then ''c'' else if 232 \<le> n \<and> n \<le> 235 then ''e''
     else if 236 \<le> n \<and> n \<le> 239 then ''i'' else if n = 241 then ''n''
     else if 249 \<le> n \<and> n \<le> 252 then ''u'' else if n \<in> {253, 255} then ''y''
     else [c])"

definition ascii_fold :: "string \<Rightarrow> string" where
  "ascii_fold value = concat (map fold_char value)"

definition is_token_char :: "char \<Rightarrow> bool" where
  "is_token_char c = ((97 \<le> code c \<and> code c \<le> 122) \<or> (48 \<le> code c \<and> code c \<le> 57))"

text \<open>\<open>re.findall(r"[a-z0-9]+", s)\<close>; the first argument is the run being read, reversed.\<close>

fun token_runs :: "string \<Rightarrow> string \<Rightarrow> string list" where
  "token_runs run [] = (if run = [] then [] else [rev run])"
| "token_runs run (c # s) =
     (if is_token_char c then token_runs (c # run) s
      else (if run = [] then [] else [rev run]) @ token_runs [] s)"

definition stopwords :: "string list" where
  "stopwords = [''a'', ''an'', ''and'', ''any'', ''cho'', ''cua'', ''de'', ''di'', ''for'', ''gi'',
     ''hay'', ''len'', ''mot'', ''of'', ''on'', ''the'', ''to'', ''toi'', ''wiii'']"

definition prompt_tokens :: "string \<Rightarrow> string list" where
  "prompt_tokens value =
     remdups (filter (\<lambda>t. t \<noteq> [] \<and> t \<notin> set stopwords)
       (token_runs [] (py_replace_char (CHR ''_'') (CHR '' '') (py_lower (ascii_fold value)))))"

section \<open>Ranking\<close>

definition mutation_aliases :: "(mutation \<times> string list) list" where
  "mutation_aliases =
     [(Read, [''check'', ''doc'', ''fetch'', ''get'', ''kiem'', ''list'', ''lay'', ''read'', ''search'',
        ''tim'', ''tra'', ''xem'']),
      (Preview, [''draft'', ''nhap'', ''preview'', ''soan'', ''xem'']),
      (Write, [''create'', ''edit'', ''tao'', ''update'', ''write'']),
      (Apply, [''dang'', ''gui'', ''post'', ''publish'', ''send'']),
      (Admin, [''admin'', ''delete'', ''remove'', ''xoa''])]"

definition prompt_mutations :: "string list \<Rightarrow> mutation list" where
  "prompt_mutations tokens =
     map fst (filter (\<lambda>(m, aliases). list_ex (\<lambda>t. t \<in> set aliases) tokens) mutation_aliases)"

definition score_action :: "curated_action \<Rightarrow> string list \<Rightarrow> mutation \<Rightarrow> int \<times> string list" where
  "score_action a tokens preferred =
     (let hits = (\<lambda>text. length (filter (\<lambda>t. t \<in> set (prompt_tokens text)) tokens));
          name_hits = hits (ca_slug a);
          label_hits = hits (ca_label a);
          description_hits = hits (ca_description a);
          mutations = prompt_mutations tokens;
          parts =
            [(ca_mutation a = preferred, 3, ''mutation_match''),
             (name_hits > 0, 4 * int name_hits, ''action_name_overlap''),
             (label_hits > 0, 2 * int label_hits, ''label_overlap''),
             (description_hits > 0, int description_hits, ''description_overlap''),
             (ca_mutation a \<in> set mutations, 5, ''verb_match''),
             (ca_mutation a \<notin> set mutations \<and> mutations \<noteq> [], - 2, ''verb_mismatch'')];
          taken = filter fst parts
      in (sum_list (map (\<lambda>(_, n, _). n) taken), map (\<lambda>(_, _, r). r) taken))"

record action_candidate =
  an_slug :: string
  an_provider_slug :: string
  an_mutation :: mutation
  an_label :: string
  an_score :: int
  an_rank_reasons :: "string list"
  an_requires_preview :: bool
  an_requires_approval :: bool

definition candidate_metadata :: "action_candidate \<Rightarrow> pydict" where
  "candidate_metadata c =
     [(''slug'', PStr (an_slug c)),
      (''provider_slug'', PStr (an_provider_slug c)),
      (''mutation'', PStr (scope_str (an_mutation c))),
      (''label'', PStr (an_label c)),
      (''score'', PInt (an_score c)),
      (''rank_reasons'', str_list (an_rank_reasons c)),
      (''requires_preview'', PBool (an_requires_preview c)),
      (''requires_approval'', PBool (an_requires_approval c))]"

definition safe_mutation :: "string \<Rightarrow> mutation" where
  "safe_mutation value =
     (let mutation = py_lower (py_strip value) in
      or_default (find (\<lambda>m. scope_str m = mutation) [Read, Preview, Write, Apply, Admin]) Read)"

definition allowed_action_set :: "string list \<Rightarrow> string list" where
  "allowed_action_set values = remdups (filter (\<lambda>s. s \<noteq> []) (map action_slug120 values))"

definition make_candidate :: "string list \<Rightarrow> mutation \<Rightarrow> curated_action \<Rightarrow> action_candidate" where
  "make_candidate tokens preferred a =
     (let (score, reasons) = score_action a tokens preferred in
      \<lparr> an_slug = ca_slug a, an_provider_slug = ca_provider_slug a, an_mutation = ca_mutation a,
        an_label = ca_label a, an_score = score, an_rank_reasons = reasons,
        an_requires_preview = ca_requires_preview a, an_requires_approval = ca_requires_approval a \<rparr>)"

definition rank_action_candidates ::
    "string \<Rightarrow> string list \<Rightarrow> string \<Rightarrow> string \<Rightarrow> int \<Rightarrow> action_candidate list" where
  "rank_action_candidates provider_slug action_allowlist prompt preferred_mutation max_results =
     (let provider = provider_slug80 provider_slug;
          allowed = allowed_action_set action_allowlist;
          preferred = safe_mutation preferred_mutation;
          tokens = prompt_tokens prompt;
          ranked = map (make_candidate tokens preferred)
            (filter (\<lambda>a. ca_slug a \<in> set allowed) (list_curated_actions (Some provider) True))
      in take (nat (max 1 max_results))
           (sort_key (\<lambda>c. (- an_score c, an_provider_slug c, an_slug c)) ranked))"

definition enabled_action_slugs_for_providers ::
    "string list \<Rightarrow> (string \<times> string list) list \<Rightarrow> string list" where
  "enabled_action_slugs_for_providers provider_slugs allowlists =
     sorted_set (concat (map (\<lambda>p. allowed_action_set (or_default (dict_get allowlists p) []))
       (filter (\<lambda>p. p \<noteq> []) (remdups (map provider_slug80 provider_slugs)))))"

section \<open>Selection\<close>

datatype policy_reason =
    SelectedExplicitAction | SelectedSingleReadAction | MissingProviderSlug | UnknownCuratedAction
  | ActionNotAllowlisted | NoEnabledActions | ExplicitActionRequiredForMutation
  | AmbiguousActionSelection

fun policy_reason_name :: "policy_reason \<Rightarrow> string" where
  "policy_reason_name SelectedExplicitAction = ''selected_explicit_action''"
| "policy_reason_name SelectedSingleReadAction = ''selected_single_read_action''"
| "policy_reason_name MissingProviderSlug = ''missing_provider_slug''"
| "policy_reason_name UnknownCuratedAction = ''unknown_curated_action''"
| "policy_reason_name ActionNotAllowlisted = ''action_not_allowlisted''"
| "policy_reason_name NoEnabledActions = ''no_enabled_actions''"
| "policy_reason_name ExplicitActionRequiredForMutation = ''explicit_action_required_for_mutation''"
| "policy_reason_name AmbiguousActionSelection = ''ambiguous_action_selection''"

record policy_decision =
  pd_status_selected :: bool
  pd_reason :: policy_reason
  pd_provider_slug :: string
  pd_requested_action_slug :: string
  pd_requested_mutation :: mutation
  pd_action_slug :: string
  pd_selected_action :: "curated_action option"
  pd_candidates :: "action_candidate list"

definition policy_selected :: "policy_decision \<Rightarrow> bool" where
  "policy_selected d = (pd_status_selected d \<and> pd_selected_action d \<noteq> None)"

definition policy_decision_metadata :: "policy_decision \<Rightarrow> pydict" where
  "policy_decision_metadata d =
     [(''version'', PStr ''wiii_connect_action_policy.v1''),
      (''status'', PStr (if pd_status_selected d then ''selected'' else ''blocked'')),
      (''reason'', PStr (policy_reason_name (pd_reason d))),
      (''provider_slug'', PStr (pd_provider_slug d)),
      (''requested_action_slug'', PStr (pd_requested_action_slug d)),
      (''requested_mutation'', PStr (scope_str (pd_requested_mutation d))),
      (''action_slug'', PStr (pd_action_slug d)),
      (''candidate_count'', PInt (int (length (pd_candidates d)))),
      (''candidates'', PList (map (\<lambda>c. PDict (candidate_metadata c)) (pd_candidates d)))]"

definition list_or :: "'a list \<Rightarrow> 'a list \<Rightarrow> 'a list" where
  "list_or xs ys = (if xs \<noteq> [] then xs else ys)"

definition select_action ::
    "string \<Rightarrow> string \<Rightarrow> string \<Rightarrow> string list \<Rightarrow> string \<Rightarrow> policy_decision" where
  "select_action provider_slug action_slug mutation action_allowlist prompt =
     (let provider = provider_slug80 provider_slug;
          requested_action = action_slug120 action_slug;
          requested_mutation = safe_mutation mutation;
          blocked = (\<lambda>reason slug cands.
            \<lparr> pd_status_selected = False, pd_reason = reason, pd_provider_slug = provider,
              pd_requested_action_slug = requested_action,
              pd_requested_mutation = requested_mutation, pd_action_slug = slug,
              pd_selected_action = None, pd_candidates = cands \<rparr>)
      in if provider = [] then blocked MissingProviderSlug [] []
      else let allowed = allowed_action_set action_allowlist;
          candidates = rank_action_candidates provider allowed prompt (scope_str requested_mutation) 8
      in if allowed = [] then blocked NoEnabledActions [] candidates
      else if requested_action \<noteq> [] then
        (case get_curated_action provider requested_action of
           None \<Rightarrow> blocked UnknownCuratedAction requested_action candidates
         | Some action \<Rightarrow>
             if ca_slug action \<notin> set allowed
               then blocked ActionNotAllowlisted (ca_slug action) candidates
             else (blocked SelectedExplicitAction (ca_slug action) candidates)
               \<lparr>pd_status_selected := True, pd_selected_action := Some action\<rparr>)
      else let mutation_candidates = filter (\<lambda>c. an_mutation c = requested_mutation) candidates
      in if is_mutating requested_mutation \<or> requested_mutation = Preview
        then blocked ExplicitActionRequiredForMutation [] (list_or mutation_candidates candidates)
      else (case mutation_candidates of
          [c] \<Rightarrow> (blocked SelectedSingleReadAction (an_slug c) mutation_candidates)
            \<lparr>pd_status_selected := True,
             pd_selected_action := get_curated_action provider (an_slug c)\<rparr>
        | [] \<Rightarrow> blocked NoEnabledActions [] candidates
        | _ \<Rightarrow> blocked AmbiguousActionSelection [] (list_or mutation_candidates candidates)))"

section \<open>Authorization of mutations\<close>

datatype authorization_status = NotRequired | Verified | AuthRequired

fun authorization_status_name :: "authorization_status \<Rightarrow> string" where
  "authorization_status_name NotRequired = ''not_required''"
| "authorization_status_name Verified = ''verified''"
| "authorization_status_name AuthRequired = ''required''"

fun authorization_reason_name :: "authorization_status \<Rightarrow> string" where
  "authorization_reason_name NotRequired = ''non_mutating_action''"
| "authorization_reason_name Verified = ''verified_backend_authorization''"
| "authorization_reason_name AuthRequired = ''backend_verified_authorization_required''"

text \<open>The reason of an authorization is a function of its status, so the record has only the status.\<close>

record action_authorization =
  aa_status :: authorization_status
  aa_mutation :: mutation
  aa_trusted_preview_evidence_id :: "string option"
  aa_trusted_approval_token_present :: bool
  aa_caller_preview_evidence_present :: bool
  aa_caller_approval_token_present :: bool
  aa_caller_authorization_ignored :: bool

definition authorization_metadata :: "action_authorization \<Rightarrow> pydict" where
  "authorization_metadata a =
     [(''version'', PStr ''wiii_connect_action_authorization.v1''),
      (''status'', PStr (authorization_status_name (aa_status a))),
      (''reason'', PStr (authorization_reason_name (aa_status a))),
      (''mutation'', PStr (scope_str (aa_mutation a))),
      (''trusted_preview_evidence_present'', PBool (present (aa_trusted_preview_evidence_id a))),
      (''trusted_approval_present'', PBool (aa_trusted_approval_token_present a)),
      (''caller_preview_evidence_present'', PBool (aa_caller_preview_evidence_present a)),
      (''caller_approval_present'', PBool (aa_caller_approval_token_present a)),
      (''caller_claim_ignored'', PBool (aa_caller_authorization_ignored a))]"

definition safe_public_id :: "string option \<Rightarrow> string option" where
  "safe_public_id value =
     (let text = py_strip (or_default value []) in
      if text = [] then None
      else if contains_any [''token'', ''secret'', ''password''] (py_lower text) then None
      else Some (take 160 text))"

definition resolve_action_authorization ::
    "string \<Rightarrow> string option \<Rightarrow> bool \<Rightarrow> bool \<Rightarrow> action_authorization" where
  "resolve_action_authorization mutation preview_evidence_id approval_token_present verified =
     (let m = safe_mutation mutation;
          caller_preview = present (safe_public_id preview_evidence_id);
          result = \<lparr> aa_status = NotRequired, aa_mutation = m,
            aa_trusted_preview_evidence_id = None, aa_trusted_approval_token_present = False,
            aa_caller_preview_evidence_present = caller_preview,
            aa_caller_approval_token_present = approval_token_present,
            aa_caller_authorization_ignored = False \<rparr>
      in if \<not> is_mutating m then result
         else if verified then result
           \<lparr>aa_status := Verified,
            aa_trusted_preview_evidence_id := safe_public_id preview_evidence_id,
            aa_trusted_approval_token_present := approval_token_present\<rparr>
         else result
           \<lparr>aa_status := AuthRequired,
            aa_caller_authorization_ignored := caller_preview \<or> approval_token_present\<rparr>)"

section \<open>Catalogue lemmas\<close>

definition allowed_catalog :: "string \<Rightarrow> string list \<Rightarrow> curated_action list" where
  "allowed_catalog provider allowlist =
     filter (\<lambda>a. ca_slug a \<in> set (allowed_action_set allowlist))
       (list_curated_actions (Some (provider_slug80 provider)) True)"

lemma curated_slugs:
  "map (\<lambda>a. (ca_provider_slug a, ca_slug a)) curated_actions =
     [(''gmail'', ''GMAIL_FETCH_EMAILS''), (''facebook'', ''FACEBOOK_LIST_MANAGED_PAGES''),
      (''facebook'', ''FACEBOOK_CREATE_POST''), (''facebook'', ''FACEBOOK_CREATE_PHOTO_POST'')]"
  by (simp add: curated_actions_def composio_action_def)

lemma length_curated: "length curated_actions = 4"
  by (simp add: curated_actions_def)

lemma set_list_curated:
  "a \<in> set (list_curated_actions p True) \<longleftrightarrow>
     a \<in> set curated_actions \<and> (normalize_provider_slug (or_default p []) = []
       \<or> ca_provider_slug a = normalize_provider_slug (or_default p []))"
  by (auto simp: list_curated_actions_def Let_def)

lemma length_list_curated: "length (list_curated_actions p b) \<le> 4"
  using length_filter_le [of _ curated_actions] by (simp add: list_curated_actions_def Let_def length_curated)

lemma curated_slug_normal:
  "a \<in> set curated_actions \<Longrightarrow> normalize_action_slug (ca_slug a) = ca_slug a \<and> ca_slug a \<noteq> []"
proof -
  have "list_all (\<lambda>a. normalize_action_slug (ca_slug a) = ca_slug a \<and> ca_slug a \<noteq> []) curated_actions"
    by code_simp
  then show "a \<in> set curated_actions \<Longrightarrow> ?thesis" by (simp add: list_all_iff)
qed

lemma get_curated_Some:
  "get_curated_action p s = Some a \<longleftrightarrow>
     a \<in> set curated_actions \<and> ca_provider_slug a = normalize_provider_slug p
     \<and> ca_slug a = normalize_action_slug s \<and> normalize_provider_slug p \<noteq> []"
proof -
  have dist: "distinct (map (\<lambda>a. (ca_provider_slug a, ca_slug a)) curated_actions)"
    by (simp add: curated_slugs)
  show ?thesis (is "?l \<longleftrightarrow> ?r")
  proof
    assume ?l
    then show ?r by (auto simp: get_curated_action_def Let_def find_Some_iff split: if_splits)
  next
    assume r: ?r
    then have "find (\<lambda>b. (ca_provider_slug b, ca_slug b) = (ca_provider_slug a, ca_slug a)) curated_actions
        = Some a"
      using dist by (intro find_by_key) auto
    then have "find (\<lambda>b. ca_provider_slug b = normalize_provider_slug p
        \<and> ca_slug b = normalize_action_slug s) curated_actions = Some a"
      using r by simp
    moreover have "normalize_action_slug s \<noteq> []" using r curated_slug_normal [of a] by auto
    ultimately show ?l using r by (simp add: get_curated_action_def Let_def)
  qed
qed

lemma make_candidate_simps [simp]:
  "an_slug (make_candidate ts m a) = ca_slug a"
  "an_provider_slug (make_candidate ts m a) = ca_provider_slug a"
  "an_mutation (make_candidate ts m a) = ca_mutation a"
  by (simp_all add: make_candidate_def split: prod.split)

lemma rank_mset:
  "mset (rank_action_candidates provider allowlist prompt pref 8) =
     mset (map (make_candidate (prompt_tokens prompt) (safe_mutation pref))
       (allowed_catalog provider allowlist))"
proof -
  have "length (allowed_catalog provider allowlist)
      \<le> length (list_curated_actions (Some (provider_slug80 provider)) True)"
    unfolding allowed_catalog_def by (rule length_filter_le)
  also have "\<dots> \<le> 4" by (rule length_list_curated)
  finally have len: "length (allowed_catalog provider allowlist) \<le> 8" by simp
  have "rank_action_candidates provider allowlist prompt pref 8
      = take 8 (sort_key (\<lambda>c. (- an_score c, an_provider_slug c, an_slug c))
          (map (make_candidate (prompt_tokens prompt) (safe_mutation pref))
            (allowed_catalog provider allowlist)))"
    by (simp add: rank_action_candidates_def Let_def allowed_catalog_def)
  also have "\<dots> = sort_key (\<lambda>c. (- an_score c, an_provider_slug c, an_slug c))
          (map (make_candidate (prompt_tokens prompt) (safe_mutation pref))
            (allowed_catalog provider allowlist))"
    using len by (intro take_all) (simp only: length_sort length_map)
  finally show ?thesis by (simp only: mset_sort)
qed

lemma mutation_candidates_mset:
  "mset (map an_slug (filter (\<lambda>c. an_mutation c = m) (rank_action_candidates provider al prompt pref 8)))
     = mset (map ca_slug (filter (\<lambda>a. ca_mutation a = m) (allowed_catalog provider al)))"
  by (simp add: rank_mset mset_filter filter_mset_image_mset image_mset.compositionality comp_def)

lemma set_rank:
  "set (rank_action_candidates provider al prompt pref 8)
     = make_candidate (prompt_tokens prompt) (safe_mutation pref) ` set (allowed_catalog provider al)"
  using arg_cong [OF rank_mset, of set_mset] by simp

lemma dropWhile_take_nonempty: "py_strip (take n (py_strip s)) = [] \<longleftrightarrow> take n (py_strip s) = []"
proof
  assume blank: "py_strip (take n (py_strip s)) = []"
  show "take n (py_strip s) = []"
  proof (rule ccontr)
    assume nonempty: "take n (py_strip s) \<noteq> []"
    then obtain c cs where t: "take n (py_strip s) = c # cs" by (cases "take n (py_strip s)") auto
    then have hd: "hd (py_strip s) = c" by (cases "py_strip s"; cases n) auto
    have "py_strip s = dropWhile py_isspace (py_rstrip s)"
      by (metis py_lstrip_def py_rstrip_lstrip_commute py_strip_def)
    then have "\<not> py_isspace c"
      using dropWhile_hd [of py_isspace "py_rstrip s"] nonempty hd by auto
    then have "c \<in> set (py_strip (c # cs))"
      by (simp add: py_strip_def py_lstrip_def py_rstrip_def dropWhile_append)
    with blank t show False by simp
  qed
qed (simp only: py_strip_Nil)

lemma normalize_provider_slug80:
  "normalize_provider_slug (provider_slug80 p) = [] \<longleftrightarrow> provider_slug80 p = []"
proof -
  have "provider_slug80 p = dash_to_underscore (py_lower (take 80 (py_strip p)))"
    by (simp add: provider_slug80_def dash_to_underscore_def py_replace_char_def py_lower_def take_map)
  then show ?thesis
    using dropWhile_take_nonempty [of 80 p]
    by (simp add: normalize_provider_slug_def py_strip_dash py_strip_lower flip: length_0_conv)
qed

lemma allowed_catalog_in:
  "a \<in> set (allowed_catalog p al) \<Longrightarrow> provider_slug80 p \<noteq> [] \<Longrightarrow>
   a \<in> set curated_actions \<and> ca_provider_slug a = normalize_provider_slug (provider_slug80 p)
   \<and> ca_slug a \<in> set (allowed_action_set al)"
  by (auto simp: allowed_catalog_def set_list_curated or_default_def normalize_provider_slug80)

lemma normalize_provider_slug_idem [simp]:
  "normalize_provider_slug (normalize_provider_slug p) = normalize_provider_slug p"
  by (simp add: normalize_provider_slug_def py_strip_dash py_strip_lower lower_dash_commute)

lemma provider_slug80_again:
  "provider_slug80 (provider_slug80 p) = normalize_provider_slug (provider_slug80 p)"
proof -
  have "length (py_strip (provider_slug80 p)) \<le> 80"
    using length_py_strip_le [of "provider_slug80 p"] by (simp add: provider_slug80_def)
  then show ?thesis
    by (simp add: provider_slug80_def [of "provider_slug80 p"] normalize_provider_slug_def)
qed

lemma safe_mutation_name [simp]: "safe_mutation (scope_str m) = m"
proof -
  have "list_all (\<lambda>m. safe_mutation (scope_str m) = m) [Read, Preview, Write, Apply, Admin]"
    by code_simp
  then show ?thesis by (cases m) simp_all
qed

section \<open>Properties\<close>

text \<open>What is selected never depends on the prompt: for the same provider, requested action,
  mutation and allowlist, any two prompts give the same status, reason, action slug and action. The
  prompt only orders the diagnostic candidates.\<close>

theorem select_action_prompt_independent:
  "let d = select_action p a m al prompt; d' = select_action p a m al prompt'
   in pd_status_selected d = pd_status_selected d' \<and> pd_reason d = pd_reason d'
     \<and> pd_action_slug d = pd_action_slug d' \<and> pd_selected_action d = pd_selected_action d'"
proof -
  let ?mc = "\<lambda>prompt. filter (\<lambda>c. an_mutation c = safe_mutation m) (rank_action_candidates
      (provider_slug80 p) (allowed_action_set al) prompt (scope_str (safe_mutation m)) 8)"
  have "mset (map an_slug (?mc prompt)) = mset (map an_slug (?mc prompt'))"
    by (simp only: mutation_candidates_mset)
  then consider "?mc prompt = []" "?mc prompt' = []"
    | c c' where "?mc prompt = [c]" "?mc prompt' = [c']" "an_slug c = an_slug c'"
    | c1 c2 cs c1' c2' cs' where "?mc prompt = c1 # c2 # cs" "?mc prompt' = c1' # c2' # cs'"
    by (cases "?mc prompt" rule: remdups_adj.cases; cases "?mc prompt'" rule: remdups_adj.cases)
      (auto simp: add_mset_eq_single single_eq_add_mset)
  then show ?thesis
    by cases (auto simp: select_action_def Let_def split: option.split)
qed

text \<open>An action is selected only if it is reviewed for that provider and either was named by the
  request and is on the allowlist, or is the one allowlisted read action of a read request. No
  mutating action is ever selected without being named.\<close>

theorem select_action_selected:
  assumes "policy_selected (select_action p a m al prompt)"
  shows "\<exists>act. pd_selected_action (select_action p a m al prompt) = Some act
    \<and> act \<in> set curated_actions
    \<and> ca_provider_slug act = normalize_provider_slug (provider_slug80 p)
    \<and> ca_slug act = pd_action_slug (select_action p a m al prompt)
    \<and> (if action_slug120 a \<noteq> []
       then ca_slug act = normalize_action_slug (action_slug120 a) \<and> ca_slug act \<in> set (allowed_action_set al)
       else safe_mutation m = Read \<and> ca_mutation act = Read
          \<and> ca_slug act \<in> set (allowed_action_set (allowed_action_set al)))"
proof -
  let ?p = "provider_slug80 p" and ?al = "allowed_action_set al"
  let ?mc = "filter (\<lambda>c. an_mutation c = safe_mutation m)
      (rank_action_candidates ?p ?al prompt (scope_str (safe_mutation m)) 8)"
  have provider: "?p \<noteq> []" and allowed: "?al \<noteq> []"
    using assms by (auto simp: policy_selected_def select_action_def Let_def split: if_splits)
  show ?thesis
  proof (cases "action_slug120 a = []")
    case False
    then show ?thesis
      using assms provider allowed
      by (auto simp: policy_selected_def select_action_def Let_def get_curated_Some
          split: option.splits if_splits)
  next
    case True
    have read: "safe_mutation m = Read"
      using assms provider allowed True
      by (cases "safe_mutation m")
        (auto simp: policy_selected_def select_action_def Let_def is_mutating_def)
    obtain c where mc: "?mc = [c]"
      using assms provider allowed True read
      by (auto simp: policy_selected_def select_action_def Let_def is_mutating_def
          split: list.splits)
    then have "c \<in> set ?mc" by simp
    then obtain act where act: "act \<in> set (allowed_catalog ?p ?al)" "an_slug c = ca_slug act"
        "ca_mutation act = Read"
      using read by (auto simp: set_rank)
    have in_catalog: "act \<in> set curated_actions" "ca_provider_slug act = normalize_provider_slug ?p"
        "ca_slug act \<in> set (allowed_action_set ?al)"
      using allowed_catalog_in [OF act(1)] provider
      by (simp_all add: provider_slug80_again normalize_provider_slug_idem normalize_provider_slug80)
    then have "get_curated_action ?p (ca_slug act) = Some act"
      using curated_slug_normal [of act] normalize_provider_slug80 [of p] provider
      by (simp add: get_curated_Some)
    then show ?thesis
      using provider allowed True read mc act in_catalog
      by (simp add: select_action_def Let_def is_mutating_def)
  qed
qed

theorem select_action_selected_witness:
  "\<exists>act. pd_selected_action (select_action ''facebook'' '''' ''read'' [''facebook-list-managed-pages''] [])
      = Some act \<and> ca_mutation act = Read"
proof -
  have sel: "policy_selected (select_action ''facebook'' '''' ''read'' [''facebook-list-managed-pages''] [])"
    by code_simp
  have "action_slug120 [] = []" by code_simp
  with select_action_selected [OF sel] show ?thesis by auto
qed

text \<open>The ranking lists each allowlisted curated action of the provider exactly once, best score
  first, ties by provider and slug: with the catalogue as it is, the limit of eight cuts nothing.\<close>

theorem rank_action_candidates_complete:
  "mset (map an_slug (rank_action_candidates p al prompt pref 8))
     = mset (map ca_slug (filter (\<lambda>a. ca_slug a \<in> set (allowed_action_set al))
         (list_curated_actions (Some (provider_slug80 p)) True)))
   \<and> sorted (map (\<lambda>c. (- an_score c, an_provider_slug c, an_slug c))
        (rank_action_candidates p al prompt pref 8))"
proof -
  have "sorted (map (\<lambda>c. (- an_score c, an_provider_slug c, an_slug c))
        (rank_action_candidates p al prompt pref 8))"
    by (simp only: rank_action_candidates_def Let_def take_map [symmetric] sorted_wrt_take sorted_sort_key)
  moreover have "mset (map an_slug (rank_action_candidates p al prompt pref 8))
      = mset (map ca_slug (allowed_catalog p al))"
    by (simp add: rank_mset image_mset.compositionality comp_def)
  ultimately show ?thesis by (simp add: allowed_catalog_def)
qed

text \<open>Every action of the catalogue is off until a deployment enables it, needs exactly the scope
  of its mutation, and is gated by preview and approval exactly when it mutates; no argument key a
  model may fill is sensitive or owned by the backend.\<close>

theorem curated_actions_reviewed:
  "list_all (\<lambda>a. \<not> ca_enabled a \<and> ca_required_scopes a = [required_scope_for_mutation (ca_mutation a)]
     \<and> ca_requires_preview a = is_mutating (ca_mutation a)
     \<and> ca_requires_approval a = is_mutating (ca_mutation a)
     \<and> ca_path a \<in> {''external_app_action''}
     \<and> list_all (\<lambda>k. \<not> is_sensitive_argument_key k \<and> \<not> is_backend_owned_argument_key k)
         (model_visible_argument_keys (ca_provider_slug a) (ca_slug a) (ca_argument_keys a)))
   curated_actions
   \<and> distinct (map (\<lambda>a. (ca_provider_slug a, ca_slug a)) curated_actions)"
  by code_simp

text \<open>The slugs a deployment configuration enables are catalogue actions it lists, and with the
  default mutation filter only read actions of the provider asked for.\<close>

theorem configured_action_slugs_sound:
  "s \<in> set (configured_action_slugs_for_provider p slugs (Some [Read])) \<longleftrightarrow>
     (\<exists>a. a \<in> set curated_actions \<and> s = ca_slug a \<and> ca_mutation a = Read
        \<and> s \<in> set (normalized_slugs slugs)
        \<and> (normalize_provider_slug p = [] \<or> ca_provider_slug a = normalize_provider_slug p))"
  by (auto simp: configured_action_slugs_for_provider_def Let_def set_list_curated or_default_def)

text \<open>A caller's claims never become trusted values: preview evidence or an approval token is
  trusted only for a mutating action and only when the backend verified the authorization; an
  unverified mutation is left in status \<open>required\<close> and a claim made with it is reported as ignored.\<close>

theorem resolve_action_authorization_trust:
  "let a = resolve_action_authorization m evidence approval verified
   in (aa_trusted_preview_evidence_id a =
         (if verified \<and> is_mutating (safe_mutation m) then safe_public_id evidence else None))
      \<and> (aa_trusted_approval_token_present a \<longleftrightarrow> approval \<and> verified \<and> is_mutating (safe_mutation m))
      \<and> (aa_status a = AuthRequired \<longleftrightarrow> is_mutating (safe_mutation m) \<and> \<not> verified)
      \<and> (aa_caller_authorization_ignored a \<longleftrightarrow> aa_status a = AuthRequired
           \<and> (aa_caller_preview_evidence_present a \<or> aa_caller_approval_token_present a))"
  by (simp add: resolve_action_authorization_def Let_def)

end
