(* ===== verification/Approvals.thy ===== *)
theory Approvals
  imports Actions
begin

text \<open>
  The replay ledger of mutations: \<open>operation_approval.py\<close> and the approval table of
  \<open>persistent_storage.py\<close> (\<open>append_operation_approval_record\<close>, \<open>consume_operation_approval_record\<close>).
  The table is a map from its unique key to a row. An instant is an integer count of microseconds; writing one with
  \<open>isoformat\<close> and reading it back is the identity. \<open>up\<close> says whether the database answers: every
  failure of a statement is caught and leaves the table as it was.
\<close>

section \<open>Records and decisions\<close>

datatype approval_status = APending | AConsumed | AExpired | AUnavailable | ABlocked

fun approval_status_name :: "approval_status \<Rightarrow> string" where
  "approval_status_name APending = ''pending''"
| "approval_status_name AConsumed = ''consumed''"
| "approval_status_name AExpired = ''expired''"
| "approval_status_name AUnavailable = ''unavailable''"
| "approval_status_name ABlocked = ''blocked''"

datatype approval_reason =
    PreviewRecorded | ApprovalConsumed | ApprovalLedgerNotPersistent | ApprovalRecordMissing
  | ApprovalRecordExpired | ApprovalRecordAlreadyConsumed | ApprovalFingerprintMismatch

fun approval_reason_name :: "approval_reason \<Rightarrow> string" where
  "approval_reason_name PreviewRecorded = ''preview_recorded''"
| "approval_reason_name ApprovalConsumed = ''approval_consumed''"
| "approval_reason_name ApprovalLedgerNotPersistent = ''approval_ledger_not_persistent''"
| "approval_reason_name ApprovalRecordMissing = ''approval_record_missing''"
| "approval_reason_name ApprovalRecordExpired = ''approval_record_expired''"
| "approval_reason_name ApprovalRecordAlreadyConsumed = ''approval_record_already_consumed''"
| "approval_reason_name ApprovalFingerprintMismatch = ''approval_fingerprint_mismatch''"

definition approval_safe_metadata :: "pydict \<Rightarrow> pydict" where
  "approval_safe_metadata d = filter (\<lambda>(k, v).
     k \<in> {''selected_connection_present'', ''page_selected'', ''message_length'', ''image_present'',
           ''image_size_bytes'', ''image_url_present''}
     \<and> (case v of PNone \<Rightarrow> True | PStr _ \<Rightarrow> True | PInt _ \<Rightarrow> True | PBool _ \<Rightarrow> True | _ \<Rightarrow> False)) d"

definition has_secret_word :: "string \<Rightarrow> bool" where
  "has_secret_word text = contains_any [''token'', ''secret'', ''password''] (py_lower text)"

definition safe_public_id180 :: "string \<Rightarrow> string" where
  "safe_public_id180 value =
     (let text = py_strip value in if has_secret_word text then [] else take 180 text)"

definition safe_connection_ref :: "string \<Rightarrow> string" where
  "safe_connection_ref value =
     (let text = safe_public_id180 value in if py_startswith ''wcn_'' text then text else [])"

definition safe_url :: "string \<Rightarrow> string" where
  "safe_url value =
     (let text = py_strip value in if py_startswith ''https://'' text then take 2000 text else [])"

definition is_fingerprint :: "string \<Rightarrow> bool" where
  "is_fingerprint text = (length text = 64 \<and> list_all (\<lambda>c. c \<in> set ''0123456789abcdef'') text)"

definition safe_fingerprint :: "string \<Rightarrow> string" where
  "safe_fingerprint value =
     (let text = py_lower (py_strip value) in if is_fingerprint text then text else [])"

record approval_record =
  ar_preview_evidence_id :: string
  ar_provider_slug :: string
  ar_action_slug :: string
  ar_request_fingerprint :: string
  ar_status :: approval_status
  ar_reason :: approval_reason
  ar_issued_at :: int
  ar_expires_at :: int
  ar_consumed_at :: "int option"
  ar_metadata :: pydict

text \<open>The public form; \<open>fmt\<close> prints an instant.\<close>

definition approval_record_metadata :: "(int \<Rightarrow> string) \<Rightarrow> approval_record \<Rightarrow> pydict" where
  "approval_record_metadata fmt r =
     [(''version'', PStr ''wiii_connect_operation_approval.v1''),
      (''status'', PStr (approval_status_name (ar_status r))),
      (''reason'', PStr (approval_reason_name (ar_reason r))),
      (''provider_slug'', PStr (provider_slug80 (ar_provider_slug r))),
      (''action_slug'', PStr (action_slug120 (ar_action_slug r))),
      (''preview_evidence_id_present'', PBool (ar_preview_evidence_id r \<noteq> [])),
      (''request_fingerprint_present'', PBool (ar_request_fingerprint r \<noteq> [])),
      (''issued_at'', PStr (fmt (ar_issued_at r))),
      (''expires_at'', PStr (fmt (ar_expires_at r))),
      (''consumed_at_present'', PBool (ar_consumed_at r \<noteq> None)),
      (''metadata'', PDict (approval_safe_metadata (ar_metadata r)))]"

definition build_operation_approval_record ::
    "string \<Rightarrow> string \<Rightarrow> string \<Rightarrow> string \<Rightarrow> int \<Rightarrow> pydict option \<Rightarrow> int \<Rightarrow> approval_record" where
  "build_operation_approval_record provider_slug action_slug evidence fingerprint ttl metadata issued =
     \<lparr> ar_preview_evidence_id = safe_public_id180 evidence,
       ar_provider_slug = provider_slug80 provider_slug,
       ar_action_slug = action_slug120 action_slug,
       ar_request_fingerprint = safe_fingerprint fingerprint,
       ar_status = APending, ar_reason = PreviewRecorded,
       ar_issued_at = issued, ar_expires_at = issued + max 60 ttl * 1000000,
       ar_consumed_at = None, ar_metadata = or_default metadata [] \<rparr>"

record approval_decision =
  od_status :: approval_status
  od_reason :: approval_reason
  od_provider_slug :: string
  od_action_slug :: string
  od_preview_evidence_id_present :: bool
  od_request_fingerprint_present :: bool
  od_persistent :: bool
  od_consumed :: bool
  od_blocked :: bool
  od_metadata :: pydict

definition approval_decision_metadata :: "approval_decision \<Rightarrow> pydict" where
  "approval_decision_metadata d =
     [(''version'', PStr ''wiii_connect_operation_approval.v1''),
      (''status'', PStr (approval_status_name (od_status d))),
      (''reason'', PStr (approval_reason_name (od_reason d))),
      (''provider_slug'', PStr (provider_slug80 (od_provider_slug d))),
      (''action_slug'', PStr (action_slug120 (od_action_slug d))),
      (''preview_evidence_id_present'', PBool (od_preview_evidence_id_present d)),
      (''request_fingerprint_present'', PBool (od_request_fingerprint_present d)),
      (''persistent'', PBool (od_persistent d)),
      (''consumed'', PBool (od_consumed d)),
      (''blocked'', PBool (od_blocked d)),
      (''metadata'', PDict (approval_safe_metadata (od_metadata d)))]"

definition unavailable_decision :: "string \<Rightarrow> string \<Rightarrow> string \<Rightarrow> string \<Rightarrow> approval_decision" where
  "unavailable_decision provider action evidence fingerprint =
     \<lparr> od_status = AUnavailable, od_reason = ApprovalLedgerNotPersistent,
       od_provider_slug = provider, od_action_slug = action,
       od_preview_evidence_id_present = (evidence \<noteq> []),
       od_request_fingerprint_present = (fingerprint \<noteq> []),
       od_persistent = False, od_consumed = False, od_blocked = False,
       od_metadata = [] \<rparr>"

definition consumed_decision :: "string \<Rightarrow> string \<Rightarrow> string \<Rightarrow> string \<Rightarrow> approval_decision" where
  "consumed_decision provider action evidence fingerprint =
     \<lparr> od_status = AConsumed, od_reason = ApprovalConsumed,
       od_provider_slug = provider, od_action_slug = action,
       od_preview_evidence_id_present = (evidence \<noteq> []),
       od_request_fingerprint_present = (fingerprint \<noteq> []),
       od_persistent = True, od_consumed = True, od_blocked = False,
       od_metadata = [] \<rparr>"

definition blocked_decision ::
    "string \<Rightarrow> string \<Rightarrow> string \<Rightarrow> string \<Rightarrow> approval_reason \<Rightarrow> approval_decision" where
  "blocked_decision provider action evidence fingerprint reason =
     \<lparr> od_status = ABlocked, od_reason = reason,
       od_provider_slug = provider, od_action_slug = action,
       od_preview_evidence_id_present = (evidence \<noteq> []),
       od_request_fingerprint_present = (fingerprint \<noteq> []),
       od_persistent = True, od_consumed = False, od_blocked = True,
       od_metadata = [] \<rparr>"

section \<open>Fingerprints\<close>

text \<open>A string in \<open>json.dumps\<close> with the default \<open>ensure_ascii\<close>.\<close>

definition json_char :: "char \<Rightarrow> string" where
  "json_char c = (let n = code c in
     if n = 34 then [CHR 0x5C, CHR 0x22]
     else if n = 92 then [CHR 0x5C, CHR 0x5C]
     else if n = 10 then [CHR 0x5C, CHR ''n'']
     else if n = 13 then [CHR 0x5C, CHR ''r'']
     else if n = 9 then [CHR 0x5C, CHR ''t'']
     else if n = 12 then [CHR 0x5C, CHR ''f'']
     else if n = 8 then [CHR 0x5C, CHR ''b'']
     else if 32 \<le> n \<and> n \<le> 126 then [c]
     else [CHR 0x5C, CHR ''u'', CHR ''0'', CHR ''0'', hex_digit (n div 16), hex_digit (n mod 16)])"

definition json_string :: "string \<Rightarrow> string" where
  "json_string s = CHR 0x22 # concat (map json_char s) @ [CHR 0x22]"

definition json_object :: "(string \<times> string) list \<Rightarrow> string" where
  "json_object d =
     ''{'' @ py_join '','' (map (\<lambda>(k, v). json_string k @ '':'' @ json_string v) d) @ ''}''"

record operation =
  op_provider_slug :: string
  op_action_slug :: string
  op_connection_ref :: string
  op_page_id :: string
  op_message :: string
  op_image_sha256 :: string
  op_image_url :: string

text \<open>The payload, its keys in sorted order.\<close>

definition fingerprint_payload :: "operation \<Rightarrow> (string \<times> string) list" where
  "fingerprint_payload o1 =
     [(''action_slug'', action_slug120 (op_action_slug o1)),
      (''connection_ref_hash'', sha256_hex (safe_connection_ref (op_connection_ref o1))),
      (''image_hash'', safe_fingerprint (op_image_sha256 o1)),
      (''image_url_hash'', sha256_hex (safe_url (op_image_url o1))),
      (''message_hash'', sha256_hex (op_message o1)),
      (''page_id_hash'', sha256_hex (safe_public_id180 (op_page_id o1))),
      (''provider_slug'', provider_slug80 (op_provider_slug o1))]"

definition build_operation_fingerprint :: "operation \<Rightarrow> string" where
  "build_operation_fingerprint o1 = sha256_hex (json_object (fingerprint_payload o1))"

section \<open>The approval table\<close>

record approval_row =
  aw_action_slug :: string
  aw_request_fingerprint :: string
  aw_status :: approval_status
  aw_reason :: approval_reason
  aw_metadata :: pydict
  aw_issued_at :: int
  aw_expires_at :: int
  aw_consumed_at :: "int option"
  aw_updated_at :: int

type_synonym approval_key = "string \<times> string \<times> string \<times> string"
type_synonym approval_table = "approval_key \<Rightarrow> approval_row option"

definition normalize_owner :: "string \<Rightarrow> string \<Rightarrow> (string \<times> string) option" where
  "normalize_owner organization_id user_id =
     (let org = py_strip organization_id; user = py_strip user_id in
      if org = [] \<or> user = [] then None else Some (org, user))"

definition append_operation_approval_record ::
    "bool \<Rightarrow> int \<Rightarrow> approval_record \<Rightarrow> string \<Rightarrow> string \<Rightarrow> approval_table \<Rightarrow> bool \<times> approval_table" where
  "append_operation_approval_record up now r organization_id user_id table =
     (case normalize_owner organization_id user_id of
        None \<Rightarrow> (False, table)
      | Some (org, user) \<Rightarrow>
          if ar_preview_evidence_id r = [] then (False, table)
          else if \<not> up then (False, table)
          else
            let key = (org, user, ar_provider_slug r, ar_preview_evidence_id r);
                row = \<lparr> aw_action_slug = ar_action_slug r,
                  aw_request_fingerprint = ar_request_fingerprint r,
                  aw_status = (if table key = None then ar_status r else APending),
                  aw_reason = ar_reason r,
                  aw_metadata = approval_safe_metadata (ar_metadata r),
                  aw_issued_at = ar_issued_at r, aw_expires_at = ar_expires_at r,
                  aw_consumed_at = (if table key = None then ar_consumed_at r else None),
                  aw_updated_at = now \<rparr>
            in (True, table(key \<mapsto> row)))"

record consume_request =
  cq_preview_evidence_id :: string
  cq_request_fingerprint :: string
  cq_organization_id :: string
  cq_user_id :: string
  cq_provider_slug :: string
  cq_action_slug :: string

definition consume_key :: "consume_request \<Rightarrow> approval_key option" where
  "consume_key q = map_option (\<lambda>(org, user).
       (org, user, dash_to_underscore (py_lower (py_strip (cq_provider_slug q))),
        py_strip (cq_preview_evidence_id q)))
     (normalize_owner (cq_organization_id q) (cq_user_id q))"

definition consume_operation_approval_record ::
    "bool \<Rightarrow> int \<Rightarrow> consume_request \<Rightarrow> approval_table \<Rightarrow> approval_decision \<times> approval_table" where
  "consume_operation_approval_record up now q table =
     (let provider = cq_provider_slug q; action = cq_action_slug q;
          evidence = py_strip (cq_preview_evidence_id q);
          fingerprint = py_lower (py_strip (cq_request_fingerprint q));
          blocked = blocked_decision provider action evidence fingerprint
      in case consume_key q of
        None \<Rightarrow> (unavailable_decision provider action (cq_preview_evidence_id q)
            (cq_request_fingerprint q), table)
      | Some key \<Rightarrow>
          if evidence = [] \<or> fingerprint = [] then (blocked ApprovalRecordMissing, table)
          else if \<not> up then (unavailable_decision provider action evidence fingerprint, table)
          else (case table key of
            None \<Rightarrow> (blocked ApprovalRecordMissing, table)
          | Some row \<Rightarrow>
              if aw_status row \<noteq> APending then
                (blocked (if aw_status row = AExpired then ApprovalRecordExpired
                   else ApprovalRecordAlreadyConsumed), table)
              else if aw_expires_at row < now then
                (blocked ApprovalRecordExpired,
                 table(key \<mapsto> row\<lparr>aw_status := AExpired, aw_reason := ApprovalRecordExpired,
                   aw_updated_at := now\<rparr>))
              else if py_lower (py_strip (aw_request_fingerprint row)) \<noteq> fingerprint then
                (blocked ApprovalFingerprintMismatch, table)
              else
                (consumed_decision provider action evidence fingerprint,
                 table(key \<mapsto> row\<lparr>aw_status := AConsumed, aw_reason := ApprovalConsumed,
                   aw_consumed_at := Some now, aw_updated_at := now\<rparr>))))"

section \<open>The single-use interface\<close>

text \<open>How often a history of events takes the item under a key.\<close>

fun history_takes :: "('e \<Rightarrow> 's \<Rightarrow> 's) \<Rightarrow> ('e \<Rightarrow> 'k \<Rightarrow> 's \<Rightarrow> bool) \<Rightarrow> 'k \<Rightarrow> 'e list \<Rightarrow> 's \<Rightarrow> nat" where
  "history_takes step takes k [] s = 0"
| "history_takes step takes k (e # es) s =
     (if takes e k s then 1 else 0) + history_takes step takes k es (step e s)"

text \<open>
  A ledger whose items are armed by some events and taken by others: an item can be taken only while
  it is live, taking it ends that, and only arming makes it live again.
\<close>

locale single_use_ledger =
  fixes step :: "'e \<Rightarrow> 's \<Rightarrow> 's"
    and takes :: "'e \<Rightarrow> 'k \<Rightarrow> 's \<Rightarrow> bool"
    and arms :: "'e \<Rightarrow> 'k \<Rightarrow> bool"
    and live :: "'k \<Rightarrow> 's \<Rightarrow> bool"
  assumes take_live: "takes e k s \<Longrightarrow> live k s"
    and take_ends: "takes e k s \<Longrightarrow> \<not> live k (step e s)"
    and live_origin: "live k (step e s) \<Longrightarrow> live k s \<or> arms e k"
    and arms_takes: "arms e k \<Longrightarrow> \<not> takes e k s"
begin

lemma takes_bounded:
  "history_takes step takes k es s \<le> (if live k s then 1 else 0) + length (filter (\<lambda>e. arms e k) es)"
proof (induction es arbitrary: s)
  case (Cons e es)
  show ?case
    using Cons.IH [of "step e s"] take_live [of e k s] take_ends [of e k s] live_origin [of k e s]
      arms_takes [of e k s]
    by (cases "takes e k s"; cases "arms e k"; cases "live k (step e s)") auto
qed simp

lemma never_armed:
  assumes "\<not> live k s" "\<forall>e \<in> set es. \<not> arms e k"
  shows "history_takes step takes k es s = 0"
proof -
  have "filter (\<lambda>e. arms e k) es = []" using assms(2) by (simp add: filter_empty_conv)
  with takes_bounded [of k es s] assms(1) show ?thesis by simp
qed

end

section \<open>The approval table as a single-use ledger\<close>

datatype approval_event =
    RecordApproval bool int approval_record string string
  | ConsumeApproval bool int consume_request

fun approval_step :: "approval_event \<Rightarrow> approval_table \<Rightarrow> approval_table" where
  "approval_step (RecordApproval up now r org user) table =
     snd (append_operation_approval_record up now r org user table)"
| "approval_step (ConsumeApproval up now q) table =
     snd (consume_operation_approval_record up now q table)"

fun approval_takes :: "approval_event \<Rightarrow> approval_key \<Rightarrow> approval_table \<Rightarrow> bool" where
  "approval_takes (RecordApproval up now r org user) k table = False"
| "approval_takes (ConsumeApproval up now q) k table =
     (consume_key q = Some k \<and> od_consumed (fst (consume_operation_approval_record up now q table)))"

fun approval_arms :: "approval_event \<Rightarrow> approval_key \<Rightarrow> bool" where
  "approval_arms (RecordApproval up now r org user) k =
     (case normalize_owner org user of None \<Rightarrow> False
      | Some (o', u') \<Rightarrow> k = (o', u', ar_provider_slug r, ar_preview_evidence_id r))"
| "approval_arms (ConsumeApproval up now q) k = False"

definition approval_pending :: "approval_key \<Rightarrow> approval_table \<Rightarrow> bool" where
  "approval_pending k table = (case table k of None \<Rightarrow> False | Some row \<Rightarrow> aw_status row = APending)"

lemma decision_simps [simp]:
  "od_consumed (consumed_decision p a e f)" "\<not> od_consumed (blocked_decision p a e f r)"
  "\<not> od_consumed (unavailable_decision p a e f)"
  by (simp_all add: consumed_decision_def blocked_decision_def unavailable_decision_def)

lemma consume_consumed_iff:
  "od_consumed (fst (consume_operation_approval_record up now q table)) \<longleftrightarrow>
     up \<and> py_strip (cq_preview_evidence_id q) \<noteq> [] \<and> py_strip (cq_request_fingerprint q) \<noteq> []
     \<and> (\<exists>k row. consume_key q = Some k \<and> table k = Some row \<and> aw_status row = APending
          \<and> now \<le> aw_expires_at row
          \<and> py_lower (py_strip (aw_request_fingerprint row)) = py_lower (py_strip (cq_request_fingerprint q)))"
  by (auto simp: consume_operation_approval_record_def Let_def split: option.splits)

lemma consume_table:
  assumes "od_consumed (fst (consume_operation_approval_record up now q table))"
    and "consume_key q = Some k" "table k = Some row"
  shows "snd (consume_operation_approval_record up now q table)
    = table(k \<mapsto> row\<lparr>aw_status := AConsumed, aw_reason := ApprovalConsumed,
        aw_consumed_at := Some now, aw_updated_at := now\<rparr>)"
  using assms by (auto simp: consume_operation_approval_record_def Let_def split: if_splits)

lemma consume_frame:
  "consume_key q \<noteq> Some k \<Longrightarrow> snd (consume_operation_approval_record up now q table) k = table k"
  by (auto simp: consume_operation_approval_record_def Let_def split: option.splits)

lemma consume_no_revival:
  "approval_pending k (snd (consume_operation_approval_record up now q table)) \<Longrightarrow>
   approval_pending k table"
  by (auto simp: consume_operation_approval_record_def Let_def approval_pending_def
      split: option.splits if_splits)

lemma append_frame:
  "\<not> approval_arms (RecordApproval up now r org user) k \<Longrightarrow>
   snd (append_operation_approval_record up now r org user table) k = table k"
  by (auto simp: append_operation_approval_record_def Let_def split: option.splits)

interpretation approvals: single_use_ledger approval_step approval_takes approval_arms approval_pending
proof
  fix e k s
  show "approval_takes e k s \<Longrightarrow> approval_pending k s"
    by (cases e) (auto simp: consume_consumed_iff approval_pending_def)
  show "approval_takes e k s \<Longrightarrow> \<not> approval_pending k (approval_step e s)"
  proof (cases e)
    case (ConsumeApproval up now q)
    assume "approval_takes e k s"
    then have won: "od_consumed (fst (consume_operation_approval_record up now q s))"
      and key: "consume_key q = Some k"
      using ConsumeApproval by auto
    then obtain row where "s k = Some row" by (auto simp: consume_consumed_iff)
    from consume_table [OF won key this] show ?thesis
      by (simp add: ConsumeApproval approval_pending_def)
  qed simp
  show "approval_pending k (approval_step e s) \<Longrightarrow> approval_pending k s \<or> approval_arms e k"
  proof (cases e)
    case (RecordApproval up now r org user)
    assume "approval_pending k (approval_step e s)"
    then show ?thesis
      using append_frame [of up now r org user k s] RecordApproval
      by (auto simp: approval_pending_def)
  next
    case (ConsumeApproval up now q)
    assume "approval_pending k (approval_step e s)"
    then show ?thesis using consume_no_revival [of k up now q s] ConsumeApproval by simp
  qed
  show "approval_arms e k \<Longrightarrow> \<not> approval_takes e k s" by (cases e) auto
qed

section \<open>Properties\<close>

text \<open>Property C4: in any interleaving of recordings and consumptions, by any users, at any times and with any
  database outages, the approval under one key is consumed at most once per recording of it (plus
  once if it was pending at the start): no approval is replayed.\<close>

theorem approval_single_use:
  "history_takes approval_step approval_takes k es table
     \<le> (if approval_pending k table then 1 else 0) + length (filter (\<lambda>e. approval_arms e k) es)"
  by (rule approvals.takes_bounded)

theorem approval_single_use_witness:
  "history_takes approval_step approval_takes (''o'', ''u'', ''p'', ''e'')
     [ConsumeApproval True 0 \<lparr> cq_preview_evidence_id = ''e'', cq_request_fingerprint = ''f'',
        cq_organization_id = ''o'', cq_user_id = ''u'', cq_provider_slug = ''p'', cq_action_slug = [] \<rparr>]
     (\<lambda>_. None) = 0"
  using approval_single_use [of "(''o'', ''u'', ''p'', ''e'')" "[ConsumeApproval True 0
      \<lparr> cq_preview_evidence_id = ''e'', cq_request_fingerprint = ''f'', cq_organization_id = ''o'',
        cq_user_id = ''u'', cq_provider_slug = ''p'', cq_action_slug = [] \<rparr>]" "\<lambda>_. None"]
  by (simp add: approval_pending_def)

text \<open>A consumption succeeds exactly when the database answers, evidence id and fingerprint are
  not blank, and the caller's own row for this provider and evidence id is pending, not past its
  expiry, and carries the same fingerprint; it then marks the row consumed. No consumption
  touches another row.\<close>

theorem consume_operation_approval_iff:
  "(od_consumed (fst (consume_operation_approval_record up now q table)) \<longleftrightarrow>
      up \<and> py_strip (cq_preview_evidence_id q) \<noteq> [] \<and> py_strip (cq_request_fingerprint q) \<noteq> []
      \<and> (\<exists>k row. consume_key q = Some k \<and> table k = Some row \<and> aw_status row = APending
           \<and> now \<le> aw_expires_at row
           \<and> py_lower (py_strip (aw_request_fingerprint row))
               = py_lower (py_strip (cq_request_fingerprint q))
           \<and> snd (consume_operation_approval_record up now q table)
               = table(k \<mapsto> row\<lparr>aw_status := AConsumed, aw_reason := ApprovalConsumed,
                   aw_consumed_at := Some now, aw_updated_at := now\<rparr>)))
   \<and> (if consume_key q \<noteq> Some k' then snd (consume_operation_approval_record up now q table) k' = table k'
      else True)"
proof -
  let ?c = "consume_operation_approval_record up now q table"
  have "snd ?c = table(k \<mapsto> row\<lparr>aw_status := AConsumed, aw_reason := ApprovalConsumed,
      aw_consumed_at := Some now, aw_updated_at := now\<rparr>)"
    if "od_consumed (fst ?c)" "consume_key q = Some k" "table k = Some row" for k row
    using that by (rule consume_table)
  then have "od_consumed (fst ?c) \<longleftrightarrow>
      up \<and> py_strip (cq_preview_evidence_id q) \<noteq> [] \<and> py_strip (cq_request_fingerprint q) \<noteq> []
      \<and> (\<exists>k row. consume_key q = Some k \<and> table k = Some row \<and> aw_status row = APending
           \<and> now \<le> aw_expires_at row
           \<and> py_lower (py_strip (aw_request_fingerprint row))
               = py_lower (py_strip (cq_request_fingerprint q))
           \<and> snd ?c = table(k \<mapsto> row\<lparr>aw_status := AConsumed, aw_reason := ApprovalConsumed,
                   aw_consumed_at := Some now, aw_updated_at := now\<rparr>))"
    by (subst consume_consumed_iff) (use consume_consumed_iff in blast)
  then show ?thesis by (simp add: consume_frame)
qed

text \<open>An approval recorded with a usable evidence id and fingerprint is there for the same owner,
  provider, evidence and fingerprint until its expiry, at least 60 seconds after it was issued and
  the expiry instant included; the first consumption in time succeeds and the next one fails.\<close>

theorem approval_record_consume_roundtrip:
  assumes owner: "normalize_owner org user \<noteq> None"
    and provider: "length (py_strip p) \<le> 80"
    and evidence: "py_strip ev \<noteq> []" "\<not> has_secret_word (py_strip ev)" "length (py_strip ev) \<le> 180"
    and fingerprint: "is_fingerprint (py_lower (py_strip fp))"
  shows "let q = \<lparr> cq_preview_evidence_id = ev, cq_request_fingerprint = fp, cq_organization_id = org,
             cq_user_id = user, cq_provider_slug = p, cq_action_slug = a \<rparr>;
           (ok, t1) = append_operation_approval_record True t0
             (build_operation_approval_record p a ev fp ttl md issued) org user table;
           (d, t2) = consume_operation_approval_record True now q t1
         in ok \<and> (od_consumed d \<longleftrightarrow> now \<le> issued + max 60 ttl * 1000000)
            \<and> \<not> (od_consumed d \<and> od_consumed (fst (consume_operation_approval_record True now' q t2)))"
proof -
  obtain oo uu where own: "normalize_owner org user = Some (oo, uu)" using owner by auto
  have slug: "provider_slug80 p = dash_to_underscore (py_lower (py_strip p))"
    using provider by (simp add: provider_slug80_def)
  have ev: "safe_public_id180 ev = py_strip ev"
    using evidence by (simp add: safe_public_id180_def)
  have fp: "safe_fingerprint fp = py_lower (py_strip fp)" "py_strip fp \<noteq> []"
    using fingerprint by (auto simp: safe_fingerprint_def is_fingerprint_def)
  define q where "q = \<lparr> cq_preview_evidence_id = ev, cq_request_fingerprint = fp,
    cq_organization_id = org, cq_user_id = user, cq_provider_slug = p, cq_action_slug = a \<rparr>"
  define r where "r = build_operation_approval_record p a ev fp ttl md issued"
  obtain ok t1 where app: "append_operation_approval_record True t0 r org user table = (ok, t1)"
    by fastforce
  have t1: "ok" "t1 (oo, uu, provider_slug80 p, py_strip ev) = Some
      \<lparr> aw_action_slug = action_slug120 a, aw_request_fingerprint = py_lower (py_strip fp),
        aw_status = APending, aw_reason = PreviewRecorded,
        aw_metadata = approval_safe_metadata (or_default md []), aw_issued_at = issued,
        aw_expires_at = issued + max 60 ttl * 1000000, aw_consumed_at = None, aw_updated_at = t0 \<rparr>"
    using app evidence(1)
    by (auto simp: append_operation_approval_record_def Let_def own r_def ev fp
        build_operation_approval_record_def)
  have key: "consume_key q = Some (oo, uu, provider_slug80 p, py_strip ev)"
    by (simp add: consume_key_def q_def own slug)
  have "py_strip (py_lower (py_strip fp)) = py_lower (py_strip fp)"
    by (simp add: py_strip_lower)
  then have first: "od_consumed (fst (consume_operation_approval_record True now q t1))
      \<longleftrightarrow> now \<le> issued + max 60 ttl * 1000000"
    using t1 key fp(2) evidence(1) by (simp add: consume_consumed_iff q_def)
  have second: "\<not> od_consumed (fst (consume_operation_approval_record True now' q
      (snd (consume_operation_approval_record True now q t1))))"
    if "od_consumed (fst (consume_operation_approval_record True now q t1))"
    using consume_table [OF that key t1(2)] key by (simp add: consume_consumed_iff)
  show ?thesis
    using first second t1(1) app unfolding q_def r_def
    by (simp add: Let_def split: prod.split) (metis fst_conv snd_conv)
qed

theorem approval_record_consume_roundtrip_witness:
  "let fp = replicate 64 (CHR ''a'');
       q = \<lparr> cq_preview_evidence_id = ''ev1'', cq_request_fingerprint = fp, cq_organization_id = ''o'',
             cq_user_id = ''u'', cq_provider_slug = ''facebook'', cq_action_slug = ''A'' \<rparr>;
       (ok, t1) = append_operation_approval_record True 0
         (build_operation_approval_record ''facebook'' ''A'' ''ev1'' fp 300 None 0) ''o'' ''u'' (\<lambda>_. None);
       (d, t2) = consume_operation_approval_record True 300000000 q t1
   in ok \<and> (od_consumed d \<longleftrightarrow> (300000000 :: int) \<le> 0 + max 60 300 * 1000000)
      \<and> \<not> (od_consumed d \<and> od_consumed (fst (consume_operation_approval_record True 300000000 q t2)))"
  unfolding Let_def [of "replicate 64 (CHR ''a'')"]
  by (rule approval_record_consume_roundtrip) code_simp+

text \<open>Recording an approval arms it whatever the table holds: a row that was consumed or expired
  becomes pending again, with the new fingerprint and expiry.\<close>

theorem append_operation_approval_rearms:
  assumes "normalize_owner org user = Some (o', u')" "safe_public_id180 ev \<noteq> []"
  shows "approval_pending (o', u', provider_slug80 p, safe_public_id180 ev)
    (snd (append_operation_approval_record True now
      (build_operation_approval_record p a ev fp ttl md issued) org user table))"
  using assms by (simp add: append_operation_approval_record_def Let_def approval_pending_def
      build_operation_approval_record_def)

theorem append_operation_approval_rearms_witness:
  "approval_pending (''o'', ''u'', provider_slug80 ''facebook'', safe_public_id180 ''ev1'')
    (snd (append_operation_approval_record True 5
      (build_operation_approval_record ''facebook'' ''A'' ''ev1'' [] 300 None 0) ''o'' ''u''
      (\<lambda>_. Some \<lparr> aw_action_slug = [], aw_request_fingerprint = [], aw_status = AConsumed,
        aw_reason = ApprovalConsumed, aw_metadata = [], aw_issued_at = 0, aw_expires_at = 0,
        aw_consumed_at = Some 1, aw_updated_at = 1 \<rparr>)))"
  by (rule append_operation_approval_rearms) code_simp+

section \<open>The fingerprint payload is readable back\<close>

definition hex_value :: "char \<Rightarrow> nat" where
  "hex_value c = (if code c < 58 then code c - 48 else code c - 87)"

text \<open>Reads one character of a JSON string literal.\<close>

definition json_read_char :: "string \<Rightarrow> (char \<times> string) option" where
  "json_read_char s =
     (case s of
        [] \<Rightarrow> None
      | c # r \<Rightarrow>
          if code c = 34 then None
          else if code c \<noteq> 92 then Some (c, r)
          else (case r of [] \<Rightarrow> None
            | d # r' \<Rightarrow>
                if d = CHR ''n'' then Some (char_of (10::nat), r')
                else if d = CHR ''r'' then Some (char_of (13::nat), r')
                else if d = CHR ''t'' then Some (char_of (9::nat), r')
                else if d = CHR ''f'' then Some (char_of (12::nat), r')
                else if d = CHR ''b'' then Some (char_of (8::nat), r')
                else if d = CHR ''u'' then
                  (case r' of _ # _ # x # y # t \<Rightarrow> Some (char_of (16 * hex_value x + hex_value y), t)
                   | _ \<Rightarrow> None)
                else Some (d, r')))"

lemma hex_value_digit: "n < 16 \<Longrightarrow> hex_value (hex_digit n) = n"
  by (auto simp: hex_value_def hex_digit_def)

lemma char_of_code: "char_of (code c) = c"
  unfolding code_def by (rule char_of_char)

lemma code_letters:
  "code (CHR 0x5C) = 92" "code (CHR 0x22) = 34" "code (CHR ''n'') = 110" "code (CHR ''r'') = 114"
  "code (CHR ''t'') = 116" "code (CHR ''f'') = 102" "code (CHR ''b'') = 98" "code (CHR ''u'') = 117"
  by (simp_all add: code_def)

lemma json_read_char_write: "json_read_char (json_char c @ r) = Some (c, r)"
proof -
  have "code c div 16 < 16" using code_less [of c] by (simp add: less_mult_imp_div_less)
  then have hex: "char_of (16 * hex_value (hex_digit (code c div 16))
      + hex_value (hex_digit (code c mod 16))) = c"
    by (simp add: hex_value_digit char_of_code)
  show ?thesis
    by (simp add: json_char_def json_read_char_def Let_def hex code_inject [symmetric] code_letters)
qed

lemma json_char_no_quote: "\<exists>d ds. json_char c = d # ds \<and> d \<noteq> CHR 0x22"
  by (auto simp: json_char_def Let_def code_letters)

lemma json_body_inject:
  "concat (map json_char s) @ CHR 0x22 # r = concat (map json_char s') @ CHR 0x22 # r' \<Longrightarrow>
   s = s' \<and> r = r'"
proof (induction s arbitrary: s')
  case Nil
  then show ?case
    using json_char_no_quote [of "hd s'"] by (cases s') auto
next
  case (Cons c s)
  show ?case
  proof (cases s')
    case Nil
    then show ?thesis using Cons.prems json_char_no_quote [of c] by auto
  next
    case (Cons c' t)
    have "json_char c @ (concat (map json_char s) @ CHR 0x22 # r)
        = json_char c' @ (concat (map json_char t) @ CHR 0x22 # r')"
      using Cons.prems Cons by simp
    then have "Some (c, concat (map json_char s) @ CHR 0x22 # r)
        = Some (c', concat (map json_char t) @ CHR 0x22 # r')"
      by (metis json_read_char_write)
    then show ?thesis using Cons.IH [of t] Cons by simp
  qed
qed

lemma json_string_inject:
  "json_string s @ r = json_string s' @ r' \<longleftrightarrow> s = s' \<and> r = r'"
  using json_body_inject [of s r s' r'] by (auto simp: json_string_def)

lemma json_string_inject_end: "json_string s = json_string s' \<longleftrightarrow> s = s'"
  using json_string_inject [of s "[]" s' "[]"] by simp

lemma safe_fingerprint_fixed: "is_fingerprint s \<Longrightarrow> safe_fingerprint s = s"
proof -
  have "list_all (\<lambda>c. lower_char c = c \<and> \<not> py_isspace c) ''0123456789abcdef''" by code_simp
  moreover assume s: "is_fingerprint s"
  ultimately have "\<forall>c \<in> set s. lower_char c = c \<and> \<not> py_isspace c"
    unfolding is_fingerprint_def list_all_iff by blast
  then have "py_strip s = s" "py_lower s = s"
    by (auto simp: py_strip_no_space py_lower_def map_fixed_iff)
  with s show "safe_fingerprint s = s" by (simp add: safe_fingerprint_def)
qed

lemma fingerprint_shape [simp]: "is_fingerprint (build_operation_fingerprint opn)"
  using sha256_hex_lower by (simp add: is_fingerprint_def build_operation_fingerprint_def
      list_all_iff is_hex_lower_def)

text \<open>The fingerprint of an operation is one the ledger accepts unchanged, and the text that is
  hashed determines its seven components: two operations with the same text have the same action,
  provider, image hash and the same hashes of connection, page, message and image URL.\<close>

theorem operation_fingerprint_faithful:
  "safe_fingerprint (build_operation_fingerprint o1) = build_operation_fingerprint o1
   \<and> is_fingerprint (build_operation_fingerprint o1)
   \<and> (json_object (fingerprint_payload o1) = json_object (fingerprint_payload o2)
        \<longleftrightarrow> fingerprint_payload o1 = fingerprint_payload o2)"
proof -
  have "json_object (fingerprint_payload o1) = json_object (fingerprint_payload o2)
      \<Longrightarrow> fingerprint_payload o1 = fingerprint_payload o2"
    by (simp add: json_object_def fingerprint_payload_def json_string_inject
        json_string_inject_end)
  then show ?thesis by (auto simp: safe_fingerprint_fixed)
qed

end
