(* ===== verification/Connection_Store.thy ===== *)
theory Connection_Store
  imports Approvals
begin

text \<open>
  The connection and audit tables of \<open>app/engine/wiii_connect/persistent_storage.py\<close>. The
  connection table is an association list from the primary key \<open>id\<close> to a row, a query a filter
  followed by a stable sort, a statement that fails (\<open>up\<close> is false) leaves the table alone. JSON
  columns hold the value that was dumped into them. \<open>to_iso\<close> stands for reading a timestamp with
  \<open>datetime.fromisoformat\<close> and printing it in UTC with \<open>isoformat\<close>, \<open>None\<close> when it does not parse;
  \<open>now\<close> is an instant in microseconds.
\<close>

section \<open>Storage status\<close>

datatype storage_probe = NotProbed | NoSessionFactory | ProbeFailed | TablesPresent bool bool bool

record storage_status =
  st_enabled :: bool
  st_persistent :: bool
  st_backend :: string
  st_connection_table_ready :: bool
  st_audit_ledger_ready :: bool
  st_operation_approval_table_ready :: bool
  st_reason :: string
  st_warnings :: "string list"

definition storage_status_metadata :: "storage_status \<Rightarrow> pydict" where
  "storage_status_metadata s =
     [(''version'', PStr ''wiii_connect_persistent_storage.v1''),
      (''enabled'', PBool (st_enabled s)),
      (''persistent'', PBool (st_persistent s)),
      (''backend'', PStr (st_backend s)),
      (''connection_table_ready'', PBool (st_connection_table_ready s)),
      (''audit_ledger_ready'', PBool (st_audit_ledger_ready s)),
      (''operation_approval_table_ready'', PBool (st_operation_approval_table_ready s)),
      (''reason'', PStr (st_reason s)),
      (''warnings'', str_list (st_warnings s))]"

definition default_storage_status :: storage_status where
  "default_storage_status =
     \<lparr> st_enabled = False, st_persistent = False, st_backend = ''postgres'',
       st_connection_table_ready = False, st_audit_ledger_ready = False,
       st_operation_approval_table_ready = False, st_reason = ''database_probe_not_requested'',
       st_warnings = [] \<rparr>"

fun storage_status_of :: "storage_probe \<Rightarrow> storage_status" where
  "storage_status_of NotProbed = default_storage_status"
| "storage_status_of NoSessionFactory = default_storage_status
     \<lparr>st_reason := ''database_unavailable'', st_warnings := [''session_factory_unavailable'']\<rparr>"
| "storage_status_of ProbeFailed = default_storage_status
     \<lparr>st_reason := ''database_unavailable'', st_warnings := [''status_probe_failed'']\<rparr>"
| "storage_status_of (TablesPresent connections audit approvals) =
     (let ready = connections \<and> audit in default_storage_status
       \<lparr>st_enabled := ready, st_persistent := ready, st_connection_table_ready := connections,
        st_audit_ledger_ready := audit, st_operation_approval_table_ready := approvals,
        st_reason := (if ready then ''ready'' else ''migration_not_applied''),
        st_warnings := (if ready \<and> \<not> approvals then [''operation_approval_table_missing''] else [])\<rparr>)"

section \<open>Audit rows\<close>

record audit_row =
  au_organization_id :: string
  au_user_id :: string
  au_payload :: pydict

definition append_audit_record ::
    "bool \<Rightarrow> ledger_record \<Rightarrow> string \<Rightarrow> string \<Rightarrow> audit_row list \<Rightarrow> bool \<times> audit_row list" where
  "append_audit_record up r organization_id user_id rows =
     (case normalize_owner organization_id user_id of
        None \<Rightarrow> (False, rows)
      | Some (org, user) \<Rightarrow>
          if \<not> up then (False, rows)
          else (True, rows @ [\<lparr> au_organization_id = org, au_user_id = user,
            au_payload = ledger_to_public_metadata r \<rparr>]))"

section \<open>Connection rows\<close>

record connection_row =
  kw_organization_id :: string
  kw_user_id :: string
  kw_provider_slug :: string
  kw_provider_kind :: string
  kw_state :: string
  kw_scopes :: pydict
  kw_vault_ref :: pydict
  kw_account_label :: "string option"
  kw_external_account_ref :: "string option"
  kw_reason :: "string option"
  kw_warnings :: "string list"
  kw_updated_at :: int
  kw_last_checked_at :: "string option"
  kw_last_used_at :: "int option"

type_synonym connection_table = "(string \<times> connection_row) list"

definition or_null :: "string \<Rightarrow> string option" where
  "or_null s = (if s = [] then None else Some s)"

definition parse_datetime :: "(string \<Rightarrow> string option) \<Rightarrow> string option \<Rightarrow> string option" where
  "parse_datetime to_iso v =
     (let text_value = py_strip (or_default v []) in
      if text_value = [] then None else to_iso text_value)"

definition upsert_connection_record ::
    "(string \<Rightarrow> string option) \<Rightarrow> bool \<Rightarrow> int \<Rightarrow> connection_record \<Rightarrow> string \<Rightarrow> string \<Rightarrow> string \<Rightarrow>
     connection_table \<Rightarrow> bool \<times> connection_table" where
  "upsert_connection_record to_iso up now c organization_id user_id provider_kind table =
     (case normalize_owner organization_id user_id of
        None \<Rightarrow> (False, table)
      | Some (org, user) \<Rightarrow>
          if cr_connection_id c = [] \<or> cr_provider_slug c = [] then (False, table)
          else if \<not> up then (False, table)
          else (True, dict_set (cr_connection_id c)
            \<lparr> kw_organization_id = org, kw_user_id = user,
              kw_provider_slug = cr_provider_slug c,
              kw_provider_kind = str_or (py_strip (str_or provider_kind ''unknown'')) ''unknown'',
              kw_state = state_name (cr_state c),
              kw_scopes = scope_to_metadata (cr_scopes c),
              kw_vault_ref = (case cr_vault_ref c of None \<Rightarrow> [] | Some r \<Rightarrow> vault_ref_metadata r),
              kw_account_label = or_null (cr_account_label c),
              kw_external_account_ref = or_null (cr_external_account_ref c),
              kw_reason = or_null (cr_reason c),
              kw_warnings = cr_warnings c,
              kw_updated_at = now,
              kw_last_checked_at = parse_datetime to_iso (cr_last_checked_at c),
              kw_last_used_at = (if conn_active c then Some now else None) \<rparr> table))"

definition connection_record_from_row :: "string \<Rightarrow> string \<times> connection_row \<Rightarrow> connection_record option" where
  "connection_record_from_row fallback_provider_slug = (\<lambda>(row_id, row).
     let slug = normalize_provider_slug fallback_provider_slug;
         connection_id = py_strip row_id;
         provider = py_strip (str_or (kw_provider_slug row) slug);
         normalized_provider = str_or (dash_to_underscore (py_lower provider)) slug
     in if connection_id = [] then None
        else Some
          \<lparr> cr_connection_id = connection_id,
            cr_provider_slug = normalized_provider,
            cr_state = normalize_connection_state (Some (kw_state row)),
            cr_scopes = scope_grant_from_mapping (Some (kw_scopes row)),
            cr_vault_ref = (if get_flag (kw_vault_ref row) ''vault_ref_present''
              then Some \<lparr> vr_provider_slug = normalized_provider, vr_connection_id = connection_id,
                vr_vault_key_id = ''stored_opaque_ref'',
                vr_secret_version = (case dict_get (kw_vault_ref row) ''secret_version'' of
                  None \<Rightarrow> [] | Some v \<Rightarrow> str_or_empty v) \<rparr>
              else None),
            cr_account_label = or_default (kw_account_label row) [],
            cr_external_account_ref = or_default (kw_external_account_ref row) [],
            cr_last_checked_at = kw_last_checked_at row,
            cr_reason = or_default (kw_reason row) [],
            cr_warnings = filter (\<lambda>w. py_strip w \<noteq> []) (kw_warnings row) \<rparr>)"

text \<open>The rows of an owner and provider, newest first; rows of one instant keep the table's order.\<close>

definition owned_by :: "string \<times> string \<Rightarrow> string \<Rightarrow> connection_row \<Rightarrow> bool" where
  "owned_by owner slug row =
     ((kw_organization_id row, kw_user_id row) = owner \<and> kw_provider_slug row = slug)"

definition select_rows ::
    "string \<times> string \<Rightarrow> string \<Rightarrow> connection_table \<Rightarrow> (string \<times> connection_row) list" where
  "select_rows owner slug table =
     sort_key (\<lambda>(i, row). - kw_updated_at row) (filter (\<lambda>(i, row). owned_by owner slug row) table)"

definition get_connection_record ::
    "bool \<Rightarrow> string \<Rightarrow> string \<Rightarrow> string \<Rightarrow> string option \<Rightarrow> connection_table \<Rightarrow> connection_record option" where
  "get_connection_record up organization_id user_id provider_slug connection_id table =
     (let slug = normalize_provider_slug provider_slug;
          wanted = py_strip (or_default connection_id [])
      in case normalize_owner organization_id user_id of
        None \<Rightarrow> None
      | Some owner \<Rightarrow>
          if slug = [] then None
          else if \<not> up then None
          else (case filter (\<lambda>(i, row). wanted = [] \<or> i = wanted) (select_rows owner slug table) of
            [] \<Rightarrow> None
          | row # _ \<Rightarrow> connection_record_from_row slug row))"

definition list_connection_records ::
    "bool \<Rightarrow> string \<Rightarrow> string \<Rightarrow> string \<Rightarrow> int \<Rightarrow> connection_table \<Rightarrow> connection_record list" where
  "list_connection_records up organization_id user_id provider_slug limit table =
     (let slug = normalize_provider_slug provider_slug;
          safe_limit = max 1 (min (if limit = 0 then 100 else limit) 500)
      in case normalize_owner organization_id user_id of
        None \<Rightarrow> []
      | Some owner \<Rightarrow>
          if slug = [] then []
          else if \<not> up then []
          else List.map_filter (connection_record_from_row slug)
            (take (nat safe_limit) (select_rows owner slug table)))"

definition stale_pending :: "string \<times> string \<Rightarrow> string \<Rightarrow> int \<Rightarrow> connection_row \<Rightarrow> bool" where
  "stale_pending owner slug before row =
     (owned_by owner slug row \<and> kw_state row \<in> {''authorizing'', ''waiting'', ''error''}
      \<and> kw_updated_at row < before)"

definition expire_row :: "int \<Rightarrow> connection_row \<Rightarrow> connection_row" where
  "expire_row now row = row\<lparr>kw_state := ''expired'',
     kw_reason := Some ''stale_oauth_connection_expired'',
     kw_warnings := kw_warnings row @ [''expired_by_wiii_connect_cleanup''],
     kw_updated_at := now\<rparr>"

definition expire_stale_pending_connections ::
    "bool \<Rightarrow> int \<Rightarrow> string \<Rightarrow> string \<Rightarrow> string \<Rightarrow> int \<Rightarrow> connection_table \<Rightarrow> nat \<times> connection_table" where
  "expire_stale_pending_connections up now organization_id user_id provider_slug ttl_seconds table =
     (let slug = normalize_provider_slug provider_slug;
          before = now - max 60 ttl_seconds * 1000000
      in case normalize_owner organization_id user_id of
        None \<Rightarrow> (0, table)
      | Some owner \<Rightarrow>
          if slug = [] then (0, table)
          else if \<not> up then (0, table)
          else (length (filter (\<lambda>(i, row). stale_pending owner slug before row) table),
                map (\<lambda>(i, row). (i, if stale_pending owner slug before row
                  then expire_row now row else row)) table))"

section \<open>Lemmas\<close>

lemma str_or_simps [simp]: "str_or [] b = b" "a \<noteq> [] \<Longrightarrow> str_or a b = a"
  by (simp_all add: str_or_def)

lemma scope_metadata_roundtrip: "scope_grant_from_mapping (Some (scope_to_metadata g)) = g"
  by (simp add: scope_grant_from_mapping_def scope_to_metadata_def get_flag_def or_default_def)

lemma or_null_default [simp]: "or_default (or_null s) [] = s"
  by (simp add: or_null_def or_default_def)

lemma select_rows_sound:
  "(i, row) \<in> set (select_rows owner slug table) \<longleftrightarrow> (i, row) \<in> set table \<and> owned_by owner slug row"
  by (auto simp: select_rows_def)

lemma distinct_keys_filter_single:
  assumes "distinct (map fst xs)" "(k, v) \<in> set xs" "P (k, v)"
  shows "filter (\<lambda>(i, r). P (i, r) \<and> i = k) xs = [(k, v)]"
  using assms
proof (induction xs)
  case (Cons x xs)
  then show ?case by (cases x) (force simp: filter_empty_conv)
qed simp

text \<open>What reading a stored connection back changes.\<close>

definition stored_form :: "(string \<Rightarrow> string option) \<Rightarrow> connection_record \<Rightarrow> connection_record" where
  "stored_form to_iso c = c
     \<lparr>cr_state := (if cr_state c = Waiting then Disconnected else cr_state c),
      cr_vault_ref := (case cr_vault_ref c of None \<Rightarrow> None
        | Some r \<Rightarrow> if vr_vault_key_id r = [] then None
          else Some \<lparr> vr_provider_slug = cr_provider_slug c, vr_connection_id = cr_connection_id c,
            vr_vault_key_id = ''stored_opaque_ref'', vr_secret_version = vr_secret_version r \<rparr>),
      cr_last_checked_at := parse_datetime to_iso (cr_last_checked_at c),
      cr_warnings := filter (\<lambda>w. py_strip w \<noteq> []) (cr_warnings c)\<rparr>"

lemma state_word_roundtrip:
  "normalize_connection_state (Some (state_name s)) = (if s = Waiting then Disconnected else s)"
proof -
  have "list_all (\<lambda>s. normalize_connection_state (Some (state_name s))
      = (if s = Waiting then Disconnected else s))
      [Disconnected, Authorizing, Waiting, Connected, Expired, Errored, Disabled]"
    by code_simp
  then show ?thesis by (cases s) simp_all
qed

lemma normal_slug_parts:
  assumes "normalize_provider_slug p = p" "p \<noteq> []"
  shows "py_strip p = p" "dash_to_underscore (py_lower p) = p"
proof -
  have "py_strip (normalize_provider_slug p) = normalize_provider_slug p"
    by (simp add: normalize_provider_slug_def py_strip_dash py_strip_lower)
  then show strip: "py_strip p = p" using assms by simp
  show "dash_to_underscore (py_lower p) = p"
    using assms strip by (simp add: normalize_provider_slug_def)
qed

lemma upsert_row:
  assumes "normalize_owner org user = Some (oo, uu)"
    and "cr_connection_id c \<noteq> []" "cr_provider_slug c \<noteq> []"
  obtains row where "upsert_connection_record to_iso True now c org user kind table
      = (True, dict_set (cr_connection_id c) row table)"
    and "kw_organization_id row = oo" "kw_user_id row = uu" "kw_provider_slug row = cr_provider_slug c"
    and "normalize_provider_slug (cr_provider_slug c) = cr_provider_slug c \<Longrightarrow>
      py_strip (cr_connection_id c) = cr_connection_id c \<Longrightarrow>
      connection_record_from_row (cr_provider_slug c) (cr_connection_id c, row) = Some (stored_form to_iso c)"
  using assms normal_slug_parts [of "cr_provider_slug c"]
  by (auto simp: upsert_connection_record_def connection_record_from_row_def stored_form_def Let_def
      scope_metadata_roundtrip state_word_roundtrip vault_ref_metadata_def get_flag_def
      split: option.splits)

lemma select_by_id:
  assumes "distinct (dict_keys table)" "(i, row) \<in> set table" "owned_by owner slug row"
  shows "filter (\<lambda>(j, r). j = i) (select_rows owner slug table) = [(i, row)]"
proof -
  have "filter (\<lambda>(j, r). owned_by owner slug r \<and> j = i) table = [(i, row)]"
    using distinct_keys_filter_single [of table i row "\<lambda>(j, r). owned_by owner slug r"] assms
    by (simp add: dict_keys_def)
  then have "filter (\<lambda>(j, r). j = i) (filter (\<lambda>(j, r). owned_by owner slug r) table) = [(i, row)]"
    by (simp add: filter_filter case_prod_unfold conj_commute)
  then show ?thesis by (simp add: select_rows_def filter_sort)
qed

lemma dict_set_member: "(k, v) \<in> set (dict_set k v d)"
  by (metis dict_get_def dict_get_set fun_upd_same map_of_SomeD)

section \<open>Properties\<close>

text \<open>A stored connection is found again by its owner under its id, in its stored form: the vault
  reference is opaque, blank warnings and unreadable timestamps are dropped, and, because of the
  state words \<open>normalize_connection_state\<close> knows, a waiting connection comes back disconnected.\<close>

theorem upsert_get_roundtrip:
  assumes owner: "normalize_owner org user \<noteq> None"
    and ident: "py_strip (cr_connection_id c) = cr_connection_id c" "cr_connection_id c \<noteq> []"
    and slug: "normalize_provider_slug (cr_provider_slug c) = cr_provider_slug c" "cr_provider_slug c \<noteq> []"
    and table: "distinct (dict_keys table)"
  shows "fst (upsert_connection_record to_iso True now c org user kind table)
    \<and> get_connection_record True org user (cr_provider_slug c) (Some (cr_connection_id c))
        (snd (upsert_connection_record to_iso True now c org user kind table))
      = Some (stored_form to_iso c)"
proof -
  obtain oo uu where own: "normalize_owner org user = Some (oo, uu)" using owner by auto
  obtain row where up: "upsert_connection_record to_iso True now c org user kind table
        = (True, dict_set (cr_connection_id c) row table)"
    and row: "owned_by (oo, uu) (cr_provider_slug c) row"
    and readback: "connection_record_from_row (cr_provider_slug c) (cr_connection_id c, row)
        = Some (stored_form to_iso c)"
    using upsert_row [OF own ident(2) slug(2)] slug(1) ident(1) by (metis owned_by_def)
  have found: "filter (\<lambda>(j, r). j = cr_connection_id c)
      (select_rows (oo, uu) (cr_provider_slug c) (dict_set (cr_connection_id c) row table))
      = [(cr_connection_id c, row)]"
    by (rule select_by_id) (simp_all add: distinct_dict_keys_set table dict_set_member row)
  show ?thesis
    using own ident slug found readback
    by (simp add: up get_connection_record_def Let_def or_default_def)
qed

theorem upsert_get_roundtrip_witness:
  "get_connection_record True '' o '' ''u'' ''gmail'' (Some ''c1'')
     (snd (upsert_connection_record (\<lambda>s. Some s) True 7 (example_connection\<lparr>cr_state := Waiting\<rparr>)
        '' o '' ''u'' ''composio'' []))
   = Some (example_connection\<lparr>cr_state := Disconnected\<rparr>)"
proof -
  let ?c = "example_connection\<lparr>cr_state := Waiting\<rparr>"
  have "normalize_owner '' o '' ''u'' \<noteq> None" by code_simp
  moreover have "py_strip (cr_connection_id ?c) = cr_connection_id ?c" "cr_connection_id ?c \<noteq> []"
    "normalize_provider_slug (cr_provider_slug ?c) = cr_provider_slug ?c" "cr_provider_slug ?c \<noteq> []"
    by code_simp+
  ultimately have "get_connection_record True '' o '' ''u'' (cr_provider_slug ?c) (Some (cr_connection_id ?c))
     (snd (upsert_connection_record (\<lambda>s. Some s) True 7 ?c '' o '' ''u'' ''composio'' []))
     = Some (stored_form (\<lambda>s. Some s) ?c)"
    by (intro conjunct2 [OF upsert_get_roundtrip]) simp_all
  then show ?thesis
    by (simp add: example_connection_def stored_form_def parse_datetime_def or_default_def)
qed

text \<open>Reading is confined to the owner: every record listed or fetched comes from a row of the same
  organization, user and provider.\<close>

theorem connection_reads_isolated:
  "(\<forall>c \<in> set (list_connection_records up org user p limit table).
      \<exists>(i, row) \<in> set table. normalize_owner org user = Some (kw_organization_id row, kw_user_id row)
        \<and> kw_provider_slug row = normalize_provider_slug p \<and> cr_connection_id c = py_strip i)
   \<and> (case get_connection_record up org user p ident table of None \<Rightarrow> True
      | Some c \<Rightarrow> \<exists>(i, row) \<in> set table.
          normalize_owner org user = Some (kw_organization_id row, kw_user_id row)
          \<and> kw_provider_slug row = normalize_provider_slug p \<and> cr_connection_id c = py_strip i)"
proof -
  have row: "\<exists>(j, r) \<in> set table. normalize_owner org user = Some (kw_organization_id r, kw_user_id r)
      \<and> kw_provider_slug r = normalize_provider_slug p \<and> cr_connection_id c = py_strip j"
    if "normalize_owner org user = Some w" "x \<in> set (select_rows w (normalize_provider_slug p) table)"
      "connection_record_from_row s x = Some c" for w x s c
  proof -
    obtain i r where x: "x = (i, r)" by (cases x)
    have "cr_connection_id c = py_strip i"
      using that(3) by (auto simp: x connection_record_from_row_def Let_def split: if_splits)
    moreover have "(i, r) \<in> set table" "owned_by w (normalize_provider_slug p) r"
      using that(2) by (simp_all add: x select_rows_sound)
    ultimately show ?thesis using that(1) by (force simp: owned_by_def)
  qed
  have get: "\<exists>w x. normalize_owner org user = Some w
      \<and> x \<in> set (select_rows w (normalize_provider_slug p) table)
      \<and> connection_record_from_row (normalize_provider_slug p) x = Some c"
    if got: "get_connection_record up org user p ident table = Some c" for c
  proof -
    obtain w x rest where "normalize_owner org user = Some w"
      and hit: "filter (\<lambda>(i, row). py_strip (or_default ident []) = [] \<or> i = py_strip (or_default ident []))
        (select_rows w (normalize_provider_slug p) table) = x # rest"
      and "connection_record_from_row (normalize_provider_slug p) x = Some c"
      using got by (auto simp: get_connection_record_def Let_def split: option.splits if_splits list.splits)
    moreover have "x \<in> set (select_rows w (normalize_provider_slug p) table)"
      using arg_cong [OF hit, of set] by auto
    ultimately show ?thesis by blast
  qed
  have listed: "\<exists>w x. normalize_owner org user = Some w
      \<and> x \<in> set (select_rows w (normalize_provider_slug p) table)
      \<and> connection_record_from_row (normalize_provider_slug p) x = Some c"
    if inlist: "c \<in> set (list_connection_records up org user p limit table)" for c
  proof (cases "normalize_owner org user")
    case None
    then show ?thesis using inlist by (simp add: list_connection_records_def Let_def)
  next
    case (Some w)
    obtain n where "c \<in> set (List.map_filter (connection_record_from_row (normalize_provider_slug p))
        (take n (select_rows w (normalize_provider_slug p) table)))"
      using inlist Some by (auto simp: list_connection_records_def Let_def split: if_splits)
    then obtain x where "x \<in> set (take n (select_rows w (normalize_provider_slug p) table))"
      "connection_record_from_row (normalize_provider_slug p) x = Some c"
      by (auto simp: map_filter_def)
    then show ?thesis using Some in_set_takeD by fastforce
  qed
  show ?thesis (is "?listed \<and> ?got")
  proof
    show ?listed
    proof
      fix c assume "c \<in> set (list_connection_records up org user p limit table)"
      from listed [OF this] show "\<exists>(i, row) \<in> set table.
          normalize_owner org user = Some (kw_organization_id row, kw_user_id row)
          \<and> kw_provider_slug row = normalize_provider_slug p \<and> cr_connection_id c = py_strip i"
        by (elim exE conjE) (rule row)
    qed
    show ?got
    proof (cases "get_connection_record up org user p ident table")
      case (Some c)
      from get [OF this] show ?thesis
        unfolding Some option.case by (elim exE conjE) (rule row)
    qed simp
  qed
qed

text \<open>Expiry touches only rows of this owner and provider that are authorizing, waiting or in error
  and older than the time to live (60 seconds at least), turns them into expired rows and counts
  them; nothing else in the table moves, and at that instant nothing is left to expire.\<close>

theorem expire_stale_pending_connections_exact:
  "let (n, table') = expire_stale_pending_connections True now org user p ttl table
   in list_all2 (\<lambda>(i, row) (j, row'). i = j \<and> (row' = row \<or>
          (row' = expire_row now row \<and> kw_state row \<in> {''authorizing'', ''waiting'', ''error''}
           \<and> normalize_owner org user = Some (kw_organization_id row, kw_user_id row)
           \<and> kw_provider_slug row = normalize_provider_slug p
           \<and> kw_updated_at row < now - max 60 ttl * 1000000))) table table'
      \<and> n = length (filter (\<lambda>(x, y). x \<noteq> y) (zip table table'))
      \<and> expire_stale_pending_connections True now org user p ttl table' = (0, table')"
proof -
  let ?slug = "normalize_provider_slug p" and ?before = "now - max 60 ttl * 1000000"
  show ?thesis
  proof (cases "normalize_owner org user = None \<or> ?slug = []")
    case True
    then show ?thesis
      by (auto simp: expire_stale_pending_connections_def Let_def
          filter_empty_conv zip_same split: option.splits intro!: list.rel_refl)
  next
    case False
    then obtain w where w: "normalize_owner org user = Some w" and slug: "?slug \<noteq> []" by auto
    let ?stale = "stale_pending w ?slug ?before"
    let ?step = "\<lambda>(i, row). (i, if ?stale row then expire_row now row else row)"
    have run: "expire_stale_pending_connections True now org user p ttl t =
        (length (filter (\<lambda>(i, row). ?stale row) t), map ?step t)" for t
      by (simp add: expire_stale_pending_connections_def Let_def w slug)
    have "?stale row \<Longrightarrow> kw_state (expire_row now row) \<noteq> kw_state row" for row
      by (auto simp: stale_pending_def expire_row_def)
    then have changed: "?stale row \<Longrightarrow> expire_row now row \<noteq> row \<and> row \<noteq> expire_row now row" for row
      by metis
    have fresh: "\<not> ?stale (if ?stale row then expire_row now row else row)" for row
      by (simp add: stale_pending_def expire_row_def)
    have origin: "?stale row \<Longrightarrow> kw_state row \<in> {''authorizing'', ''waiting'', ''error''}
        \<and> w = (kw_organization_id row, kw_user_id row) \<and> kw_provider_slug row = ?slug
        \<and> kw_updated_at row < ?before" for row
      by (auto simp: stale_pending_def owned_by_def)
    have rel: "list_all2 (\<lambda>(i, row) (j, row'). i = j \<and> (row' = row \<or>
          (row' = expire_row now row \<and> kw_state row \<in> {''authorizing'', ''waiting'', ''error''}
           \<and> normalize_owner org user = Some (kw_organization_id row, kw_user_id row)
           \<and> kw_provider_slug row = ?slug \<and> kw_updated_at row < ?before))) t (map ?step t)" for t
      unfolding list.rel_map
    proof (rule list.rel_refl_strong)
      fix x show "(case x of (i, row) \<Rightarrow> \<lambda>(j, row'). i = j \<and> (row' = row \<or>
          (row' = expire_row now row \<and> kw_state row \<in> {''authorizing'', ''waiting'', ''error''}
           \<and> normalize_owner org user = Some (kw_organization_id row, kw_user_id row)
           \<and> kw_provider_slug row = ?slug \<and> kw_updated_at row < ?before))) (?step x)"
        using origin [of "snd x"] by (cases "?stale (snd x)") (simp_all add: w split_beta)
    qed
    have count: "length (filter (\<lambda>(i, row). ?stale row) t)
        = length (filter (\<lambda>(x, y). x \<noteq> y) (zip t (map ?step t)))" for t
      by (induction t) (auto dest: changed)
    have again: "length (filter (\<lambda>(i, row). ?stale row) (map ?step t)) = 0" "map ?step (map ?step t) = map ?step t"
      for t by (auto simp: filter_empty_conv fresh)
    show ?thesis by (simp only: run Let_def prod.case rel count [symmetric] again simp_thms)
  qed
qed

end
