(* ===== verification/Composio.thy ===== *)
theory Composio
  imports Connection_Store
begin

text \<open>
  \<open>app/engine/wiii_connect/composio_adapter.py\<close>, the part the executor rests on: the adapter
  configuration, the capabilities and registry entries it enables, the schema check and the
  execution of one tool. The HTTP client is a parameter that maps a request to its outcome; every
  request sent is part of the result, so that a theorem can say what leaves the backend.
\<close>

section \<open>Configuration\<close>

record composio_config =
  cx_enabled :: bool
  cx_api_key :: string
  cx_api_key_present :: bool
  cx_base_url :: string
  cx_api_version :: string
  cx_auth_config_by_provider :: "(string \<times> string) list"
  cx_readonly_execute_enabled :: bool
  cx_readonly_allowlist :: "(string \<times> string list) list"
  cx_apply_execute_enabled :: bool
  cx_apply_allowlist :: "(string \<times> string list) list"

definition auth_config_count :: "composio_config \<Rightarrow> nat" where
  "auth_config_count c = length (cx_auth_config_by_provider c)"

definition readonly_action_count :: "composio_config \<Rightarrow> nat" where
  "readonly_action_count c = sum_list (map (length \<circ> snd) (cx_readonly_allowlist c))"

definition apply_action_count :: "composio_config \<Rightarrow> nat" where
  "apply_action_count c = sum_list (map (length \<circ> snd) (cx_apply_allowlist c))"

definition auth_config_id_for_provider :: "composio_config \<Rightarrow> string \<Rightarrow> string" where
  "auth_config_id_for_provider c provider_slug =
     or_default (dict_get (cx_auth_config_by_provider c) (normalize_provider_slug provider_slug)) []"

definition readonly_action_slugs_for_provider :: "composio_config \<Rightarrow> string \<Rightarrow> string list" where
  "readonly_action_slugs_for_provider c provider_slug =
     (let provider = normalize_provider_slug provider_slug in
      configured_action_slugs_for_provider provider
        (or_default (dict_get (cx_readonly_allowlist c) provider) []) (Some [Read]))"

definition apply_action_slugs_for_provider :: "composio_config \<Rightarrow> string \<Rightarrow> string list" where
  "apply_action_slugs_for_provider c provider_slug =
     (let provider = normalize_provider_slug provider_slug in
      configured_action_slugs_for_provider provider
        (or_default (dict_get (cx_apply_allowlist c) provider) []) (Some [Apply]))"

definition executable_action_slugs_for_provider :: "composio_config \<Rightarrow> string \<Rightarrow> string list" where
  "executable_action_slugs_for_provider c provider_slug =
     (let provider = normalize_provider_slug provider_slug in
      sorted_set
        ((if cx_readonly_execute_enabled c then readonly_action_slugs_for_provider c provider else [])
         @ (if cx_apply_execute_enabled c then apply_action_slugs_for_provider c provider else [])))"

definition composio_config_metadata :: "composio_config \<Rightarrow> pydict" where
  "composio_config_metadata c =
     [(''version'', PStr ''wiii_connect_composio_adapter.v1''),
      (''enabled'', PBool (cx_enabled c)),
      (''api_key_present'', PBool (cx_api_key_present c)),
      (''base_url'', PStr (cx_base_url c)),
      (''api_version'', PStr (cx_api_version c)),
      (''auth_config_count'', PInt (int (auth_config_count c))),
      (''provider_slugs'', str_list (sort (dict_keys (cx_auth_config_by_provider c)))),
      (''readonly_execute_enabled'', PBool (cx_readonly_execute_enabled c)),
      (''readonly_action_count'', PInt (int (readonly_action_count c))),
      (''readonly_action_provider_slugs'', str_list (sort (dict_keys (cx_readonly_allowlist c)))),
      (''apply_execute_enabled'', PBool (cx_apply_execute_enabled c)),
      (''apply_action_count'', PInt (int (apply_action_count c))),
      (''apply_action_provider_slugs'', str_list (sort (dict_keys (cx_apply_allowlist c))))]"

definition composio_capability :: "composio_config \<Rightarrow> adapter_capability" where
  "composio_capability c =
     (let base = \<lparr> ac_provider_kind = Composio, ac_adapter_name = ''composio_adapter'',
            ac_bound = False, ac_configured = False, ac_can_create_authorization_url = False,
            ac_can_exchange_callback = False, ac_can_execute_actions = False,
            ac_reason = ''provider_adapter_not_bound'', ac_warnings = [''composio_disabled''] \<rparr>
      in if \<not> cx_enabled c then base
      else if \<not> cx_api_key_present c then base
        \<lparr>ac_bound := True, ac_reason := ''provider_adapter_not_configured'',
         ac_warnings := [''missing_composio_api_key'']\<rparr>
      else
        let can_readonly = (cx_readonly_execute_enabled c \<and> readonly_action_count c > 0);
            can_apply = (cx_apply_execute_enabled c \<and> apply_action_count c > 0);
            warnings =
              (if can_readonly then [''composio_readonly_execution_limited_to_curated_allowlist''] else [])
              @ (if can_apply then [''composio_apply_execution_requires_preview_and_approval''] else [])
              @ (if auth_config_count c = 0
                 then [''composio_auth_config_will_be_resolved_from_provider''] else [])
        in base
        \<lparr>ac_bound := True, ac_configured := True, ac_can_create_authorization_url := True,
         ac_can_exchange_callback := True, ac_can_execute_actions := (can_readonly \<or> can_apply),
         ac_reason := ''ready'',
         ac_warnings := list_or warnings [''execution_disabled_or_no_curated_actions'']\<rparr>)"

definition composio_vault_capability :: "composio_config \<Rightarrow> vault_capability" where
  "composio_vault_capability c =
     (if \<not> authorization_ready (composio_capability c) then default_vault_capability
      else \<lparr> vc_enabled = True, vc_backend = BackendProviderManaged,
        vc_accepts_secret_material = True, vc_provider_managed = True,
        vc_key_namespace = ''composio'', vc_reason = ''ready'',
        vc_warnings = [''secrets_remain_provider_managed''] \<rparr>)"

definition append_unique :: "string list \<Rightarrow> string \<Rightarrow> string list" where
  "append_unique values v = (if v \<in> set values then values else values @ [v])"

definition composio_connect_enabled_entry :: "provider_entry \<Rightarrow> composio_config \<Rightarrow> provider_entry" where
  "composio_connect_enabled_entry e c =
     (if pe_provider_kind e \<noteq> Composio then e
      else if \<not> authorization_ready (composio_capability c) then e
      else e\<lparr>pe_enabled := True, pe_agent_ready := False,
        pe_requirements := pe_agent_ready_requirements e, pe_connect_requirements := [],
        pe_warnings := append_unique (filter (\<lambda>w. w \<noteq> ''adapter_disabled'') (pe_warnings e))
          ''agent_actions_disabled_until_gateway_ready''\<rparr>)"

definition composio_execution_enabled_entry :: "provider_entry \<Rightarrow> composio_config \<Rightarrow> provider_entry" where
  "composio_execution_enabled_entry e c =
     (let ce = composio_connect_enabled_entry e c in
      if pe_provider_kind ce \<noteq> Composio \<or> \<not> pe_enabled ce then ce
      else let
        readonly_actions = (if cx_readonly_execute_enabled c
          then readonly_action_slugs_for_provider c (pe_slug ce) else []);
        apply_actions = (if cx_apply_execute_enabled c
          then apply_action_slugs_for_provider c (pe_slug ce) else []);
        allowed_actions = sorted_set (readonly_actions @ apply_actions)
      in if allowed_actions = [] then ce
      else let
        kept = filter (\<lambda>w. w \<noteq> [] \<and>
          w \<notin> {''adapter_disabled'', ''agent_actions_disabled_until_gateway_ready''}) (pe_warnings ce);
        warnings1 = append_unique kept ''agent_actions_require_live_schema_verification'';
        warnings2 = (if apply_actions \<noteq> [] then append_unique warnings1
          ''apply_agent_actions_require_preview_approval_and_scope_grant'' else warnings1)
      in ce\<lparr>pe_agent_ready := True, pe_requirements := [], pe_agent_ready_requirements := [],
        pe_action_allowlist := allowed_actions,
        pe_default_scopes := no_scopes
          \<lparr>sg_read := (readonly_actions \<noteq> [] \<or> apply_actions \<noteq> []),
           sg_preview := (apply_actions \<noteq> []), sg_apply := (apply_actions \<noteq> [])\<rparr>,
        pe_warnings := warnings2\<rparr>)"

definition composio_external_user_id :: "string option \<Rightarrow> string \<Rightarrow> string" where
  "composio_external_user_id organization_id user_id =
     ''wiii_'' @ take 32 (sha256_hex (str_or (or_default organization_id []) ''personal'' @ '':'' @ user_id))"

section \<open>The HTTP client\<close>

text \<open>A request with its URL, query parameters or JSON body, and headers.\<close>

datatype http_request =
    is_HttpGet: HttpGet (rq_url: string) "(string \<times> string) list" "(string \<times> string) list"
  | is_HttpPost: HttpPost (rq_url: string) pydict "(string \<times> string) list"
  | is_HttpPut: HttpPut (rq_url: string) "nat list" "(string \<times> string) list"
  | is_HttpDelete: HttpDelete (rq_url: string) "(string \<times> string) list"

text \<open>A transport error, or a status code and the body (\<open>None\<close> when it is not JSON).\<close>

datatype http_result = TransportError | HttpResponse int "pyval option"

type_synonym http_client = "http_request \<Rightarrow> http_result"

definition rstrip_slash :: "string \<Rightarrow> string" where
  "rstrip_slash s = rev (dropWhile (\<lambda>c. c = CHR ''/'') (rev s))"

definition strip_slash :: "string \<Rightarrow> string" where
  "strip_slash s = rstrip_slash (dropWhile (\<lambda>c. c = CHR ''/'') s)"

definition composio_safe_request_id :: "string \<Rightarrow> string" where
  "composio_safe_request_id value =
     take 96 (py_join '' '' (py_split (redact_runtime_secret_text (Some 160) value)))"

definition provider_request_headers :: "composio_config \<Rightarrow> string \<Rightarrow> (string \<times> string) list" where
  "provider_request_headers c request_id =
     (''x-api-key'', cx_api_key c) #
     (let rid = composio_safe_request_id request_id in if rid \<noteq> [] then [(''X-Request-ID'', rid)] else [])"

definition tool_url :: "composio_config \<Rightarrow> string \<Rightarrow> string \<Rightarrow> string" where
  "tool_url c middle action = rstrip_slash (cx_base_url c) @ ''/api/'' @ strip_slash (cx_api_version c)
     @ middle @ action"

section \<open>Tool schemas\<close>

record tool_schema =
  ts_ready :: bool
  ts_provider_slug :: string
  ts_action_slug :: string
  ts_reason :: string
  ts_request_id :: string
  ts_schema_present :: bool
  ts_argument_keys :: "string list"
  ts_required_argument_keys :: "string list"

definition safe_tool_schema_reason :: "string \<Rightarrow> string" where
  "safe_tool_schema_reason value =
     (let reason = py_strip value in
      if reason \<in> {''ready'', ''not_requested'', ''action_not_curated'', ''action_not_allowlisted'',
          ''provider_adapter_not_configured'', ''provider_transport_error'',
          ''provider_response_rejected'', ''provider_response_invalid'', ''tool_schema_not_found'',
          ''tool_schema_missing_arguments''}
      then reason else ''provider_response_unavailable'')"

definition tool_schema_metadata :: "tool_schema \<Rightarrow> pydict" where
  "tool_schema_metadata s =
     [(''version'', PStr ''wiii_connect_composio_tool_schema.v1''),
      (''status'', PStr (if ts_ready s then ''ready'' else ''blocked'')),
      (''reason'', PStr (safe_tool_schema_reason (ts_reason s))),
      (''provider_slug'', PStr (normalize_provider_slug (ts_provider_slug s))),
      (''action_slug'', PStr (normalize_action_slug (ts_action_slug s))),
      (''schema_present'', PBool (ts_schema_present s)),
      (''argument_policy_version'', PStr ''wiii_connect_argument_key_policy.v1''),
      (''argument_keys'', str_list (safe_public_argument_keys (ts_argument_keys s))),
      (''required_argument_keys'', str_list (safe_public_argument_keys (ts_required_argument_keys s))),
      (''hidden_argument_count'', PInt (int (hidden_model_argument_key_count
         (ts_provider_slug s) (ts_action_slug s) (ts_argument_keys s))))]
     @ (let rid = composio_safe_request_id (ts_request_id s) in
        if rid \<noteq> [] then [(''request_id'', PStr rid)] else [])"

text \<open>\<open>d.get(k1) or d.get(k2) or ... or default\<close>.\<close>

fun first_truthy :: "pydict \<Rightarrow> string list \<Rightarrow> pyval \<Rightarrow> pyval" where
  "first_truthy d [] v = v"
| "first_truthy d (k # ks) v =
     (case dict_get d k of
        Some x \<Rightarrow> if truthy x then x else first_truthy d ks v
      | None \<Rightarrow> first_truthy d ks v)"

fun extract_input_schema_keys :: "string list \<Rightarrow> pydict \<Rightarrow> pydict" where
  "extract_input_schema_keys [] data = []"
| "extract_input_schema_keys (k # ks) data =
     (case dict_get data k of Some (PDict d) \<Rightarrow> d | _ \<Rightarrow> extract_input_schema_keys ks data)"

definition extract_input_schema :: "pydict \<Rightarrow> pydict" where
  "extract_input_schema = extract_input_schema_keys
     [''input_parameters'', ''input_schema'', ''inputSchema'', ''parameters'', ''args_schema'', ''schema'']"

definition extract_toolkit_slug :: "pydict \<Rightarrow> string" where
  "extract_toolkit_slug data =
     (case dict_get data ''toolkit'' of
        Some (PDict toolkit) \<Rightarrow> normalize_provider_slug
          (str_or_empty (first_truthy toolkit [''slug'', ''toolkit_slug'', ''name''] (PStr [])))
      | _ \<Rightarrow> normalize_provider_slug (str_or_empty (first_truthy data [''toolkit_slug''] (PStr []))))"

definition extract_schema_argument_keys :: "pydict \<Rightarrow> string list" where
  "extract_schema_argument_keys schema =
     (case dict_get schema ''properties'' of
        Some (PDict properties) \<Rightarrow> sort (filter (\<lambda>k. k \<noteq> []) (dict_keys properties))
      | _ \<Rightarrow> sort (filter (\<lambda>k. k \<noteq> []) (dict_keys schema)))"

definition extract_schema_required_keys :: "pydict \<Rightarrow> string list" where
  "extract_schema_required_keys schema =
     (case dict_get schema ''required'' of
        Some (PList required) \<Rightarrow> sort (filter (\<lambda>k. k \<noteq> []) (map py_str required))
      | _ \<Rightarrow> sort (map fst (filter (\<lambda>(k, v). case v of PDict d \<Rightarrow> get_flag d ''required'' | _ \<Rightarrow> False)
          schema)))"

definition verify_tool_schema ::
    "http_client \<Rightarrow> composio_config \<Rightarrow> string \<Rightarrow> string \<Rightarrow> string \<Rightarrow> tool_schema \<times> http_request list" where
  "verify_tool_schema client c provider_slug action_slug request_id =
     (let provider = normalize_provider_slug provider_slug;
          action = normalize_action_slug action_slug;
          rid = composio_safe_request_id request_id;
          refused = (\<lambda>reason. \<lparr> ts_ready = False, ts_provider_slug = provider,
            ts_action_slug = action, ts_reason = reason, ts_request_id = rid,
            ts_schema_present = False, ts_argument_keys = [], ts_required_argument_keys = [] \<rparr>)
      in if get_curated_action provider action = None then (refused ''action_not_curated'', [])
      else if action \<notin> set (executable_action_slugs_for_provider c provider)
        then (refused ''action_not_allowlisted'', [])
      else if \<not> cx_enabled c \<or> \<not> cx_api_key_present c
        then (refused ''provider_adapter_not_configured'', [])
      else let request = HttpGet (tool_url c ''/tools/'' action)
          [(''toolkit_versions'', ''latest'')] (provider_request_headers c rid) in
        (case client request of
           TransportError \<Rightarrow> refused ''provider_transport_error''
         | HttpResponse status body \<Rightarrow>
             if status < 200 \<or> status \<ge> 300 then refused ''provider_response_rejected''
             else (case body of
               Some (PDict data) \<Rightarrow>
                 (let schema_action = normalize_action_slug (str_or_empty (first_truthy data
                        [''slug'', ''tool_slug'', ''toolSlug'', ''name''] (PStr action)));
                      toolkit = extract_toolkit_slug data;
                      schema = extract_input_schema data;
                      keys = extract_schema_argument_keys schema
                  in if schema_action \<noteq> action then refused ''tool_schema_not_found''
                  else if toolkit \<noteq> [] \<and> toolkit \<noteq> provider then refused ''tool_schema_not_found''
                  else if schema = [] \<or> keys = []
                    then (refused ''tool_schema_missing_arguments'')\<lparr>ts_schema_present := (schema \<noteq> [])\<rparr>
                  else (refused ''ready'')\<lparr>ts_ready := True, ts_schema_present := True,
                    ts_argument_keys := keys,
                    ts_required_argument_keys := extract_schema_required_keys schema\<rparr>)
             | _ \<Rightarrow> refused ''provider_response_invalid''), [request]))"

section \<open>Tool execution\<close>

record execute_result =
  ex_ready :: bool
  ex_provider_slug :: string
  ex_action_slug :: string
  ex_reason :: string
  ex_request_id :: string
  ex_successful :: bool
  ex_status_code :: int
  ex_data_keys :: "string list"
  ex_error_present :: bool
  ex_session_info_present :: bool
  ex_log_id_present :: bool

definition execute_status :: "execute_result \<Rightarrow> string" where
  "execute_status r =
     (if ex_ready r \<and> ex_successful r then ''succeeded''
      else if ex_ready r then ''failed'' else ''blocked'')"

definition safe_execute_reason :: "string \<Rightarrow> string" where
  "safe_execute_reason value =
     (let reason = py_strip value in
      if reason \<in> {''ready'', ''not_requested'', ''provider_adapter_not_configured'',
          ''action_not_allowlisted'', ''missing_user_or_connection'', ''missing_file'',
          ''provider_transport_error'', ''provider_response_rejected'',
          ''provider_response_invalid'', ''provider_execution_failed''}
      then reason else ''provider_response_unavailable'')"

definition composio_safe_public_key :: "string \<Rightarrow> string" where
  "composio_safe_public_key key =
     (let normalized = py_lower (py_strip key) in
      if normalized = [] then ''empty''
      else if contains_any secret_markers normalized then ''redacted_sensitive_field''
      else take 80 normalized)"

definition execute_result_metadata :: "execute_result \<Rightarrow> pydict" where
  "execute_result_metadata r =
     [(''version'', PStr ''wiii_connect_composio_execution.v1''),
      (''status'', PStr (execute_status r)),
      (''reason'', PStr (safe_execute_reason (ex_reason r))),
      (''provider_slug'', PStr (normalize_provider_slug (ex_provider_slug r))),
      (''action_slug'', PStr (normalize_action_slug (ex_action_slug r))),
      (''successful'', PBool (ex_successful r)),
      (''status_code'', PInt (ex_status_code r)),
      (''data_keys'', str_list (map composio_safe_public_key (ex_data_keys r))),
      (''error_present'', PBool (ex_error_present r)),
      (''session_info_present'', PBool (ex_session_info_present r)),
      (''log_id_present'', PBool (ex_log_id_present r))]
     @ (let rid = composio_safe_request_id (ex_request_id r) in
        if rid \<noteq> [] then [(''request_id'', PStr rid)] else [])"

definition execute_tool ::
    "http_client \<Rightarrow> composio_config \<Rightarrow> string \<Rightarrow> string \<Rightarrow> string \<Rightarrow> string \<Rightarrow> pydict \<Rightarrow> string \<Rightarrow>
     execute_result \<times> http_request list" where
  "execute_tool client c provider_slug action_slug user_id connected_account_id arguments request_id =
     (let provider = normalize_provider_slug provider_slug;
          action = normalize_action_slug action_slug;
          rid = composio_safe_request_id request_id;
          refused = (\<lambda>reason code. \<lparr> ex_ready = False, ex_provider_slug = provider,
            ex_action_slug = action, ex_reason = reason, ex_request_id = rid,
            ex_successful = False, ex_status_code = code, ex_data_keys = [],
            ex_error_present = False, ex_session_info_present = False,
            ex_log_id_present = False \<rparr>)
      in if \<not> cx_enabled c \<or> \<not> cx_api_key_present c
        then (refused ''provider_adapter_not_configured'' 0, [])
      else if action \<notin> set (executable_action_slugs_for_provider c provider)
        then (refused ''action_not_allowlisted'' 0, [])
      else if user_id = [] \<or> connected_account_id = []
        then (refused ''missing_user_or_connection'' 0, [])
      else let request = HttpPost (tool_url c ''/tools/execute/'' action)
          [(''user_id'', PStr user_id), (''connected_account_id'', PStr connected_account_id),
           (''arguments'', PDict arguments)]
          (provider_request_headers c rid)
      in (case client request of
           TransportError \<Rightarrow> refused ''provider_transport_error'' 0
         | HttpResponse status body \<Rightarrow>
             if status < 200 \<or> status \<ge> 300 then refused ''provider_response_rejected'' status
             else (case body of
               Some (PDict data) \<Rightarrow>
                 (let successful = get_flag data ''successful'' in
                  (refused (if successful then ''ready'' else ''provider_execution_failed'') status)
                    \<lparr>ex_ready := True, ex_successful := successful,
                     ex_data_keys := (case dict_get data ''data'' of
                        Some (PDict shape) \<Rightarrow> sort (dict_keys shape) | _ \<Rightarrow> []),
                     ex_error_present := get_flag data ''error'',
                     ex_session_info_present := get_flag data ''session_info'',
                     ex_log_id_present := get_flag data ''log_id''\<rparr>)
             | _ \<Rightarrow> refused ''provider_response_invalid'' status), [request]))"

section \<open>What the configuration permits\<close>

text \<open>The operator permits an action of a provider when it is in the curated catalogue and its kind of
  execution is switched on and allowlists it: reads by the read-only list, applies by the other.\<close>

definition operator_permits :: "composio_config \<Rightarrow> string \<Rightarrow> curated_action \<Rightarrow> bool" where
  "operator_permits c provider a =
     (a \<in> set curated_actions \<and> (provider = [] \<or> ca_provider_slug a = provider)
      \<and> (ca_mutation a = Read \<and> cx_readonly_execute_enabled c
           \<and> ca_slug a \<in> set (normalized_slugs (or_default (dict_get (cx_readonly_allowlist c) provider) []))
         \<or> ca_mutation a = Apply \<and> cx_apply_execute_enabled c
           \<and> ca_slug a \<in> set (normalized_slugs (or_default (dict_get (cx_apply_allowlist c) provider) []))))"

lemma set_configured:
  "s \<in> set (configured_action_slugs_for_provider p slugs (Some [m])) \<longleftrightarrow>
     (\<exists>a. a \<in> set curated_actions \<and> s = ca_slug a \<and> ca_mutation a = m
        \<and> s \<in> set (normalized_slugs slugs)
        \<and> (normalize_provider_slug p = [] \<or> ca_provider_slug a = normalize_provider_slug p))"
  by (auto simp: configured_action_slugs_for_provider_def Let_def set_list_curated or_default_def)

lemma set_sorted_set [simp]: "set (sorted_set xs) = set xs"
  by (simp add: sorted_set_def)

lemma sorted_set_empty [simp]: "sorted_set xs = [] \<longleftrightarrow> xs = []"
  using set_sorted_set [of xs] by (metis set_empty)

lemma set_readonly_slugs:
  "s \<in> set (readonly_action_slugs_for_provider c p) \<longleftrightarrow>
     (\<exists>a. a \<in> set curated_actions \<and> s = ca_slug a \<and> ca_mutation a = Read
        \<and> s \<in> set (normalized_slugs (or_default (dict_get (cx_readonly_allowlist c) (normalize_provider_slug p)) []))
        \<and> (normalize_provider_slug p = [] \<or> ca_provider_slug a = normalize_provider_slug p))"
  by (simp add: readonly_action_slugs_for_provider_def Let_def set_configured)

lemma set_apply_slugs:
  "s \<in> set (apply_action_slugs_for_provider c p) \<longleftrightarrow>
     (\<exists>a. a \<in> set curated_actions \<and> s = ca_slug a \<and> ca_mutation a = Apply
        \<and> s \<in> set (normalized_slugs (or_default (dict_get (cx_apply_allowlist c) (normalize_provider_slug p)) []))
        \<and> (normalize_provider_slug p = [] \<or> ca_provider_slug a = normalize_provider_slug p))"
  by (simp add: apply_action_slugs_for_provider_def Let_def set_configured)

lemma executable_action_slugs_permitted:
  "s \<in> set (executable_action_slugs_for_provider c p) \<longleftrightarrow>
     (\<exists>a. operator_permits c (normalize_provider_slug p) a \<and> s = ca_slug a)"
  by (auto simp: executable_action_slugs_for_provider_def Let_def set_readonly_slugs set_apply_slugs
      operator_permits_def)

section \<open>Lemmas\<close>

lemma normalize_action_slug_idem_curated:
  "operator_permits c p a \<Longrightarrow> normalize_action_slug (ca_slug a) = ca_slug a"
  by (simp add: operator_permits_def curated_slug_normal)

lemma executable_again [simp]:
  "executable_action_slugs_for_provider c (normalize_provider_slug p)
   = executable_action_slugs_for_provider c p"
  by (simp add: executable_action_slugs_for_provider_def)

text \<open>The guards of the two provider calls.\<close>

definition adapter_usable :: "composio_config \<Rightarrow> bool" where
  "adapter_usable c = (cx_enabled c \<and> cx_api_key_present c)"

definition schema_gate :: "composio_config \<Rightarrow> string \<Rightarrow> string \<Rightarrow> bool" where
  "schema_gate c provider action =
     (get_curated_action provider action \<noteq> None
      \<and> action \<in> set (executable_action_slugs_for_provider c provider) \<and> adapter_usable c)"

definition execute_gate :: "composio_config \<Rightarrow> string \<Rightarrow> string \<Rightarrow> string \<Rightarrow> string \<Rightarrow> bool" where
  "execute_gate c provider action user account =
     (adapter_usable c \<and> action \<in> set (executable_action_slugs_for_provider c provider)
      \<and> user \<noteq> [] \<and> account \<noteq> [])"

lemma verify_tool_schema_requests:
  "snd (verify_tool_schema client c p s rid) =
     (if schema_gate c (normalize_provider_slug p) (normalize_action_slug s)
      then [HttpGet (tool_url c ''/tools/'' (normalize_action_slug s))
              [(''toolkit_versions'', ''latest'')]
              (provider_request_headers c (composio_safe_request_id rid))]
      else [])"
  by (auto simp: verify_tool_schema_def schema_gate_def adapter_usable_def Let_def)

lemma execute_tool_requests:
  "snd (execute_tool client c p s user account arguments rid) =
     (if execute_gate c (normalize_provider_slug p) (normalize_action_slug s) user account
      then [HttpPost (tool_url c ''/tools/execute/'' (normalize_action_slug s))
              [(''user_id'', PStr user), (''connected_account_id'', PStr account),
               (''arguments'', PDict arguments)]
              (provider_request_headers c (composio_safe_request_id rid))]
      else [])"
  by (auto simp: execute_tool_def execute_gate_def adapter_usable_def Let_def)

lemma schema_gate_permits:
  "schema_gate c (normalize_provider_slug p) s \<Longrightarrow>
     \<exists>a. operator_permits c (normalize_provider_slug p) a \<and> ca_slug a = s \<and> ca_provider_slug a = normalize_provider_slug p"
  by (auto simp: schema_gate_def executable_action_slugs_permitted get_curated_Some operator_permits_def)

lemma execute_gate_permits:
  "execute_gate c (normalize_provider_slug p) s user account \<Longrightarrow>
     adapter_usable c \<and> user \<noteq> [] \<and> account \<noteq> [] \<and>
     (\<exists>a. operator_permits c (normalize_provider_slug p) a \<and> ca_slug a = s)"
  by (auto simp: execute_gate_def executable_action_slugs_permitted)

text \<open>A verified schema is never empty and comes from a request that passed the gate.\<close>

lemma verify_tool_schema_ready:
  "ts_ready (fst (verify_tool_schema client c p s rid)) \<Longrightarrow>
     schema_gate c (normalize_provider_slug p) (normalize_action_slug s)"
  by (rule ccontr) (auto simp: verify_tool_schema_def schema_gate_def adapter_usable_def Let_def
      split: if_splits)

lemma verify_tool_schema_reason:
  "ts_ready (fst (verify_tool_schema client c p s rid)) \<longleftrightarrow>
     ts_reason (fst (verify_tool_schema client c p s rid)) = ''ready''"
  by (simp add: verify_tool_schema_def Let_def split: http_result.splits option.splits pyval.splits)

lemma execute_status_cases:
  "execute_status r \<in> {''succeeded'', ''failed'', ''blocked''}"
  by (simp add: execute_status_def)

text \<open>Entries of the catalogue keep their slug, which is in normal form, under every configuration.\<close>

lemma enabled_entry_slug:
  "pe_slug (composio_connect_enabled_entry e c) = pe_slug e"
  "pe_slug (composio_execution_enabled_entry e c) = pe_slug e"
  by (simp_all add: composio_connect_enabled_entry_def composio_execution_enabled_entry_def Let_def)

lemma provider_slug_normal:
  assumes "get_provider_entry slug = Some e"
  shows "normalize_provider_slug (pe_slug e) = pe_slug e" "pe_slug e \<noteq> []"
    "pe_slug e = normalize_provider_slug slug"
proof -
  have "pe_slug e = normalize_provider_slug slug \<and> pe_slug e \<noteq> []"
    using assms by (auto simp: get_provider_entry_def normalize_provider_slug_def Let_def find_Some_iff split: if_splits)
  then show "normalize_provider_slug (pe_slug e) = pe_slug e" "pe_slug e \<noteq> []"
    "pe_slug e = normalize_provider_slug slug" by auto
qed

section \<open>Properties\<close>

text \<open>A provider call leaves the backend only for an action of the curated catalogue that the operator
  permits in the configuration, with the adapter enabled and its key present, and one call of the
  adapter sends at most one request: a GET for the schema, a POST for the execution.\<close>

theorem composio_requests_permitted:
  "list_all (\<lambda>r. is_HttpGet r \<and> adapter_usable c
       \<and> (\<exists>a. operator_permits c (normalize_provider_slug p) a \<and> ca_slug a = normalize_action_slug s
            \<and> ca_provider_slug a = normalize_provider_slug p))
     (snd (verify_tool_schema client c p s rid))
   \<and> list_all (\<lambda>r. is_HttpPost r \<and> adapter_usable c
       \<and> (\<exists>a. operator_permits c (normalize_provider_slug p) a \<and> ca_slug a = normalize_action_slug s))
     (snd (execute_tool client c p s user account arguments rid))
   \<and> length (snd (verify_tool_schema client c p s rid)) \<le> 1
   \<and> length (snd (execute_tool client c p s user account arguments rid)) \<le> 1"
proof -
  have "schema_gate c (normalize_provider_slug p) (normalize_action_slug s) \<Longrightarrow> adapter_usable c"
    by (simp add: schema_gate_def)
  then show ?thesis
    using schema_gate_permits [of c p "normalize_action_slug s"]
      execute_gate_permits [of c p "normalize_action_slug s" user account]
    by (auto simp: verify_tool_schema_requests execute_tool_requests)
qed

text \<open>What of a provider response is looked at: the keys of its data and whether four of its fields are set.\<close>

definition response_shape :: "pydict \<Rightarrow> pydict" where
  "response_shape d =
     [(''successful'', PBool (get_flag d ''successful'')), (''error'', PBool (get_flag d ''error'')),
      (''session_info'', PBool (get_flag d ''session_info'')), (''log_id'', PBool (get_flag d ''log_id'')),
      (''data'', (case dict_get d ''data'' of
         Some (PDict x) \<Rightarrow> PDict (map (\<lambda>(k, v). (k, PNone)) x) | _ \<Rightarrow> PNone))]"

text \<open>After an execution nothing but the shape of the provider's response is known: no value of it, its data,
  error, session or log id, has any influence on the result.\<close>

theorem execute_tool_hides_response_values:
  "execute_tool (\<lambda>r. HttpResponse st (Some (PDict d))) c p s user account arguments rid
   = execute_tool (\<lambda>r. HttpResponse st (Some (PDict (response_shape d)))) c p s user account
       arguments rid"
proof -
  have flags: "get_flag (response_shape d) k = get_flag d k"
    if "k \<in> {''successful'', ''error'', ''session_info'', ''log_id''}" for k
    using that by (auto simp: response_shape_def get_flag_def)
  have keys: "(case dict_get (response_shape d) ''data'' of
      Some (PDict x) \<Rightarrow> sort (dict_keys x) | _ \<Rightarrow> [])
    = (case dict_get d ''data'' of Some (PDict x) \<Rightarrow> sort (dict_keys x) | _ \<Rightarrow> [])"
    by (auto simp: response_shape_def dict_keys_def case_prod_unfold comp_def
        split: option.splits pyval.splits)
  show ?thesis by (simp add: execute_tool_def Let_def flags keys)
qed

lemma sorted_set_Nil [simp]: "sorted_set [] = []"
  by (simp add: sorted_set_def)

lemma composio_authorization_ready [simp]:
  "authorization_ready (composio_capability c) = adapter_usable c"
  by (simp add: composio_capability_def adapter_usable_def authorization_ready_def Let_def)

lemma registry_slug_normal:
  "e \<in> set provider_registry \<Longrightarrow> normalize_provider_slug (pe_slug e) = pe_slug e \<and> pe_slug e \<noteq> []"
proof -
  have "list_all (\<lambda>s. normalize_provider_slug s = s \<and> s \<noteq> []) (map pe_slug provider_registry)"
    unfolding registry_slugs by code_simp
  then show "e \<in> set provider_registry \<Longrightarrow> ?thesis" by (simp add: list_all_iff)
qed

definition registry_reads :: "composio_config \<Rightarrow> string \<Rightarrow> string list" where
  "registry_reads c slug =
     (if cx_readonly_execute_enabled c then readonly_action_slugs_for_provider c slug else [])"

definition registry_applies :: "composio_config \<Rightarrow> string \<Rightarrow> string list" where
  "registry_applies c slug =
     (if cx_apply_execute_enabled c then apply_action_slugs_for_provider c slug else [])"

lemma registry_execution_entry:
  fixes c :: composio_config and e :: provider_entry
  assumes "e \<in> set provider_registry"
  defines "r \<equiv> registry_reads c (pe_slug e)" and "a \<equiv> registry_applies c (pe_slug e)"
    and "e' \<equiv> composio_execution_enabled_entry e c"
  shows "pe_slug e' = pe_slug e" "pe_provider_kind e' = Composio"
    "pe_allowed_paths e' = pe_allowed_paths e"
    "pe_enabled e' = adapter_usable c"
    "pe_agent_ready e' = (adapter_usable c \<and> r @ a \<noteq> [])"
    "pe_action_allowlist e' = (if adapter_usable c then sorted_set (r @ a) else [])"
    "pe_default_scopes e' = (if adapter_usable c then no_scopes
        \<lparr>sg_read := r @ a \<noteq> [], sg_preview := a \<noteq> [], sg_apply := a \<noteq> []\<rparr>
        else no_scopes)"
  using registry_entries [OF assms(1)] unfolding e'_def r_def a_def
  by (auto simp: composio_execution_enabled_entry_def composio_connect_enabled_entry_def Let_def
      no_scopes_def registry_reads_def registry_applies_def)

lemma set_registry_actions:
  "set (registry_reads c p @ registry_applies c p)
     = ca_slug ` {a. operator_permits c (normalize_provider_slug p) a}"
  by (auto simp: registry_reads_def registry_applies_def set_readonly_slugs set_apply_slugs
      operator_permits_def)

lemma nonempty_of_set: "set xs = f ` {a. P a} \<Longrightarrow> xs \<noteq> [] \<longleftrightarrow> (\<exists>a. P a)"
  by (cases xs) auto

lemma registry_actions_empty:
  "registry_reads c p @ registry_applies c p \<noteq> [] \<longleftrightarrow>
     (\<exists>a. operator_permits c (normalize_provider_slug p) a)"
  by (rule nonempty_of_set) (rule set_registry_actions)

lemma registry_applies_empty:
  "registry_applies c p \<noteq> [] \<longleftrightarrow>
     (\<exists>a. operator_permits c (normalize_provider_slug p) a \<and> ca_mutation a = Apply)"
proof -
  have "set (registry_applies c p)
      = ca_slug ` {a. operator_permits c (normalize_provider_slug p) a \<and> ca_mutation a = Apply}"
    by (auto simp: registry_applies_def set_apply_slugs operator_permits_def)
  then show ?thesis by (rule nonempty_of_set)
qed

section \<open>The entries the configuration enables\<close>

text \<open>A configuration that permits one read and one apply of Facebook.\<close>

definition example_config :: composio_config where
  "example_config = \<lparr> cx_enabled = True, cx_api_key = ''k'', cx_api_key_present = True,
     cx_base_url = ''https://backend.composio.dev'', cx_api_version = ''v3.1'',
     cx_auth_config_by_provider = [], cx_readonly_execute_enabled = True,
     cx_readonly_allowlist = [(''facebook'', [''FACEBOOK_LIST_MANAGED_PAGES''])],
     cx_apply_execute_enabled = True,
     cx_apply_allowlist = [(''facebook'', [''FACEBOOK_CREATE_POST''])] \<rparr>"

text \<open>Property C28: what the configuration makes of a catalogue entry: it is enabled exactly when the adapter is
  usable, its allowlist holds exactly the curated actions the operator permits for the provider, it
  is agent-ready exactly when there is one, and the scopes it grants by default are read for any
  action, preview and apply for an apply action, and never write or admin.\<close>

theorem registry_execution_entry_exact:
  assumes "get_provider_entry slug = Some e"
  shows "let e' = composio_execution_enabled_entry e c; s = pe_default_scopes e' in
    pe_enabled e' = adapter_usable c
    \<and> set (pe_action_allowlist e')
        = {ca_slug a | a. adapter_usable c \<and> operator_permits c (pe_slug e) a}
    \<and> pe_agent_ready e' = (pe_action_allowlist e' \<noteq> [])
    \<and> sg_read s = pe_agent_ready e'
    \<and> (sg_apply s \<longleftrightarrow> adapter_usable c
        \<and> (\<exists>a. operator_permits c (pe_slug e) a \<and> ca_mutation a = Apply))
    \<and> sg_preview s = sg_apply s \<and> \<not> sg_write s \<and> \<not> sg_admin s"
proof -
  have e: "e \<in> set provider_registry" by (rule get_provider_entry_Some [OF assms])
  note facts = registry_execution_entry [OF e, of c]
  have slug: "normalize_provider_slug (pe_slug e) = pe_slug e"
    using registry_slug_normal [OF e] by simp
  have allow: "set (pe_action_allowlist (composio_execution_enabled_entry e c))
      = {ca_slug a | a. adapter_usable c \<and> operator_permits c (pe_slug e) a}"
    using set_registry_actions [of c "pe_slug e"] by (auto simp: facts slug)
  show ?thesis
    unfolding Let_def allow
    by (intro conjI)
      (simp_all add: facts slug registry_applies_empty no_scopes_def split: if_splits)
qed

lemma example_facebook_allowlist:
  "pe_action_allowlist (composio_execution_enabled_entry (hd provider_registry) example_config)
     = [''FACEBOOK_CREATE_POST'', ''FACEBOOK_LIST_MANAGED_PAGES'']"
  by code_simp

theorem registry_execution_entry_exact_witness:
  "{ca_slug a | a. adapter_usable example_config \<and> operator_permits example_config ''facebook'' a}
     = {''FACEBOOK_LIST_MANAGED_PAGES'', ''FACEBOOK_CREATE_POST''}"
proof -
  have "get_provider_entry ''facebook'' = Some (hd provider_registry)" by code_simp
  moreover have "pe_slug (hd provider_registry) = ''facebook''" by code_simp
  ultimately show ?thesis
    using registry_execution_entry_exact [of "''facebook''" "hd provider_registry" example_config]
    by (simp add: Let_def example_facebook_allowlist insert_commute)
qed

end
