(* ===== verification/Executor.thy ===== *)
theory Executor
  imports Composio
begin

text \<open>
  \<open>app/engine/wiii_connect/backend_action_executor.py\<close>: one provider action on its way through the
  gateway, the live schema check, the argument check, the audit ledger and the provider call. The
  state is the database (connection and audit tables), which may fail at any statement, and the
  trace of what the run did: every attempt to append an audit record and every HTTP request.
\<close>

section \<open>Users and storage\<close>

record auth_user =
  us_user_id :: string
  us_auth_method :: string
  us_role :: string
  us_session_id :: "string option"
  us_organization_id :: "string option"

definition state_context :: "pydict \<Rightarrow> pydict" where
  "state_context state = (case dict_get state ''context'' of Some (PDict d) \<Rightarrow> d | _ \<Rightarrow> [])"

text \<open>\<open>str(a.get(k1) or b.get(k2) or fallback).strip()\<close>.\<close>

definition first_text :: "pydict \<Rightarrow> string \<Rightarrow> pydict \<Rightarrow> string \<Rightarrow> string \<Rightarrow> string" where
  "first_text a k1 b k2 fallback =
     py_strip (py_str (first_truthy a [k1] (first_truthy b [k2] (PStr fallback))))"

definition authenticated_user_from_state :: "pydict \<Rightarrow> auth_user" where
  "authenticated_user_from_state state =
     (let context = state_context state;
          user_id = first_text state ''user_id'' context ''user_id'' [];
          organization_id = first_text state ''organization_id'' context ''organization_id'' [];
          session_id = first_text state ''session_id'' context ''session_id'' [];
          role = str_or (first_text context ''user_role'' state ''user_role'' ''student'') ''student''
      in \<lparr> us_user_id = str_or user_id ''__global__'', us_auth_method = ''chat_runtime'',
           us_role = role, us_session_id = or_null session_id,
           us_organization_id = or_null organization_id \<rparr>)"

definition connection_storage_ready :: "pydict \<Rightarrow> bool" where
  "connection_storage_ready storage =
     (get_flag storage ''persistent'' \<and> get_flag storage ''connection_table_ready''
      \<and> get_flag storage ''audit_ledger_ready'')"

definition audit_persistent :: "pydict \<Rightarrow> bool" where
  "audit_persistent storage =
     (get_flag storage ''persistent'' \<and> get_flag storage ''audit_ledger_ready'')"

definition owner_organization_id :: "auth_user \<Rightarrow> string" where
  "owner_organization_id user =
     (let org = or_default (us_organization_id user) [] in
      if org \<noteq> [] then org else composio_external_user_id None (us_user_id user))"

section \<open>The state of a run\<close>

datatype run_event =
    AuditAppend bool ledger_record  \<comment> \<open>whether the row was stored\<close>
  | Request http_request

record world =
  wd_connections :: connection_table
  wd_audit :: "audit_row list"
  wd_trace :: "run_event list"
  wd_up :: "nat \<Rightarrow> bool"  \<comment> \<open>whether the database serves the statement after n events\<close>

definition db_up :: "world \<Rightarrow> bool" where
  "db_up w = wd_up w (length (wd_trace w))"

definition send_requests :: "http_request list \<Rightarrow> world \<Rightarrow> world" where
  "send_requests rs w = w\<lparr>wd_trace := wd_trace w @ map Request rs\<rparr>"

section \<open>Choosing a connection\<close>

definition safe_public_connection_ref160 :: "string \<Rightarrow> string" where
  "safe_public_connection_ref160 value =
     (let text = py_strip value in if py_startswith ''wcn_'' text then take 160 text else [])"

definition select_wiii_connect_connection ::
    "string \<Rightarrow> auth_user \<Rightarrow> pydict \<Rightarrow> string \<Rightarrow> world \<Rightarrow> connection_record option" where
  "select_wiii_connect_connection provider_slug user storage ref w =
     (if \<not> connection_storage_ready storage then None
      else let
        provider = provider_slug80 provider_slug;
        records = filter (\<lambda>r. provider_slug80 (cr_provider_slug r) = provider)
          (list_connection_records (db_up w) (owner_organization_id user) (us_user_id user) provider 100
            (wd_connections w));
        safe_ref = safe_public_connection_ref160 ref
      in if safe_ref \<noteq> []
         then find (\<lambda>r. connection_ref_matches (cr_provider_slug r) (cr_connection_id r) safe_ref) records
         else (case find conn_active records of
           Some r \<Rightarrow> Some r
         | None \<Rightarrow> (case records of [] \<Rightarrow> None | r # _ \<Rightarrow> Some r)))"

section \<open>Plans and results\<close>

record action_plan =
  ap_entry :: provider_entry
  ap_config :: composio_config
  ap_user :: auth_user
  ap_connection :: "connection_record option"
  ap_storage :: pydict
  ap_action_slug :: string
  ap_mutation :: string
  ap_arguments :: pydict
  ap_argument_keys :: "string list"
  ap_path :: string
  ap_approval_token_present :: bool
  ap_preview_evidence_id :: "string option"
  ap_preview_evidence_required :: bool
  ap_connection_selection_required :: bool
  ap_surface :: string
  ap_stage :: string
  ap_request_id :: "string option"
  ap_audit_metadata :: pydict

record action_result =
  rs_status :: string
  rs_reason :: string
  rs_request :: exec_request
  rs_gateway :: gateway_decision
  rs_schema :: "tool_schema option"
  rs_execution :: "execute_result option"
  rs_missing_argument_keys :: "string list"

definition action_result_metadata :: "action_result \<Rightarrow> pydict" where
  "action_result_metadata r =
     [(''version'', PStr ''wiii_connect_backend_action_executor.v1''),
      (''status'', PStr (rs_status r)),
      (''reason'', PStr (rs_reason r)),
      (''request'', PDict (request_to_audit_metadata (rs_request r))),
      (''gateway'', PDict (gateway_to_public_metadata (rs_gateway r))),
      (''schema'', (case rs_schema r of None \<Rightarrow> PNone | Some s \<Rightarrow> PDict (tool_schema_metadata s))),
      (''execution'', (case rs_execution r of None \<Rightarrow> PNone
         | Some x \<Rightarrow> PDict (execute_result_metadata x))),
      (''missing_argument_keys'', str_list (rs_missing_argument_keys r))]"

text \<open>\<open>mutation if mutation in _VALID_MUTATIONS else "read"\<close>: no trimming, no lower casing.\<close>

definition valid_mutation :: "string \<Rightarrow> mutation" where
  "valid_mutation m =
     or_default (find (\<lambda>x. scope_str x = m) [Read, Preview, Write, Apply, Admin]) Read"

definition build_execution_request ::
    "string \<Rightarrow> string \<Rightarrow> string \<Rightarrow> string \<Rightarrow> bool \<Rightarrow> string option \<Rightarrow> bool \<Rightarrow> string list \<Rightarrow>
     string option \<Rightarrow> exec_request" where
  "build_execution_request provider_slug action_slug mutation path approval_token_present
     preview_evidence_id preview_evidence_required argument_keys request_id =
     \<lparr> xr_provider_slug = provider_slug80 provider_slug,
       xr_action_slug = action_slug120 action_slug,
       xr_path = take 120 (str_or path ''external_app_action''),
       xr_mutation = valid_mutation mutation,
       xr_approval_token_present = approval_token_present,
       xr_preview_evidence_id = preview_evidence_id,
       xr_preview_evidence_required = preview_evidence_required,
       xr_argument_keys = argument_keys,
       xr_request_id = or_default request_id [] \<rparr>"

definition safe_surface :: "string \<Rightarrow> string" where
  "safe_surface value =
     str_or (take 80 (dash_to_underscore (py_lower (py_strip value)))) ''backend''"

text \<open>\<open>{**a, **b}\<close>.\<close>

definition dict_merge :: "pydict \<Rightarrow> pydict \<Rightarrow> pydict" where
  "dict_merge a b = foldl (\<lambda>d (k, v). dict_set k v d) a b"

section \<open>Auditing\<close>

definition append_execution_stage_audit ::
    "string \<Rightarrow> gateway_decision \<Rightarrow> exec_request \<Rightarrow> pydict \<Rightarrow> auth_user \<Rightarrow> string \<Rightarrow> string \<Rightarrow> pydict \<Rightarrow>
     world \<Rightarrow> world" where
  "append_execution_stage_audit now gateway request storage user status reason metadata w =
     (if \<not> audit_persistent storage then w
      else let
        record = build_audit_ledger_record now KExecution (xd_provider_slug (gd_decision gateway))
          (safe_surface status) (safe_surface reason)
          (safe_surface (str_or_empty (first_truthy metadata [''surface''] (PStr ''backend''))))
          (Some (dict_merge [(''request'', PDict (request_to_audit_metadata request)),
            (''decision'', PDict (decision_to_metadata (gd_decision gateway)))] metadata));
        (stored, rows) = append_audit_record (db_up w) record (owner_organization_id user)
          (us_user_id user) (wd_audit w)
      in w\<lparr>wd_audit := rows, wd_trace := wd_trace w @ [AuditAppend stored record]\<rparr>)"

definition append_execution_audit ::
    "string \<Rightarrow> gateway_decision \<Rightarrow> exec_request \<Rightarrow> pydict \<Rightarrow> auth_user \<Rightarrow> pydict \<Rightarrow> world \<Rightarrow> world" where
  "append_execution_audit now gateway request storage user metadata =
     append_execution_stage_audit now gateway request storage user
       (if gateway_allowed gateway then ''allowed'' else ''blocked'')
       (deny_reason_name (xd_reason (gd_decision gateway))) metadata"

definition missing_required_argument_keys :: "string list \<Rightarrow> pydict \<Rightarrow> string list" where
  "missing_required_argument_keys required_keys arguments =
     (let provided = set (map py_strip (dict_keys arguments)) in
      take 50 (map safe_public_argument_key
        (filter (\<lambda>key. key \<noteq> [] \<and> key \<notin> provided) (map py_strip required_keys))))"

section \<open>Preflight and execution\<close>

definition plan_request :: "action_plan \<Rightarrow> exec_request" where
  "plan_request p = build_execution_request (pe_slug (ap_entry p)) (ap_action_slug p) (ap_mutation p)
     (ap_path p) (ap_approval_token_present p) (ap_preview_evidence_id p)
     (ap_preview_evidence_required p) (list_or (ap_argument_keys p) (dict_keys (ap_arguments p)))
     (ap_request_id p)"

definition plan_gateway_args :: "action_plan \<Rightarrow> gateway_args" where
  "plan_gateway_args p =
     \<lparr> ga_entry = ap_entry p, ga_connection = ap_connection p, ga_request = plan_request p,
       ga_adapter = Some (composio_capability (ap_config p)),
       ga_ledger = Some [(''persistent'', PBool (audit_persistent (ap_storage p)))],
       ga_require_persistent_audit = True,
       ga_connection_selection_required = ap_connection_selection_required p,
       ga_scope_policy = Some (scope_policy_for_provider_entry (ap_entry p)) \<rparr>"

definition plan_audit_base :: "action_plan \<Rightarrow> pydict" where
  "plan_audit_base p =
     dict_merge [(''surface'', PStr (safe_surface (ap_surface p))),
       (''stage'', PStr (safe_surface (ap_stage p)))] (ap_audit_metadata p)"

definition preflight ::
    "http_client \<Rightarrow> string \<Rightarrow> action_plan \<Rightarrow> world \<Rightarrow> action_result \<times> world" where
  "preflight client now p w =
     (let request = plan_request p;
          gateway = decide_execution_gateway (plan_gateway_args p);
          audit_base = plan_audit_base p;
          result = (\<lambda>status reason schema. \<lparr> rs_status = status, rs_reason = reason,
            rs_request = request, rs_gateway = gateway, rs_schema = schema,
            rs_execution = None, rs_missing_argument_keys = [] \<rparr>)
      in if \<not> gateway_allowed gateway
         then (result ''blocked'' (deny_reason_name (xd_reason (gd_decision gateway))) None,
               append_execution_audit now gateway request (ap_storage p) (ap_user p) audit_base w)
         else let
           (schema, requests) = verify_tool_schema client (ap_config p) (pe_slug (ap_entry p))
             (xr_action_slug request) (xr_request_id request);
           w1 = send_requests requests w
         in if \<not> ts_ready schema
            then (result ''blocked'' (ts_reason schema) (Some schema),
                  append_execution_stage_audit now gateway request (ap_storage p) (ap_user p)
                    ''blocked'' (ts_reason schema)
                    (dict_merge audit_base [(''stage'', PStr ''schema''),
                      (''schema'', PDict (tool_schema_metadata schema))]) w1)
            else (result ''ready'' ''ready'' (Some schema), w1))"

definition execute_after_preflight ::
    "http_client \<Rightarrow> string \<Rightarrow> action_plan \<Rightarrow> action_result \<Rightarrow> world \<Rightarrow> action_result \<times> world" where
  "execute_after_preflight client now p pre w =
     (if rs_status pre \<noteq> ''ready'' then (pre, w)
      else case rs_schema pre of
        None \<Rightarrow> (\<lparr> rs_status = ''blocked'', rs_reason = ''missing_schema_preflight'',
          rs_request = rs_request pre, rs_gateway = rs_gateway pre, rs_schema = None,
          rs_execution = None, rs_missing_argument_keys = [] \<rparr>, w)
      | Some schema \<Rightarrow> let
          request = rs_request pre;
          gateway = rs_gateway pre;
          audit_base = plan_audit_base p;
          audit = (\<lambda>status reason metadata. append_execution_stage_audit now gateway request
            (ap_storage p) (ap_user p) status reason (dict_merge audit_base metadata));
          missing = missing_required_argument_keys (ts_required_argument_keys schema) (ap_arguments p)
        in if missing \<noteq> []
           then (\<lparr> rs_status = ''blocked'', rs_reason = ''missing_required_arguments'',
                   rs_request = request, rs_gateway = gateway, rs_schema = Some schema,
                   rs_execution = None, rs_missing_argument_keys = missing \<rparr>,
                 audit ''blocked'' ''missing_required_arguments''
                   [(''stage'', PStr ''argument_validation''),
                    (''missing_argument_keys'', str_list missing)] w)
           else let
             w1 = audit ''started'' ''provider_execution_started'' [(''stage'', PStr ''execute'')] w;
             (execution, requests) = execute_tool client (ap_config p) (pe_slug (ap_entry p))
               (xr_action_slug request)
               (composio_external_user_id (us_organization_id (ap_user p)) (us_user_id (ap_user p)))
               (case ap_connection p of None \<Rightarrow> [] | Some c \<Rightarrow> cr_connection_id c)
               (ap_arguments p) (xr_request_id request);
             w2 = send_requests requests w1;
             w3 = audit (execute_status execution) (ex_reason execution)
               [(''stage'', PStr ''execute_result''),
                (''schema'', PDict (tool_schema_metadata schema)),
                (''execution'', PDict (execute_result_metadata execution))] w2
           in (\<lparr> rs_status = execute_status execution, rs_reason = ex_reason execution,
                 rs_request = request, rs_gateway = gateway, rs_schema = Some schema,
                 rs_execution = Some execution, rs_missing_argument_keys = [] \<rparr>, w3))"

text \<open>The keyword argument \<open>preflight\<close> hands in the result of an earlier preflight.\<close>

definition execute_action ::
    "http_client \<Rightarrow> string \<Rightarrow> action_plan \<Rightarrow> action_result option \<Rightarrow> world \<Rightarrow> action_result \<times> world" where
  "execute_action client now p given w =
     (case given of
        Some pre \<Rightarrow> execute_after_preflight client now p pre w
      | None \<Rightarrow> (let (pre, w1) = preflight client now p w in execute_after_preflight client now p pre w1))"

section \<open>The trace of a run\<close>

definition posts :: "run_event list \<Rightarrow> http_request list" where
  "posts es = List.map_filter (\<lambda>e. case e of Request r \<Rightarrow> if is_HttpPost r then Some r else None | _ \<Rightarrow> None) es"

definition appends :: "run_event list \<Rightarrow> (bool \<times> ledger_record) list" where
  "appends es = List.map_filter (\<lambda>e. case e of AuditAppend b r \<Rightarrow> Some (b, r) | _ \<Rightarrow> None) es"

lemma map_filter_append [simp]:
  "List.map_filter f (xs @ ys) = List.map_filter f xs @ List.map_filter f ys"
  by (simp add: List.map_filter_def)

lemma posts_simps [simp]:
  "posts [] = []" "posts (es @ fs) = posts es @ posts fs"
  "posts (AuditAppend b r # es) = posts es"
  "posts (Request (HttpGet u ps hs) # es) = posts es"
  "posts (Request (HttpPut u bs hs) # es) = posts es"
  "posts (Request (HttpDelete u hs) # es) = posts es"
  "posts (Request (HttpPost u d hs) # es) = HttpPost u d hs # posts es"
  by (simp_all add: posts_def map_filter_simps)

lemma appends_simps [simp]:
  "appends [] = []" "appends (es @ fs) = appends es @ appends fs"
  "appends (AuditAppend b r # es) = (b, r) # appends es"
  "appends (Request q # es) = appends es"
  by (simp_all add: appends_def map_filter_simps)

text \<open>What one audit step adds: nothing without a persistent ledger, else one attempt.\<close>

definition audit_record_of ::
    "string \<Rightarrow> gateway_decision \<Rightarrow> exec_request \<Rightarrow> string \<Rightarrow> string \<Rightarrow> pydict \<Rightarrow> ledger_record" where
  "audit_record_of now gateway request status reason metadata =
     build_audit_ledger_record now KExecution (xd_provider_slug (gd_decision gateway))
       (safe_surface status) (safe_surface reason)
       (safe_surface (str_or_empty (first_truthy metadata [''surface''] (PStr ''backend''))))
       (Some (dict_merge [(''request'', PDict (request_to_audit_metadata request)),
         (''decision'', PDict (decision_to_metadata (gd_decision gateway)))] metadata))"

definition owner_known :: "auth_user \<Rightarrow> bool" where
  "owner_known user = (normalize_owner (owner_organization_id user) (us_user_id user) \<noteq> None)"

lemma append_audit_trace:
  "wd_trace (append_execution_stage_audit now g r st u status reason m w) = wd_trace w @
     (if audit_persistent st
      then [AuditAppend (owner_known u \<and> db_up w) (audit_record_of now g r status reason m)] else [])"
  by (simp add: append_execution_stage_audit_def audit_record_of_def append_audit_record_def
      owner_known_def Let_def split: option.splits)

lemma append_audit_rows:
  "map au_payload (wd_audit (append_execution_stage_audit now g r st u status reason m w)) =
     map au_payload (wd_audit w) @
     (if audit_persistent st \<and> owner_known u \<and> db_up w
      then [ledger_to_public_metadata (audit_record_of now g r status reason m)] else [])"
  by (auto simp: append_execution_stage_audit_def audit_record_of_def append_audit_record_def
      owner_known_def Let_def split: option.splits)

lemma append_audit_up [simp]:
  "wd_up (append_execution_stage_audit now g r st u status reason m w) = wd_up w"
  by (simp add: append_execution_stage_audit_def Let_def split: prod.splits)

lemma send_requests_simps [simp]:
  "wd_trace (send_requests rs w) = wd_trace w @ map Request rs"
  "wd_audit (send_requests rs w) = wd_audit w"
  "wd_up (send_requests rs w) = wd_up w"
  by (simp_all add: send_requests_def)

section \<open>Preflight\<close>

definition plan_gateway :: "action_plan \<Rightarrow> gateway_decision" where
  "plan_gateway p = decide_execution_gateway (plan_gateway_args p)"

definition plan_schema :: "http_client \<Rightarrow> action_plan \<Rightarrow> tool_schema \<times> http_request list" where
  "plan_schema client p = verify_tool_schema client (ap_config p) (pe_slug (ap_entry p))
     (xr_action_slug (plan_request p)) (xr_request_id (plan_request p))"

lemma preflight_eq:
  "preflight client now p w =
    (let result = (\<lambda>status reason schema. \<lparr> rs_status = status, rs_reason = reason,
            rs_request = plan_request p, rs_gateway = plan_gateway p, rs_schema = schema,
            rs_execution = None, rs_missing_argument_keys = [] \<rparr>);
         schema = fst (plan_schema client p); w1 = send_requests (snd (plan_schema client p)) w
     in if \<not> gateway_allowed (plan_gateway p)
        then (result ''blocked'' (deny_reason_name (xd_reason (gd_decision (plan_gateway p)))) None,
          append_execution_audit now (plan_gateway p) (plan_request p) (ap_storage p) (ap_user p)
            (plan_audit_base p) w)
        else if \<not> ts_ready schema
        then (result ''blocked'' (ts_reason schema) (Some schema),
          append_execution_stage_audit now (plan_gateway p) (plan_request p) (ap_storage p) (ap_user p)
            ''blocked'' (ts_reason schema) (dict_merge (plan_audit_base p) [(''stage'', PStr ''schema''),
              (''schema'', PDict (tool_schema_metadata schema))]) w1)
        else (result ''ready'' ''ready'' (Some schema), w1))"
  by (simp add: preflight_def plan_gateway_def plan_schema_def Let_def case_prod_unfold)

lemma plan_schema_no_post: "posts (map Request (snd (plan_schema client p))) = []"
  by (simp add: plan_schema_def verify_tool_schema_requests)

section \<open>What a run does\<close>

definition run_result :: "http_client \<Rightarrow> string \<Rightarrow> action_plan \<Rightarrow> world \<Rightarrow> action_result" where
  "run_result client now p w = fst (execute_action client now p None w)"

definition run_world :: "http_client \<Rightarrow> string \<Rightarrow> action_plan \<Rightarrow> world \<Rightarrow> world" where
  "run_world client now p w = snd (execute_action client now p None w)"

text \<open>The events a run adds to the trace.\<close>

definition run_events :: "http_client \<Rightarrow> string \<Rightarrow> action_plan \<Rightarrow> world \<Rightarrow> run_event list" where
  "run_events client now p w = drop (length (wd_trace w)) (wd_trace (run_world client now p w))"

definition plan_missing :: "http_client \<Rightarrow> action_plan \<Rightarrow> string list" where
  "plan_missing client p =
     missing_required_argument_keys (ts_required_argument_keys (fst (plan_schema client p)))
       (ap_arguments p)"

definition plan_execution :: "http_client \<Rightarrow> action_plan \<Rightarrow> execute_result \<times> http_request list" where
  "plan_execution client p = execute_tool client (ap_config p) (pe_slug (ap_entry p))
     (xr_action_slug (plan_request p))
     (composio_external_user_id (us_organization_id (ap_user p)) (us_user_id (ap_user p)))
     (case ap_connection p of None \<Rightarrow> [] | Some c \<Rightarrow> cr_connection_id c)
     (ap_arguments p) (xr_request_id (plan_request p))"

text \<open>The four ways a run ends.\<close>

lemma run_denied:
  assumes "\<not> gateway_allowed (plan_gateway p)"
  shows "execute_action client now p None w = preflight client now p w"
  using assms by (simp add: execute_action_def preflight_eq execute_after_preflight_def Let_def)

lemma run_schema_blocked:
  assumes "gateway_allowed (plan_gateway p)" "\<not> ts_ready (fst (plan_schema client p))"
  shows "execute_action client now p None w = preflight client now p w"
  using assms by (simp add: execute_action_def preflight_eq execute_after_preflight_def Let_def)

lemma run_missing_arguments:
  assumes "gateway_allowed (plan_gateway p)" "ts_ready (fst (plan_schema client p))"
    "plan_missing client p \<noteq> []"
  shows "execute_action client now p None w =
    (\<lparr> rs_status = ''blocked'', rs_reason = ''missing_required_arguments'',
       rs_request = plan_request p, rs_gateway = plan_gateway p,
       rs_schema = Some (fst (plan_schema client p)), rs_execution = None,
       rs_missing_argument_keys = plan_missing client p \<rparr>,
     append_execution_stage_audit now (plan_gateway p) (plan_request p) (ap_storage p) (ap_user p)
       ''blocked'' ''missing_required_arguments''
       (dict_merge (plan_audit_base p) [(''stage'', PStr ''argument_validation''),
          (''missing_argument_keys'', str_list (plan_missing client p))])
       (send_requests (snd (plan_schema client p)) w))"
  using assms
  by (simp add: execute_action_def preflight_eq execute_after_preflight_def plan_missing_def Let_def)

lemma run_executed:
  assumes "gateway_allowed (plan_gateway p)" "ts_ready (fst (plan_schema client p))"
    "plan_missing client p = []"
  defines "x \<equiv> fst (plan_execution client p)"
  shows "execute_action client now p None w =
    (\<lparr> rs_status = execute_status x, rs_reason = ex_reason x, rs_request = plan_request p,
       rs_gateway = plan_gateway p, rs_schema = Some (fst (plan_schema client p)),
       rs_execution = Some x, rs_missing_argument_keys = [] \<rparr>,
     append_execution_stage_audit now (plan_gateway p) (plan_request p) (ap_storage p) (ap_user p)
       (execute_status x) (ex_reason x)
       (dict_merge (plan_audit_base p) [(''stage'', PStr ''execute_result''),
          (''schema'', PDict (tool_schema_metadata (fst (plan_schema client p)))),
          (''execution'', PDict (execute_result_metadata x))])
       (send_requests (snd (plan_execution client p))
         (append_execution_stage_audit now (plan_gateway p) (plan_request p) (ap_storage p)
           (ap_user p) ''started'' ''provider_execution_started''
           (dict_merge (plan_audit_base p) [(''stage'', PStr ''execute'')])
           (send_requests (snd (plan_schema client p)) w))))"
  using assms
  by (simp add: execute_action_def preflight_eq execute_after_preflight_def plan_missing_def
      plan_execution_def Let_def case_prod_unfold)

lemma gateway_allowed_persistent:
  "gateway_allowed (plan_gateway p) \<Longrightarrow> audit_persistent (ap_storage p)"
  by (simp add: plan_gateway_def gateway_allowed_cases plan_gateway_args_def ga_audit_persistent_def
      ledger_persistent_def get_flag_def or_default_def)

lemma events_denied:
  assumes "\<not> gateway_allowed (plan_gateway p)"
  shows "\<exists>b. run_events client now p w =
    (if audit_persistent (ap_storage p) then [AuditAppend b (audit_record_of now (plan_gateway p)
       (plan_request p) ''blocked'' (deny_reason_name (xd_reason (gd_decision (plan_gateway p))))
       (plan_audit_base p))] else [])"
  using assms
  by (simp add: run_events_def run_world_def run_denied preflight_eq Let_def append_execution_audit_def
      append_audit_trace)

lemma events_schema_blocked:
  assumes "gateway_allowed (plan_gateway p)" "\<not> ts_ready (fst (plan_schema client p))"
  shows "\<exists>b m. run_events client now p w = map Request (snd (plan_schema client p)) @
    [AuditAppend b (audit_record_of now (plan_gateway p) (plan_request p) ''blocked''
       (ts_reason (fst (plan_schema client p))) m)]"
  using assms gateway_allowed_persistent [OF assms(1)]
  by (auto simp: run_events_def run_world_def run_schema_blocked preflight_eq Let_def
      append_audit_trace)

lemma events_missing_arguments:
  assumes "gateway_allowed (plan_gateway p)" "ts_ready (fst (plan_schema client p))"
    "plan_missing client p \<noteq> []"
  shows "\<exists>b m. run_events client now p w = map Request (snd (plan_schema client p)) @
    [AuditAppend b (audit_record_of now (plan_gateway p) (plan_request p) ''blocked''
       ''missing_required_arguments'' m)]"
  using assms gateway_allowed_persistent [OF assms(1)]
  by (auto simp: run_events_def run_world_def run_missing_arguments append_audit_trace)

lemma events_executed:
  assumes "gateway_allowed (plan_gateway p)" "ts_ready (fst (plan_schema client p))"
    "plan_missing client p = []"
  shows "\<exists>b m b' m'. run_events client now p w = map Request (snd (plan_schema client p)) @
    [AuditAppend b (audit_record_of now (plan_gateway p) (plan_request p) ''started''
       ''provider_execution_started'' m)]
    @ map Request (snd (plan_execution client p)) @
    [AuditAppend b' (audit_record_of now (plan_gateway p) (plan_request p)
       (execute_status (fst (plan_execution client p))) (ex_reason (fst (plan_execution client p))) m')]"
  using assms gateway_allowed_persistent [OF assms(1)]
  by (auto simp: run_events_def run_world_def run_executed append_audit_trace)

text \<open>A run that reaches the provider call, and what it has checked by then.\<close>

definition plan_reaches_provider :: "http_client \<Rightarrow> action_plan \<Rightarrow> bool" where
  "plan_reaches_provider client p =
     (gateway_allowed (plan_gateway p) \<and> ts_ready (fst (plan_schema client p))
      \<and> plan_missing client p = [])"

lemma posts_plan_execution:
  "posts (map Request (snd (plan_execution client p))) = snd (plan_execution client p)"
  by (simp add: plan_execution_def execute_tool_requests)

lemma run_cases [case_names denied schema missing executed]:
  assumes "\<not> gateway_allowed (plan_gateway p) \<Longrightarrow> P"
    "\<lbrakk> gateway_allowed (plan_gateway p); \<not> ts_ready (fst (plan_schema client p)) \<rbrakk> \<Longrightarrow> P"
    "\<lbrakk> gateway_allowed (plan_gateway p); ts_ready (fst (plan_schema client p));
       plan_missing client p \<noteq> [] \<rbrakk> \<Longrightarrow> P"
    "\<lbrakk> gateway_allowed (plan_gateway p); ts_ready (fst (plan_schema client p));
       plan_missing client p = [] \<rbrakk> \<Longrightarrow> P"
  shows P
  using assms by blast

lemma posts_run_events:
  "posts (run_events client now p w) =
     (if plan_reaches_provider client p then snd (plan_execution client p) else [])"
proof (cases rule: run_cases [of p _ client])
  case denied
  then show ?thesis
    using events_denied [OF denied, of client now w] by (auto simp: plan_reaches_provider_def)
next
  case schema
  then show ?thesis using events_schema_blocked [OF schema, of now w]
    by (auto simp: plan_reaches_provider_def plan_schema_no_post)
next
  case missing
  then show ?thesis using events_missing_arguments [OF missing, of now w]
    by (auto simp: plan_reaches_provider_def plan_schema_no_post)
next
  case executed
  then show ?thesis using events_executed [OF executed, of now w]
    by (auto simp: plan_reaches_provider_def plan_schema_no_post posts_plan_execution)
qed

lemma plan_execution_request:
  "snd (plan_execution client p) \<noteq> [] \<Longrightarrow>
     (\<exists>a conn q. operator_permits (ap_config p) (normalize_provider_slug (pe_slug (ap_entry p))) a
        \<and> ca_slug a = normalize_action_slug (xr_action_slug (plan_request p))
        \<and> ap_connection p = Some conn \<and> cr_connection_id conn \<noteq> []
        \<and> snd (plan_execution client p) = [q]
        \<and> q = HttpPost (tool_url (ap_config p) ''/tools/execute/'' (ca_slug a))
          [(''user_id'', PStr (composio_external_user_id (us_organization_id (ap_user p))
              (us_user_id (ap_user p)))),
           (''connected_account_id'', PStr (cr_connection_id conn)),
           (''arguments'', PDict (ap_arguments p))]
          (provider_request_headers (ap_config p)
             (composio_safe_request_id (xr_request_id (plan_request p)))))"
  using execute_gate_permits [of "ap_config p" "pe_slug (ap_entry p)"
      "normalize_action_slug (xr_action_slug (plan_request p))"
      "composio_external_user_id (us_organization_id (ap_user p)) (us_user_id (ap_user p))"
      "case ap_connection p of None \<Rightarrow> [] | Some c \<Rightarrow> cr_connection_id c"]
  by (auto simp: plan_execution_def execute_tool_requests split: if_splits option.splits)

section \<open>Properties of a run\<close>

text \<open>Property C2: a run sends a provider call only after every check: the gateway allowed the plan on an active
  connection, the live schema of the action was verified, no required argument is missing and the
  storage status promises a persistent audit ledger; and then it sends exactly one POST, to the
  execute URL of an action of the curated catalogue that the operator permits, for the connected
  account of the plan's connection, with the plan's arguments and a hashed user id.\<close>

theorem executor_post_gated:
  "posts (run_events client now p w) = [] \<or>
   gateway_allowed (plan_gateway p) \<and> ts_ready (fst (plan_schema client p))
   \<and> missing_required_argument_keys (ts_required_argument_keys (fst (plan_schema client p)))
        (ap_arguments p) = []
   \<and> audit_persistent (ap_storage p)
   \<and> (\<exists>a conn. operator_permits (ap_config p) (normalize_provider_slug (pe_slug (ap_entry p))) a
        \<and> ca_slug a = normalize_action_slug (xr_action_slug (plan_request p))
        \<and> ap_connection p = Some conn \<and> conn_active conn
        \<and> posts (run_events client now p w) =
          [HttpPost (tool_url (ap_config p) ''/tools/execute/'' (ca_slug a))
            [(''user_id'', PStr (composio_external_user_id (us_organization_id (ap_user p))
                (us_user_id (ap_user p)))),
             (''connected_account_id'', PStr (cr_connection_id conn)),
             (''arguments'', PDict (ap_arguments p))]
            (provider_request_headers (ap_config p)
               (composio_safe_request_id (xr_request_id (plan_request p))))])"
proof (cases "plan_reaches_provider client p \<and> snd (plan_execution client p) \<noteq> []")
  case False
  then show ?thesis by (auto simp: posts_run_events)
next
  case True
  then have reach: "gateway_allowed (plan_gateway p)" "ts_ready (fst (plan_schema client p))"
      "plan_missing client p = []"
    by (auto simp: plan_reaches_provider_def)
  obtain conn where conn: "ap_connection p = Some conn" "conn_active conn"
    using reach(1) by (auto simp: plan_gateway_def gateway_allowed_cases plan_gateway_args_def
        external_allowed_iff)
  show ?thesis
    using True reach conn gateway_allowed_persistent [OF reach(1)] plan_execution_request [of client p]
    by (auto simp: posts_run_events plan_missing_def)
qed

lemma audit_record_simps [simp]:
  "lr_status (audit_record_of now g r status reason m) = safe_surface status"
  "lr_reason (audit_record_of now g r status reason m) = safe_surface reason"
  by (simp_all add: audit_record_of_def build_audit_ledger_record_def)

lemma appends_requests [simp]: "appends (map Request rs) = []"
  by (induction rs) simp_all

text \<open>Property C25: the provider call is bracketed by two audit attempts: the event right before the POST is the attempt
  to record that the execution started, the event right after it, the last of the run, the attempt
  to record the status the run returns.\<close>

theorem executor_call_bracketed_by_audit:
  "posts (run_events client now p w) = [] \<or>
   (\<exists>pre q b r b' r'. run_events client now p w = pre @ [AuditAppend b r, Request q, AuditAppend b' r']
      \<and> posts pre = [] \<and> appends pre = [] \<and> is_HttpPost q \<and> lr_status r = ''started''
      \<and> lr_status r' = safe_surface (rs_status (run_result client now p w))
      \<and> lr_reason r' = safe_surface (rs_reason (run_result client now p w)))"
proof (cases "plan_reaches_provider client p \<and> snd (plan_execution client p) \<noteq> []")
  case False
  then show ?thesis by (auto simp: posts_run_events)
next
  case True
  then have reach: "gateway_allowed (plan_gateway p)" "ts_ready (fst (plan_schema client p))"
      "plan_missing client p = []"
    by (auto simp: plan_reaches_provider_def)
  obtain q where q: "snd (plan_execution client p) = [q]" "is_HttpPost q"
    using plan_execution_request [of client p] True by fastforce
  have started: "safe_surface ''started'' = ''started''" by code_simp
  show ?thesis
    using events_executed [OF reach, of now w] q started
    by (fastforce simp: plan_schema_no_post run_result_def run_executed [OF reach])
qed

text \<open>How a world grows: the new rows are the payloads of the new attempts that were stored.\<close>

definition world_grows :: "world \<Rightarrow> world \<Rightarrow> bool" where
  "world_grows w w' \<longleftrightarrow> (\<exists>es. wd_trace w' = wd_trace w @ es
     \<and> map au_payload (wd_audit w') = map au_payload (wd_audit w) @
         map (ledger_to_public_metadata \<circ> snd) (filter fst (appends es)))"

lemma world_grows_refl [intro!]: "world_grows w w"
  by (simp add: world_grows_def)

lemma world_grows_send [intro!]: "world_grows w w' \<Longrightarrow> world_grows w (send_requests rs w')"
  by (auto simp: world_grows_def)

lemma world_grows_audit [intro!]:
  "world_grows w w' \<Longrightarrow>
     world_grows w (append_execution_stage_audit now g r st u status reason m w')"
  by (auto simp: world_grows_def append_audit_trace append_audit_rows)

lemma run_world_grows: "world_grows w (run_world client now p w)"
  by (cases rule: run_cases [of p _ client])
    (auto simp: run_world_def run_denied run_schema_blocked run_missing_arguments run_executed
      preflight_eq append_execution_audit_def Let_def)

lemma rows_of_trace:
  "map au_payload (wd_audit (run_world client now p w)) = map au_payload (wd_audit w) @
     map (ledger_to_public_metadata \<circ> snd) (filter fst (appends (run_events client now p w)))"
  using run_world_grows [of w client now p] by (auto simp: world_grows_def run_events_def)

lemma audit_of_run:
  "if audit_persistent (ap_storage p)
   then length (appends (run_events client now p w)) = (if plan_reaches_provider client p then 2 else 1)
     \<and> lr_status (snd (last (appends (run_events client now p w))))
         = safe_surface (rs_status (run_result client now p w))
     \<and> lr_reason (snd (last (appends (run_events client now p w))))
         = safe_surface (rs_reason (run_result client now p w))
   else run_events client now p w = []"
proof (cases rule: run_cases [of p _ client])
  case denied
  then show ?thesis
    using events_denied [OF denied, of client now w]
    by (auto simp: plan_reaches_provider_def run_result_def run_denied preflight_eq Let_def)
next
  case schema
  then show ?thesis
    using events_schema_blocked [OF schema, of now w] gateway_allowed_persistent [OF schema(1)]
    by (auto simp: plan_reaches_provider_def run_result_def run_schema_blocked preflight_eq Let_def)
next
  case missing
  then show ?thesis
    using events_missing_arguments [OF missing, of now w] gateway_allowed_persistent [OF missing(1)]
    by (auto simp: plan_reaches_provider_def run_result_def run_missing_arguments)
next
  case executed
  then show ?thesis
    using events_executed [OF executed, of now w] gateway_allowed_persistent [OF executed(1)]
    by (auto simp: plan_reaches_provider_def run_result_def run_executed)
qed

text \<open>Every run under a persistent ledger ends with an attempt to record the status and the reason it
  returns, and makes exactly one attempt more exactly when it reaches the provider call; without a
  persistent ledger it does nothing at all. A row is stored for each attempt that the database
  served, and for no other.\<close>

theorem executor_audit_trail:
  "(if audit_persistent (ap_storage p)
    then length (appends (run_events client now p w)) = (if plan_reaches_provider client p then 2 else 1)
      \<and> lr_status (snd (last (appends (run_events client now p w))))
          = safe_surface (rs_status (run_result client now p w))
      \<and> lr_reason (snd (last (appends (run_events client now p w))))
          = safe_surface (rs_reason (run_result client now p w))
    else run_events client now p w = [])
   \<and> map au_payload (wd_audit (run_world client now p w)) = map au_payload (wd_audit w) @
     map (ledger_to_public_metadata \<circ> snd) (filter fst (appends (run_events client now p w)))"
  by (intro conjI audit_of_run rows_of_trace)

section \<open>A failing ledger does not stop the call\<close>

definition example_client :: http_client where
  "example_client q = HttpResponse 200 (Some (PDict (if is_HttpGet q
     then [(''slug'', PStr ''FACEBOOK_CREATE_POST''),
           (''input_parameters'', PDict [(''properties'', PDict [(''message'', PDict [])]),
              (''required'', PList [PStr ''message''])])]
     else [(''successful'', PBool True)])))"

definition example_storage :: pydict where
  "example_storage = storage_status_metadata (storage_status_of (TablesPresent True True True))"

definition facebook_connection :: connection_record where
  "facebook_connection = \<lparr> cr_connection_id = ''c1'', cr_provider_slug = ''facebook'',
     cr_state = Connected, cr_scopes = no_scopes\<lparr>sg_read := True\<rparr>, cr_vault_ref = None,
     cr_account_label = [], cr_external_account_ref = [], cr_last_checked_at = None,
     cr_reason = [], cr_warnings = [] \<rparr>"

definition example_user :: auth_user where
  "example_user = \<lparr> us_user_id = ''u1'', us_auth_method = ''jwt'', us_role = ''student'',
     us_session_id = None, us_organization_id = Some ''org'' \<rparr>"

definition example_plan :: action_plan where
  "example_plan = \<lparr> ap_entry = composio_execution_enabled_entry (hd provider_registry) example_config,
     ap_config = example_config, ap_user = example_user, ap_connection = Some facebook_connection,
     ap_storage = example_storage, ap_action_slug = ''FACEBOOK_CREATE_POST'', ap_mutation = ''read'',
     ap_arguments = [(''message'', PStr ''hello'')], ap_argument_keys = [''message''],
     ap_path = ''external_app_action'', ap_approval_token_present = False,
     ap_preview_evidence_id = None, ap_preview_evidence_required = False,
     ap_connection_selection_required = False, ap_surface = ''desktop'', ap_stage = ''api_execute'',
     ap_request_id = None, ap_audit_metadata = [] \<rparr>"

definition example_world :: "bool \<Rightarrow> world" where
  "example_world up = \<lparr> wd_connections = [], wd_audit = [], wd_trace = [], wd_up = (\<lambda>n. up) \<rparr>"

text \<open>What the plan's checks see, computed once.\<close>

lemma example_plan_facts:
  "normalize_provider_slug (pe_slug (ap_entry example_plan)) = ''facebook''"
  "normalize_action_slug (xr_action_slug (plan_request example_plan)) = ''FACEBOOK_CREATE_POST''"
  "xr_request_id (plan_request example_plan) = []"
  "ap_arguments example_plan = [(''message'', PStr ''hello'')]"
  "ap_config example_plan = example_config"
  by code_simp (code_simp, simp_all add: plan_request_def build_execution_request_def example_plan_def
      or_default_def)

lemma example_gates:
  "schema_gate example_config ''facebook'' ''FACEBOOK_CREATE_POST''"
  "execute_gate example_config ''facebook'' ''FACEBOOK_CREATE_POST'' (''wiii_'' @ xs) ''c1''"
proof -
  have "adapter_usable example_config
      \<and> ''FACEBOOK_CREATE_POST'' \<in> set (executable_action_slugs_for_provider example_config ''facebook'')"
    by code_simp
  moreover have "get_curated_action ''facebook'' ''FACEBOOK_CREATE_POST'' \<noteq> None" by code_simp
  ultimately show "schema_gate example_config ''facebook'' ''FACEBOOK_CREATE_POST''"
    "execute_gate example_config ''facebook'' ''FACEBOOK_CREATE_POST'' (''wiii_'' @ xs) ''c1''"
    by (simp_all add: schema_gate_def execute_gate_def)
qed

lemma example_schema:
  "ts_ready (fst (plan_schema example_client example_plan))
   \<and> ts_required_argument_keys (fst (plan_schema example_client example_plan)) = [''message'']"
proof -
  have response: "extract_toolkit_slug [(''slug'', PStr ''FACEBOOK_CREATE_POST''),
           (''input_parameters'', PDict [(''properties'', PDict [(''message'', PDict [])]),
              (''required'', PList [PStr ''message''])])] = []" by code_simp
  have action: "normalize_action_slug ''FACEBOOK_CREATE_POST'' = ''FACEBOOK_CREATE_POST''" by code_simp
  show ?thesis
    using example_gates(1)
    by (simp add: plan_schema_def verify_tool_schema_def Let_def example_plan_facts schema_gate_def
        adapter_usable_def example_client_def response action extract_input_schema_def
        extract_schema_argument_keys_def extract_schema_required_keys_def dict_keys_def)
qed

lemma example_gateway_allowed: "gateway_allowed (plan_gateway example_plan)"
  unfolding plan_gateway_def gateway_allowed_cases by code_simp

lemma example_reaches_provider: "plan_reaches_provider example_client example_plan"
proof -
  have "missing_required_argument_keys [''message''] [(''message'', PStr ''hello'')] = []" by code_simp
  then show ?thesis
    using example_schema example_gateway_allowed
    by (simp add: plan_reaches_provider_def plan_missing_def example_plan_facts)
qed

lemma example_execution_length: "length (snd (plan_execution example_client example_plan)) = 1"
proof -
  have "ap_connection example_plan = Some facebook_connection"
    and "cr_connection_id facebook_connection = ''c1''"
    by (simp_all add: example_plan_def facebook_connection_def)
  then show ?thesis
    using example_gates(2)
    by (simp add: plan_execution_def execute_tool_requests composio_external_user_id_def
        example_plan_facts)
qed

text \<open>The provider call does not wait for its audit row: which requests a run sends does not depend on the
  database at all, and with a database that fails after its status was probed the run posts to the
  provider without a row in the ledger. The example posts an apply action that the plan declares a
  read, without an approval.\<close>

theorem executor_ignores_audit_failure:
  "posts (run_events client now p (w\<lparr>wd_up := up\<rparr>)) = posts (run_events client now p w)
   \<and> wd_audit (run_world client now p (w\<lparr>wd_up := \<lambda>n. False\<rparr>)) = wd_audit w
   \<and> length (posts (run_events example_client now example_plan (example_world False))) = 1"
proof -
  have rows: "\<And>w g r st u status reason m.
      wd_up w = (\<lambda>n. False) \<Longrightarrow>
      wd_audit (append_execution_stage_audit now g r st u status reason m w) = wd_audit w"
    by (simp add: append_execution_stage_audit_def append_audit_record_def db_up_def Let_def
        split: option.splits)
  have "wd_audit (run_world client now p (w\<lparr>wd_up := \<lambda>n. False\<rparr>)) = wd_audit w"
    by (cases rule: run_cases [of p _ client])
      (auto simp: run_world_def run_denied run_schema_blocked run_missing_arguments run_executed
        preflight_eq append_execution_audit_def Let_def rows)
  then show ?thesis
    using example_reaches_provider example_execution_length by (simp add: posts_run_events)
qed

end
