(* ===== verification/Endpoint.thy ===== *)
theory Endpoint
  imports Executor
begin

text \<open>
  The two execution routes of \<open>app/api/v1/wiii_connect.py\<close>: the preflight decision
  (\<open>POST /providers/{slug}/execution-decision\<close>) and the brokered call
  (\<open>POST /providers/{slug}/execute\<close>), from the request body to the executor. The status of the
  storage is the outcome of a probe, the Composio configuration is read from the settings; both are
  arguments.
\<close>

section \<open>Request bodies and their normalization\<close>

record execution_body =
  eb_surface :: string
  eb_connection_id :: "string option"
  eb_connection_ref :: "string option"
  eb_action_slug :: string
  eb_path :: string
  eb_mutation :: string
  eb_preview_evidence_required :: bool
  eb_preview_evidence_id :: "string option"
  eb_approval_token_present :: bool
  eb_argument_keys :: "string list"
  eb_arguments :: pydict

text \<open>The body's defaults, for an action.\<close>

definition default_body :: "string \<Rightarrow> execution_body" where
  "default_body action_slug =
     \<lparr> eb_surface = ''desktop'', eb_connection_id = None, eb_connection_ref = None,
       eb_action_slug = action_slug, eb_path = ''external_app_action'', eb_mutation = ''read'',
       eb_preview_evidence_required = False, eb_preview_evidence_id = None,
       eb_approval_token_present = False, eb_argument_keys = [], eb_arguments = [] \<rparr>"

definition safe_provider_connection_id :: "string option \<Rightarrow> string" where
  "safe_provider_connection_id value =
     (let text = py_strip (or_default value []) in
      if text = [] then []
      else if contains_any [''token'', ''secret'', ''password''] (py_lower text) then []
      else take 160 text)"

definition api_connection_ref :: "string option \<Rightarrow> string" where
  "api_connection_ref value =
     (let candidate = safe_provider_connection_id value in
      if py_startswith ''wcn_'' candidate then candidate else [])"

definition body_connection_ref :: "execution_body \<Rightarrow> string" where
  "body_connection_ref b =
     api_connection_ref (if present (eb_connection_ref b) then eb_connection_ref b
       else eb_connection_id b)"

definition api_safe_path :: "string \<Rightarrow> string" where
  "api_safe_path value = take 120 (dash_to_underscore (py_lower (py_strip value)))"

definition api_safe_argument_keys :: "string list \<Rightarrow> string list" where
  "api_safe_argument_keys values = safe_public_argument_keys (take 50 values)"

definition argument_policy_metadata :: "string \<Rightarrow> string \<Rightarrow> pydict \<Rightarrow> pydict \<Rightarrow> pydict" where
  "argument_policy_metadata provider_slug action_slug raw_arguments safe_arguments =
     (let raw_keys = dict_keys raw_arguments; accepted_keys = dict_keys safe_arguments in
      [(''version'', PStr ''wiii_connect_argument_filter.v1''),
       (''provider_slug'', PStr (safe_surface provider_slug)),
       (''action_slug'', PStr (action_slug120 action_slug)),
       (''provided_argument_count'', PInt (int (length raw_keys))),
       (''accepted_argument_count'', PInt (int (length accepted_keys))),
       (''accepted_argument_keys'', str_list (sort (safe_public_argument_keys accepted_keys))),
       (''hidden_argument_count'',
          PInt (max 0 (int (length raw_keys) - int (length accepted_keys))))])"

section \<open>Storage helpers\<close>

definition api_expire_stale ::
    "int \<Rightarrow> pydict \<Rightarrow> auth_user \<Rightarrow> string \<Rightarrow> world \<Rightarrow> world" where
  "api_expire_stale now storage user provider_slug w =
     (if \<not> connection_storage_ready storage then w
      else w\<lparr>wd_connections := snd (expire_stale_pending_connections (db_up w) now
        (owner_organization_id user) (us_user_id user) provider_slug 1800 (wd_connections w))\<rparr>)"

definition resolve_provider_connection_id ::
    "pydict \<Rightarrow> auth_user \<Rightarrow> string \<Rightarrow> string \<Rightarrow> world \<Rightarrow> string" where
  "resolve_provider_connection_id storage user provider_slug ref w =
     (let candidate = safe_provider_connection_id (Some ref) in
      if candidate = [] then []
      else if \<not> py_startswith ''wcn_'' candidate then []
      else if \<not> connection_storage_ready storage then candidate
      else (case find (\<lambda>c. connection_ref_matches (cr_provider_slug c) (cr_connection_id c) candidate)
          (list_connection_records (db_up w) (owner_organization_id user) (us_user_id user)
            provider_slug 100 (wd_connections w)) of
        Some c \<Rightarrow> cr_connection_id c
      | None \<Rightarrow> candidate))"

definition api_append_execution_audit ::
    "string \<Rightarrow> gateway_decision \<Rightarrow> exec_request \<Rightarrow> pydict \<Rightarrow> auth_user \<Rightarrow> pydict \<Rightarrow> world \<Rightarrow> world" where
  "api_append_execution_audit now gateway request storage user metadata w =
     (if \<not> audit_persistent storage then w
      else let
        record = build_audit_ledger_record now KExecution (xd_provider_slug (gd_decision gateway))
          (if gateway_allowed gateway then ''allowed'' else ''blocked'')
          (deny_reason_name (xd_reason (gd_decision gateway)))
          (safe_surface (str_or_empty (first_truthy metadata [''surface''] (PStr ''backend''))))
          (Some (dict_merge [(''request'', PDict (request_to_audit_metadata request)),
            (''decision'', PDict (decision_to_metadata (gd_decision gateway)))] metadata));
        (stored, rows) = append_audit_record (db_up w) record (owner_organization_id user)
          (us_user_id user) (wd_audit w)
      in w\<lparr>wd_audit := rows, wd_trace := wd_trace w @ [AuditAppend stored record]\<rparr>)"

section \<open>The preflight decision\<close>

datatype api_error = HttpError nat string

definition decide_execution_route ::
    "composio_config \<Rightarrow> storage_probe \<Rightarrow> int \<Rightarrow> string \<Rightarrow> string \<Rightarrow> execution_body \<Rightarrow> string option \<Rightarrow>
     auth_user \<Rightarrow> world \<Rightarrow> (api_error + pydict) \<times> world" where
  "decide_execution_route config probe clock now slug b request_id user w =
     (case get_provider_entry slug of
        None \<Rightarrow> (Inl (HttpError 404 ''unknown_wiii_connect_provider''), w)
      | Some entry0 \<Rightarrow> let
          entry = composio_execution_enabled_entry entry0 config;
          storage = storage_status_metadata (storage_status_of probe);
          ref = body_connection_ref b;
          safe_id = resolve_provider_connection_id storage user (pe_slug entry) ref w;
          w1 = api_expire_stale clock storage user (pe_slug entry) w;
          connection = (if connection_storage_ready storage \<and> safe_id \<noteq> []
            then get_connection_record (db_up w1) (owner_organization_id user) (us_user_id user)
              (pe_slug entry) (Some safe_id) (wd_connections w1)
            else None);
          request = \<lparr> xr_provider_slug = pe_slug entry,
            xr_action_slug = action_slug120 (eb_action_slug b), xr_path = api_safe_path (eb_path b),
            xr_mutation = safe_mutation (eb_mutation b),
            xr_approval_token_present = eb_approval_token_present b,
            xr_preview_evidence_id = safe_public_id (eb_preview_evidence_id b),
            xr_preview_evidence_required = eb_preview_evidence_required b,
            xr_argument_keys = api_safe_argument_keys (eb_argument_keys b),
            xr_request_id = or_default request_id [] \<rparr>;
          gateway = decide_execution_gateway
            \<lparr> ga_entry = entry, ga_connection = connection, ga_request = request,
              ga_adapter = Some (composio_capability config),
              ga_ledger = Some [(''persistent'', PBool (audit_persistent storage))],
              ga_require_persistent_audit = True,
              ga_connection_selection_required = (ref = []),
              ga_scope_policy = Some (scope_policy_for_provider_entry entry) \<rparr>;
          w2 = api_append_execution_audit now gateway request storage user
            [(''surface'', PStr (eb_surface b)),
             (''connection_ref_present'', PBool (ref \<noteq> [])),
             (''connection_id_present'', PBool (safe_id \<noteq> [])),
             (''connection_found'', PBool (connection \<noteq> None)),
             (''storage'', PDict storage)] w1
        in (Inr (dict_set ''storage'' (PDict storage)
              (dict_set ''provider_slug'' (PStr (pe_slug entry)) (gateway_to_public_metadata gateway))),
            w2))"

section \<open>The brokered call\<close>

text \<open>The plan the route hands to the executor: the caller's approval and preview evidence pass through
  \<open>resolve_action_authorization\<close> with \<open>authorization_verified = False\<close>.\<close>

definition api_plan ::
    "composio_config \<Rightarrow> pydict \<Rightarrow> provider_entry \<Rightarrow> connection_record option \<Rightarrow> execution_body \<Rightarrow>
     string option \<Rightarrow> auth_user \<Rightarrow> action_plan" where
  "api_plan config storage entry connection b request_id user =
     (let action = action_slug120 (eb_action_slug b);
          mutation = safe_mutation (eb_mutation b);
          arguments = model_visible_arguments (pe_slug entry) action (Some (eb_arguments b));
          authorization = resolve_action_authorization (scope_str mutation)
            (safe_public_id (eb_preview_evidence_id b)) (eb_approval_token_present b) False
      in \<lparr> ap_entry = entry, ap_config = config, ap_user = user, ap_connection = connection,
           ap_storage = storage, ap_action_slug = action, ap_mutation = scope_str mutation,
           ap_arguments = arguments,
           ap_argument_keys = api_safe_argument_keys (dict_keys arguments),
           ap_path = api_safe_path (eb_path b),
           ap_approval_token_present = aa_trusted_approval_token_present authorization,
           ap_preview_evidence_id = aa_trusted_preview_evidence_id authorization,
           ap_preview_evidence_required = eb_preview_evidence_required b,
           ap_connection_selection_required = (body_connection_ref b = []),
           ap_surface = eb_surface b, ap_stage = ''api_execute'', ap_request_id = request_id,
           ap_audit_metadata =
             [(''connection_ref_present'', PBool (body_connection_ref b \<noteq> [])),
              (''connection_found'', PBool (connection \<noteq> None)),
              (''operation_policy'', PDict (authorization_metadata authorization)),
              (''argument_policy'', PDict (argument_policy_metadata (pe_slug entry) action
                 (eb_arguments b) arguments)),
              (''storage'', PDict storage)] \<rparr>)"

definition api_payload :: "action_plan \<Rightarrow> execution_body \<Rightarrow> string \<Rightarrow> action_result \<Rightarrow> pydict" where
  "api_payload p b status r =
     (let authorization = resolve_action_authorization (scope_str (safe_mutation (eb_mutation b)))
            (safe_public_id (eb_preview_evidence_id b)) (eb_approval_token_present b) False;
          payload = dict_merge (gateway_to_public_metadata (rs_gateway r))
            [(''status'', PStr status), (''reason'', PStr (rs_reason r)),
             (''provider_slug'', PStr (pe_slug (ap_entry p))), (''storage'', PDict (ap_storage p)),
             (''schema'', (case rs_schema r of None \<Rightarrow> PNone | Some s \<Rightarrow> PDict (tool_schema_metadata s))),
             (''execution'', (case rs_execution r of None \<Rightarrow> PNone
                | Some x \<Rightarrow> PDict (execute_result_metadata x))),
             (''operation_policy'', PDict (authorization_metadata authorization)),
             (''argument_policy'', PDict (argument_policy_metadata (pe_slug (ap_entry p))
                (ap_action_slug p) (eb_arguments b) (ap_arguments p)))]
      in if rs_missing_argument_keys r = [] then payload
         else dict_set ''missing_argument_keys'' (str_list (rs_missing_argument_keys r)) payload)"

definition execute_action_route ::
    "http_client \<Rightarrow> composio_config \<Rightarrow> storage_probe \<Rightarrow> int \<Rightarrow> string \<Rightarrow> string \<Rightarrow> execution_body \<Rightarrow>
     string option \<Rightarrow> auth_user \<Rightarrow> world \<Rightarrow> (api_error + pydict) \<times> world" where
  "execute_action_route client config probe clock now slug b request_id user w =
     (case get_provider_entry slug of
        None \<Rightarrow> (Inl (HttpError 404 ''unknown_wiii_connect_provider''), w)
      | Some entry0 \<Rightarrow> let
          entry = composio_execution_enabled_entry entry0 config;
          storage = storage_status_metadata (storage_status_of probe);
          ref = body_connection_ref b;
          w1 = api_expire_stale clock storage user (pe_slug entry) w;
          connection = (if ref \<noteq> []
            then select_wiii_connect_connection (pe_slug entry) user storage ref w1 else None);
          p = api_plan config storage entry connection b request_id user;
          (pre, w2) = preflight client now p w1
        in if rs_status pre \<noteq> ''ready'' then (Inr (api_payload p b ''blocked'' pre), w2)
           else let (r, w3) = execute_action client now p (Some pre) w2
             in (Inr (api_payload p b (rs_status r) r), w3))"

section \<open>The route as a run of the executor\<close>

definition route_world ::
    "http_client \<Rightarrow> composio_config \<Rightarrow> storage_probe \<Rightarrow> int \<Rightarrow> string \<Rightarrow> string \<Rightarrow> execution_body \<Rightarrow>
     string option \<Rightarrow> auth_user \<Rightarrow> world \<Rightarrow> world" where
  "route_world client config probe clock now slug b request_id user w =
     snd (execute_action_route client config probe clock now slug b request_id user w)"

definition route_events ::
    "http_client \<Rightarrow> composio_config \<Rightarrow> storage_probe \<Rightarrow> int \<Rightarrow> string \<Rightarrow> string \<Rightarrow> execution_body \<Rightarrow>
     string option \<Rightarrow> auth_user \<Rightarrow> world \<Rightarrow> run_event list" where
  "route_events client config probe clock now slug b request_id user w =
     drop (length (wd_trace w))
       (wd_trace (route_world client config probe clock now slug b request_id user w))"

text \<open>The connection the route selects and the plan it builds.\<close>

definition route_plan ::
    "composio_config \<Rightarrow> storage_probe \<Rightarrow> int \<Rightarrow> provider_entry \<Rightarrow> execution_body \<Rightarrow> string option \<Rightarrow>
     auth_user \<Rightarrow> world \<Rightarrow> action_plan" where
  "route_plan config probe clock entry0 b request_id user w =
     (let entry = composio_execution_enabled_entry entry0 config;
          storage = storage_status_metadata (storage_status_of probe);
          ref = body_connection_ref b;
          w1 = api_expire_stale clock storage user (pe_slug entry) w
      in api_plan config storage entry
           (if ref \<noteq> [] then select_wiii_connect_connection (pe_slug entry) user storage ref w1 else None)
           b request_id user)"

lemma api_expire_trace [simp]:
  "wd_trace (api_expire_stale clock storage user slug w) = wd_trace w"
  "wd_up (api_expire_stale clock storage user slug w) = wd_up w"
  by (simp_all add: api_expire_stale_def)

lemma route_events_run:
  assumes "get_provider_entry slug = Some entry0"
  shows "\<exists>w1. route_events client config probe clock now slug b request_id user w
    = run_events client now (route_plan config probe clock entry0 b request_id user w) w1"
proof -
  let ?storage = "storage_status_metadata (storage_status_of probe)"
  let ?w1 = "api_expire_stale clock ?storage user (pe_slug (composio_execution_enabled_entry entry0 config)) w"
  have "route_world client config probe clock now slug b request_id user w
      = run_world client now (route_plan config probe clock entry0 b request_id user w) ?w1"
    using assms
    by (auto simp: route_world_def execute_action_route_def run_world_def execute_action_def
        execute_after_preflight_def route_plan_def Let_def split: prod.splits)
  then show ?thesis by (auto simp: route_events_def run_events_def intro!: exI [of _ ?w1])
qed

lemma route_unknown_provider:
  "get_provider_entry slug = None \<Longrightarrow>
     route_events client config probe clock now slug b request_id user w = []"
  by (simp add: route_events_def route_world_def execute_action_route_def)

lemma api_plan_simps [simp]:
  "ap_entry (route_plan c pr clock e b rid u w) = composio_execution_enabled_entry e c"
  "ap_config (route_plan c pr clock e b rid u w) = c"
  by (simp_all add: route_plan_def api_plan_def Let_def)

lemma valid_mutation_name [simp]: "valid_mutation (scope_str m) = m"
proof -
  have "list_all (\<lambda>m. valid_mutation (scope_str m) = m) [Read, Preview, Write, Apply, Admin]"
    by code_simp
  then show ?thesis by (cases m) simp_all
qed

lemma route_request_mutation:
  "xr_mutation (plan_request (route_plan c pr clock e b rid u w)) = safe_mutation (eb_mutation b)"
  by (simp add: plan_request_def build_execution_request_def route_plan_def api_plan_def Let_def)

text \<open>The approval of a mutating request is never trusted by the route.\<close>

lemma route_request_approval:
  "\<not> xr_approval_token_present (plan_request (route_plan c pr clock e b rid u w))"
  by (simp add: plan_request_def build_execution_request_def route_plan_def api_plan_def Let_def
      resolve_action_authorization_def)

lemma route_gateway_allowed:
  assumes "e \<in> set provider_registry"
    and "gateway_allowed (plan_gateway (route_plan c pr clock e b rid u w))"
  shows "safe_mutation (eb_mutation b) \<in> {Read, Preview}"
proof -
  let ?p = "route_plan c pr clock e b rid u w"
  have "scope_allows (pe_default_scopes (composio_execution_enabled_entry e c)) (safe_mutation (eb_mutation b))"
    and "safe_mutation (eb_mutation b) = Apply \<longrightarrow> xr_approval_token_present (plan_request ?p)"
    using assms(2)
    by (auto simp: plan_gateway_def gateway_allowed_cases plan_gateway_args_def external_allowed_iff
        policy_passes_def scope_policy_passes scope_policy_for_provider_entry_def
        route_request_mutation)
  then show ?thesis
    using route_request_approval [of c pr clock e b rid u w]
    by (cases "safe_mutation (eb_mutation b)")
      (auto simp: registry_execution_entry [OF assms(1)] no_scopes_def split: if_splits)
qed

section \<open>Properties\<close>

text \<open>Property C21: the execution route posts to a provider only for a request that declares itself a read or a preview: a
  request that declares a write, an apply or an admin action is refused, whatever approval or
  evidence it claims.\<close>

theorem execute_route_posts_only_declared_reads:
  "posts (route_events client config probe clock now slug b request_id user w) = []
   \<or> safe_mutation (eb_mutation b) \<in> {Read, Preview}"
proof (cases "get_provider_entry slug")
  case None
  then show ?thesis by (simp add: route_unknown_provider)
next
  case (Some e)
  then obtain w1 where run: "route_events client config probe clock now slug b request_id user w
      = run_events client now (route_plan config probe clock e b request_id user w) w1"
    using route_events_run by blast
  have e: "e \<in> set provider_registry" by (rule get_provider_entry_Some [OF Some])
  show ?thesis
    using route_gateway_allowed [OF e, of config probe clock b request_id user w]
    by (auto simp: run posts_run_events plan_reaches_provider_def)
qed

section \<open>An apply action run as a read\<close>

text \<open>The opaque reference of the example connection survives the checks on references.\<close>

lemma example_ref_shape:
  "\<exists>h. public_connection_ref ''facebook'' ''c1'' = ''wcn_'' @ h \<and> length h = 24 \<and> list_all is_hex_lower h"
proof -
  have "list_all is_hex_lower (take 24 (sha256_hex m))" for m
    using sha256_hex_lower [of m] by (auto simp: list_all_iff dest: in_set_takeD)
  moreover have "dash_to_underscore (py_lower (py_strip ''facebook'')) \<noteq> []" "py_strip ''c1'' \<noteq> []"
    by code_simp+
  ultimately show ?thesis by (simp add: public_connection_ref_def)
qed

text \<open>Lower-case text without a blank and without the letters every word that reveals a secret has one of.\<close>

definition plain_text :: "string \<Rightarrow> bool" where
  "plain_text s = list_all (\<lambda>c. lower_char c = c \<and> \<not> py_isspace c \<and> c \<notin> set ''ts'') s"

lemma plain_text_hex: "list_all is_hex_lower h \<Longrightarrow> plain_text h"
proof -
  have "plain_text ''0123456789abcdef''" by code_simp
  then show "list_all is_hex_lower h \<Longrightarrow> plain_text h"
    unfolding plain_text_def list_all_iff is_hex_lower_def by blast
qed

lemma plain_text_append: "plain_text (s @ t) \<longleftrightarrow> plain_text s \<and> plain_text t"
  by (simp add: plain_text_def)

lemma plain_text_passes:
  assumes "plain_text s"
  shows "py_strip s = s" "py_lower s = s" "\<not> contains_any [''token'', ''secret'', ''password''] s"
proof -
  have plain: "\<forall>c \<in> set s. lower_char c = c \<and> \<not> py_isspace c \<and> c \<notin> set ''ts''"
    using assms by (simp add: plain_text_def list_all_iff)
  then show "py_strip s = s" by (intro py_strip_no_space) blast
  show "py_lower s = s" using plain by (simp add: py_lower_def map_fixed_iff)
  have "\<not> py_contains m s" if "set m \<inter> set ''ts'' \<noteq> {}" for m
  proof
    assume "py_contains m s"
    then have "set m \<subseteq> set s" by (auto simp: py_contains_iff)
    with plain that show False by blast
  qed
  then show "\<not> contains_any [''token'', ''secret'', ''password''] s"
    by (simp add: contains_any_def)
qed

lemma ref_passes:
  assumes "list_all is_hex_lower h" "length h = 24"
  shows "py_strip (''wcn_'' @ h) = ''wcn_'' @ h"
    "safe_provider_connection_id (Some (''wcn_'' @ h)) = ''wcn_'' @ h"
proof -
  have "plain_text ''wcn_''" by code_simp
  then have "plain_text (''wcn_'' @ h)" using plain_text_hex [OF assms(1)] by (simp only: plain_text_append)
  note passes = plain_text_passes [OF this]
  show "py_strip (''wcn_'' @ h) = ''wcn_'' @ h" by (rule passes(1))
  show "safe_provider_connection_id (Some (''wcn_'' @ h)) = ''wcn_'' @ h"
    using passes assms(2)
    by (simp add: safe_provider_connection_id_def Let_def or_default_def)
qed

definition example_body :: execution_body where
  "example_body = (default_body ''FACEBOOK_CREATE_POST'')
     \<lparr>eb_connection_ref := Some (public_connection_ref ''facebook'' ''c1''),
      eb_arguments := [(''message'', PStr ''hello'')]\<rparr>"

definition example_row :: connection_row where
  "example_row = \<lparr> kw_organization_id = ''org'', kw_user_id = ''u1'', kw_provider_slug = ''facebook'',
     kw_provider_kind = ''composio'', kw_state = ''connected'', kw_scopes = [(''read'', PBool True)],
     kw_vault_ref = [], kw_account_label = None, kw_external_account_ref = None, kw_reason = None,
     kw_warnings = [], kw_updated_at = 0, kw_last_checked_at = None, kw_last_used_at = None \<rparr>"

definition connected_world :: world where
  "connected_world = (example_world True)\<lparr>wd_connections := [(''c1'', example_row)]\<rparr>"

abbreviation example_storage_probe :: storage_probe where
  "example_storage_probe \<equiv> TablesPresent True True True"

lemma example_stored:
  "list_connection_records True ''org'' ''u1'' ''facebook'' 100 [(''c1'', example_row)]
     = [facebook_connection]"
  by code_simp

lemma example_not_expired:
  "snd (expire_stale_pending_connections True 0 ''org'' ''u1'' ''facebook'' 1800 [(''c1'', example_row)])
     = [(''c1'', example_row)]"
  by code_simp


lemma example_connected:
  "select_wiii_connect_connection ''facebook'' example_user example_storage
     (public_connection_ref ''facebook'' ''c1'')
     (api_expire_stale 0 example_storage example_user ''facebook'' connected_world)
   = Some facebook_connection"
proof -
  obtain h where h: "public_connection_ref ''facebook'' ''c1'' = ''wcn_'' @ h" "length h = 24"
      "list_all is_hex_lower h"
    using example_ref_shape by blast
  have ready: "connection_storage_ready example_storage" by code_simp
  have slug: "provider_slug80 ''facebook'' = ''facebook''" by code_simp
  have conn: "cr_provider_slug facebook_connection = ''facebook''"
      "cr_connection_id facebook_connection = ''c1''"
    by (simp_all add: facebook_connection_def)
  have owner: "owner_organization_id example_user = ''org''" "us_user_id example_user = ''u1''"
    by (simp_all add: owner_organization_id_def example_user_def or_default_def)
  have ref: "safe_public_connection_ref160 (''wcn_'' @ h) = ''wcn_'' @ h"
    using ref_passes(1) [OF h(3) h(2)] h(2)
    by (simp add: safe_public_connection_ref160_def py_startswith_def)
  have matches: "connection_ref_matches ''facebook'' ''c1'' (''wcn_'' @ h)"
    using ref_passes(1) [OF h(3) h(2)] h(1) by (simp add: connection_ref_matches_def)
  show ?thesis
    using example_stored example_not_expired ready slug conn owner ref matches
    by (simp add: select_wiii_connect_connection_def api_expire_stale_def connected_world_def
        example_world_def db_up_def h(1))
qed

text \<open>The route's plan for the example request is the plan of the executor's example, but for its audit
  metadata, which no check reads.\<close>

lemma example_route_plan:
  "\<exists>m. route_plan example_config example_storage_probe 0 (hd provider_registry) example_body None
     example_user connected_world = example_plan\<lparr>ap_audit_metadata := m\<rparr>"
proof -
  obtain h where h: "public_connection_ref ''facebook'' ''c1'' = ''wcn_'' @ h" "length h = 24"
      "list_all is_hex_lower h"
    using example_ref_shape by blast
  have ref: "body_connection_ref example_body = public_connection_ref ''facebook'' ''c1''"
      "body_connection_ref example_body \<noteq> []"
    using ref_passes(2) [OF h(3) h(2)]
    by (simp_all add: body_connection_ref_def example_body_def default_body_def h(1) present_def
        api_connection_ref_def py_startswith_def Let_def)
  have slug: "pe_slug (composio_execution_enabled_entry (hd provider_registry) example_config) = ''facebook''"
    by code_simp
  have parts: "action_slug120 ''FACEBOOK_CREATE_POST'' = ''FACEBOOK_CREATE_POST''"
      "safe_mutation ''read'' = Read"
      "model_visible_arguments ''facebook'' ''FACEBOOK_CREATE_POST'' (Some [(''message'', PStr ''hello'')])
         = [(''message'', PStr ''hello'')]"
      "api_safe_argument_keys [''message''] = [''message'']"
      "api_safe_path ''external_app_action'' = ''external_app_action''"
      "resolve_action_authorization ''read'' (safe_public_id None) False False
        = \<lparr> aa_status = NotRequired, aa_mutation = Read, aa_trusted_preview_evidence_id = None,
            aa_trusted_approval_token_present = False, aa_caller_preview_evidence_present = False,
            aa_caller_approval_token_present = False, aa_caller_authorization_ignored = False \<rparr>"
    by code_simp+
  have body: "eb_action_slug example_body = ''FACEBOOK_CREATE_POST''" "eb_mutation example_body = ''read''"
      "eb_arguments example_body = [(''message'', PStr ''hello'')]"
      "eb_preview_evidence_id example_body = None" "eb_approval_token_present example_body = False"
      "eb_path example_body = ''external_app_action''" "eb_preview_evidence_required example_body = False"
      "eb_surface example_body = ''desktop''"
    by (simp_all add: example_body_def default_body_def)
  show ?thesis
    using example_connected ref
    by (simp add: route_plan_def api_plan_def slug parts body Let_def example_plan_def
        dict_keys_def del: storage_status_of.simps flip: example_storage_def)
qed


text \<open>The plan a request declares decides whether the approval gate is asked at all: the route takes the
  mutation from the caller and never compares it with the catalogue. Here a caller without approval
  and without preview evidence, whose connection grants the read scope only, asks for
  \<open>FACEBOOK_CREATE_POST\<close>, an apply action that the catalogue marks as needing both, under the body's
  default mutation \<open>read\<close>, and the route posts it to the provider.\<close>

theorem execute_route_runs_apply_as_read:
  "(\<exists>a \<in> set curated_actions. ca_slug a = eb_action_slug example_body \<and> ca_mutation a = Apply
      \<and> ca_requires_approval a \<and> ca_requires_preview a)
   \<and> \<not> eb_approval_token_present example_body \<and> eb_preview_evidence_id example_body = None
   \<and> enabled_scopes (cr_scopes facebook_connection) = [Read]
   \<and> length (posts (route_events example_client example_config example_storage_probe 0 now
        ''facebook'' example_body None example_user connected_world)) = 1"
proof -
  have entry: "get_provider_entry ''facebook'' = Some (hd provider_registry)" by code_simp
  have curated: "\<exists>a \<in> set curated_actions. ca_slug a = eb_action_slug example_body \<and> ca_mutation a = Apply
      \<and> ca_requires_approval a \<and> ca_requires_preview a"
    by (simp add: curated_actions_def composio_action_def example_body_def default_body_def)
  have scopes: "enabled_scopes (cr_scopes facebook_connection) = [Read]"
    by (simp add: facebook_connection_def no_scopes_def enabled_scopes_def)
  obtain m where plan: "route_plan example_config example_storage_probe 0 (hd provider_registry)
      example_body None example_user connected_world = example_plan\<lparr>ap_audit_metadata := m\<rparr>"
    using example_route_plan by blast
  obtain w1 where run: "route_events example_client example_config example_storage_probe 0 now
      ''facebook'' example_body None example_user connected_world
      = run_events example_client now (example_plan\<lparr>ap_audit_metadata := m\<rparr>) w1"
    using route_events_run [OF entry, of example_client example_config example_storage_probe 0 now
      example_body None example_user connected_world]
    unfolding plan by blast
  have same: "plan_reaches_provider example_client (example_plan\<lparr>ap_audit_metadata := m\<rparr>)
        = plan_reaches_provider example_client example_plan"
      "plan_execution example_client (example_plan\<lparr>ap_audit_metadata := m\<rparr>)
        = plan_execution example_client example_plan"
    by (simp_all add: plan_reaches_provider_def plan_gateway_def plan_gateway_args_def plan_request_def
        plan_schema_def plan_missing_def plan_execution_def)
  have claims: "\<not> eb_approval_token_present example_body" "eb_preview_evidence_id example_body = None"
    by (simp_all add: example_body_def default_body_def)
  have "length (posts (route_events example_client example_config example_storage_probe 0 now
      ''facebook'' example_body None example_user connected_world)) = 1"
    using example_reaches_provider example_execution_length by (simp add: run posts_run_events same)
  then show ?thesis using curated claims scopes by blast
qed

end
