(* ===== verification/Callback_State.thy ===== *)
theory Callback_State
  imports Approvals
begin

text \<open>
  \<open>app/engine/wiii_connect/callback_state.py\<close>: the signed state value a provider hands back in an
  OAuth callback, with the HMAC and the base64 of the standard library it rests on. Bytes are natural
  numbers below 256. \<open>loads\<close> stands for \<open>json.loads(data.decode("utf-8"))\<close>, \<open>None\<close> when it raises,
  and \<open>int_of_str\<close> for \<open>int\<close> of a string. \<open>append_wiii_connect_callback_state\<close> (URL surgery with
  \<open>urllib.parse\<close>) is not modelled.
\<close>

section \<open>HMAC-SHA256\<close>

definition sha256_bytes :: "nat list \<Rightarrow> nat list" where
  "sha256_bytes bs = concat (map (\<lambda>w. be_bytes 4 (unat w)) (sha256_words bs))"

definition hmac_sha256 :: "nat list \<Rightarrow> nat list \<Rightarrow> nat list" where
  "hmac_sha256 key msg =
     (let k0 = (if length key > 64 then sha256_bytes key else key);
          k = k0 @ replicate (64 - length k0) 0
      in sha256_bytes (map (\<lambda>b. xor b 92) k @ sha256_bytes (map (\<lambda>b. xor b 54) k @ msg)))"

section \<open>URL-safe base64\<close>

definition b64_alphabet :: string where
  "b64_alphabet = ''ABCDEFGHIJKLMNOPQRSTUVWXYZabcdefghijklmnopqrstuvwxyz0123456789-_''"

definition b64_char :: "nat \<Rightarrow> char" where
  "b64_char n = b64_alphabet ! n"

text \<open>The value of a character: the decoder also takes the plus and the slash of plain base64.\<close>

definition b64_value :: "char \<Rightarrow> nat option" where
  "b64_value c = map_of (zip (b64_alphabet @ ''+/'') ([0..<64] @ [62, 63])) c"

fun b64_padded :: "nat list \<Rightarrow> string" where
  "b64_padded [] = []"
| "b64_padded [a] = [b64_char (a div 4), b64_char (a mod 4 * 16), CHR ''='', CHR ''='']"
| "b64_padded [a, b] =
     [b64_char (a div 4), b64_char (a mod 4 * 16 + b div 16), b64_char (b mod 16 * 4), CHR ''='']"
| "b64_padded (a # b # c # bs) =
     b64_char (a div 4) # b64_char (a mod 4 * 16 + b div 16)
     # b64_char (b mod 16 * 4 + c div 64) # b64_char (c mod 64) # b64_padded bs"

definition b64encode :: "nat list \<Rightarrow> string" where
  "b64encode bs = rev (dropWhile (\<lambda>c. c = CHR ''='') (rev (b64_padded bs)))"

text \<open>\<open>binascii.a2b_base64\<close>, which skips what is not in the alphabet and stops at complete padding: the
  position in the quad, the bits left over and the padding seen so far.\<close>

fun b64_scan :: "nat \<Rightarrow> nat \<Rightarrow> nat \<Rightarrow> string \<Rightarrow> nat list option" where
  "b64_scan quad left_bits pads [] = (if quad = 0 then Some [] else None)"
| "b64_scan quad left_bits pads (c # cs) =
     (if c = CHR ''='' then
        (if quad \<ge> 2 \<and> quad + pads + 1 \<ge> 4 then Some []
         else b64_scan quad left_bits (if quad \<ge> 2 then pads + 1 else pads) cs)
      else case b64_value c of
        None \<Rightarrow> b64_scan quad left_bits pads cs
      | Some v \<Rightarrow>
          if quad = 0 then b64_scan 1 v 0 cs
          else if quad = 1 then map_option (Cons (left_bits * 4 + v div 16)) (b64_scan 2 (v mod 16) 0 cs)
          else if quad = 2 then map_option (Cons (left_bits * 16 + v div 4)) (b64_scan 3 (v mod 4) 0 cs)
          else map_option (Cons (left_bits * 64 + v)) (b64_scan 0 0 0 cs))"

definition is_ascii :: "string \<Rightarrow> bool" where
  "is_ascii s = list_all (\<lambda>c. code c < 128) s"

definition b64decode :: "string \<Rightarrow> nat list option" where
  "b64decode s =
     (if \<not> is_ascii s then None
      else b64_scan 0 0 0 (s @ replicate ((4 - length s mod 4) mod 4) (CHR ''='')))"

section \<open>Building a state\<close>

record callback_claims =
  cl_valid :: bool
  cl_reason :: string
  cl_provider_slug :: string
  cl_organization_id :: string
  cl_user_id :: string
  cl_issued_at :: int

definition claims_metadata :: "callback_claims \<Rightarrow> pydict" where
  "claims_metadata c =
     [(''version'', PStr ''wiii_connect_callback_state.v1''),
      (''valid'', PBool (cl_valid c)), (''reason'', PStr (cl_reason c)),
      (''provider_slug'', PStr (cl_provider_slug c)),
      (''organization_id_present'', PBool (cl_organization_id c \<noteq> [])),
      (''user_id_present'', PBool (cl_user_id c \<noteq> [])),
      (''issued_at_present'', PBool (cl_issued_at c \<noteq> 0))]"

definition state_normalize_slug :: "string \<Rightarrow> string" where
  "state_normalize_slug value = dash_to_underscore (py_lower (py_strip value))"

definition state_sign :: "string \<Rightarrow> nat list \<Rightarrow> string" where
  "state_sign payload_b64 secret = b64encode (hmac_sha256 secret (map code payload_b64))"

text \<open>The payload as a dictionary, and its text with sorted keys and no blanks.\<close>

definition state_payload :: "string \<Rightarrow> string \<Rightarrow> string \<Rightarrow> int \<Rightarrow> string \<Rightarrow> pydict" where
  "state_payload provider_slug organization_id user_id issued_at nonce =
     [(''iat'', PInt issued_at), (''n'', PStr nonce), (''o'', PStr (py_strip organization_id)),
      (''p'', PStr (state_normalize_slug provider_slug)), (''u'', PStr (py_strip user_id)),
      (''v'', PInt 1)]"

definition state_payload_text :: "string \<Rightarrow> string \<Rightarrow> string \<Rightarrow> int \<Rightarrow> string \<Rightarrow> string" where
  "state_payload_text provider_slug organization_id user_id issued_at nonce =
     ''{'' @ json_string ''iat'' @ '':'' @ dec_int issued_at
     @ '','' @ json_string ''n'' @ '':'' @ json_string nonce
     @ '','' @ json_string ''o'' @ '':'' @ json_string (py_strip organization_id)
     @ '','' @ json_string ''p'' @ '':'' @ json_string (state_normalize_slug provider_slug)
     @ '','' @ json_string ''u'' @ '':'' @ json_string (py_strip user_id)
     @ '','' @ json_string ''v'' @ '':'' @ dec_int 1 @ ''}''"

definition build_callback_state ::
    "string \<Rightarrow> string \<Rightarrow> string \<Rightarrow> string \<Rightarrow> int \<Rightarrow> string \<Rightarrow> string" where
  "build_callback_state provider_slug organization_id user_id secret_key issued_at nonce =
     (let secret = utf8 secret_key in
      if secret = [] then []
      else if state_normalize_slug provider_slug = [] \<or> py_strip user_id = [] then []
      else let payload_b64 = b64encode (utf8 (state_payload_text provider_slug organization_id user_id
             issued_at nonce))
        in payload_b64 @ ''.'' @ state_sign payload_b64 secret)"

section \<open>Verifying a state\<close>

datatype state_error = UnicodeEncodeError | StateTypeError | StateAttributeError

definition rejected_claims :: "string \<Rightarrow> callback_claims" where
  "rejected_claims reason = \<lparr> cl_valid = False, cl_reason = reason, cl_provider_slug = [],
     cl_organization_id = [], cl_user_id = [], cl_issued_at = 0 \<rparr>"

text \<open>\<open>text.split(".", 1)\<close>, \<open>None\<close> when there is no dot.\<close>

fun split_dot :: "string \<Rightarrow> (string \<times> string) option" where
  "split_dot [] = None"
| "split_dot (c # cs) = (if c = CHR ''.'' then Some ([], cs)
     else map_option (\<lambda>(a, b). (c # a, b)) (split_dot cs))"

definition payload_text :: "pydict \<Rightarrow> string \<Rightarrow> string" where
  "payload_text d k = (case dict_get d k of None \<Rightarrow> [] | Some v \<Rightarrow> str_or_empty v)"

definition safe_int :: "(string \<Rightarrow> int option) \<Rightarrow> pyval option \<Rightarrow> int" where
  "safe_int int_of_str v =
     (case v of Some (PInt n) \<Rightarrow> n | Some (PBool b) \<Rightarrow> if b then 1 else 0
      | Some (PStr s) \<Rightarrow> or_default (int_of_str s) 0 | _ \<Rightarrow> 0)"

definition verify_payload ::
    "(string \<Rightarrow> int option) \<Rightarrow> pydict \<Rightarrow> string \<Rightarrow> int \<Rightarrow> int \<Rightarrow> callback_claims" where
  "verify_payload int_of_str payload provider_slug now max_age =
     (let callback_provider = state_normalize_slug (payload_text payload ''p'');
          rejected = (\<lambda>reason. (rejected_claims reason)\<lparr>cl_provider_slug := callback_provider\<rparr>);
          issued_at = safe_int int_of_str (dict_get payload ''iat'');
          user_id = py_strip (payload_text payload ''u'')
      in if callback_provider \<noteq> state_normalize_slug provider_slug
         then rejected ''state_provider_mismatch''
         else if issued_at = 0 \<or> issued_at > now + 60 then rejected ''invalid_state_time''
         else if now - issued_at > max_age
         then (rejected ''state_expired'')\<lparr>cl_issued_at := issued_at\<rparr>
         else if user_id = [] then (rejected ''state_user_missing'')\<lparr>cl_issued_at := issued_at\<rparr>
         else \<lparr> cl_valid = True, cl_reason = ''valid'', cl_provider_slug = callback_provider,
           cl_organization_id = py_strip (payload_text payload ''o''), cl_user_id = user_id,
           cl_issued_at = issued_at \<rparr>)"

definition verify_callback_state ::
    "(nat list \<Rightarrow> pyval option) \<Rightarrow> (string \<Rightarrow> int option) \<Rightarrow> string option \<Rightarrow> string \<Rightarrow> string \<Rightarrow> int \<Rightarrow>
     int \<Rightarrow> state_error + callback_claims" where
  "verify_callback_state loads int_of_str state provider_slug secret_key now max_age =
     (let text = py_strip (or_default state []); secret = utf8 secret_key in
      if text = [] then Inr (rejected_claims ''missing_state'')
      else if secret = [] then Inr (rejected_claims ''state_secret_missing'')
      else case split_dot text of
        None \<Rightarrow> Inr (rejected_claims ''invalid_state_format'')
      | Some (payload_b64, signature) \<Rightarrow>
          if \<not> is_ascii payload_b64 then Inl UnicodeEncodeError
          else if \<not> is_ascii signature then Inl StateTypeError
          else if signature \<noteq> state_sign payload_b64 secret
          then Inr (rejected_claims ''invalid_state_signature'')
          else (case Option.bind (b64decode payload_b64) loads of
              None \<Rightarrow> Inr (rejected_claims ''invalid_state_payload'')
            | Some (PDict payload) \<Rightarrow> Inr (verify_payload int_of_str payload provider_slug now max_age)
            | Some _ \<Rightarrow> Inl StateAttributeError))"

section \<open>Base64 round trip\<close>

lemma b64_char_value: "n < 64 \<Longrightarrow> b64_value (b64_char n) = Some n \<and> b64_char n \<noteq> CHR ''=''
    \<and> b64_char n \<noteq> CHR ''.'' \<and> \<not> py_isspace (b64_char n) \<and> code (b64_char n) < 128"
proof -
  have "list_all (\<lambda>n. b64_value (b64_char n) = Some n \<and> b64_char n \<noteq> CHR ''=''
      \<and> b64_char n \<noteq> CHR ''.'' \<and> \<not> py_isspace (b64_char n) \<and> code (b64_char n) < 128) [0..<64]"
    by code_simp
  then show "n < 64 \<Longrightarrow> ?thesis" by (simp add: list_all_iff)
qed

text \<open>The encoder without padding, in one go.\<close>

fun b64_bare :: "nat list \<Rightarrow> string" where
  "b64_bare [] = []"
| "b64_bare [a] = [b64_char (a div 4), b64_char (a mod 4 * 16)]"
| "b64_bare [a, b] = [b64_char (a div 4), b64_char (a mod 4 * 16 + b div 16), b64_char (b mod 16 * 4)]"
| "b64_bare (a # b # c # bs) =
     b64_char (a div 4) # b64_char (a mod 4 * 16 + b div 16)
     # b64_char (b mod 16 * 4 + c div 64) # b64_char (c mod 64) # b64_bare bs"

definition bytes :: "nat list \<Rightarrow> bool" where
  "bytes = list_all (\<lambda>b. b < 256)"

lemma b64_index_bounds:
  fixes a b c :: nat
  shows "a < 256 \<Longrightarrow> a div 4 < 64" "b < 256 \<Longrightarrow> a mod 4 * 16 + b div 16 < 64"
    "c < 256 \<Longrightarrow> b mod 16 * 4 + c div 64 < 64" "c mod 64 < 64"
    "a mod 4 * 16 < 64" "b mod 16 * 4 < 64"
proof -
  have m: "a mod 4 < 4" "b mod 16 < 16" by simp_all
  show "a < 256 \<Longrightarrow> a div 4 < 64" "c mod 64 < 64" by simp_all
  show "a mod 4 * 16 < 64" "b mod 16 * 4 < 64" using m by linarith+
  show "a mod 4 * 16 + b div 16 < 64" if "b < 256"
  proof -
    have "b div 16 < 16" using that by simp
    then show ?thesis using m by linarith
  qed
  show "b mod 16 * 4 + c div 64 < 64" if "c < 256"
  proof -
    have "c div 64 < 4" using that by simp
    then show ?thesis using m by linarith
  qed
qed

definition b64_plain :: "char \<Rightarrow> bool" where
  "b64_plain c = (c \<noteq> CHR ''='' \<and> c \<noteq> CHR ''.'' \<and> \<not> py_isspace c \<and> code c < 128)"

lemma b64_char_plain: "n < 64 \<Longrightarrow> b64_plain (b64_char n)"
  using b64_char_value by (simp add: b64_plain_def)

lemma b64_bare_plain: "bytes bs \<Longrightarrow> list_all b64_plain (b64_bare bs)"
  by (induction bs rule: b64_bare.induct)
    (auto simp: bytes_def intro!: b64_char_plain b64_index_bounds)

lemma b64_padded_bare:
  "b64_padded bs = b64_bare bs @ replicate ((3 - length bs mod 3) mod 3) (CHR ''='')"
  by (induction bs rule: b64_bare.induct) (simp_all add: numeral_2_eq_2)

lemma dropWhile_replicate: "dropWhile (\<lambda>c. c = x) (replicate n x @ ys) = dropWhile (\<lambda>c. c = x) ys"
  by (induction n) simp_all

lemma b64encode_bare: "bytes bs \<Longrightarrow> b64encode bs = b64_bare bs"
proof -
  assume "bytes bs"
  then have "\<forall>c \<in> set (rev (b64_bare bs)). c \<noteq> CHR ''=''"
    using b64_bare_plain by (auto simp: list_all_iff b64_plain_def)
  then show ?thesis
    by (simp add: b64encode_def b64_padded_bare dropWhile_replicate dropWhile_none)
qed

lemma length_b64_bare:
  "(4 - length (b64_bare bs) mod 4) mod 4 = (3 - length bs mod 3) mod 3"
  by (induction bs rule: b64_bare.induct) simp_all

text \<open>One character of the decoder.\<close>

lemma b64_scan_char:
  assumes "n < 64"
  shows "b64_scan 0 l p (b64_char n # cs) = b64_scan 1 n 0 cs"
    "b64_scan 1 l p (b64_char n # cs) = map_option (Cons (l * 4 + n div 16)) (b64_scan 2 (n mod 16) 0 cs)"
    "b64_scan 2 l p (b64_char n # cs) = map_option (Cons (l * 16 + n div 4)) (b64_scan 3 (n mod 4) 0 cs)"
    "b64_scan 3 l p (b64_char n # cs) = map_option (Cons (l * 64 + n)) (b64_scan 0 0 0 cs)"
  using b64_char_value [OF assms] by simp_all

lemma b64_scan_pad:
  "b64_scan 2 l 0 ''=='' = Some []" "b64_scan 3 l 0 ''='' = Some []" "b64_scan 0 l p [] = Some []"
  by simp_all

lemma pack_div: "y < k \<Longrightarrow> (x * k + y) div k = (x :: nat)"
  and pack_mod: "y < k \<Longrightarrow> (x * k + y) mod k = (y :: nat)"
  by simp_all

lemma b64_joins:
  fixes a b c :: nat
  shows "b < 256 \<Longrightarrow> a div 4 * 4 + (a mod 4 * 16 + b div 16) div 16 = a"
    "a div 4 * 4 + a mod 4 * 16 div 16 = a"
    "b < 256 \<Longrightarrow> c < 256 \<Longrightarrow>
       (a mod 4 * 16 + b div 16) mod 16 * 16 + (b mod 16 * 4 + c div 64) div 4 = b"
    "b < 256 \<Longrightarrow> (a mod 4 * 16 + b div 16) mod 16 * 16 + b mod 16 * 4 div 4 = b"
    "c < 256 \<Longrightarrow> (b mod 16 * 4 + c div 64) mod 4 * 64 + c mod 64 = c"
proof -
  have b: "b < 256 \<Longrightarrow> b div 16 < 16" and c: "c < 256 \<Longrightarrow> c div 64 < 4" by simp_all
  show "b < 256 \<Longrightarrow> a div 4 * 4 + (a mod 4 * 16 + b div 16) div 16 = a"
    using pack_div [OF b] div_mult_mod_eq [of a 4] by simp
  show "a div 4 * 4 + a mod 4 * 16 div 16 = a" using div_mult_mod_eq [of a 4] by simp
  show "b < 256 \<Longrightarrow> c < 256 \<Longrightarrow>
       (a mod 4 * 16 + b div 16) mod 16 * 16 + (b mod 16 * 4 + c div 64) div 4 = b"
    using pack_mod [OF b] pack_div [OF c] div_mult_mod_eq [of b 16] by simp
  show "b < 256 \<Longrightarrow> (a mod 4 * 16 + b div 16) mod 16 * 16 + b mod 16 * 4 div 4 = b"
    using pack_mod [OF b] div_mult_mod_eq [of b 16] by simp
  show "c < 256 \<Longrightarrow> (b mod 16 * 4 + c div 64) mod 4 * 64 + c mod 64 = c"
    using pack_mod [OF c] div_mult_mod_eq [of c 64] by simp
qed

lemma replicate_two: "replicate 2 x = [x, x]"
  by (simp add: numeral_2_eq_2)

lemma b64_scan_bare:
  "bytes bs \<Longrightarrow>
     b64_scan 0 0 0 (b64_bare bs @ replicate ((3 - length bs mod 3) mod 3) (CHR ''='')) = Some bs"
proof (induction bs rule: b64_bare.induct)
  case (2 a)
  then show ?case
    by (simp add: bytes_def b64_scan_char b64_scan_pad b64_index_bounds b64_joins replicate_two
        del: b64_scan.simps One_nat_def)
next
  case (3 a b)
  then have b: "b div 16 < 16" by (auto simp: bytes_def)
  have one: "replicate (Suc 0) (CHR ''='') = ''=''" by simp
  show ?case
    using 3 b one
    by (simp add: bytes_def b64_scan_char b64_scan_pad b64_index_bounds b64_joins
        del: b64_scan.simps One_nat_def) (simp del: b64_scan.simps add: b64_scan_pad)
next
  case (4 a b c bs)
  then have b: "b div 16 < 16" and c: "c div 64 < 4" by (auto simp: bytes_def)
  show ?case
    using 4 b c
    by (simp add: bytes_def b64_scan_char b64_scan_pad b64_index_bounds b64_joins
        del: b64_scan.simps One_nat_def)
qed simp

lemma b64_roundtrip: "bytes bs \<Longrightarrow> b64decode (b64encode bs) = Some bs"
  using b64_bare_plain [of bs]
  by (simp add: b64decode_def b64encode_bare is_ascii_def list_all_iff b64_plain_def length_b64_bare
      b64_scan_bare)

lemma bytes_utf8 [simp]: "bytes (utf8 s)"
proof -
  have "list_all (\<lambda>b. b < 256) (utf8_char c)" for c
  proof -
    have "code c div 64 < 4" using code_less [of c] by linarith
    then show ?thesis by (auto simp: utf8_char_def Let_def)
  qed
  then show ?thesis by (auto simp: bytes_def utf8_def list_all_iff)
qed

lemma bytes_hmac [simp]: "bytes (hmac_sha256 key msg)"
proof -
  have "bytes (sha256_bytes bs)" for bs
    by (auto simp: sha256_bytes_def bytes_def list_all_iff be_bytes_def)
  then show ?thesis by (simp add: hmac_sha256_def Let_def)
qed

section \<open>Lemmas on states\<close>

lemma split_dot_iff:
  "split_dot s = Some (a, b) \<longleftrightarrow> s = a @ ''.'' @ b \<and> CHR ''.'' \<notin> set a"
proof (induction s arbitrary: a)
  case (Cons c s)
  show ?case
    by (cases a) (auto simp: Cons.IH)
qed simp

lemma b64encode_plain: "bytes bs \<Longrightarrow> list_all b64_plain (b64encode bs)"
  by (simp add: b64encode_bare b64_bare_plain)

lemma state_sign_plain: "list_all b64_plain (state_sign p secret)"
  by (simp add: state_sign_def b64encode_plain)

lemma plain_ascii: "list_all b64_plain s \<Longrightarrow> is_ascii s"
  by (auto simp: is_ascii_def list_all_iff b64_plain_def)

lemma utf8_Nil_iff: "utf8 s = [] \<longleftrightarrow> s = []"
  by (cases s) (simp_all add: utf8_def utf8_char_def Let_def)

text \<open>What verifying a state with a correct signature comes down to.\<close>

lemma verify_signed:
  assumes "list_all b64_plain p" "secret_key \<noteq> []"
  shows "verify_callback_state loads ints (Some (p @ ''.'' @ state_sign p (utf8 secret_key))) slug secret_key now age
    = (case Option.bind (b64decode p) loads of
         None \<Rightarrow> Inr (rejected_claims ''invalid_state_payload'')
       | Some (PDict payload) \<Rightarrow> Inr (verify_payload ints payload slug now age)
       | Some _ \<Rightarrow> Inl StateAttributeError)"
proof -
  let ?sig = "state_sign p (utf8 secret_key)"
  have plain: "list_all b64_plain (p @ ?sig)" using assms(1) state_sign_plain by simp
  have "\<forall>c \<in> set (p @ ''.'' @ ?sig). \<not> py_isspace c"
    using plain by (auto simp: list_all_iff b64_plain_def py_isspace_def Let_def code_def)
  then have strip: "py_strip (p @ ''.'' @ ?sig) = p @ ''.'' @ ?sig" by (rule py_strip_no_space)
  have split: "split_dot (p @ ''.'' @ ?sig) = Some (p, ?sig)"
    using assms(1) by (auto simp: split_dot_iff list_all_iff b64_plain_def)
  show ?thesis
    using plain_ascii [OF assms(1)] plain_ascii [OF state_sign_plain] assms(2) strip split
    by (simp add: verify_callback_state_def or_default_def utf8_Nil_iff)
qed

lemma state_normalize_slug_idem: "state_normalize_slug (state_normalize_slug s) = state_normalize_slug s"
  by (simp add: state_normalize_slug_def py_strip_dash py_strip_lower lower_dash_commute)

lemma build_verify:
  assumes "loads (utf8 (state_payload_text slug org user iat nonce)) = Some (PDict (state_payload slug org user iat nonce))"
    and "secret \<noteq> []" "state_normalize_slug slug \<noteq> []" "py_strip user \<noteq> []"
    and "iat \<noteq> 0" "iat \<le> now + 60" "now - iat \<le> max_age"
  shows "verify_callback_state loads ints (Some (build_callback_state slug org user secret iat nonce))
      slug secret now max_age
    = Inr \<lparr> cl_valid = True, cl_reason = ''valid'', cl_provider_slug = state_normalize_slug slug,
        cl_organization_id = py_strip org, cl_user_id = py_strip user, cl_issued_at = iat \<rparr>"
proof -
  let ?p = "b64encode (utf8 (state_payload_text slug org user iat nonce))"
  have built: "build_callback_state slug org user secret iat nonce = ?p @ ''.'' @ state_sign ?p (utf8 secret)"
    using assms(2-4) by (simp add: build_callback_state_def utf8_Nil_iff Let_def)
  have "verify_payload ints (state_payload slug org user iat nonce) slug now max_age
    = \<lparr> cl_valid = True, cl_reason = ''valid'', cl_provider_slug = state_normalize_slug slug,
        cl_organization_id = py_strip org, cl_user_id = py_strip user, cl_issued_at = iat \<rparr>"
    using assms(4-7)
    by (simp add: verify_payload_def state_payload_def payload_text_def safe_int_def
        state_normalize_slug_idem Let_def)
  then show ?thesis
    unfolding built
    using verify_signed [OF b64encode_plain [OF bytes_utf8] assms(2)] assms(1)
    by (simp add: b64_roundtrip)
qed

section \<open>Properties\<close>

text \<open>Property C36: a state that was built for a provider is accepted for that provider, under the same secret, from a
  minute before its issue time until its maximal age, and gives back the owner it was built for. The
  only assumption is that \<open>json.loads\<close> reads back what \<open>json.dumps\<close> wrote for this payload.\<close>

theorem callback_state_roundtrip:
  assumes "loads (utf8 (state_payload_text slug org user iat nonce)) = Some (PDict (state_payload slug org user iat nonce))"
    and "secret \<noteq> []" "state_normalize_slug slug \<noteq> []" "py_strip user \<noteq> []"
    and "iat \<noteq> 0" "iat \<le> now + 60" "now - iat \<le> max_age"
  shows "verify_callback_state loads ints (Some (build_callback_state slug org user secret iat nonce))
      slug secret now max_age
    = Inr \<lparr> cl_valid = True, cl_reason = ''valid'', cl_provider_slug = state_normalize_slug slug,
        cl_organization_id = py_strip org, cl_user_id = py_strip user, cl_issued_at = iat \<rparr>"
  using assms by (rule build_verify)

definition example_loads :: "nat list \<Rightarrow> pyval option" where
  "example_loads bs = (if bs = utf8 (state_payload_text ''Google-Drive'' ''org'' ''u1'' 100 ''n'')
     then Some (PDict (state_payload ''Google-Drive'' ''org'' ''u1'' 100 ''n'')) else None)"

lemma example_state_facts:
  "state_normalize_slug ''Google-Drive'' = ''google_drive''" "py_strip ''u1'' = ''u1''" "py_strip ''org'' = ''org''"
  by code_simp+

theorem callback_state_roundtrip_witness:
  "verify_callback_state example_loads (\<lambda>s. None)
     (Some (build_callback_state ''Google-Drive'' ''org'' ''u1'' ''key'' 100 ''n'')) ''Google-Drive'' ''key'' 1900 1800
   = Inr \<lparr> cl_valid = True, cl_reason = ''valid'', cl_provider_slug = ''google_drive'',
       cl_organization_id = ''org'', cl_user_id = ''u1'', cl_issued_at = 100 \<rparr>"
  using callback_state_roundtrip [of example_loads "''Google-Drive''" "''org''" "''u1''" 100 "''n''" "''key''"
      1900 1800 "\<lambda>s. None"]
  by (simp add: example_loads_def example_state_facts)



text \<open>A state with a character outside ASCII is not rejected: before the first dot it makes \<open>encode("ascii")\<close>
  raise, behind it \<open>compare_digest\<close>, whatever the rest of the state and the secret; the verification
  does not catch either.\<close>

theorem callback_state_crashes_outside_ascii:
  "verify_callback_state loads ints (Some (CHR 0xE9 # ''.x'')) slug (k # ks) now max_age = Inl UnicodeEncodeError
   \<and> verify_callback_state loads ints (Some (''x.'' @ [CHR 0xE9])) slug (k # ks) now max_age = Inl StateTypeError"
proof -
  have "py_strip (CHR 0xE9 # ''.x'') = CHR 0xE9 # ''.x''" "py_strip (''x.'' @ [CHR 0xE9]) = ''x.'' @ [CHR 0xE9]"
    "\<not> is_ascii [CHR 0xE9]" "is_ascii ''x''"
    by code_simp+
  then show ?thesis by (simp add: verify_callback_state_def or_default_def utf8_Nil_iff Let_def)
qed

end
