(* ===== verification/Post_Preview.thy ===== *)
theory Post_Preview
  imports Callback_State
begin

text \<open>
  \<open>app/engine/wiii_connect/facebook_post_preview.py\<close>: the normal forms of a Facebook post, the evidence
  id of a preview and the signed token that ties an apply request to the preview the user saw.
  \<open>loads\<close> stands for \<open>json.loads(data.decode("utf-8"))\<close> and \<open>int_of_str\<close> for \<open>int\<close> of a string, as in
  \<open>Callback_State\<close>; the clock and the nonce are arguments.
\<close>

section \<open>Normal forms\<close>

definition normalize_post_message :: "string \<Rightarrow> string" where
  "normalize_post_message value = take 5000 (squash_spaces value)"

definition image_media_types :: "(string \<times> string) list" where
  "image_media_types = [(''image/png'', ''.png''), (''image/jpeg'', ''.jpg''), (''image/webp'', ''.webp''),
     (''image/gif'', ''.gif'')]"

definition normalize_image_media_type :: "string option \<Rightarrow> string" where
  "normalize_image_media_type value =
     (let media_type = py_lower (py_strip (or_default value [])) in
      if media_type \<in> set (map fst image_media_types) then media_type else [])"

definition secret_name_markers :: "string list" where
  "secret_name_markers = [''token'', ''secret'', ''password'', ''key'']"

text \<open>\<open>value.replace("\", "/").rsplit("/", 1)[-1]\<close>.\<close>

definition base_name :: "string \<Rightarrow> string" where
  "base_name s = rev (takeWhile (\<lambda>c. c \<noteq> CHR ''/'') (rev (py_replace_char (CHR 0x5C) (CHR ''/'') s)))"

definition strip_space_dot :: "string \<Rightarrow> string" where
  "strip_space_dot s = (let junk = (\<lambda>c. c = CHR '' '' \<or> c = CHR ''.'') in
     rev (dropWhile junk (rev (dropWhile junk s))))"

definition normalize_image_filename :: "string option \<Rightarrow> string \<Rightarrow> string" where
  "normalize_image_filename value media_type =
     (let file = py_strip (base_name (or_default value []));
          suffix = or_default (map_of image_media_types media_type) ''.img'';
          fallback = ''wiii-facebook-post'' @ suffix
      in if file = [] then fallback
         else if contains_any secret_name_markers (py_lower file) then fallback
         else let
           safe = strip_space_dot
             (filter (\<lambda>c. py_isalnum c \<or> c \<in> set '' ._-'') (take 120 file))
         in if safe = [] then fallback
            else if CHR ''.'' \<notin> set safe then safe @ suffix
            else safe)"

definition normalize_page_id :: "string \<Rightarrow> string" where
  "normalize_page_id value =
     filter (\<lambda>c. py_isalnum c \<or> c \<in> set ''_-:'') (take 120 (py_strip value))"

definition normalize_image_url :: "string \<Rightarrow> string" where
  "normalize_image_url value =
     (let url = py_strip value in
      if \<not> py_startswith ''https://'' url then []
      else if contains_any secret_name_markers (py_lower url) then []
      else take 2000 url)"

definition image_sha256 :: "nat list \<Rightarrow> string" where
  "image_sha256 image_bytes =
     (if image_bytes = [] then [] else concat (map hex_word (sha256_words image_bytes)))"

definition preview_connection_ref :: "string \<Rightarrow> string" where
  "preview_connection_ref value =
     (let ref = py_strip value in if py_startswith ''wcn_'' ref then take 180 ref else [])"

section \<open>Evidence ids\<close>

text \<open>What a preview is about, by key in sorted order; the operation is the one of the approval ledger.\<close>

definition preview_fields :: "operation \<Rightarrow> (string \<times> string) list" where
  "preview_fields opn =
     [(''action_slug'', action_slug120 (op_action_slug opn)),
      (''connection_ref'', preview_connection_ref (op_connection_ref opn)),
      (''image_hash'', safe_fingerprint (op_image_sha256 opn)),
      (''image_url_hash'', sha256_hex (normalize_image_url (op_image_url opn))),
      (''message_hash'', sha256_hex (op_message opn)),
      (''page_id'', normalize_page_id (op_page_id opn)),
      (''provider_slug'', provider_slug80 (op_provider_slug opn))]"

definition preview_evidence_id :: "operation \<Rightarrow> string" where
  "preview_evidence_id opn = ''wcp_'' @ take 32 (sha256_hex (json_object (preview_fields opn)))"

section \<open>Approval tokens\<close>

record token_check =
  tk_valid :: bool
  tk_reason :: string
  tk_preview_evidence_id :: string

definition safe_token_reason :: "string \<Rightarrow> string" where
  "safe_token_reason value =
     (let reason = dash_to_underscore (py_lower (py_strip value)) in
      if reason \<in> {''valid'', ''missing_token'', ''invalid_signature'', ''invalid_payload'', ''token_expired'',
         ''preview_mismatch''} then reason else ''invalid_payload'')"

definition preview_version :: string where
  "preview_version = ''wiii_connect_facebook_post_preview.v1''"

definition token_check_metadata :: "token_check \<Rightarrow> pydict" where
  "token_check_metadata c =
     [(''version'', PStr preview_version),
      (''valid'', PBool (tk_valid c)), (''reason'', PStr (safe_token_reason (tk_reason c))),
      (''preview_evidence_id_present'', PBool (tk_preview_evidence_id c \<noteq> []))]"

text \<open>\<open>json.dumps(d, sort_keys=True, separators=(",", ":"))\<close> of a dictionary of strings and integers whose
  keys are in order.\<close>

fun json_scalar :: "pyval \<Rightarrow> string" where
  "json_scalar (PStr s) = json_string s"
| "json_scalar (PInt n) = dec_int n"
| "json_scalar v = ''null''"

definition json_dict :: "pydict \<Rightarrow> string" where
  "json_dict d = ''{'' @ py_join '','' (map (\<lambda>(k, v). json_string k @ '':'' @ json_scalar v) d) @ ''}''"

definition token_payload :: "operation \<Rightarrow> int \<Rightarrow> string \<Rightarrow> pydict" where
  "token_payload opn issued nonce =
     [(''action_slug'', PStr (action_slug120 (op_action_slug opn))),
      (''connection_ref'', PStr (preview_connection_ref (op_connection_ref opn))),
      (''iat'', PInt issued),
      (''image_hash'', PStr (safe_fingerprint (op_image_sha256 opn))),
      (''image_url_hash'', PStr (sha256_hex (normalize_image_url (op_image_url opn)))),
      (''message_hash'', PStr (sha256_hex (op_message opn))),
      (''nonce'', PStr nonce),
      (''page_id'', PStr (normalize_page_id (op_page_id opn))),
      (''preview_evidence_id'', PStr (preview_evidence_id opn)),
      (''provider_slug'', PStr (provider_slug80 (op_provider_slug opn))),
      (''v'', PStr preview_version)]"

definition build_approval_token :: "operation \<Rightarrow> string \<Rightarrow> int \<Rightarrow> string \<Rightarrow> string" where
  "build_approval_token opn secret_key issued nonce =
     (let encoded = b64encode (utf8 (json_dict (token_payload opn issued nonce)))
      in encoded @ ''.'' @ state_sign encoded (utf8 secret_key))"

text \<open>What escapes the verification instead of a refusal.\<close>

datatype token_error = TokenUnicodeError | TokenTypeError | TokenValueError

definition token_refused :: "string \<Rightarrow> token_check" where
  "token_refused reason = \<lparr> tk_valid = False, tk_reason = reason, tk_preview_evidence_id = [] \<rparr>"

text \<open>\<open>text.rsplit(".", 1)\<close>, \<open>None\<close> when there is no dot.\<close>

definition rsplit_dot :: "string \<Rightarrow> (string \<times> string) option" where
  "rsplit_dot s = map_option (\<lambda>(a, b). (rev b, rev a)) (split_dot (rev s))"

text \<open>\<open>int(payload.get("iat") or 0)\<close>.\<close>

definition token_issued_at :: "(string \<Rightarrow> int option) \<Rightarrow> pydict \<Rightarrow> token_error + int" where
  "token_issued_at int_of_str payload =
     (case dict_get payload ''iat'' of
        None \<Rightarrow> Inr 0
      | Some v \<Rightarrow> if \<not> truthy v then Inr 0
          else (case v of
              PInt n \<Rightarrow> Inr n
            | PBool b \<Rightarrow> Inr 1
            | PStr s \<Rightarrow> (case int_of_str s of None \<Rightarrow> Inl TokenValueError | Some n \<Rightarrow> Inr n)
            | _ \<Rightarrow> Inl TokenTypeError))"

definition token_expectations :: "operation \<Rightarrow> (string \<times> string) list" where
  "token_expectations opn =
     [(''v'', preview_version),
      (''provider_slug'', provider_slug80 (op_provider_slug opn)),
      (''action_slug'', action_slug120 (op_action_slug opn)),
      (''connection_ref'', preview_connection_ref (op_connection_ref opn)),
      (''page_id'', normalize_page_id (op_page_id opn)),
      (''message_hash'', sha256_hex (op_message opn)),
      (''image_hash'', safe_fingerprint (op_image_sha256 opn)),
      (''image_url_hash'', sha256_hex (normalize_image_url (op_image_url opn))),
      (''preview_evidence_id'', preview_evidence_id opn)]"

definition verify_approval_token ::
    "(nat list \<Rightarrow> pyval option) \<Rightarrow> (string \<Rightarrow> int option) \<Rightarrow> string \<Rightarrow> operation \<Rightarrow> string \<Rightarrow> string \<Rightarrow>
     int \<Rightarrow> int \<Rightarrow> token_error + token_check" where
  "verify_approval_token loads int_of_str token opn secret_key evidence now max_age =
     (case rsplit_dot (py_strip token) of
        None \<Rightarrow> Inr (token_refused ''missing_token'')
      | Some (encoded, signature) \<Rightarrow>
          if \<not> is_ascii encoded then Inl TokenUnicodeError
          else if \<not> is_ascii signature then Inl TokenTypeError
          else if signature \<noteq> state_sign encoded (utf8 secret_key)
          then Inr (token_refused ''invalid_signature'')
          else (case Option.bind (b64decode encoded) loads of
              Some (PDict payload) \<Rightarrow>
                (case token_issued_at int_of_str payload of
                   Inl e \<Rightarrow> Inl e
                 | Inr issued_at \<Rightarrow>
                     if issued_at \<le> 0 \<or> now - issued_at > max_age
                     then Inr (token_refused ''token_expired'')
                     else if list_ex (\<lambda>(k, expected). payload_text payload k \<noteq> expected)
                         (token_expectations opn)
                     then Inr ((token_refused ''preview_mismatch'')
                       \<lparr>tk_preview_evidence_id := payload_text payload ''preview_evidence_id''\<rparr>)
                     else if evidence \<noteq> [] \<and> evidence \<noteq> preview_evidence_id opn
                     then Inr ((token_refused ''preview_mismatch'')
                       \<lparr>tk_preview_evidence_id := preview_evidence_id opn\<rparr>)
                     else Inr \<lparr> tk_valid = True, tk_reason = ''valid'',
                       tk_preview_evidence_id = preview_evidence_id opn \<rparr>)
            | _ \<Rightarrow> Inr (token_refused ''invalid_payload'')))"

section \<open>Lemmas on tokens\<close>

lemma rsplit_dot_iff:
  "rsplit_dot s = Some (a, b) \<longleftrightarrow> s = a @ ''.'' @ b \<and> CHR ''.'' \<notin> set b"
proof -
  have "rsplit_dot s = Some (a, b) \<longleftrightarrow> split_dot (rev s) = Some (rev b, rev a)"
    by (auto simp: rsplit_dot_def)
  also have "\<dots> \<longleftrightarrow> rev s = rev (a @ ''.'' @ b) \<and> CHR ''.'' \<notin> set b"
    by (simp add: split_dot_iff)
  finally show ?thesis by (simp only: rev_is_rev_conv)
qed

text \<open>What verifying a token with a correct signature comes down to.\<close>

lemma verify_signed_token:
  assumes "list_all b64_plain p" "Option.bind (b64decode p) loads = Some (PDict payload)"
  shows "verify_approval_token loads ints (p @ ''.'' @ state_sign p (utf8 secret_key)) opn secret_key evidence
      now max_age
    = (case token_issued_at ints payload of
         Inl e \<Rightarrow> Inl e
       | Inr issued_at \<Rightarrow>
           if issued_at \<le> 0 \<or> now - issued_at > max_age then Inr (token_refused ''token_expired'')
           else if list_ex (\<lambda>(k, expected). payload_text payload k \<noteq> expected) (token_expectations opn)
           then Inr ((token_refused ''preview_mismatch'')
             \<lparr>tk_preview_evidence_id := payload_text payload ''preview_evidence_id''\<rparr>)
           else if evidence \<noteq> [] \<and> evidence \<noteq> preview_evidence_id opn
           then Inr ((token_refused ''preview_mismatch'')\<lparr>tk_preview_evidence_id := preview_evidence_id opn\<rparr>)
           else Inr \<lparr> tk_valid = True, tk_reason = ''valid'',
             tk_preview_evidence_id = preview_evidence_id opn \<rparr>)"
proof -
  let ?sig = "state_sign p (utf8 secret_key)"
  have plain: "list_all b64_plain (p @ ?sig)" using assms(1) state_sign_plain by simp
  have "\<forall>c \<in> set (p @ ''.'' @ ?sig). \<not> py_isspace c"
    using plain by (auto simp: list_all_iff b64_plain_def py_isspace_def Let_def code_def)
  then have strip: "py_strip (p @ ''.'' @ ?sig) = p @ ''.'' @ ?sig" by (rule py_strip_no_space)
  have split: "rsplit_dot (p @ ''.'' @ ?sig) = Some (p, ?sig)"
    using plain by (auto simp: rsplit_dot_iff list_all_iff b64_plain_def)
  show ?thesis
    using plain_ascii [OF assms(1)] plain_ascii [OF state_sign_plain] assms(2) strip split
    by (simp add: verify_approval_token_def)
qed

lemma payload_text_token [simp]:
  "payload_text (token_payload opn iat nonce) ''v'' = preview_version"
  "payload_text (token_payload opn iat nonce) ''provider_slug'' = provider_slug80 (op_provider_slug opn)"
  "payload_text (token_payload opn iat nonce) ''action_slug'' = action_slug120 (op_action_slug opn)"
  "payload_text (token_payload opn iat nonce) ''connection_ref'' = preview_connection_ref (op_connection_ref opn)"
  "payload_text (token_payload opn iat nonce) ''page_id'' = normalize_page_id (op_page_id opn)"
  "payload_text (token_payload opn iat nonce) ''message_hash'' = sha256_hex (op_message opn)"
  "payload_text (token_payload opn iat nonce) ''image_hash'' = safe_fingerprint (op_image_sha256 opn)"
  "payload_text (token_payload opn iat nonce) ''image_url_hash'' = sha256_hex (normalize_image_url (op_image_url opn))"
  "payload_text (token_payload opn iat nonce) ''preview_evidence_id'' = preview_evidence_id opn"
  by (simp_all add: payload_text_def token_payload_def)

lemma token_issued_token [simp]: "token_issued_at ints (token_payload opn iat nonce) = Inr iat"
  by (simp add: token_issued_at_def token_payload_def)

text \<open>Verifying a token that was built with the same secret, for any operation.\<close>

lemma verify_built_token:
  assumes "loads (utf8 (json_dict (token_payload opn iat nonce))) = Some (PDict (token_payload opn iat nonce))"
  shows "verify_approval_token loads ints (build_approval_token opn secret iat nonce) asked secret evidence now max_age
    = Inr (if iat \<le> 0 \<or> now - iat > max_age then token_refused ''token_expired''
        else if token_expectations opn \<noteq> token_expectations asked
        then (token_refused ''preview_mismatch'')\<lparr>tk_preview_evidence_id := preview_evidence_id opn\<rparr>
        else if evidence \<noteq> [] \<and> evidence \<noteq> preview_evidence_id asked
        then (token_refused ''preview_mismatch'')\<lparr>tk_preview_evidence_id := preview_evidence_id asked\<rparr>
        else \<lparr> tk_valid = True, tk_reason = ''valid'', tk_preview_evidence_id = preview_evidence_id asked \<rparr>)"
proof -
  let ?d = "token_payload opn iat nonce"
  let ?p = "b64encode (utf8 (json_dict ?d))"
  have "Option.bind (b64decode ?p) loads = Some (PDict ?d)" using assms by (simp add: b64_roundtrip)
  note verify_signed_token [OF b64encode_plain [OF bytes_utf8] this, where opn = asked]
  moreover have "list_ex (\<lambda>(k, expected). payload_text ?d k \<noteq> expected) (token_expectations asked)
      \<longleftrightarrow> token_expectations opn \<noteq> token_expectations asked"
    by (simp add: token_expectations_def)
  ultimately show ?thesis by (simp add: build_approval_token_def Let_def)
qed

lemma sha_not_empty: "sha256_hex s \<noteq> []"
  using length_sha256_hex [of s] by (metis length_0_conv zero_neq_numeral)

section \<open>Properties\<close>

text \<open>Property C11: a token answers for the operation it was built for and no other: under the same secret, verifying it
  succeeds exactly between its issue and its maximal age, for an operation with the same normal
  forms and hashes, under no evidence id or the operation's own; the check then carries that id.\<close>

theorem approval_token_binds_operation:
  assumes "loads (utf8 (json_dict (token_payload opn iat nonce))) = Some (PDict (token_payload opn iat nonce))"
  shows "\<exists>c. verify_approval_token loads ints (build_approval_token opn secret iat nonce) asked secret evidence
        now max_age = Inr c
    \<and> (tk_valid c \<longleftrightarrow> iat > 0 \<and> now - iat \<le> max_age
         \<and> provider_slug80 (op_provider_slug opn) = provider_slug80 (op_provider_slug asked)
         \<and> action_slug120 (op_action_slug opn) = action_slug120 (op_action_slug asked)
         \<and> preview_connection_ref (op_connection_ref opn) = preview_connection_ref (op_connection_ref asked)
         \<and> normalize_page_id (op_page_id opn) = normalize_page_id (op_page_id asked)
         \<and> sha256_hex (op_message opn) = sha256_hex (op_message asked)
         \<and> safe_fingerprint (op_image_sha256 opn) = safe_fingerprint (op_image_sha256 asked)
         \<and> sha256_hex (normalize_image_url (op_image_url opn)) = sha256_hex (normalize_image_url (op_image_url asked))
         \<and> evidence \<in> {[], preview_evidence_id asked})
    \<and> (tk_valid c \<longrightarrow> tk_preview_evidence_id c = preview_evidence_id asked)"
  using verify_built_token [where loads = loads and opn = opn and iat = iat and nonce = nonce and asked = asked, OF assms]
  by (auto simp: token_expectations_def token_refused_def preview_evidence_id_def preview_fields_def)

definition example_post :: operation where
  "example_post = \<lparr> op_provider_slug = ''facebook'', op_action_slug = ''FACEBOOK_CREATE_POST'',
     op_connection_ref = ''wcn_1'', op_page_id = ''42'', op_message = ''hi'', op_image_sha256 = [],
     op_image_url = [] \<rparr>"

definition example_token_loads :: "nat list \<Rightarrow> pyval option" where
  "example_token_loads bs = (if bs = utf8 (json_dict (token_payload example_post 100 ''n''))
     then Some (PDict (token_payload example_post 100 ''n'')) else None)"

theorem approval_token_binds_operation_witness:
  "\<exists>c d. verify_approval_token example_token_loads (\<lambda>s. None) (build_approval_token example_post ''key'' 100 ''n'')
       example_post ''key'' [] 1900 1800 = Inr c \<and> tk_valid c
     \<and> verify_approval_token example_token_loads (\<lambda>s. None) (build_approval_token example_post ''key'' 100 ''n'')
       (example_post\<lparr>op_page_id := ''43''\<rparr>) ''key'' [] 1900 1800 = Inr d \<and> \<not> tk_valid d"
proof -
  have loads: "example_token_loads (utf8 (json_dict (token_payload example_post 100 ''n'')))
      = Some (PDict (token_payload example_post 100 ''n''))"
    by (simp add: example_token_loads_def)
  have pages: "normalize_page_id ''42'' \<noteq> normalize_page_id ''43''" by code_simp
  show ?thesis
    using approval_token_binds_operation [where loads = example_token_loads and opn = example_post
          and iat = 100 and nonce = "''n''", OF loads, where ints = "\<lambda>s. None"
          and secret = "''key''" and asked = example_post and evidence = "[]" and now = 1900 and max_age = 1800]
      approval_token_binds_operation [where loads = example_token_loads and opn = example_post
          and iat = 100 and nonce = "''n''", OF loads, where ints = "\<lambda>s. None"
          and secret = "''key''" and asked = "example_post\<lparr>op_page_id := ''43''\<rparr>" and evidence = "[]"
          and now = 1900 and max_age = 1800] pages
    by (auto simp: example_post_def)
qed

text \<open>Nothing else is accepted: a token that verifies for an operation is a payload and, after the last dot,
  exactly the HMAC of that payload under the secret; the payload is a dictionary that holds every
  normal form and hash of the operation, its evidence id included.\<close>

theorem approval_token_valid_is_signed:
  assumes "verify_approval_token loads ints token opn secret evidence now max_age = Inr c" "tk_valid c"
  shows "\<exists>p payload. py_strip token = p @ ''.'' @ state_sign p (utf8 secret)
    \<and> Option.bind (b64decode p) loads = Some (PDict payload)
    \<and> (\<exists>iat > 0. token_issued_at ints payload = Inr iat \<and> now - iat \<le> max_age)
    \<and> map (\<lambda>(k, x). payload_text payload k) (token_expectations opn) = map snd (token_expectations opn)
    \<and> tk_preview_evidence_id c = preview_evidence_id opn"
proof -
  obtain p sig where split: "rsplit_dot (py_strip token) = Some (p, sig)"
      and sig: "sig = state_sign p (utf8 secret)"
    using assms by (auto simp: verify_approval_token_def token_refused_def split: if_splits option.splits)
  obtain payload where payload: "Option.bind (b64decode p) loads = Some (PDict payload)"
    using assms split sig by (auto simp: verify_approval_token_def token_refused_def
        split: if_splits option.splits pyval.splits)
  obtain iat where iat: "token_issued_at ints payload = Inr iat"
    using assms split sig payload
    by (auto simp: verify_approval_token_def split: if_splits sum.splits)
  have c: "iat > 0 \<and> now - iat \<le> max_age
      \<and> \<not> list_ex (\<lambda>(k, expected). payload_text payload k \<noteq> expected) (token_expectations opn)
      \<and> tk_preview_evidence_id c = preview_evidence_id opn"
    using assms split sig payload iat
    by (auto simp: verify_approval_token_def token_refused_def split: if_splits)
  then have "map (\<lambda>(k, x). payload_text payload k) (token_expectations opn) = map snd (token_expectations opn)"
    by (auto simp: list_ex_iff)
  moreover have "py_strip token = p @ ''.'' @ sig" using split by (simp add: rsplit_dot_iff)
  ultimately show ?thesis using payload iat c unfolding sig by blast
qed

theorem approval_token_valid_is_signed_witness:
  "\<exists>p. py_strip (build_approval_token example_post ''key'' 100 ''n'') = p @ ''.'' @ state_sign p (utf8 ''key'')"
proof -
  have "verify_approval_token example_token_loads (\<lambda>s. None) (build_approval_token example_post ''key'' 100 ''n'')
      example_post ''key'' [] 1900 1800
    = Inr \<lparr> tk_valid = True, tk_reason = ''valid'', tk_preview_evidence_id = preview_evidence_id example_post \<rparr>"
    using verify_built_token [where loads = example_token_loads and opn = example_post and iat = 100
        and nonce = "''n''" and asked = example_post]
    by (simp add: example_token_loads_def)
  from approval_token_valid_is_signed [OF this] show ?thesis by auto
qed

end
