(* ===== verification/Composio_Upload.thy ===== *)
theory Composio_Upload
  imports Composio Post_Preview
begin

text \<open>
  \<open>stage_composio_file_upload\<close> of \<open>app/engine/wiii_connect/composio_adapter.py\<close>: an image the user
  picked is announced to the provider with its MD5, which answers with a storage key and possibly an
  address to put the bytes to. MD5 (RFC 1321) is executable and on 32-bit words.
\<close>

section \<open>MD5\<close>

definition md5_shift :: "nat \<Rightarrow> nat" where
  "md5_shift i = [7, 12, 17, 22, 5, 9, 14, 20, 4, 11, 16, 23, 6, 10, 15, 21] ! (4 * (i div 16) + i mod 4)"

definition md5_k :: "w32 list" where
  "md5_k = [
     0xd76aa478, 0xe8c7b756, 0x242070db, 0xc1bdceee, 0xf57c0faf, 0x4787c62a, 0xa8304613, 0xfd469501,
     0x698098d8, 0x8b44f7af, 0xffff5bb1, 0x895cd7be, 0x6b901122, 0xfd987193, 0xa679438e, 0x49b40821,
     0xf61e2562, 0xc040b340, 0x265e5a51, 0xe9b6c7aa, 0xd62f105d, 0x02441453, 0xd8a1e681, 0xe7d3fbc8,
     0x21e1cde6, 0xc33707d6, 0xf4d50d87, 0x455a14ed, 0xa9e3e905, 0xfcefa3f8, 0x676f02d9, 0x8d2a4c8a,
     0xfffa3942, 0x8771f681, 0x6d9d6122, 0xfde5380c, 0xa4beea44, 0x4bdecfa9, 0xf6bb4b60, 0xbebfbc70,
     0x289b7ec6, 0xeaa127fa, 0xd4ef3085, 0x04881d05, 0xd9d4d039, 0xe6db99e5, 0x1fa27cf8, 0xc4ac5665,
     0xf4292244, 0x432aff97, 0xab9423a7, 0xfc93a039, 0x655b59c3, 0x8f0ccc92, 0xffeff47d, 0x85845dd1,
     0x6fa87e4f, 0xfe2ce6e0, 0xa3014314, 0x4e0811a1, 0xf7537e82, 0xbd3af235, 0x2ad7d2bb, 0xeb86d391]"

fun md5_round :: "w32 list \<Rightarrow> w32 \<times> w32 \<times> w32 \<times> w32 \<Rightarrow> nat \<Rightarrow> w32 \<times> w32 \<times> w32 \<times> w32" where
  "md5_round ws (a, b, c, d) i =
     (let (f, g) =
        (if i < 16 then ((b AND c) OR (NOT b AND d), i)
         else if i < 32 then ((d AND b) OR (NOT d AND c), (5 * i + 1) mod 16)
         else if i < 48 then (b XOR c XOR d, (3 * i + 5) mod 16)
         else (c XOR (b OR NOT d), (7 * i) mod 16));
        f1 = f + a + md5_k ! i + ws ! g
      in (d, b + rotr (32 - md5_shift i) f1, b, c))"

fun md5_add :: "w32 \<times> w32 \<times> w32 \<times> w32 \<Rightarrow> w32 \<times> w32 \<times> w32 \<times> w32 \<Rightarrow> w32 \<times> w32 \<times> w32 \<times> w32" where
  "md5_add (a, b, c, d) (a', b', c', d') = (a + a', b + b', c + c', d + d')"

fun md5_blocks :: "nat \<Rightarrow> w32 \<times> w32 \<times> w32 \<times> w32 \<Rightarrow> w32 list \<Rightarrow> w32 \<times> w32 \<times> w32 \<times> w32" where
  "md5_blocks 0 st ws = st"
| "md5_blocks (Suc n) st ws =
     md5_blocks n (md5_add st (foldl (md5_round (take 16 ws)) st [0..<64])) (drop 16 ws)"

text \<open>Padding as in SHA-256, but with the least significant byte first.\<close>

definition le_bytes :: "nat \<Rightarrow> nat \<Rightarrow> nat list" where
  "le_bytes n x = rev (be_bytes n x)"

definition md5_pad :: "nat list \<Rightarrow> nat list" where
  "md5_pad bs = (let n = length bs in
     bs @ [128] @ replicate ((119 - n mod 64) mod 64) 0 @ le_bytes 8 (8 * n))"

fun bytes_to_words_le :: "nat list \<Rightarrow> w32 list" where
  "bytes_to_words_le (a # b # c # d # bs) = bytes_to_words [d, c, b, a] @ bytes_to_words_le bs"
| "bytes_to_words_le _ = []"

definition hex_byte :: "nat \<Rightarrow> string" where
  "hex_byte b = [hex_digit (b div 16), hex_digit (b mod 16)]"

definition md5_hex :: "nat list \<Rightarrow> string" where
  "md5_hex bs = (let ws = bytes_to_words_le (md5_pad bs);
     (a, b, c, d) = md5_blocks (length ws div 16) (0x67452301, 0xefcdab89, 0x98badcfe, 0x10325476) ws
   in concat (map (\<lambda>w. concat (map hex_byte (le_bytes 4 (unat w)))) [a, b, c, d]))"

section \<open>Staging a file\<close>

definition composio_sensitive_markers :: "string list" where
  "composio_sensitive_markers = [''token'', ''secret'', ''password'', ''credential'', ''key'', ''code'']"

definition composio_safe_filename :: "string \<Rightarrow> string" where
  "composio_safe_filename value =
     (let file = py_strip (base_name value) in
      if file = [] then ''wiii-upload''
      else if contains_any composio_sensitive_markers (py_lower file) then ''wiii-upload''
      else str_or (strip_space_dot (filter (\<lambda>c. py_isalnum c \<or> c \<in> set '' ._-'') (take 120 file)))
        ''wiii-upload'')"

definition composio_safe_mimetype :: "string \<Rightarrow> string" where
  "composio_safe_mimetype value =
     (let mime = py_lower (py_strip value) in
      if CHR ''/'' \<notin> set mime \<or> contains_any composio_sensitive_markers mime then []
      else take 80 mime)"

record file_upload =
  fu_ready :: bool
  fu_provider_slug :: string
  fu_action_slug :: string
  fu_reason :: string
  fu_request_id :: string
  fu_status_code :: int
  fu_file_descriptor :: pydict
  fu_file_ref_present :: bool
  fu_upload_url_present :: bool
  fu_size_bytes :: int

definition file_upload_metadata :: "file_upload \<Rightarrow> pydict" where
  "file_upload_metadata u =
     [(''version'', PStr ''wiii_connect_composio_file_upload.v1''),
      (''status'', PStr (if fu_ready u then ''ready'' else ''blocked'')),
      (''reason'', PStr (safe_execute_reason (fu_reason u))),
      (''provider_slug'', PStr (normalize_provider_slug (fu_provider_slug u))),
      (''action_slug'', PStr (normalize_action_slug (fu_action_slug u))),
      (''file_ref_present'', PBool (fu_file_ref_present u)),
      (''upload_url_present'', PBool (fu_upload_url_present u)),
      (''size_bytes'', PInt (fu_size_bytes u)),
      (''status_code'', PInt (fu_status_code u))]
     @ (let rid = composio_safe_request_id (fu_request_id u) in
        if rid \<noteq> [] then [(''request_id'', PStr rid)] else [])"

text \<open>\<open>str(data.get(k1) or data.get(k2) or ... or "").strip()\<close>.\<close>

definition first_key_text :: "pydict \<Rightarrow> string list \<Rightarrow> string" where
  "first_key_text data ks = py_strip (py_str (first_truthy data ks (PStr [])))"

definition stage_file_upload ::
    "http_client \<Rightarrow> composio_config \<Rightarrow> string \<Rightarrow> string \<Rightarrow> string \<Rightarrow> string \<Rightarrow> nat list \<Rightarrow> string \<Rightarrow>
     file_upload \<times> http_request list" where
  "stage_file_upload client c provider_slug action_slug filename mimetype content request_id =
     (let provider = normalize_provider_slug provider_slug;
          action = normalize_action_slug action_slug;
          rid = composio_safe_request_id request_id;
          safe_filename = composio_safe_filename filename;
          safe_mimetype = composio_safe_mimetype mimetype;
          refused = (\<lambda>reason code size. \<lparr> fu_ready = False, fu_provider_slug = provider,
            fu_action_slug = action, fu_reason = reason, fu_request_id = rid, fu_status_code = code,
            fu_file_descriptor = [], fu_file_ref_present = False, fu_upload_url_present = False,
            fu_size_bytes = size \<rparr>);
          size = int (length content)
      in if \<not> cx_enabled c \<or> \<not> cx_api_key_present c
        then (refused ''provider_adapter_not_configured'' 0 0, [])
      else if action \<notin> set (executable_action_slugs_for_provider c provider)
        then (refused ''action_not_allowlisted'' 0 0, [])
      else if content = [] \<or> safe_filename = [] \<or> safe_mimetype = []
        then (refused ''missing_file'' 0 0, [])
      else let request = HttpPost (rstrip_slash (cx_base_url c) @ ''/api/v3/files/upload/request'')
          [(''toolkit_slug'', PStr provider), (''tool_slug'', PStr action),
           (''filename'', PStr safe_filename), (''mimetype'', PStr safe_mimetype),
           (''md5'', PStr (md5_hex content))]
          (provider_request_headers c rid)
      in (case client request of
           TransportError \<Rightarrow> (refused ''provider_transport_error'' 0 size, [request])
         | HttpResponse status body \<Rightarrow>
             if status < 200 \<or> status \<ge> 300
             then (refused ''provider_response_rejected'' status size, [request])
             else (case body of
               Some (PDict data) \<Rightarrow>
                 (let s3key = first_key_text data [''key'', ''s3key'', ''s3Key''];
                      upload_url = first_key_text data [''new_presigned_url'', ''newPresignedUrl'',
                        ''presigned_url'', ''presignedUrl''];
                      ready = (refused ''ready'' status size)\<lparr>fu_ready := True,
                        fu_file_descriptor := [(''name'', PStr safe_filename),
                          (''mimetype'', PStr safe_mimetype), (''s3key'', PStr s3key)],
                        fu_file_ref_present := True, fu_upload_url_present := (upload_url \<noteq> [])\<rparr>;
                      half = (\<lambda>reason code. (refused reason code size)
                        \<lparr>fu_file_ref_present := True, fu_upload_url_present := True\<rparr>);
                      put = HttpPut upload_url content [(''Content-Type'', safe_mimetype)]
                  in if s3key = [] then (refused ''provider_response_invalid'' status size, [request])
                     else if upload_url = [] then (ready, [request])
                     else (case client put of
                         TransportError \<Rightarrow> (half ''provider_transport_error'' status, [request, put])
                       | HttpResponse status' body' \<Rightarrow>
                           if status' < 200 \<or> status' \<ge> 300
                           then (half ''provider_response_rejected'' status', [request, put])
                           else (ready, [request, put])))
             | _ \<Rightarrow> (refused ''provider_response_invalid'' status size, [request]))))"

end
