(* ===== verification/Post_Routes.thy ===== *)
theory Post_Routes
  imports Endpoint Composio_Upload
begin

text \<open>
  The routes of \<open>app/api/v1/wiii_connect.py\<close> that publish a Facebook post in two steps:
  \<open>POST /providers/{slug}/facebook-post/preview\<close> records an approval and hands out a signed token,
  \<open>POST /providers/{slug}/facebook-post/apply\<close> takes the token, consumes the approval and posts. Up to
  its gateway decision the apply route runs without an \<open>await\<close> (\<open>apply_begin\<close>); from then on
  (\<open>apply_finish\<close>) other requests may run in between.
\<close>

section \<open>Request bodies and their normal form\<close>

record post_body =
  pb_surface :: string
  pb_connection_ref :: string
  pb_page_id :: string
  pb_message :: string
  pb_image_base64 :: "string option"
  pb_image_media_type :: "string option"
  pb_image_filename :: "string option"
  pb_image_url :: "string option"

record apply_body = post_body +
  pb_approval_token :: string
  pb_preview_evidence_id :: string

text \<open>\<open>base64.b64decode(raw, validate=True)\<close>: as the lenient scan of \<open>Callback_State\<close>, over the plain
  alphabet, with nothing after complete padding, no padding in front and none in between.\<close>

definition std_b64_value :: "char \<Rightarrow> nat option" where
  "std_b64_value c = (if c = CHR ''-'' \<or> c = CHR ''_'' then None else b64_value c)"

fun strict_b64_scan :: "nat \<Rightarrow> nat \<Rightarrow> nat \<Rightarrow> bool \<Rightarrow> string \<Rightarrow> nat list option" where
  "strict_b64_scan quad left_bits pads padded [] = (if quad = 0 then Some [] else None)"
| "strict_b64_scan quad left_bits pads padded (c # cs) =
     (if c = CHR ''='' then
        (if quad \<ge> 2 \<and> quad + pads + 1 \<ge> 4 then (if cs = [] then Some [] else None)
         else strict_b64_scan quad left_bits (if quad \<ge> 2 then pads + 1 else pads) True cs)
      else case std_b64_value c of
        None \<Rightarrow> None
      | Some v \<Rightarrow>
          if padded then None
          else if quad = 0 then strict_b64_scan 1 v 0 False cs
          else if quad = 1
          then map_option (Cons (left_bits * 4 + v div 16)) (strict_b64_scan 2 (v mod 16) 0 False cs)
          else if quad = 2
          then map_option (Cons (left_bits * 16 + v div 4)) (strict_b64_scan 3 (v mod 4) 0 False cs)
          else map_option (Cons (left_bits * 64 + v)) (strict_b64_scan 0 0 0 False cs))"

definition strict_b64decode :: "string \<Rightarrow> nat list option" where
  "strict_b64decode s = (if py_startswith ''='' s then None else strict_b64_scan 0 0 0 False s)"

text \<open>\<open>raw.split(",", 1)[1]\<close>.\<close>

definition after_comma :: "string \<Rightarrow> string" where
  "after_comma raw = drop 1 (dropWhile (\<lambda>c. c \<noteq> CHR '','') raw)"

definition decode_image_payload :: "'a post_body_scheme \<Rightarrow> nat list \<times> string \<times> string \<times> string" where
  "decode_image_payload b =
     (let raw0 = py_strip (or_default (pb_image_base64 b) []) in
      if raw0 = [] then ([], [], [], [])
      else let
        raw = (if CHR '','' \<in> set raw0 \<and> py_startswith ''data:'' (py_lower raw0)
          then after_comma raw0 else raw0);
        media_type = normalize_image_media_type (pb_image_media_type b)
      in if media_type = [] then ([], [], [], ''unsupported_image_type'')
         else (case strict_b64decode raw of
           None \<Rightarrow> ([], [], [], ''invalid_image_base64'')
         | Some image_bytes \<Rightarrow>
             if image_bytes = [] then ([], [], [], ''missing_image'')
             else if length image_bytes > 10 * 1024 * 1024 then ([], [], [], ''image_too_large'')
             else (image_bytes, media_type, normalize_image_filename (pb_image_filename b) media_type, [])))"

record post_content =
  pc_image_bytes :: "nat list"
  pc_media_type :: string
  pc_filename :: string
  pc_image_url :: string
  pc_message :: string
  pc_page_id :: string
  pc_error :: string

definition post_action_slug :: "post_content \<Rightarrow> string" where
  "post_action_slug c = (if pc_image_bytes c \<noteq> [] \<or> pc_image_url c \<noteq> []
     then ''FACEBOOK_CREATE_PHOTO_POST'' else ''FACEBOOK_CREATE_POST'')"

definition post_content_of :: "'a post_body_scheme \<Rightarrow> post_content" where
  "post_content_of b =
     (let (image_bytes, media_type, filename, image_error) = decode_image_payload b;
          message = normalize_post_message (pb_message b);
          page_id = normalize_page_id (pb_page_id b)
      in \<lparr> pc_image_bytes = image_bytes, pc_media_type = media_type, pc_filename = filename,
           pc_image_url = normalize_image_url (or_default (pb_image_url b) []),
           pc_message = message, pc_page_id = page_id,
           pc_error = (if image_error \<noteq> [] then image_error
             else if page_id = [] then ''missing_page_id''
             else if message = [] then ''missing_message'' else []) \<rparr>)"

definition post_argument_keys :: "post_content \<Rightarrow> string list" where
  "post_argument_keys c =
     (if post_action_slug c = ''FACEBOOK_CREATE_PHOTO_POST'' then
        if pc_image_bytes c \<noteq> [] then [''page_id'', ''message'', ''photo'', ''published'']
        else if pc_image_url c \<noteq> [] then [''page_id'', ''message'', ''url'', ''published'']
        else [''page_id'', ''message'', ''published'']
      else [''page_id'', ''message'', ''published''])"

definition post_operation :: "string \<Rightarrow> post_content \<Rightarrow> string \<Rightarrow> operation" where
  "post_operation slug c ref =
     \<lparr> op_provider_slug = slug, op_action_slug = post_action_slug c, op_connection_ref = ref,
       op_page_id = pc_page_id c, op_message = pc_message c,
       op_image_sha256 = image_sha256 (pc_image_bytes c), op_image_url = pc_image_url c \<rparr>"

section \<open>State\<close>

text \<open>The world of the executor with the approval table; the ledger's database calls are counted, and each
  one may fail.\<close>

record post_world =
  pw_base :: world
  pw_approvals :: approval_table
  pw_ledger_calls :: nat
  pw_ledger_up :: "nat \<Rightarrow> bool"

definition on_base :: "(world \<Rightarrow> world) \<Rightarrow> post_world \<Rightarrow> post_world" where
  "on_base f w = w\<lparr>pw_base := f (pw_base w)\<rparr>"

definition load_selected_connection ::
    "pydict \<Rightarrow> int \<Rightarrow> provider_entry \<Rightarrow> auth_user \<Rightarrow> string \<Rightarrow> world \<Rightarrow>
     connection_record option \<times> string \<times> string \<times> world" where
  "load_selected_connection storage clock entry user ref_text w =
     (let ref = api_connection_ref (Some ref_text);
          safe_id = resolve_provider_connection_id storage user (pe_slug entry) ref w;
          w1 = api_expire_stale clock storage user (pe_slug entry) w;
          connection = (if connection_storage_ready storage \<and> safe_id \<noteq> []
            then get_connection_record (db_up w1) (owner_organization_id user) (us_user_id user)
              (pe_slug entry) (Some safe_id) (wd_connections w1)
            else None)
      in (connection, ref, safe_id, w1))"

definition operation_approval_storage_ready :: "pydict \<Rightarrow> bool" where
  "operation_approval_storage_ready storage =
     (get_flag storage ''persistent'' \<and> get_flag storage ''audit_ledger_ready''
      \<and> get_flag storage ''operation_approval_table_ready'')"

definition approval_shape :: "post_content \<Rightarrow> string \<Rightarrow> pydict" where
  "approval_shape c ref =
     [(''selected_connection_present'', PBool (ref \<noteq> [])),
      (''page_selected'', PBool (pc_page_id c \<noteq> [])),
      (''message_length'', PInt (int (length (pc_message c)))),
      (''image_present'', PBool (pc_image_bytes c \<noteq> [] \<or> pc_image_url c \<noteq> [])),
      (''image_size_bytes'', PInt (int (length (pc_image_bytes c)))),
      (''image_url_present'', PBool (pc_image_url c \<noteq> []))]"

definition record_post_approval ::
    "pydict \<Rightarrow> int \<Rightarrow> auth_user \<Rightarrow> operation \<Rightarrow> post_content \<Rightarrow> post_world \<Rightarrow>
     approval_decision \<times> post_world" where
  "record_post_approval storage clock user opn c w =
     (let provider = op_provider_slug opn; action = op_action_slug opn;
          evidence = preview_evidence_id opn; fingerprint = build_operation_fingerprint opn;
          shape = approval_shape c (op_connection_ref opn);
          unavailable = unavailable_decision provider action evidence fingerprint
      in if \<not> operation_approval_storage_ready storage then (unavailable, w)
         else let
           (saved, table) = append_operation_approval_record (pw_ledger_up w (pw_ledger_calls w)) clock
             (build_operation_approval_record provider action evidence fingerprint 1800 (Some shape) clock)
             (owner_organization_id user) (us_user_id user) (pw_approvals w);
           w1 = w\<lparr>pw_approvals := table, pw_ledger_calls := pw_ledger_calls w + 1\<rparr>
         in if \<not> saved then (unavailable, w1)
            else (\<lparr> od_status = APending, od_reason = PreviewRecorded, od_provider_slug = provider,
                od_action_slug = action, od_preview_evidence_id_present = (evidence \<noteq> []),
                od_request_fingerprint_present = (fingerprint \<noteq> []), od_persistent = True,
                od_consumed = False, od_blocked = False, od_metadata = shape \<rparr>, w1))"

definition consume_post_approval ::
    "pydict \<Rightarrow> int \<Rightarrow> auth_user \<Rightarrow> operation \<Rightarrow> string \<Rightarrow> post_world \<Rightarrow> approval_decision \<times> post_world" where
  "consume_post_approval storage clock user opn evidence w =
     (let provider = op_provider_slug opn; action = op_action_slug opn;
          fingerprint = build_operation_fingerprint opn
      in if \<not> operation_approval_storage_ready storage
         then (unavailable_decision provider action evidence fingerprint, w)
         else let
           (decision, table) = consume_operation_approval_record (pw_ledger_up w (pw_ledger_calls w)) clock
             \<lparr> cq_preview_evidence_id = evidence, cq_request_fingerprint = fingerprint,
               cq_organization_id = owner_organization_id user, cq_user_id = us_user_id user,
               cq_provider_slug = provider, cq_action_slug = action \<rparr> (pw_approvals w)
         in (decision, w\<lparr>pw_approvals := table, pw_ledger_calls := pw_ledger_calls w + 1\<rparr>))"

section \<open>The preview route\<close>

definition post_validation_payload :: "string \<Rightarrow> pydict" where
  "post_validation_payload reason =
     [(''version'', PStr ''wiii_connect_facebook_post_validation.v1''),
      (''status'', PStr ''validation_failed''), (''reason'', PStr (safe_surface reason)),
      (''provider_slug'', PStr ''facebook''), (''gateway'', PNone), (''execution'', PNone)]"

definition opt_dict :: "pydict option \<Rightarrow> pyval" where
  "opt_dict d = (case d of None \<Rightarrow> PNone | Some x \<Rightarrow> PDict x)"

definition post_gateway_payload ::
    "provider_entry \<Rightarrow> string \<Rightarrow> gateway_decision \<Rightarrow> pydict \<Rightarrow> pydict option \<Rightarrow> pydict option \<Rightarrow>
     string list \<Rightarrow> pydict option \<Rightarrow> pydict" where
  "post_gateway_payload entry reason gateway storage schema upload missing approval =
     [(''version'', PStr ''wiii_connect_facebook_post_apply.v1''),
      (''status'', PStr (safe_surface ''blocked'')), (''reason'', PStr (safe_surface reason)),
      (''provider_slug'', PStr (pe_slug entry)),
      (''gateway'', PDict (gateway_to_public_metadata gateway)), (''schema'', opt_dict schema),
      (''upload'', opt_dict upload), (''execution'', PNone), (''storage'', PDict storage)]
     @ (case approval of None \<Rightarrow> [] | Some d \<Rightarrow> [(''approval_ledger'', PDict d)])
     @ (if missing = [] then [] else [(''missing_argument_keys'', str_list missing)])"

text \<open>The gateway arguments of both routes differ in the request only.\<close>

definition post_gateway ::
    "composio_config \<Rightarrow> provider_entry \<Rightarrow> connection_record option \<Rightarrow> exec_request \<Rightarrow> pydict \<Rightarrow> string \<Rightarrow>
     gateway_decision" where
  "post_gateway config entry connection request storage ref =
     decide_execution_gateway
       \<lparr> ga_entry = entry, ga_connection = connection, ga_request = request,
         ga_adapter = Some (composio_capability config),
         ga_ledger = Some [(''persistent'', PBool (audit_persistent storage))],
         ga_require_persistent_audit = True,
         ga_connection_selection_required = (ref = []),
         ga_scope_policy = Some (scope_policy_for_provider_entry entry) \<rparr>"

definition preview_request :: "provider_entry \<Rightarrow> post_content \<Rightarrow> string option \<Rightarrow> exec_request" where
  "preview_request entry c request_id =
     \<lparr> xr_provider_slug = pe_slug entry, xr_action_slug = post_action_slug c,
       xr_path = ''external_app_action'', xr_mutation = Preview, xr_approval_token_present = False,
       xr_preview_evidence_id = None, xr_preview_evidence_required = False,
       xr_argument_keys = post_argument_keys c, xr_request_id = or_default request_id [] \<rparr>"

definition preview_payload ::
    "provider_entry \<Rightarrow> post_content \<Rightarrow> string \<Rightarrow> string \<Rightarrow> gateway_decision \<Rightarrow> approval_decision \<Rightarrow>
     pydict \<Rightarrow> pydict" where
  "preview_payload entry c evidence token gateway approval storage =
     [(''version'', PStr ''wiii_connect_facebook_post_preview.v1''),
      (''status'', PStr ''ready''), (''reason'', PStr ''preview_ready''),
      (''provider_slug'', PStr (pe_slug entry)), (''action_slug'', PStr (post_action_slug c)),
      (''preview_evidence_id'', PStr evidence), (''approval_token'', PStr token),
      (''preview'', PDict
        [(''page_id'', PStr (pc_page_id c)), (''message'', PStr (pc_message c)),
         (''image_present'', PBool (pc_image_bytes c \<noteq> [] \<or> pc_image_url c \<noteq> [])),
         (''image_media_type'', PStr (pc_media_type c)), (''image_filename'', PStr (pc_filename c)),
         (''image_url_present'', PBool (pc_image_url c \<noteq> []))]),
      (''gateway'', PDict (gateway_to_public_metadata gateway)),
      (''approval_ledger'', PDict (approval_decision_metadata approval)),
      (''storage'', PDict storage)]"

text \<open>The first checks of both routes: only Facebook has the two-step post.\<close>

definition post_entry :: "string \<Rightarrow> api_error + provider_entry" where
  "post_entry slug =
     (case get_provider_entry slug of
        None \<Rightarrow> Inl (HttpError 404 ''unknown_wiii_connect_provider'')
      | Some entry \<Rightarrow> if pe_slug entry \<noteq> ''facebook''
          then Inl (HttpError 404 ''unsupported_provider_post'') else Inr entry)"

text \<open>The arguments of a route that do not come from its body: settings, the storage probe, the clock in
  microseconds and as text, the nonce, the signing key, the request id and the user.\<close>

record post_env =
  en_config :: composio_config
  en_probe :: storage_probe
  en_clock :: int
  en_now :: string
  en_nonce :: string
  en_secret :: string
  en_request_id :: "string option"
  en_user :: auth_user

definition env_storage :: "post_env \<Rightarrow> pydict" where
  "env_storage n = storage_status_metadata (storage_status_of (en_probe n))"

definition preview_post_route ::
    "post_env \<Rightarrow> string \<Rightarrow> 'a post_body_scheme \<Rightarrow> post_world \<Rightarrow> (api_error + pydict) \<times> post_world" where
  "preview_post_route n slug b w =
     (case post_entry slug of
        Inl e \<Rightarrow> (Inl e, w)
      | Inr entry0 \<Rightarrow> let
          entry = composio_execution_enabled_entry entry0 (en_config n);
          c = post_content_of b
        in if pc_error c \<noteq> [] then (Inr (post_validation_payload (pc_error c)), w)
        else let
          storage = env_storage n;
          (connection, ref, safe_id, base) = load_selected_connection storage (en_clock n) entry (en_user n)
            (pb_connection_ref b) (pw_base w);
          request = preview_request entry c (en_request_id n);
          gateway = post_gateway (en_config n) entry connection request storage ref;
          opn = post_operation (pe_slug entry) c ref;
          evidence = preview_evidence_id opn;
          w1 = w\<lparr>pw_base := api_append_execution_audit (en_now n) gateway request storage (en_user n)
            [(''surface'', PStr (pb_surface b)), (''stage'', PStr ''preview''),
             (''connection_ref_present'', PBool (ref \<noteq> [])),
             (''connection_id_present'', PBool (safe_id \<noteq> [])),
             (''connection_found'', PBool (connection \<noteq> None)),
             (''message_length'', PInt (int (length (pc_message c)))),
             (''image_present'', PBool (pc_image_bytes c \<noteq> [] \<or> pc_image_url c \<noteq> [])),
             (''image_size_bytes'', PInt (int (length (pc_image_bytes c)))),
             (''preview_evidence_id_present'', PBool (evidence \<noteq> []))] base\<rparr>
        in if \<not> gateway_allowed gateway
           then (Inr (post_gateway_payload entry (deny_reason_name (xd_reason (gd_decision gateway)))
               gateway storage None None [] None), w1)
           else let
             (approval, w2) = record_post_approval storage (en_clock n) (en_user n) opn c w1;
             token = build_approval_token opn (en_secret n) (en_clock n div 1000000) (en_nonce n)
           in (Inr (preview_payload entry c evidence token gateway approval storage), w2))"

section \<open>The apply route, up to its gateway decision\<close>

definition apply_request :: "provider_entry \<Rightarrow> post_content \<Rightarrow> string \<Rightarrow> string option \<Rightarrow> exec_request" where
  "apply_request entry c evidence request_id =
     \<lparr> xr_provider_slug = pe_slug entry, xr_action_slug = post_action_slug c,
       xr_path = ''external_app_action'', xr_mutation = Apply, xr_approval_token_present = True,
       xr_preview_evidence_id = Some evidence, xr_preview_evidence_required = True,
       xr_argument_keys = post_argument_keys c, xr_request_id = or_default request_id [] \<rparr>"

text \<open>What the route still holds when it awaits the provider for the first time.\<close>

record post_job =
  jb_env :: post_env
  jb_entry :: provider_entry
  jb_content :: post_content
  jb_connection :: connection_record
  jb_request :: exec_request
  jb_gateway :: gateway_decision
  jb_storage :: pydict
  jb_approval :: approval_decision
  jb_audit_base :: pydict

datatype post_failure = PostHttpError api_error | PostRaised token_error

datatype post_reply = Answer pydict | Await post_job

definition token_refused_payload :: "provider_entry \<Rightarrow> token_check \<Rightarrow> pydict" where
  "token_refused_payload entry check =
     [(''version'', PStr ''wiii_connect_facebook_post_apply.v1''), (''status'', PStr ''blocked''),
      (''reason'', PStr (tk_reason check)), (''provider_slug'', PStr (pe_slug entry)),
      (''token'', PDict (token_check_metadata check)), (''execution'', PNone)]"

definition approval_blocked_payload ::
    "provider_entry \<Rightarrow> post_content \<Rightarrow> token_check \<Rightarrow> approval_decision \<Rightarrow> pydict \<Rightarrow> pydict" where
  "approval_blocked_payload entry c check approval storage =
     [(''version'', PStr ''wiii_connect_facebook_post_apply.v1''), (''status'', PStr ''blocked''),
      (''reason'', PStr (approval_reason_name (od_reason approval))),
      (''provider_slug'', PStr (pe_slug entry)), (''action_slug'', PStr (post_action_slug c)),
      (''token'', PDict (token_check_metadata check)),
      (''approval_ledger'', PDict (approval_decision_metadata approval)),
      (''gateway'', PNone), (''schema'', PNone), (''upload'', PNone), (''execution'', PNone),
      (''storage'', PDict storage)]"

definition apply_begin ::
    "(nat list \<Rightarrow> pyval option) \<Rightarrow> (string \<Rightarrow> int option) \<Rightarrow> post_env \<Rightarrow> string \<Rightarrow> apply_body \<Rightarrow> post_world \<Rightarrow>
     (post_failure + post_reply) \<times> post_world" where
  "apply_begin loads ints n slug b w =
     (case post_entry slug of
        Inl e \<Rightarrow> (Inl (PostHttpError e), w)
      | Inr entry0 \<Rightarrow> let
          entry = composio_execution_enabled_entry entry0 (en_config n);
          c = post_content_of b
        in if pc_error c \<noteq> [] then (Inr (Answer (post_validation_payload (pc_error c))), w)
        else case verify_approval_token loads ints (pb_approval_token b)
            (post_operation (pe_slug entry) c (api_connection_ref (Some (pb_connection_ref b))))
            (en_secret n) (or_default (safe_public_id (Some (pb_preview_evidence_id b))) [])
            (en_clock n div 1000000) 1800 of
          Inl e \<Rightarrow> (Inl (PostRaised e), w)
        | Inr check \<Rightarrow>
            if \<not> tk_valid check then (Inr (Answer (token_refused_payload entry check)), w)
            else let
              storage = env_storage n;
              (connection, ref, safe_id, base) = load_selected_connection storage (en_clock n) entry
                (en_user n) (pb_connection_ref b) (pw_base w);
              (approval, w1) = consume_post_approval storage (en_clock n) (en_user n)
                (post_operation (pe_slug entry) c ref) (tk_preview_evidence_id check)
                (w\<lparr>pw_base := base\<rparr>)
            in if od_blocked approval
               then (Inr (Answer (approval_blocked_payload entry c check approval storage)), w1)
               else let
                 request = apply_request entry c (tk_preview_evidence_id check) (en_request_id n);
                 gateway = post_gateway (en_config n) entry connection request storage ref;
                 audit_base =
                   [(''surface'', PStr (pb_surface b)),
                    (''connection_ref_present'', PBool (ref \<noteq> [])),
                    (''connection_id_present'', PBool (safe_id \<noteq> [])),
                    (''connection_found'', PBool (connection \<noteq> None)),
                    (''preview_evidence_id_present'', PBool (tk_preview_evidence_id check \<noteq> [])),
                    (''approval_token_present'', PBool True),
                    (''message_length'', PInt (int (length (pc_message c)))),
                    (''image_present'', PBool (pc_image_bytes c \<noteq> [] \<or> pc_image_url c \<noteq> [])),
                    (''image_size_bytes'', PInt (int (length (pc_image_bytes c)))),
                    (''approval_ledger'', PDict (approval_decision_metadata approval))]
               in (case connection of
                     Some conn \<Rightarrow> if gateway_allowed gateway
                       then (Inr (Await \<lparr> jb_env = n, jb_entry = entry, jb_content = c,
                         jb_connection = conn, jb_request = request, jb_gateway = gateway,
                         jb_storage = storage, jb_approval = approval, jb_audit_base = audit_base \<rparr>), w1)
                       else (Inr (Answer (post_gateway_payload entry
                           (deny_reason_name (xd_reason (gd_decision gateway))) gateway storage None None []
                           (Some (approval_decision_metadata approval)))),
                         on_base (api_append_execution_audit (en_now n) gateway request storage (en_user n)
                           (dict_merge audit_base [(''stage'', PStr ''gateway'')])) w1)
                   | None \<Rightarrow> (Inr (Answer (post_gateway_payload entry
                           (deny_reason_name (xd_reason (gd_decision gateway))) gateway storage None None []
                           (Some (approval_decision_metadata approval)))),
                         on_base (api_append_execution_audit (en_now n) gateway request storage (en_user n)
                           (dict_merge audit_base [(''stage'', PStr ''gateway'')])) w1)))"

section \<open>The apply route, from its first await on\<close>

definition api_missing_argument_keys :: "string list \<Rightarrow> pydict \<Rightarrow> string list" where
  "api_missing_argument_keys required_keys arguments =
     (let provided = set (map py_strip (dict_keys arguments)) in
      take 50 (append_new [] (map safe_public_argument_key
        (filter (\<lambda>key. key \<noteq> [] \<and> key \<notin> provided) (map py_strip required_keys)))))"

definition post_arguments :: "post_content \<Rightarrow> pydict" where
  "post_arguments c = [(''page_id'', PStr (pc_page_id c)), (''message'', PStr (pc_message c)),
     (''published'', PBool True)]"

definition apply_finish ::
    "http_client \<Rightarrow> post_job \<Rightarrow> world \<Rightarrow> pydict \<times> world" where
  "apply_finish client j w =
     (let n = jb_env j; c = jb_content j; entry = jb_entry j; request = jb_request j;
          gateway = jb_gateway j; storage = jb_storage j;
          approval = approval_decision_metadata (jb_approval j);
          action = post_action_slug c;
          audit = (\<lambda>status reason metadata. append_execution_stage_audit (en_now n) gateway request storage
            (en_user n) status reason (dict_merge (jb_audit_base j) metadata));
          (schema, requests) = verify_tool_schema client (en_config n) (pe_slug entry) action
            (xr_request_id request);
          schema_md = tool_schema_metadata schema;
          w1 = send_requests requests w
      in if \<not> ts_ready schema
         then (post_gateway_payload entry (ts_reason schema) gateway storage (Some schema_md) None []
               (Some approval),
             audit ''blocked'' (ts_reason schema)
               [(''stage'', PStr ''schema''), (''schema'', PDict schema_md)] w1)
         else let
           (upload, sent) =
             (if pc_image_bytes c = [] then (None, [])
              else map_prod Some id (stage_file_upload client (en_config n) (pe_slug entry) action
                (pc_filename c) (pc_media_type c) (pc_image_bytes c) (xr_request_id request)));
           upload_md = map_option file_upload_metadata upload;
           w2 = send_requests sent w1
         in if (case upload of None \<Rightarrow> False | Some u \<Rightarrow> \<not> fu_ready u)
            then (post_gateway_payload entry (fu_reason (the upload)) gateway storage (Some schema_md)
                  upload_md [] (Some approval),
                audit ''blocked'' (fu_reason (the upload))
                  [(''stage'', PStr ''file_upload''), (''upload'', opt_dict upload_md)] w2)
            else let
              arguments = post_arguments c
                @ (case upload of Some u \<Rightarrow> [(''photo'', PDict (fu_file_descriptor u))]
                   | None \<Rightarrow> if pc_image_url c \<noteq> [] then [(''url'', PStr (pc_image_url c))] else []);
              missing = api_missing_argument_keys (ts_required_argument_keys schema) arguments
            in if missing \<noteq> []
               then (post_gateway_payload entry ''missing_required_arguments'' gateway storage
                     (Some schema_md) upload_md missing (Some approval),
                   audit ''blocked'' ''missing_required_arguments''
                     [(''stage'', PStr ''schema''), (''schema'', PDict schema_md),
                      (''missing_required_arguments'', str_list missing)] w2)
               else let
                 w3 = audit ''started'' ''provider_execution_started''
                   [(''stage'', PStr ''execute''), (''schema'', PDict schema_md),
                    (''upload'', opt_dict upload_md)] w2;
                 (execution, posted) = execute_tool client (en_config n) (pe_slug entry) action
                   (composio_external_user_id (us_organization_id (en_user n)) (us_user_id (en_user n)))
                   (cr_connection_id (jb_connection j)) arguments (xr_request_id request);
                 w4 = send_requests posted w3;
                 w5 = audit (execute_status execution) (ex_reason execution)
                   [(''stage'', PStr ''execute_result''), (''schema'', PDict schema_md),
                    (''upload'', opt_dict upload_md),
                    (''execution'', PDict (execute_result_metadata execution))] w4
               in ([(''version'', PStr ''wiii_connect_facebook_post_apply.v1''),
                    (''status'', PStr (execute_status execution)),
                    (''reason'', PStr (ex_reason execution)),
                    (''provider_slug'', PStr (pe_slug entry)), (''action_slug'', PStr action),
                    (''gateway'', PDict (gateway_to_public_metadata gateway)),
                    (''schema'', PDict schema_md), (''upload'', opt_dict upload_md),
                    (''execution'', PDict (execute_result_metadata execution)),
                    (''approval_ledger'', PDict approval), (''storage'', PDict storage)], w5))"

definition apply_post_route ::
    "http_client \<Rightarrow> (nat list \<Rightarrow> pyval option) \<Rightarrow> (string \<Rightarrow> int option) \<Rightarrow> post_env \<Rightarrow> string \<Rightarrow> apply_body \<Rightarrow>
     post_world \<Rightarrow> (post_failure + pydict) \<times> post_world" where
  "apply_post_route client loads ints n slug b w =
     (case apply_begin loads ints n slug b w of
        (Inl e, w1) \<Rightarrow> (Inl e, w1)
      | (Inr (Answer d), w1) \<Rightarrow> (Inr d, w1)
      | (Inr (Await j), w1) \<Rightarrow>
          (let (d, base) = apply_finish client j (pw_base w1) in (Inr d, w1\<lparr>pw_base := base\<rparr>)))"

section \<open>Published posts\<close>

text \<open>The requests that execute a tool for a connected account; a file upload is a POST too, but not one of
  these.\<close>

definition is_execution :: "http_request \<Rightarrow> bool" where
  "is_execution q = (case q of HttpPost u d h \<Rightarrow> dict_get d ''connected_account_id'' \<noteq> None | _ \<Rightarrow> False)"

definition executions :: "run_event list \<Rightarrow> http_request list" where
  "executions es = filter is_execution (posts es)"

lemma executions_simps [simp]:
  "executions [] = []" "executions (es @ fs) = executions es @ executions fs"
  "executions (AuditAppend b r # es) = executions es"
  by (simp_all add: executions_def)

lemma executions_schema [simp]:
  "executions (map Request (snd (verify_tool_schema client c p s rid))) = []"
  by (simp add: executions_def verify_tool_schema_requests)

lemma executions_upload [simp]:
  "executions (map Request (snd (stage_file_upload client c p s f m bs rid))) = []"
  by (auto simp: executions_def stage_file_upload_def Let_def is_execution_def
      split: http_result.splits option.splits pyval.splits)

text \<open>The pieces of a run from the first await on.\<close>

definition job_schema :: "http_client \<Rightarrow> post_job \<Rightarrow> tool_schema" where
  "job_schema client j = fst (verify_tool_schema client (en_config (jb_env j)) (pe_slug (jb_entry j))
     (post_action_slug (jb_content j)) (xr_request_id (jb_request j)))"

definition job_upload :: "http_client \<Rightarrow> post_job \<Rightarrow> file_upload option" where
  "job_upload client j =
     (if pc_image_bytes (jb_content j) = [] then None
      else Some (fst (stage_file_upload client (en_config (jb_env j)) (pe_slug (jb_entry j))
        (post_action_slug (jb_content j)) (pc_filename (jb_content j)) (pc_media_type (jb_content j))
        (pc_image_bytes (jb_content j)) (xr_request_id (jb_request j)))))"

definition job_media :: "http_client \<Rightarrow> post_job \<Rightarrow> pydict" where
  "job_media client j =
     (case job_upload client j of
        Some u \<Rightarrow> [(''photo'', PDict (fu_file_descriptor u))]
      | None \<Rightarrow> if pc_image_url (jb_content j) \<noteq> [] then [(''url'', PStr (pc_image_url (jb_content j)))] else [])"

definition job_reaches_provider :: "http_client \<Rightarrow> post_job \<Rightarrow> bool" where
  "job_reaches_provider client j =
     (ts_ready (job_schema client j)
      \<and> (case job_upload client j of None \<Rightarrow> True | Some u \<Rightarrow> fu_ready u)
      \<and> api_missing_argument_keys (ts_required_argument_keys (job_schema client j))
          (post_arguments (jb_content j) @ job_media client j) = [])"

definition job_execution :: "http_client \<Rightarrow> post_job \<Rightarrow> http_request list" where
  "job_execution client j = snd (execute_tool client (en_config (jb_env j)) (pe_slug (jb_entry j))
     (post_action_slug (jb_content j))
     (composio_external_user_id (us_organization_id (en_user (jb_env j))) (us_user_id (en_user (jb_env j))))
     (cr_connection_id (jb_connection j)) (post_arguments (jb_content j) @ job_media client j)
     (xr_request_id (jb_request j)))"

lemma executions_job [simp]: "executions (map Request (job_execution client j)) = job_execution client j"
  by (simp add: job_execution_def execute_tool_requests executions_def is_execution_def)

text \<open>The requests that stage the image of a job.\<close>

definition job_upload_requests :: "http_client \<Rightarrow> post_job \<Rightarrow> http_request list" where
  "job_upload_requests client j =
     (if pc_image_bytes (jb_content j) = [] then []
      else snd (stage_file_upload client (en_config (jb_env j)) (pe_slug (jb_entry j))
        (post_action_slug (jb_content j)) (pc_filename (jb_content j)) (pc_media_type (jb_content j))
        (pc_image_bytes (jb_content j)) (xr_request_id (jb_request j))))"

lemma quiet_around:
  "executions a = [] \<Longrightarrow> \<exists>before after. a @ e = before @ e @ after \<and> executions before = [] \<and> executions after = []"
  "executions a = [] \<Longrightarrow> \<exists>before after. a @ AuditAppend p r # e @ [AuditAppend p' r'] = before @ e @ after
     \<and> executions before = [] \<and> executions after = []"
  "executions a = [] \<Longrightarrow> executions (map Request u) = [] \<Longrightarrow> \<exists>before after. a @ map Request u @ e = before @ e @ after
     \<and> executions before = [] \<and> executions after = [] \<and> Request ` set u \<subseteq> set before"
  "executions a = [] \<Longrightarrow> executions (map Request u) = [] \<Longrightarrow> \<exists>before after. a @ map Request u @ AuditAppend p r # e @ [AuditAppend p' r'] = before @ e @ after
     \<and> executions before = [] \<and> executions after = [] \<and> Request ` set u \<subseteq> set before"
proof -
  assume a: "executions a = []"
  show "\<exists>before after. a @ e = before @ e @ after \<and> executions before = [] \<and> executions after = []"
    by (rule exI [of _ a], rule exI [of _ "[]"]) (simp add: a)
  show "\<exists>before after. a @ AuditAppend p r # e @ [AuditAppend p' r'] = before @ e @ after
     \<and> executions before = [] \<and> executions after = []"
    by (rule exI [of _ "a @ [AuditAppend p r]"], rule exI [of _ "[AuditAppend p' r']"]) (simp add: a)
  assume u: "executions (map Request u) = []"
  show "\<exists>before after. a @ map Request u @ e = before @ e @ after
     \<and> executions before = [] \<and> executions after = [] \<and> Request ` set u \<subseteq> set before"
    by (rule exI [of _ "a @ map Request u"], rule exI [of _ "[]"]) (simp add: a u)
  show "\<exists>before after. a @ map Request u @ AuditAppend p r # e @ [AuditAppend p' r'] = before @ e @ after
     \<and> executions before = [] \<and> executions after = [] \<and> Request ` set u \<subseteq> set before"
    by (rule exI [of _ "a @ map Request u @ [AuditAppend p r]"], rule exI [of _ "[AuditAppend p' r']"]) (auto simp: a u)
qed

text \<open>What a job adds to the trace: nothing that executes a tool, or the staging of the image and then the execution.\<close>

lemma apply_finish_events:
  "\<exists>es. wd_trace (snd (apply_finish client j w)) = wd_trace w @ es \<and>
     (if job_reaches_provider client j
      then \<exists>before after. es = before @ map Request (job_execution client j) @ after
        \<and> executions before = [] \<and> executions after = []
        \<and> set (map Request (job_upload_requests client j)) \<subseteq> set before
      else executions es = [])"
proof -
  note simps = apply_finish_def Let_def case_prod_unfold append_audit_trace
    job_reaches_provider_def job_schema_def job_upload_def job_media_def map_prod_def
  consider (schema) "\<not> ts_ready (job_schema client j)"
    | (upload) u where "ts_ready (job_schema client j)" "job_upload client j = Some u" "\<not> fu_ready u"
    | (missing) "ts_ready (job_schema client j)" "case job_upload client j of None \<Rightarrow> True | Some u \<Rightarrow> fu_ready u"
        "\<not> job_reaches_provider client j"
    | (sent) "job_reaches_provider client j"
    by (cases "job_upload client j") auto
  then show ?thesis
  proof cases
    case schema
    then show ?thesis by (simp add: simps)
  next
    case upload
    then show ?thesis by (auto simp: simps split: if_splits)
  next
    case missing
    then show ?thesis
      by (cases "pc_image_bytes (jb_content j) = []") (auto simp: simps executions_upload)
  next
    case sent
    then show ?thesis
      using executions_job [of client j]
      by (cases "audit_persistent (jb_storage j)"; cases "pc_image_bytes (jb_content j) = []")
        (auto simp: simps job_execution_def job_upload_requests_def executions_simps intro!: quiet_around)
  qed
qed

lemma job_execution_length: "length (job_execution client j) \<le> 1"
  by (simp add: job_execution_def execute_tool_requests)

section \<open>What the apply route lets through\<close>

lemma load_base [simp]:
  "wd_trace (snd (snd (snd (load_selected_connection st clock e u t w)))) = wd_trace w"
  "wd_up (snd (snd (snd (load_selected_connection st clock e u t w)))) = wd_up w"
  "fst (snd (load_selected_connection st clock e u t w)) = api_connection_ref (Some t)"
  by (simp_all add: load_selected_connection_def Let_def)

lemma api_audit_trace:
  "\<exists>es. wd_trace (api_append_execution_audit now g r st u m w) = wd_trace w @ es \<and> executions es = []"
  by (auto simp: api_append_execution_audit_def Let_def split: prod.splits)

text \<open>The operation an apply body names, and the outcome of its token.\<close>

definition apply_entry :: "post_env \<Rightarrow> provider_entry \<Rightarrow> provider_entry" where
  "apply_entry n entry0 = composio_execution_enabled_entry entry0 (en_config n)"

definition apply_operation :: "post_env \<Rightarrow> provider_entry \<Rightarrow> 'a post_body_scheme \<Rightarrow> operation" where
  "apply_operation n entry0 b = post_operation (pe_slug (apply_entry n entry0)) (post_content_of b)
     (api_connection_ref (Some (pb_connection_ref b)))"

definition apply_token ::
    "(nat list \<Rightarrow> pyval option) \<Rightarrow> (string \<Rightarrow> int option) \<Rightarrow> post_env \<Rightarrow> provider_entry \<Rightarrow> apply_body \<Rightarrow>
     token_error + token_check" where
  "apply_token loads ints n entry0 b = verify_approval_token loads ints (pb_approval_token b)
     (apply_operation n entry0 b) (en_secret n)
     (or_default (safe_public_id (Some (pb_preview_evidence_id b))) []) (en_clock n div 1000000) 1800"

definition apply_approval ::
    "post_env \<Rightarrow> provider_entry \<Rightarrow> apply_body \<Rightarrow> token_check \<Rightarrow> post_world \<Rightarrow> approval_decision \<times> post_world" where
  "apply_approval n entry0 b check w = consume_post_approval (env_storage n) (en_clock n) (en_user n)
     (apply_operation n entry0 b) (tk_preview_evidence_id check) w"

lemma consume_post_base:
  "consume_post_approval st clock u opn ev (w\<lparr>pw_base := base\<rparr>)
    = map_prod id (\<lambda>w'. w'\<lparr>pw_base := base\<rparr>) (consume_post_approval st clock u opn ev w)"
  by (simp add: consume_post_approval_def Let_def case_prod_unfold)

lemma consume_post_pw_base [simp]:
  "pw_base (snd (consume_post_approval st clock u opn ev w)) = pw_base w"
  by (simp add: consume_post_approval_def Let_def case_prod_unfold)

text \<open>When the route gets as far as awaiting the provider.\<close>

lemma apply_begin_awaits:
  assumes "fst (apply_begin loads ints n slug b w) = Inr (Await j)"
  obtains entry0 check where
    "post_entry slug = Inr entry0" "pc_error (post_content_of b) = []"
    "apply_token loads ints n entry0 b = Inr check" "tk_valid check"
    "\<not> od_blocked (fst (apply_approval n entry0 b check w))"
    "jb_env j = n" "jb_entry j = apply_entry n entry0" "jb_content j = post_content_of b"
    "jb_storage j = env_storage n" "jb_approval j = fst (apply_approval n entry0 b check w)"
    "jb_request j = apply_request (apply_entry n entry0) (post_content_of b) (tk_preview_evidence_id check)
       (en_request_id n)"
    "gateway_allowed (post_gateway (en_config n) (apply_entry n entry0) (Some (jb_connection j))
       (jb_request j) (env_storage n) (api_connection_ref (Some (pb_connection_ref b))))"
    "pw_approvals (snd (apply_begin loads ints n slug b w))
       = pw_approvals (snd (apply_approval n entry0 b check w))"
    "wd_trace (pw_base (snd (apply_begin loads ints n slug b w))) = wd_trace (pw_base w)"
  using assms that
  by (fastforce simp: apply_begin_def Let_def case_prod_unfold apply_entry_def apply_operation_def
      apply_token_def apply_approval_def consume_post_base
      split: sum.splits if_splits option.splits)

lemma consume_post_cases:
  "\<not> od_blocked (fst (consume_post_approval st clock u opn ev w)) \<Longrightarrow>
     od_consumed (fst (consume_post_approval st clock u opn ev w))
     \<or> od_status (fst (consume_post_approval st clock u opn ev w)) = AUnavailable"
  by (auto simp: consume_post_approval_def consume_operation_approval_record_def unavailable_decision_def
      blocked_decision_def consumed_decision_def Let_def case_prod_unfold split: option.splits if_splits)

lemma post_gateway_allowed:
  assumes "gateway_allowed (post_gateway config entry (Some conn) r storage ref)"
  shows "conn_active conn" "scope_allows (cr_scopes conn) (xr_mutation r)" "audit_persistent storage" "ref \<noteq> []"
  using assms
  by (auto simp: post_gateway_def gateway_allowed_cases external_allowed_iff ga_audit_persistent_def
      ledger_persistent_def get_flag_def or_default_def)

lemma post_entry_facts:
  assumes "post_entry slug = Inr entry0"
  shows "entry0 \<in> set provider_registry" "pe_slug entry0 = ''facebook''"
    "pe_slug (apply_entry n entry0) = ''facebook''"
proof -
  have e: "get_provider_entry slug = Some entry0" "pe_slug entry0 = ''facebook''"
    using assms by (auto simp: post_entry_def split: option.splits if_splits)
  then show "entry0 \<in> set provider_registry" "pe_slug entry0 = ''facebook''"
    by (auto dest: get_provider_entry_Some)
  with registry_execution_entry(1) show "pe_slug (apply_entry n entry0) = ''facebook''"
    by (simp add: apply_entry_def)
qed

lemma facebook_slug: "normalize_provider_slug ''facebook'' = ''facebook''"
  by code_simp

lemma post_action_normal: "normalize_action_slug (post_action_slug c) = post_action_slug c"
proof -
  have "normalize_action_slug ''FACEBOOK_CREATE_PHOTO_POST'' = ''FACEBOOK_CREATE_PHOTO_POST''"
    "normalize_action_slug ''FACEBOOK_CREATE_POST'' = ''FACEBOOK_CREATE_POST''"
    by code_simp+
  then show ?thesis by (simp add: post_action_slug_def)
qed

text \<open>The events an apply request adds to the trace.\<close>

definition apply_events ::
    "http_client \<Rightarrow> (nat list \<Rightarrow> pyval option) \<Rightarrow> (string \<Rightarrow> int option) \<Rightarrow> post_env \<Rightarrow> string \<Rightarrow> apply_body \<Rightarrow>
     post_world \<Rightarrow> run_event list" where
  "apply_events client loads ints n slug b w = drop (length (wd_trace (pw_base w)))
     (wd_trace (pw_base (snd (apply_post_route client loads ints n slug b w))))"

lemma apply_begin_quiet:
  "\<exists>es. wd_trace (pw_base (snd (apply_begin loads ints n slug b w))) = wd_trace (pw_base w) @ es
     \<and> executions es = []"
  by (auto simp: apply_begin_def Let_def case_prod_unfold on_base_def consume_post_base
      intro: api_audit_trace [THEN exE] split: sum.splits option.splits)
    (metis api_audit_trace load_base(1) consume_post_pw_base)+

lemma apply_events_of_job:
  assumes "fst (apply_begin loads ints n slug b w) = Inr (Await j)"
  shows "if job_reaches_provider client j
    then \<exists>before after. apply_events client loads ints n slug b w = before @ map Request (job_execution client j) @ after
      \<and> executions before = [] \<and> executions after = []
      \<and> set (map Request (job_upload_requests client j)) \<subseteq> set before
    else executions (apply_events client loads ints n slug b w) = []"
proof -
  obtain w1 where run: "apply_begin loads ints n slug b w = (Inr (Await j), w1)" using assms by (metis prod.collapse)
  obtain es where es: "wd_trace (pw_base w1) = wd_trace (pw_base w) @ es" "executions es = []"
    using apply_begin_quiet [of loads ints n slug b w] run by auto
  obtain fs where fs: "wd_trace (snd (apply_finish client j (pw_base w1))) = wd_trace (pw_base w1) @ fs"
      "if job_reaches_provider client j
       then \<exists>before after. fs = before @ map Request (job_execution client j) @ after
         \<and> executions before = [] \<and> executions after = []
         \<and> set (map Request (job_upload_requests client j)) \<subseteq> set before
       else executions fs = []"
    using apply_finish_events by blast
  have all: "apply_events client loads ints n slug b w = es @ fs"
    using run es(1) fs(1) by (simp add: apply_events_def apply_post_route_def case_prod_unfold Let_def)
  show ?thesis
  proof (cases "job_reaches_provider client j")
    case True
    then obtain before after where "fs = before @ map Request (job_execution client j) @ after"
        "executions before = []" "executions after = []"
        "set (map Request (job_upload_requests client j)) \<subseteq> set before" using fs(2) by auto
    then have "apply_events client loads ints n slug b w = (es @ before) @ map Request (job_execution client j) @ after
        \<and> executions (es @ before) = [] \<and> executions after = []
        \<and> set (map Request (job_upload_requests client j)) \<subseteq> set (es @ before)"
      using all es(2) by auto
    with True show ?thesis by metis
  next
    case False
    then show ?thesis using all es(2) fs(2) by simp
  qed
qed

lemma apply_executions:
  "executions (apply_events client loads ints n slug b w) =
     (case fst (apply_begin loads ints n slug b w) of
        Inr (Await j) \<Rightarrow> if job_reaches_provider client j then job_execution client j else []
      | _ \<Rightarrow> [])"
proof (cases "\<exists>j. fst (apply_begin loads ints n slug b w) = Inr (Await j)")
  case True
  then obtain j where j: "fst (apply_begin loads ints n slug b w) = Inr (Await j)" by blast
  show ?thesis using apply_events_of_job [OF j, of client] j by (auto split: if_splits)
next
  case False
  obtain r w1 where run: "apply_begin loads ints n slug b w = (r, w1)" by fastforce
  obtain es where "wd_trace (pw_base w1) = wd_trace (pw_base w) @ es" "executions es = []"
    using apply_begin_quiet [of loads ints n slug b w] run by auto
  then show ?thesis
    using run False by (auto simp: apply_events_def apply_post_route_def split: sum.splits post_reply.splits)
qed

section \<open>The image of a post\<close>

text \<open>An image is staged when the provider was told the MD5 of exactly these bytes and answered with a key, the bytes
  were put to the address of the answer, if it names one, and the descriptor holds that key.\<close>

definition answered_ok :: "http_result \<Rightarrow> bool" where
  "answered_ok r = (case r of HttpResponse status body \<Rightarrow> 200 \<le> status \<and> status < 300 | TransportError \<Rightarrow> False)"

definition image_staged ::
    "http_client \<Rightarrow> composio_config \<Rightarrow> string \<Rightarrow> post_content \<Rightarrow> pydict \<Rightarrow> http_request list \<Rightarrow> bool" where
  "image_staged client config request_id c descriptor requests \<longleftrightarrow> (\<exists>data status.
     let name = composio_safe_filename (pc_filename c); mime = composio_safe_mimetype (pc_media_type c);
         announce = HttpPost (rstrip_slash (cx_base_url config) @ ''/api/v3/files/upload/request'')
           [(''toolkit_slug'', PStr ''facebook''), (''tool_slug'', PStr ''FACEBOOK_CREATE_PHOTO_POST''),
            (''filename'', PStr name), (''mimetype'', PStr mime), (''md5'', PStr (md5_hex (pc_image_bytes c)))]
           (provider_request_headers config request_id);
         key = first_key_text data [''key'', ''s3key'', ''s3Key''];
         address = first_key_text data [''new_presigned_url'', ''newPresignedUrl'', ''presigned_url'', ''presignedUrl''];
         put = HttpPut address (pc_image_bytes c) [(''Content-Type'', mime)]
     in client announce = HttpResponse status (Some (PDict data)) \<and> answered_ok (client announce) \<and> key \<noteq> []
        \<and> descriptor = [(''name'', PStr name), (''mimetype'', PStr mime), (''s3key'', PStr key)]
        \<and> (if address = [] then requests = [announce] else requests = [announce, put] \<and> answered_ok (client put)))"

text \<open>The media arguments of a post, and the requests that staged them: its image, or else its link, or else none.\<close>

definition media_of ::
    "http_client \<Rightarrow> composio_config \<Rightarrow> string \<Rightarrow> post_content \<Rightarrow> pydict \<Rightarrow> http_request list \<Rightarrow> bool" where
  "media_of client config request_id c media requests \<longleftrightarrow>
     (if pc_image_bytes c \<noteq> []
      then \<exists>d. media = [(''photo'', PDict d)] \<and> image_staged client config request_id c d requests
      else requests = [] \<and> media = (if pc_image_url c \<noteq> [] then [(''url'', PStr (pc_image_url c))] else []))"

text \<open>The bytes are those the body gives in base64, with or without the head of a data URL, at most ten megabytes of them.\<close>

definition image_given :: "string \<Rightarrow> nat list \<Rightarrow> bool" where
  "image_given base64 octets \<longleftrightarrow>
     (if py_strip base64 = [] then octets = []
      else octets \<noteq> [] \<and> length octets \<le> 10 * 1024 * 1024
        \<and> strict_b64decode (if py_startswith ''data:'' (py_lower (py_strip base64)) \<and> CHR '','' \<in> set (py_strip base64)
            then drop 1 (dropWhile (\<lambda>c. c \<noteq> CHR '','') (py_strip base64)) else py_strip base64) = Some octets)"

lemma content_image_given:
  assumes "pc_error (post_content_of b) = []"
  shows "image_given (or_default (pb_image_base64 b) []) (pc_image_bytes (post_content_of b))"
  using assms
  by (auto simp: post_content_of_def decode_image_payload_def image_given_def after_comma_def Let_def
      split: if_splits option.splits)

lemma post_action_of_image: "pc_image_bytes c \<noteq> [] \<Longrightarrow> post_action_slug c = ''FACEBOOK_CREATE_PHOTO_POST''"
  by (simp add: post_action_slug_def)

lemma staged_ready:
  assumes run: "stage_file_upload client config ''facebook'' (post_action_slug c) (pc_filename c) (pc_media_type c)
      (pc_image_bytes c) rid = (u, requests)" and ready: "fu_ready u" and image: "pc_image_bytes c \<noteq> []"
  shows "image_staged client config (composio_safe_request_id rid) c (fu_file_descriptor u) requests"
proof -
  define name mime where "name = composio_safe_filename (pc_filename c)" and "mime = composio_safe_mimetype (pc_media_type c)"
  define announce where "announce = HttpPost (rstrip_slash (cx_base_url config) @ ''/api/v3/files/upload/request'')
           [(''toolkit_slug'', PStr ''facebook''), (''tool_slug'', PStr ''FACEBOOK_CREATE_PHOTO_POST''),
            (''filename'', PStr name), (''mimetype'', PStr mime), (''md5'', PStr (md5_hex (pc_image_bytes c)))]
           (provider_request_headers config (composio_safe_request_id rid))"
  note run' = run [unfolded stage_file_upload_def Let_def facebook_slug post_action_normal,
      unfolded post_action_of_image [OF image],
      folded name_def mime_def, folded announce_def]
  note fold_spec = name_def [symmetric] mime_def [symmetric] announce_def [symmetric]
  obtain status data where got: "client announce = HttpResponse status (Some (PDict data))" "200 \<le> status" "status < 300"
    using run' ready by (cases "client announce") (auto split: if_splits option.splits pyval.splits)
  define key address where "key = first_key_text data [''key'', ''s3key'', ''s3Key'']"
    and "address = first_key_text data [''new_presigned_url'', ''newPresignedUrl'', ''presigned_url'', ''presignedUrl'']"
  note run'' = run' [unfolded got(1) http_result.case option.case pyval.case, folded key_def address_def]
  have key: "key \<noteq> []" using run'' ready by (auto split: if_splits)
  define put where "put = HttpPut address (pc_image_bytes c) [(''Content-Type'', mime)]"
  have descriptor: "fu_file_descriptor u = [(''name'', PStr name), (''mimetype'', PStr mime), (''s3key'', PStr key)]"
      "if address = [] then requests = [announce] else requests = [announce, put] \<and> answered_ok (client put)"
    using run'' [folded put_def] ready key got(2,3)
    by (auto simp: answered_ok_def split: if_splits http_result.splits)
  have "answered_ok (client announce)" using got by (simp add: answered_ok_def)
  with got key descriptor show ?thesis
    unfolding image_staged_def Let_def fold_spec
    by (intro exI [of _ data] exI [of _ status])
      (simp add: key_def [symmetric] address_def [symmetric] put_def [symmetric])
qed

lemma job_media_staged:
  assumes "job_reaches_provider client j" "pe_slug (jb_entry j) = ''facebook''"
  shows "media_of client (en_config (jb_env j)) (composio_safe_request_id (xr_request_id (jb_request j))) (jb_content j)
    (job_media client j) (job_upload_requests client j)"
  using assms staged_ready [OF prod.collapse [symmetric], of client "en_config (jb_env j)" "jb_content j" "xr_request_id (jb_request j)"]
  by (auto simp: job_reaches_provider_def media_of_def job_media_def job_upload_def job_upload_requests_def)

section \<open>Properties\<close>

text \<open>Property C3: a Facebook post leaves the backend only as it was approved: when the apply route executes a tool, it
  does so once, with the page and the message of its own body and its image, for an active connection of the
  caller that grants the apply scope, with an action the operator permits and a persistent audit ledger, and
  its token is a valid one for exactly this content; and the approval was consumed, unless the
  ledger could not be reached. The image is sent as the descriptor of a file staged before, in this request, from
  exactly the bytes of the body; the image is what the body's base64 text decodes to; without an image it is the link of the body, if there is one.\<close>

theorem apply_posts_approved_content:
  "executions (apply_events client loads ints n slug b w) = [] \<or>
   (\<exists>entry0 check conn a media staging before after.
      post_entry slug = Inr entry0 \<and> apply_token loads ints n entry0 b = Inr check \<and> tk_valid check
      \<and> (od_consumed (fst (apply_approval n entry0 b check w))
         \<or> od_status (fst (apply_approval n entry0 b check w)) = AUnavailable)
      \<and> conn_active conn \<and> sg_apply (cr_scopes conn) \<and> audit_persistent (env_storage n)
      \<and> operator_permits (en_config n) ''facebook'' a
      \<and> ca_slug a = (if media = [] then ''FACEBOOK_CREATE_POST'' else ''FACEBOOK_CREATE_PHOTO_POST'')
      \<and> image_given (or_default (pb_image_base64 b) []) (pc_image_bytes (post_content_of b))
      \<and> pc_image_url (post_content_of b) = normalize_image_url (or_default (pb_image_url b) [])
      \<and> media_of client (en_config n) (composio_safe_request_id (or_default (en_request_id n) [])) (post_content_of b)
           media staging
      \<and> set (map Request staging) \<subseteq> set before \<and> executions before = [] \<and> executions after = []
      \<and> apply_events client loads ints n slug b w = before @
        [Request (HttpPost (tool_url (en_config n) ''/tools/execute/'' (ca_slug a))
          [(''user_id'', PStr (composio_external_user_id (us_organization_id (en_user n))
              (us_user_id (en_user n)))),
           (''connected_account_id'', PStr (cr_connection_id conn)),
           (''arguments'', PDict ([(''page_id'', PStr (normalize_page_id (pb_page_id b))),
              (''message'', PStr (normalize_post_message (pb_message b))), (''published'', PBool True)] @ media))]
          (provider_request_headers (en_config n)
            (composio_safe_request_id (or_default (en_request_id n) []))))] @ after)"
proof (cases "\<exists>j. fst (apply_begin loads ints n slug b w) = Inr (Await j) \<and> job_execution client j \<noteq> []
    \<and> job_reaches_provider client j")
  case False
  then show ?thesis by (auto simp: apply_executions split: sum.splits post_reply.splits)
next
  case True
  then obtain j where j: "fst (apply_begin loads ints n slug b w) = Inr (Await j)"
      and sent: "job_execution client j \<noteq> []" "job_reaches_provider client j" by blast
  obtain entry0 check where e: "post_entry slug = Inr entry0"
      and check: "apply_token loads ints n entry0 b = Inr check" "tk_valid check"
      and valid: "pc_error (post_content_of b) = []"
      and free: "\<not> od_blocked (fst (apply_approval n entry0 b check w))"
      and job: "jb_env j = n" "jb_entry j = apply_entry n entry0" "jb_content j = post_content_of b"
        "jb_request j = apply_request (apply_entry n entry0) (post_content_of b)
           (tk_preview_evidence_id check) (en_request_id n)"
      and gate: "gateway_allowed (post_gateway (en_config n) (apply_entry n entry0) (Some (jb_connection j))
        (jb_request j) (env_storage n) (api_connection_ref (Some (pb_connection_ref b))))"
    using apply_begin_awaits [OF j] by metis
  note gated = post_gateway_allowed [OF gate]
  have approval: "od_consumed (fst (apply_approval n entry0 b check w))
      \<or> od_status (fst (apply_approval n entry0 b check w)) = AUnavailable"
    using consume_post_cases free unfolding apply_approval_def by blast
  have entry: "pe_slug (jb_entry j) = ''facebook''" and request: "xr_request_id (jb_request j) = or_default (en_request_id n) []"
    by (simp_all add: job post_entry_facts(3) [OF e] apply_request_def)
  obtain a where a: "operator_permits (en_config n) ''facebook'' a" "ca_slug a = post_action_slug (post_content_of b)"
    using sent(1) execute_gate_permits [of "en_config n" "''facebook''"]
    by (auto simp: job_execution_def execute_tool_requests job post_entry_facts(3) [OF e] facebook_slug
        post_action_normal split: if_splits)
  obtain before after where trace: "apply_events client loads ints n slug b w
        = before @ map Request (job_execution client j) @ after" "executions before = []" "executions after = []"
      "set (map Request (job_upload_requests client j)) \<subseteq> set before"
    using apply_events_of_job [OF j, of client] sent(2) by auto
  have arguments: "post_arguments (post_content_of b) = [(''page_id'', PStr (normalize_page_id (pb_page_id b))),
      (''message'', PStr (normalize_post_message (pb_message b))), (''published'', PBool True)]"
    by (simp add: post_arguments_def post_content_of_def case_prod_unfold Let_def)
  have "job_execution client j = [HttpPost (tool_url (en_config n) ''/tools/execute/'' (ca_slug a))
          [(''user_id'', PStr (composio_external_user_id (us_organization_id (en_user n)) (us_user_id (en_user n)))),
           (''connected_account_id'', PStr (cr_connection_id (jb_connection j))),
           (''arguments'', PDict ([(''page_id'', PStr (normalize_page_id (pb_page_id b))),
              (''message'', PStr (normalize_post_message (pb_message b))), (''published'', PBool True)] @ job_media client j))]
          (provider_request_headers (en_config n) (composio_safe_request_id (or_default (en_request_id n) [])))]"
    using sent(1) arguments
    by (auto simp: job_execution_def execute_tool_requests job post_entry_facts(3) [OF e] apply_request_def
        post_action_normal a(2) split: if_splits)
  moreover have "ca_slug a = (if job_media client j = [] then ''FACEBOOK_CREATE_POST'' else ''FACEBOOK_CREATE_PHOTO_POST'')"
    using a(2) by (auto simp: job_media_def job_upload_def job post_action_slug_def)
  moreover have "pc_image_url (post_content_of b) = normalize_image_url (or_default (pb_image_url b) [])"
    by (simp add: post_content_of_def case_prod_unfold Let_def)
  moreover note content_image_given [OF valid]
  moreover have "sg_apply (cr_scopes (jb_connection j))"
    using gated(2) by (simp add: job apply_request_def scope_allows.simps)
  ultimately show ?thesis
    using e check approval gated(1,3) a(1) job_media_staged [OF sent(2) entry] trace unfolding job request [unfolded job]
    by - (rule disjI2, rule exI [of _ entry0], rule exI [of _ check], rule exI [of _ "jb_connection j"], rule exI [of _ a],
        rule exI [of _ "job_media client j"], rule exI [of _ "job_upload_requests client j"], rule exI [of _ before],
        rule exI [of _ after], simp)
qed

end
