(* ===== verification/Post_Flow.thy ===== *)
theory Post_Flow
  imports Post_Routes
begin

text \<open>
  The two-step Facebook post as a whole: every interleaving of preview and apply requests, what a preview
  authorizes and for how long, and what is left of that when the approval ledger fails. The
  examples run the routes on concrete bodies, connections and settings.
\<close>

section \<open>Interleavings of the two routes\<close>

text \<open>
  A system of requests: the world, and the apply requests that await the provider. A preview and the
  first part of an apply run without interruption; a waiting apply may finish at any later point, in any
  order, or be cancelled. The label says what a step counts as.
\<close>

record post_system =
  sy_world :: post_world
  sy_jobs :: "post_job list"

datatype post_label = PreviewReady | Protected | Unprotected | Refused | Finished | Dropped

definition answered_ready :: "api_error + pydict \<Rightarrow> bool" where
  "answered_ready r = (case r of Inr d \<Rightarrow> dict_get d ''status'' = Some (PStr ''ready'') | Inl e \<Rightarrow> False)"

inductive post_step ::
    "http_client \<Rightarrow> (nat list \<Rightarrow> pyval option) \<Rightarrow> (string \<Rightarrow> int option) \<Rightarrow> post_system \<Rightarrow> post_label \<Rightarrow>
     post_system \<Rightarrow> bool"
  for client loads ints where
  preview: "preview_post_route n slug (b :: post_body) (sy_world s) = (r, w) \<Longrightarrow>
    post_step client loads ints s (if answered_ready r then PreviewReady else Refused) (s\<lparr>sy_world := w\<rparr>)"
| apply_answered: "apply_begin loads ints n slug b (sy_world s) = (r, w) \<Longrightarrow> \<nexists>j. r = Inr (Await j) \<Longrightarrow>
    post_step client loads ints s Refused (s\<lparr>sy_world := w\<rparr>)"
| apply_awaits: "apply_begin loads ints n slug b (sy_world s) = (Inr (Await j), w) \<Longrightarrow>
    post_step client loads ints s (if od_status (jb_approval j) = AUnavailable then Unprotected else Protected)
      (s\<lparr>sy_world := w, sy_jobs := sy_jobs s @ [j]\<rparr>)"
| finish: "i < length (sy_jobs s) \<Longrightarrow> apply_finish client (sy_jobs s ! i) (pw_base (sy_world s)) = (d, base) \<Longrightarrow>
    post_step client loads ints s Finished
      (s\<lparr>sy_world := (sy_world s)\<lparr>pw_base := base\<rparr>, sy_jobs := take i (sy_jobs s) @ drop (Suc i) (sy_jobs s)\<rparr>)"
| cancel: "i < length (sy_jobs s) \<Longrightarrow>
    post_step client loads ints s Dropped (s\<lparr>sy_jobs := take i (sy_jobs s) @ drop (Suc i) (sy_jobs s)\<rparr>)"

inductive post_run ::
    "http_client \<Rightarrow> (nat list \<Rightarrow> pyval option) \<Rightarrow> (string \<Rightarrow> int option) \<Rightarrow> post_system \<Rightarrow> post_label list \<Rightarrow>
     post_system \<Rightarrow> bool"
  for client loads ints where
  start: "post_run client loads ints s [] s"
| extend: "post_run client loads ints s ls t \<Longrightarrow> post_step client loads ints t l u \<Longrightarrow>
    post_run client loads ints s (ls @ [l]) u"

text \<open>What each part of the routes does to the pending approvals.\<close>

definition pending_keys :: "approval_table \<Rightarrow> approval_key set" where
  "pending_keys t = {k. approval_pending k t}"

lemma append_pending:
  "\<exists>k. pending_keys (snd (append_operation_approval_record up now r org user t)) \<subseteq> insert k (pending_keys t)"
proof (cases "normalize_owner org user")
  case None
  then show ?thesis by (auto simp: append_operation_approval_record_def)
next
  case (Some ou)
  let ?k = "(fst ou, snd ou, ar_provider_slug r, ar_preview_evidence_id r)"
  have "snd (append_operation_approval_record up now r org user t) k = t k" if "k \<noteq> ?k" for k
    using that Some append_frame [of up now r org user k t] by (cases ou) simp
  then have "approval_pending k (snd (append_operation_approval_record up now r org user t)) \<Longrightarrow>
      k \<noteq> ?k \<Longrightarrow> approval_pending k t" for k
    by (simp add: approval_pending_def)
  then show ?thesis unfolding pending_keys_def by blast
qed

lemma consume_pending:
  "pending_keys (snd (consume_operation_approval_record up now q t)) \<subseteq> pending_keys t"
  using consume_no_revival by (auto simp: pending_keys_def)

lemma consume_pending_less:
  assumes "od_consumed (fst (consume_operation_approval_record up now q t))"
  shows "pending_keys (snd (consume_operation_approval_record up now q t)) \<subset> pending_keys t"
proof -
  obtain k row where k: "consume_key q = Some k" "t k = Some row" "aw_status row = APending"
    using assms by (auto simp: consume_consumed_iff)
  have "k \<in> pending_keys t" using k by (simp add: pending_keys_def approval_pending_def)
  moreover have "k \<notin> pending_keys (snd (consume_operation_approval_record up now q t))"
    using consume_table [OF assms k(1,2)] by (simp add: pending_keys_def approval_pending_def)
  ultimately show ?thesis using consume_pending by blast
qed

lemma record_post_effect:
  "pw_base (snd (record_post_approval st clock u opn c w)) = pw_base w"
  "\<exists>k. pending_keys (pw_approvals (snd (record_post_approval st clock u opn c w)))
     \<subseteq> insert k (pending_keys (pw_approvals w))"
  using append_pending by (fastforce simp: record_post_approval_def Let_def case_prod_unfold)+

lemma blocked_not_ready: "safe_surface ''blocked'' = ''blocked''"
  by code_simp

text \<open>The ways a preview ends.\<close>

lemma preview_cases:
  assumes "preview_post_route n slug b w = (r, w')"
  obtains (same) "w' = w" "\<not> answered_ready r"
    | (denied) base es where "w' = w\<lparr>pw_base := base\<rparr>" "wd_trace base = wd_trace (pw_base w) @ es"
        "executions es = []" "\<not> answered_ready r"
    | (recorded) base es st clock u opn c where "wd_trace base = wd_trace (pw_base w) @ es" "executions es = []"
        "w' = snd (record_post_approval st clock u opn c (w\<lparr>pw_base := base\<rparr>))" "answered_ready r"
proof (cases "post_entry slug")
  case (Inl e)
  then show ?thesis using assms by (intro same) (auto simp: preview_post_route_def answered_ready_def)
next
  case (Inr entry0)
  let ?c = "post_content_of b" and ?entry = "composio_execution_enabled_entry entry0 (en_config n)"
  show ?thesis
  proof (cases "pc_error ?c = []")
    case False
    then show ?thesis
      using assms Inr by (intro same) (auto simp: preview_post_route_def Let_def answered_ready_def
        post_validation_payload_def)
  next
    case True
    obtain conn ref sid base where load: "load_selected_connection (env_storage n) (en_clock n) ?entry (en_user n)
        (pb_connection_ref b) (pw_base w) = (conn, ref, sid, base)"
      by (metis prod_cases4)
    have base: "wd_trace base = wd_trace (pw_base w)" using load load_base(1) by (metis snd_conv)
    let ?gateway = "post_gateway (en_config n) ?entry conn (preview_request ?entry ?c (en_request_id n))
      (env_storage n) ref"
    note run = preview_post_route_def [of n slug b w, unfolded Inr sum.case Let_def load prod.case]
    have audit: "\<exists>es. wd_trace A = wd_trace (pw_base w) @ es \<and> executions es = []"
      if "\<exists>now g r st u m. A = api_append_execution_audit now g r st u m base" for A
      using that api_audit_trace base by metis
    show ?thesis
    proof (cases "gateway_allowed ?gateway")
      case False
      have "\<exists>A now g q st u m. w' = w\<lparr>pw_base := A\<rparr> \<and> A = api_append_execution_audit now g q st u m base"
        using assms True False by (simp add: run) blast
      moreover have "\<not> answered_ready r"
        using assms True False
        by (auto simp: run answered_ready_def post_gateway_payload_def blocked_not_ready)
      ultimately show ?thesis using denied audit by metis
    next
      case allowed: True
      have "\<exists>A now g q st u m st' clock u' opn c. w' = snd (record_post_approval st' clock u' opn c (w\<lparr>pw_base := A\<rparr>))
          \<and> A = api_append_execution_audit now g q st u m base"
        using assms True allowed by (simp add: run case_prod_unfold) blast
      moreover have "answered_ready r"
        using assms True allowed by (auto simp: run answered_ready_def preview_payload_def case_prod_unfold)
      ultimately show ?thesis using recorded audit by metis
    qed
  qed
qed

lemma consume_post_pending:
  "pending_keys (pw_approvals (snd (consume_post_approval st clock u opn ev w))) \<subseteq> pending_keys (pw_approvals w)"
  "od_consumed (fst (consume_post_approval st clock u opn ev w)) \<Longrightarrow>
     pending_keys (pw_approvals (snd (consume_post_approval st clock u opn ev w))) \<subset> pending_keys (pw_approvals w)"
  by (simp_all add: consume_post_approval_def Let_def case_prod_unfold consume_pending consume_pending_less
      split: if_splits)

lemma apply_begin_pending:
  "pending_keys (pw_approvals (snd (apply_begin loads ints n slug b w))) \<subseteq> pending_keys (pw_approvals w)"
  by (auto simp: apply_begin_def Let_def case_prod_unfold on_base_def consume_post_base
      dest!: consume_post_pending(1) [THEN subsetD] split: sum.splits option.splits if_splits)

lemma apply_await_pending:
  assumes "fst (apply_begin loads ints n slug b w) = Inr (Await j)" "od_consumed (jb_approval j)"
  shows "pending_keys (pw_approvals (snd (apply_begin loads ints n slug b w))) \<subset> pending_keys (pw_approvals w)"
  using apply_begin_awaits [OF assms(1)] assms(2) consume_post_pending(2) unfolding apply_approval_def by metis

text \<open>What a system has published or may still publish.\<close>

definition published :: "post_system \<Rightarrow> nat" where
  "published s = length (executions (wd_trace (pw_base (sy_world s))))"

definition exposure :: "post_system \<Rightarrow> nat" where
  "exposure s = published s + length (sy_jobs s) + card (pending_keys (pw_approvals (sy_world s)))"

abbreviation pending_in :: "post_system \<Rightarrow> approval_key set" where
  "pending_in s \<equiv> pending_keys (pw_approvals (sy_world s))"

lemma card_insert_subset: "finite A \<Longrightarrow> B \<subseteq> insert k A \<Longrightarrow> finite B \<and> card B \<le> card A + 1"
  by (metis Suc_eq_plus1 card_insert_le_m1 card_mono card_insert_if diff_Suc_1 finite_insert finite_subset
      le_SucI order_trans order_refl)

lemma post_step_exposure:
  assumes "post_step client loads ints s l t" "finite (pending_in s)"
  shows "finite (pending_in t) \<and> exposure t \<le> exposure s + (if l = PreviewReady \<or> l = Unprotected then 1 else 0)"
  using assms(1)
proof cases
  case (preview n slug b r w)
  from preview(3) show ?thesis
  proof (cases rule: preview_cases)
    case same
    then show ?thesis using preview assms(2) by (simp add: exposure_def published_def)
  next
    case (denied base es)
    then show ?thesis using preview assms(2) by (simp add: exposure_def published_def)
  next
    case (recorded base es st clock u opn c)
    obtain k where "pending_in t \<subseteq> insert k (pending_in s)"
      using record_post_effect(2) [of st clock u opn c "(sy_world s)\<lparr>pw_base := base\<rparr>"] recorded(3) preview(2)
      by auto
    from card_insert_subset [OF assms(2) this] show ?thesis
      using recorded preview by (simp add: exposure_def published_def record_post_effect(1))
  qed
next
  case (apply_answered n slug b r w)
  have "pending_in t \<subseteq> pending_in s"
    using apply_begin_pending [of loads ints n slug b "sy_world s"] apply_answered by simp
  moreover obtain es where "wd_trace (pw_base w) = wd_trace (pw_base (sy_world s)) @ es" "executions es = []"
    using apply_begin_quiet [of loads ints n slug b "sy_world s"] apply_answered(3) by auto
  ultimately show ?thesis
    using apply_answered(2) assms(2) card_mono [of "pending_in s" "pending_in t"]
    by (auto simp: exposure_def published_def intro: finite_subset)
next
  case (apply_awaits n slug b j w)
  have await: "fst (apply_begin loads ints n slug b (sy_world s)) = Inr (Await j)"
    and w: "snd (apply_begin loads ints n slug b (sy_world s)) = w"
    using apply_awaits(3) by simp_all
  have quiet: "published t = published s"
    using apply_begin_awaits [OF await] w apply_awaits(2) by (metis published_def post_system.select_convs(1)
      post_system.surjective post_system.update_convs(1,2))
  have sub: "pending_in t \<subseteq> pending_in s"
    using apply_begin_pending [of loads ints n slug b "sy_world s"] w apply_awaits(2) by simp
  have consumed: "od_consumed (jb_approval j)" if "od_status (jb_approval j) \<noteq> AUnavailable"
    using apply_begin_awaits [OF await] consume_post_cases that unfolding apply_approval_def by metis
  show ?thesis
  proof (cases "od_status (jb_approval j) \<noteq> AUnavailable")
    case True
    note consumed [OF True]
    then have "pending_in t \<subset> pending_in s" using apply_await_pending [OF await] w apply_awaits(2) by simp
    then have "card (pending_in t) < card (pending_in s)" using assms(2) psubset_card_mono by blast
    then show ?thesis
      using quiet sub assms(2) apply_awaits(1,2) True finite_subset [OF sub] by (simp add: exposure_def)
  next
    case False
    then show ?thesis
      using quiet card_mono [OF assms(2) sub] finite_subset [OF sub assms(2)] apply_awaits(1,2)
      by (simp add: exposure_def)
  qed
next
  case (finish i d base)
  obtain es where es: "wd_trace base = wd_trace (pw_base (sy_world s)) @ es"
      "executions es = (if job_reaches_provider client (sy_jobs s ! i) then job_execution client (sy_jobs s ! i) else [])"
    using apply_finish_events [of client "sy_jobs s ! i" "pw_base (sy_world s)"] finish(4)
    by (cases "job_reaches_provider client (sy_jobs s ! i)") auto
  then have "published t \<le> published s + 1"
    using job_execution_length [of client "sy_jobs s ! i"] finish(2) by (simp add: published_def)
  moreover have "length (sy_jobs t) + 1 = length (sy_jobs s)" using finish(2,3) by simp
  ultimately show ?thesis using finish(2) assms(2) by (simp add: exposure_def)
next
  case (cancel i)
  then show ?thesis using assms(2) by (simp add: exposure_def published_def)
qed

lemma post_run_exposure:
  assumes "post_run client loads ints s ls t" "finite (pending_in s)"
  shows "finite (pending_in t)
    \<and> exposure t \<le> exposure s + count_list ls PreviewReady + count_list ls Unprotected"
  using assms
proof induction
  case (extend s ls t l u)
  then show ?case using post_step_exposure [OF extend.hyps(2)] by (cases l) (auto split: if_splits)
qed simp

text \<open>Property C5: however previews and applies of any users interleave, wherever they fail and whichever waiting requests
  finish, starting without pending approvals and waiting requests: the posts sent, together with those
  that may still be sent, are at most as many as the previews that were answered ready, plus the applies
  that went on without the ledger. No approval is worth two posts.\<close>

theorem posts_bounded_by_previews:
  assumes "post_run client loads ints s ls t" "sy_jobs s = []"
    and "\<nexists>k. approval_pending k (pw_approvals (sy_world s))"
  shows "published t + length (sy_jobs t)
    \<le> published s + count_list ls PreviewReady + count_list ls Unprotected"
proof -
  have "pending_in s = {}" using assms(3) by (simp add: pending_keys_def)
  then show ?thesis
    using post_run_exposure [OF assms(1)] assms(2) by (simp add: exposure_def)
qed

section \<open>From a preview to its apply\<close>

text \<open>A preview that is answered ready, and what it leaves behind.\<close>

lemma preview_ready:
  assumes "preview_post_route n slug b w = (Inr d, w1)" "answered_ready (Inr d)"
  obtains entry0 base gateway approval where
    "post_entry slug = Inr entry0" "pc_error (post_content_of b) = []"
    "d = preview_payload (apply_entry n entry0) (post_content_of b) (preview_evidence_id (apply_operation n entry0 b))
       (build_approval_token (apply_operation n entry0 b) (en_secret n) (en_clock n div 1000000) (en_nonce n))
       gateway approval (env_storage n)"
    "w1 = snd (record_post_approval (env_storage n) (en_clock n) (en_user n) (apply_operation n entry0 b)
       (post_content_of b) (w\<lparr>pw_base := base\<rparr>))"
proof (cases "post_entry slug")
  case (Inl e)
  then show ?thesis using assms by (simp add: preview_post_route_def)
next
  case (Inr entry0)
  let ?c = "post_content_of b" and ?entry = "composio_execution_enabled_entry entry0 (en_config n)"
  have valid: "pc_error ?c = []"
    using assms Inr
    by (auto simp: preview_post_route_def answered_ready_def post_validation_payload_def Let_def split: if_splits)
  obtain conn ref sid base where load: "load_selected_connection (env_storage n) (en_clock n) ?entry (en_user n)
      (pb_connection_ref b) (pw_base w) = (conn, ref, sid, base)"
    by (metis prod_cases4)
  have ref: "ref = api_connection_ref (Some (pb_connection_ref b))" using load load_base(3) by (metis fst_conv snd_conv)
  note run = preview_post_route_def [of n slug b w, unfolded Inr sum.case Let_def load prod.case]
  have allowed: "gateway_allowed (post_gateway (en_config n) ?entry conn (preview_request ?entry ?c (en_request_id n))
      (env_storage n) ref)"
    using assms valid
    by (auto simp: run answered_ready_def post_gateway_payload_def blocked_not_ready split: if_splits)
  have opn: "post_operation (pe_slug ?entry) ?c ref = apply_operation n entry0 b"
    by (simp add: apply_operation_def apply_entry_def ref)
  show ?thesis
    using assms(1) valid allowed Inr unfolding run opn
    by (intro that [of entry0]) (auto simp: case_prod_unfold apply_entry_def)
qed

lemma evidence_plain: "plain_text (preview_evidence_id opn)" "length (preview_evidence_id opn) = 36"
proof -
  have "list_all is_hex_lower (take 32 (sha256_hex m))" for m
    using sha256_hex_lower [of m] by (auto simp: list_all_iff dest: in_set_takeD)
  moreover have "plain_text ''wcp_''" by code_simp
  ultimately show "plain_text (preview_evidence_id opn)"
    unfolding preview_evidence_id_def plain_text_append using plain_text_hex by blast
  show "length (preview_evidence_id opn) = 36" by (simp add: preview_evidence_id_def)
qed

lemma evidence_passes [simp]:
  "or_default (safe_public_id (Some (preview_evidence_id opn))) [] = preview_evidence_id opn"
  "safe_public_id180 (preview_evidence_id opn) = preview_evidence_id opn"
  "py_strip (preview_evidence_id opn) = preview_evidence_id opn"
  "preview_evidence_id opn \<noteq> []"
  using plain_text_passes [OF evidence_plain(1), of opn] evidence_plain(2) [of opn]
  by (auto simp: safe_public_id_def safe_public_id180_def has_secret_word_def or_default_def Let_def)

lemma fingerprint_passes [simp]:
  "safe_fingerprint (build_operation_fingerprint opn) = build_operation_fingerprint opn"
  "py_lower (py_strip (build_operation_fingerprint opn)) = build_operation_fingerprint opn"
  "py_strip (build_operation_fingerprint opn) \<noteq> []" "build_operation_fingerprint opn \<noteq> []"
proof -
  have "plain_text (build_operation_fingerprint opn)"
    unfolding build_operation_fingerprint_def by (rule plain_text_hex [OF sha256_hex_lower])
  note passes = plain_text_passes [OF this]
  show "safe_fingerprint (build_operation_fingerprint opn) = build_operation_fingerprint opn"
    by (simp add: safe_fingerprint_fixed)
  show "py_lower (py_strip (build_operation_fingerprint opn)) = build_operation_fingerprint opn"
    using passes by simp
  show "py_strip (build_operation_fingerprint opn) \<noteq> []" "build_operation_fingerprint opn \<noteq> []"
    using passes(1) sha_not_empty by (simp_all add: build_operation_fingerprint_def)
qed

text \<open>The row a preview stores, and its consumption.\<close>

definition post_key :: "auth_user \<Rightarrow> operation \<Rightarrow> approval_key option" where
  "post_key u opn = map_option (\<lambda>(org, user). (org, user, ''facebook'', preview_evidence_id opn))
     (normalize_owner (owner_organization_id u) (us_user_id u))"

lemma facebook_slug_forms:
  "provider_slug80 ''facebook'' = ''facebook''" "dash_to_underscore (py_lower (py_strip ''facebook'')) = ''facebook''"
  by code_simp+

lemma consume_key_post:
  assumes "op_provider_slug opn = ''facebook''"
  shows "consume_key \<lparr> cq_preview_evidence_id = preview_evidence_id opn, cq_request_fingerprint = fp,
      cq_organization_id = owner_organization_id u, cq_user_id = us_user_id u,
      cq_provider_slug = op_provider_slug opn, cq_action_slug = a \<rparr> = post_key u opn"
  by (simp add: consume_key_def post_key_def assms facebook_slug_forms)

lemma record_post_stores:
  assumes "operation_approval_storage_ready st" "pw_ledger_up w (pw_ledger_calls w)"
    and "post_key u opn = Some k" "op_provider_slug opn = ''facebook''"
  shows "\<exists>row. pw_approvals (snd (record_post_approval st clock u opn c w)) k = Some row
    \<and> aw_status row = APending \<and> aw_expires_at row = clock + 1800000000
    \<and> aw_request_fingerprint row = build_operation_fingerprint opn"
  using assms
  by (auto simp: record_post_approval_def append_operation_approval_record_def build_operation_approval_record_def
      post_key_def Let_def case_prod_unfold facebook_slug_forms split: option.splits)

lemma consume_post_takes:
  assumes "operation_approval_storage_ready st" "pw_ledger_up w (pw_ledger_calls w)"
    and "post_key u opn = Some k" "op_provider_slug opn = ''facebook''"
    and "pw_approvals w k = Some row" "aw_request_fingerprint row = build_operation_fingerprint opn"
  shows "od_consumed (fst (consume_post_approval st clock u opn (preview_evidence_id opn) w))
      \<longleftrightarrow> aw_status row = APending \<and> clock \<le> aw_expires_at row"
    and "aw_status row \<noteq> APending \<Longrightarrow>
      od_blocked (fst (consume_post_approval st clock u opn (preview_evidence_id opn) w))"
  using assms consume_key_post [OF assms(4)]
  by (auto simp: consume_post_approval_def consume_consumed_iff consume_operation_approval_record_def
      blocked_decision_def Let_def case_prod_unfold)

lemma consume_post_row:
  assumes "od_consumed (fst (consume_post_approval st clock u opn (preview_evidence_id opn) w))"
    and "post_key u opn = Some k" "op_provider_slug opn = ''facebook''"
  shows "\<exists>row. pw_approvals (snd (consume_post_approval st clock u opn (preview_evidence_id opn) w)) k = Some row
    \<and> aw_status row = AConsumed"
proof -
  let ?q = "\<lparr> cq_preview_evidence_id = preview_evidence_id opn,
    cq_request_fingerprint = build_operation_fingerprint opn, cq_organization_id = owner_organization_id u,
    cq_user_id = us_user_id u, cq_provider_slug = op_provider_slug opn, cq_action_slug = op_action_slug opn \<rparr>"
  have ready: "operation_approval_storage_ready st"
    using assms(1) by (auto simp: consume_post_approval_def Let_def split: if_splits)
  let ?up = "pw_ledger_up w (pw_ledger_calls w)"
  have won: "od_consumed (fst (consume_operation_approval_record ?up clock ?q (pw_approvals w)))"
    using assms(1) ready by (simp add: consume_post_approval_def Let_def case_prod_unfold)
  have key: "consume_key ?q = Some k" using consume_key_post [OF assms(3)] assms(2) by simp
  obtain row where "pw_approvals w k = Some row" using won key by (auto simp: consume_consumed_iff)
  from consume_table [OF won key this] show ?thesis
    using ready by (simp add: consume_post_approval_def Let_def case_prod_unfold)
qed

text \<open>The apply request that answers a preview: the same body with the token and the evidence id handed out.\<close>

definition answering_body :: "post_body \<Rightarrow> pydict \<Rightarrow> apply_body" where
  "answering_body b d = post_body.extend b (apply_body.fields
     (case dict_get d ''approval_token'' of Some (PStr s) \<Rightarrow> s | _ \<Rightarrow> [])
     (case dict_get d ''preview_evidence_id'' of Some (PStr s) \<Rightarrow> s | _ \<Rightarrow> []))"

lemma extend_simps [simp]:
  "pb_connection_ref (post_body.extend b x) = pb_connection_ref b" "pb_page_id (post_body.extend b x) = pb_page_id b"
  "pb_message (post_body.extend b x) = pb_message b" "pb_image_base64 (post_body.extend b x) = pb_image_base64 b"
  "pb_image_media_type (post_body.extend b x) = pb_image_media_type b"
  "pb_image_filename (post_body.extend b x) = pb_image_filename b" "pb_image_url (post_body.extend b x) = pb_image_url b"
  "pb_surface (post_body.extend b x) = pb_surface b"
  by (simp_all add: post_body.extend_def)

lemma post_content_more:
  "post_content_of (post_body.extend b x) = post_content_of b"
  "apply_operation n entry0 (post_body.extend b x) = apply_operation n entry0 b"
proof -
  have "decode_image_payload (post_body.extend b x) = decode_image_payload b"
    by (simp only: decode_image_payload_def extend_simps)
  then show content: "post_content_of (post_body.extend b x) = post_content_of b"
    by (simp only: post_content_of_def extend_simps)
  show "apply_operation n entry0 (post_body.extend b x) = apply_operation n entry0 b"
    by (simp only: apply_operation_def content extend_simps)
qed

lemma preview_payload_fields:
  "dict_get (preview_payload entry c ev tok g ap st) ''approval_token'' = Some (PStr tok)"
  "dict_get (preview_payload entry c ev tok g ap st) ''preview_evidence_id'' = Some (PStr ev)"
  by (simp_all add: preview_payload_def)

definition ledger_serves :: "post_env \<Rightarrow> bool" where
  "ledger_serves n = (operation_approval_storage_ready (env_storage n)
     \<and> normalize_owner (owner_organization_id (en_user n)) (us_user_id (en_user n)) \<noteq> None)"

lemma micro_seconds:
  fixes t t' :: int
  shows "t' \<le> t + 1800000000 \<Longrightarrow> t' div 1000000 - t div 1000000 \<le> 1800" "t \<ge> 1000000 \<Longrightarrow> t div 1000000 > 0"
proof -
  assume "t' \<le> t + 1800000000"
  then have "t' div 1000000 \<le> (t + 1800 * 1000000) div 1000000" by (intro zdiv_mono1) auto
  then show "t' div 1000000 - t div 1000000 \<le> 1800" by simp
next
  show "t \<ge> 1000000 \<Longrightarrow> t div 1000000 > 0" by (simp add: pos_imp_zdiv_pos_iff)
qed

lemma apply_operation_env [simp]:
  "apply_operation (n\<lparr>en_clock := t\<rparr>) entry0 b = apply_operation n entry0 b"
  "env_storage (n\<lparr>en_clock := t\<rparr>) = env_storage n"
  by (simp_all add: apply_operation_def apply_entry_def env_storage_def)

text \<open>A pending approval is consumed by the first matching apply, and the next one is blocked.\<close>

lemma consume_post_once:
  fixes st clock u opn and w :: post_world
  defines "first \<equiv> \<lambda>base. consume_post_approval st clock u opn (preview_evidence_id opn) (w\<lparr>pw_base := base\<rparr>)"
  assumes ready: "operation_approval_storage_ready st" and up: "pw_ledger_up w = (\<lambda>k. True)"
    and k: "post_key u opn = Some k" and slug: "op_provider_slug opn = ''facebook''"
    and row: "pw_approvals w k = Some row" "aw_status row = APending" "clock \<le> aw_expires_at row"
      "aw_request_fingerprint row = build_operation_fingerprint opn"
  shows "od_consumed (fst (first any_base))"
    "od_blocked (fst (consume_post_approval st clock' u opn (preview_evidence_id opn)
      ((snd (first any_base))\<lparr>pw_base := other_base\<rparr>)))"
proof -
  show consumed: "od_consumed (fst (first any_base))"
    using consume_post_takes(1) [OF ready _ k slug, of "w\<lparr>pw_base := any_base\<rparr>" row clock] row up
    by (simp add: first_def)
  obtain row2 where row2: "pw_approvals (snd (first any_base)) k = Some row2" "aw_status row2 = AConsumed"
    using consume_post_row [OF _ k slug, of st clock "w\<lparr>pw_base := any_base\<rparr>"] consumed by (auto simp: first_def)
  have "pw_ledger_up (snd (first any_base)) = (\<lambda>k. True)"
    using up by (simp add: first_def consume_post_approval_def Let_def case_prod_unfold)
  then show "od_blocked (fst (consume_post_approval st clock' u opn (preview_evidence_id opn)
      ((snd (first any_base))\<lparr>pw_base := other_base\<rparr>)))"
    using row2 ready consume_key_post [OF slug, of _ u] k
    by (auto simp: consume_post_approval_def consume_operation_approval_record_def blocked_decision_def
        Let_def case_prod_unfold)
qed


section \<open>A post from preview to provider\<close>

definition poster_row :: connection_row where
  "poster_row = example_row\<lparr>kw_scopes := [(''read'', PBool True), (''preview'', PBool True), (''apply'', PBool True)]\<rparr>"

definition poster_connection :: connection_record where
  "poster_connection = facebook_connection\<lparr>cr_scopes := no_scopes\<lparr>sg_read := True, sg_preview := True, sg_apply := True\<rparr>\<rparr>"

definition example_post_world :: "bool \<Rightarrow> approval_table \<Rightarrow> post_world" where
  "example_post_world up t = \<lparr> pw_base = (example_world True)\<lparr>wd_connections := [(''c1'', poster_row)]\<rparr>,
     pw_approvals = t, pw_ledger_calls = 0, pw_ledger_up = (\<lambda>k. up) \<rparr>"

definition example_env :: post_env where
  "example_env = \<lparr> en_config = example_config, en_probe = TablesPresent True True True, en_clock = 1000000,
     en_now = ''2026-01-01T00:00:00'', en_nonce = ''n'', en_secret = ''key'', en_request_id = None,
     en_user = example_user \<rparr>"

definition body_with_ref :: "string \<Rightarrow> post_body" where
  "body_with_ref r = \<lparr> pb_surface = ''desktop'', pb_connection_ref = r, pb_page_id = ''42'', pb_message = ''hello'',
     pb_image_base64 = None, pb_image_media_type = None, pb_image_filename = None, pb_image_url = None \<rparr>"

definition example_post_body :: post_body where
  "example_post_body = body_with_ref (public_connection_ref ''facebook'' ''c1'')"

lemma example_post_entry: "post_entry ''facebook'' = Inr (hd provider_registry)"
  by code_simp

lemma example_content:
  "post_content_of (body_with_ref r) = \<lparr> pc_image_bytes = [], pc_media_type = [], pc_filename = [], pc_image_url = [],
     pc_message = ''hello'', pc_page_id = ''42'', pc_error = [] \<rparr>"
  by code_simp

lemma example_env_storage: "env_storage (example_env\<lparr>en_clock := t\<rparr>) = example_storage"
  "env_storage example_env = example_storage"
  by (simp_all add: env_storage_def example_env_def example_storage_def)

lemma poster_stored:
  "list_connection_records True ''org'' ''u1'' ''facebook'' 100 [(''c1'', poster_row)] = [poster_connection]"
  "get_connection_record True ''org'' ''u1'' ''facebook'' (Some ''c1'') [(''c1'', poster_row)] = Some poster_connection"
  by code_simp+

lemma poster_not_expired:
  "snd (expire_stale_pending_connections True t ''org'' ''u1'' ''facebook'' 1800 [(''c1'', poster_row)])
     = [(''c1'', poster_row)]"
proof -
  have parts: "normalize_owner ''org'' ''u1'' = Some (''org'', ''u1'')" "kw_state poster_row = ''connected''"
    by code_simp+
  show ?thesis
    using parts by (simp add: expire_stale_pending_connections_def stale_pending_def Let_def)
qed

lemma example_load:
  assumes "pe_slug entry = ''facebook''"
  shows "\<exists>ref. load_selected_connection example_storage t entry example_user (public_connection_ref ''facebook'' ''c1'')
      (pw_base (example_post_world up tbl))
    = (Some poster_connection, ref, ''c1'', pw_base (example_post_world up tbl)) \<and> ref \<noteq> []
    \<and> api_connection_ref (Some (public_connection_ref ''facebook'' ''c1'')) = ref"
proof -
  obtain h where h: "public_connection_ref ''facebook'' ''c1'' = ''wcn_'' @ h" "length h = 24"
      "list_all is_hex_lower h"
    using example_ref_shape by blast
  have ready: "connection_storage_ready example_storage" by code_simp
  have conn: "cr_provider_slug poster_connection = ''facebook''" "cr_connection_id poster_connection = ''c1''"
    by (simp_all add: poster_connection_def facebook_connection_def)
  have owner: "owner_organization_id example_user = ''org''" "us_user_id example_user = ''u1''"
    by (simp_all add: owner_organization_id_def example_user_def or_default_def)
  have matches: "connection_ref_matches ''facebook'' ''c1'' (''wcn_'' @ h)"
    using ref_passes(1) [OF h(3) h(2)] h(1) by (simp add: connection_ref_matches_def)
  have ref: "api_connection_ref (Some (''wcn_'' @ h)) = ''wcn_'' @ h"
    using ref_passes(2) [OF h(3) h(2)] by (simp add: api_connection_ref_def py_startswith_def Let_def)
  let ?w = "pw_base (example_post_world up tbl)"
  have world: "wd_connections ?w = [(''c1'', poster_row)]" "db_up ?w"
    by (simp_all add: example_post_world_def example_world_def db_up_def)
  have expire: "api_expire_stale t example_storage example_user ''facebook'' ?w = ?w"
    using poster_not_expired [of t] ready owner world by (simp add: api_expire_stale_def)
  have "resolve_provider_connection_id example_storage example_user ''facebook'' (''wcn_'' @ h) ?w = ''c1''"
    using ref_passes(2) [OF h(3) h(2)] ready owner world poster_stored(1) conn matches
    by (simp add: resolve_provider_connection_id_def py_startswith_def Let_def)
  then show ?thesis
    using ref expire ready owner world poster_stored(2)
    by (simp add: load_selected_connection_def assms h(1))
qed

abbreviation example_facebook :: provider_entry where
  "example_facebook \<equiv> composio_execution_enabled_entry (hd provider_registry) example_config"

text \<open>What the gateway reads of the example entry, computed once.\<close>

lemma example_entry_facts:
  "pe_slug example_facebook = ''facebook''" "pe_provider_kind example_facebook = Composio"
  "pe_enabled example_facebook" "pe_agent_ready example_facebook"
  "''external_app_action'' \<in> set (pe_allowed_paths example_facebook)"
  "allows_action example_facebook ''FACEBOOK_CREATE_POST''"
  "pe_default_scopes example_facebook = no_scopes\<lparr>sg_read := True, sg_preview := True, sg_apply := True\<rparr>"
  by code_simp+

lemma example_adapter_facts:
  "ac_provider_kind (composio_capability example_config) = Composio" "ac_bound (composio_capability example_config)"
  "ac_configured (composio_capability example_config)" "ac_can_execute_actions (composio_capability example_config)"
  by code_simp+

lemma example_post_gate:
  assumes "ref \<noteq> []" "xr_provider_slug r = ''facebook''" "xr_path r = ''external_app_action''"
    and "xr_action_slug r = ''FACEBOOK_CREATE_POST''" "xr_mutation r = Preview \<or> xr_mutation r = Apply"
    and "xr_preview_evidence_required r \<longrightarrow> present (xr_preview_evidence_id r)"
    and "xr_mutation r = Apply \<longrightarrow> xr_approval_token_present r"
  shows "gateway_allowed (post_gateway example_config example_facebook (Some poster_connection) r example_storage ref)"
proof -
  have "audit_persistent example_storage" by code_simp
  moreover have "cr_provider_slug poster_connection = ''facebook''" "conn_active poster_connection"
      "cr_scopes poster_connection = no_scopes\<lparr>sg_read := True, sg_preview := True, sg_apply := True\<rparr>"
    by (simp_all add: poster_connection_def facebook_connection_def conn_active_def)
  ultimately show ?thesis
    using assms
    by (auto simp: post_gateway_def gateway_allowed_cases external_allowed_iff example_entry_facts
        example_adapter_facts policy_passes_def scope_policy_passes scope_policy_for_provider_entry_def
        ga_resolved_adapter_def ga_audit_persistent_def ledger_persistent_def get_flag_def or_default_def)
qed

lemma example_preview_ready:
  "\<exists>d w1. preview_post_route example_env ''facebook'' example_post_body (example_post_world True t) = (Inr d, w1)
     \<and> answered_ready (Inr d)"
proof -
  obtain ref where ref: "load_selected_connection example_storage 1000000 example_facebook example_user
      (public_connection_ref ''facebook'' ''c1'') (pw_base (example_post_world True t))
      = (Some poster_connection, ref, ''c1'', pw_base (example_post_world True t))" "ref \<noteq> []"
      "api_connection_ref (Some (public_connection_ref ''facebook'' ''c1'')) = ref"
    using example_load [OF example_entry_facts(1)] by blast
  have env: "en_config example_env = example_config" "en_clock example_env = 1000000"
      "en_user example_env = example_user" "en_request_id example_env = None"
    by (simp_all add: example_env_def)
  have body: "pb_connection_ref example_post_body = public_connection_ref ''facebook'' ''c1''"
    by (simp add: example_post_body_def body_with_ref_def)
  have content: "pc_error (post_content_of example_post_body) = []"
      "post_action_slug (post_content_of example_post_body) = ''FACEBOOK_CREATE_POST''"
    by (simp_all add: example_post_body_def example_content post_action_slug_def)
  have gate: "gateway_allowed (post_gateway example_config example_facebook (Some poster_connection)
      (preview_request example_facebook (post_content_of example_post_body) None) example_storage ref)"
    by (rule example_post_gate) (simp_all add: ref(2) preview_request_def example_entry_facts content)
  have "\<exists>e c ev tok g ap st w1. preview_post_route example_env ''facebook'' example_post_body
      (example_post_world True t) = (Inr (preview_payload e c ev tok g ap st), w1)"
    using gate
    by (simp add: preview_post_route_def example_post_entry env body ref(1,3) example_env_storage content(1)
        case_prod_unfold Let_def) (intro exI, rule refl)
  then show ?thesis by (auto simp: answered_ready_def preview_payload_def)
qed

definition example_post_loads :: "nat list \<Rightarrow> pyval option" where
  "example_post_loads bs =
     (let p = token_payload (apply_operation example_env (hd provider_registry) example_post_body) 1 ''n''
      in if bs = utf8 (json_dict p) then Some (PDict p) else None)"


text \<open>A run of the system: a preview, and an apply whose body is no token.\<close>

theorem posts_bounded_by_previews_witness:
  "\<exists>t. post_run example_client example_post_loads (\<lambda>s. None)
      \<lparr> sy_world = example_post_world True (\<lambda>k. None), sy_jobs = [] \<rparr> [PreviewReady] t
    \<and> published t + length (sy_jobs t) \<le> 1"
proof -
  let ?s = "\<lparr> sy_world = example_post_world True (\<lambda>k. None), sy_jobs = [] \<rparr>"
  have world: "sy_world ?s = example_post_world True (\<lambda>k. None)" by simp
  obtain d w1 where preview: "preview_post_route example_env ''facebook'' example_post_body (sy_world ?s) = (Inr d, w1)"
      "answered_ready (Inr d)"
    unfolding world using example_preview_ready by blast
  have "post_step example_client example_post_loads (\<lambda>s. None) ?s PreviewReady (?s\<lparr>sy_world := w1\<rparr>)"
    using post_step.preview [OF preview(1), of example_client example_post_loads "\<lambda>s. None"] preview(2) by simp
  from post_run.extend [OF post_run.start this]
  have run: "post_run example_client example_post_loads (\<lambda>s. None) ?s [PreviewReady] (?s\<lparr>sy_world := w1\<rparr>)" by simp
  have "published ?s = 0" by (simp add: published_def example_post_world_def example_world_def)
  moreover have "\<nexists>k. approval_pending k (pw_approvals (sy_world ?s))"
    by (simp add: example_post_world_def approval_pending_def)
  ultimately show ?thesis
    using run posts_bounded_by_previews [OF run] by auto
qed

lemma answering_simps [simp]:
  "pb_connection_ref (answering_body b d) = pb_connection_ref b" "pb_surface (answering_body b d) = pb_surface b"
  "post_content_of (answering_body b d) = post_content_of b"
  "apply_operation n entry0 (answering_body b d) = apply_operation n entry0 b"
  by (simp_all add: answering_body_def post_content_more)

lemma answering_tokens:
  "pb_approval_token (answering_body b (preview_payload entry c ev tok g ap st)) = tok"
  "pb_preview_evidence_id (answering_body b (preview_payload entry c ev tok g ap st)) = ev"
  by (simp_all add: answering_body_def post_body.extend_def apply_body.fields_def preview_payload_fields)

lemma consume_without_ledger:
  "ev \<noteq> [] \<Longrightarrow> py_strip ev = ev \<Longrightarrow> pw_ledger_up w = (\<lambda>k. False) \<Longrightarrow>
     \<not> od_blocked (fst (consume_post_approval st clock u opn ev w))
     \<and> \<not> od_consumed (fst (consume_post_approval st clock u opn ev w))"
  by (simp add: consume_post_approval_def consume_operation_approval_record_def unavailable_decision_def Let_def
      case_prod_unfold split: option.splits)

lemma apply_begin_reaches:
  assumes "post_entry slug = Inr entry0" "pc_error (post_content_of b) = []"
    and "apply_token loads ints n entry0 b = Inr check" "tk_valid check"
    and "\<not> od_blocked (fst (apply_approval n entry0 b check w))"
    and "load_selected_connection (env_storage n) (en_clock n) (apply_entry n entry0) (en_user n)
        (pb_connection_ref b) (pw_base w) = (Some conn, ref, sid, base)"
    and "gateway_allowed (post_gateway (en_config n) (apply_entry n entry0) (Some conn)
        (apply_request (apply_entry n entry0) (post_content_of b) (tk_preview_evidence_id check) (en_request_id n))
        (env_storage n) ref)"
  shows "\<exists>j. fst (apply_begin loads ints n slug b w) = Inr (Await j)
    \<and> jb_approval j = fst (apply_approval n entry0 b check w)"
proof -
  have ref: "ref = api_connection_ref (Some (pb_connection_ref b))" using assms(6) load_base(3) by (metis fst_conv snd_conv)
  have opn: "post_operation (pe_slug (apply_entry n entry0)) (post_content_of b) ref = apply_operation n entry0 b"
    by (simp add: apply_operation_def ref)
  have tok: "verify_approval_token loads ints (pb_approval_token b)
      (post_operation (pe_slug (apply_entry n entry0)) (post_content_of b) (api_connection_ref (Some (pb_connection_ref b))))
      (en_secret n) (or_default (safe_public_id (Some (pb_preview_evidence_id b))) []) (en_clock n div 1000000) 1800
    = Inr check"
    using assms(3) by (simp add: apply_token_def apply_operation_def)
  have approval: "consume_post_approval (env_storage n) (en_clock n) (en_user n) (apply_operation n entry0 b)
      (tk_preview_evidence_id check) w = apply_approval n entry0 b check w"
    by (simp add: apply_approval_def)
  show ?thesis
    unfolding apply_begin_def assms(1) sum.case Let_def apply_entry_def [symmetric] tok assms(6) prod.case opn
      consume_post_base approval
    using assms(2,4,5,7) by (simp add: case_prod_unfold)
qed

text \<open>When the ledger fails, the apply route does not look at what was consumed: its answer is the same under
  every approval table, so a token that was used up opens the provider again while it is valid. In
  the example the apply of a previewed post passes under a failing ledger, whatever its table says.\<close>

theorem apply_without_ledger_replays:
  "fst (apply_begin loads ints n slug b (w\<lparr>pw_ledger_up := (\<lambda>k. False), pw_approvals := tbl\<rparr>))
     = fst (apply_begin loads ints n slug b (w\<lparr>pw_ledger_up := (\<lambda>k. False)\<rparr>))
   \<and> (\<exists>d w1 j. preview_post_route example_env ''facebook'' example_post_body (example_post_world True tbl) = (Inr d, w1)
        \<and> fst (apply_begin example_post_loads (\<lambda>s. None) example_env ''facebook''
            (answering_body example_post_body d) (example_post_world False tbl)) = Inr (Await j)
        \<and> \<not> od_consumed (jb_approval j))"
proof
  have approval: "consume_post_approval st clock u opn ev (w\<lparr>pw_ledger_up := (\<lambda>k. False), pw_approvals := tbl\<rparr>)
      = (fst (consume_post_approval st clock u opn ev (w\<lparr>pw_ledger_up := (\<lambda>k. False)\<rparr>)),
         (snd (consume_post_approval st clock u opn ev (w\<lparr>pw_ledger_up := (\<lambda>k. False)\<rparr>)))\<lparr>pw_approvals := tbl\<rparr>)"
    for st clock u opn ev w
    by (simp add: consume_post_approval_def consume_operation_approval_record_def Let_def case_prod_unfold
        split: option.splits)
  show "fst (apply_begin loads ints n slug b (w\<lparr>pw_ledger_up := (\<lambda>k. False), pw_approvals := tbl\<rparr>))
     = fst (apply_begin loads ints n slug b (w\<lparr>pw_ledger_up := (\<lambda>k. False)\<rparr>))"
    by (simp add: apply_begin_def Let_def consume_post_base approval case_prod_unfold
        split: sum.splits option.splits)
next
  let ?opn = "apply_operation example_env (hd provider_registry) example_post_body"
  obtain d w1 where preview: "preview_post_route example_env ''facebook'' example_post_body (example_post_world True tbl)
      = (Inr d, w1)" "answered_ready (Inr d)"
    using example_preview_ready by blast
  obtain g ap where d: "d = preview_payload (apply_entry example_env (hd provider_registry))
      (post_content_of example_post_body) (preview_evidence_id ?opn)
      (build_approval_token ?opn (en_secret example_env) (en_clock example_env div 1000000) (en_nonce example_env))
      g ap (env_storage example_env)"
    using preview_ready [OF preview] example_post_entry by (metis sum.inject(2))
  let ?ab = "answering_body example_post_body d" and ?w = "example_post_world False tbl"
  have env: "en_config example_env = example_config" "en_clock example_env = 1000000" "en_nonce example_env = ''n''"
      "en_user example_env = example_user" "en_request_id example_env = None"
    by (simp_all add: example_env_def)
  have entry: "apply_entry example_env (hd provider_registry) = example_facebook" by (simp add: apply_entry_def env)
  have content: "pc_error (post_content_of example_post_body) = []"
      "post_action_slug (post_content_of example_post_body) = ''FACEBOOK_CREATE_POST''"
    by (simp_all add: example_post_body_def example_content post_action_slug_def)
  have ref0: "pb_connection_ref example_post_body = public_connection_ref ''facebook'' ''c1''"
    by (simp add: example_post_body_def body_with_ref_def)
  obtain ref where ref: "load_selected_connection example_storage 1000000 example_facebook example_user
      (public_connection_ref ''facebook'' ''c1'') (pw_base ?w) = (Some poster_connection, ref, ''c1'', pw_base ?w)"
      "ref \<noteq> []"
    using example_load [OF example_entry_facts(1)] by blast
  define check where "check = \<lparr> tk_valid = True, tk_reason = ''valid'', tk_preview_evidence_id = preview_evidence_id ?opn \<rparr>"
  have token: "apply_token example_post_loads (\<lambda>s. None) example_env (hd provider_registry) ?ab = Inr check"
    using verify_built_token [where loads = example_post_loads and opn = ?opn and iat = 1 and nonce = "''n''"
        and asked = ?opn and evidence = "preview_evidence_id ?opn"]
    by (simp add: apply_token_def d answering_tokens env check_def example_post_loads_def Let_def)
  have free: "\<not> od_blocked (fst (apply_approval example_env (hd provider_registry) ?ab check ?w))
      \<and> \<not> od_consumed (fst (apply_approval example_env (hd provider_registry) ?ab check ?w))"
    unfolding apply_approval_def
    by (rule consume_without_ledger) (simp_all add: check_def example_post_world_def)
  have gate: "gateway_allowed (post_gateway example_config example_facebook (Some poster_connection)
      (apply_request example_facebook (post_content_of example_post_body) (tk_preview_evidence_id check) None)
      example_storage ref)"
    by (rule example_post_gate)
      (simp_all add: ref(2) apply_request_def example_entry_facts content present_def check_def)
  have "\<exists>j. fst (apply_begin example_post_loads (\<lambda>s. None) example_env ''facebook'' ?ab ?w) = Inr (Await j)
      \<and> jb_approval j = fst (apply_approval example_env (hd provider_registry) ?ab check ?w)"
    by (rule apply_begin_reaches [where conn = poster_connection and ref = ref and sid = "''c1''" and base = "pw_base ?w"])
      (use example_post_entry content token free ref gate in
        \<open>simp_all add: check_def env entry example_env_storage ref0\<close>)
  with free preview(1) show "\<exists>d w1 j. preview_post_route example_env ''facebook'' example_post_body (example_post_world True tbl) = (Inr d, w1)
        \<and> fst (apply_begin example_post_loads (\<lambda>s. None) example_env ''facebook''
            (answering_body example_post_body d) (example_post_world False tbl)) = Inr (Await j)
        \<and> \<not> od_consumed (jb_approval j)"
    by (intro exI [of _ d] exI [of _ w1]) auto
qed

end
