(* ===== verification/Composio_Config.thy ===== *)
theory Composio_Config
  imports Composio_Upload
begin

text \<open>
  The part of \<open>app/engine/wiii_connect/composio_adapter.py\<close> that reads the operator's settings: the
  mapping from providers to auth configs and the two action allowlists, each given as a dictionary, as
  JSON text or as comma-separated text. \<open>json.loads\<close> is the parameter \<open>loads\<close>, \<open>None\<close> when the text
  does not parse.
\<close>

section \<open>Splitting text\<close>

text \<open>\<open>s.split(c)\<close> and \<open>s.split(c, 1)\<close> for one character, the latter \<open>None\<close> when \<open>c\<close> does not occur.\<close>

fun split_on :: "char \<Rightarrow> string \<Rightarrow> string list" where
  "split_on d [] = [[]]"
| "split_on d (c # cs) = (if c = d then [] # split_on d cs
     else (case split_on d cs of [] \<Rightarrow> [[c]] | w # ws \<Rightarrow> (c # w) # ws))"

fun cut_at :: "char \<Rightarrow> string \<Rightarrow> (string \<times> string) option" where
  "cut_at d [] = None"
| "cut_at d (c # cs) = (if c = d then Some ([], cs) else map_option (\<lambda>(a, b). (c # a, b)) (cut_at d cs))"

section \<open>Auth configs\<close>

definition normalize_mapping :: "pydict \<Rightarrow> (string \<times> string) list" where
  "normalize_mapping d =
     foldl (\<lambda>result (raw_provider, raw_auth_config).
         let provider = normalize_provider_slug raw_provider;
             auth_config = py_strip (str_or_empty raw_auth_config)
         in if provider \<noteq> [] \<and> auth_config \<noteq> [] then dict_set provider auth_config result else result)
       [] d"

text \<open>One item of the comma text: \<open>provider=id\<close> or \<open>provider:id\<close>.\<close>

definition auth_config_pair :: "string \<Rightarrow> (string \<times> string) option" where
  "auth_config_pair item =
     (let pair = py_strip item in
      case cut_at (CHR ''='') pair of
        Some (provider, auth_config) \<Rightarrow> Some (normalize_provider_slug provider, py_strip auth_config)
      | None \<Rightarrow> map_option (\<lambda>(provider, auth_config).
          (normalize_provider_slug provider, py_strip auth_config)) (cut_at (CHR '':'') pair))"

definition parse_auth_config_map :: "(string \<Rightarrow> pyval option) \<Rightarrow> pyval \<Rightarrow> (string \<times> string) list" where
  "parse_auth_config_map loads raw_value =
     (case raw_value of
        PDict d \<Rightarrow> normalize_mapping d
      | _ \<Rightarrow>
          let text = py_strip (str_or_empty raw_value) in
          if text = [] then []
          else if py_startswith ''{'' text
          then (case loads text of Some (PDict d) \<Rightarrow> normalize_mapping d | _ \<Rightarrow> [])
          else foldl (\<lambda>result item.
              case auth_config_pair item of
                None \<Rightarrow> result
              | Some (provider, auth_config) \<Rightarrow>
                  if provider \<noteq> [] \<and> auth_config \<noteq> [] then dict_set provider auth_config result else result)
            [] (split_on (CHR '','') text))"

section \<open>Action allowlists\<close>

definition curated_action_exists :: "mutation list \<Rightarrow> string \<Rightarrow> string \<Rightarrow> bool" where
  "curated_action_exists mutations provider_slug action_slug =
     (case get_curated_action provider_slug action_slug of
        None \<Rightarrow> False | Some a \<Rightarrow> ca_mutation a \<in> set mutations)"

definition provider_for_curated_action_slug :: "mutation list \<Rightarrow> string \<Rightarrow> string" where
  "provider_for_curated_action_slug mutations action_slug =
     (let action = normalize_action_slug action_slug in
      case filter (\<lambda>a. ca_slug a = action \<and> ca_mutation a \<in> set mutations) (list_curated_actions None True) of
        [a] \<Rightarrow> ca_provider_slug a
      | _ \<Rightarrow> [])"

definition split_action_slugs :: "string \<Rightarrow> string list" where
  "split_action_slugs value =
     (let text = py_replace_char (CHR '';'') (CHR '','') (py_replace_char (CHR ''|'') (CHR '','') value) in
      filter (\<lambda>a. a \<noteq> []) (map normalize_action_slug (split_on (CHR '','') text)))"

definition coerce_action_values :: "pyval \<Rightarrow> string list" where
  "coerce_action_values v =
     (case v of
        PStr s \<Rightarrow> split_action_slugs s
      | PList xs \<Rightarrow> filter (\<lambda>a. a \<noteq> []) (map (\<lambda>x. normalize_action_slug (str_or_empty x)) xs)
      | PTuple xs \<Rightarrow> filter (\<lambda>a. a \<noteq> []) (map (\<lambda>x. normalize_action_slug (str_or_empty x)) xs)
      | _ \<Rightarrow> (let action = normalize_action_slug (str_or_empty v) in if action \<noteq> [] then [action] else []))"

text \<open>The pairs \<open>result.setdefault(provider, set()).add(action)\<close> collects, and the dictionary of sorted
  tuples they end in. No action set is empty: a provider is entered with its first action.\<close>

definition allowlist_of :: "(string \<times> string) list \<Rightarrow> (string \<times> string list) list" where
  "allowlist_of pairs =
     map (\<lambda>p. (p, sorted_set (map snd (filter (\<lambda>(q, a). q = p) pairs)))) (sorted_set (map fst pairs))"

definition normalize_allowlist_mapping :: "mutation list \<Rightarrow> pydict \<Rightarrow> (string \<times> string list) list" where
  "normalize_allowlist_mapping mutations d =
     allowlist_of (concat (map (\<lambda>(raw_provider, raw_actions).
       let provider = normalize_provider_slug raw_provider in
       map (\<lambda>a. (provider, a)) (filter (\<lambda>a. provider \<noteq> [] \<and> curated_action_exists mutations provider a)
         (coerce_action_values raw_actions))) d))"

definition normalize_allowlist_items :: "mutation list \<Rightarrow> pyval list \<Rightarrow> (string \<times> string list) list" where
  "normalize_allowlist_items mutations values =
     allowlist_of (concat (map (\<lambda>raw_action.
       let action = normalize_action_slug (str_or_empty raw_action);
           provider = provider_for_curated_action_slug mutations action
       in if provider \<noteq> [] \<and> curated_action_exists mutations provider action then [(provider, action)] else [])
       values))"

text \<open>The provider and action text of one item: \<open>provider=actions\<close>, \<open>provider:actions\<close> unless it looks like
  a URL, \<open>provider.actions\<close>, or actions alone.\<close>

definition allowlist_item :: "string \<Rightarrow> string \<times> string" where
  "allowlist_item pair =
     (case cut_at (CHR ''='') pair of
        Some (provider, action_text) \<Rightarrow> (normalize_provider_slug provider, action_text)
      | None \<Rightarrow>
          let upper = py_upper pair;
              colon = (if py_startswith ''HTTP:'' upper \<or> py_startswith ''HTTPS:'' upper then None
                else cut_at (CHR '':'') pair)
          in case colon of
            Some (provider, action_text) \<Rightarrow> (normalize_provider_slug provider, action_text)
          | None \<Rightarrow> (case cut_at (CHR ''.'') pair of
              Some (provider, action_text) \<Rightarrow> (normalize_provider_slug provider, action_text)
            | None \<Rightarrow> ([], pair)))"

definition allowlist_text_pairs :: "mutation list \<Rightarrow> string \<Rightarrow> (string \<times> string) list" where
  "allowlist_text_pairs mutations text =
     concat (map (\<lambda>item.
       let pair = py_strip item in
       if pair = [] then []
       else let (provider_slug, action_text) = allowlist_item pair in
         concat (map (\<lambda>action.
           let provider = str_or provider_slug (provider_for_curated_action_slug mutations action) in
           if provider \<noteq> [] \<and> curated_action_exists mutations provider action then [(provider, action)] else [])
           (split_action_slugs action_text)))
       (split_on (CHR '','') text))"

definition parse_action_allowlist ::
    "(string \<Rightarrow> pyval option) \<Rightarrow> mutation list \<Rightarrow> pyval \<Rightarrow> (string \<times> string list) list" where
  "parse_action_allowlist loads mutations raw_value =
     (case raw_value of
        PDict d \<Rightarrow> normalize_allowlist_mapping mutations d
      | _ \<Rightarrow>
          let text = py_strip (str_or_empty raw_value) in
          if text = [] then []
          else if py_startswith ''{'' text \<or> py_startswith ''['' text
          then (case loads text of
              Some (PDict d) \<Rightarrow> normalize_allowlist_mapping mutations d
            | Some (PList xs) \<Rightarrow> normalize_allowlist_items mutations xs
            | _ \<Rightarrow> [])
          else allowlist_of (allowlist_text_pairs mutations text))"

definition parse_readonly_action_allowlist :: "(string \<Rightarrow> pyval option) \<Rightarrow> pyval \<Rightarrow> (string \<times> string list) list" where
  "parse_readonly_action_allowlist loads = parse_action_allowlist loads [Read]"

definition parse_apply_action_allowlist :: "(string \<Rightarrow> pyval option) \<Rightarrow> pyval \<Rightarrow> (string \<times> string list) list" where
  "parse_apply_action_allowlist loads = parse_action_allowlist loads [Apply]"

section \<open>The adapter configuration\<close>

text \<open>\<open>getattr(settings_obj, name, default)\<close> on the settings as a dictionary of attributes.\<close>

definition setting :: "pydict \<Rightarrow> string \<Rightarrow> pyval \<Rightarrow> pyval" where
  "setting d name v = (case dict_get d name of None \<Rightarrow> v | Some x \<Rightarrow> x)"

definition or_text :: "pyval \<Rightarrow> string \<Rightarrow> string" where
  "or_text v fallback = (if truthy v then py_str v else fallback)"

definition build_composio_config :: "(string \<Rightarrow> pyval option) \<Rightarrow> pydict \<Rightarrow> composio_config" where
  "build_composio_config loads s =
     (let api_key = py_strip (str_or_empty (setting s ''composio_api_key'' (PStr []))) in
      \<lparr> cx_enabled = truthy (setting s ''enable_wiii_connect_composio'' (PBool False)),
        cx_api_key = api_key, cx_api_key_present = (api_key \<noteq> []),
        cx_base_url = rstrip_slash (or_text (setting s ''composio_base_url'' (PStr ''https://backend.composio.dev''))
          ''https://backend.composio.dev''),
        cx_api_version = py_strip (or_text (setting s ''composio_api_version'' (PStr ''v3.1'')) ''v3.1''),
        cx_auth_config_by_provider = parse_auth_config_map loads (setting s ''composio_auth_config_map'' (PStr [])),
        cx_readonly_execute_enabled =
          truthy (setting s ''enable_wiii_connect_composio_readonly_execute'' (PBool False)),
        cx_readonly_allowlist =
          parse_readonly_action_allowlist loads (setting s ''composio_readonly_action_allowlist'' (PStr [])),
        cx_apply_execute_enabled =
          truthy (setting s ''enable_wiii_connect_composio_apply_execute'' (PBool False)),
        cx_apply_allowlist =
          parse_apply_action_allowlist loads (setting s ''composio_apply_action_allowlist'' (PStr [])) \<rparr>)"

text \<open>\<open>provider_registry_public_metadata\<close>: the catalogue under a configuration.\<close>

definition registry_runtime_entry :: "composio_config \<Rightarrow> provider_entry \<Rightarrow> provider_entry" where
  "registry_runtime_entry c e =
     (if pe_provider_kind e \<noteq> Composio then e else composio_execution_enabled_entry e c)"

definition provider_registry_public_metadata :: "composio_config \<Rightarrow> pydict" where
  "provider_registry_public_metadata c =
     [(''version'', PStr ''wiii_connect_provider_registry.v1''),
      (''adapter_version'', PStr adapter_version),
      (''providers'', PList (map (\<lambda>e. let effective = registry_runtime_entry c e in
         PDict (dict_set ''action_catalog''
           (PDict (action_catalog_summary_for_provider (pe_slug effective) (Some (pe_action_allowlist effective))))
           (provider_to_public_metadata effective)))
         (list_provider_registry None)))]"

section \<open>Normal form of action slugs\<close>

text \<open>What the case mapping of one character may do.\<close>

lemma upper_char_cases:
  obtains (kept) "upper_char c = [c]"
    | (double) "upper_char c = ''SS''" "code c = 223"
    | (letter) d where "upper_char c = [d]" "upper_char d = [d]" "\<not> py_isspace c" "\<not> py_isspace d" "d \<noteq> CHR ''-''"
proof -
  consider (low) "97 \<le> code c \<and> code c \<le> 122 \<or> 224 \<le> code c \<and> code c \<le> 254 \<and> code c \<noteq> 247" | (sharp) "code c = 223"
    | (other) "\<not> (97 \<le> code c \<and> code c \<le> 122 \<or> 224 \<le> code c \<and> code c \<le> 254 \<and> code c \<noteq> 247)" "code c \<noteq> 223" by blast
  then show thesis
  proof cases
    case low
    define d where "d = (char_of (code c - 32) :: char)"
    have d: "code d = code c - 32" using less_imp_diff_less [OF code_less, of c 32] by (simp add: d_def)
    have range: "65 \<le> code d \<and> code d \<le> 90 \<or> 192 \<le> code d \<and> code d \<le> 222" "code d \<noteq> 223"
      using low unfolding d by auto
    show thesis
    proof (rule letter [of d])
      show "upper_char c = [d]" using low by (simp add: upper_char_def d_def)
      show "upper_char d = [d]" using range by (auto simp: upper_char_def Let_def)
      show "\<not> py_isspace c" using low by (auto simp: py_isspace_def)
      show "\<not> py_isspace d" using range by (auto simp: py_isspace_def)
      show "d \<noteq> CHR ''-''" using range by (auto simp: code_def)
    qed
  next
    case sharp
    then show thesis by (intro double) (simp_all add: upper_char_def)
  next
    case other
    then show thesis by (intro kept) (auto simp: upper_char_def Let_def)
  qed
qed

lemma upper_char_plain [simp]: "upper_char (CHR ''S'') = ''S''" "upper_char (CHR ''_'') = ''_''"
  by (simp_all add: upper_char_def code_def)

lemma upper_char_facts:
  "py_isspace c \<longrightarrow> upper_char c = [c]"
  "\<not> py_isspace c \<longrightarrow> list_all (\<lambda>d. \<not> py_isspace d) (upper_char c) \<and> upper_char c \<noteq> []"
  "concat (map upper_char (upper_char c)) = upper_char c"
  "concat (map upper_char (dash_to_underscore (upper_char c))) = dash_to_underscore (upper_char c)"
  by (cases rule: upper_char_cases [of c];
      auto simp: py_isspace_def code_def dash_to_underscore_def py_replace_char_def)+

lemma py_upper_idem [simp]: "py_upper (py_upper s) = py_upper s"
  by (induction s) (simp_all add: py_upper_def upper_char_facts(3))

lemma dropWhile_concat:
  assumes "\<And>c. P c \<Longrightarrow> f c = [c]" "\<And>c. \<not> P c \<Longrightarrow> list_all (\<lambda>d. \<not> P d) (f c) \<and> f c \<noteq> []"
  shows "dropWhile P (concat (map f s)) = concat (map f (dropWhile P s))"
proof (induction s)
  case (Cons c s)
  then show ?case
  proof (cases "P c")
    case False
    then obtain d ds where "f c = d # ds" "\<not> P d" using assms(2) [of c] by (cases "f c") auto
    then show ?thesis using False by simp
  qed (simp add: assms(1))
qed simp

lemma py_strip_upper: "py_strip (py_upper s) = py_upper (py_strip s)"
proof -
  have front: "dropWhile py_isspace (py_upper s) = py_upper (dropWhile py_isspace s)" for s
    unfolding py_upper_def by (rule dropWhile_concat) (use upper_char_facts(1,2) in auto)
  have rev: "rev (py_upper s) = concat (map (\<lambda>c. rev (upper_char c)) (rev s))" for s
    by (simp add: py_upper_def rev_concat rev_map comp_def)
  have backwards: "dropWhile py_isspace (rev (py_upper s)) = rev (py_upper (rev (dropWhile py_isspace (rev s))))" for s
    unfolding rev by (subst dropWhile_concat) (use upper_char_facts(1,2) in \<open>auto simp: list_all_iff rev\<close>)
  show ?thesis by (simp add: py_strip_def py_lstrip_def py_rstrip_def front backwards)
qed

lemma py_upper_dash_upper: "py_upper (dash_to_underscore (py_upper s)) = dash_to_underscore (py_upper s)"
proof (induction s)
  case (Cons c s)
  have split: "dash_to_underscore (xs @ ys) = dash_to_underscore xs @ dash_to_underscore ys" for xs ys
    by (simp add: dash_to_underscore_def py_replace_char_def)
  show ?case using Cons upper_char_facts(4) [of c] by (simp add: py_upper_def split)
qed (simp add: py_upper_def dash_to_underscore_def py_replace_char_def)

lemma normalize_action_slug_idem [simp]: "normalize_action_slug (normalize_action_slug s) = normalize_action_slug s"
  by (simp add: normalize_action_slug_def py_strip_dash py_strip_upper py_upper_dash_upper)

section \<open>What the allowlists can hold\<close>

lemma sorted_set_unique: "sorted xs \<Longrightarrow> distinct xs \<Longrightarrow> set xs = set ys \<Longrightarrow> sorted_set ys = xs"
  by (simp add: sorted_set_def sorted_distinct_set_unique)

lemma set_sort_remdups [simp]: "set (sorted_set xs) = set xs" "sorted (sorted_set xs)" "distinct (sorted_set xs)"
  by (simp_all add: sorted_set_def)

definition table_pairs :: "(string \<times> string list) list \<Rightarrow> (string \<times> string) set" where
  "table_pairs t = {(p, a). \<exists>as. (p, as) \<in> set t \<and> a \<in> set as}"

definition table_wf :: "(string \<times> string list) list \<Rightarrow> bool" where
  "table_wf t \<longleftrightarrow> sorted (map fst t) \<and> distinct (map fst t)
     \<and> list_all (\<lambda>(p, as). as \<noteq> [] \<and> sorted as \<and> distinct as) t"

lemma allowlist_of_pairs: "table_pairs (allowlist_of ps) = set ps" "table_wf (allowlist_of ps)"
proof -
  have keys: "map fst (allowlist_of ps) = sorted_set (map fst ps)"
    by (simp add: allowlist_of_def comp_def)
  show "table_pairs (allowlist_of ps) = set ps"
    by (force simp: table_pairs_def allowlist_of_def)
  have "sorted_set (map snd (filter (\<lambda>(q, a). q = p) ps)) \<noteq> []" if "p \<in> fst ` set ps" for p
  proof
    assume "sorted_set (map snd (filter (\<lambda>(q, a). q = p) ps)) = []"
    then have "set (sorted_set (map snd (filter (\<lambda>(q, a). q = p) ps))) = {}" by (simp only: list.set)
    then show False using that by auto
  qed
  then show "table_wf (allowlist_of ps)"
    unfolding table_wf_def keys by (auto simp: allowlist_of_def list_all_iff)
qed

text \<open>A well-formed table is the only one with its pairs.\<close>

lemma allowlist_of_unique:
  assumes "table_wf t" "set ps = table_pairs t"
  shows "allowlist_of ps = t"
proof -
  have wf: "sorted (map fst t)" "distinct (map fst t)" "\<And>p as. (p, as) \<in> set t \<Longrightarrow> as \<noteq> [] \<and> sorted as \<and> distinct as"
    using assms(1) by (auto simp: table_wf_def list_all_iff)
  have "p \<in> set (map fst ps)" if "(p, as) \<in> set t" for p as
  proof -
    have "as \<noteq> []" using wf(3) that by blast
    then obtain a where "a \<in> set as" by (cases as) auto
    then have "(p, a) \<in> set ps" using assms(2) that by (auto simp: table_pairs_def)
    then show ?thesis by force
  qed
  moreover have "p \<in> set (map fst t)" if "(p, a) \<in> set ps" for p a
    using that assms(2) by (auto simp: table_pairs_def image_iff) force
  ultimately have "set (map fst t) = set (map fst ps)" by auto
  then have keys: "sorted_set (map fst ps) = map fst t"
    by (intro sorted_set_unique wf(1,2))
  have "sorted_set (map snd (filter (\<lambda>(q, a). q = p) ps)) = as" if "(p, as) \<in> set t" for p as
  proof (rule sorted_set_unique)
    have only: "bs = as" if "(p, bs) \<in> set t" for bs
      using eq_key_imp_eq_value [OF wf(2) that \<open>(p, as) \<in> set t\<close>] .
    have "a \<in> set as \<longleftrightarrow> (p, a) \<in> set ps" for a
      unfolding assms(2) table_pairs_def using that only by blast
    then show "set as = set (map snd (filter (\<lambda>(q, a). q = p) ps))" by force
  qed (use wf(3) [OF that] in auto)
  then have "map (\<lambda>p. (p, sorted_set (map snd (filter (\<lambda>(q, a). q = p) ps)))) (map fst t) = t"
    by (simp add: comp_def) (rule map_idI, auto)
  then show ?thesis by (simp add: allowlist_of_def keys)
qed

text \<open>What may be listed: an action of the catalogue, by its own slug and that of its provider.\<close>

definition curated_pairs :: "mutation list \<Rightarrow> (string \<times> string) set" where
  "curated_pairs ms = {(ca_provider_slug a, ca_slug a) | a. a \<in> set curated_actions \<and> ca_mutation a \<in> set ms}"

lemma curated_exists_iff:
  "normalize_action_slug a = a \<Longrightarrow> normalize_provider_slug p = p \<Longrightarrow> p \<noteq> [] \<Longrightarrow>
     curated_action_exists ms p a \<longleftrightarrow> (p, a) \<in> curated_pairs ms"
proof -
  assume nf: "normalize_action_slug a = a" "normalize_provider_slug p = p" "p \<noteq> []"
  then have some: "get_curated_action p a = Some c \<longleftrightarrow> c \<in> set curated_actions \<and> ca_provider_slug c = p \<and> ca_slug c = a" for c
    by (simp add: get_curated_Some)
  have "curated_action_exists ms p a \<longleftrightarrow> (\<exists>c. get_curated_action p a = Some c \<and> ca_mutation c \<in> set ms)"
    by (simp add: curated_action_exists_def split: option.split)
  then show ?thesis by (auto simp: some curated_pairs_def)
qed

lemma coerced_normal: "a \<in> set (coerce_action_values v) \<Longrightarrow> normalize_action_slug a = a \<and> a \<noteq> []"
  by (auto simp: coerce_action_values_def split_action_slugs_def Let_def split: pyval.splits if_splits)

lemma list_curated_provider:
  "a \<in> set (list_curated_actions None True) \<Longrightarrow> a \<in> set curated_actions"
  by (simp add: list_curated_actions_def Let_def)

lemma curated_provider_normal:
  "a \<in> set curated_actions \<Longrightarrow> normalize_provider_slug (ca_provider_slug a) = ca_provider_slug a \<and> ca_provider_slug a \<noteq> []"
proof -
  have "list_all (\<lambda>a. normalize_provider_slug (ca_provider_slug a) = ca_provider_slug a \<and> ca_provider_slug a \<noteq> []) curated_actions"
    by code_simp
  then show "a \<in> set curated_actions \<Longrightarrow> ?thesis" by (simp add: list_all_iff)
qed

lemma empty_slug: "normalize_provider_slug [] = []"
  by code_simp

lemma provider_for_normal:
  "normalize_provider_slug (provider_for_curated_action_slug ms a) = provider_for_curated_action_slug ms a"
proof -
  have "\<exists>c \<in> set curated_actions. q = ca_provider_slug c" if "provider_for_curated_action_slug ms a = q" "q \<noteq> []" for q
  proof -
    have found: "provider_for_curated_action_slug ms a \<noteq> []" "provider_for_curated_action_slug ms a = q" using that by simp_all
    obtain c where "filter (\<lambda>c. ca_slug c = normalize_action_slug a \<and> ca_mutation c \<in> set ms) (list_curated_actions None True) = [c]"
        "q = ca_provider_slug c"
      using found unfolding provider_for_curated_action_slug_def Let_def
      by (cases "filter (\<lambda>c. ca_slug c = normalize_action_slug a \<and> ca_mutation c \<in> set ms) (list_curated_actions None True)"
          rule: remdups_adj.cases) auto
    then have "c \<in> set (filter (\<lambda>c. ca_slug c = normalize_action_slug a \<and> ca_mutation c \<in> set ms) (list_curated_actions None True))"
      by simp
    then have "c \<in> set (list_curated_actions None True)" by (simp only: set_filter mem_Collect_eq)
    then show ?thesis using \<open>q = ca_provider_slug c\<close> list_curated_provider by blast
  qed
  note found = this [OF refl]
  show ?thesis
  proof (cases "provider_for_curated_action_slug ms a = []")
    case False
    then show ?thesis using found curated_provider_normal by fastforce
  qed (simp add: empty_slug)
qed

lemma mapping_pairs:
  "table_pairs (normalize_allowlist_mapping ms d) \<subseteq> curated_pairs ms"
  by (auto simp: normalize_allowlist_mapping_def allowlist_of_pairs Let_def curated_exists_iff dest!: coerced_normal)

lemma items_pairs:
  "table_pairs (normalize_allowlist_items ms xs) \<subseteq> curated_pairs ms"
  by (auto simp: normalize_allowlist_items_def allowlist_of_pairs Let_def curated_exists_iff provider_for_normal split: if_splits)

lemma text_pairs:
  "table_pairs (allowlist_of (allowlist_text_pairs ms text')) \<subseteq> curated_pairs ms"
proof -
  have item: "normalize_provider_slug (fst (allowlist_item pair)) = fst (allowlist_item pair)" for pair
    by (auto simp: allowlist_item_def empty_slug Let_def split: option.splits)
  have split: "normalize_action_slug a = a" if "a \<in> set (split_action_slugs v)" for a v
    using that by (auto simp: split_action_slugs_def Let_def)
  have "(p, a) \<in> curated_pairs ms" if "(p, a) \<in> set (allowlist_text_pairs ms text')" for p a
  proof -
    note listed = that
    obtain pair where pa: "a \<in> set (split_action_slugs (snd (allowlist_item pair)))" "curated_action_exists ms p a" "p \<noteq> []"
        "p = str_or (fst (allowlist_item pair)) (provider_for_curated_action_slug ms a)"
      using listed by (auto simp: allowlist_text_pairs_def Let_def case_prod_unfold split: if_splits)
    then have "normalize_provider_slug p = p" using item provider_for_normal by (auto simp: str_or_def)
    then show ?thesis using pa split curated_exists_iff by blast
  qed
  then show ?thesis by (auto simp: allowlist_of_pairs)
qed

lemma parsed_pairs:
  "table_pairs (parse_action_allowlist loads ms raw) \<subseteq> curated_pairs ms" "table_wf (parse_action_allowlist loads ms raw)"
proof -
  have none: "table_pairs [] = {}" "table_wf []" by (simp_all add: table_pairs_def table_wf_def)
  have wf: "table_wf (normalize_allowlist_mapping ms d)" "table_wf (normalize_allowlist_items ms xs)" for d xs
    by (simp_all add: normalize_allowlist_mapping_def normalize_allowlist_items_def allowlist_of_pairs)
  have "table_pairs (parse_action_allowlist loads ms raw) \<subseteq> curated_pairs ms \<and> table_wf (parse_action_allowlist loads ms raw)"
    unfolding parse_action_allowlist_def Let_def
    using mapping_pairs [of ms] items_pairs [of ms] text_pairs [of ms] none wf allowlist_of_pairs(2)
    by (auto split: pyval.split option.split)
  then show "table_pairs (parse_action_allowlist loads ms raw) \<subseteq> curated_pairs ms" "table_wf (parse_action_allowlist loads ms raw)"
    by auto
qed

definition table_setting :: "(string \<times> string list) list \<Rightarrow> pyval" where
  "table_setting t = PDict (map (\<lambda>(p, as). (p, PTuple (map PStr as))) t)"

text \<open>Property C29: whatever the setting is, the parsed allowlist holds only actions of the catalogue with the mutation asked for,
  each under its own provider, without duplicates and in order; and the table read as a setting again
  is itself.\<close>

theorem parse_action_allowlist_stable:
  "let t = parse_action_allowlist loads ms raw in
     table_pairs t \<subseteq> curated_pairs ms \<and> table_wf t \<and> parse_action_allowlist loads ms (table_setting t) = t"
proof -
  define t where "t = parse_action_allowlist loads ms raw"
  have t: "table_pairs t \<subseteq> curated_pairs ms" "table_wf t" by (simp_all add: t_def parsed_pairs)
  have nf: "normalize_provider_slug p = p \<and> p \<noteq> [] \<and> normalize_action_slug a = a \<and> a \<noteq> [] \<and> curated_action_exists ms p a"
    if "(p, a) \<in> table_pairs t" for p a
  proof -
    have "(p, a) \<in> curated_pairs ms" using that t(1) by blast
    then have "normalize_provider_slug p = p" "p \<noteq> []" "normalize_action_slug a = a" "a \<noteq> []"
      using curated_slug_normal curated_provider_normal by (auto simp: curated_pairs_def)
    then show ?thesis using \<open>(p, a) \<in> curated_pairs ms\<close> curated_exists_iff by blast
  qed
  have row: "(let provider = normalize_provider_slug p in map (\<lambda>a. (provider, a))
        (filter (\<lambda>a. provider \<noteq> [] \<and> curated_action_exists ms provider a) (coerce_action_values (PTuple (map PStr as)))))
      = map (\<lambda>a. (p, a)) as" if "(p, as) \<in> set t" for p as
  proof -
    have "(p, a) \<in> table_pairs t" if "a \<in> set as" for a
      using that \<open>(p, as) \<in> set t\<close> by (auto simp: table_pairs_def)
    then have each: "normalize_provider_slug p = p" "p \<noteq> []" "normalize_action_slug a = a" "a \<noteq> []" "curated_action_exists ms p a"
      if "a \<in> set as" for a using nf that by blast+
    then have "coerce_action_values (PTuple (map PStr as)) = as"
      by (simp add: coerce_action_values_def comp_def) (metis (no_types, lifting) filter_True map_idI)
    moreover have "filter (\<lambda>a. p \<noteq> [] \<and> curated_action_exists ms p a) as = as"
      using each by (simp add: filter_id_conv)
    moreover have "normalize_provider_slug p = p" if "as \<noteq> []" using that each(1) by (cases as) auto
    ultimately show ?thesis by (cases "as = []") (simp_all add: Let_def)
  qed
  have "parse_action_allowlist loads ms (table_setting t)
      = allowlist_of (concat (map (\<lambda>(p, as). map (\<lambda>a. (p, a)) as) t))"
    unfolding parse_action_allowlist_def table_setting_def normalize_allowlist_mapping_def pyval.case
    by (rule arg_cong [of _ _ "\<lambda>x. allowlist_of (concat x)"]) (use row in \<open>auto simp: comp_def case_prod_unfold\<close>)
  also have "\<dots> = t" by (rule allowlist_of_unique [OF t(2)]) (force simp: table_pairs_def)
  finally show ?thesis using t by (simp add: t_def Let_def)
qed

end
