(* ===== verification/Composio_Accounts.thy ===== *)
theory Composio_Accounts
  imports Composio_Config
begin

text \<open>
  The account side of \<open>app/engine/wiii_connect/composio_adapter.py\<close>: finding the auth config of a
  provider, issuing a connect link, listing the connected accounts and the Facebook pages of a
  user, and deleting an account. As in \<open>Composio\<close>, the HTTP client is a parameter and the
  requests sent are part of every result.
\<close>

section \<open>Auth configs\<close>

record auth_config_lookup =
  al_ready :: bool
  al_auth_config_id :: string
  al_reason :: string

text \<open>The first of the keys whose value is a list.\<close>

fun first_list :: "pydict \<Rightarrow> string list \<Rightarrow> pyval list" where
  "first_list d [] = []"
| "first_list d (k # ks) = (case dict_get d k of Some (PList xs) \<Rightarrow> xs | _ \<Rightarrow> first_list d ks)"

definition dict_items :: "pyval list \<Rightarrow> pydict list" where
  "dict_items xs = List.map_filter (\<lambda>x. case x of PDict d \<Rightarrow> Some d | _ \<Rightarrow> None) xs"

definition extract_auth_config_items :: "pyval \<Rightarrow> pydict list" where
  "extract_auth_config_items data =
     (case data of
        PList xs \<Rightarrow> dict_items xs
      | PDict d \<Rightarrow> dict_items (first_list d [''items'', ''data'', ''auth_configs'', ''authConfigs'', ''configs''])
      | _ \<Rightarrow> [])"

definition is_auth_config_enabled :: "pydict \<Rightarrow> bool" where
  "is_auth_config_enabled item =
     (case dict_get item ''enabled'' of
        Some (PBool b) \<Rightarrow> b
      | _ \<Rightarrow> py_lower (first_key_text item [''status'', ''state''])
          \<in> {''active'', ''enabled'', ''connected'', ''ready''})"

definition safe_auth_config_id :: "pydict \<Rightarrow> string" where
  "safe_auth_config_id item = first_key_text item [''id'', ''nanoid'', ''nanoId'', ''auth_config_id'', ''authConfigId'']"

definition api_key_header :: "composio_config \<Rightarrow> (string \<times> string) list" where
  "api_key_header c = [(''x-api-key'', cx_api_key c)]"

definition lookup_request :: "composio_config \<Rightarrow> string \<Rightarrow> http_request" where
  "lookup_request c provider = HttpGet (tool_url c ''/auth_configs'' [])
     [(''toolkit_slug'', provider), (''show_disabled'', ''true''), (''limit'', ''25'')] (api_key_header c)"

definition resolve_auth_config_id ::
    "http_client \<Rightarrow> composio_config \<Rightarrow> string \<Rightarrow> auth_config_lookup \<times> http_request list" where
  "resolve_auth_config_id client c provider_slug =
     (let provider = normalize_provider_slug provider_slug;
          configured = auth_config_id_for_provider c provider;
          refused = (\<lambda>reason. \<lparr> al_ready = False, al_auth_config_id = [], al_reason = reason \<rparr>)
      in if configured \<noteq> []
         then (\<lparr> al_ready = True, al_auth_config_id = configured, al_reason = ''configured'' \<rparr>, [])
      else if \<not> cx_enabled c \<or> \<not> cx_api_key_present c then (refused ''provider_adapter_not_configured'', [])
      else if provider = [] then (refused ''missing_provider'', [])
      else let request = lookup_request c provider in
        (case client request of
           TransportError \<Rightarrow> refused ''provider_transport_error''
         | HttpResponse status body \<Rightarrow>
             if status < 200 \<or> status \<ge> 300 then refused ''provider_response_rejected''
             else (case body of
               None \<Rightarrow> refused ''provider_response_invalid''
             | Some data \<Rightarrow>
                 (case extract_auth_config_items data of
                    [] \<Rightarrow> refused ''provider_auth_config_missing''
                  | item # items \<Rightarrow>
                      let preferred = or_default (find is_auth_config_enabled (item # items)) item;
                          auth_config_id = safe_auth_config_id preferred
                      in if auth_config_id = [] then refused ''provider_response_invalid''
                         else \<lparr> al_ready = True, al_auth_config_id = auth_config_id,
                           al_reason = ''provider_lookup'' \<rparr>)), [request]))"

section \<open>Connect links\<close>

record connect_link =
  ln_ready :: bool
  ln_redirect_url :: string
  ln_connected_account_id :: string
  ln_expires_at :: string
  ln_connected_account_ref_present :: bool
  ln_reason :: string

definition link_refused :: "string \<Rightarrow> connect_link" where
  "link_refused reason = \<lparr> ln_ready = False, ln_redirect_url = [], ln_connected_account_id = [],
     ln_expires_at = [], ln_connected_account_ref_present = False, ln_reason = reason \<rparr>"

definition safe_connect_link_reason :: "string \<Rightarrow> string" where
  "safe_connect_link_reason value =
     (let reason = py_strip value in
      if reason \<in> {''ready'', ''not_requested'', ''provider_adapter_not_configured'',
          ''missing_user_or_callback'', ''missing_provider'', ''provider_auth_config_missing'',
          ''provider_transport_error'', ''provider_response_rejected'', ''provider_response_invalid'',
          ''provider_response_missing_redirect''}
      then reason else ''provider_response_unavailable'')"

definition link_audit_metadata :: "connect_link \<Rightarrow> pydict" where
  "link_audit_metadata l =
     [(''ready'', PBool (ln_ready l)),
      (''redirect_url_present'', PBool (ln_redirect_url l \<noteq> [])),
      (''expires_at_present'', PBool (ln_expires_at l \<noteq> [])),
      (''connected_account_ref_present'', PBool (ln_connected_account_ref_present l)),
      (''reason'', PStr (safe_connect_link_reason (ln_reason l)))]"

text \<open>\<open>data.get\<close> on a body that is JSON but not an object raises \<open>AttributeError\<close>.\<close>

datatype adapter_error = BodyAttributeError

definition link_request :: "composio_config \<Rightarrow> string \<Rightarrow> string \<Rightarrow> string \<Rightarrow> http_request" where
  "link_request c auth_config_id user_id callback_url =
     HttpPost (tool_url c ''/connected_accounts/link'' [])
       [(''auth_config_id'', PStr auth_config_id), (''user_id'', PStr user_id),
        (''callback_url'', PStr callback_url)] (api_key_header c)"

definition create_connect_link ::
    "http_client \<Rightarrow> composio_config \<Rightarrow> string \<Rightarrow> string \<Rightarrow> string \<Rightarrow>
     (adapter_error + connect_link) \<times> http_request list" where
  "create_connect_link client c provider_slug user_id callback_url =
     (if \<not> cx_enabled c \<or> \<not> cx_api_key_present c
      then (Inr (link_refused ''provider_adapter_not_configured''), [])
      else if user_id = [] \<or> callback_url = [] then (Inr (link_refused ''missing_user_or_callback''), [])
      else let (auth_config, asked) = resolve_auth_config_id client c provider_slug in
        if \<not> al_ready auth_config then (Inr (link_refused (al_reason auth_config)), asked)
        else let request = link_request c (al_auth_config_id auth_config) user_id callback_url in
        (case client request of
           TransportError \<Rightarrow> Inr (link_refused ''provider_transport_error'')
         | HttpResponse status body \<Rightarrow>
             if status < 200 \<or> status \<ge> 300 then Inr (link_refused ''provider_response_rejected'')
             else (case body of
               None \<Rightarrow> Inr (link_refused ''provider_response_invalid'')
             | Some (PDict data) \<Rightarrow>
                 (let field = first_key_text data;
                      redirect_url = field [''redirect_url'', ''redirectUrl''];
                      account = field [''connected_account_id'', ''connectedAccountId'']
                  in Inr (if redirect_url = [] then link_refused ''provider_response_missing_redirect''
                     else \<lparr> ln_ready = True, ln_redirect_url = redirect_url, ln_connected_account_id = account,
                       ln_expires_at = field [''expires_at'', ''expiresAt''],
                       ln_connected_account_ref_present = (account \<noteq> []), ln_reason = ''ready'' \<rparr>))
             | Some _ \<Rightarrow> Inl BodyAttributeError),
         asked @ [request]))"

section \<open>Listing connected accounts\<close>

record connection_list =
  li_ready :: bool
  li_reason :: string
  li_connections :: "connection_record list"
  li_cursor :: string

definition list_refused :: "string \<Rightarrow> connection_list" where
  "list_refused reason = \<lparr> li_ready = False, li_reason = reason, li_connections = [], li_cursor = [] \<rparr>"

definition safe_connection_list_reason :: "string \<Rightarrow> string" where
  "safe_connection_list_reason value =
     (let reason = py_strip value in
      if reason \<in> {''ready'', ''not_requested'', ''provider_adapter_not_configured'', ''missing_user'',
          ''missing_provider'', ''provider_auth_config_missing'', ''provider_transport_error'',
          ''provider_response_rejected'', ''provider_response_invalid''}
      then reason else ''provider_response_unavailable'')"

definition connection_list_metadata :: "connection_list \<Rightarrow> pydict" where
  "connection_list_metadata l =
     [(''version'', PStr ''wiii_connect_composio_connections.v1''),
      (''status'', PStr (if li_ready l then ''ready'' else ''blocked'')),
      (''reason'', PStr (safe_connection_list_reason (li_reason l))),
      (''connection_count'', PInt (int (length (li_connections l)))),
      (''cursor_present'', PBool (li_cursor l \<noteq> [])),
      (''connections'', PList (map (\<lambda>r. PDict (connection_to_public_metadata r)) (li_connections l)))]"

definition provider_managed_ref :: "string \<Rightarrow> string \<Rightarrow> vault_secret_ref" where
  "provider_managed_ref slug connection_id =
     \<lparr> vr_provider_slug = slug, vr_connection_id = connection_id,
       vr_vault_key_id = ''provider-managed://composio/'' @ connection_id,
       vr_secret_version = ''provider_managed'' \<rparr>"

definition connection_of_account :: "string \<Rightarrow> pyval \<Rightarrow> connection_record option" where
  "connection_of_account provider_slug account =
     (case account of
        PDict d \<Rightarrow>
          let connection_id = first_key_text d [''id'', ''nanoid'', ''nanoId'',
                ''connected_account_id'', ''connectedAccountId''];
              state = normalize_connection_state (Some (first_key_text d [''status'']));
              slug = normalize_provider_slug provider_slug
          in if connection_id = [] then None
             else Some
               \<lparr> cr_connection_id = connection_id, cr_provider_slug = slug, cr_state = state,
                 cr_scopes = no_scopes\<lparr>sg_read := (state = Connected)\<rparr>,
                 cr_vault_ref = Some (provider_managed_ref slug connection_id),
                 cr_account_label = [], cr_external_account_ref = [], cr_last_checked_at = None,
                 cr_reason = ''provider_connection_list'',
                 cr_warnings = (if state = Connected then [] else [''provider_status_not_active'']) \<rparr>
      | _ \<Rightarrow> None)"

definition extract_connection_items :: "pyval \<Rightarrow> pyval list" where
  "extract_connection_items data =
     (case data of
        PList xs \<Rightarrow> xs
      | PDict d \<Rightarrow> first_list d [''items'', ''data'', ''connected_accounts'', ''connectedAccounts'', ''connections'']
      | _ \<Rightarrow> [])"

definition list_request :: "composio_config \<Rightarrow> string \<Rightarrow> string \<Rightarrow> int \<Rightarrow> http_request" where
  "list_request c auth_config_id user_id limit =
     HttpGet (tool_url c ''/connected_accounts'' [])
       [(''user_ids'', user_id), (''auth_config_ids'', auth_config_id), (''account_type'', ''PRIVATE''),
        (''limit'', dec_int (max 1 (min (if limit = 0 then 50 else limit) 100)))] (api_key_header c)"

definition list_connected_accounts ::
    "http_client \<Rightarrow> composio_config \<Rightarrow> string \<Rightarrow> string \<Rightarrow> int \<Rightarrow> connection_list \<times> http_request list" where
  "list_connected_accounts client c provider_slug user_id limit =
     (if \<not> cx_enabled c \<or> \<not> cx_api_key_present c
      then (list_refused ''provider_adapter_not_configured'', [])
      else if user_id = [] then (list_refused ''missing_user'', [])
      else let (auth_config, asked) = resolve_auth_config_id client c provider_slug in
        if \<not> al_ready auth_config then (list_refused (al_reason auth_config), asked)
        else let request = list_request c (al_auth_config_id auth_config) user_id limit in
        (case client request of
           TransportError \<Rightarrow> list_refused ''provider_transport_error''
         | HttpResponse status body \<Rightarrow>
             if status < 200 \<or> status \<ge> 300 then list_refused ''provider_response_rejected''
             else (case body of
               None \<Rightarrow> list_refused ''provider_response_invalid''
             | Some data \<Rightarrow> \<lparr> li_ready = True, li_reason = ''ready'',
                 li_connections = List.map_filter (connection_of_account provider_slug)
                   (extract_connection_items data),
                 li_cursor = (case data of
                   PDict d \<Rightarrow> first_key_text d [''cursor'', ''next_cursor'']
                 | _ \<Rightarrow> []) \<rparr>),
         asked @ [request]))"

section \<open>Facebook pages\<close>

record page_option =
  po_page_id :: string
  po_name :: string
  po_category :: string
  po_link :: string

definition safe_page_id :: "string \<Rightarrow> string" where
  "safe_page_id value =
     filter (\<lambda>c. py_isalnum c \<or> c \<in> {CHR ''_'', CHR ''-'', CHR '':''}) (take 120 (py_strip value))"

definition safe_page_text :: "string \<Rightarrow> string" where
  "safe_page_text value =
     (let text = squash_spaces (py_strip value) in
      if contains_any secret_markers (py_lower text) then ''redacted_sensitive_value'' else take 160 text)"

definition safe_page_link :: "string \<Rightarrow> string" where
  "safe_page_link value =
     (let text = py_strip value in
      if \<not> py_startswith ''https://'' text \<and> \<not> py_startswith ''http://'' text then []
      else if contains_any secret_markers (py_lower text) then [] else take 240 text)"

definition page_option_metadata :: "page_option \<Rightarrow> pydict" where
  "page_option_metadata p =
     [(''page_id'', PStr (composio_safe_public_key (po_page_id p))),
      (''name'', PStr (safe_page_text (po_name p))),
      (''category'', PStr (safe_page_text (po_category p))),
      (''link'', PStr (safe_page_link (po_link p)))]"

definition page_option_of :: "pyval \<Rightarrow> page_option option" where
  "page_option_of item =
     (case item of
        PDict d \<Rightarrow>
          let field = (\<lambda>ks. str_or_empty (first_truthy d ks (PStr [])));
              page_id = safe_page_id (field [''id'', ''page_id''])
          in if page_id = [] then None
             else Some \<lparr> po_page_id = page_id, po_name = safe_page_text (field [''name'']),
               po_category = safe_page_text (field [''category'']),
               po_link = safe_page_link (field [''link'', ''url'']) \<rparr>
      | _ \<Rightarrow> None)"

lemma size_dict_get: "dict_get d k = Some v \<Longrightarrow> size v < size (PDict d)"
proof -
  assume "dict_get d k = Some v"
  then have "(k, v) \<in> set d" by (simp add: dict_get_def map_of_SomeD)
  then show ?thesis by (induction d) auto
qed

text \<open>The pages of a response: under the first key that holds a list, or a dictionary with pages in it.
  The code's second look at \<open>data\<close> after the loop finds nothing the loop has not found.\<close>

function extract_page_items :: "pyval \<Rightarrow> pyval list" and
  page_items_under :: "pydict \<Rightarrow> string list \<Rightarrow> pyval list" where
  "extract_page_items data =
     (case data of
        PList xs \<Rightarrow> xs
      | PDict d \<Rightarrow>
          let found = page_items_under d [''data'', ''pages'', ''items'', ''accounts''] in
          if found \<noteq> [] then found else page_items_under d [''data'']
      | _ \<Rightarrow> [])"
| "page_items_under d [] = []"
| "page_items_under d (k # ks) =
     (case dict_get d k of
        Some (PList xs) \<Rightarrow> xs
      | Some (PDict e) \<Rightarrow>
          let nested = extract_page_items (PDict e) in if nested \<noteq> [] then nested else page_items_under d ks
      | _ \<Rightarrow> page_items_under d ks)"
  by pat_completeness auto

termination
  by (relation "measures [\<lambda>x. case x of Inl v \<Rightarrow> size v | Inr (d, ks) \<Rightarrow> size (PDict d),
      \<lambda>x. case x of Inl v \<Rightarrow> 5 | Inr (d, ks) \<Rightarrow> length ks]")
    (auto dest: size_dict_get)

declare extract_page_items.simps [simp del] page_items_under.simps [simp del]

record page_list =
  pg_ready :: bool
  pg_reason :: string
  pg_request_id :: string
  pg_status_code :: int
  pg_pages :: "page_option list"
  pg_error_present :: bool

definition page_list_metadata :: "page_list \<Rightarrow> pydict" where
  "page_list_metadata l =
     [(''version'', PStr ''wiii_connect_facebook_pages.v1''),
      (''status'', PStr (if pg_ready l then ''ready'' else ''blocked'')),
      (''reason'', PStr (safe_execute_reason (pg_reason l))),
      (''provider_slug'', PStr ''facebook''),
      (''action_slug'', PStr ''FACEBOOK_LIST_MANAGED_PAGES''),
      (''status_code'', PInt (pg_status_code l)),
      (''page_count'', PInt (int (length (pg_pages l)))),
      (''error_present'', PBool (pg_error_present l)),
      (''pages'', PList (map (\<lambda>p. PDict (page_option_metadata p)) (pg_pages l)))]
     @ (let rid = composio_safe_request_id (pg_request_id l) in
        if rid \<noteq> [] then [(''request_id'', PStr rid)] else [])"

definition list_facebook_pages ::
    "http_client \<Rightarrow> composio_config \<Rightarrow> string \<Rightarrow> string \<Rightarrow> string \<Rightarrow> page_list \<times> http_request list" where
  "list_facebook_pages client c user_id connected_account_id request_id =
     (let action = ''FACEBOOK_LIST_MANAGED_PAGES'';
          rid = composio_safe_request_id request_id;
          refused = (\<lambda>reason status. \<lparr> pg_ready = False, pg_reason = reason, pg_request_id = rid,
            pg_status_code = status, pg_pages = [], pg_error_present = False \<rparr>)
      in if \<not> cx_enabled c \<or> \<not> cx_api_key_present c
        then (refused ''provider_adapter_not_configured'' 0, [])
      else if action \<notin> set (executable_action_slugs_for_provider c ''facebook'')
        then (refused ''action_not_allowlisted'' 0, [])
      else if user_id = [] \<or> connected_account_id = []
        then (refused ''missing_user_or_connection'' 0, [])
      else let request = HttpPost (tool_url c ''/tools/execute/'' action)
          [(''user_id'', PStr user_id), (''connected_account_id'', PStr connected_account_id),
           (''arguments'', PDict [(''fields'', PStr ''id,name,category,link''), (''limit'', PInt 25)])]
          (provider_request_headers c rid)
      in (case client request of
           TransportError \<Rightarrow> refused ''provider_transport_error'' 0
         | HttpResponse status body \<Rightarrow>
             if status < 200 \<or> status \<ge> 300 then refused ''provider_response_rejected'' status
             else (case body of
               Some (PDict data) \<Rightarrow>
                 (let successful = (case dict_get data ''successful'' of None \<Rightarrow> True | Some v \<Rightarrow> truthy v)
                  in (refused (if successful then ''ready'' else ''provider_execution_failed'') status)
                    \<lparr>pg_ready := successful,
                     pg_pages := List.map_filter page_option_of (extract_page_items (PDict data)),
                     pg_error_present := get_flag data ''error''\<rparr>)
             | _ \<Rightarrow> refused ''provider_response_invalid'' status), [request]))"

section \<open>Deleting a connected account\<close>

record disconnect_result =
  dc_ready :: bool
  dc_provider_slug :: string
  dc_reason :: string
  dc_status_code :: int
  dc_connection_ref_present :: bool
  dc_provider_success :: bool

definition disconnect_status :: "disconnect_result \<Rightarrow> string" where
  "disconnect_status r =
     (if dc_ready r \<and> dc_provider_success r then ''succeeded'' else if dc_ready r then ''failed'' else ''blocked'')"

definition safe_disconnect_reason :: "string \<Rightarrow> string" where
  "safe_disconnect_reason value =
     (let reason = py_strip value in
      if reason \<in> {''ready'', ''not_requested'', ''provider_adapter_not_configured'', ''missing_connection'',
          ''missing_provider'', ''provider_auth_config_missing'', ''provider_transport_error'',
          ''provider_response_rejected'', ''provider_response_invalid'', ''provider_disconnect_failed''}
      then reason else ''provider_response_unavailable'')"

definition disconnect_metadata :: "disconnect_result \<Rightarrow> pydict" where
  "disconnect_metadata r =
     [(''version'', PStr ''wiii_connect_composio_disconnect.v1''),
      (''status'', PStr (disconnect_status r)),
      (''reason'', PStr (safe_disconnect_reason (dc_reason r))),
      (''provider_slug'', PStr (normalize_provider_slug (dc_provider_slug r))),
      (''status_code'', PInt (dc_status_code r)),
      (''connection_ref_present'', PBool (dc_connection_ref_present r)),
      (''provider_success'', PBool (dc_provider_success r))]"

text \<open>\<open>has_content\<close> says whether the response to a request has a body (\<open>response.content\<close>).\<close>

definition disconnect_connected_account ::
    "http_client \<Rightarrow> (http_request \<Rightarrow> bool) \<Rightarrow> composio_config \<Rightarrow> string \<Rightarrow> string \<Rightarrow>
     disconnect_result \<times> http_request list" where
  "disconnect_connected_account client has_content c provider_slug connected_account_id =
     (let provider = normalize_provider_slug provider_slug;
          connection_id = py_strip connected_account_id;
          refused = (\<lambda>reason status. \<lparr> dc_ready = False, dc_provider_slug = provider, dc_reason = reason,
            dc_status_code = status, dc_connection_ref_present = (connection_id \<noteq> []),
            dc_provider_success = False \<rparr>)
      in if \<not> cx_enabled c \<or> \<not> cx_api_key_present c
        then (refused ''provider_adapter_not_configured'' 0, [])
      else if connection_id = [] then (refused ''missing_connection'' 0, [])
      else let (auth_config, asked) = resolve_auth_config_id client c provider in
        if \<not> al_ready auth_config then (refused (al_reason auth_config) 0, asked)
        else let
          request = HttpDelete (tool_url c ''/connected_accounts/'' connection_id) (api_key_header c);
          done = (\<lambda>success status. (refused (if success then ''ready'' else ''provider_disconnect_failed'') status)
            \<lparr>dc_ready := True, dc_provider_success := success\<rparr>)
        in (case client request of
           TransportError \<Rightarrow> refused ''provider_transport_error'' 0
         | HttpResponse status body \<Rightarrow>
             if status < 200 \<or> status \<ge> 300 then refused ''provider_response_rejected'' status
             else if \<not> has_content request then done True status
             else (case body of
               None \<Rightarrow> refused ''provider_response_invalid'' status
             | Some (PDict data) \<Rightarrow> done (case dict_get data ''success'' of
                 None \<Rightarrow> True | Some v \<Rightarrow> truthy v) status
             | Some _ \<Rightarrow> done True status),
         asked @ [request]))"

end
