(* ===== verification/Connection_Routes.thy ===== *)
theory Connection_Routes
  imports Composio_Accounts Post_Routes
begin

text \<open>
  The routes of \<open>app/api/v1/wiii_connect.py\<close> that connect and disconnect an account: the session
  start, the authorization URL, the provider's callback, the list of connected accounts, the scope
  grant, the disconnect and the list of Facebook pages. A route that waits for the provider is split at its
  \<open>await\<close> into a first part, which returns either an answer or the job that waits, and a second part
  that gets the provider's result; other requests may run in between.
\<close>

section \<open>State, helpers and the arguments of a route\<close>

text \<open>What the routes take from libraries: reading a timestamp, the HTTP client, whether a response has a
  body, \<open>json.loads\<close>, \<open>int\<close> of a string, and setting the query parameter \<open>wiii_state\<close> of a URL
  (\<open>urlsplit\<close>, \<open>parse_qsl\<close> and \<open>urlencode\<close>).\<close>

record ports =
  pt_to_iso :: "string \<Rightarrow> string option"
  pt_client :: http_client
  pt_has_content :: "http_request \<Rightarrow> bool"
  pt_loads :: "nat list \<Rightarrow> pyval option"
  pt_ints :: "string \<Rightarrow> int option"
  pt_with_state :: "string \<Rightarrow> string \<Rightarrow> string"

text \<open>One database call that leaves no event is over; the next one asks the database anew.\<close>

definition next_call :: "world \<Rightarrow> world" where
  "next_call w = w\<lparr>wd_up := (\<lambda>n. wd_up w (Suc n))\<rparr>"

text \<open>The arguments of a route when it resumes: the same but for the time.\<close>

definition later :: "int \<Rightarrow> string \<Rightarrow> post_env \<Rightarrow> post_env" where
  "later clock now n = n\<lparr>en_clock := clock, en_now := now\<rparr>"

definition env_owner :: "post_env \<Rightarrow> string" where
  "env_owner n = owner_organization_id (en_user n)"

definition env_user :: "post_env \<Rightarrow> string" where
  "env_user n = us_user_id (en_user n)"

definition save_connection ::
    "ports \<Rightarrow> int \<Rightarrow> provider_entry \<Rightarrow> connection_record \<Rightarrow> string \<Rightarrow> string \<Rightarrow> world \<Rightarrow> bool \<times> world" where
  "save_connection p clock entry c org user w =
     (let (saved, table) = upsert_connection_record (pt_to_iso p) (db_up w) clock c org user
        (provider_kind_name (pe_provider_kind entry)) (wd_connections w)
      in (saved, next_call (w\<lparr>wd_connections := table\<rparr>)))"

definition read_connection :: "post_env \<Rightarrow> string \<Rightarrow> string \<Rightarrow> world \<Rightarrow> connection_record option \<times> world" where
  "read_connection n slug connection_id w =
     (get_connection_record (db_up w) (env_owner n) (env_user n) slug (Some connection_id) (wd_connections w),
      next_call w)"

definition resolve_connection :: "pydict \<Rightarrow> post_env \<Rightarrow> string \<Rightarrow> string \<Rightarrow> world \<Rightarrow> string \<times> world" where
  "resolve_connection storage n slug ref w =
     (resolve_provider_connection_id storage (en_user n) slug ref w,
      if ref \<noteq> [] \<and> connection_storage_ready storage then next_call w else w)"

definition expire_stale :: "pydict \<Rightarrow> post_env \<Rightarrow> string \<Rightarrow> world \<Rightarrow> nat \<times> world" where
  "expire_stale storage n slug w =
     (if \<not> connection_storage_ready storage then (0, w)
      else let (count, table) = expire_stale_pending_connections (db_up w) (en_clock n) (env_owner n)
        (env_user n) slug 1800 (wd_connections w)
      in (count, next_call (w\<lparr>wd_connections := table\<rparr>)))"

definition append_account_audit ::
    "pydict \<Rightarrow> ledger_record \<Rightarrow> string \<Rightarrow> string \<Rightarrow> world \<Rightarrow> world" where
  "append_account_audit storage r org user w =
     (if \<not> audit_persistent storage then w
      else let (stored, rows) = append_audit_record (db_up w) r org user (wd_audit w)
      in w\<lparr>wd_audit := rows, wd_trace := wd_trace w @ [AuditAppend stored r]\<rparr>)"

definition append_authorization_audit ::
    "auth_url_decision \<Rightarrow> pydict \<Rightarrow> post_env \<Rightarrow> pydict \<Rightarrow> world \<Rightarrow> world" where
  "append_authorization_audit d storage n metadata =
     append_account_audit storage
       (build_audit_ledger_record (en_now n) KProvider (ad_provider_slug d)
         (if ad_ready d then ''ready'' else ''blocked'') (auth_url_reason_name (ad_reason d))
         (aq_surface (ad_request d))
         (Some (dict_merge [(''request'', PDict (auth_url_request_metadata (ad_request d)))] metadata)))
       (env_owner n) (env_user n)"

definition append_provider_lifecycle_audit ::
    "string \<Rightarrow> pydict \<Rightarrow> post_env \<Rightarrow> string \<Rightarrow> string \<Rightarrow> string \<Rightarrow> pydict \<Rightarrow> world \<Rightarrow> world" where
  "append_provider_lifecycle_audit slug storage n status reason surface metadata =
     append_account_audit storage
       (build_audit_ledger_record (en_now n) KProvider slug (safe_surface status) (safe_surface reason)
         (safe_surface surface) (Some metadata))
       (env_owner n) (env_user n)"

definition unknown_provider :: api_error where
  "unknown_provider = HttpError 404 ''unknown_wiii_connect_provider''"

section \<open>Starting a session\<close>

record session_body =
  sb_surface :: string
  sb_redirect_uri :: "string option"
  sb_probe_database :: bool
  sb_requested_scopes :: pydict
  sb_request_metadata :: pydict

definition default_session_body :: session_body where
  "default_session_body = \<lparr> sb_surface = ''desktop'', sb_redirect_uri = None, sb_probe_database = False,
     sb_requested_scopes = [], sb_request_metadata = [] \<rparr>"

definition start_session_route :: "post_env \<Rightarrow> string \<Rightarrow> session_body option \<Rightarrow> api_error + pydict" where
  "start_session_route n slug body =
     (case get_provider_entry slug of
        None \<Rightarrow> Inl unknown_provider
      | Some entry0 \<Rightarrow> let
          b = or_default body default_session_body;
          entry = composio_connect_enabled_entry entry0 (en_config n);
          request = \<lparr> sr_provider_slug = pe_slug entry, sr_surface = sb_surface b,
            sr_requested_scopes = scope_grant_from_mapping (Some (sb_requested_scopes b)),
            sr_redirect_uri_present = present (sb_redirect_uri b),
            sr_request_metadata_keys = dict_keys (sb_request_metadata b) \<rparr>
        in Inr (session_decision_metadata (begin_connection_session (en_now n) entry request None)))"

definition safe_redirect_uri :: "string option \<Rightarrow> string" where
  "safe_redirect_uri value =
     (let text = py_strip (or_default value []) in
      if py_startswith ''https://'' text \<or> py_startswith ''http://'' text then text else [])"

definition append_callback_state :: "ports \<Rightarrow> string \<Rightarrow> string \<Rightarrow> string" where
  "append_callback_state p callback_url state =
     (let text = py_strip callback_url; state_text = py_strip state in
      if text = [] \<or> state_text = [] then text else pt_with_state p text state_text)"

section \<open>The authorization URL\<close>

datatype account_error =
    AccountHttpError api_error | StateRaised state_error | BodyRaised adapter_error

datatype 'j account_reply = Replied pydict | Waits 'j

record authorize_job =
  aj_env :: post_env
  aj_entry :: provider_entry
  aj_request :: auth_url_request
  aj_storage :: pydict
  aj_callback_url :: string
  aj_expired :: nat

definition authorize_decision :: "post_env \<Rightarrow> provider_entry \<Rightarrow> auth_url_request \<Rightarrow> pydict \<Rightarrow> string \<Rightarrow> auth_url_decision" where
  "authorize_decision n entry request storage url =
     decide_authorization_url (en_now n) entry request (Some (composio_capability (en_config n)))
       (Some (composio_vault_capability (en_config n)))
       (Some [(''persistent'', PBool (audit_persistent storage))]) (Some url) True"

definition probed_storage :: "bool \<Rightarrow> post_env \<Rightarrow> pydict" where
  "probed_storage probe n =
     (if probe then env_storage n else storage_status_metadata default_storage_status)"

definition authorize_begin ::
    "ports \<Rightarrow> post_env \<Rightarrow> string \<Rightarrow> session_body option \<Rightarrow> world \<Rightarrow>
     (account_error + authorize_job account_reply) \<times> world" where
  "authorize_begin p n slug body w =
     (case get_provider_entry slug of
        None \<Rightarrow> (Inl (AccountHttpError unknown_provider), w)
      | Some entry0 \<Rightarrow> let
          b = or_default body default_session_body;
          entry = composio_connect_enabled_entry entry0 (en_config n);
          state = build_callback_state (pe_slug entry) (env_owner n) (env_user n) (en_secret n)
            (en_clock n div 1000000) (en_nonce n);
          callback_url = append_callback_state p (safe_redirect_uri (sb_redirect_uri b)) state;
          request = \<lparr> aq_provider_slug = pe_slug entry, aq_surface = sb_surface b,
            aq_requested_scopes = scope_grant_from_mapping (Some (sb_requested_scopes b)),
            aq_state_present = (state \<noteq> []), aq_redirect_uri_present = (callback_url \<noteq> []),
            aq_request_metadata_keys = dict_keys (sb_request_metadata b) \<rparr>;
          storage = probed_storage (sb_probe_database b) n;
          (expired, w1) = expire_stale storage n (pe_slug entry) w;
          preflight = authorize_decision n entry request storage ''wiii-connect://preflight''
        in if \<not> ad_ready preflight
           then (Inr (Replied (auth_url_decision_metadata preflight)),
             append_authorization_audit preflight storage n
               [(''stage'', PStr ''preflight''), (''stale_pending_expired'', PInt (int expired))] w1)
           else (Inr (Waits \<lparr> aj_env = n, aj_entry = entry, aj_request = request, aj_storage = storage,
             aj_callback_url = callback_url, aj_expired = expired \<rparr>), w1))"

definition authorizing_connection :: "provider_entry \<Rightarrow> auth_url_request \<Rightarrow> string \<Rightarrow> connection_record" where
  "authorizing_connection entry request connection_id =
     \<lparr> cr_connection_id = connection_id, cr_provider_slug = pe_slug entry, cr_state = Authorizing,
       cr_scopes = aq_requested_scopes request,
       cr_vault_ref = Some (provider_managed_ref (pe_slug entry) connection_id),
       cr_account_label = [], cr_external_account_ref = [], cr_last_checked_at = None,
       cr_reason = ''connect_link_issued'', cr_warnings = [''awaiting_provider_callback_or_poll''] \<rparr>"

definition upsert_authorizing_connection ::
    "ports \<Rightarrow> post_env \<Rightarrow> connect_link \<Rightarrow> provider_entry \<Rightarrow> auth_url_request \<Rightarrow> pydict \<Rightarrow> world \<Rightarrow> world" where
  "upsert_authorizing_connection p n link entry request storage w =
     (let connection_id = safe_provider_connection_id (Some (ln_connected_account_id link)) in
      if connection_id = [] \<or> \<not> connection_storage_ready storage then w
      else snd (save_connection p (en_clock n) entry (authorizing_connection entry request connection_id)
        (env_owner n) (env_user n) w))"

definition authorize_link :: "ports \<Rightarrow> authorize_job \<Rightarrow> (adapter_error + connect_link) \<times> http_request list" where
  "authorize_link p j =
     create_connect_link (pt_client p) (en_config (aj_env j)) (pe_slug (aj_entry j))
       (composio_external_user_id (us_organization_id (en_user (aj_env j))) (env_user (aj_env j)))
       (aj_callback_url j)"

definition authorize_finish :: "ports \<Rightarrow> int \<Rightarrow> string \<Rightarrow> authorize_job \<Rightarrow> world \<Rightarrow> (account_error + pydict) \<times> world" where
  "authorize_finish p clock now j w =
     (let n = later clock now (aj_env j); (outcome, asked) = authorize_link p j; w1 = send_requests asked w in
      case outcome of
        Inl e \<Rightarrow> (Inl (BodyRaised e), w1)
      | Inr link \<Rightarrow> let
          decision = authorize_decision n (aj_entry j) (aj_request j) (aj_storage j)
            (if ln_ready link then ln_redirect_url link else []);
          w2 = append_authorization_audit decision (aj_storage j) n
            [(''stage'', PStr ''connect_link''), (''connect_link'', PDict (link_audit_metadata link)),
             (''stale_pending_expired'', PInt (int (aj_expired j)))] w1;
          w3 = (if ad_ready decision
            then upsert_authorizing_connection p n link (aj_entry j) (aj_request j) (aj_storage j) w2 else w2)
        in (Inr (auth_url_decision_metadata decision), w3))"

section \<open>The callback\<close>

text \<open>The query of a callback: its named parameters, the other spellings that are looked up, and all keys.\<close>

record callback_query =
  cq_state :: "string option"
  cq_wiii_state :: "string option"
  cq_code :: "string option"
  cq_error :: "string option"
  cq_connected_account_id :: "string option"
  cq_connection_id :: "string option"
  cq_connectedAccountId :: "string option"
  cq_id :: "string option"
  cq_status :: "string option"
  cq_surface :: string
  cq_keys :: "string list"

text \<open>\<open>a or b\<close> on optional strings.\<close>

definition opt_or :: "string option \<Rightarrow> string option \<Rightarrow> string option" where
  "opt_or a b = (if present a then a else b)"

definition callback_connection_id :: "callback_query \<Rightarrow> string" where
  "callback_connection_id q = safe_provider_connection_id
     (opt_or (cq_connected_account_id q) (opt_or (cq_connection_id q)
       (opt_or (cq_connectedAccountId q) (cq_id q))))"

definition callback_connection :: "provider_entry \<Rightarrow> callback_query \<Rightarrow> string \<Rightarrow> connection_record" where
  "callback_connection entry q connection_id =
     (let state = normalize_connection_state (opt_or (cq_status q) (Some ''PENDING'')) in
      \<lparr> cr_connection_id = connection_id, cr_provider_slug = pe_slug entry, cr_state = state,
        cr_scopes = scope_grant_from_mapping (Some [(''read'', PBool True)]),
        cr_vault_ref = Some (provider_managed_ref (pe_slug entry) connection_id),
        cr_account_label = [], cr_external_account_ref = [], cr_last_checked_at = None,
        cr_reason = ''callback_'' @ cq_surface q,
        cr_warnings = (if state = Connected then [] else [''awaiting_connection_poll'']) \<rparr>)"

definition upsert_callback_connection ::
    "ports \<Rightarrow> int \<Rightarrow> provider_entry \<Rightarrow> callback_query \<Rightarrow> callback_claims \<Rightarrow> pydict \<Rightarrow> world \<Rightarrow> world" where
  "upsert_callback_connection p clock entry q claims storage w =
     (let connection_id = callback_connection_id q in
      if connection_id = [] \<or> \<not> connection_storage_ready storage then w
      else snd (save_connection p clock entry (callback_connection entry q connection_id)
        (cl_organization_id claims) (cl_user_id claims) w))"

definition callback_claims_of :: "ports \<Rightarrow> post_env \<Rightarrow> provider_entry \<Rightarrow> callback_query \<Rightarrow> state_error + callback_claims" where
  "callback_claims_of p n entry q =
     verify_callback_state (pt_loads p) (pt_ints p) (opt_or (cq_state q) (cq_wiii_state q)) (pe_slug entry)
       (en_secret n) (en_clock n div 1000000) 1800"

definition callback_decision_of ::
    "post_env \<Rightarrow> provider_entry \<Rightarrow> callback_query \<Rightarrow> callback_claims \<Rightarrow> callback_decision" where
  "callback_decision_of n entry q claims =
     provider_callback_decision_for_entry (en_now n) entry
       \<lparr> cb_provider_slug = pe_slug entry, cb_surface = cq_surface q,
         cb_state_present = present (opt_or (cq_state q) (cq_wiii_state q)),
         cb_code_present = present (cq_code q),
         cb_connection_ref_present = (callback_connection_id q \<noteq> []),
         cb_error_present = present (cq_error q), cb_state_valid = cl_valid claims,
         cb_request_metadata_keys = cq_keys q \<rparr>
       False (Some (composio_vault_capability (en_config n))) (ac_bound (composio_capability (en_config n)))"

definition append_callback_audit ::
    "callback_decision \<Rightarrow> callback_query \<Rightarrow> pydict \<Rightarrow> post_env \<Rightarrow> callback_claims \<Rightarrow> world \<Rightarrow> world" where
  "append_callback_audit d q storage n claims w =
     (if \<not> cl_valid claims then w
      else append_account_audit storage
        (build_audit_ledger_record (en_now n) KCallback (cd_provider_slug d)
          (if cd_accepted d then ''accepted'' else ''blocked'') (callback_reason_name (cd_reason d))
          (cq_surface q)
          (Some [(''request'', PDict (case cd_audit_event d of None \<Rightarrow> []
               | Some ev \<Rightarrow> callback_request_metadata (ce_request ev))),
            (''state'', PDict (claims_metadata claims)),
            (''provider_status_present'', PBool (present (cq_status q))),
            (''provider_connection_ref_present'', PBool (callback_connection_id q \<noteq> []))]))
        (cl_organization_id claims) (cl_user_id claims) w)"

definition callback_route ::
    "ports \<Rightarrow> post_env \<Rightarrow> string \<Rightarrow> callback_query \<Rightarrow> world \<Rightarrow> (account_error + pydict) \<times> world" where
  "callback_route p n slug q w =
     (case get_provider_entry slug of
        None \<Rightarrow> (Inl (AccountHttpError unknown_provider), w)
      | Some entry0 \<Rightarrow> let entry = composio_connect_enabled_entry entry0 (en_config n) in
        (case callback_claims_of p n entry q of
           Inl e \<Rightarrow> (Inl (StateRaised e), w)
         | Inr claims \<Rightarrow> let
             decision = callback_decision_of n entry q claims;
             storage = env_storage n;
             w1 = append_callback_audit decision q storage n claims w;
             w2 = (if cd_accepted decision
               then upsert_callback_connection p (en_clock n) entry q claims storage w1 else w1)
           in (Inr (callback_decision_metadata decision), w2)))"

text \<open>A browser gets an HTML page, whose script posts a message made of three sanitized texts.\<close>

definition callback_wants_html :: "string option \<Rightarrow> bool" where
  "callback_wants_html accept_header =
     (let accept = py_lower (or_default accept_header []) in
      py_contains ''text/html'' accept \<and> \<not> py_contains ''application/json'' accept)"

definition safe_callback_html_text :: "string \<Rightarrow> string" where
  "safe_callback_html_text value =
     (let text = py_strip value in
      if contains_any [''token'', ''secret'', ''password''] (py_lower text) then ''redacted''
      else take 120 text)"

section \<open>Listing connected accounts\<close>

definition merge_scope_grants :: "scope_grant \<Rightarrow> scope_grant \<Rightarrow> scope_grant" where
  "merge_scope_grants base granted =
     \<lparr> sg_read = (sg_read base \<or> sg_read granted), sg_preview = (sg_preview base \<or> sg_preview granted),
       sg_write = (sg_write base \<or> sg_write granted), sg_apply = (sg_apply base \<or> sg_apply granted),
       sg_admin = False \<rparr>"

definition user_disconnected :: "connection_record option \<Rightarrow> bool" where
  "user_disconnected existing =
     (case existing of None \<Rightarrow> False
      | Some c \<Rightarrow> cr_state c = Disabled \<and> cr_reason c = ''user_disconnect_requested'')"

definition poll_would_reanimate :: "post_env \<Rightarrow> connection_record \<Rightarrow> world \<Rightarrow> bool \<times> world" where
  "poll_would_reanimate n c w =
     (let (existing, w1) = read_connection n (cr_provider_slug c) (cr_connection_id c) w
      in (user_disconnected existing \<and> conn_active c, w1))"

definition with_preserved_scopes :: "post_env \<Rightarrow> connection_record \<Rightarrow> world \<Rightarrow> connection_record \<times> world" where
  "with_preserved_scopes n c w =
     (let (existing, w1) = read_connection n (cr_provider_slug c) (cr_connection_id c) w
      in (case existing of
            None \<Rightarrow> c
          | Some e \<Rightarrow> c\<lparr>cr_scopes := merge_scope_grants (cr_scopes c) (cr_scopes e),
              cr_warnings := sorted_set (cr_warnings c @ cr_warnings e)\<rparr>, w1))"

definition upsert_listed_connection :: "ports \<Rightarrow> post_env \<Rightarrow> provider_entry \<Rightarrow> connection_record \<Rightarrow> world \<Rightarrow> world" where
  "upsert_listed_connection p n entry c w =
     (let (skip, w1) = poll_would_reanimate n c w in
      if skip then w1
      else let (kept, w2) = with_preserved_scopes n c w1
        in snd (save_connection p (en_clock n) entry kept (env_owner n) (env_user n) w2))"

definition upsert_listed_connections ::
    "ports \<Rightarrow> post_env \<Rightarrow> provider_entry \<Rightarrow> connection_record list \<Rightarrow> pydict \<Rightarrow> world \<Rightarrow> world" where
  "upsert_listed_connections p n entry cs storage w =
     (if \<not> connection_storage_ready storage then w
      else foldl (\<lambda>w c. upsert_listed_connection p n entry c w) w cs)"

definition connection_view_of :: "connection_record \<Rightarrow> connection_view" where
  "connection_view_of c =
     \<lparr> cv_state = state_name (cr_state c), cv_active = conn_active c, cv_reason = cr_reason c \<rparr>"

definition list_lifecycle :: "string \<Rightarrow> connection_record option \<Rightarrow> string \<Rightarrow> bool \<Rightarrow> pydict" where
  "list_lifecycle slug connection reason ready_to_connect =
     lifecycle_to_public_metadata (build_connection_lifecycle_decision
       \<lparr> la_provider_slug = slug, la_connection = map_option connection_view_of connection,
         la_status = None, la_reason = reason, la_connection_present = None, la_active = None,
         la_agent_ready = False, la_ready_to_connect = ready_to_connect,
         la_ready_to_execute_action = False, la_required_next = None \<rparr>)"

definition list_payload ::
    "provider_entry \<Rightarrow> string \<Rightarrow> string \<Rightarrow> connection_record list \<Rightarrow> pydict \<Rightarrow> pyval \<Rightarrow> pydict \<Rightarrow> pydict" where
  "list_payload entry status reason cs lifecycle provider storage =
     [(''version'', PStr ''wiii_connect_connection_list.v1''), (''status'', PStr status),
      (''reason'', PStr reason), (''provider_slug'', PStr (pe_slug entry)),
      (''provider_kind'', PStr (provider_kind_name (pe_provider_kind entry))),
      (''connection_count'', PInt (int (length cs))),
      (''connections'', PList (map (\<lambda>c. PDict (connection_to_public_metadata c)) cs)),
      (''connection_lifecycle'', PDict lifecycle), (''provider'', provider), (''storage'', PDict storage)]"

text \<open>\<open>_stored_wiii_connect_connections\<close>: listing needs the connection table, not the audit ledger.\<close>

definition stored_connections :: "pydict \<Rightarrow> post_env \<Rightarrow> string \<Rightarrow> world \<Rightarrow> connection_record list \<times> world" where
  "stored_connections storage n slug w =
     (if get_flag storage ''persistent'' \<and> get_flag storage ''connection_table_ready''
      then (list_connection_records (db_up w) (env_owner n) (env_user n) slug 100 (wd_connections w), next_call w)
      else ([], w))"

definition first_of :: "'a list \<Rightarrow> 'a option" where
  "first_of xs = (case xs of [] \<Rightarrow> None | x # _ \<Rightarrow> Some x)"

record list_job =
  lj_env :: post_env
  lj_entry :: provider_entry
  lj_storage :: pydict
  lj_stored :: "connection_record option"

definition list_begin ::
    "post_env \<Rightarrow> string \<Rightarrow> bool \<Rightarrow> world \<Rightarrow> (account_error + list_job account_reply) \<times> world" where
  "list_begin n slug probe w =
     (case get_provider_entry slug of
        None \<Rightarrow> (Inl (AccountHttpError unknown_provider), w)
      | Some entry0 \<Rightarrow> let
          entry = composio_connect_enabled_entry entry0 (en_config n);
          capability = composio_capability (en_config n);
          storage = probed_storage probe n;
          (stored, w1) = stored_connections storage n (pe_slug entry) w
        in if \<not> pe_enabled entry \<or> \<not> authorization_ready capability
           then let reason = (if \<not> pe_enabled entry then ''provider_disabled'' else ac_reason capability) in
             (Inr (Replied (list_payload entry ''blocked'' reason stored
               (list_lifecycle (pe_slug entry) (first_of stored) reason False) PNone storage)), w1)
           else (Inr (Waits \<lparr> lj_env = n, lj_entry = entry, lj_storage = storage,
               lj_stored = first_of stored \<rparr>), snd (expire_stale storage n (pe_slug entry) w1)))"

definition list_outcome :: "ports \<Rightarrow> list_job \<Rightarrow> connection_list \<times> http_request list" where
  "list_outcome p j =
     list_connected_accounts (pt_client p) (en_config (lj_env j)) (pe_slug (lj_entry j))
       (composio_external_user_id (us_organization_id (en_user (lj_env j))) (env_user (lj_env j))) 50"

definition list_finish :: "ports \<Rightarrow> int \<Rightarrow> string \<Rightarrow> list_job \<Rightarrow> world \<Rightarrow> pydict \<times> world" where
  "list_finish p clock now j w =
     (let n = later clock now (lj_env j); entry = lj_entry j; (outcome, asked) = list_outcome p j;
          w1 = send_requests asked w;
          w2 = (if li_ready outcome
            then upsert_listed_connections p n entry (li_connections outcome) (lj_storage j) w1 else w1);
          listed = li_connections outcome
      in (list_payload entry (if li_ready outcome then ''ready'' else ''blocked'') (li_reason outcome) listed
            (list_lifecycle (pe_slug entry) (if listed \<noteq> [] then first_of listed else lj_stored j)
              (if listed \<noteq> [] then li_reason outcome else [])
              (pe_enabled entry \<and> authorization_ready (composio_capability (en_config n))))
            (PDict (connection_list_metadata outcome)) (lj_storage j), w2))"

section \<open>Disconnecting\<close>

definition disabled_connection_record :: "connection_record \<Rightarrow> string \<Rightarrow> connection_record" where
  "disabled_connection_record c reason =
     c\<lparr>cr_state := Disabled, cr_scopes := scope_grant_from_mapping (Some []), cr_reason := reason,
       cr_warnings := sorted_set (cr_warnings c @ [''disconnected_by_user''])\<rparr>"

definition disconnect_payload ::
    "provider_entry \<Rightarrow> string \<Rightarrow> string \<Rightarrow> pydict \<Rightarrow> bool \<Rightarrow> bool \<Rightarrow> pydict option \<Rightarrow> pydict" where
  "disconnect_payload entry status reason storage connection_present local_disabled provider =
     [(''version'', PStr ''wiii_connect_disconnect.v1''), (''status'', PStr (safe_surface status)),
      (''reason'', PStr (safe_surface reason)), (''provider_slug'', PStr (pe_slug entry)),
      (''provider_kind'', PStr (provider_kind_name (pe_provider_kind entry))),
      (''connection_present'', PBool connection_present), (''local_disabled'', PBool local_disabled),
      (''provider'', opt_dict provider), (''storage'', PDict storage)]"

record disconnect_job =
  dj_env :: post_env
  dj_entry :: provider_entry
  dj_storage :: pydict
  dj_connection :: connection_record
  dj_surface :: string

definition disconnect_begin ::
    "ports \<Rightarrow> post_env \<Rightarrow> string \<Rightarrow> string \<Rightarrow> string \<Rightarrow> world \<Rightarrow>
     (account_error + disconnect_job account_reply) \<times> world" where
  "disconnect_begin p n slug ref_text surface w =
     (case get_provider_entry slug of
        None \<Rightarrow> (Inl (AccountHttpError unknown_provider), w)
      | Some entry0 \<Rightarrow> let
          entry = composio_connect_enabled_entry entry0 (en_config n);
          capability = composio_capability (en_config n);
          storage = env_storage n;
          (safe_id, w1) = resolve_connection storage n (pe_slug entry) (api_connection_ref (Some ref_text)) w;
          refuse = (\<lambda>reason found w'. let payload = disconnect_payload entry ''blocked'' reason storage found False None in
            (Inr (Replied payload),
             append_provider_lifecycle_audit (pe_slug entry) storage n ''blocked'' reason surface payload w'))
        in if \<not> connection_storage_ready storage then refuse ''storage_not_ready'' False w1
        else let (found, w2) = read_connection n (pe_slug entry) safe_id w1 in
        (case found of
           None \<Rightarrow> refuse ''connection_missing'' False w2
         | Some c \<Rightarrow>
             if safe_id = [] then refuse ''connection_missing'' False w2
             else if cr_provider_slug c \<noteq> pe_slug entry then refuse ''connection_provider_mismatch'' True w2
             else if \<not> pe_enabled entry \<or> \<not> authorization_ready capability
             then refuse (if \<not> pe_enabled entry then ''provider_disabled'' else ac_reason capability) True w2
             else let (saved, w3) = save_connection p (en_clock n) entry
                 (disabled_connection_record c ''user_disconnect_requested'') (env_owner n) (env_user n) w2
               in if \<not> saved then refuse ''local_state_update_failed'' True w3
                  else (Inr (Waits \<lparr> dj_env = n, dj_entry = entry, dj_storage = storage, dj_connection = c,
                      dj_surface = surface \<rparr>),
                    append_provider_lifecycle_audit (pe_slug entry) storage n ''started''
                      ''provider_disconnect_started'' surface
                      [(''connection_present'', PBool True), (''local_disabled'', PBool True),
                       (''provider_slug'', PStr (pe_slug entry))] w3)))"

definition disconnect_outcome :: "ports \<Rightarrow> disconnect_job \<Rightarrow> disconnect_result \<times> http_request list" where
  "disconnect_outcome p j =
     disconnect_connected_account (pt_client p) (pt_has_content p) (en_config (dj_env j)) (pe_slug (dj_entry j))
       (cr_connection_id (dj_connection j))"

definition disconnect_finish :: "ports \<Rightarrow> int \<Rightarrow> string \<Rightarrow> disconnect_job \<Rightarrow> world \<Rightarrow> pydict \<times> world" where
  "disconnect_finish p clock now j w =
     (let (r, asked) = disconnect_outcome p j;
          payload = disconnect_payload (dj_entry j) (disconnect_status r) (dc_reason r) (dj_storage j) True True
            (Some (disconnect_metadata r))
      in (payload, append_provider_lifecycle_audit (pe_slug (dj_entry j)) (dj_storage j) (later clock now (dj_env j))
            (disconnect_status r) (dc_reason r) (dj_surface j) payload (send_requests asked w)))"

section \<open>Granting scopes\<close>

definition limited_to_policy :: "scope_grant \<Rightarrow> scope_grant \<Rightarrow> scope_grant" where
  "limited_to_policy requested allowed =
     \<lparr> sg_read = (sg_read requested \<and> sg_read allowed),
       sg_preview = (sg_preview requested \<and> sg_preview allowed),
       sg_write = (sg_write requested \<and> sg_write allowed),
       sg_apply = (sg_apply requested \<and> sg_apply allowed), sg_admin = False \<rparr>"

definition scope_grant_payload ::
    "provider_entry \<Rightarrow> string \<Rightarrow> string \<Rightarrow> pydict \<Rightarrow> connection_record option \<Rightarrow> pydict" where
  "scope_grant_payload entry status reason storage connection =
     [(''version'', PStr ''wiii_connect_scope_grant.v1''), (''status'', PStr (safe_surface status)),
      (''reason'', PStr (safe_surface reason)), (''provider_slug'', PStr (pe_slug entry)),
      (''provider_kind'', PStr (provider_kind_name (pe_provider_kind entry))),
      (''connection'', opt_dict (map_option connection_to_public_metadata connection)),
      (''storage'', PDict storage)]"

definition granted_connection :: "connection_record \<Rightarrow> scope_grant \<Rightarrow> connection_record" where
  "granted_connection c scopes =
     c\<lparr>cr_scopes := scopes, cr_reason := ''user_scope_grant_updated'',
       cr_warnings := sorted_set (cr_warnings c
         @ [if sg_apply scopes then ''user_enabled_external_apply_scope'' else ''user_scope_grant_updated''])\<rparr>"

definition scope_grant_route ::
    "ports \<Rightarrow> post_env \<Rightarrow> string \<Rightarrow> string \<Rightarrow> string \<Rightarrow> pydict \<Rightarrow> world \<Rightarrow> (api_error + pydict) \<times> world" where
  "scope_grant_route p n slug ref_text surface scopes w =
     (case get_provider_entry slug of
        None \<Rightarrow> (Inl unknown_provider, w)
      | Some entry0 \<Rightarrow> let
          entry = composio_execution_enabled_entry entry0 (en_config n);
          storage = env_storage n;
          ref = api_connection_ref (Some ref_text);
          (safe_id, w1) = resolve_connection storage n (pe_slug entry) ref w;
          (found, w2) = (if connection_storage_ready storage \<and> safe_id \<noteq> []
            then read_connection n (pe_slug entry) safe_id w1 else (None, w1));
          missing = (let payload = scope_grant_payload entry ''blocked'' ''connection_missing'' storage None in
            (Inr payload, append_provider_lifecycle_audit (pe_slug entry) storage n ''blocked''
              ''scope_grant_connection_missing'' surface payload w2))
        in (case found of
              None \<Rightarrow> missing
            | Some c \<Rightarrow>
                if \<not> conn_active c then missing
                else let
                  requested = scope_grant_from_mapping (Some scopes);
                  granted = merge_scope_grants (cr_scopes c)
                    (limited_to_policy requested (pe_default_scopes entry));
                  updated = granted_connection c granted;
                  (saved, w3) = save_connection p (en_clock n) entry updated (env_owner n) (env_user n) w2;
                  status = (if saved then ''ready'' else ''blocked'');
                  reason = (if saved then ''scope_grant_updated'' else ''scope_grant_update_failed'')
                in (Inr (scope_grant_payload entry status reason storage (Some (if saved then updated else c))),
                    append_provider_lifecycle_audit (pe_slug entry) storage n (safe_surface status)
                      (safe_surface reason) surface
                      [(''connection_ref_present'', PBool (ref \<noteq> [])),
                       (''requested_scopes'', PDict (scope_to_metadata requested)),
                       (''granted_scopes'', PDict (scope_to_metadata granted))] w3)))"

section \<open>Listing Facebook pages\<close>

record pages_job =
  gj_env :: post_env
  gj_entry :: provider_entry
  gj_request :: exec_request
  gj_gateway :: gateway_decision
  gj_storage :: pydict
  gj_connection :: connection_record
  gj_audit_base :: pydict

definition pages_begin ::
    "post_env \<Rightarrow> string \<Rightarrow> string \<Rightarrow> world \<Rightarrow> (account_error + pages_job account_reply) \<times> world" where
  "pages_begin n slug ref_text w =
     (case get_provider_entry slug of
        None \<Rightarrow> (Inl (AccountHttpError unknown_provider), w)
      | Some entry0 \<Rightarrow>
          if pe_slug entry0 \<noteq> ''facebook''
          then (Inl (AccountHttpError (HttpError 404 ''unsupported_provider_pages'')), w)
          else let
            entry = composio_execution_enabled_entry entry0 (en_config n);
            storage = env_storage n;
            (connection, ref, safe_id, w1) =
              load_selected_connection storage (en_clock n) entry (en_user n) ref_text w;
            request = \<lparr> xr_provider_slug = pe_slug entry, xr_action_slug = ''FACEBOOK_LIST_MANAGED_PAGES'',
              xr_path = ''external_app_action'', xr_mutation = Read, xr_approval_token_present = False,
              xr_preview_evidence_id = None, xr_preview_evidence_required = False,
              xr_argument_keys = [''fields'', ''limit''], xr_request_id = or_default (en_request_id n) [] \<rparr>;
            gateway = post_gateway (en_config n) entry connection request storage ref;
            audit_base =
              [(''surface'', PStr ''desktop''), (''connection_ref_present'', PBool (ref \<noteq> [])),
               (''connection_id_present'', PBool (safe_id \<noteq> [])),
               (''connection_found'', PBool (connection \<noteq> None)), (''stage'', PStr ''page_list'')];
            blocked = (Inr (Replied
              [(''version'', PStr ''wiii_connect_facebook_pages.v1''), (''status'', PStr ''blocked''),
               (''reason'', PStr (deny_reason_name (xd_reason (gd_decision gateway)))),
               (''provider_slug'', PStr (pe_slug entry)), (''gateway'', PDict (gateway_to_public_metadata gateway)),
               (''pages'', PList []), (''page_count'', PInt 0)]),
              api_append_execution_audit (en_now n) gateway request storage (en_user n) audit_base w1)
          in (case connection of
                None \<Rightarrow> blocked
              | Some c \<Rightarrow> if \<not> gateway_allowed gateway then blocked
                  else (Inr (Waits \<lparr> gj_env = n, gj_entry = entry, gj_request = request, gj_gateway = gateway,
                    gj_storage = storage, gj_connection = c, gj_audit_base = audit_base \<rparr>), w1)))"

definition pages_finish :: "ports \<Rightarrow> int \<Rightarrow> string \<Rightarrow> pages_job \<Rightarrow> world \<Rightarrow> pydict \<times> world" where
  "pages_finish p clock now j w =
     (let n = later clock now (gj_env j);
          (l, asked) = list_facebook_pages (pt_client p) (en_config n)
            (composio_external_user_id (us_organization_id (en_user n)) (env_user n))
            (cr_connection_id (gj_connection j)) (xr_request_id (gj_request j))
      in (dict_set ''gateway'' (PDict (gateway_to_public_metadata (gj_gateway j))) (page_list_metadata l),
          append_execution_stage_audit (en_now n) (gj_gateway j) (gj_request j) (gj_storage j) (en_user n)
            (if pg_ready l then ''succeeded'' else ''blocked'') (pg_reason l)
            (dict_merge (gj_audit_base j) [(''page_list'', PDict (page_list_metadata l))])
            (send_requests asked w)))"

end
