(* ===== verification/Account_Flow.thy ===== *)
theory Account_Flow
  imports Connection_Routes Post_Flow
begin

text \<open>
  The account routes together: what each does to the connection table, every interleaving of them, and
  what a stored connection says about the requests before it.
\<close>

section \<open>Rows and their owners\<close>

definition row_owner :: "connection_row \<Rightarrow> string \<times> string" where
  "row_owner row = (kw_organization_id row, kw_user_id row)"

lemma owned_by_owner: "owned_by owner slug row \<longleftrightarrow> row_owner row = owner \<and> kw_provider_slug row = slug"
  by (simp add: owned_by_def row_owner_def)

definition env_key :: "post_env \<Rightarrow> (string \<times> string) option" where
  "env_key n = normalize_owner (env_owner n) (env_user n)"

lemma next_call_simps [simp]:
  "wd_connections (next_call w) = wd_connections w" "wd_audit (next_call w) = wd_audit w"
  "wd_trace (next_call w) = wd_trace w"
  by (simp_all add: next_call_def)

lemma next_call_up [simp]: "wd_up (next_call w) k = wd_up w (Suc k)"
  by (simp add: next_call_def)

lemma later_simps [simp]:
  "en_user (later clock now n) = en_user n" "en_config (later clock now n) = en_config n"
  "en_clock (later clock now n) = clock" "en_now (later clock now n) = now"
  "env_owner (later clock now n) = env_owner n" "env_user (later clock now n) = env_user n"
  "env_key (later clock now n) = env_key n"
  by (simp_all add: later_def env_owner_def env_user_def env_key_def)

text \<open>What saving a connection does to the table: nothing, or it sets the row under the connection's id.\<close>

definition saved_row :: "ports \<Rightarrow> int \<Rightarrow> provider_entry \<Rightarrow> connection_record \<Rightarrow> string \<times> string \<Rightarrow> connection_row" where
  "saved_row p clock entry c owner =
     \<lparr> kw_organization_id = fst owner, kw_user_id = snd owner, kw_provider_slug = cr_provider_slug c,
       kw_provider_kind = str_or (py_strip (str_or (provider_kind_name (pe_provider_kind entry)) ''unknown'')) ''unknown'',
       kw_state = state_name (cr_state c), kw_scopes = scope_to_metadata (cr_scopes c),
       kw_vault_ref = (case cr_vault_ref c of None \<Rightarrow> [] | Some r \<Rightarrow> vault_ref_metadata r),
       kw_account_label = or_null (cr_account_label c),
       kw_external_account_ref = or_null (cr_external_account_ref c), kw_reason = or_null (cr_reason c),
       kw_warnings = cr_warnings c, kw_updated_at = clock,
       kw_last_checked_at = parse_datetime (pt_to_iso p) (cr_last_checked_at c),
       kw_last_used_at = (if conn_active c then Some clock else None) \<rparr>"

lemma saved_row_simps [simp]:
  "row_owner (saved_row p clock entry c owner) = owner"
  "kw_provider_slug (saved_row p clock entry c owner) = cr_provider_slug c"
  "kw_state (saved_row p clock entry c owner) = state_name (cr_state c)"
  "kw_scopes (saved_row p clock entry c owner) = scope_to_metadata (cr_scopes c)"
  "kw_reason (saved_row p clock entry c owner) = or_null (cr_reason c)"
  by (simp_all add: saved_row_def row_owner_def)

lemma save_connection_iff:
  "save_connection p clock entry c org user w =
     (case normalize_owner org user of
        Some owner \<Rightarrow>
          if db_up w \<and> cr_connection_id c \<noteq> [] \<and> cr_provider_slug c \<noteq> []
          then (True, next_call (w\<lparr>wd_connections := dict_set (cr_connection_id c)
            (saved_row p clock entry c owner) (wd_connections w)\<rparr>))
          else (False, next_call w)
      | None \<Rightarrow> (False, next_call w))"
  by (auto simp: save_connection_def upsert_connection_record_def saved_row_def Let_def split: option.splits)

lemma save_connection_cases:
  obtains (kept) "fst (save_connection p clock entry c org user w) = False"
      "wd_connections (snd (save_connection p clock entry c org user w)) = wd_connections w"
    | (stored) owner where "fst (save_connection p clock entry c org user w)"
      "normalize_owner org user = Some owner"
      "wd_connections (snd (save_connection p clock entry c org user w))
        = dict_set (cr_connection_id c) (saved_row p clock entry c owner) (wd_connections w)"
  by (cases "normalize_owner org user"; cases "db_up w \<and> cr_connection_id c \<noteq> [] \<and> cr_provider_slug c \<noteq> []")
    (auto simp: save_connection_iff)

lemma save_connection_trace [simp]:
  "wd_trace (snd (save_connection p clock entry c org user w)) = wd_trace w"
  by (simp add: save_connection_iff split: option.splits)

text \<open>A row that is read back belongs to the reader, and the record has the row's scopes and state.\<close>

lemma read_connection_world [simp]: "snd (read_connection n slug i w) = next_call w"
  by (simp add: read_connection_def)

lemma get_connection_sound:
  assumes "get_connection_record up org user slug (Some i) table = Some c"
  obtains j row where "(j, row) \<in> set table" "normalize_owner org user = Some (row_owner row)"
    "kw_provider_slug row = normalize_provider_slug slug" "py_strip i \<noteq> [] \<Longrightarrow> j = py_strip i"
    "connection_record_from_row (normalize_provider_slug slug) (j, row) = Some c"
proof -
  obtain owner where owner: "normalize_owner org user = Some owner"
    using assms by (cases "normalize_owner org user") (auto simp: get_connection_record_def Let_def)
  then obtain jr rest where found: "filter (\<lambda>(j, r). py_strip i = [] \<or> j = py_strip i)
      (select_rows owner (normalize_provider_slug slug) table) = jr # rest"
      and c: "connection_record_from_row (normalize_provider_slug slug) jr = Some c"
    using assms by (auto simp: get_connection_record_def Let_def or_default_def split: if_splits list.splits)
  obtain j row where jr: "jr = (j, row)" by (cases jr)
  have "(j, row) \<in> set (filter (\<lambda>(j, r). py_strip i = [] \<or> j = py_strip i)
      (select_rows owner (normalize_provider_slug slug) table))" using found jr by simp
  then show thesis
    using that [of j row] owner c jr by (auto simp: select_rows_sound owned_by_owner)
qed

lemma record_from_row_scopes:
  "connection_record_from_row slug (j, row) = Some c \<Longrightarrow> cr_scopes c = scope_grant_from_mapping (Some (kw_scopes row))
     \<and> cr_state c = normalize_connection_state (Some (kw_state row)) \<and> cr_connection_id c = py_strip j
     \<and> cr_reason c = or_default (kw_reason row) []"
  by (auto simp: connection_record_from_row_def Let_def split: if_splits)

lemma record_from_row_slug:
  assumes "connection_record_from_row slug (j, row) = Some c" "kw_provider_slug row = slug" "slug \<noteq> []"
    "normalize_provider_slug slug = slug"
  shows "cr_provider_slug c = slug"
  using assms normal_slug_parts [of slug] by (auto simp: connection_record_from_row_def Let_def split: if_splits)

section \<open>Interleavings of the account routes\<close>

datatype account_job =
    AuthorizeJob authorize_job | ListJob list_job | DisconnectJob disconnect_job | PagesJob pages_job

fun run_job :: "ports \<Rightarrow> int \<Rightarrow> string \<Rightarrow> account_job \<Rightarrow> world \<Rightarrow> world" where
  "run_job p clock now (AuthorizeJob j) w = snd (authorize_finish p clock now j w)"
| "run_job p clock now (ListJob j) w = snd (list_finish p clock now j w)"
| "run_job p clock now (DisconnectJob j) w = snd (disconnect_finish p clock now j w)"
| "run_job p clock now (PagesJob j) w = snd (pages_finish p clock now j w)"

record account_system =
  as_world :: world
  as_jobs :: "account_job list"

definition waiting :: "('j \<Rightarrow> account_job) \<Rightarrow> (account_error + 'j account_reply) \<Rightarrow> account_job list" where
  "waiting f r = (case r of Inr (Waits j) \<Rightarrow> [f j] | _ \<Rightarrow> [])"

definition drop_nth :: "nat \<Rightarrow> 'a list \<Rightarrow> 'a list" where
  "drop_nth i xs = take i xs @ drop (Suc i) xs"

text \<open>A label says which request was made; \<open>Began\<close> is the first part of a route that waits.\<close>

datatype account_label =
    Began | Finished account_job | CalledBack | Granted post_env string pydict | Abandoned | Swept

text \<open>The routes in any order, with any arguments; \<open>sweep\<close> is the expiry that other routes run.\<close>

inductive account_step :: "ports \<Rightarrow> account_system \<Rightarrow> account_label \<Rightarrow> account_system \<Rightarrow> bool" for p where
  authorize: "authorize_begin p n slug b (as_world s) = (r, w) \<Longrightarrow>
    account_step p s Began (s\<lparr>as_world := w, as_jobs := as_jobs s @ waiting AuthorizeJob r\<rparr>)"
| list: "list_begin n slug probe (as_world s) = (r, w) \<Longrightarrow>
    account_step p s Began (s\<lparr>as_world := w, as_jobs := as_jobs s @ waiting ListJob r\<rparr>)"
| disconnect: "disconnect_begin p n slug ref surface (as_world s) = (r, w) \<Longrightarrow>
    account_step p s Began (s\<lparr>as_world := w, as_jobs := as_jobs s @ waiting DisconnectJob r\<rparr>)"
| pages: "pages_begin n slug ref (as_world s) = (r, w) \<Longrightarrow>
    account_step p s Began (s\<lparr>as_world := w, as_jobs := as_jobs s @ waiting PagesJob r\<rparr>)"
| finish: "i < length (as_jobs s) \<Longrightarrow>
    account_step p s (Finished (as_jobs s ! i))
      (s\<lparr>as_world := run_job p clock now (as_jobs s ! i) (as_world s), as_jobs := drop_nth i (as_jobs s)\<rparr>)"
| abandon: "i < length (as_jobs s) \<Longrightarrow> account_step p s Abandoned (s\<lparr>as_jobs := drop_nth i (as_jobs s)\<rparr>)"
| callback: "callback_route p n slug q (as_world s) = (r, w) \<Longrightarrow> account_step p s CalledBack (s\<lparr>as_world := w\<rparr>)"
| grant: "scope_grant_route p n slug ref surface scopes (as_world s) = (r, w) \<Longrightarrow>
    account_step p s (Granted n slug scopes) (s\<lparr>as_world := w\<rparr>)"
| sweep: "account_step p s Swept (s\<lparr>as_world := api_expire_stale clock storage user slug (as_world s)\<rparr>)"

inductive account_run :: "ports \<Rightarrow> account_system \<Rightarrow> account_label list \<Rightarrow> account_system \<Rightarrow> bool" for p where
  start: "account_run p s [] s"
| extend: "account_run p s ls t \<Longrightarrow> account_step p t l u \<Longrightarrow> account_run p s (ls @ [l]) u"

section \<open>Where an apply scope comes from\<close>

definition apply_rows_explained :: "(string \<times> string \<Rightarrow> string \<Rightarrow> bool) \<Rightarrow> connection_table \<Rightarrow> bool" where
  "apply_rows_explained E t =
     (\<forall>(i, row) \<in> set t. get_flag (kw_scopes row) ''apply'' \<longrightarrow> E (row_owner row) (kw_provider_slug row))"

lemma get_flag_scopes: "get_flag (scope_to_metadata g) ''apply'' = sg_apply g"
  by (simp add: scope_to_metadata_def get_flag_def)

lemma expire_rows:
  assumes "(i, row) \<in> set (snd (expire_stale_pending_connections up now org user slug ttl t))"
  obtains row0 where "(i, row0) \<in> set t" "row = row0 \<or> row = expire_row now row0"
  using assms by (auto simp: expire_stale_pending_connections_def Let_def split: option.splits if_splits)

lemma expire_row_simps [simp]:
  "kw_scopes (expire_row now row) = kw_scopes row" "row_owner (expire_row now row) = row_owner row"
  "kw_provider_slug (expire_row now row) = kw_provider_slug row"
  by (simp_all add: expire_row_def row_owner_def)

lemma expire_explained:
  assumes "apply_rows_explained E t"
  shows "apply_rows_explained E (snd (expire_stale_pending_connections up now org user slug ttl t))"
  unfolding apply_rows_explained_def
proof (intro ballI, clarify)
  fix i row
  assume row: "(i, row) \<in> set (snd (expire_stale_pending_connections up now org user slug ttl t))"
    and flag: "get_flag (kw_scopes row) ''apply''"
  obtain row0 where "(i, row0) \<in> set t" "row = row0 \<or> row = expire_row now row0" by (rule expire_rows [OF row])
  then show "E (row_owner row) (kw_provider_slug row)"
    using assms flag by (auto simp: apply_rows_explained_def)
qed

lemma save_explained:
  assumes "apply_rows_explained E (wd_connections w)"
    and "\<And>owner. normalize_owner org user = Some owner \<Longrightarrow> sg_apply (cr_scopes c) \<Longrightarrow> E owner (cr_provider_slug c)"
  shows "apply_rows_explained E (wd_connections (snd (save_connection p clock entry c org user w)))"
proof (cases rule: save_connection_cases [of p clock entry c org user w])
  case kept
  then show ?thesis using assms(1) by simp
next
  case (stored owner)
  then show ?thesis
    using assms set_dict_set [of "cr_connection_id c" "saved_row p clock entry c owner" "wd_connections w"]
    by (fastforce simp: apply_rows_explained_def get_flag_scopes)
qed

lemma scopes_of_row: "sg_apply (scope_grant_from_mapping (Some d)) = get_flag d ''apply''"
  by (simp add: scope_grant_from_mapping_def or_default_def)

lemma read_explained:
  assumes "apply_rows_explained E (wd_connections w)" "fst (read_connection n slug i w) = Some c" "sg_apply (cr_scopes c)"
  obtains owner where "env_key n = Some owner" "E owner (normalize_provider_slug slug)"
proof -
  have got: "get_connection_record (db_up w) (env_owner n) (env_user n) slug (Some i) (wd_connections w) = Some c"
    using assms(2) by (simp add: read_connection_def)
  obtain j row where row: "(j, row) \<in> set (wd_connections w)" "env_key n = Some (row_owner row)"
      "kw_provider_slug row = normalize_provider_slug slug"
      "connection_record_from_row (normalize_provider_slug slug) (j, row) = Some c"
    unfolding env_key_def by (rule get_connection_sound [OF got])
  then have "get_flag (kw_scopes row) ''apply''"
    using assms(3) record_from_row_scopes [OF row(4)] by (simp add: scopes_of_row)
  then show thesis
    using that [OF row(2)] assms(1) row(1,3) by (auto simp: apply_rows_explained_def)
qed

lemma normalize_slug_idem [simp]: "normalize_provider_slug (normalize_provider_slug s) = normalize_provider_slug s"
  by (simp add: normalize_provider_slug_def py_strip_dash py_strip_lower lower_dash_commute)

lemma expire_stale_explained:
  "apply_rows_explained E (wd_connections w) \<Longrightarrow>
     apply_rows_explained E (wd_connections (snd (expire_stale storage n slug w)))"
  using expire_explained [where t = "wd_connections w"]
  by (simp add: expire_stale_def case_prod_unfold Let_def)

lemma audit_connections [simp]:
  "wd_connections (append_account_audit storage r org user w) = wd_connections w"
  "wd_connections (append_authorization_audit d storage n md w) = wd_connections w"
  "wd_connections (append_provider_lifecycle_audit slug storage n st rs sf md w) = wd_connections w"
  "wd_connections (append_callback_audit cd q storage n claims w) = wd_connections w"
  "wd_connections (send_requests rs' w) = wd_connections w"
  "wd_connections (api_append_execution_audit nw g rq storage u md w) = wd_connections w"
  "wd_connections (append_execution_stage_audit nw g rq storage u st rs md w) = wd_connections w"
  by (simp_all add: append_account_audit_def append_authorization_audit_def append_provider_lifecycle_audit_def
      append_callback_audit_def send_requests_def api_append_execution_audit_def append_execution_stage_audit_def
      Let_def case_prod_unfold)

lemma resolve_connections [simp]:
  "wd_connections (snd (resolve_connection storage n slug ref w)) = wd_connections w"
  by (simp add: resolve_connection_def)

lemma stored_connections_world [simp]:
  "wd_connections (snd (stored_connections storage n slug w)) = wd_connections w"
  by (simp add: stored_connections_def)

lemmas entry_slug [simp] = enabled_entry_slug

text \<open>The jobs in a system come from the catalogue, and nothing but a link for apply asks for apply.\<close>

fun job_wf :: "account_job \<Rightarrow> bool" where
  "job_wf (AuthorizeJob j) = (normalize_provider_slug (pe_slug (aj_entry j)) = pe_slug (aj_entry j))"
| "job_wf (ListJob j) = (normalize_provider_slug (pe_slug (lj_entry j)) = pe_slug (lj_entry j))"
| "job_wf (DisconnectJob j) = True"
| "job_wf (PagesJob j) = True"

text \<open>The requests that may explain an apply scope: a grant under a policy with apply, and an authorization
  that asked for it.\<close>

fun asks_apply :: "account_label \<Rightarrow> string \<times> string \<Rightarrow> string \<Rightarrow> bool" where
  "asks_apply (Granted n slug scopes) owner provider =
     (env_key n = Some owner \<and> normalize_provider_slug slug = provider \<and> get_flag scopes ''apply''
      \<and> (case get_provider_entry slug of None \<Rightarrow> False
         | Some e \<Rightarrow> sg_apply (pe_default_scopes (composio_execution_enabled_entry e (en_config n)))))"
| "asks_apply (Finished (AuthorizeJob j)) owner provider =
     (env_key (aj_env j) = Some owner \<and> pe_slug (aj_entry j) = provider
      \<and> sg_apply (aq_requested_scopes (aj_request j)))"
| "asks_apply _ owner provider = False"

lemma authorize_begin_explained:
  assumes "apply_rows_explained E (wd_connections w)" "authorize_begin p n slug b w = (r, w')"
  shows "apply_rows_explained E (wd_connections w') \<and> list_all job_wf (waiting AuthorizeJob r)"
  using assms expire_stale_explained [OF assms(1)] provider_slug_normal [of slug]
  by (auto simp: authorize_begin_def waiting_def Let_def case_prod_unfold split: option.splits if_splits)

lemma list_begin_explained:
  assumes "apply_rows_explained E (wd_connections w)" "list_begin n slug probe w = (r, w')"
  shows "apply_rows_explained E (wd_connections w') \<and> list_all job_wf (waiting ListJob r)"
  using assms expire_stale_explained [where w = "snd (stored_connections st n sl w)" for st sl] provider_slug_normal [of slug]
  by (auto simp: list_begin_def waiting_def Let_def case_prod_unfold split: option.splits if_splits)

lemma disabled_scopes: "sg_apply (cr_scopes (disabled_connection_record c reason)) = False"
  by (simp add: disabled_connection_record_def scopes_of_row get_flag_def)

lemma disconnect_begin_explained:
  assumes "apply_rows_explained E (wd_connections w)" "disconnect_begin p n slug ref surface w = (r, w')"
  shows "apply_rows_explained E (wd_connections w')"
proof -
  have "apply_rows_explained E (wd_connections (snd (save_connection p clock entry
      (disabled_connection_record c reason) org user w1)))"
    if "wd_connections w1 = wd_connections w" for clock entry c reason org user w1
    by (rule save_explained) (use assms(1) that disabled_scopes in auto)
  then show ?thesis
    using assms by (auto simp: disconnect_begin_def Let_def case_prod_unfold split: option.splits if_splits)
qed

lemma load_selected_explained:
  "apply_rows_explained E (wd_connections w) \<Longrightarrow>
     apply_rows_explained E (wd_connections (snd (snd (snd (load_selected_connection storage clock entry user ref w)))))"
  using expire_explained [where t = "wd_connections w"]
  by (simp add: load_selected_connection_def api_expire_stale_def Let_def)

lemma pages_begin_explained:
  assumes "apply_rows_explained E (wd_connections w)" "pages_begin n slug ref w = (r, w')"
  shows "apply_rows_explained E (wd_connections w')"
  using assms load_selected_explained [OF assms(1)]
  by (auto simp: pages_begin_def Let_def case_prod_unfold split: option.splits if_splits)

lemma callback_explained:
  assumes "apply_rows_explained E (wd_connections w)" "callback_route p n slug q w = (r, w')"
  shows "apply_rows_explained E (wd_connections w')"
proof -
  have "apply_rows_explained E (wd_connections (upsert_callback_connection p clock entry q claims storage w1))"
    if "wd_connections w1 = wd_connections w" for clock entry claims storage w1
    unfolding upsert_callback_connection_def Let_def
    using that assms(1) by (auto intro!: save_explained simp: callback_connection_def scopes_of_row get_flag_def Let_def)
  then show ?thesis
    using assms by (auto simp: callback_route_def Let_def split: option.splits sum.splits if_splits)
qed

lemma listed_explained:
  assumes "apply_rows_explained E (wd_connections w)" "\<not> sg_apply (cr_scopes c)"
    and "normalize_provider_slug (cr_provider_slug c) = cr_provider_slug c"
  shows "apply_rows_explained E (wd_connections (upsert_listed_connection p n entry c w))"
proof -
  let ?w1 = "next_call w"
  have w1: "apply_rows_explained E (wd_connections ?w1)" using assms(1) by simp
  let ?kept = "fst (with_preserved_scopes n c ?w1)"
  have kept: "cr_provider_slug ?kept = cr_provider_slug c"
    "sg_apply (cr_scopes ?kept) \<Longrightarrow> \<exists>e. fst (read_connection n (cr_provider_slug c) (cr_connection_id c) ?w1) = Some e
      \<and> sg_apply (cr_scopes e)"
    using assms(2) by (auto simp: with_preserved_scopes_def merge_scope_grants_def case_prod_unfold split: option.splits)
  have explained: "E owner (cr_provider_slug ?kept)"
    if own: "normalize_owner (env_owner n) (env_user n) = Some owner" and flag: "sg_apply (cr_scopes ?kept)" for owner
  proof -
    obtain e where e: "fst (read_connection n (cr_provider_slug c) (cr_connection_id c) ?w1) = Some e" "sg_apply (cr_scopes e)"
      using kept(2) [OF flag] by blast
    obtain owner' where "env_key n = Some owner'" "E owner' (normalize_provider_slug (cr_provider_slug c))"
      by (rule read_explained [OF w1 e])
    then show ?thesis using own assms(3) kept(1) by (simp add: env_key_def)
  qed
  have "apply_rows_explained E (wd_connections (snd (save_connection p clock entry ?kept (env_owner n) (env_user n) w2)))"
    if "wd_connections w2 = wd_connections w" for clock w2
    by (rule save_explained) (use that assms(1) explained in auto)
  moreover have "snd (with_preserved_scopes n c ?w1) = next_call ?w1" "snd (poll_would_reanimate n c w) = ?w1"
    by (simp_all add: with_preserved_scopes_def poll_would_reanimate_def case_prod_unfold)
  ultimately show ?thesis
    using assms(1) by (simp add: upsert_listed_connection_def case_prod_unfold Let_def)
qed

lemma listed_connections_plain:
  assumes "c \<in> set (li_connections (fst (list_connected_accounts client cfg slug user limit)))"
  shows "\<not> sg_apply (cr_scopes c) \<and> cr_provider_slug c = normalize_provider_slug slug"
proof -
  have account: "connection_of_account slug a = Some c \<Longrightarrow> ?thesis" for a
    by (auto simp: connection_of_account_def no_scopes_def Let_def split: pyval.splits if_splits)
  have "\<exists>a. connection_of_account slug a = Some c"
    using assms by (auto simp: list_connected_accounts_def list_refused_def Let_def case_prod_unfold map_filter_def
        split: if_splits http_result.splits option.splits)
  then show ?thesis using account by blast
qed

lemma list_finish_explained:
  assumes "apply_rows_explained E (wd_connections w)" "job_wf (ListJob j)"
  shows "apply_rows_explained E (wd_connections (snd (list_finish p clock now j w)))"
proof -
  have "apply_rows_explained E (wd_connections (foldl (\<lambda>w c. upsert_listed_connection p n entry c w) w1 cs))"
    if "apply_rows_explained E (wd_connections w1)" "set cs \<subseteq> set (li_connections (fst (list_outcome p j)))" for n entry w1 cs
    using that
  proof (induction cs arbitrary: w1)
    case (Cons c cs)
    then have "\<not> sg_apply (cr_scopes c)" "cr_provider_slug c = pe_slug (lj_entry j)"
      using assms(2) listed_connections_plain by (auto simp: list_outcome_def)
    then show ?case using Cons assms(2) listed_explained [OF Cons.prems(1), of c] by simp
  qed simp
  then show ?thesis
    using assms(1) by (simp add: list_finish_def upsert_listed_connections_def case_prod_unfold Let_def)
qed

lemma authorize_finish_explained:
  assumes "apply_rows_explained E (wd_connections w)"
    and "\<And>owner provider. asks_apply (Finished (AuthorizeJob j)) owner provider \<Longrightarrow> E owner provider"
  shows "apply_rows_explained E (wd_connections (snd (authorize_finish p clock now j w)))"
proof -
  have "apply_rows_explained E (wd_connections (upsert_authorizing_connection p (later clock now (aj_env j)) link
      (aj_entry j) (aj_request j) storage w1))" if "wd_connections w1 = wd_connections w" for link storage w1
    unfolding upsert_authorizing_connection_def Let_def
    using that assms by (auto intro!: save_explained simp: authorizing_connection_def env_key_def)
  then show ?thesis
    using assms(1) by (auto simp: authorize_finish_def Let_def case_prod_unfold split: sum.splits)
qed

lemma grant_explained:
  assumes rows: "apply_rows_explained E (wd_connections w)" and route: "scope_grant_route p n slug ref surface scopes w = (r, w')"
    and asked: "\<And>owner provider. asks_apply (Granted n slug scopes) owner provider \<Longrightarrow> E owner provider"
  shows "apply_rows_explained E (wd_connections w')"
proof (cases "get_provider_entry slug")
  case None
  then show ?thesis using rows route by (simp add: scope_grant_route_def)
next
  case (Some e)
  let ?entry = "composio_execution_enabled_entry e (en_config n)"
  have saved: "apply_rows_explained E (wd_connections (snd (save_connection p clock entry
      (granted_connection c (merge_scope_grants (cr_scopes c)
        (limited_to_policy (scope_grant_from_mapping (Some scopes)) (pe_default_scopes ?entry))))
      (env_owner n) (env_user n) v')))"
    if same: "wd_connections v = wd_connections w" "wd_connections v' = wd_connections w"
      and got: "fst (read_connection n (pe_slug e) i v) = Some c" for clock entry c i v v'
  proof (rule save_explained)
    show "apply_rows_explained E (wd_connections v')" using rows same by simp
    fix owner
    assume own: "normalize_owner (env_owner n) (env_user n) = Some owner"
      and flag: "sg_apply (cr_scopes (granted_connection c (merge_scope_grants (cr_scopes c)
        (limited_to_policy (scope_grant_from_mapping (Some scopes)) (pe_default_scopes ?entry)))))"
    have "get_connection_record (db_up v) (env_owner n) (env_user n) (pe_slug e) (Some i) (wd_connections v) = Some c"
      using got by (simp add: read_connection_def)
    then obtain j row where row: "kw_provider_slug row = pe_slug e"
        "connection_record_from_row (pe_slug e) (j, row) = Some c"
      by (rule get_connection_sound) (use provider_slug_normal [OF Some] in auto)
    have slug: "cr_provider_slug c = pe_slug e"
      by (rule record_from_row_slug [OF row(2)]) (use row provider_slug_normal [OF Some] in auto)
    have "E owner (pe_slug e)"
    proof (cases "sg_apply (cr_scopes c)")
      case True
      have rows1: "apply_rows_explained E (wd_connections v)" using rows same by simp
      obtain owner' where "env_key n = Some owner'" "E owner' (normalize_provider_slug (pe_slug e))"
        by (rule read_explained [OF rows1 got True])
      then show ?thesis using own provider_slug_normal [OF Some] by (simp add: env_key_def)
    next
      case False
      then have "asks_apply (Granted n slug scopes) owner (pe_slug e)"
        using flag own Some provider_slug_normal [OF Some]
        by (simp add: granted_connection_def merge_scope_grants_def limited_to_policy_def env_key_def scopes_of_row)
      then show ?thesis by (rule asked)
    qed
    then show "E owner (cr_provider_slug (granted_connection c (merge_scope_grants (cr_scopes c)
        (limited_to_policy (scope_grant_from_mapping (Some scopes)) (pe_default_scopes ?entry)))))"
      by (simp add: granted_connection_def slug)
  qed
  show ?thesis
    using route rows Some
    by (auto simp: scope_grant_route_def Let_def case_prod_unfold split: option.splits if_splits
        intro!: saved [where v = "snd (resolve_connection (env_storage n) n (pe_slug e) (api_connection_ref (Some ref)) w)"])
qed

lemma finish_explained:
  assumes "apply_rows_explained E (wd_connections w)" "job_wf job"
    and "\<And>owner provider. asks_apply (Finished job) owner provider \<Longrightarrow> E owner provider"
  shows "apply_rows_explained E (wd_connections (run_job p clock now job w))"
proof (cases job)
  case (AuthorizeJob j)
  then show ?thesis using authorize_finish_explained [OF assms(1)] assms(3) by simp
next
  case (ListJob j)
  then show ?thesis using list_finish_explained [OF assms(1)] assms(2) by simp
next
  case (DisconnectJob j)
  then show ?thesis using assms(1) by (simp add: disconnect_finish_def Let_def case_prod_unfold)
next
  case (PagesJob j)
  then show ?thesis using assms(1) by (simp add: pages_finish_def Let_def case_prod_unfold)
qed

lemma list_all_drop_nth: "list_all P xs \<Longrightarrow> list_all P (drop_nth i xs)"
  unfolding drop_nth_def list_all_iff by (auto dest: in_set_takeD in_set_dropD)

lemma api_expire_explained:
  "apply_rows_explained E (wd_connections w) \<Longrightarrow>
     apply_rows_explained E (wd_connections (api_expire_stale clock storage user slug w))"
  using expire_explained [where t = "wd_connections w"] by (simp add: api_expire_stale_def)

lemma waiting_wf: "list_all job_wf (waiting DisconnectJob r)" "list_all job_wf (waiting PagesJob r')"
  by (auto simp: waiting_def split: sum.splits account_reply.splits)

lemma account_step_explained:
  assumes "account_step p s l t" "apply_rows_explained E (wd_connections (as_world s))" "list_all job_wf (as_jobs s)"
    and "\<And>owner provider. asks_apply l owner provider \<Longrightarrow> E owner provider"
  shows "apply_rows_explained E (wd_connections (as_world t)) \<and> list_all job_wf (as_jobs t)"
  using assms
proof (induction rule: account_step.induct)
  case (authorize n slug b s r w)
  then show ?case using authorize_begin_explained [of E "as_world s" p n slug b r w] by simp
next
  case (list n slug probe s r w)
  then show ?case using list_begin_explained [of E "as_world s" n slug probe r w] by simp
next
  case (disconnect n slug ref surface s r w)
  then show ?case
    using disconnect_begin_explained [of E "as_world s" p n slug ref surface r w] by (simp add: waiting_wf)
next
  case (pages n slug ref s r w)
  then show ?case using pages_begin_explained [of E "as_world s" n slug ref r w] by (simp add: waiting_wf)
next
  case (finish i s clock now)
  then show ?case
    using finish_explained [of E "as_world s" "as_jobs s ! i"] list_all_drop_nth by (simp add: list_all_length)
next
  case (abandon i s)
  then show ?case by (simp add: list_all_drop_nth)
next
  case (callback n slug q s r w)
  then show ?case using callback_explained [of E "as_world s"] by simp
next
  case (grant n slug ref surface scopes s r w)
  then show ?case using grant_explained [of E "as_world s"] by simp
next
  case (sweep s clock storage user slug)
  then show ?case using api_expire_explained by simp
qed

lemma explained_mono:
  "apply_rows_explained E t \<Longrightarrow> (\<And>owner provider. E owner provider \<Longrightarrow> E' owner provider) \<Longrightarrow>
     apply_rows_explained E' t"
  unfolding apply_rows_explained_def by blast

lemma account_run_explained:
  assumes "account_run p s ls t" "as_jobs s = []" "apply_rows_explained (\<lambda>owner provider. False) (wd_connections (as_world s))"
  shows "apply_rows_explained (\<lambda>owner provider. \<exists>l \<in> set ls. asks_apply l owner provider) (wd_connections (as_world t))
    \<and> list_all job_wf (as_jobs t)"
  using assms
proof (induction rule: account_run.induct)
  case (start s)
  then show ?case by simp
next
  case (extend s ls t l u)
  then have t: "apply_rows_explained (\<lambda>owner provider. \<exists>l \<in> set ls. asks_apply l owner provider) (wd_connections (as_world t))"
      "list_all job_wf (as_jobs t)" by auto
  show ?case
    by (rule account_step_explained [OF extend.hyps(2) _ t(2)], rule explained_mono [OF t(1)]) auto
qed

text \<open>Property C6: trace back: in every interleaving of the account routes, for any users, starting from connections
  without the apply scope, a stored connection has the apply scope only if its owner asked for it for
  this provider earlier: by a scope grant, while the operator's policy allowed apply, or in an
  authorization request.\<close>

theorem apply_scope_traceback:
  assumes "account_run p s ls t" "as_jobs s = []"
    and "list_all (\<lambda>(i, row). \<not> get_flag (kw_scopes row) ''apply'') (wd_connections (as_world s))"
    and "(i, row) \<in> set (wd_connections (as_world t))" "get_flag (kw_scopes row) ''apply''"
  shows "\<exists>l \<in> set ls. asks_apply l (row_owner row) (kw_provider_slug row)"
proof -
  have "apply_rows_explained (\<lambda>owner provider. False) (wd_connections (as_world s))"
    using assms(3) by (auto simp: apply_rows_explained_def list_all_iff)
  then show ?thesis
    using account_run_explained [OF assms(1,2)] assms(4,5) by (fastforce simp: apply_rows_explained_def)
qed

section \<open>Disconnecting\<close>

definition sent :: "run_event list \<Rightarrow> http_request list" where
  "sent es = List.map_filter (\<lambda>e. case e of Request r \<Rightarrow> Some r | _ \<Rightarrow> None) es"

lemma sent_simps [simp]:
  "sent [] = []" "sent (es @ fs) = sent es @ sent fs"
  "sent (AuditAppend b a # es) = sent es" "sent (Request q # es) = q # sent es"
  by (simp_all add: sent_def map_filter_simps)

lemma sent_requests [simp]: "sent (map Request rs) = rs"
  by (induction rs) auto

definition deletes :: "http_request list \<Rightarrow> http_request list" where
  "deletes rs = filter is_HttpDelete rs"

lemma audit_trace:
  "sent (wd_trace (append_account_audit storage r org user w)) = sent (wd_trace w)"
  by (simp add: append_account_audit_def case_prod_unfold Let_def)

lemma lifecycle_audit_trace [simp]:
  "sent (wd_trace (append_provider_lifecycle_audit slug storage n st rs sf md w)) = sent (wd_trace w)"
  by (simp add: append_provider_lifecycle_audit_def audit_trace)

lemma resolve_trace [simp]: "wd_trace (snd (resolve_connection storage n slug ref w)) = wd_trace w"
  by (simp add: resolve_connection_def)

lemma resolve_auth_config_gets: "list_all is_HttpGet (snd (resolve_auth_config_id client c slug))"
  by (simp add: resolve_auth_config_id_def lookup_request_def Let_def)

lemma deletes_gets: "list_all is_HttpGet rs \<Longrightarrow> deletes rs = []"
  unfolding deletes_def list_all_iff filter_empty_conv by (auto simp: is_HttpGet_def)

lemma disconnect_deletes:
  "deletes (snd (disconnect_connected_account client has_content c slug account))
     \<in> {[], [HttpDelete (tool_url c ''/connected_accounts/'' (py_strip account)) (api_key_header c)]}"
  using deletes_gets [OF resolve_auth_config_gets [of client c "normalize_provider_slug slug"]]
  by (auto simp: disconnect_connected_account_def deletes_def Let_def case_prod_unfold)

lemma read_own_row:
  assumes e: "get_provider_entry slug = Some e" and same: "wd_connections before = wd_connections w"
    and read: "fst (read_connection n (pe_slug e) safe_id before) = Some c"
  obtains i old where "(i, old) \<in> set (wd_connections w)" "env_key n = Some (row_owner old)"
    "kw_provider_slug old = pe_slug e" "connection_record_from_row (pe_slug e) (i, old) = Some c"
proof -
  have "get_connection_record (db_up before) (env_owner n) (env_user n) (pe_slug e) (Some safe_id)
      (wd_connections before) = Some c"
    using read by (simp add: read_connection_def)
  then show thesis
    by (rule get_connection_sound) (use that same provider_slug_normal [OF e] in \<open>auto simp: env_key_def\<close>)
qed

lemma disabled_fields:
  "cr_state (disabled_connection_record c reason) = Disabled"
  "cr_scopes (disabled_connection_record c reason) = no_scopes"
  "cr_provider_slug (disabled_connection_record c reason) = cr_provider_slug c"
  by (simp_all add: disabled_connection_record_def scope_grant_from_mapping_def no_scopes_def get_flag_def or_default_def)

text \<open>A disconnect that reaches the provider has read the caller's row and stored it disabled.\<close>

lemma disconnect_waits:
  assumes "disconnect_begin p n slug ref surface w = (Inr (Waits j), w')"
  obtains e owner i old where "get_provider_entry slug = Some e" "env_key n = Some owner" "row_owner old = owner"
    "(i, old) \<in> set (wd_connections w)" "kw_provider_slug old = pe_slug e"
    "cr_connection_id (dj_connection j) = py_strip i" "cr_provider_slug (dj_connection j) = pe_slug e"
    "dj_env j = n" "pe_slug (dj_entry j) = pe_slug e"
    "wd_connections w' = dict_set (py_strip i) (saved_row p (en_clock n) (composio_connect_enabled_entry e (en_config n))
      (disabled_connection_record (dj_connection j) ''user_disconnect_requested'') owner) (wd_connections w)"
proof -
  obtain e where e: "get_provider_entry slug = Some e"
    using assms by (auto simp: disconnect_begin_def split: option.splits)
  let ?entry = "composio_connect_enabled_entry e (en_config n)"
  let ?disabled = "disabled_connection_record (dj_connection j) ''user_disconnect_requested''"
  obtain safe_id before where read: "fst (read_connection n (pe_slug e) safe_id before) = Some (dj_connection j)"
      and same: "wd_connections before = wd_connections w" and slug: "cr_provider_slug (dj_connection j) = pe_slug e"
      and saved: "fst (save_connection p (en_clock n) ?entry ?disabled (env_owner n) (env_user n) (next_call before))"
      and table: "wd_connections w' = wd_connections (snd (save_connection p (en_clock n) ?entry ?disabled
        (env_owner n) (env_user n) (next_call before)))"
      and env: "dj_env j = n" "pe_slug (dj_entry j) = pe_slug e"
    using assms e by (auto simp: disconnect_begin_def Let_def case_prod_unfold split: option.splits if_splits)
  obtain i old where old: "(i, old) \<in> set (wd_connections w)" "env_key n = Some (row_owner old)"
      "kw_provider_slug old = pe_slug e" "connection_record_from_row (pe_slug e) (i, old) = Some (dj_connection j)"
    by (rule read_own_row [OF e same read])
  have id: "cr_connection_id (dj_connection j) = py_strip i" using record_from_row_scopes [OF old(4)] by simp
  have "wd_connections w' = dict_set (py_strip i) (saved_row p (en_clock n) ?entry ?disabled (row_owner old)) (wd_connections w)"
    using saved table same id old(2) by (cases rule: save_connection_cases [of p "en_clock n" ?entry ?disabled "env_owner n"
        "env_user n" "next_call before"]) (auto simp: env_key_def disabled_connection_record_def)
  then show thesis using that e old(1-3) id slug env by blast
qed

text \<open>Property C7: the connection is disabled before the provider is asked to delete it: the first part of a disconnect sends
  nothing, and when it goes on, the connection is the caller's own stored one, its row is now disabled without
  any scope, and the second part sends at most one DELETE, for this account.\<close>

theorem disconnect_disables_before_delete:
  "case disconnect_begin p n slug ref surface w of (r, w') \<Rightarrow>
     sent (wd_trace w') = sent (wd_trace w)
     \<and> (case r of
          Inr (Waits j) \<Rightarrow>
            (\<exists>owner i old row. env_key n = Some owner
               \<and> (i, old) \<in> set (wd_connections w) \<and> owned_by owner (normalize_provider_slug slug) old
               \<and> cr_connection_id (dj_connection j) = py_strip i
               \<and> dict_get (wd_connections w') (py_strip i) = Some row
               \<and> owned_by owner (normalize_provider_slug slug) row \<and> kw_state row = ''disabled''
               \<and> kw_scopes row = scope_to_metadata no_scopes
               \<and> deletes (snd (disconnect_outcome p j)) \<in>
                   {[], [HttpDelete (tool_url (en_config n) ''/connected_accounts/'' (py_strip i))
                      (api_key_header (en_config n))]})
        | _ \<Rightarrow> True)"
proof -
  obtain r w' where run: "disconnect_begin p n slug ref surface w = (r, w')" by fastforce
  have silent: "sent (wd_trace w') = sent (wd_trace w)"
    using run by (auto simp: disconnect_begin_def Let_def case_prod_unfold split: option.splits if_splits)
  have goes_on: "\<exists>owner i old row. env_key n = Some owner
               \<and> (i, old) \<in> set (wd_connections w) \<and> owned_by owner (normalize_provider_slug slug) old
               \<and> cr_connection_id (dj_connection j) = py_strip i
               \<and> dict_get (wd_connections w') (py_strip i) = Some row
               \<and> owned_by owner (normalize_provider_slug slug) row \<and> kw_state row = ''disabled''
               \<and> kw_scopes row = scope_to_metadata no_scopes
               \<and> deletes (snd (disconnect_outcome p j)) \<in>
                   {[], [HttpDelete (tool_url (en_config n) ''/connected_accounts/'' (py_strip i))
                      (api_key_header (en_config n))]}" if r: "r = Inr (Waits j)" for j
  proof (rule disconnect_waits [OF run [unfolded r]])
    fix e owner i old
    let ?row = "saved_row p (en_clock n) (composio_connect_enabled_entry e (en_config n))
      (disabled_connection_record (dj_connection j) ''user_disconnect_requested'') owner"
    assume e: "get_provider_entry slug = Some e" and owner: "env_key n = Some owner" "row_owner old = owner"
      and old: "(i, old) \<in> set (wd_connections w)" "kw_provider_slug old = pe_slug e"
      and j: "cr_connection_id (dj_connection j) = py_strip i" "cr_provider_slug (dj_connection j) = pe_slug e"
        "dj_env j = n" "pe_slug (dj_entry j) = pe_slug e"
      and set: "wd_connections w' = dict_set (py_strip i) ?row (wd_connections w)"
    have "owned_by owner (normalize_provider_slug slug) old" "owned_by owner (normalize_provider_slug slug) ?row"
        "kw_state ?row = ''disabled''" "kw_scopes ?row = scope_to_metadata no_scopes"
        "dict_get (wd_connections w') (py_strip i) = Some ?row"
      using owner old(2) j(2) by (simp_all add: owned_by_owner disabled_fields set provider_slug_normal(3) [OF e, symmetric])
    moreover have "deletes (snd (disconnect_outcome p j)) \<in>
        {[], [HttpDelete (tool_url (en_config n) ''/connected_accounts/'' (py_strip i)) (api_key_header (en_config n))]}"
      using disconnect_deletes [of "pt_client p" "pt_has_content p" "en_config n" "pe_slug e" "py_strip i"]
      by (simp add: disconnect_outcome_def j)
    ultimately show ?thesis using owner(1) old(1) j(1) by blast
  qed
  show ?thesis using run silent goes_on by (auto split: sum.splits account_reply.splits)
qed

section \<open>Granting scopes\<close>

text \<open>A grant that changes the table stores the caller's own active connection with the granted scopes.\<close>

lemma scope_grant_stores:
  assumes e: "get_provider_entry slug = Some e" and run: "scope_grant_route p n slug ref surface scopes w = (r, w')"
    and ne: "wd_connections w' \<noteq> wd_connections w"
  obtains c i old where "(i, old) \<in> set (wd_connections w)" "env_key n = Some (row_owner old)"
    "kw_provider_slug old = pe_slug e" "connection_record_from_row (pe_slug e) (i, old) = Some c" "conn_active c"
    "cr_provider_slug c = pe_slug e"
    "wd_connections w' = dict_set (py_strip i) (saved_row p (en_clock n) (composio_execution_enabled_entry e (en_config n))
      (granted_connection c (merge_scope_grants (cr_scopes c) (limited_to_policy (scope_grant_from_mapping (Some scopes))
        (pe_default_scopes (composio_execution_enabled_entry e (en_config n)))))) (row_owner old)) (wd_connections w)"
proof -
  let ?entry = "composio_execution_enabled_entry e (en_config n)"
  let ?new = "\<lambda>c. granted_connection c (merge_scope_grants (cr_scopes c)
    (limited_to_policy (scope_grant_from_mapping (Some scopes)) (pe_default_scopes ?entry)))"
  obtain c safe_id before where read: "fst (read_connection n (pe_slug e) safe_id before) = Some c"
      and same: "wd_connections before = wd_connections w" and active: "conn_active c"
      and table: "wd_connections w' = wd_connections (snd (save_connection p (en_clock n) ?entry (?new c)
          (env_owner n) (env_user n) (next_call before)))"
    using run ne e by (auto simp: scope_grant_route_def Let_def case_prod_unfold split: option.splits if_splits)
  obtain i old where old: "(i, old) \<in> set (wd_connections w)" "env_key n = Some (row_owner old)"
      "kw_provider_slug old = pe_slug e" "connection_record_from_row (pe_slug e) (i, old) = Some c"
    by (rule read_own_row [OF e same read])
  have slug: "cr_provider_slug c = pe_slug e"
    by (rule record_from_row_slug [OF old(4)]) (use old provider_slug_normal [OF e] in auto)
  have "wd_connections w' = dict_set (py_strip i) (saved_row p (en_clock n) ?entry (?new c) (row_owner old)) (wd_connections w)"
    using ne table same record_from_row_scopes [OF old(4)] old(2)
    by (cases rule: save_connection_cases [of p "en_clock n" ?entry "?new c" "env_owner n" "env_user n" "next_call before"])
      (auto simp: env_key_def granted_connection_def)
  then show thesis using that old active slug by blast
qed

text \<open>Property C9: what a scope grant stores: nothing, or the caller's own active connection with the scopes it had and, of
  those asked for, the ones the operator's policy allows; never the admin scope.\<close>

theorem scope_grant_within_policy:
  "case scope_grant_route p n slug ref surface scopes w of (r, w') \<Rightarrow>
     sent (wd_trace w') = sent (wd_trace w)
     \<and> (wd_connections w' = wd_connections w \<or>
       (\<exists>e owner i old row.
          get_provider_entry slug = Some e \<and> env_key n = Some owner
          \<and> (i, old) \<in> set (wd_connections w) \<and> owned_by owner (pe_slug e) old
          \<and> normalize_connection_state (Some (kw_state old)) = Connected
          \<and> wd_connections w' = dict_set (py_strip i) row (wd_connections w)
          \<and> owned_by owner (pe_slug e) row \<and> kw_state row = ''connected''
          \<and> (let before = scope_grant_from_mapping (Some (kw_scopes old));
                 after = scope_grant_from_mapping (Some (kw_scopes row));
                 asked = scope_grant_from_mapping (Some scopes);
                 policy = pe_default_scopes (composio_execution_enabled_entry e (en_config n))
             in (\<forall>s. scope_allows after s \<longleftrightarrow>
                  s \<noteq> Admin \<and> (scope_allows before s \<or> (scope_allows asked s \<and> scope_allows policy s))))))"
proof (cases "get_provider_entry slug")
  case None
  then show ?thesis by (simp add: scope_grant_route_def)
next
  case (Some e)
  let ?entry = "composio_execution_enabled_entry e (en_config n)"
  let ?asked = "scope_grant_from_mapping (Some scopes)"
  let ?new = "\<lambda>c. granted_connection c (merge_scope_grants (cr_scopes c)
    (limited_to_policy ?asked (pe_default_scopes ?entry)))"
  obtain r w' where run: "scope_grant_route p n slug ref surface scopes w = (r, w')" by fastforce
  have silent: "sent (wd_trace w') = sent (wd_trace w)"
    using run by (auto simp: scope_grant_route_def next_call_def resolve_connection_def Let_def case_prod_unfold
        split: option.splits if_splits)
  have scopes: "scope_allows (merge_scope_grants g (limited_to_policy a q)) s \<longleftrightarrow>
      s \<noteq> Admin \<and> (scope_allows g s \<or> (scope_allows a s \<and> scope_allows q s))" for g a q s
    by (cases s) (simp_all add: merge_scope_grants_def limited_to_policy_def)
  have changed: ?thesis if ne: "wd_connections w' \<noteq> wd_connections w"
  proof -
    obtain c i old where old: "(i, old) \<in> set (wd_connections w)" "env_key n = Some (row_owner old)"
        "kw_provider_slug old = pe_slug e" "connection_record_from_row (pe_slug e) (i, old) = Some c"
      and active: "conn_active c" and slug: "cr_provider_slug c = pe_slug e"
      and set: "wd_connections w' = dict_set (py_strip i) (saved_row p (en_clock n) ?entry (?new c) (row_owner old))
        (wd_connections w)"
      by (rule scope_grant_stores [OF Some run ne])
    let ?row = "saved_row p (en_clock n) ?entry (?new c) (row_owner old)"
    note c = record_from_row_scopes [OF old(4)]
    have state: "kw_state ?row = ''connected''" "normalize_connection_state (Some (kw_state old)) = Connected"
      using active c by (simp_all add: granted_connection_def conn_active_def)
    have owned: "owned_by (row_owner old) (pe_slug e) old" "owned_by (row_owner old) (pe_slug e) ?row"
      using old slug by (simp_all add: owned_by_owner granted_connection_def)
    have after: "\<forall>s. scope_allows (scope_grant_from_mapping (Some (kw_scopes ?row))) s \<longleftrightarrow>
        s \<noteq> Admin \<and> (scope_allows (scope_grant_from_mapping (Some (kw_scopes old))) s
          \<or> (scope_allows ?asked s \<and> scope_allows (pe_default_scopes ?entry) s))"
      using c by (simp add: granted_connection_def scope_metadata_roundtrip scopes)
    show ?thesis
      unfolding run Let_def split_conv using silent Some old(1,2) set state owned after by blast
  qed
  then show ?thesis using run silent by auto
qed

section \<open>Callbacks\<close>

text \<open>A callback that changes the table had claims that verify, and stored one row for the user they name.\<close>

lemma callback_stores:
  assumes e: "get_provider_entry slug = Some e" and run: "callback_route p n slug q w = (r, w')"
    and ne: "wd_connections w' \<noteq> wd_connections w"
  obtains claims owner where
    "callback_claims_of p n (composio_connect_enabled_entry e (en_config n)) q = Inr claims" "cl_valid claims"
    "normalize_owner (cl_organization_id claims) (cl_user_id claims) = Some owner"
    "wd_connections w' = dict_set (callback_connection_id q) (saved_row p (en_clock n)
      (composio_connect_enabled_entry e (en_config n)) (callback_connection (composio_connect_enabled_entry e (en_config n)) q
        (callback_connection_id q)) owner) (wd_connections w)"
proof -
  let ?entry = "composio_connect_enabled_entry e (en_config n)"
  let ?new = "callback_connection ?entry q (callback_connection_id q)"
  obtain claims where claims: "callback_claims_of p n ?entry q = Inr claims"
      and accepted: "cd_accepted (callback_decision_of n ?entry q claims)"
      and final: "w' = upsert_callback_connection p (en_clock n) ?entry q claims (env_storage n)
        (append_callback_audit (callback_decision_of n ?entry q claims) q (env_storage n) n claims w)"
    using run ne e by (auto simp: callback_route_def Let_def split: sum.splits if_splits)
  define before where "before = append_callback_audit (callback_decision_of n ?entry q claims) q (env_storage n) n claims w"
  have same: "wd_connections before = wd_connections w" by (simp add: before_def)
  have table: "wd_connections w' = wd_connections (snd (save_connection p (en_clock n) ?entry ?new
      (cl_organization_id claims) (cl_user_id claims) before))"
    using ne final same by (auto simp: upsert_callback_connection_def Let_def before_def split: if_splits)
  have valid: "cl_valid claims"
    using accepted by (auto simp: callback_decision_of_def provider_callback_decision_for_entry_def
        callback_reason_of_def Let_def split: if_splits)
  have "cr_connection_id (callback_connection ?entry q i) = i" for i by (simp add: callback_connection_def Let_def)
  then show thesis
    using ne table same that [OF claims valid]
    by (cases rule: save_connection_cases [of p "en_clock n" ?entry ?new "cl_organization_id claims" "cl_user_id claims" before])
      simp_all
qed

text \<open>Property C8: a callback stores nothing unless its state verifies, and then at most one row, under the connection id of
  its query, for the user the state names, with the read scope alone.\<close>

theorem callback_binds_signed_user:
  "case callback_route p n slug q w of (r, w') \<Rightarrow>
     sent (wd_trace w') = sent (wd_trace w)
     \<and> (wd_connections w' = wd_connections w \<or>
       (\<exists>e claims owner row.
          get_provider_entry slug = Some e
          \<and> callback_claims_of p n (composio_connect_enabled_entry e (en_config n)) q = Inr claims
          \<and> cl_valid claims
          \<and> normalize_owner (cl_organization_id claims) (cl_user_id claims) = Some owner
          \<and> wd_connections w' = dict_set (callback_connection_id q) row (wd_connections w)
          \<and> owned_by owner (pe_slug e) row
          \<and> kw_scopes row = scope_to_metadata (no_scopes\<lparr>sg_read := True\<rparr>)))"
proof (cases "get_provider_entry slug")
  case None
  then show ?thesis by (simp add: callback_route_def)
next
  case (Some e)
  let ?entry = "composio_connect_enabled_entry e (en_config n)"
  obtain r w' where run: "callback_route p n slug q w = (r, w')" by fastforce
  have silent: "sent (wd_trace w') = sent (wd_trace w)"
    using run by (auto simp: callback_route_def upsert_callback_connection_def append_callback_audit_def audit_trace
        Let_def case_prod_unfold split: option.splits sum.splits if_splits)
  have fields: "cr_provider_slug (callback_connection ?entry q i) = pe_slug e"
      "cr_scopes (callback_connection ?entry q i) = no_scopes\<lparr>sg_read := True\<rparr>" for i
    by (simp_all add: callback_connection_def scope_grant_from_mapping_def no_scopes_def get_flag_def or_default_def Let_def)
  have ?thesis if ne: "wd_connections w' \<noteq> wd_connections w"
  proof (rule callback_stores [OF Some run ne])
    fix claims owner
    let ?row = "saved_row p (en_clock n) ?entry (callback_connection ?entry q (callback_connection_id q)) owner"
    assume stored: "callback_claims_of p n ?entry q = Inr claims" "cl_valid claims"
        "normalize_owner (cl_organization_id claims) (cl_user_id claims) = Some owner"
        "wd_connections w' = dict_set (callback_connection_id q) ?row (wd_connections w)"
    have "owned_by owner (pe_slug e) ?row" "kw_scopes ?row = scope_to_metadata (no_scopes\<lparr>sg_read := True\<rparr>)"
      by (simp_all add: owned_by_owner fields)
    then show ?thesis
      unfolding run split_conv using silent Some stored by blast
  qed
  then show ?thesis using run silent by auto
qed

text \<open>The table's primary key is the connection id alone: a callback with a valid state of any user takes a stored
  connection over, whoever owned it, and its owner no longer finds it.\<close>

theorem callback_takes_over_connection:
  fixes p :: ports and clock :: int
  assumes id: "callback_connection_id q = i" "i \<noteq> []" "py_strip i = i" and ready: "connection_storage_ready storage" "db_up w"
    and slug: "pe_slug entry \<noteq> []"
    and claims: "normalize_owner (cl_organization_id claims) (cl_user_id claims) = Some owner"
    and table: "distinct (dict_keys (wd_connections w))"
    and other: "normalize_owner org user \<noteq> Some owner"
  defines "after \<equiv> wd_connections (upsert_callback_connection p clock entry q claims storage w)"
  shows "(\<exists>row. dict_get after i = Some row \<and> owned_by owner (pe_slug entry) row)
    \<and> get_connection_record True org user provider (Some i) after = None"
proof -
  let ?row = "saved_row p clock entry (callback_connection entry q i) owner"
  have fields: "cr_connection_id (callback_connection entry q i) = i"
      "cr_provider_slug (callback_connection entry q i) = pe_slug entry"
    by (simp_all add: callback_connection_def Let_def)
  have after: "after = dict_set i ?row (wd_connections w)"
    using id ready slug claims by (simp add: after_def upsert_callback_connection_def save_connection_iff fields)
  have row: "owned_by owner (pe_slug entry) ?row" by (simp add: owned_by_owner fields)
  have unique: "row = ?row" if "(i, row) \<in> set after" for row
  proof -
    have "distinct (map fst after)" using table by (simp add: after distinct_dict_keys_set flip: dict_keys_def)
    then have "dict_get after i = Some row" using that by (simp add: dict_get_def)
    then show ?thesis by (simp add: after)
  qed
  have "get_connection_record True org user provider (Some i) after = None"
  proof (rule ccontr)
    assume "get_connection_record True org user provider (Some i) after \<noteq> None"
    then obtain c where c: "get_connection_record True org user provider (Some i) after = Some c" by blast
    obtain j row' where "(j, row') \<in> set after" "normalize_owner org user = Some (row_owner row')" "j = i"
      by (rule get_connection_sound [OF c]) (use id in auto)
    then show False using unique row other by (simp add: owned_by_owner)
  qed
  then show ?thesis using row by (auto simp: after)
qed

section \<open>Polls and disconnected accounts\<close>

definition disconnected_row :: "connection_row \<Rightarrow> bool" where
  "disconnected_row row = (kw_state row = ''disabled'' \<and> kw_reason row = Some ''user_disconnect_requested'')"

lemma read_stored:
  assumes table: "distinct (dict_keys (wd_connections w))" "dict_get (wd_connections w) i = Some row"
    and up: "db_up w" and owner: "env_key n = Some (row_owner row)"
    and slug: "normalize_provider_slug (kw_provider_slug row) = kw_provider_slug row" "kw_provider_slug row \<noteq> []"
    and id: "py_strip i = i" "i \<noteq> []"
  obtains e where "fst (read_connection n (kw_provider_slug row) i w) = Some e"
    "cr_state e = normalize_connection_state (Some (kw_state row))" "cr_reason e = or_default (kw_reason row) []"
    "cr_scopes e = scope_grant_from_mapping (Some (kw_scopes row))"
proof -
  have "(i, row) \<in> set (wd_connections w)" using table(2) by (simp add: dict_get_def map_of_SomeD)
  then have "filter (\<lambda>(j, r). j = i) (select_rows (row_owner row) (kw_provider_slug row) (wd_connections w)) = [(i, row)]"
    by (intro select_by_id table) (simp_all add: owned_by_owner)
  then have "fst (read_connection n (kw_provider_slug row) i w) = connection_record_from_row (kw_provider_slug row) (i, row)"
    using up owner slug id
    by (simp add: read_connection_def get_connection_record_def env_key_def or_default_def)
  moreover obtain e where "connection_record_from_row (kw_provider_slug row) (i, row) = Some e"
    using id by (auto simp: connection_record_from_row_def Let_def)
  ultimately show thesis using that record_from_row_scopes by metis
qed

lemma listed_other_key:
  assumes "cr_connection_id c \<noteq> i"
  shows "dict_get (wd_connections (upsert_listed_connection p n entry c w)) i = dict_get (wd_connections w) i"
proof -
  let ?kept = "fst (with_preserved_scopes n c (snd (poll_would_reanimate n c w)))"
  have id: "cr_connection_id ?kept = cr_connection_id c"
    by (simp add: with_preserved_scopes_def case_prod_unfold split: option.splits)
  have same: "wd_connections (snd (poll_would_reanimate n c w)) = wd_connections w"
      "wd_connections (snd (with_preserved_scopes n c v)) = wd_connections v" for v
    by (simp_all add: poll_would_reanimate_def with_preserved_scopes_def case_prod_unfold)
  show ?thesis
    by (cases rule: save_connection_cases [of p "en_clock n" entry ?kept "env_owner n" "env_user n"
          "snd (with_preserved_scopes n c (snd (poll_would_reanimate n c w)))"])
      (use assms in \<open>auto simp: upsert_listed_connection_def case_prod_unfold Let_def same id\<close>)
qed

lemma listed_distinct:
  "distinct (dict_keys (wd_connections w)) \<Longrightarrow> distinct (dict_keys (wd_connections (upsert_listed_connection p n entry c w)))"
proof -
  assume dist: "distinct (dict_keys (wd_connections w))"
  have same: "wd_connections (snd (poll_would_reanimate n c w)) = wd_connections w"
      "wd_connections (snd (with_preserved_scopes n c v)) = wd_connections v" for v
    by (simp_all add: poll_would_reanimate_def with_preserved_scopes_def case_prod_unfold)
  show ?thesis
    by (cases rule: save_connection_cases [of p "en_clock n" entry
          "fst (with_preserved_scopes n c (snd (poll_would_reanimate n c w)))" "env_owner n" "env_user n"
          "snd (with_preserved_scopes n c (snd (poll_would_reanimate n c w)))"])
      (use dist in \<open>auto simp: upsert_listed_connection_def case_prod_unfold Let_def same distinct_dict_keys_set\<close>)
qed

lemma listed_up:
  "(\<And>k. wd_up w k) \<Longrightarrow> wd_up (upsert_listed_connection p n entry c w) k"
  by (simp add: upsert_listed_connection_def poll_would_reanimate_def with_preserved_scopes_def save_connection_iff
      case_prod_unfold Let_def split: option.splits)

text \<open>A user's disconnect outlives a poll: when the provider reports the account as active, the row stays as it is,
  whatever the other accounts of the list are. This needs a database that answers the reads.\<close>

theorem poll_keeps_disconnected:
  assumes "\<And>k. wd_up w k" "distinct (dict_keys (wd_connections w))"
    and "dict_get (wd_connections w) i = Some row" "disconnected_row row" "env_key n = Some (row_owner row)"
    and "normalize_provider_slug (kw_provider_slug row) = kw_provider_slug row" "kw_provider_slug row \<noteq> []"
    and "py_strip i = i" "i \<noteq> []"
    and "list_all (\<lambda>c. cr_connection_id c \<noteq> i \<or> conn_active c \<and> cr_provider_slug c = kw_provider_slug row) cs"
  shows "dict_get (wd_connections (upsert_listed_connections p n entry cs storage w)) i = Some row"
proof -
  have step: "dict_get (wd_connections (upsert_listed_connection p n entry c v)) i = Some row"
    if v: "\<And>k. wd_up v k" "distinct (dict_keys (wd_connections v))" "dict_get (wd_connections v) i = Some row"
      and c: "cr_connection_id c \<noteq> i \<or> conn_active c \<and> cr_provider_slug c = kw_provider_slug row" for c v
  proof (cases "cr_connection_id c = i")
    case False
    then show ?thesis using v(3) by (simp add: listed_other_key)
  next
    case True
    then have active: "conn_active c" "cr_provider_slug c = kw_provider_slug row" using c by auto
    obtain e where e: "fst (read_connection n (kw_provider_slug row) i v) = Some e"
        "cr_state e = normalize_connection_state (Some (kw_state row))" "cr_reason e = or_default (kw_reason row) []"
      by (rule read_stored [OF v(2,3) _ assms(5-9)]) (use v(1) in \<open>auto simp: db_up_def\<close>)
    have "user_disconnected (Some e)"
      using e assms(4) state_word_roundtrip [of Disabled]
      by (simp add: user_disconnected_def disconnected_row_def or_default_def)
    then show ?thesis
      using True active e v(3)
      by (simp add: upsert_listed_connection_def poll_would_reanimate_def case_prod_unfold)
  qed
  have "dict_get (wd_connections (foldl (\<lambda>w c. upsert_listed_connection p n entry c w) v cs)) i = Some row"
    if "\<And>k. wd_up v k" "distinct (dict_keys (wd_connections v))" "dict_get (wd_connections v) i = Some row" for v
    using that assms(10)
  proof (induction cs arbitrary: v)
    case (Cons c cs)
    have c: "cr_connection_id c \<noteq> i \<or> conn_active c \<and> cr_provider_slug c = kw_provider_slug row"
        and cs: "list_all (\<lambda>c. cr_connection_id c \<noteq> i \<or> conn_active c \<and> cr_provider_slug c = kw_provider_slug row) cs"
      using Cons.prems(4) by simp_all
    show ?case
      unfolding foldl_Cons
      by (rule Cons.IH [OF listed_up [OF Cons.prems(1)] listed_distinct [OF Cons.prems(2)] step [OF Cons.prems(1-3) c] cs])
  qed simp
  then show ?thesis using assms(1-3) by (simp add: upsert_listed_connections_def)
qed

lemma listed_saves:
  assumes "\<And>k. wd_up w k" "env_key n = Some owner" "cr_connection_id c = i" "i \<noteq> []" "cr_provider_slug c \<noteq> []"
    and go: "\<not> fst (poll_would_reanimate n c w)"
  obtains row where "dict_get (wd_connections (upsert_listed_connection p n entry c w)) i = Some row"
    "row_owner row = owner" "kw_state row = state_name (cr_state c)" "kw_reason row = or_null (cr_reason c)"
    "kw_provider_slug row = cr_provider_slug c"
proof -
  let ?kept = "fst (with_preserved_scopes n c (snd (poll_would_reanimate n c w)))"
  have kept: "cr_connection_id ?kept = i" "cr_provider_slug ?kept = cr_provider_slug c" "cr_state ?kept = cr_state c"
      "cr_reason ?kept = cr_reason c"
    using assms(3) by (simp_all add: with_preserved_scopes_def case_prod_unfold split: option.splits)
  have up: "db_up (snd (with_preserved_scopes n c (snd (poll_would_reanimate n c w))))"
    using assms(1) by (simp add: with_preserved_scopes_def poll_would_reanimate_def case_prod_unfold db_up_def)
  have "dict_get (wd_connections (upsert_listed_connection p n entry c w)) i
      = Some (saved_row p (en_clock n) entry ?kept owner)"
    using go assms(2,4,5) up kept
    by (simp add: upsert_listed_connection_def case_prod_unfold Let_def save_connection_iff env_key_def)
  then show thesis using that kept by simp
qed

text \<open>Property C38: but the mark of the user's disconnect is lost in the first poll that reports the account as not active, and
  the next poll that reports it as active connects it again.\<close>

theorem poll_revives_disconnected:
  fixes p :: ports and entry :: provider_entry
  assumes "\<And>k. wd_up w k" "distinct (dict_keys (wd_connections w))" "connection_storage_ready storage"
    and "dict_get (wd_connections w) i = Some row" "disconnected_row row" "env_key n = Some (row_owner row)"
    and "normalize_provider_slug (kw_provider_slug row) = kw_provider_slug row" "kw_provider_slug row \<noteq> []"
    and "py_strip i = i" "i \<noteq> []"
    and "cr_connection_id c = i" "cr_provider_slug c = kw_provider_slug row" "\<not> conn_active c"
      "cr_reason c = ''provider_connection_list''"
    and "cr_connection_id d = i" "cr_provider_slug d = kw_provider_slug row" "conn_active d"
  defines "after \<equiv> wd_connections (upsert_listed_connections p n entry [d] storage
      (upsert_listed_connections p n entry [c] storage w))"
  shows "\<exists>row'. dict_get after i = Some row' \<and> kw_state row' = ''connected'' \<and> row_owner row' = row_owner row"
proof -
  let ?mid = "upsert_listed_connection p n entry c w"
  have first: "\<not> fst (poll_would_reanimate n c w)"
    using assms(13) by (simp add: poll_would_reanimate_def case_prod_unfold)
  obtain mid where mid: "dict_get (wd_connections ?mid) i = Some mid" "row_owner mid = row_owner row"
      "kw_reason mid = Some ''provider_connection_list''" "kw_provider_slug mid = kw_provider_slug row"
    by (rule listed_saves [OF assms(1,6,11,10) _ first]) (use assms(8,12,14) in \<open>auto simp: or_null_def\<close>)
  have up: "wd_up ?mid k" for k by (rule listed_up) (rule assms(1))
  obtain e where e: "fst (read_connection n (kw_provider_slug mid) i ?mid) = Some e"
      "cr_reason e = or_default (kw_reason mid) []"
    by (rule read_stored [OF listed_distinct [OF assms(2)] mid(1)]) (use up mid assms(6-10) in \<open>auto simp: db_up_def\<close>)
  then have second: "\<not> fst (poll_would_reanimate n d ?mid)"
    using assms(15,16) mid(3,4) by (simp add: poll_would_reanimate_def case_prod_unfold user_disconnected_def or_default_def)
  obtain row' where row': "dict_get (wd_connections (upsert_listed_connection p n entry d ?mid)) i = Some row'"
      "row_owner row' = row_owner row" "kw_state row' = state_name (cr_state d)"
    by (rule listed_saves [OF up assms(6,15,10) _ second]) (use assms(8,16) in auto)
  then show ?thesis
    using row' assms(3,17) by (simp add: after_def upsert_listed_connections_def conn_active_def)
qed

section \<open>Concrete runs\<close>

definition example_ports :: ports where
  "example_ports = \<lparr> pt_to_iso = (\<lambda>s. None), pt_client = example_client, pt_has_content = (\<lambda>q. True),
     pt_loads = (\<lambda>bs. None), pt_ints = (\<lambda>s. None), pt_with_state = (\<lambda>u s. u @ ''?wiii_state='' @ s) \<rparr>"

definition example_system :: account_system where
  "example_system = \<lparr> as_world = connected_world, as_jobs = [] \<rparr>"

lemma example_owner:
  "env_owner example_env = ''org''" "env_user example_env = ''u1''" "env_key example_env = Some (''org'', ''u1'')"
proof -
  have key: "normalize_owner ''org'' ''u1'' = Some (''org'', ''u1'')" by code_simp
  show "env_owner example_env = ''org''" "env_user example_env = ''u1''" "env_key example_env = Some (''org'', ''u1'')"
    using key by (simp_all add: env_owner_def env_user_def env_key_def example_env_def example_user_def
        owner_organization_id_def or_default_def)
qed

lemma example_get:
  "get_connection_record True ''org'' ''u1'' ''facebook'' (Some ''c1'') [(''c1'', example_row)] = Some facebook_connection"
  by code_simp

text \<open>A user with the read scope alone asks for apply, and the operator's policy allows it.\<close>

lemma example_grant:
  obtains r w row where "scope_grant_route example_ports example_env ''facebook'' (public_connection_ref ''facebook'' ''c1'')
      ''desktop'' [(''apply'', PBool True)] connected_world = (r, w)"
    "wd_connections w = [(''c1'', row)]" "get_flag (kw_scopes row) ''apply''"
proof -
  let ?ref = "public_connection_ref ''facebook'' ''c1''"
  obtain h where h: "?ref = ''wcn_'' @ h" "length h = 24" "list_all is_hex_lower h"
    using example_ref_shape by blast
  have ready: "connection_storage_ready example_storage" by code_simp
  have conn: "cr_provider_slug facebook_connection = ''facebook''" "cr_connection_id facebook_connection = ''c1''"
      "conn_active facebook_connection" "sg_apply (cr_scopes facebook_connection) = False"
    by (simp_all add: facebook_connection_def conn_active_def no_scopes_def)
  have owner: "owner_organization_id example_user = ''org''" "us_user_id example_user = ''u1''" "en_user example_env = example_user"
    by (simp_all add: owner_organization_id_def example_user_def example_env_def or_default_def)
  have matches: "connection_ref_matches ''facebook'' ''c1'' ?ref"
    using ref_passes(1) [OF h(3) h(2)] h(1) by (simp add: connection_ref_matches_def)
  have ref: "api_connection_ref (Some ?ref) = ?ref" "?ref \<noteq> []"
    using ref_passes(2) [OF h(3) h(2)] h(1) by (simp_all add: api_connection_ref_def py_startswith_def Let_def)
  have world: "wd_connections connected_world = [(''c1'', example_row)]" "db_up connected_world" "db_up (next_call connected_world)"
      "db_up (next_call (next_call connected_world))"
    by (simp_all add: connected_world_def example_world_def db_up_def next_call_def)
  have resolve: "resolve_connection example_storage example_env ''facebook'' ?ref connected_world = (''c1'', next_call connected_world)"
    using ref_passes(2) [OF h(3) h(2)] ready owner world example_stored conn matches ref
    by (simp add: resolve_connection_def resolve_provider_connection_id_def h(1) py_startswith_def Let_def)
  have read: "read_connection example_env ''facebook'' ''c1'' (next_call connected_world)
      = (Some facebook_connection, next_call (next_call connected_world))"
    using world example_get by (simp add: read_connection_def example_owner)
  have entry: "get_provider_entry ''facebook'' = Some (hd provider_registry)" "pe_slug (hd provider_registry) = ''facebook''"
    by code_simp+
  have config: "en_config example_env = example_config" by (simp add: example_env_def)
  have applies: "sg_apply (limited_to_policy (scope_grant_from_mapping (Some [(''apply'', PBool True)]))
      (pe_default_scopes example_facebook))"
    by (simp add: limited_to_policy_def scope_grant_from_mapping_def get_flag_def or_default_def example_entry_facts)
  let ?c = "granted_connection facebook_connection (merge_scope_grants (cr_scopes facebook_connection)
      (limited_to_policy (scope_grant_from_mapping (Some [(''apply'', PBool True)])) (pe_default_scopes example_facebook)))"
  obtain r w where run: "scope_grant_route example_ports example_env ''facebook'' ?ref ''desktop'' [(''apply'', PBool True)]
      connected_world = (r, w)" by fastforce
  have key: "normalize_owner ''org'' ''u1'' = Some (''org'', ''u1'')" by code_simp
  have fields: "cr_connection_id ?c = ''c1''" "cr_provider_slug ?c = ''facebook''" "sg_apply (cr_scopes ?c)"
    using applies conn by (simp_all add: granted_connection_def merge_scope_grants_def)
  have "wd_connections w = dict_set ''c1'' (saved_row example_ports (en_clock example_env) example_facebook ?c (''org'', ''u1''))
      [(''c1'', example_row)]"
    using run key world fields(1,2)
    by (clarsimp simp: scope_grant_route_def entry config example_env_storage ref resolve example_entry_facts(1) read ready conn
        example_owner save_connection_iff case_prod_unfold Let_def)
  then show thesis using that [OF run] fields by (simp add: dict_set_def get_flag_scopes)
qed

theorem apply_scope_traceback_witness:
  "\<exists>t row. account_run example_ports example_system [Granted example_env ''facebook'' [(''apply'', PBool True)]] t
     \<and> (''c1'', row) \<in> set (wd_connections (as_world t)) \<and> get_flag (kw_scopes row) ''apply''
     \<and> \<not> get_flag (kw_scopes example_row) ''apply''
     \<and> asks_apply (Granted example_env ''facebook'' [(''apply'', PBool True)]) (row_owner row) (kw_provider_slug row)"
proof -
  obtain r w row where w: "scope_grant_route example_ports example_env ''facebook'' (public_connection_ref ''facebook'' ''c1'')
      ''desktop'' [(''apply'', PBool True)] connected_world = (r, w)"
    "wd_connections w = [(''c1'', row)]" "get_flag (kw_scopes row) ''apply''"
    by (rule example_grant)
  let ?l = "Granted example_env ''facebook'' [(''apply'', PBool True)]" and ?t = "example_system\<lparr>as_world := w\<rparr>"
  have started: "as_world example_system = connected_world" by (simp add: example_system_def)
  have "account_step example_ports example_system ?l ?t"
    by (rule account_step.grant [where r = r]) (unfold started, rule w(1))
  then have run: "account_run example_ports example_system [?l] ?t"
    using account_run.extend [OF account_run.start] by force
  have before: "\<not> get_flag (kw_scopes example_row) ''apply''" by code_simp
  have "\<exists>l \<in> set [?l]. asks_apply l (row_owner row) (kw_provider_slug row)"
    by (rule apply_scope_traceback [OF run, where i = "''c1''"])
      (use w before in \<open>simp_all add: example_system_def connected_world_def\<close>)
  then show ?thesis using run w before by fastforce
qed

text \<open>A table with a connection that its user has disconnected.\<close>

definition disconnected_world :: world where
  "disconnected_world = (example_world True)\<lparr>wd_connections :=
     [(''c1'', example_row\<lparr>kw_state := ''disabled'', kw_reason := Some ''user_disconnect_requested''\<rparr>)]\<rparr>"

lemma disconnected_facts:
  "wd_up disconnected_world k"
  "wd_connections disconnected_world =
     [(''c1'', example_row\<lparr>kw_state := ''disabled'', kw_reason := Some ''user_disconnect_requested''\<rparr>)]"
  "conn_active facebook_connection" "cr_connection_id facebook_connection = ''c1''"
  "cr_provider_slug facebook_connection = ''facebook''" "normalize_provider_slug ''facebook'' = ''facebook''"
  "kw_provider_slug example_row = ''facebook''" "row_owner example_row = (''org'', ''u1'')" "py_strip ''c1'' = ''c1''"
  "row_owner (example_row\<lparr>kw_state := s, kw_reason := r\<rparr>) = (''org'', ''u1'')"
  by (simp add: disconnected_world_def example_world_def, simp add: disconnected_world_def, code_simp+)

theorem poll_keeps_disconnected_witness:
  "\<exists>row. dict_get (wd_connections (upsert_listed_connections example_ports example_env example_facebook
       [facebook_connection] example_storage disconnected_world)) ''c1'' = Some row \<and> kw_state row = ''disabled''"
proof -
  let ?row = "example_row\<lparr>kw_state := ''disabled'', kw_reason := Some ''user_disconnect_requested''\<rparr>"
  have "dict_get (wd_connections (upsert_listed_connections example_ports example_env example_facebook
       [facebook_connection] example_storage disconnected_world)) ''c1'' = Some ?row"
    by (rule poll_keeps_disconnected)
      (simp_all add: disconnected_facts example_owner disconnected_row_def dict_keys_def dict_get_def)
  then show ?thesis by simp
qed

theorem poll_revives_disconnected_witness:
  "\<exists>row. dict_get (wd_connections (upsert_listed_connections example_ports example_env example_facebook
         [facebook_connection] example_storage
       (upsert_listed_connections example_ports example_env example_facebook
         [facebook_connection\<lparr>cr_state := Authorizing, cr_reason := ''provider_connection_list''\<rparr>] example_storage
         disconnected_world))) ''c1'' = Some row \<and> kw_state row = ''connected''"
proof -
  let ?row = "example_row\<lparr>kw_state := ''disabled'', kw_reason := Some ''user_disconnect_requested''\<rparr>"
  have ready: "connection_storage_ready example_storage" "\<not> conn_active (facebook_connection\<lparr>cr_state := Authorizing, cr_reason := r\<rparr>)" for r
    by code_simp (simp add: conn_active_def)
  have "\<exists>row'. dict_get (wd_connections (upsert_listed_connections example_ports example_env example_facebook
         [facebook_connection] example_storage
       (upsert_listed_connections example_ports example_env example_facebook
         [facebook_connection\<lparr>cr_state := Authorizing, cr_reason := ''provider_connection_list''\<rparr>] example_storage
         disconnected_world))) ''c1'' = Some row' \<and> kw_state row' = ''connected'' \<and> row_owner row' = row_owner ?row"
    by (rule poll_revives_disconnected [where row = ?row])
      (use ready in \<open>simp_all add: disconnected_facts example_owner disconnected_row_def dict_keys_def dict_get_def\<close>)
  then show ?thesis by blast
qed

text \<open>Another user's callback, with a state of their own, for the first user's connection.\<close>

definition mallory_query :: callback_query where
  "mallory_query = \<lparr> cq_state = Some ''s'', cq_wiii_state = None, cq_code = None, cq_error = None,
     cq_connected_account_id = Some ''c1'', cq_connection_id = None, cq_connectedAccountId = None, cq_id = None,
     cq_status = Some ''ACTIVE'', cq_surface = ''desktop'', cq_keys = [] \<rparr>"

definition mallory_claims :: callback_claims where
  "mallory_claims = \<lparr> cl_valid = True, cl_reason = ''valid'', cl_provider_slug = ''facebook'',
     cl_organization_id = ''org'', cl_user_id = ''mallory'', cl_issued_at = 0 \<rparr>"

theorem callback_takes_over_connection_witness:
  "(let after = wd_connections (upsert_callback_connection example_ports 0 example_facebook mallory_query mallory_claims
        example_storage connected_world)
    in (\<exists>row. dict_get after ''c1'' = Some row \<and> owned_by (''org'', ''mallory'') ''facebook'' row)
       \<and> get_connection_record True ''org'' ''u1'' ''facebook'' (Some ''c1'') after = None)
   \<and> get_connection_record True ''org'' ''u1'' ''facebook'' (Some ''c1'') (wd_connections connected_world) \<noteq> None"
proof -
  have facts: "callback_connection_id mallory_query = ''c1''" "py_strip ''c1'' = ''c1''"
      "connection_storage_ready example_storage"
      "normalize_owner (cl_organization_id mallory_claims) (cl_user_id mallory_claims) = Some (''org'', ''mallory'')"
      "normalize_owner ''org'' ''u1'' = Some (''org'', ''u1'')" "pe_slug (hd provider_registry) = ''facebook''"
    by code_simp+
  have world: "db_up connected_world" "wd_connections connected_world = [(''c1'', example_row)]"
    by (simp_all add: connected_world_def example_world_def db_up_def)
  note taken = callback_takes_over_connection [where i = "''c1''" and org = "''org''" and user = "''u1''" and w = connected_world
    and owner = "(''org'', ''mallory'')" and entry = example_facebook and p = example_ports and clock = 0
    and provider = "''facebook''", OF facts(1) _ facts(2,3) world(1) _ facts(4)]
  show ?thesis
    using taken facts(5,6) example_get by (simp add: world(2) dict_keys_def)
qed

end
