(* ===== verification/Event_Log.thy ===== *)
theory Event_Log
  imports Sanitizer Vault "HOL-Library.Multiset" "HOL-Library.Product_Lexorder"
begin

text \<open>
  The durable event log of a session, \<open>app/engine/runtime/session_event_log.py\<close>: the in-memory log
  and the Postgres log, which share one interface. The lock of the in-memory log makes each of its
  operations one step; an append to Postgres is a statement that reads the greatest number of its session
  and inserts the next one, and a unique constraint on session and number refuses the insert when another
  writer was faster, so an append tries again.
\<close>

section \<open>Events\<close>

record session_event =
  se_session_id :: string
  se_event_type :: string
  se_payload :: pydict
  se_seq :: nat
  se_org_id :: "string option"
  se_created_at :: "string option"

text \<open>What the module takes from libraries: \<open>json.loads\<close>, the keyed digest of the sanitizer, the text of a
  time (\<open>isoformat\<close>), the instant a text stands for (\<open>fromisoformat\<close>, in UTC) and the text that comes back
  from a JSONB column for a dictionary that \<open>json.dumps\<close> wrote to it.\<close>

record log_ports =
  lp_loads :: "string \<Rightarrow> pyval option"
  lp_digest :: "string \<Rightarrow> string"
  lp_isoformat :: "int \<Rightarrow> string"
  lp_instant :: "string \<Rightarrow> int option"
  lp_jsonb :: "pydict \<Rightarrow> string"

definition safe_payload_dict :: "log_ports \<Rightarrow> pyval \<Rightarrow> pydict" where
  "safe_payload_dict p payload =
     (case sanitize_payload (lp_loads p) (lp_digest p) 0 payload of PDict d \<Rightarrow> d | _ \<Rightarrow> [])"

definition bounded_recent_limit :: "int option \<Rightarrow> nat" where
  "bounded_recent_limit limit = (case limit of None \<Rightarrow> 50 | Some n \<Rightarrow> nat (min (max n 1) 500))"

definition event_created_before :: "log_ports \<Rightarrow> session_event \<Rightarrow> int \<Rightarrow> bool" where
  "event_created_before p e cutoff =
     (let raw = or_default (se_created_at e) [] in
      if raw = [] then False
      else (case lp_instant p (concat (map (\<lambda>c. if c = CHR ''Z'' then ''+00:00'' else [c]) raw)) of
        None \<Rightarrow> False | Some t \<Rightarrow> t < cutoff))"

text \<open>The arguments of an append, and the filters of the reading operations and of pruning.\<close>

record append_request =
  er_session_id :: string
  er_event_type :: string
  er_payload :: pydict
  er_org_id :: "string option"

definition org_matches :: "string option \<Rightarrow> session_event \<Rightarrow> bool" where
  "org_matches org e \<longleftrightarrow> org = None \<or> se_org_id e = org"

definition type_matches :: "string option \<Rightarrow> session_event \<Rightarrow> bool" where
  "type_matches ty e \<longleftrightarrow> ty = None \<or> Some (se_event_type e) = ty"

definition after_seq :: "int option \<Rightarrow> session_event \<Rightarrow> bool" where
  "after_seq since e = (case since of None \<Rightarrow> True | Some n \<Rightarrow> int (se_seq e) > n)"

section \<open>The in-memory log\<close>

record session_state =
  ss_seq :: nat
  ss_events :: "session_event list"

record memory_log =
  ml_sessions :: "(string \<times> session_state) list"
  ml_events :: "session_event list"

definition empty_memory_log :: memory_log where
  "empty_memory_log = \<lparr> ml_sessions = [], ml_events = [] \<rparr>"

definition memory_append :: "log_ports \<Rightarrow> int \<Rightarrow> append_request \<Rightarrow> memory_log \<Rightarrow> session_event \<times> memory_log" where
  "memory_append p now q l =
     (let state = or_default (dict_get (ml_sessions l) (er_session_id q)) \<lparr> ss_seq = 0, ss_events = [] \<rparr>;
          event = \<lparr> se_session_id = er_session_id q, se_event_type = er_event_type q,
            se_payload = safe_payload_dict p (PDict (er_payload q)), se_seq = ss_seq state + 1,
            se_org_id = er_org_id q, se_created_at = Some (lp_isoformat p now) \<rparr>
      in (event,
          \<lparr> ml_sessions = dict_set (er_session_id q)
              \<lparr> ss_seq = ss_seq state + 1, ss_events = ss_events state @ [event] \<rparr> (ml_sessions l),
            ml_events = ml_events l @ [event] \<rparr>))"

definition memory_get_events :: "memory_log \<Rightarrow> string \<Rightarrow> string option \<Rightarrow> int option \<Rightarrow> session_event list" where
  "memory_get_events l session_id org since =
     (case dict_get (ml_sessions l) session_id of
        None \<Rightarrow> []
      | Some state \<Rightarrow> filter (after_seq since) (filter (org_matches org) (ss_events state)))"

definition memory_latest_seq :: "memory_log \<Rightarrow> string \<Rightarrow> string option \<Rightarrow> nat" where
  "memory_latest_seq l session_id org =
     (case dict_get (ml_sessions l) session_id of
        None \<Rightarrow> 0
      | Some state \<Rightarrow>
          if org = None then ss_seq state
          else (case find (\<lambda>e. se_org_id e = org) (rev (ss_events state)) of None \<Rightarrow> 0 | Some e \<Rightarrow> se_seq e))"

definition memory_recent_events ::
    "memory_log \<Rightarrow> string option \<Rightarrow> string option \<Rightarrow> int option \<Rightarrow> session_event list" where
  "memory_recent_events l org ty limit =
     take (bounded_recent_limit limit) (filter (\<lambda>e. org_matches org e \<and> type_matches ty e) (rev (ml_events l)))"

definition prune_matches :: "log_ports \<Rightarrow> int \<Rightarrow> string option \<Rightarrow> string option \<Rightarrow> session_event \<Rightarrow> bool" where
  "prune_matches p cutoff org ty e \<longleftrightarrow> org_matches org e \<and> type_matches ty e \<and> event_created_before p e cutoff"

definition memory_prune ::
    "log_ports \<Rightarrow> int \<Rightarrow> string option \<Rightarrow> string option \<Rightarrow> bool \<Rightarrow> memory_log \<Rightarrow> nat \<times> memory_log" where
  "memory_prune p cutoff org ty dry_run l =
     (let gone = prune_matches p cutoff org ty; count = length (filter gone (ml_events l)) in
      if dry_run \<or> count = 0 then (count, l)
      else (count,
        \<lparr> ml_sessions = filter (\<lambda>(i, s). ss_events s \<noteq> [])
            (map (\<lambda>(i, s). (i, s\<lparr>ss_events := filter (\<lambda>e. \<not> gone e) (ss_events s)\<rparr>)) (ml_sessions l)),
          ml_events = filter (\<lambda>e. \<not> gone e) (ml_events l) \<rparr>))"

section \<open>The Postgres log\<close>

text \<open>A row of \<open>session_events\<close>; \<open>ids\<close> come from a sequence that an attempt advances even if it fails.\<close>

record event_row =
  ew_id :: nat
  ew_session_id :: string
  ew_org_id :: "string option"
  ew_event_type :: string
  ew_payload :: string
  ew_seq :: nat
  ew_created_at :: int

record pg_log =
  pg_rows :: "event_row list"
  pg_next_id :: nat

definition empty_pg_log :: pg_log where
  "empty_pg_log = \<lparr> pg_rows = [], pg_next_id = 1 \<rparr>"

definition row_to_event :: "log_ports \<Rightarrow> event_row \<Rightarrow> session_event" where
  "row_to_event p r =
     \<lparr> se_session_id = ew_session_id r, se_event_type = ew_event_type r,
       se_payload = (case lp_loads p (ew_payload r) of None \<Rightarrow> safe_payload_dict p (PDict []) | Some v \<Rightarrow> safe_payload_dict p v),
       se_seq = ew_seq r, se_org_id = ew_org_id r, se_created_at = Some (lp_isoformat p (ew_created_at r)) \<rparr>"

definition max_seq :: "event_row list \<Rightarrow> nat" where
  "max_seq rows = foldr max (map ew_seq rows) 0"

definition session_rows :: "string \<Rightarrow> event_row list \<Rightarrow> event_row list" where
  "session_rows session_id rows = filter (\<lambda>r. ew_session_id r = session_id) rows"

text \<open>One attempt: the number the statement computes on its snapshot, and the insert under the constraint.\<close>

definition pg_next_seq :: "pg_log \<Rightarrow> string \<Rightarrow> nat" where
  "pg_next_seq l session_id = max_seq (session_rows session_id (pg_rows l)) + 1"

definition pg_insert ::
    "log_ports \<Rightarrow> int \<Rightarrow> append_request \<Rightarrow> nat \<Rightarrow> pg_log \<Rightarrow> event_row option \<times> pg_log" where
  "pg_insert p now q seq l =
     (let row = \<lparr> ew_id = pg_next_id l, ew_session_id = er_session_id q, ew_org_id = er_org_id q,
            ew_event_type = er_event_type q,
            ew_payload = lp_jsonb p (safe_payload_dict p (PDict (er_payload q))), ew_seq = seq, ew_created_at = now \<rparr>;
          l1 = l\<lparr>pg_next_id := pg_next_id l + 1\<rparr>
      in if (\<exists>r \<in> set (pg_rows l). ew_session_id r = er_session_id q \<and> ew_seq r = seq) then (None, l1)
         else (Some row, l1\<lparr>pg_rows := pg_rows l @ [row]\<rparr>))"

datatype append_error = RetriesExceeded

text \<open>The loop of \<open>append\<close>. What other writers do to the log between the snapshot of an attempt and its
  insert, and when the row is made, is the list that it consumes; the loop makes one attempt for each of its elements,
  at most \<open>MAX_APPEND_RETRIES\<close>.\<close>

fun pg_append_loop ::
    "log_ports \<Rightarrow> append_request \<Rightarrow> ((pg_log \<Rightarrow> pg_log) \<times> int) list \<Rightarrow> pg_log \<Rightarrow>
     (append_error + session_event) \<times> pg_log" where
  "pg_append_loop p q [] l = (Inl RetriesExceeded, l)"
| "pg_append_loop p q ((others, now) # rest) l =
     (case pg_insert p now q (pg_next_seq l (er_session_id q)) (others l) of
        (Some row, l1) \<Rightarrow> (Inr (row_to_event p row), l1)
      | (None, l1) \<Rightarrow> pg_append_loop p q rest l1)"

definition max_append_retries :: nat where
  "max_append_retries = 3"

definition pg_append ::
    "log_ports \<Rightarrow> append_request \<Rightarrow> (nat \<Rightarrow> (pg_log \<Rightarrow> pg_log) \<times> int) \<Rightarrow> pg_log \<Rightarrow>
     (append_error + session_event) \<times> pg_log" where
  "pg_append p q env = pg_append_loop p q (map env [0..<max_append_retries])"

definition pg_get_events ::
    "log_ports \<Rightarrow> pg_log \<Rightarrow> string \<Rightarrow> string option \<Rightarrow> int option \<Rightarrow> session_event list" where
  "pg_get_events p l session_id org since =
     map (row_to_event p) (sort_key ew_seq (filter (\<lambda>r. ew_session_id r = session_id
       \<and> (org = None \<or> ew_org_id r = org)
       \<and> (case since of None \<Rightarrow> True | Some n \<Rightarrow> int (ew_seq r) > n)) (pg_rows l)))"

definition pg_latest_seq :: "pg_log \<Rightarrow> string \<Rightarrow> string option \<Rightarrow> nat" where
  "pg_latest_seq l session_id org =
     max_seq (filter (\<lambda>r. ew_session_id r = session_id \<and> (org = None \<or> ew_org_id r = org)) (pg_rows l))"

definition pg_recent_events ::
    "log_ports \<Rightarrow> pg_log \<Rightarrow> string option \<Rightarrow> string option \<Rightarrow> int option \<Rightarrow> session_event list" where
  "pg_recent_events p l org ty limit =
     map (row_to_event p) (take (bounded_recent_limit limit)
       (rev (sort_key (\<lambda>r. (ew_created_at r, ew_id r))
         (filter (\<lambda>r. (org = None \<or> ew_org_id r = org) \<and> (ty = None \<or> Some (ew_event_type r) = ty)) (pg_rows l)))))"

definition pg_prune_matches :: "int \<Rightarrow> string option \<Rightarrow> string option \<Rightarrow> event_row \<Rightarrow> bool" where
  "pg_prune_matches cutoff org ty r \<longleftrightarrow> ew_created_at r < cutoff
     \<and> (org = None \<or> ew_org_id r = org) \<and> (ty = None \<or> Some (ew_event_type r) = ty)"

definition pg_prune ::
    "int \<Rightarrow> string option \<Rightarrow> string option \<Rightarrow> bool \<Rightarrow> pg_log \<Rightarrow> nat \<times> pg_log" where
  "pg_prune cutoff org ty dry_run l =
     (let gone = pg_prune_matches cutoff org ty; count = length (filter gone (pg_rows l)) in
      (count, if dry_run then l else l\<lparr>pg_rows := filter (\<lambda>r. \<not> gone r) (pg_rows l)\<rparr>))"

section \<open>The interface of a log\<close>

text \<open>A list of appends, and the events they give.\<close>

fun append_all :: "('q \<Rightarrow> 'log \<Rightarrow> 'e \<times> 'log) \<Rightarrow> 'q list \<Rightarrow> 'log \<Rightarrow> 'e list \<times> 'log" where
  "append_all f [] l = ([], l)"
| "append_all f (qn # qns) l = (let (e, l1) = f qn l; (es, l2) = append_all f qns l1 in (e # es, l2))"

text \<open>What every consumer relies on: an append gives the event that reads return, under the number after
  the latest, and changes no other session.\<close>

locale event_log =
  fixes invar :: "'log \<Rightarrow> bool"
    and append :: "append_request \<times> int \<Rightarrow> 'log \<Rightarrow> session_event \<times> 'log"
    and events :: "'log \<Rightarrow> string \<Rightarrow> session_event list"
    and latest :: "'log \<Rightarrow> string \<Rightarrow> nat"
  assumes append_invar: "invar l \<Longrightarrow> invar (snd (append qn l))"
    and append_events: "invar l \<Longrightarrow> events (snd (append qn l)) i =
      events l i @ (if i = er_session_id (fst qn) then [fst (append qn l)] else [])"
    and append_latest: "invar l \<Longrightarrow> latest (snd (append qn l)) i =
      (if i = er_session_id (fst qn) then Suc (latest l i) else latest l i)"
    and append_seq: "invar l \<Longrightarrow> se_seq (fst (append qn l)) = Suc (latest l (er_session_id (fst qn)))"
    and append_session: "invar l \<Longrightarrow> se_session_id (fst (append qn l)) = er_session_id (fst qn)"
    and latest_bound: "invar l \<Longrightarrow> e \<in> set (events l i) \<Longrightarrow> se_seq e \<le> latest l i"
begin

lemma append_all_invar: "invar l \<Longrightarrow> invar (snd (append_all append qns l))"
  by (induction qns arbitrary: l) (auto simp: append_invar Let_def case_prod_unfold)

lemma append_all_events:
  "invar l \<Longrightarrow> events (snd (append_all append qns l)) i =
     events l i @ filter (\<lambda>e. se_session_id e = i) (fst (append_all append qns l))"
proof (induction qns arbitrary: l)
  case (Cons qn qns)
  then show ?case
    by (simp add: append_invar append_events append_session Let_def case_prod_unfold)
qed simp

lemma append_all_latest:
  "invar l \<Longrightarrow> latest (snd (append_all append qns l)) i =
     latest l i + length (filter (\<lambda>e. se_session_id e = i) (fst (append_all append qns l)))"
proof (induction qns arbitrary: l)
  case (Cons qn qns)
  then show ?case
    by (simp add: append_invar append_latest append_session Let_def case_prod_unfold)
qed simp

text \<open>The new events of a session are numbered from the latest on, without a gap.\<close>

lemma append_all_seqs:
  "invar l \<Longrightarrow> map se_seq (filter (\<lambda>e. se_session_id e = i) (fst (append_all append qns l)))
     = [Suc (latest l i)..<Suc (latest (snd (append_all append qns l)) i)]"
proof (induction qns arbitrary: l)
  case (Cons qn qns)
  have inv: "invar (snd (append qn l))" by (rule append_invar [OF Cons.prems])
  have le: "latest (snd (append qn l)) i \<le> latest (snd (append_all append qns (snd (append qn l)))) i"
    using append_all_latest [OF inv] by simp
  show ?case
  proof (cases "er_session_id (fst qn) = i")
    case True
    then have "latest (snd (append qn l)) i = Suc (latest l i)" by (simp add: append_latest [OF Cons.prems])
    then show ?thesis
      using Cons.IH [OF inv] True le
      by (simp add: append_session [OF Cons.prems] append_seq [OF Cons.prems] Let_def case_prod_unfold upt_rec)
  next
    case False
    then show ?thesis
      using Cons.IH [OF inv]
      by (simp add: append_session [OF Cons.prems] append_latest [OF Cons.prems] Let_def case_prod_unfold)
  qed
qed simp

text \<open>A reader that goes on from the latest number sees exactly the events appended since.\<close>

lemma cursor_complete:
  assumes "invar l"
  shows "filter (after_seq (Some (int (latest l i)))) (events (snd (append_all append qns l)) i)
    = filter (\<lambda>e. se_session_id e = i) (fst (append_all append qns l))"
proof -
  have old: "filter (after_seq (Some (int (latest l i)))) (events l i) = []"
    using latest_bound [OF assms] by (auto simp: after_seq_def filter_empty_conv not_less)
  have "latest l i < se_seq e"
    if "e \<in> set (filter (\<lambda>e. se_session_id e = i) (fst (append_all append qns l)))" for e
  proof -
    have "se_seq e \<in> set (map se_seq (filter (\<lambda>e. se_session_id e = i) (fst (append_all append qns l))))"
      using that unfolding set_map by (rule imageI)
    then show ?thesis unfolding append_all_seqs [OF assms] by auto
  qed
  then have "filter (after_seq (Some (int (latest l i)))) (filter (\<lambda>e. se_session_id e = i) (fst (append_all append qns l)))
      = filter (\<lambda>e. se_session_id e = i) (fst (append_all append qns l))"
    by (intro filter_True) (auto simp: after_seq_def)
  then show ?thesis by (simp add: append_all_events [OF assms] old)
qed

end

section \<open>The in-memory log keeps the interface\<close>

definition state_ok :: "string \<Rightarrow> session_state \<Rightarrow> bool" where
  "state_ok i s \<longleftrightarrow> sorted_wrt (<) (map se_seq (ss_events s))
     \<and> list_all (\<lambda>e. se_seq e \<le> ss_seq s \<and> se_session_id e = i) (ss_events s)"

definition memory_invar :: "memory_log \<Rightarrow> bool" where
  "memory_invar l \<longleftrightarrow> distinct (dict_keys (ml_sessions l)) \<and> list_all (\<lambda>(i, s). state_ok i s) (ml_sessions l)"

lemma memory_invar_state:
  "memory_invar l \<Longrightarrow> dict_get (ml_sessions l) i = Some s \<Longrightarrow> state_ok i s"
  by (auto simp: memory_invar_def list_all_iff dict_get_def dest: map_of_SomeD)

lemma memory_events_all: "memory_get_events l i None None = (case dict_get (ml_sessions l) i of None \<Rightarrow> [] | Some s \<Rightarrow> ss_events s)"
  by (simp add: memory_get_events_def org_matches_def after_seq_def split: option.split)

lemma memory_latest_all: "memory_latest_seq l i None = (case dict_get (ml_sessions l) i of None \<Rightarrow> 0 | Some s \<Rightarrow> ss_seq s)"
  by (simp add: memory_latest_seq_def split: option.split)

lemma list_all_dict_set:
  "list_all P d \<Longrightarrow> P (k, v) \<Longrightarrow> list_all P (dict_set k v d)"
  using set_dict_set [of k v d] by (auto simp: list_all_iff)

lemma memory_append_invar: "memory_invar l \<Longrightarrow> memory_invar (snd (memory_append p now q l))"
proof -
  assume l: "memory_invar l"
  define s where "s = or_default (dict_get (ml_sessions l) (er_session_id q)) \<lparr> ss_seq = 0, ss_events = [] \<rparr>"
  have s: "state_ok (er_session_id q) s"
    using memory_invar_state [OF l] by (auto simp: s_def or_default_def state_ok_def split: option.splits)
  have new: "state_ok (er_session_id q) \<lparr> ss_seq = Suc (ss_seq s), ss_events = ss_events s @ [e] \<rparr>"
    if "se_seq e = Suc (ss_seq s)" "se_session_id e = er_session_id q" for e
    using s that by (auto simp: state_ok_def list_all_iff sorted_wrt_append le_SucI less_Suc_eq_le)
  show ?thesis
    using l unfolding memory_append_def Let_def s_def [symmetric] memory_invar_def
    by (auto simp: distinct_dict_keys_set intro!: list_all_dict_set new)
qed

interpretation mem: event_log memory_invar "\<lambda>qn. memory_append p (snd qn) (fst qn)"
    "\<lambda>l i. memory_get_events l i None None" "\<lambda>l i. memory_latest_seq l i None" for p
proof
  fix l i qn e
  assume l: "memory_invar l"
  show "memory_invar (snd (memory_append p (snd qn) (fst qn) l))" by (rule memory_append_invar [OF l])
  show "e \<in> set (memory_get_events l i None None) \<Longrightarrow> se_seq e \<le> memory_latest_seq l i None"
    using memory_invar_state [OF l]
    by (auto simp: memory_events_all memory_latest_all state_ok_def list_all_iff split: option.splits)
qed (auto simp: memory_events_all memory_latest_all memory_append_def or_default_def Let_def split: option.splits)

section \<open>The Postgres log keeps the interface\<close>

definition pg_invar :: "pg_log \<Rightarrow> bool" where
  "pg_invar l \<longleftrightarrow> distinct (map (\<lambda>r. (ew_session_id r, ew_seq r)) (pg_rows l))
     \<and> distinct (map ew_id (pg_rows l)) \<and> list_all (\<lambda>r. ew_id r < pg_next_id l) (pg_rows l)"

lemma max_seq_simps [simp]:
  "max_seq [] = 0" "max_seq (r # rows) = max (ew_seq r) (max_seq rows)"
  by (simp_all add: max_seq_def)

lemma max_seq_append [simp]: "max_seq (rows @ rows') = max (max_seq rows) (max_seq rows')"
  by (induction rows) auto

lemma max_seq_bound: "r \<in> set rows \<Longrightarrow> ew_seq r \<le> max_seq rows"
  by (induction rows) auto

lemma pg_insert_invar: "pg_invar l \<Longrightarrow> pg_invar (snd (pg_insert p now q seq l))"
  by (auto simp: pg_invar_def pg_insert_def Let_def list_all_iff less_Suc_eq)

lemma pg_insert_fresh:
  "pg_insert p now q (pg_next_seq l (er_session_id q)) l =
     (let row = \<lparr> ew_id = pg_next_id l, ew_session_id = er_session_id q, ew_org_id = er_org_id q,
        ew_event_type = er_event_type q, ew_payload = lp_jsonb p (safe_payload_dict p (PDict (er_payload q))),
        ew_seq = pg_next_seq l (er_session_id q), ew_created_at = now \<rparr>
      in (Some row, l\<lparr>pg_next_id := pg_next_id l + 1, pg_rows := pg_rows l @ [row]\<rparr>))"
proof -
  have "ew_seq r \<noteq> pg_next_seq l (er_session_id q)" if "r \<in> set (pg_rows l)" "ew_session_id r = er_session_id q" for r
    using max_seq_bound [of r "session_rows (er_session_id q) (pg_rows l)"] that
    by (auto simp: session_rows_def pg_next_seq_def)
  then show ?thesis by (auto simp: pg_insert_def Let_def)
qed

text \<open>An append while no other writer comes between.\<close>

definition pg_append_alone :: "log_ports \<Rightarrow> append_request \<times> int \<Rightarrow> pg_log \<Rightarrow> session_event \<times> pg_log" where
  "pg_append_alone p qn l = (let (r, l1) = pg_append p (fst qn) (\<lambda>k. (id, snd qn)) l in (projr r, l1))"

lemma pg_append_undisturbed:
  "pg_append p q (\<lambda>k. (id, now)) l =
     (let row = \<lparr> ew_id = pg_next_id l, ew_session_id = er_session_id q, ew_org_id = er_org_id q,
        ew_event_type = er_event_type q, ew_payload = lp_jsonb p (safe_payload_dict p (PDict (er_payload q))),
        ew_seq = pg_next_seq l (er_session_id q), ew_created_at = now \<rparr>
      in (Inr (row_to_event p row), l\<lparr>pg_next_id := pg_next_id l + 1, pg_rows := pg_rows l @ [row]\<rparr>))"
  by (simp add: pg_append_def max_append_retries_def upt_rec pg_insert_fresh Let_def)

lemma sort_key_snoc:
  assumes "\<And>y. y \<in> set xs \<Longrightarrow> f y \<le> f x"
  shows "sort_key f (xs @ [x]) = sort_key f xs @ [x]"
proof (rule properties_for_sort_key)
  show "filter (\<lambda>y. f k = f y) (sort_key f xs @ [x]) = filter (\<lambda>y. f k = f y) (xs @ [x])" for k
  proof -
    have "sorted (map f (filter (\<lambda>y. f k = f y) xs))" by (induction xs) auto
    then have "sort_key f (filter (\<lambda>y. f k = f y) xs) = filter (\<lambda>y. f k = f y) xs" by (simp add: sort_key_id_if_sorted)
    then show ?thesis by (simp add: filter_sort)
  qed
  show "sorted (map f (sort_key f xs @ [x]))" using assms by (auto simp: sorted_append)
qed simp

interpretation pg: event_log pg_invar "pg_append_alone p" "\<lambda>l i. pg_get_events p l i None None"
    "\<lambda>l i. pg_latest_seq l i None" for p
proof
  fix l i and qn :: "append_request \<times> int" and e
  assume l: "pg_invar l"
  show "pg_invar (snd (pg_append_alone p qn l))"
    using pg_insert_invar [OF l, of p "snd qn" "fst qn" "pg_next_seq l (er_session_id (fst qn))"]
    by (simp add: pg_append_alone_def pg_append_undisturbed pg_insert_fresh Let_def)
  have bound: "ew_seq r \<le> pg_next_seq l i" if "r \<in> set (pg_rows l)" "ew_session_id r = i" for r i
    using max_seq_bound [of r "session_rows i (pg_rows l)"] that by (simp add: pg_next_seq_def session_rows_def)
  show "pg_get_events p (snd (pg_append_alone p qn l)) i None None = pg_get_events p l i None None
      @ (if i = er_session_id (fst qn) then [fst (pg_append_alone p qn l)] else [])"
  proof (cases "i = er_session_id (fst qn)")
    case True
    have snoc: "sort_key ew_seq (filter (\<lambda>r. ew_session_id r = i) (pg_rows l) @ [r])
        = sort_key ew_seq (filter (\<lambda>r. ew_session_id r = i) (pg_rows l)) @ [r]" if "ew_seq r = pg_next_seq l i" for r i
      by (rule sort_key_snoc) (use bound that in auto)
    show ?thesis
      using True by (simp add: pg_get_events_def pg_append_alone_def pg_append_undisturbed Let_def snoc)
  qed (simp add: pg_get_events_def pg_append_alone_def pg_append_undisturbed Let_def)
  show "pg_latest_seq (snd (pg_append_alone p qn l)) i None =
      (if i = er_session_id (fst qn) then Suc (pg_latest_seq l i None) else pg_latest_seq l i None)"
    by (simp add: pg_latest_seq_def pg_append_alone_def pg_append_undisturbed Let_def pg_next_seq_def session_rows_def)
  show "se_seq (fst (pg_append_alone p qn l)) = Suc (pg_latest_seq l (er_session_id (fst qn)) None)"
    by (simp add: pg_latest_seq_def pg_append_alone_def pg_append_undisturbed Let_def pg_next_seq_def session_rows_def
        row_to_event_def)
  show "se_session_id (fst (pg_append_alone p qn l)) = er_session_id (fst qn)"
    by (simp add: pg_append_alone_def pg_append_undisturbed Let_def row_to_event_def)
  show "e \<in> set (pg_get_events p l i None None) \<Longrightarrow> se_seq e \<le> pg_latest_seq l i None"
    using max_seq_bound [of _ "filter (\<lambda>r. ew_session_id r = i) (pg_rows l)"]
    by (auto simp: pg_get_events_def pg_latest_seq_def row_to_event_def)
qed

end
