(* ===== verification/Event_Log_Flow.thy ===== *)
theory Event_Log_Flow
  imports Event_Log
begin

text \<open>
  Histories of the event log: the two logs answer alike while nothing is pruned, what pruning does to a
  reader's cursor, and concurrent writers of the Postgres log.
\<close>

section \<open>The two logs answer alike\<close>

text \<open>An event as Postgres gives it back: its payload was read from the column and sanitized again.\<close>

definition reread :: "log_ports \<Rightarrow> session_event \<Rightarrow> session_event" where
  "reread p e = e\<lparr>se_payload := safe_payload_dict p (PDict (se_payload e))\<rparr>"

text \<open>The JSONB column gives back the dictionary that was written to it.\<close>

definition column_keeps :: "log_ports \<Rightarrow> append_request \<times> int \<Rightarrow> bool" where
  "column_keeps p qn \<longleftrightarrow> (let d = safe_payload_dict p (PDict (er_payload (fst qn))) in lp_loads p (lp_jsonb p d) = Some (PDict d))"

lemma reread_fields [simp]:
  "se_session_id (reread p e) = se_session_id e" "se_event_type (reread p e) = se_event_type e"
  "se_org_id (reread p e) = se_org_id e" "se_seq (reread p e) = se_seq e"
  by (simp_all add: reread_def)

lemma row_event_fields [simp]:
  "se_session_id (row_to_event p r) = ew_session_id r" "se_event_type (row_to_event p r) = ew_event_type r"
  "se_org_id (row_to_event p r) = ew_org_id r" "se_seq (row_to_event p r) = ew_seq r"
  by (simp_all add: row_to_event_def)

lemma map_filter_alike:
  assumes "map f xs = map g ys" "\<And>x. P x \<longleftrightarrow> R (f x)" "\<And>y. Q y \<longleftrightarrow> R (g y)"
  shows "map f (filter P xs) = map g (filter Q ys)"
proof -
  have "P = R \<circ> f" "Q = R \<circ> g" using assms(2,3) by (auto simp: fun_eq_iff)
  then have "filter R (map f xs) = map f (filter P xs)" "filter R (map g ys) = map g (filter Q ys)"
    by (simp_all add: filter_map)
  then show ?thesis using assms(1) by metis
qed

definition numbered :: "event_row list \<Rightarrow> bool" where
  "numbered rows \<longleftrightarrow> (\<forall>i. sorted_wrt (<) (map ew_seq (session_rows i rows)))"

definition alike :: "log_ports \<Rightarrow> memory_log \<Rightarrow> pg_log \<Rightarrow> bool" where
  "alike p m g \<longleftrightarrow> numbered (pg_rows g)
     \<and> map (row_to_event p) (pg_rows g) = map (reread p) (ml_events m)
     \<and> (\<forall>i. memory_get_events m i None None = filter (\<lambda>e. se_session_id e = i) (ml_events m))
     \<and> (\<forall>i. memory_latest_seq m i None = pg_latest_seq g i None)"

lemma alike_empty: "alike p empty_memory_log empty_pg_log"
  by (simp add: alike_def numbered_def session_rows_def empty_memory_log_def empty_pg_log_def memory_get_events_def
      memory_latest_seq_def pg_latest_seq_def)

lemma memory_append_event:
  "fst (memory_append p now q m) = \<lparr> se_session_id = er_session_id q, se_event_type = er_event_type q,
     se_payload = safe_payload_dict p (PDict (er_payload q)), se_seq = Suc (memory_latest_seq m (er_session_id q) None),
     se_org_id = er_org_id q, se_created_at = Some (lp_isoformat p now) \<rparr>"
  "ml_events (snd (memory_append p now q m)) = ml_events m @ [fst (memory_append p now q m)]"
  by (auto simp: memory_append_def memory_latest_all or_default_def Let_def split: option.splits)

lemma pg_alone_row:
  obtains row where "pg_append_alone p qn l = (row_to_event p row, l\<lparr>pg_next_id := pg_next_id l + 1, pg_rows := pg_rows l @ [row]\<rparr>)"
    "row = \<lparr> ew_id = pg_next_id l, ew_session_id = er_session_id (fst qn), ew_org_id = er_org_id (fst qn),
       ew_event_type = er_event_type (fst qn), ew_payload = lp_jsonb p (safe_payload_dict p (PDict (er_payload (fst qn)))),
       ew_seq = Suc (pg_latest_seq l (er_session_id (fst qn)) None), ew_created_at = snd qn \<rparr>"
  by (simp add: pg_append_alone_def pg_append_undisturbed Let_def pg_latest_seq_def pg_next_seq_def session_rows_def)

lemma alike_append:
  assumes "alike p m g" "memory_invar m" "pg_invar g" "column_keeps p qn"
  shows "alike p (snd (memory_append p (snd qn) (fst qn) m)) (snd (pg_append_alone p qn g))
    \<and> fst (pg_append_alone p qn g) = reread p (fst (memory_append p (snd qn) (fst qn) m))"
proof -
  obtain row where row: "pg_append_alone p qn g = (row_to_event p row, g\<lparr>pg_next_id := pg_next_id g + 1, pg_rows := pg_rows g @ [row]\<rparr>)"
    "row = \<lparr> ew_id = pg_next_id g, ew_session_id = er_session_id (fst qn), ew_org_id = er_org_id (fst qn),
       ew_event_type = er_event_type (fst qn), ew_payload = lp_jsonb p (safe_payload_dict p (PDict (er_payload (fst qn)))),
       ew_seq = Suc (pg_latest_seq g (er_session_id (fst qn)) None), ew_created_at = snd qn \<rparr>" by (rule pg_alone_row)
  let ?e = "fst (memory_append p (snd qn) (fst qn) m)"
  have same: "row_to_event p row = reread p ?e"
    using assms(1,4) by (simp add: row(2) row_to_event_def memory_append_event(1) reread_def column_keeps_def alike_def Let_def)
  have last: "ew_seq r < ew_seq row" if "r \<in> set (pg_rows g)" "ew_session_id r = ew_session_id row" for r
    using max_seq_bound [of r "session_rows (ew_session_id r) (pg_rows g)"] that
    by (auto simp: session_rows_def row(2) pg_latest_seq_def)
  have "numbered (pg_rows g @ [row])"
    using assms(1) last by (auto simp: alike_def numbered_def session_rows_def sorted_wrt_append)
  moreover have "se_session_id ?e = er_session_id (fst qn)" by (simp add: mem.append_session [OF assms(2)])
  moreover have "pg_latest_seq (snd (pg_append_alone p qn g)) i None
      = (if i = er_session_id (fst qn) then Suc (pg_latest_seq g i None) else pg_latest_seq g i None)" for i
    by (rule pg.append_latest [OF assms(3)])
  then have "pg_latest_seq (g\<lparr>pg_next_id := Suc (pg_next_id g), pg_rows := pg_rows g @ [row]\<rparr>) i None
      = (if i = er_session_id (fst qn) then Suc (pg_latest_seq g i None) else pg_latest_seq g i None)" for i
    using row(1) by simp
  ultimately show ?thesis
    using assms(1) same row(1)
    by (auto simp: alike_def memory_append_event(2) mem.append_events [OF assms(2), of p qn, simplified]
        mem.append_latest [OF assms(2), of p qn, simplified])
qed

lemma alike_append_all:
  assumes "alike p m g" "memory_invar m" "pg_invar g" "list_all (column_keeps p) qns"
  shows "alike p (snd (append_all (\<lambda>qn. memory_append p (snd qn) (fst qn)) qns m)) (snd (append_all (pg_append_alone p) qns g))
    \<and> fst (append_all (pg_append_alone p) qns g)
      = map (reread p) (fst (append_all (\<lambda>qn. memory_append p (snd qn) (fst qn)) qns m))"
  using assms
proof (induction qns arbitrary: m g)
  case (Cons qn qns)
  have keeps: "column_keeps p qn" "list_all (column_keeps p) qns" using Cons.prems(4) by simp_all
  show ?case
    using alike_append [OF Cons.prems(1-3) keeps(1)] mem.append_invar [OF Cons.prems(2), of p qn]
      pg.append_invar [OF Cons.prems(3), of p qn]
      Cons.IH [of "snd (memory_append p (snd qn) (fst qn) m)" "snd (pg_append_alone p qn g)"] keeps(2)
    by (simp add: Let_def case_prod_unfold)
qed simp

text \<open>What the in-memory log keeps of an append: its session, type and organisation, the sanitized payload and the
  time.\<close>

lemma memory_append_all_kept:
  "map (\<lambda>e. (se_session_id e, se_event_type e, se_org_id e, se_payload e, se_created_at e))
      (fst (append_all (\<lambda>qn. memory_append p (snd qn) (fst qn)) qns m))
    = map (\<lambda>(q, now). (er_session_id q, er_event_type q, er_org_id q, safe_payload_dict p (PDict (er_payload q)),
        Some (lp_isoformat p now))) qns"
  by (induction qns arbitrary: m) (simp_all add: Let_def case_prod_unfold memory_append_event(1))

lemma alike_get_events:
  assumes "alike p m g"
  shows "pg_get_events p g i org since = map (reread p) (memory_get_events m i org since)"
proof -
  let ?P = "\<lambda>r. ew_session_id r = i \<and> (org = None \<or> ew_org_id r = org) \<and> (case since of None \<Rightarrow> True | Some n \<Rightarrow> int (ew_seq r) > n)"
  have "memory_get_events m i org since = filter (after_seq since) (filter (org_matches org) (memory_get_events m i None None))"
    by (simp add: memory_events_all) (simp add: memory_get_events_def split: option.split)
  also have "\<dots> = filter (\<lambda>e. se_session_id e = i \<and> org_matches org e \<and> after_seq since e) (ml_events m)"
    using assms by (simp add: alike_def conj_ac)
  finally have mem: "memory_get_events m i org since = \<dots>" .
  have "sorted (map ew_seq (filter ?P (pg_rows g)))"
  proof -
    have "filter ?P (pg_rows g) = filter ?P (session_rows i (pg_rows g))" by (simp add: session_rows_def)
    moreover have "sorted (map ew_seq (session_rows i (pg_rows g)))"
      using assms strict_sorted_imp_sorted by (auto simp: alike_def numbered_def)
    ultimately show ?thesis by (simp add: sorted_filter)
  qed
  then have pg: "pg_get_events p g i org since = map (row_to_event p) (filter ?P (pg_rows g))"
    by (simp add: pg_get_events_def sort_key_id_if_sorted)
  show ?thesis unfolding mem pg
    by (rule map_filter_alike [where R = "\<lambda>e. se_session_id e = i \<and> (org = None \<or> se_org_id e = org)
          \<and> (case since of None \<Rightarrow> True | Some k \<Rightarrow> int (se_seq e) > k)"])
      (use assms in \<open>auto simp: alike_def org_matches_def after_seq_def split: option.splits\<close>)
qed

lemma last_org_seq:
  assumes "sorted_wrt (<) (map se_seq es)"
  shows "(case find P (rev es) of None \<Rightarrow> 0 | Some e \<Rightarrow> se_seq e) = foldr max (map se_seq (filter P es)) (0::nat)"
  using assms
proof (induction es rule: rev_induct)
  case (snoc e es)
  have up: "foldr max (map se_seq (filter P es)) k = max (foldr max (map se_seq (filter P es)) 0) k" for k :: nat
    by (induction es) auto
  have "foldr max (map se_seq (filter P es)) 0 \<le> n" if "\<And>x. x \<in> set es \<Longrightarrow> se_seq x \<le> n" for n
    using that by (induction es) auto
  then show ?case
    using snoc up [of "se_seq e"] by (auto simp: sorted_wrt_append less_imp_le intro!: max_absorb2 [symmetric])
qed simp

text \<open>With an organisation the latest number is the greatest among the session's events of this organisation.\<close>

lemma memory_latest_org:
  assumes "memory_invar m" "org \<noteq> None"
  shows "memory_latest_seq m i org = foldr max (map se_seq (filter (\<lambda>e. se_org_id e = org) (memory_get_events m i None None))) 0"
proof -
  have sorted: "sorted_wrt (<) (map se_seq (memory_get_events m i None None))"
    using memory_invar_state [OF assms(1)] by (auto simp: memory_events_all state_ok_def split: option.splits)
  show ?thesis
    using assms(2) last_org_seq [OF sorted, of "\<lambda>e. se_org_id e = org"]
    by (cases "dict_get (ml_sessions m) i") (auto simp: memory_latest_seq_def memory_events_all)
qed

lemma alike_latest:
  assumes "alike p m g" "memory_invar m"
  shows "memory_latest_seq m i org = pg_latest_seq g i org"
proof (cases "org = None")
  case True
  then show ?thesis using assms(1) by (simp add: alike_def)
next
  case False
  have "memory_latest_seq m i org = foldr max (map se_seq (filter (\<lambda>e. se_session_id e = i \<and> se_org_id e = org) (ml_events m))) 0"
    using memory_latest_org [OF assms(2) False, of i] assms(1) by (simp add: alike_def conj_commute)
  also have "\<dots> = foldr max (map se_seq (map (reread p) (filter (\<lambda>e. se_session_id e = i \<and> se_org_id e = org) (ml_events m)))) 0"
    by (simp add: comp_def)
  also have "map (reread p) (filter (\<lambda>e. se_session_id e = i \<and> se_org_id e = org) (ml_events m))
      = map (row_to_event p) (filter (\<lambda>r. ew_session_id r = i \<and> ew_org_id r = org) (pg_rows g))"
    by (rule map_filter_alike [where R = "\<lambda>e. se_session_id e = i \<and> se_org_id e = org"])
      (use assms(1) in \<open>auto simp: alike_def\<close>)
  finally have seqs: "memory_latest_seq m i org
      = foldr max (map se_seq (map (row_to_event p) (filter (\<lambda>r. ew_session_id r = i \<and> ew_org_id r = org) (pg_rows g)))) 0" .
  moreover obtain o' where "org = Some o'" using False by blast
  ultimately show ?thesis by (simp add: pg_latest_seq_def max_seq_def comp_def)
qed


definition note_ports :: log_ports where
  "note_ports = \<lparr> lp_loads = (\<lambda>s. if s = ''[text: hi]'' then Some (PDict [(''text'', PStr ''hi'')]) else None), lp_digest = id,
     lp_isoformat = (\<lambda>t. ''2026-01-01''), lp_instant = (\<lambda>s. Some 0), lp_jsonb = (\<lambda>d. ''[text: hi]'') \<rparr>"

definition note_request :: append_request where
  "note_request = \<lparr> er_session_id = ''s'', er_event_type = ''note'', er_payload = [(''text'', PStr ''hi'')], er_org_id = Some ''o'' \<rparr>"


section \<open>Cursors\<close>

lemma foldr_max_bound: "(x::nat) \<in> set xs \<Longrightarrow> x \<le> foldr max xs 0"
  by (induction xs) auto

lemma foldr_max_le: "(\<And>x. x \<in> set xs \<Longrightarrow> x \<le> n) \<Longrightarrow> foldr max xs (0::nat) \<le> n"
  by (induction xs) auto

lemma after_cursor:
  assumes "\<And>e. e \<in> set old \<Longrightarrow> org_matches org e \<Longrightarrow> se_seq e \<le> k" "\<And>e. e \<in> set new \<Longrightarrow> k < se_seq e"
  shows "filter (after_seq (Some (int k))) (filter (org_matches org) (old @ new)) = filter (org_matches org) new"
proof -
  have "filter (after_seq (Some (int k))) (filter (org_matches org) old) = []"
    using assms(1) by (fastforce simp: filter_empty_conv after_seq_def)
  moreover have "filter (after_seq (Some (int k))) (filter (org_matches org) new) = filter (org_matches org) new"
    using assms(2) by (intro filter_True) (simp add: after_seq_def)
  ultimately show ?thesis by simp
qed

lemma memory_reads:
  "memory_get_events l i org since = filter (after_seq since) (filter (org_matches org) (memory_get_events l i None None))"
  by (simp add: memory_events_all) (simp add: memory_get_events_def split: option.split)

lemma pg_reads:
  "pg_get_events p l i org since = filter (after_seq since) (filter (org_matches org) (pg_get_events p l i None None))"
proof -
  have "after_seq since \<circ> row_to_event p = (\<lambda>r. case since of None \<Rightarrow> True | Some n \<Rightarrow> int (ew_seq r) > n)"
      "org_matches org \<circ> row_to_event p = (\<lambda>r. org = None \<or> ew_org_id r = org)"
    by (simp_all add: fun_eq_iff after_seq_def org_matches_def split: option.split)
  then show ?thesis by (simp add: pg_get_events_def filter_map filter_sort conj_ac)
qed

lemma memory_cursor_bound:
  assumes "memory_invar l"
  shows "memory_latest_seq l i org \<le> memory_latest_seq l i None"
    "e \<in> set (memory_get_events l i None None) \<Longrightarrow> org_matches org e \<Longrightarrow> se_seq e \<le> memory_latest_seq l i org"
proof -
  show "memory_latest_seq l i org \<le> memory_latest_seq l i None"
    using mem.latest_bound [OF assms] memory_latest_org [OF assms, of org i]
    by (cases "org = None") (auto intro!: foldr_max_le)
  show "e \<in> set (memory_get_events l i None None) \<Longrightarrow> org_matches org e \<Longrightarrow> se_seq e \<le> memory_latest_seq l i org"
    using mem.latest_bound [OF assms] memory_latest_org [OF assms, of org i]
    by (cases "org = None") (auto simp: org_matches_def intro!: foldr_max_bound)
qed

lemma pg_cursor_bound:
  "pg_latest_seq l i org \<le> pg_latest_seq l i None"
  "e \<in> set (pg_get_events p l i None None) \<Longrightarrow> org_matches org e \<Longrightarrow> se_seq e \<le> pg_latest_seq l i org"
proof -
  have mono: "max_seq (filter P rows) \<le> max_seq (filter Q rows)" if "\<And>r. P r \<Longrightarrow> Q r" for P Q rows
    using that by (induction rows) (auto simp: le_max_iff_disj)
  show "pg_latest_seq l i org \<le> pg_latest_seq l i None" unfolding pg_latest_seq_def by (rule mono) simp
  show "e \<in> set (pg_get_events p l i None None) \<Longrightarrow> org_matches org e \<Longrightarrow> se_seq e \<le> pg_latest_seq l i org"
    by (auto simp: pg_get_events_def pg_latest_seq_def org_matches_def intro!: max_seq_bound)
qed

text \<open>Pruning keeps the invariants, so a log that was pruned is one of the states below.\<close>

lemma memory_prune_invar: "memory_invar m \<Longrightarrow> memory_invar (snd (memory_prune p cutoff org ty dry m))"
proof -
  assume m: "memory_invar m"
  let ?f = "\<lambda>(i, s). (i, s\<lparr>ss_events := filter (\<lambda>e. \<not> prune_matches p cutoff org ty e) (ss_events s)\<rparr>)"
  have fst_f: "fst \<circ> ?f = fst" by auto
  have "distinct (map fst (map ?f (ml_sessions m)))"
    using m by (simp add: memory_invar_def dict_keys_def fst_f)
  moreover have "list_all (\<lambda>(i, s). state_ok i s) (map ?f (ml_sessions m))"
    using m by (auto simp: memory_invar_def list_all_iff state_ok_def sorted_wrt_map intro!: sorted_wrt_filter)
  ultimately show ?thesis
    using m by (auto simp: memory_prune_def memory_invar_def dict_keys_def Let_def list_all_iff distinct_map_filter)
qed

text \<open>Property C13: a reader takes the latest number of a session, with or without an organisation, at any state of either
  log, whatever was appended and pruned before. As long as nothing is pruned and no writers compete after that, reading from this
  number gives exactly the events of the session, and of the organisation, that were appended since, in order.\<close>

theorem cursors_complete:
  assumes "memory_invar l" "pg_invar g"
  shows "(let (es, l') = append_all (\<lambda>qn. memory_append p (snd qn) (fst qn)) qns l
    in memory_get_events l' i org (Some (int (memory_latest_seq l i org)))
      = filter (\<lambda>e. se_session_id e = i \<and> (org = None \<or> se_org_id e = org)) es)
   \<and> (let (es, g') = append_all (pg_append_alone p) qns g
    in pg_get_events p g' i org (Some (int (pg_latest_seq g i org)))
      = filter (\<lambda>e. se_session_id e = i \<and> (org = None \<or> se_org_id e = org)) es)"
proof -
  let ?mem = "append_all (\<lambda>qn. memory_append p (snd qn) (fst qn)) qns l" and ?pg = "append_all (pg_append_alone p) qns g"
  have newer: "memory_latest_seq l i org < se_seq e"
    if "e \<in> set (filter (\<lambda>e. se_session_id e = i) (fst ?mem))" for e
  proof -
    have "e \<in> set (filter (after_seq (Some (int (memory_latest_seq l i None)))) (memory_get_events (snd ?mem) i None None))"
      using that mem.cursor_complete [OF assms(1), of i p qns] by simp
    then show ?thesis using memory_cursor_bound(1) [OF assms(1), of i org] by (simp add: after_seq_def)
  qed
  have newer_pg: "pg_latest_seq g i org < se_seq e" if "e \<in> set (filter (\<lambda>e. se_session_id e = i) (fst ?pg))" for e
  proof -
    have "e \<in> set (filter (after_seq (Some (int (pg_latest_seq g i None)))) (pg_get_events p (snd ?pg) i None None))"
      using that pg.cursor_complete [OF assms(2), of i p qns] by simp
    then show ?thesis using pg_cursor_bound(1) [of g i org] by (simp add: after_seq_def)
  qed
  have "memory_get_events (snd ?mem) i org (Some (int (memory_latest_seq l i org)))
      = filter (org_matches org) (filter (\<lambda>e. se_session_id e = i) (fst ?mem))"
    unfolding memory_reads [of "snd ?mem" i org "Some k" for k] mem.append_all_events [OF assms(1)]
    by (rule after_cursor [OF memory_cursor_bound(2) [OF assms(1)] newer])
  moreover have "pg_get_events p (snd ?pg) i org (Some (int (pg_latest_seq g i org)))
      = filter (org_matches org) (filter (\<lambda>e. se_session_id e = i) (fst ?pg))"
    unfolding pg_reads [of p "snd ?pg" i org "Some k" for k] pg.append_all_events [OF assms(2)]
    by (rule after_cursor [OF pg_cursor_bound(2) newer_pg])
  ultimately show ?thesis by (simp add: case_prod_unfold Let_def org_matches_def conj_commute)
qed

theorem cursors_complete_witness:
  "length (pg_get_events note_ports (snd (append_all (pg_append_alone note_ports) [(note_request, 5), (note_request, 6)]
       empty_pg_log)) ''s'' (Some ''o'') (Some (int (pg_latest_seq empty_pg_log ''s'' (Some ''o''))))) = 2"
proof -
  have "memory_invar empty_memory_log" "pg_invar empty_pg_log"
    by (simp_all add: memory_invar_def empty_memory_log_def pg_invar_def empty_pg_log_def)
  note read = cursors_complete [OF this, of note_ports "[(note_request, 5), (note_request, 6)]" "''s''" "Some ''o''", THEN conjunct2]
  have "map (\<lambda>e. (se_session_id e, se_org_id e)) (fst (append_all (pg_append_alone note_ports) [(note_request, 5), (note_request, 6)]
      empty_pg_log)) = [(''s'', Some ''o''), (''s'', Some ''o'')]"
    by (simp add: pg_append_alone_def pg_append_undisturbed Let_def note_request_def)
  then show ?thesis using read by (auto simp: Let_def case_prod_unfold map_eq_Cons_conv)
qed

section \<open>Pruning and cursors\<close>

lemma pg_next_latest: "pg_next_seq l i = Suc (pg_latest_seq l i None)"
  by (simp add: pg_next_seq_def pg_latest_seq_def session_rows_def)

text \<open>Property C39: pruning by type or organisation may remove the last events of a session and keep earlier ones; Postgres then
  gives their numbers out again, and a reader that goes on from the number it remembers never sees the
  next event.\<close>

theorem pruned_number_hides_event:
  fixes p :: log_ports and l :: pg_log and i :: string and cutoff :: int and org ty :: "string option"
  assumes "er_session_id q = i"
  defines "pruned \<equiv> snd (pg_prune cutoff org ty False l)"
  assumes "pg_latest_seq pruned i None < pg_latest_seq l i None"
  shows "case pg_append p q (\<lambda>k. (id, now)) pruned of
      (Inr e, l') \<Rightarrow> se_seq e \<le> pg_latest_seq l i None \<and> e \<in> set (pg_get_events p l' i None None)
        \<and> pg_get_events p l' i None (Some (int (pg_latest_seq l i None))) = []
    | _ \<Rightarrow> False"
proof -
  obtain row where run: "pg_append p q (\<lambda>k. (id, now)) pruned
      = (Inr (row_to_event p row), pruned\<lparr>pg_next_id := pg_next_id pruned + 1, pg_rows := pg_rows pruned @ [row]\<rparr>)"
      and row: "ew_session_id row = i" "ew_seq row = Suc (pg_latest_seq pruned i None)"
    using assms(1) by (simp add: pg_append_undisturbed pg_next_latest Let_def)
  have old: "ew_seq r \<le> pg_latest_seq l i None" if "r \<in> set (pg_rows pruned)" "ew_session_id r = i" for r
    using max_seq_bound [of r "filter (\<lambda>r. ew_session_id r = i) (pg_rows pruned)"] that assms(3)
    by (simp add: pg_latest_seq_def)
  let ?after = "pruned\<lparr>pg_next_id := pg_next_id pruned + 1, pg_rows := pg_rows pruned @ [row]\<rparr>"
  have "row_to_event p row \<in> set (pg_get_events p ?after i None None)"
    using row(1) by (simp add: pg_get_events_def)
  moreover have "pg_get_events p ?after i None (Some (int (pg_latest_seq l i None))) = []"
    using row old assms(3) by (auto simp: pg_get_events_def filter_empty_conv not_less)
  moreover have "se_seq (row_to_event p row) \<le> pg_latest_seq l i None"
    using row assms(3) by (simp add: row_to_event_def)
  ultimately show ?thesis using run by simp
qed

definition example_log_ports :: log_ports where
  "example_log_ports = \<lparr> lp_loads = (\<lambda>s. Some (PDict [])), lp_digest = id, lp_isoformat = (\<lambda>t. ''2026-01-01''),
     lp_instant = (\<lambda>s. Some 0), lp_jsonb = (\<lambda>d. ''{}'') \<rparr>"

definition example_request :: "string \<Rightarrow> append_request" where
  "example_request ty = \<lparr> er_session_id = ''s'', er_event_type = ty, er_payload = [], er_org_id = None \<rparr>"

text \<open>Two events, of which the newer is of a type that is pruned.\<close>

definition two_events :: pg_log where
  "two_events = snd (append_all (pg_append_alone example_log_ports) [(example_request ''a'', 1), (example_request ''b'', 2)] empty_pg_log)"

lemma two_events_rows:
  "two_events = \<lparr> pg_rows =
       [\<lparr> ew_id = 1, ew_session_id = ''s'', ew_org_id = None, ew_event_type = ''a'', ew_payload = ''{}'', ew_seq = 1, ew_created_at = 1 \<rparr>,
        \<lparr> ew_id = 2, ew_session_id = ''s'', ew_org_id = None, ew_event_type = ''b'', ew_payload = ''{}'', ew_seq = 2, ew_created_at = 2 \<rparr>],
     pg_next_id = 3 \<rparr>"
  by (simp add: two_events_def pg_append_alone_def pg_append_undisturbed example_log_ports_def example_request_def
      empty_pg_log_def pg_next_seq_def session_rows_def Let_def)

theorem pruned_number_hides_event_witness:
  "case pg_append example_log_ports (example_request ''c'') (\<lambda>k. (id, 9)) (snd (pg_prune 5 None (Some ''b'') False two_events)) of
      (Inr e, l') \<Rightarrow> se_seq e \<le> 2 \<and> pg_get_events example_log_ports l' ''s'' None (Some 2) = []
    | _ \<Rightarrow> False"
proof -
  have facts: "pg_rows two_events \<noteq> []" "pg_latest_seq two_events ''s'' None = 2"
      "pg_latest_seq (snd (pg_prune 5 None (Some ''b'') False two_events)) ''s'' None < pg_latest_seq two_events ''s'' None"
      "er_session_id (example_request ''c'') = ''s''"
    by (simp_all add: two_events_rows pg_invar_def pg_latest_seq_def pg_prune_def pg_prune_matches_def example_request_def Let_def)
  show ?thesis
    using pruned_number_hides_event [OF facts(4,3), of example_log_ports 9] facts(2)
    by (simp split: prod.splits sum.splits)
qed

section \<open>Concurrent writers of the Postgres log\<close>

text \<open>A writer in the loop of \<open>append\<close>: the attempts it has left and, while its statement runs, the number that
  statement computed. A history lists what was done, the newest first.\<close>

record pg_writer =
  wr_request :: append_request
  wr_left :: nat
  wr_seq :: "nat option"

datatype pg_event =
    Began nat | Computed nat | Inserted nat session_event | Conflicted nat | GaveUp nat string | PrunedRows

record pg_system =
  px_log :: pg_log
  px_writers :: "nat \<Rightarrow> pg_writer option"
  px_history :: "pg_event list"

text \<open>A scheduler's choices; a choice that is not possible does nothing.\<close>

datatype pg_choice =
    Begin nat append_request | Compute nat | Insert nat int | Prune int "string option" "string option"

definition set_writer :: "nat \<Rightarrow> pg_writer option \<Rightarrow> pg_system \<Rightarrow> pg_system" where
  "set_writer w v s = s\<lparr>px_writers := (px_writers s)(w := v)\<rparr>"

definition log_event :: "pg_event \<Rightarrow> pg_system \<Rightarrow> pg_system" where
  "log_event e s = s\<lparr>px_history := e # px_history s\<rparr>"

fun make_choice :: "log_ports \<Rightarrow> pg_choice \<Rightarrow> pg_system \<Rightarrow> pg_system" where
  "make_choice p (Begin w q) s =
     (if px_writers s w \<noteq> None then s
      else log_event (Began w) (set_writer w (Some \<lparr> wr_request = q, wr_left = max_append_retries, wr_seq = None \<rparr>) s))"
| "make_choice p (Compute w) s =
     (case px_writers s w of
        Some v \<Rightarrow> if wr_seq v \<noteq> None then s
          else log_event (Computed w)
            (set_writer w (Some (v\<lparr>wr_seq := Some (pg_next_seq (px_log s) (er_session_id (wr_request v)))\<rparr>)) s)
      | None \<Rightarrow> s)"
| "make_choice p (Insert w now) s =
     (case px_writers s w of
        None \<Rightarrow> s
      | Some v \<Rightarrow> (case wr_seq v of
          None \<Rightarrow> s
        | Some n \<Rightarrow> (case pg_insert p now (wr_request v) n (px_log s) of
            (Some row, l) \<Rightarrow> log_event (Inserted w (row_to_event p row)) (set_writer w None (s\<lparr>px_log := l\<rparr>))
          | (None, l) \<Rightarrow>
              if wr_left v \<le> 1
              then log_event (GaveUp w (er_session_id (wr_request v)))
                (log_event (Conflicted w) (set_writer w None (s\<lparr>px_log := l\<rparr>)))
              else log_event (Conflicted w)
                (set_writer w (Some (v\<lparr>wr_left := wr_left v - 1, wr_seq := None\<rparr>)) (s\<lparr>px_log := l\<rparr>)))))"
| "make_choice p (Prune cutoff org ty) s =
     log_event PrunedRows (s\<lparr>px_log := snd (pg_prune cutoff org ty False (px_log s))\<rparr>)"

definition start_system :: "pg_log \<Rightarrow> pg_system" where
  "start_system l = \<lparr> px_log = l, px_writers = (\<lambda>w. None), px_history = [] \<rparr>"

definition run_choices :: "log_ports \<Rightarrow> pg_choice list \<Rightarrow> pg_system \<Rightarrow> pg_system" where
  "run_choices p cs s = foldl (\<lambda>s c. make_choice p c s) s cs"

text \<open>How many events of a session were inserted in a stretch of the history.\<close>

definition inserts :: "string \<Rightarrow> pg_event list \<Rightarrow> nat" where
  "inserts i h = length (filter (\<lambda>e. case e of Inserted w ev \<Rightarrow> se_session_id ev = i | _ \<Rightarrow> False) h)"

definition since :: "pg_event \<Rightarrow> pg_event list \<Rightarrow> pg_event list" where
  "since e h = takeWhile (\<lambda>x. x \<noteq> e) h"

lemma inserts_simps [simp]:
  "inserts i [] = 0"
  "inserts i (Inserted w ev # h) = (if se_session_id ev = i then Suc (inserts i h) else inserts i h)"
  "inserts i (Began w # h) = inserts i h" "inserts i (Computed w # h) = inserts i h"
  "inserts i (Conflicted w # h) = inserts i h" "inserts i (GaveUp w j # h) = inserts i h"
  "inserts i (PrunedRows # h) = inserts i h"
  by (simp_all add: inserts_def)

lemma since_simps [simp]: "since e [] = []" "since e (x # h) = (if x = e then [] else x # since e h)"
  by (simp_all add: since_def)

text \<open>A failed attempt means that somebody else inserted an event of the session after the attempt computed its
  number.\<close>

definition writer_ok :: "pg_log \<Rightarrow> pg_event list \<Rightarrow> nat \<Rightarrow> pg_writer \<Rightarrow> bool" where
  "writer_ok l h w v \<longleftrightarrow>
     (let i = er_session_id (wr_request v) in
      1 \<le> wr_left v \<and> wr_left v \<le> max_append_retries
      \<and> (case wr_seq v of
           None \<Rightarrow> max_append_retries - wr_left v \<le> inserts i (since (Began w) h)
         | Some n \<Rightarrow> max_append_retries - wr_left v + inserts i (since (Computed w) h) \<le> inserts i (since (Began w) h)
             \<and> (inserts i (since (Computed w) h) = 0 \<longrightarrow> list_all (\<lambda>r. ew_seq r < n) (session_rows i (pg_rows l)))))"

definition gave_up_ok :: "pg_event list \<Rightarrow> bool" where
  "gave_up_ok h \<longleftrightarrow> (\<forall>k w i. k < length h \<longrightarrow> h ! k = GaveUp w i \<longrightarrow> max_append_retries \<le> inserts i (since (Began w) (drop (Suc k) h)))"

definition system_ok :: "pg_system \<Rightarrow> bool" where
  "system_ok s \<longleftrightarrow> pg_invar (px_log s)
     \<and> (\<forall>w v. px_writers s w = Some v \<longrightarrow> writer_ok (px_log s) (px_history s) w v) \<and> gave_up_ok (px_history s)"

lemma gave_up_ok_Cons:
  "gave_up_ok (e # h) \<longleftrightarrow> gave_up_ok h \<and> (case e of GaveUp w i \<Rightarrow> max_append_retries \<le> inserts i (since (Began w) h) | _ \<Rightarrow> True)"
  by (auto simp: gave_up_ok_def less_Suc_eq_0_disj split: pg_event.splits)

lemma pg_insert_cases:
  obtains (inserted) row where "pg_insert p now q n l = (Some row, l\<lparr>pg_next_id := Suc (pg_next_id l), pg_rows := pg_rows l @ [row]\<rparr>)"
      "ew_session_id row = er_session_id q" "ew_seq row = n"
    | (conflict) r where "pg_insert p now q n l = (None, l\<lparr>pg_next_id := Suc (pg_next_id l)\<rparr>)"
      "r \<in> set (session_rows (er_session_id q) (pg_rows l))" "ew_seq r = n"
  by (cases "\<exists>r \<in> set (pg_rows l). ew_session_id r = er_session_id q \<and> ew_seq r = n")
    (auto simp: pg_insert_def Let_def session_rows_def)

lemma prune_invar: "pg_invar l \<Longrightarrow> pg_invar (snd (pg_prune cutoff org ty d l))"
  by (auto simp: pg_invar_def pg_prune_def Let_def list_all_iff distinct_map_filter)

lemma writer_ok_step:
  assumes "writer_ok l h w v" and "e \<noteq> Began w" "e \<noteq> Computed w"
    and "case e of Inserted w' ev \<Rightarrow> (\<exists>row. pg_rows l' = pg_rows l @ [row] \<and> se_session_id ev = ew_session_id row)
      | _ \<Rightarrow> set (pg_rows l') \<subseteq> set (pg_rows l)"
  shows "writer_ok l' (e # h) w v"
  using assms
  by (cases e; cases "wr_seq v") (auto simp: writer_ok_def Let_def list_all_iff session_rows_def)

lemma make_choice_ok: "system_ok s \<Longrightarrow> system_ok (make_choice p c s)"
proof (cases c)
  case (Begin w q)
  assume ok: "system_ok s"
  have "writer_ok (px_log s) (Began w # px_history s) w \<lparr> wr_request = q, wr_left = max_append_retries, wr_seq = None \<rparr>"
    by (simp add: writer_ok_def max_append_retries_def)
  then show ?thesis
    using ok Begin by (auto simp: system_ok_def log_event_def set_writer_def gave_up_ok_Cons intro!: writer_ok_step)
next
  case (Compute w)
  assume ok: "system_ok s"
  have now: "writer_ok (px_log s) (Computed w # px_history s) w
      (v\<lparr>wr_seq := Some (pg_next_seq (px_log s) (er_session_id (wr_request v)))\<rparr>)"
    if "writer_ok (px_log s) (px_history s) w v" "wr_seq v = None" for v
    using that max_seq_bound [of _ "session_rows (er_session_id (wr_request v)) (pg_rows (px_log s))"]
    by (fastforce simp: writer_ok_def Let_def pg_next_seq_def list_all_iff)
  show ?thesis
    using ok Compute
    by (auto simp: system_ok_def log_event_def set_writer_def gave_up_ok_Cons split: option.split intro!: writer_ok_step now)
next
  case (Insert w now)
  assume ok: "system_ok s"
  show ?thesis
  proof (cases "\<exists>v n. px_writers s w = Some v \<and> wr_seq v = Some n")
    case False
    then show ?thesis using ok Insert by (auto split: option.split)
  next
    case True
    then obtain v n where v: "px_writers s w = Some v" "wr_seq v = Some n" by blast
    let ?i = "er_session_id (wr_request v)"
    have mine: "writer_ok (px_log s) (px_history s) w v" using ok v by (simp add: system_ok_def)
    note inv = pg_insert_invar [of "px_log s" p now "wr_request v" n]
    show ?thesis
    proof (cases rule: pg_insert_cases [of p now "wr_request v" n "px_log s"])
      case (inserted row)
      have "writer_ok (px_log s\<lparr>pg_next_id := Suc (pg_next_id (px_log s)), pg_rows := pg_rows (px_log s) @ [row]\<rparr>)
          (Inserted w (row_to_event p row) # px_history s) w' v'"
        if "px_writers s w' = Some v'" "w' \<noteq> w" for w' v'
        by (rule writer_ok_step [where l = "px_log s"]) (use ok that in \<open>auto simp: system_ok_def row_to_event_def\<close>)
      then show ?thesis
        using ok Insert v inserted inv by (auto simp: system_ok_def log_event_def set_writer_def gave_up_ok_Cons)
    next
      case (conflict r)
      let ?l = "px_log s\<lparr>pg_next_id := Suc (pg_next_id (px_log s))\<rparr>"
      have enough: "max_append_retries - wr_left v + 1 \<le> inserts ?i (since (Began w) (px_history s))"
        using mine v(2) conflict by (fastforce simp: writer_ok_def Let_def list_all_iff)
      have others: "writer_ok ?l (Conflicted w # px_history s) w' v'"
        if "px_writers s w' = Some v'" for w' v'
        by (rule writer_ok_step [where l = "px_log s"]) (use ok that in \<open>auto simp: system_ok_def\<close>)
      show ?thesis
      proof (cases "wr_left v \<le> 1")
        case True
        have "writer_ok ?l (GaveUp w ?i # Conflicted w # px_history s) w' v'"
          if "px_writers s w' = Some v'" "w' \<noteq> w" for w' v'
          by (rule writer_ok_step [OF others]) (use that in auto)
        moreover have "max_append_retries \<le> inserts ?i (since (Began w) (px_history s))"
          using enough True mine by (auto simp: writer_ok_def Let_def max_append_retries_def)
        ultimately show ?thesis
          using ok Insert v conflict inv True by (auto simp: system_ok_def log_event_def set_writer_def gave_up_ok_Cons)
      next
        case False
        have "writer_ok ?l (Conflicted w # px_history s) w (v\<lparr>wr_left := wr_left v - 1, wr_seq := None\<rparr>)"
          using enough False mine by (auto simp: writer_ok_def Let_def)
        then show ?thesis
          using ok Insert v conflict inv False others
          by (auto simp: system_ok_def log_event_def set_writer_def gave_up_ok_Cons)
      qed
    qed
  qed
next
  case (Prune cutoff org ty)
  assume ok: "system_ok s"
  have "set (pg_rows (snd (pg_prune cutoff org ty False l))) \<subseteq> set (pg_rows l)" for l
    by (auto simp: pg_prune_def Let_def)
  then show ?thesis
    using ok Prune prune_invar by (auto simp: system_ok_def log_event_def gave_up_ok_Cons intro!: writer_ok_step)
qed

lemma run_choices_ok: "system_ok s \<Longrightarrow> system_ok (run_choices p cs s)"
  unfolding run_choices_def by (induction cs arbitrary: s) (simp_all add: make_choice_ok)

lemma start_system_ok: "pg_invar l \<Longrightarrow> system_ok (start_system l)"
  by (simp add: system_ok_def start_system_def gave_up_ok_def)

text \<open>Whatever writers and prunings are interleaved: no number is given twice to a session, and ids are unique.\<close>

theorem pg_numbers_unique:
  "distinct (map (\<lambda>r. (ew_session_id r, ew_seq r)) (pg_rows (px_log (run_choices p cs (start_system empty_pg_log)))))
   \<and> distinct (map ew_id (pg_rows (px_log (run_choices p cs (start_system empty_pg_log)))))"
proof -
  have "pg_invar empty_pg_log" by (simp add: pg_invar_def empty_pg_log_def)
  then have "system_ok (run_choices p cs (start_system empty_pg_log))" by (intro run_choices_ok start_system_ok)
  then show ?thesis by (simp add: system_ok_def pg_invar_def)
qed

text \<open>Property C14: an append raises only under contention: while it tried, at least three events of its
  session were inserted.\<close>

theorem append_gives_up_only_under_contention:
  assumes "px_history (run_choices p cs (start_system empty_pg_log)) = newer @ GaveUp w i # older"
  shows "max_append_retries \<le> inserts i (since (Began w) older)"
proof -
  have "pg_invar empty_pg_log" by (simp add: pg_invar_def empty_pg_log_def)
  then have "system_ok (run_choices p cs (start_system empty_pg_log))" by (intro run_choices_ok start_system_ok)
  then have "gave_up_ok (newer @ GaveUp w i # older)" by (simp add: system_ok_def assms)
  then show ?thesis by (induction newer) (auto simp: gave_up_ok_Cons)
qed

definition contended :: "pg_choice list" where
  "contended = Begin 0 (example_request ''slow'') # concat (replicate 3
     [Compute 0, Begin 1 (example_request ''fast''), Compute 1, Insert 1 5, Insert 0 6])"

theorem append_gives_up_only_under_contention_witness:
  "\<exists>older. px_history (run_choices example_log_ports contended (start_system empty_pg_log)) = GaveUp 0 ''s'' # older
     \<and> 3 \<le> inserts ''s'' (since (Began 0) older)"
proof -
  obtain older where older: "px_history (run_choices example_log_ports contended (start_system empty_pg_log)) = [] @ GaveUp 0 ''s'' # older"
    by (simp add: run_choices_def contended_def start_system_def empty_pg_log_def pg_insert_def pg_next_seq_def session_rows_def
        example_request_def log_event_def set_writer_def max_append_retries_def numeral_3_eq_3 Let_def)
  show ?thesis
    using append_gives_up_only_under_contention [OF older] older by (simp add: max_append_retries_def)
qed

end
