(* ===== verification/Tool_Guardrails.thy ===== *)
theory Tool_Guardrails
  imports Actions
begin

text \<open>
  \<open>app/engine/runtime/tool_guardrails.py\<close>: the checks at the tool boundary, before a tool call the
  model emitted is dispatched. A guardrail may raise, so its check returns the exception's text or a
  result. The context dictionary is shared by the guardrails of one chain: a check also returns the
  context as it leaves it, which the next guardrail sees; \<open>compose\<close> starts on a copy of the caller's
  dictionary, so the caller's own never changes. The documentation asks guardrails to only read it, the
  test suite has one that writes. A Python set in the context is a list. Values inside the context and
  the call are values here: a guardrail that writes into a nested object of the context, or into the
  arguments of the call it was given, is outside the model.
\<close>

section \<open>Calls, results and guardrails\<close>

record tool_call =
  tc_id :: string
  tc_name :: string
  tc_arguments :: pydict

datatype guardrail_decision = GAllow | GDeny | GModify

record guardrail_result =
  gu_decision :: guardrail_decision
  gu_tool_call :: tool_call
  gu_reason :: "string option"
  gu_metadata :: pydict

type_synonym guardrail_verdict = "tool_call \<Rightarrow> pydict \<Rightarrow> string + guardrail_result"
type_synonym guardrail_check = "tool_call \<Rightarrow> pydict \<Rightarrow> (string + guardrail_result) \<times> pydict"

record guardrail =
  gr_name :: string
  gr_check :: guardrail_check

text \<open>A guardrail that only reads the context, as the built-in ones do.\<close>

definition reads_context :: "guardrail_verdict \<Rightarrow> guardrail_check" where
  "reads_context verdict c ctx = (verdict c ctx, ctx)"

definition allow_call :: "tool_call \<Rightarrow> guardrail_result" where
  "allow_call c = \<lparr> gu_decision = GAllow, gu_tool_call = c, gu_reason = None, gu_metadata = [] \<rparr>"

section \<open>Required arguments\<close>

definition required_args_check :: "(string \<times> string list) list \<Rightarrow> guardrail_verdict" where
  "required_args_check required_by_tool c context =
     (let required = or_default (dict_get required_by_tool (tc_name c)) [] in
      if required = [] then Inr (allow_call c)
      else let missing = filter (\<lambda>k. k \<notin> set (dict_keys (tc_arguments c))) (remdups required) in
        if missing = [] then Inr (allow_call c)
        else Inr \<lparr> gu_decision = GDeny, gu_tool_call = c,
          gu_reason = Some (''missing required args: '' @ py_repr (str_list (sort missing))),
          gu_metadata = [(''guardrail'', PStr ''RequiredArgsGuardrail''), (''tool'', PStr (tc_name c))] \<rparr>)"

section \<open>Capabilities\<close>

fun hashable :: "pyval \<Rightarrow> bool" where
  "hashable (PList xs) = False"
| "hashable (PDict d) = False"
| "hashable (PTuple xs) = list_all hashable xs"
| "hashable v = True"

text \<open>\<open>required in granted\<close>, with a list or tuple turned into a set first: substring search in a string,
  the keys of a dictionary, a \<open>TypeError\<close> on anything else and on elements without a hash.\<close>

definition capability_granted :: "string \<Rightarrow> pyval \<Rightarrow> string + bool" where
  "capability_granted required granted =
     (let seq = (\<lambda>xs. if list_all hashable xs then Inr (PStr required \<in> set xs)
            else Inl ''TypeError'') in
      case granted of
        PList xs \<Rightarrow> seq xs
      | PTuple xs \<Rightarrow> seq xs
      | PStr s \<Rightarrow> Inr (py_contains required s)
      | PDict d \<Rightarrow> Inr (required \<in> set (dict_keys d))
      | _ \<Rightarrow> Inl ''TypeError'')"

text \<open>\<open>value or set()\<close>.\<close>

definition or_empty_set :: "pyval option \<Rightarrow> pyval" where
  "or_empty_set v = (case v of None \<Rightarrow> PList [] | Some x \<Rightarrow> if truthy x then x else PList [])"

definition capability_check :: "(string \<times> string) list \<Rightarrow> guardrail_verdict" where
  "capability_check required_by_tool c context =
     (case dict_get required_by_tool (tc_name c) of
        None \<Rightarrow> Inr (allow_call c)
      | Some required \<Rightarrow>
          (case capability_granted required
              (or_empty_set (dict_get context ''granted_capabilities'')) of
             Inl e \<Rightarrow> Inl e
           | Inr True \<Rightarrow> Inr (allow_call c)
           | Inr False \<Rightarrow> Inr \<lparr> gu_decision = GDeny, gu_tool_call = c,
               gu_reason = Some (''capability '' @ CHR 0x27 # required @ CHR 0x27 # '' not granted this turn''),
               gu_metadata = [(''guardrail'', PStr ''CapabilityGuardrail''), (''tool'', PStr (tc_name c)),
                 (''required_capability'', PStr required)] \<rparr>))"

section \<open>Redaction of substrings\<close>

text \<open>\<open>s.find(p)\<close>.\<close>

fun py_find :: "string \<Rightarrow> string \<Rightarrow> nat option" where
  "py_find p [] = (if p = [] then Some 0 else None)"
| "py_find p (c # cs) =
     (if py_startswith p (c # cs) then Some 0 else map_option Suc (py_find p cs))"

text \<open>The loop over the haystack, on the part behind the cursor.\<close>

function ci_replace_from :: "string \<Rightarrow> string \<Rightarrow> string \<Rightarrow> string" where
  "ci_replace_from needle replacement s =
     (if s = [] \<or> needle = [] then s
      else case py_find needle (py_lower s) of
        None \<Rightarrow> s
      | Some i \<Rightarrow> take i s @ replacement @
          ci_replace_from needle replacement (drop (i + length needle) s))"
  by pat_completeness auto
termination by (relation "measure (\<lambda>(n, r, s). length s)") auto

declare ci_replace_from.simps [simp del]

definition case_insensitive_replace :: "string \<Rightarrow> string \<Rightarrow> string \<Rightarrow> string" where
  "case_insensitive_replace haystack needle replacement =
     ci_replace_from (py_lower needle) replacement haystack"

text \<open>One value through all patterns, with whether any of them matched.\<close>

fun redact_value :: "string \<Rightarrow> string list \<Rightarrow> string \<Rightarrow> string \<times> bool" where
  "redact_value replacement [] s = (s, False)"
| "redact_value replacement (p # ps) s =
     (if py_contains (py_lower p) (py_lower s)
      then (fst (redact_value replacement ps (case_insensitive_replace s p replacement)), True)
      else redact_value replacement ps s)"

definition redact_argument :: "string \<Rightarrow> string list \<Rightarrow> pyval \<Rightarrow> pyval \<times> bool" where
  "redact_argument replacement ps v =
     (case v of PStr s \<Rightarrow> (let (t, m) = redact_value replacement ps s in (PStr t, m))
      | _ \<Rightarrow> (v, False))"

definition string_redaction_check :: "string list \<Rightarrow> string \<Rightarrow> guardrail_verdict" where
  "string_redaction_check patterns0 replacement c context =
     (let patterns = filter (\<lambda>p. p \<noteq> []) patterns0 in
      if patterns = [] then Inr (allow_call c)
      else let new_args = map (\<lambda>(k, v). (k, fst (redact_argument replacement patterns v))) (tc_arguments c);
          modified = list_ex (\<lambda>(k, v). snd (redact_argument replacement patterns v)) (tc_arguments c)
      in if \<not> modified then Inr (allow_call c)
         else Inr \<lparr> gu_decision = GModify,
           gu_tool_call = \<lparr> tc_id = tc_id c, tc_name = tc_name c, tc_arguments = new_args \<rparr>,
           gu_reason = Some ''redacted matching substrings'',
           gu_metadata = [(''guardrail'', PStr ''StringRedactionGuardrail'')] \<rparr>)"

section \<open>Composition\<close>

fun compose_loop :: "guardrail list \<Rightarrow> tool_call \<Rightarrow> pydict \<Rightarrow> guardrail_result \<Rightarrow> guardrail_result" where
  "compose_loop [] current ctx last_result = last_result"
| "compose_loop (g # gs) current ctx last_result =
     (case gr_check g current ctx of
        (Inl e, ctx') \<Rightarrow> \<lparr> gu_decision = GDeny, gu_tool_call = current,
          gu_reason = Some (gr_name g @ '' crashed; failing closed''),
          gu_metadata = [(''error'', PStr e)] \<rparr>
      | (Inr r, ctx') \<Rightarrow>
          if gu_decision r = GDeny then r
          else if gu_decision r = GModify then compose_loop gs (gu_tool_call r) ctx' r
          else compose_loop gs current ctx' r)"

definition compose_guardrails :: "guardrail list \<Rightarrow> tool_call \<Rightarrow> pydict option \<Rightarrow> guardrail_result" where
  "compose_guardrails gs c context = compose_loop gs c (or_default context []) (allow_call c)"

section \<open>The contract of a guardrail\<close>

text \<open>What \<open>GuardrailResult\<close> documents of one guardrail: only a rewrite carries another call, and a
  rewrite changes the arguments only.\<close>

locale tool_guardrail =
  fixes check :: guardrail_check
  assumes original_call:
      "check c ctx = (Inr r, ctx') \<Longrightarrow> gu_decision r \<noteq> GModify \<Longrightarrow> gu_tool_call r = c"
    and same_identity:
      "check c ctx = (Inr r, ctx') \<Longrightarrow> tc_id (gu_tool_call r) = tc_id c \<and> tc_name (gu_tool_call r) = tc_name c"
begin

text \<open>The call that is passed on to the next guardrail.\<close>

lemma passed_on:
  "check c ctx = (Inr r, ctx') \<Longrightarrow> (if gu_decision r = GModify then gu_tool_call r else c) = gu_tool_call r"
  using original_call by simp

end

interpretation required_args: tool_guardrail "reads_context (required_args_check req)"
  by unfold_locales (auto simp: reads_context_def required_args_check_def allow_call_def Let_def split: if_splits)

interpretation capability: tool_guardrail "reads_context (capability_check req)"
  by unfold_locales
    (auto simp: reads_context_def capability_check_def allow_call_def split: option.splits sum.splits bool.splits)

interpretation string_redaction: tool_guardrail "reads_context (string_redaction_check ps replacement)"
  by unfold_locales (auto simp: reads_context_def string_redaction_check_def allow_call_def Let_def split: if_splits)

section \<open>Lemmas on replacement\<close>

lemma py_find_None: "py_find p s = None \<Longrightarrow> \<not> py_contains p s"
proof (induction s)
  case Nil
  then show ?case by (simp split: if_splits)
next
  case (Cons c s)
  then show ?case by (auto split: if_splits)
qed

text \<open>Nothing ends inside the part before the first occurrence.\<close>

lemma py_find_Some:
  "py_find p s = Some i \<Longrightarrow> p \<noteq> [] \<Longrightarrow> i < length s \<and> \<not> sublist p (take i s)"
proof (induction s arbitrary: i)
  case (Cons c s)
  show ?case
  proof (cases "py_startswith p (c # s)")
    case True
    then show ?thesis using Cons.prems by auto
  next
    case False
    then obtain j where j: "py_find p s = Some j" "i = Suc j" using Cons.prems by auto
    have "\<not> prefix p (c # take j s)"
      using False by (metis append_take_drop_id prefix_def py_startswith_append append_Cons append.assoc)
    then show ?thesis using Cons.IH [OF j(1) Cons.prems(2)] j by (simp add: sublist_Cons_right)
  qed
qed (simp split: if_splits)

text \<open>A word that shares no character with the filler between two texts occurs in one of them.\<close>

lemma sublist_around_filler:
  assumes "sublist m (a @ r @ b)" "r \<noteq> []" "m \<noteq> []" "set m \<inter> set r = {}"
  shows "sublist m a \<or> sublist m b"
proof -
  have pre: "m2 = []" if "prefix m2 (r @ b)" "set m2 \<subseteq> set m" for m2
    using that assms(2,4) by (cases m2; cases r) auto
  have suf: "m1 = []" if "suffix m1 r" "set m1 \<subseteq> set m" for m1
    using that assms(4) set_mono_suffix [OF that(1)] by (cases m1) auto
  have "\<not> sublist m r" using assms(3,4) set_mono_sublist [of m r] by (cases m) auto
  then show ?thesis
    using assms(1,3) pre suf by (fastforce simp: sublist_append)
qed

lemma py_lower_append [simp]: "py_lower (xs @ ys) = py_lower xs @ py_lower ys"
  by (simp add: py_lower_def)

lemma py_lower_drop: "py_lower (drop n s) = drop n (py_lower s)"
  by (simp add: py_lower_def drop_map)

lemma ci_replace_clean:
  assumes "r \<noteq> []" "m \<noteq> []" "set m \<inter> set (py_lower r) = {}"
    and "m = n \<or> \<not> sublist m (py_lower s)" "n \<noteq> []"
  shows "\<not> sublist m (py_lower (ci_replace_from n r s))"
  using assms
proof (induction n r s rule: ci_replace_from.induct)
  case (1 n r s)
  show ?case
  proof (cases "py_find n (py_lower s)")
    case None
    then have "\<not> sublist n (py_lower s)" using py_find_None by (simp add: py_contains_sublist)
    then show ?thesis using 1 None by (auto simp: ci_replace_from.simps)
  next
    case (Some i)
    have i: "i < length s" "\<not> sublist n (take i (py_lower s))"
      using py_find_Some [OF Some 1(6)] by simp_all
    have tail: "m = n \<or> \<not> sublist m (py_lower (drop (i + length n) s))"
      using 1(5) by (metis py_lower_drop sublist_drop sublist_order.order_trans)
    have head: "\<not> sublist m (take i (py_lower s))"
      using i(2) 1(5) by (metis sublist_take sublist_order.order_trans)
    have rest: "\<not> sublist m (py_lower (ci_replace_from n r (drop (i + length n) s)))"
    proof (rule 1(1) [OF _ Some 1(2-4) tail 1(6)])
      show "\<not> (s = [] \<or> n = [])" using i(1) 1(6) by auto
    qed
    have "ci_replace_from n r s = take i s @ r @ ci_replace_from n r (drop (i + length n) s)"
      using Some i(1) 1(6) by (subst ci_replace_from.simps) auto
    then show ?thesis
      using sublist_around_filler [of m "take i (py_lower s)" "py_lower r"
          "py_lower (ci_replace_from n r (drop (i + length n) s))"] head rest 1(2-4)
      by (auto simp: py_lower_take)
  qed
qed

lemma redact_value_clean:
  assumes "r \<noteq> []" "\<forall>p \<in> set ps. p \<noteq> [] \<and> set (py_lower p) \<inter> set (py_lower r) = {}"
    and "p \<noteq> []" "set (py_lower p) \<inter> set (py_lower r) = {}"
    and "p \<in> set ps \<or> \<not> sublist (py_lower p) (py_lower s)"
  shows "\<not> sublist (py_lower p) (py_lower (fst (redact_value r ps s)))"
  using assms
proof (induction ps arbitrary: s)
  case (Cons q ps)
  show ?case
  proof (cases "py_contains (py_lower q) (py_lower s)")
    case True
    have "p \<in> set ps \<or> \<not> sublist (py_lower p) (py_lower (case_insensitive_replace s q r))"
    proof (cases "p \<in> set ps")
      case False
      then have "py_lower p = py_lower q \<or> \<not> sublist (py_lower p) (py_lower s)"
        using Cons.prems(5) by auto
      then have "\<not> sublist (py_lower p) (py_lower (ci_replace_from (py_lower q) r s))"
        using Cons.prems(1-4) by (intro ci_replace_clean) auto
      then show ?thesis by (simp add: case_insensitive_replace_def)
    qed simp
    then show ?thesis using Cons.IH Cons.prems True by simp
  next
    case False
    then have "p \<in> set ps \<or> \<not> sublist (py_lower p) (py_lower s)"
      using Cons.prems(5) by (auto simp: py_contains_sublist)
    then show ?thesis using Cons.IH Cons.prems False by simp
  qed
qed simp


section \<open>Properties\<close>

text \<open>How a call gets through guardrails, without the loop: each is asked with the call as the last rewrite left it and
  the context as the last guardrail left it, and neither denies nor raises.\<close>

inductive gets_through :: "guardrail list \<Rightarrow> tool_call \<times> pydict \<Rightarrow> tool_call \<times> pydict \<Rightarrow> bool" where
  asked_none: "gets_through [] s s"
| passes: "gr_check g c ctx = (Inr r, ctx') \<Longrightarrow> gu_decision r = GAllow \<Longrightarrow>
    gets_through gs (c, ctx') s \<Longrightarrow> gets_through (g # gs) (c, ctx) s"
| changes_call: "gr_check g c ctx = (Inr r, ctx') \<Longrightarrow> gu_decision r = GModify \<Longrightarrow>
    gets_through gs (gu_tool_call r, ctx') s \<Longrightarrow> gets_through (g # gs) (c, ctx) s"

inductive_simps gets_through_Nil [simp]: "gets_through [] s t"
inductive_cases gets_through_ConsE: "gets_through (g # gs) s t"

definition stops :: "guardrail \<Rightarrow> tool_call \<times> pydict \<Rightarrow> bool" where
  "stops g s = (case fst (gr_check g (fst s) (snd s)) of Inl e \<Rightarrow> True | Inr r \<Rightarrow> gu_decision r = GDeny)"

text \<open>The guardrail whose word is the last, the state it is asked in, and those that are not asked any more.\<close>

definition last_asked :: "guardrail list \<Rightarrow> tool_call \<times> pydict \<Rightarrow> guardrail \<Rightarrow> tool_call \<times> pydict \<Rightarrow> guardrail list \<Rightarrow> bool" where
  "last_asked gs start g s after =
     (\<exists>before. gs = before @ g # after \<and> gets_through before start s \<and> (stops g s \<or> after = []))"

text \<open>What the chain makes of its answer.\<close>

definition final_word :: "guardrail \<Rightarrow> tool_call \<times> pydict \<Rightarrow> guardrail_result \<Rightarrow> bool" where
  "final_word g s r =
     (case fst (gr_check g (fst s) (snd s)) of
        Inl e \<Rightarrow> gu_decision r = GDeny \<and> gu_tool_call r = fst s
          \<and> gu_reason r = Some (gr_name g @ '' crashed; failing closed'')
      | Inr own \<Rightarrow> r = own)"

lemma gets_through_unstopped:
  "gets_through gs start s \<Longrightarrow> gs = before @ g # after \<Longrightarrow> gets_through before start t \<Longrightarrow> \<not> stops g t"
proof (induction arbitrary: before rule: gets_through.induct)
  case (passes g' c ctx r ctx' gs s)
  then show ?case by (cases before) (auto simp: stops_def elim: gets_through_ConsE)
next
  case (changes_call g' c ctx r ctx' gs s)
  then show ?case by (cases before) (auto simp: stops_def elim: gets_through_ConsE)
qed simp

lemma compose_loop_result:
  "(if gs = [] then compose_loop gs c ctx l = l
    else \<exists>g s after. last_asked gs (c, ctx) g s after \<and> final_word g s (compose_loop gs c ctx l))
   \<and> (gu_decision l \<noteq> GDeny \<longrightarrow>
        (gu_decision (compose_loop gs c ctx l) \<noteq> GDeny \<longleftrightarrow> (\<exists>s. gets_through gs (c, ctx) s)))"
proof (induction gs arbitrary: c ctx l)
  case (Cons g gs)
  obtain answer ctx' where check: "gr_check g c ctx = (answer, ctx')" by (cases "gr_check g c ctx")
  show ?case
  proof (cases "stops g (c, ctx)")
    case True
    have "last_asked (g # gs) (c, ctx) g (c, ctx) gs"
      unfolding last_asked_def using True by (intro exI [of _ "[]"]) simp
    moreover have "final_word g (c, ctx) (compose_loop (g # gs) c ctx l)
        \<and> gu_decision (compose_loop (g # gs) c ctx l) = GDeny"
      using True check by (auto simp: final_word_def stops_def split: sum.splits)
    moreover have "\<not> gets_through (g # gs) (c, ctx) s" for s
      using True check by (auto simp: stops_def elim!: gets_through_ConsE)
    ultimately show ?thesis by auto
  next
    case False
    then obtain r where r: "answer = Inr r" "gu_decision r \<noteq> GDeny"
      using check by (auto simp: stops_def split: sum.splits)
    define c' where "c' = (if gu_decision r = GModify then gu_tool_call r else c)"
    have loop: "compose_loop (g # gs) c ctx l = compose_loop gs c' ctx' r"
      using check r by (simp add: c'_def)
    have through: "gets_through (g # xs) (c, ctx) s \<longleftrightarrow> gets_through xs (c', ctx') s" for xs s
      using check r by (cases "gu_decision r") (auto simp: c'_def elim!: gets_through_ConsE intro: passes changes_call)
    show ?thesis
    proof (cases "gs = []")
      case True
      have "last_asked (g # gs) (c, ctx) g (c, ctx) []"
        unfolding last_asked_def True by (intro exI [of _ "[]"]) simp
      moreover have "final_word g (c, ctx) r" using check r by (simp add: final_word_def)
      ultimately show ?thesis using True loop r through [of "[]"] by auto
    next
      case rest: False
      from Cons.IH [of c' ctx' r] rest obtain h s after where
        h: "last_asked gs (c', ctx') h s after" "final_word h s (compose_loop gs c' ctx' r)" by auto
      from h(1) obtain before where "gs = before @ h # after" "gets_through before (c', ctx') s" "stops h s \<or> after = []"
        unfolding last_asked_def by blast
      then have "last_asked (g # gs) (c, ctx) h s after"
        unfolding last_asked_def using through [of before s] by (intro exI [of _ "g # before"]) simp
      then have "\<exists>h s after. last_asked (g # gs) (c, ctx) h s after \<and> final_word h s (compose_loop gs c' ctx' r)"
        using h(2) by blast
      moreover have "gu_decision (compose_loop gs c' ctx' r) \<noteq> GDeny \<longleftrightarrow> (\<exists>s. gets_through gs (c', ctx') s)"
        using Cons.IH [of c' ctx' r] r(2) by blast
      ultimately show ?thesis unfolding loop through by simp
    qed
  qed
qed simp

lemma compose_guardrails_result:
  "if gs = [] then compose_guardrails gs c context = allow_call c
   else \<exists>g s after. last_asked gs (c, or_default context []) g s after \<and> final_word g s (compose_guardrails gs c context)"
  unfolding compose_guardrails_def by (rule compose_loop_result [THEN conjunct1])

lemma compose_guardrails_passed:
  "gu_decision (compose_guardrails gs c context) \<noteq> GDeny \<longleftrightarrow> (\<exists>s. gets_through gs (c, or_default context []) s)"
  unfolding compose_guardrails_def by (rule compose_loop_result [THEN conjunct2, THEN mp]) (simp add: allow_call_def)

text \<open>Property C32: a chain of guardrails fails closed, whatever they are and whatever they write into the shared context: it
  denies exactly when one of them, asked with the call and the context as the earlier ones left them, denies or raises. The
  result is the answer of the last guardrail asked, on that call: the first that stops the chain (a denial that says so when it
  raised), or else the last of all; an empty chain allows the call as it is.\<close>

theorem compose_fails_closed:
  "let r = compose_guardrails gs c context; start = (c, or_default context []) in
     (gu_decision r = GDeny \<longleftrightarrow>
        (\<exists>before g after s. gs = before @ g # after \<and> gets_through before start s \<and> stops g s))
     \<and> (if gs = [] then r = allow_call c
        else \<exists>g s after. last_asked gs start g s after \<and> final_word g s r)"
proof -
  let ?r = "compose_guardrails gs c context" and ?start = "(c, or_default context [])"
  note whole = compose_guardrails_result [of gs c "context"]
  note passed = compose_guardrails_passed [of gs c "context"]
  have "gu_decision ?r = GDeny \<longleftrightarrow> (\<exists>before g after s. gs = before @ g # after \<and> gets_through before ?start s \<and> stops g s)"
    (is "_ \<longleftrightarrow> ?stopped")
  proof
    assume ?stopped
    then show "gu_decision ?r = GDeny" using passed gets_through_unstopped by blast
  next
    assume denied: "gu_decision ?r = GDeny"
    then obtain g s after where last: "last_asked gs ?start g s after" "final_word g s ?r"
      using whole by (auto simp: allow_call_def split: if_splits)
    then have "stops g s"
      using denied by (auto simp: stops_def final_word_def split: sum.splits)
    then show ?stopped using last(1) unfolding last_asked_def by blast
  qed
  then show ?thesis using whole unfolding Let_def by blast
qed

text \<open>A chain of guardrails that keep their contract changes nothing but arguments, whatever it decides.\<close>

lemma gets_through_identity:
  "gets_through gs start s \<Longrightarrow> list_all (\<lambda>g. tool_guardrail (gr_check g)) gs \<Longrightarrow>
     tc_id (fst s) = tc_id (fst start) \<and> tc_name (fst s) = tc_name (fst start)"
  by (induction rule: gets_through.induct) (auto dest: tool_guardrail.same_identity)

theorem compose_keeps_identity:
  assumes "list_all (\<lambda>g. tool_guardrail (gr_check g)) gs"
  shows "tc_id (gu_tool_call (compose_guardrails gs c context)) = tc_id c
    \<and> tc_name (gu_tool_call (compose_guardrails gs c context)) = tc_name c"
proof (cases "gs = []")
  case False
  with compose_guardrails_result [of gs c "context"]
  have "\<exists>g s after. last_asked gs (c, or_default context []) g s after \<and> final_word g s (compose_guardrails gs c context)"
    by simp
  then obtain g s after before where last: "gs = before @ g # after" "gets_through before (c, or_default context []) s"
      "final_word g s (compose_guardrails gs c context)"
    unfolding last_asked_def by blast
  have "list_all (\<lambda>g. tool_guardrail (gr_check g)) before" "tool_guardrail (gr_check g)" using assms last(1) by simp_all
  then show ?thesis
    using gets_through_identity [OF last(2)] last(3) tool_guardrail.same_identity [of "gr_check g" "fst s" "snd s"]
    by (cases "gr_check g (fst s) (snd s)") (auto simp: final_word_def split: sum.splits)
qed (simp add: compose_guardrails_def allow_call_def)

definition example_guardrails :: "guardrail list" where
  "example_guardrails =
     [\<lparr> gr_name = ''StringRedactionGuardrail'', gr_check = reads_context (string_redaction_check [''hunter2''] ''[REDACTED]'') \<rparr>,
      \<lparr> gr_name = ''RequiredArgsGuardrail'', gr_check = reads_context (required_args_check [(''http.fetch'', [''url''])]) \<rparr>]"

definition example_call :: "string \<Rightarrow> tool_call" where
  "example_call url = \<lparr> tc_id = ''t1'', tc_name = ''http.fetch'', tc_arguments = [(''url'', PStr url)] \<rparr>"

lemma example_guardrails_good: "list_all (\<lambda>g. tool_guardrail (gr_check g)) example_guardrails"
  by (simp add: example_guardrails_def string_redaction.tool_guardrail_axioms
      required_args.tool_guardrail_axioms)

theorem compose_keeps_identity_witness:
  "tc_id (gu_tool_call (compose_guardrails example_guardrails (example_call ''/?p=Hunter2'') None)) = ''t1''"
  using compose_keeps_identity [OF example_guardrails_good, of "example_call ''/?p=Hunter2''" None]
  by (simp add: example_call_def)

text \<open>What a guardrail writes into the context is read by the ones after it, as in the test
  \<open>test_compose_propagates_context_unchanged\<close>: here the first grants a capability that the second asks for.\<close>

definition granting_guardrail :: guardrail where
  "granting_guardrail = \<lparr> gr_name = ''Grant'', gr_check = (\<lambda>c ctx.
     (Inr (allow_call c), dict_set ''granted_capabilities'' (PList [PStr ''net.fetch'']) ctx)) \<rparr>"

definition asking_guardrail :: guardrail where
  "asking_guardrail = \<lparr> gr_name = ''CapabilityGuardrail'',
     gr_check = reads_context (capability_check [(''http.fetch'', ''net.fetch'')]) \<rparr>"

lemma context_is_shared:
  "gu_decision (compose_guardrails [granting_guardrail, asking_guardrail] (example_call ''/'') None) = GAllow"
  "gu_decision (compose_guardrails [asking_guardrail, granting_guardrail] (example_call ''/'') None) = GDeny"
  by code_simp+

text \<open>A composed chain can return \<open>allow\<close> with a call that is not the original one: a rewrite followed by a
  guardrail that has nothing to say is reported as \<open>allow\<close>, though the documentation says that
  \<open>allow\<close> carries the original call. A dispatcher that runs the original on \<open>allow\<close> runs the text the
  redaction removed.\<close>

theorem compose_allow_may_carry_rewritten_call:
  "let r = compose_guardrails example_guardrails (example_call ''/?p=Hunter2'') None
   in gu_decision r = GAllow \<and> gu_tool_call r \<noteq> example_call ''/?p=Hunter2''"
  by code_simp

text \<open>Redaction is complete when the replacement shares no letter with the patterns: whatever the patterns and
  their order, no string argument of the call that is passed on contains one of them, in any case.\<close>

theorem string_redaction_complete:
  assumes "replacement \<noteq> []"
    "\<forall>p \<in> set patterns. set (py_lower p) \<inter> set (py_lower replacement) = {}"
    "string_redaction_check patterns replacement c ctx = Inr r"
  shows "\<forall>(k, v) \<in> set (tc_arguments (gu_tool_call r)). \<forall>p \<in> set patterns. p \<noteq> [] \<longrightarrow>
    (case v of PStr s \<Rightarrow> \<not> py_contains (py_lower p) (py_lower s) | _ \<Rightarrow> True)"
proof -
  let ?ps = "filter (\<lambda>p. p \<noteq> []) patterns"
  have clean: "\<not> sublist (py_lower p) (py_lower (fst (redact_value replacement ?ps s)))"
    if "p \<in> set patterns" "p \<noteq> []" for p s
    using that assms(1,2) by (intro redact_value_clean) auto
  have untouched: "\<not> snd (redact_value replacement qs s) \<Longrightarrow> fst (redact_value replacement qs s) = s" for qs s
    by (induction qs arbitrary: s) (auto split: if_splits)
  have argument: "\<not> py_contains (py_lower p) (py_lower s)"
    if "(k, v) \<in> set (tc_arguments c)" "fst (redact_argument replacement ?ps v) = PStr s"
      "p \<in> set patterns" "p \<noteq> []" for k v s p
    using that clean by (auto simp: redact_argument_def py_contains_sublist Let_def
        split: pyval.splits prod.splits) (metis fst_conv)
  have kept: "fst (redact_argument replacement ?ps v) = v"
    if "\<not> snd (redact_argument replacement ?ps v)" for v
    using that untouched by (auto simp: redact_argument_def Let_def split: pyval.splits prod.splits)
      (metis fst_conv snd_conv)
  have args: "tc_arguments (gu_tool_call r)
      = map (\<lambda>(k, v). (k, fst (redact_argument replacement ?ps v))) (tc_arguments c)"
    if "?ps \<noteq> []"
    using assms(3) that
    by (auto simp: string_redaction_check_def Let_def allow_call_def list_ex_iff
        split: if_splits intro!: map_idI [symmetric]) (use kept in fastforce)
  show ?thesis
  proof (cases "?ps = []")
    case True
    then have "\<forall>p \<in> set patterns. p = []" by (simp add: filter_empty_conv)
    then show ?thesis by auto
  next
    case False
    show ?thesis
      unfolding args [OF False] using argument by (auto split: pyval.splits)
  qed
qed

theorem string_redaction_complete_witness:
  "\<not> py_contains ''hunt2'' (py_lower ''/?p=[***]'')"
proof -
  let ?r = "\<lparr> gu_decision = GModify, gu_tool_call = example_call ''/?p=[***]'',
    gu_reason = Some ''redacted matching substrings'',
    gu_metadata = [(''guardrail'', PStr ''StringRedactionGuardrail'')] \<rparr>"
  have run: "string_redaction_check [''hunt2''] ''[***]'' (example_call ''/?p=HUNT2'') [] = Inr ?r"
    by code_simp
  have "\<forall>p \<in> set [''hunt2'']. set (py_lower p) \<inter> set (py_lower ''[***]'') = {}" by code_simp
  from string_redaction_complete [OF _ this run]
  moreover have "py_lower ''hunt2'' = ''hunt2''" by code_simp
  ultimately show ?thesis by (simp add: example_call_def)
qed

text \<open>A call gets past the two shape checks exactly when it carries every declared argument, and the declared
  capability is granted: by a list, a tuple or a dictionary that holds it, but also by a string that
  contains it anywhere.\<close>

theorem shape_checks_exact:
  "(case required_args_check req c ctx of Inl e \<Rightarrow> False
    | Inr r \<Rightarrow> (gu_decision r = GAllow \<longleftrightarrow>
        set (or_default (dict_get req (tc_name c)) []) \<subseteq> set (dict_keys (tc_arguments c)))
      \<and> gu_decision r \<noteq> GModify)
   \<and> (case capability_check [(tc_name c, cap)] c [(''granted_capabilities'', PStr s)] of Inl e \<Rightarrow> False
      | Inr r \<Rightarrow> gu_decision r = GAllow \<longleftrightarrow> s \<noteq> [] \<and> py_contains cap s)
   \<and> (case capability_check [(tc_name c, cap)] c [(''granted_capabilities'', PList (map PStr caps))] of
        Inl e \<Rightarrow> False
      | Inr r \<Rightarrow> gu_decision r = GAllow \<longleftrightarrow> cap \<in> set caps)"
proof (intro conjI)
  show "case required_args_check req c ctx of Inl e \<Rightarrow> False
    | Inr r \<Rightarrow> (gu_decision r = GAllow \<longleftrightarrow>
        set (or_default (dict_get req (tc_name c)) []) \<subseteq> set (dict_keys (tc_arguments c)))
      \<and> gu_decision r \<noteq> GModify"
    by (auto simp: required_args_check_def Let_def allow_call_def filter_empty_conv subset_iff)
  show "case capability_check [(tc_name c, cap)] c [(''granted_capabilities'', PStr s)] of Inl e \<Rightarrow> False
      | Inr r \<Rightarrow> gu_decision r = GAllow \<longleftrightarrow> s \<noteq> [] \<and> py_contains cap s"
    by (auto simp: capability_check_def or_empty_set_def capability_granted_def Let_def allow_call_def
        split: bool.splits)
  show "case capability_check [(tc_name c, cap)] c [(''granted_capabilities'', PList (map PStr caps))] of
        Inl e \<Rightarrow> False
      | Inr r \<Rightarrow> gu_decision r = GAllow \<longleftrightarrow> cap \<in> set caps"
    by (auto simp: capability_check_def or_empty_set_def capability_granted_def Let_def allow_call_def
        list_all_iff split: bool.splits)
qed

end
