(* ===== verification/Session_Wake.thy ===== *)
theory Session_Wake
  imports Event_Log_Flow Tool_Guardrails
begin

text \<open>
  Waking a session, \<open>app/engine/runtime/session_wake.py\<close>: the conversation, the tool calls and the child
  agents that are rebuilt from a session's events. Validating a tool call (pydantic) and \<open>json.dumps\<close> with
  sorted keys are parameters.
\<close>

section \<open>State\<close>

record message =
  mg_role :: string
  mg_content :: string
  mg_name :: "string option"
  mg_tool_call_id :: "string option"
  mg_tool_calls :: "tool_call list option"

record wake_ports =
  wp_log :: log_ports
  wp_validate :: "pydict \<Rightarrow> tool_call option"
  wp_dumps :: "pyval \<Rightarrow> string"

record wake_state =
  ws_session_id :: string
  ws_org_id :: "string option"
  ws_messages :: "message list"
  ws_pending_tool_calls :: "tool_call list"
  ws_latest_seq :: nat
  ws_event_count :: nat
  ws_subagent_runs :: "pydict list"
  ws_pending_subagents :: "pydict list"

section \<open>Reading payloads\<close>

definition payload_field :: "pydict \<Rightarrow> string \<Rightarrow> pyval" where
  "payload_field d k = or_default (dict_get d k) PNone"

fun first_text :: "pydict \<Rightarrow> string list \<Rightarrow> string" where
  "first_text d [] = []"
| "first_text d (k # ks) = (case dict_get d k of Some (PStr s) \<Rightarrow> s | _ \<Rightarrow> first_text d ks)"

definition coerce_text :: "pydict \<Rightarrow> string" where
  "coerce_text payload = first_text payload [''text'', ''content'', ''message'']"

definition coerce_tool_calls :: "wake_ports \<Rightarrow> pyval \<Rightarrow> tool_call list" where
  "coerce_tool_calls p raw =
     (case raw of
        PList xs \<Rightarrow> List.map_filter (\<lambda>x. case x of PDict d \<Rightarrow> wp_validate p d | _ \<Rightarrow> None) xs
      | _ \<Rightarrow> [])"

definition coerce_tool_result_text :: "wake_ports \<Rightarrow> pyval \<Rightarrow> string" where
  "coerce_tool_result_text p v =
     (case v of PStr s \<Rightarrow> s | PDict d \<Rightarrow> wp_dumps p v | PList xs \<Rightarrow> wp_dumps p v | _ \<Rightarrow> [])"

definition text_provenance :: "pyval \<Rightarrow> pydict" where
  "text_provenance v =
     (let text = py_strip (str_or_empty v) in
      [(''present'', PBool (text \<noteq> [])), (''char_count'', PInt (int (length text)))]
      @ (if text \<noteq> [] then [(''hash'', PStr (''sha256:'' @ take 16 (sha256_hex text)))] else []))"

definition wake_safe_int :: "pyval \<Rightarrow> int" where
  "wake_safe_int v = (if truthy v then or_default (py_int v) 0 else 0)"

definition safe_metadata_keys :: "wake_ports \<Rightarrow> pyval \<Rightarrow> string list" where
  "safe_metadata_keys p v =
     sort (filter (\<lambda>k. k \<noteq> ''redacted_secret_count'') (dict_keys (safe_payload_dict (wp_log p) v)))"

definition safe_public_mapping :: "wake_ports \<Rightarrow> pyval \<Rightarrow> string list \<Rightarrow> pydict" where
  "safe_public_mapping p v allowed = filter (\<lambda>(k, item). k \<in> set allowed) (safe_payload_dict (wp_log p) v)"

definition text_provenance_keys :: "string list" where
  "text_provenance_keys = [''present'', ''char_count'', ''hash'']"

definition task_provenance_keys :: "string list" where
  "task_provenance_keys = [''version'', ''description'', ''context_hint_count'', ''metadata_keys'', ''max_steps'']"

definition result_provenance_keys :: "string list" where
  "result_provenance_keys = [''version'', ''status'', ''summary'', ''source_count'', ''tool_calls_made'',
     ''duration_ms'', ''error'', ''error_type'']"

definition coerce_text_provenance :: "wake_ports \<Rightarrow> pyval \<Rightarrow> pydict" where
  "coerce_text_provenance p v =
     (let safe = (case v of PDict d \<Rightarrow> safe_public_mapping p v text_provenance_keys | _ \<Rightarrow> []) in
      if safe = [] then text_provenance v
      else let s1 = dict_set ''present'' (PBool (truthy (payload_field safe ''present''))) safe;
               s2 = dict_set ''char_count'' (PInt (wake_safe_int (payload_field s1 ''char_count''))) s1
           in (case payload_field s2 ''hash'' of PNone \<Rightarrow> s2 | h \<Rightarrow> dict_set ''hash'' (PStr (py_str h)) s2))"

definition coerce_task_provenance :: "wake_ports \<Rightarrow> pydict \<Rightarrow> pydict" where
  "coerce_task_provenance p payload =
     (let task = safe_public_mapping p (payload_field payload ''task'') task_provenance_keys in
      if task = []
      then [(''version'', PStr ''wiii.subagent_task_provenance.v1''),
            (''description'', PDict (text_provenance (payload_field payload ''description''))),
            (''context_hint_count'', PInt 0),
            (''metadata_keys'', str_list (safe_metadata_keys p (payload_field payload ''metadata'')))]
      else let t1 = dict_set ''description'' (PDict (coerce_text_provenance p (payload_field task ''description''))) task;
               t2 = dict_set ''context_hint_count'' (PInt (wake_safe_int (payload_field t1 ''context_hint_count''))) t1;
               t3 = (case dict_get t2 ''max_steps'' of None \<Rightarrow> t2
                 | Some m \<Rightarrow> dict_set ''max_steps'' (PInt (wake_safe_int m)) t2)
           in dict_set ''metadata_keys''
                (case payload_field t3 ''metadata_keys'' of
                   PList ks \<Rightarrow> str_list (map py_str (take 24 ks)) | _ \<Rightarrow> PList []) t3)"

definition str_or_word :: "pyval \<Rightarrow> string \<Rightarrow> string" where
  "str_or_word v w = (if truthy v then py_str v else w)"

definition coerce_result_provenance :: "wake_ports \<Rightarrow> pydict \<Rightarrow> pydict" where
  "coerce_result_provenance p payload =
     (let result = safe_public_mapping p (payload_field payload ''result'') result_provenance_keys in
      if result = []
      then [(''version'', PStr ''wiii.subagent_result_provenance.v1''),
            (''status'', PStr (str_or_word (payload_field payload ''status'') ''unknown'')),
            (''summary'', PDict (text_provenance (payload_field payload ''summary''))),
            (''source_count'', PInt 0),
            (''tool_calls_made'', PInt (wake_safe_int (payload_field payload ''tool_calls_made''))),
            (''duration_ms'', PInt (wake_safe_int (payload_field payload ''duration_ms''))),
            (''error'', PDict (text_provenance (payload_field payload ''error'')))]
      else let r1 = dict_set ''summary'' (PDict (coerce_text_provenance p (payload_field result ''summary''))) result;
               r2 = dict_set ''error'' (PDict (coerce_text_provenance p (payload_field r1 ''error''))) r1;
               r3 = dict_set ''source_count'' (PInt (wake_safe_int (payload_field r2 ''source_count''))) r2;
               r4 = dict_set ''tool_calls_made'' (PInt (wake_safe_int (payload_field r3 ''tool_calls_made''))) r3;
               r5 = dict_set ''duration_ms'' (PInt (wake_safe_int (payload_field r4 ''duration_ms''))) r4;
               r6 = (case dict_get r5 ''status'' of None \<Rightarrow> r5
                 | Some v \<Rightarrow> dict_set ''status'' (PStr (str_or_word v ''unknown'')) r5)
           in (case dict_get r6 ''error_type'' of None \<Rightarrow> r6
                 | Some v \<Rightarrow> dict_set ''error_type'' (PStr (str_or_word v [])) r6))"

section \<open>The replay\<close>

text \<open>The loop's state, the messages and runs in the order they were appended.\<close>

record wake_loop =
  wl_messages :: "message list"
  wl_pending :: "(string \<times> tool_call) list"
  wl_latest_seq :: nat
  wl_event_count :: nat
  wl_runs :: "pydict list"
  wl_subagents :: "(string \<times> pydict) list"

definition empty_wake_loop :: wake_loop where
  "empty_wake_loop = \<lparr> wl_messages = [], wl_pending = [], wl_latest_seq = 0, wl_event_count = 0, wl_runs = [],
     wl_subagents = [] \<rparr>"

definition dict_pop :: "string \<Rightarrow> (string \<times> 'v) list \<Rightarrow> (string \<times> 'v) list" where
  "dict_pop k d = filter (\<lambda>(k', v). k' \<noteq> k) d"

definition text_message :: "string \<Rightarrow> string \<Rightarrow> message" where
  "text_message role text = \<lparr> mg_role = role, mg_content = text, mg_name = None, mg_tool_call_id = None, mg_tool_calls = None \<rparr>"

definition apply_text_message :: "string \<Rightarrow> pydict \<Rightarrow> wake_loop \<Rightarrow> wake_loop" where
  "apply_text_message role payload w =
     (let text = coerce_text payload in
      if text = [] then w else w\<lparr>wl_messages := wl_messages w @ [text_message role text]\<rparr>)"

definition call_table :: "tool_call list \<Rightarrow> (string \<times> tool_call) list" where
  "call_table calls = foldl (\<lambda>d c. if tc_id c \<noteq> [] then dict_set (tc_id c) c d else d) [] calls"

definition apply_assistant_message :: "wake_ports \<Rightarrow> pydict \<Rightarrow> wake_loop \<Rightarrow> wake_loop" where
  "apply_assistant_message p payload w =
     (let text = coerce_text payload; calls = coerce_tool_calls p (payload_field payload ''tool_calls'') in
      if text = [] \<and> calls = [] then w
      else w\<lparr>wl_messages := wl_messages w @ [(text_message ''assistant'' text)
               \<lparr>mg_tool_calls := (if calls = [] then None else Some calls)\<rparr>],
             wl_pending := call_table calls\<rparr>)"

text \<open>The id of the call a tool result answers, \<open>None\<close> when there is none.\<close>

definition text_field :: "string \<Rightarrow> pydict \<Rightarrow> string option" where
  "text_field k payload = (case payload_field payload k of PStr s \<Rightarrow> if s = [] then None else Some s | _ \<Rightarrow> None)"

definition apply_tool_result :: "wake_ports \<Rightarrow> pydict \<Rightarrow> wake_loop \<Rightarrow> wake_loop" where
  "apply_tool_result p payload w =
     (case text_field ''tool_call_id'' payload of
        None \<Rightarrow> w
      | Some i \<Rightarrow> w\<lparr>wl_messages := wl_messages w @ [(text_message ''tool''
            (coerce_tool_result_text p (payload_field payload ''content'')))\<lparr>mg_tool_call_id := Some i\<rparr>],
          wl_pending := dict_pop i (wl_pending w)\<rparr>)"

definition apply_subagent_started :: "wake_ports \<Rightarrow> pydict \<Rightarrow> wake_loop \<Rightarrow> wake_loop" where
  "apply_subagent_started p payload w =
     (case text_field ''child_session_id'' payload of
        None \<Rightarrow> w
      | Some i \<Rightarrow> w\<lparr>wl_subagents := dict_set i
          [(''child_session_id'', PStr i), (''task'', PDict (coerce_task_provenance p payload))] (wl_subagents w)\<rparr>)"

definition apply_subagent_completed :: "wake_ports \<Rightarrow> pydict \<Rightarrow> wake_loop \<Rightarrow> wake_loop" where
  "apply_subagent_completed p payload w =
     (case text_field ''child_session_id'' payload of
        None \<Rightarrow> w
      | Some i \<Rightarrow>
          let started = or_default (dict_get (wl_subagents w) i) [];
              run = [(''child_session_id'', PStr i), (''result'', PDict (coerce_result_provenance p payload))]
                @ (case payload_field started ''task'' of PDict t \<Rightarrow> [(''task'', PDict t)] | _ \<Rightarrow> [])
          in w\<lparr>wl_subagents := dict_pop i (wl_subagents w), wl_runs := wl_runs w @ [run]\<rparr>)"

definition wake_event :: "wake_ports \<Rightarrow> session_event \<Rightarrow> wake_loop \<Rightarrow> wake_loop" where
  "wake_event p e w =
     (let w1 = w\<lparr>wl_event_count := wl_event_count w + 1, wl_latest_seq := max (wl_latest_seq w) (se_seq e)\<rparr>;
          payload = safe_payload_dict (wp_log p) (PDict (se_payload e));
          kind = se_event_type e
      in if kind = ''user_message'' then apply_text_message ''user'' payload w1
         else if kind = ''system_message'' then apply_text_message ''system'' payload w1
         else if kind = ''assistant_message'' then apply_assistant_message p payload w1
         else if kind = ''tool_result'' then apply_tool_result p payload w1
         else if kind = ''subagent_started'' then apply_subagent_started p payload w1
         else if kind = ''subagent_completed'' then apply_subagent_completed p payload w1
         else w1)"

definition replay :: "wake_ports \<Rightarrow> session_event list \<Rightarrow> wake_loop \<Rightarrow> wake_loop" where
  "replay p es w = fold (wake_event p) es w"

text \<open>\<open>wake\<close> on the events that the log returned for the session.\<close>

definition wake :: "wake_ports \<Rightarrow> string \<Rightarrow> string option \<Rightarrow> session_event list \<Rightarrow> wake_state" where
  "wake p session_id org es =
     (let w = replay p es empty_wake_loop in
      \<lparr> ws_session_id = session_id, ws_org_id = org, ws_messages = wl_messages w,
        ws_pending_tool_calls = map snd (wl_pending w), ws_latest_seq = wl_latest_seq w,
        ws_event_count = wl_event_count w, ws_subagent_runs = wl_runs w,
        ws_pending_subagents = map snd (wl_subagents w) \<rparr>)"

section \<open>Waking step by step\<close>

lemma replay_append: "replay p (es @ fs) w = replay p fs (replay p es w)"
  by (simp add: replay_def)

lemma replay_Cons: "replay p (e # es) w = replay p es (wake_event p e w)"
  by (simp add: replay_def)

text \<open>The messages an event adds do not depend on what came before.\<close>

lemma wake_event_messages:
  "wl_messages (wake_event p e w) = wl_messages w @ wl_messages (wake_event p e empty_wake_loop)"
  by (auto simp: wake_event_def apply_text_message_def apply_assistant_message_def apply_tool_result_def
      apply_subagent_started_def apply_subagent_completed_def empty_wake_loop_def Let_def split: option.splits)

lemma wake_event_counts:
  "wl_event_count (wake_event p e w) = wl_event_count w + 1" "wl_latest_seq (wake_event p e w) = max (wl_latest_seq w) (se_seq e)"
  by (auto simp: wake_event_def apply_text_message_def apply_assistant_message_def apply_tool_result_def
      apply_subagent_started_def apply_subagent_completed_def Let_def split: option.splits)

lemma replay_messages: "wl_messages (replay p es w) = wl_messages w @ wl_messages (replay p es empty_wake_loop)"
proof (induction es arbitrary: w)
  case (Cons e es)
  show ?case
    unfolding replay_Cons Cons.IH [of "wake_event p e w"] Cons.IH [of "wake_event p e empty_wake_loop"]
    by (subst wake_event_messages) simp
qed (simp add: replay_def empty_wake_loop_def)

lemma replay_counts:
  "wl_event_count (replay p es w) = wl_event_count w + length es"
  "wl_latest_seq (replay p es w) = foldl max (wl_latest_seq w) (map se_seq es)"
  by (induction es arbitrary: w) (simp_all add: replay_def wake_event_counts)

lemma foldl_max: "foldl max (a::nat) xs = max a (foldl max 0 xs)"
proof (induction xs arbitrary: a)
  case (Cons x xs)
  show ?case using Cons [of "max a x"] Cons [of x] by simp
qed simp

text \<open>A worker that wakes a session again from the events after its cursor, and appends the messages it gets to those
  it has, ends with the conversation of a full wake, and with its counts.\<close>

theorem wake_resumes:
  "let full = wake p i org (es @ fs); before = wake p i org es; rest = wake p i org fs in
     ws_messages full = ws_messages before @ ws_messages rest
     \<and> ws_event_count full = ws_event_count before + ws_event_count rest
     \<and> ws_latest_seq full = max (ws_latest_seq before) (ws_latest_seq rest)
     \<and> ws_event_count full = length (es @ fs)"
proof -
  have "wl_messages (replay p fs (replay p es empty_wake_loop))
      = wl_messages (replay p es empty_wake_loop) @ wl_messages (replay p fs empty_wake_loop)"
    by (rule replay_messages)
  then show ?thesis
    using foldl_max [of "foldl max 0 (map se_seq es)" "map se_seq fs"]
    by (simp add: wake_def Let_def replay_append replay_counts empty_wake_loop_def)
qed

section \<open>Calls that wait for a result\<close>

definition event_fields :: "wake_ports \<Rightarrow> session_event \<Rightarrow> pydict" where
  "event_fields p e = safe_payload_dict (wp_log p) (PDict (se_payload e))"

text \<open>The calls of an assistant turn, and the call a result answers.\<close>

definition turn_of :: "wake_ports \<Rightarrow> session_event \<Rightarrow> tool_call list option" where
  "turn_of p e =
     (let calls = coerce_tool_calls p (payload_field (event_fields p e) ''tool_calls'') in
      if se_event_type e = ''assistant_message'' \<and> (coerce_text (event_fields p e) \<noteq> [] \<or> calls \<noteq> [])
      then Some calls else None)"

definition answered :: "wake_ports \<Rightarrow> session_event list \<Rightarrow> string list" where
  "answered p es = List.map_filter (\<lambda>e. if se_event_type e = ''tool_result''
     then text_field ''tool_call_id'' (event_fields p e) else None) es"

text \<open>The last assistant turn and what came after it.\<close>

fun newest_turn :: "wake_ports \<Rightarrow> session_event list \<Rightarrow> session_event list \<Rightarrow> (tool_call list \<times> session_event list) option" where
  "newest_turn p later [] = None"
| "newest_turn p later (e # es) =
     (case turn_of p e of Some calls \<Rightarrow> Some (calls, later) | None \<Rightarrow> newest_turn p (e # later) es)"

definition last_turn :: "wake_ports \<Rightarrow> session_event list \<Rightarrow> (tool_call list \<times> session_event list) option" where
  "last_turn p es = newest_turn p [] (rev es)"

lemma newest_turn_append:
  "newest_turn p (later @ xs) es = map_option (\<lambda>(calls, l). (calls, l @ xs)) (newest_turn p later es)"
proof (induction es arbitrary: later)
  case (Cons e es)
  then show ?case using Cons [of "e # later"] by (simp split: option.split)
qed simp

lemma last_turn_snoc:
  "last_turn p (es @ [e]) = (case turn_of p e of Some calls \<Rightarrow> Some (calls, [])
     | None \<Rightarrow> map_option (\<lambda>(calls, later). (calls, later @ [e])) (last_turn p es))"
  using newest_turn_append [of p "[]" "[e]"] by (simp add: last_turn_def split: option.split)

lemma wake_event_pending:
  "wl_pending (wake_event p e w) = (case turn_of p e of Some calls \<Rightarrow> call_table calls
     | None \<Rightarrow> filter (\<lambda>(k, c). k \<notin> set (answered p [e])) (wl_pending w))"
  by (auto simp: wake_event_def apply_text_message_def apply_assistant_message_def apply_tool_result_def
      apply_subagent_started_def apply_subagent_completed_def turn_of_def answered_def event_fields_def dict_pop_def
      Let_def map_filter_simps split: option.splits intro!: filter_cong)

lemma replay_pending:
  "wl_pending (replay p es empty_wake_loop) = (case last_turn p es of None \<Rightarrow> []
     | Some (calls, later) \<Rightarrow> filter (\<lambda>(k, c). k \<notin> set (answered p later)) (call_table calls))"
proof (induction es rule: rev_induct)
  case (snoc e es)
  have split: "answered p (later @ [e]) = answered p later @ answered p [e]" for later
    by (simp add: answered_def map_filter_def)
  have none: "answered p [] = []" by (simp add: answered_def map_filter_simps)
  have step: "wl_pending (replay p (es @ [e]) empty_wake_loop) = wl_pending (wake_event p e (replay p es empty_wake_loop))"
    by (simp add: replay_append replay_Cons) (simp add: replay_def)
  show ?case
    unfolding step wake_event_pending last_turn_snoc snoc
    by (cases "turn_of p e"; cases "last_turn p es") (simp_all add: split none case_prod_unfold)
qed (simp add: replay_def empty_wake_loop_def last_turn_def)

text \<open>What is meant by the calls that wait, without the tables of the replay. An event declares the calls of its list that
  validate; it is a turn when it says something or declares a call; a result answers the call whose id it names.\<close>

definition declared_calls :: "wake_ports \<Rightarrow> session_event \<Rightarrow> tool_call list" where
  "declared_calls p e =
     (case dict_get (safe_payload_dict (wp_log p) (PDict (se_payload e))) ''tool_calls'' of
        Some (PList xs) \<Rightarrow> [c. PDict d \<leftarrow> xs, Some c \<leftarrow> [wp_validate p d]]
      | _ \<Rightarrow> [])"

definition says_something :: "wake_ports \<Rightarrow> session_event \<Rightarrow> bool" where
  "says_something p e =
     (case [s. k \<leftarrow> [''text'', ''content'', ''message''],
          Some (PStr s) \<leftarrow> [dict_get (safe_payload_dict (wp_log p) (PDict (se_payload e))) k]] of
        [] \<Rightarrow> False | s # rest \<Rightarrow> s \<noteq> [])"

definition is_turn :: "wake_ports \<Rightarrow> session_event \<Rightarrow> bool" where
  "is_turn p e = (se_event_type e = ''assistant_message'' \<and> (says_something p e \<or> declared_calls p e \<noteq> []))"

definition answers :: "wake_ports \<Rightarrow> session_event \<Rightarrow> string \<Rightarrow> bool" where
  "answers p e i = (se_event_type e = ''tool_result'' \<and> i \<noteq> []
     \<and> dict_get (safe_payload_dict (wp_log p) (PDict (se_payload e))) ''tool_call_id'' = Some (PStr i))"

text \<open>The ids of a turn in the order of their first use; a later call under the same id replaces an earlier one.\<close>

definition ids_in_order :: "tool_call list \<Rightarrow> string list" where
  "ids_in_order calls = filter (\<lambda>i. i \<noteq> []) (rev (remdups (rev (map tc_id calls))))"

definition last_call :: "tool_call list \<Rightarrow> string \<Rightarrow> tool_call" where
  "last_call calls i = last (filter (\<lambda>c. tc_id c = i) calls)"

definition waiting_calls :: "wake_ports \<Rightarrow> session_event list \<Rightarrow> tool_call list" where
  "waiting_calls p es =
     (case dropWhile (\<lambda>e. \<not> is_turn p e) (rev es) of
        [] \<Rightarrow> []
      | turn # before \<Rightarrow>
          let later = drop (Suc (length before)) es; calls = declared_calls p turn
          in map (last_call calls) (filter (\<lambda>i. \<not> list_ex (\<lambda>e. answers p e i) later) (ids_in_order calls)))"

lemma declared_calls_eq: "declared_calls p e = coerce_tool_calls p (payload_field (event_fields p e) ''tool_calls'')"
proof -
  have eq: "[c. PDict d \<leftarrow> xs, Some c \<leftarrow> [wp_validate p d]]
      = List.map_filter (\<lambda>x. case x of PDict d \<Rightarrow> wp_validate p d | _ \<Rightarrow> None) xs" for xs
    by (induction xs) (auto simp: map_filter_simps split: pyval.split option.split)
  show ?thesis
    unfolding declared_calls_def coerce_tool_calls_def payload_field_def event_fields_def or_default_def eq
    by (cases "dict_get (safe_payload_dict (wp_log p) (PDict (se_payload e))) ''tool_calls''") simp_all
qed

lemma first_text_says:
  "first_text d ks \<noteq> [] \<longleftrightarrow> (case [s. k \<leftarrow> ks, Some (PStr s) \<leftarrow> [dict_get d k]] of [] \<Rightarrow> False | s # rest \<Rightarrow> s \<noteq> [])"
  by (induction ks) (simp_all split: option.split pyval.split)

lemma says_something_eq: "says_something p e \<longleftrightarrow> coerce_text (event_fields p e) \<noteq> []"
  unfolding says_something_def coerce_text_def event_fields_def first_text_says by (rule refl)

lemma turn_of_eq: "turn_of p e = (if is_turn p e then Some (declared_calls p e) else None)"
  by (simp add: turn_of_def is_turn_def declared_calls_eq says_something_eq Let_def)

lemma answered_eq: "i \<in> set (answered p es) \<longleftrightarrow> list_ex (\<lambda>e. answers p e i) es"
  by (induction es)
    (auto simp: answered_def map_filter_simps answers_def text_field_def payload_field_def event_fields_def or_default_def
      split: option.splits pyval.splits if_splits)

lemma newest_turn_dropWhile:
  "newest_turn p later es = (case dropWhile (\<lambda>e. \<not> is_turn p e) es of [] \<Rightarrow> None
     | t # rest \<Rightarrow> Some (declared_calls p t, rev (takeWhile (\<lambda>e. \<not> is_turn p e) es) @ later))"
proof (induction es arbitrary: later)
  case (Cons e es)
  show ?case by (cases "is_turn p e") (simp_all add: turn_of_eq Cons del: dropWhile_eq_Nil_conv split: list.split)
qed simp

lemma last_turn_eq:
  "last_turn p es = (case dropWhile (\<lambda>e. \<not> is_turn p e) (rev es) of [] \<Rightarrow> None
     | t # before \<Rightarrow> Some (declared_calls p t, drop (Suc (length before)) es))"
proof (cases "dropWhile (\<lambda>e. \<not> is_turn p e) (rev es)")
  case Nil
  then show ?thesis unfolding last_turn_def newest_turn_dropWhile Nil by simp
next
  case (Cons t before)
  then have "rev es = takeWhile (\<lambda>e. \<not> is_turn p e) (rev es) @ t # before" by (metis takeWhile_dropWhile_id)
  then have "es = rev before @ t # rev (takeWhile (\<lambda>e. \<not> is_turn p e) (rev es))"
    by (metis rev_append rev_rev_ident rev.simps(2) append.assoc append_Cons append_Nil)
  then have "drop (Suc (length before)) es = rev (takeWhile (\<lambda>e. \<not> is_turn p e) (rev es))"
    by (metis drop_Suc_Cons append_eq_conv_conj length_rev append.assoc append_Cons append_Nil length_Cons length_append_singleton)
  then show ?thesis unfolding last_turn_def newest_turn_dropWhile Cons by simp
qed

text \<open>The table of calls: a dictionary written in order.\<close>

lemma call_table_snoc:
  "call_table (calls @ [c]) = (if tc_id c \<noteq> [] then dict_set (tc_id c) c (call_table calls) else call_table calls)"
  by (simp add: call_table_def)

lemma ids_in_order_snoc:
  "ids_in_order (calls @ [c]) = (if tc_id c = [] \<or> tc_id c \<in> set (map tc_id calls) then ids_in_order calls
     else ids_in_order calls @ [tc_id c])"
  by (auto simp: ids_in_order_def)

lemma dict_set_mapped:
  assumes "distinct ks"
  shows "dict_set k v (map (\<lambda>i. (i, f i)) ks) = map (\<lambda>i. (i, (f(k := v)) i)) (if k \<in> set ks then ks else ks @ [k])"
  using assms by (induction ks) (auto simp: dict_set_def)

lemma call_table_eq: "call_table calls = map (\<lambda>i. (i, last_call calls i)) (ids_in_order calls)"
proof (induction calls rule: rev_induct)
  case Nil
  then show ?case by (simp add: call_table_def ids_in_order_def)
next
  case (snoc c calls)
  have distinct: "distinct (ids_in_order calls)" and set: "set (ids_in_order calls) = set (map tc_id calls) - {[]}"
    by (auto simp: ids_in_order_def)
  have last: "last_call (calls @ [c]) i = (if i = tc_id c then c else last_call calls i)" for i
    by (simp add: last_call_def)
  show ?case
    unfolding call_table_snoc ids_in_order_snoc snoc dict_set_mapped [OF distinct] set
    using set by (auto simp: last intro!: map_cong)
qed

lemma waiting_table:
  "map snd (filter (\<lambda>(k, c). k \<notin> set (answered p later)) (call_table calls))
     = map (last_call calls) (filter (\<lambda>i. \<not> list_ex (\<lambda>e. answers p e i) later) (ids_in_order calls))"
  by (simp add: call_table_eq filter_map comp_def answered_eq)


section \<open>Child agents\<close>

text \<open>The newest event about a child agent decides whether it is still running.\<close>

definition about_child :: "wake_ports \<Rightarrow> string \<Rightarrow> session_event \<Rightarrow> bool" where
  "about_child p i e \<longleftrightarrow> se_event_type e \<in> {''subagent_started'', ''subagent_completed''}
     \<and> text_field ''child_session_id'' (event_fields p e) = Some i"

lemma dict_get_pop [simp]: "dict_get (dict_pop k d) i = (if i = k then None else dict_get d i)"
  by (induction d) (auto simp: dict_pop_def)

lemma wake_event_child:
  "dict_get (wl_subagents (wake_event p e w)) i =
     (if \<not> about_child p i e then dict_get (wl_subagents w) i
      else if se_event_type e = ''subagent_completed'' then None
      else Some [(''child_session_id'', PStr i), (''task'', PDict (coerce_task_provenance p (event_fields p e)))])"
  by (auto simp: wake_event_def apply_text_message_def apply_assistant_message_def apply_tool_result_def
      apply_subagent_started_def apply_subagent_completed_def about_child_def event_fields_def Let_def split: option.splits)

lemma replay_child:
  "dict_get (wl_subagents (replay p es empty_wake_loop)) i =
     (case find (about_child p i) (rev es) of None \<Rightarrow> None
      | Some e \<Rightarrow> if se_event_type e = ''subagent_completed'' then None
          else Some [(''child_session_id'', PStr i), (''task'', PDict (coerce_task_provenance p (event_fields p e)))])"
proof (induction es rule: rev_induct)
  case (snoc e es)
  have step: "wl_subagents (replay p (es @ [e]) empty_wake_loop) = wl_subagents (wake_event p e (replay p es empty_wake_loop))"
    by (simp add: replay_append replay_Cons) (simp add: replay_def)
  show ?case unfolding step wake_event_child snoc by simp
qed (simp add: replay_def empty_wake_loop_def)

lemma distinct_pop: "distinct (dict_keys d) \<Longrightarrow> distinct (dict_keys (dict_pop k d))"
  by (simp add: dict_keys_def dict_pop_def distinct_map_filter)

lemma wake_event_distinct: "distinct (dict_keys (wl_subagents w)) \<Longrightarrow> distinct (dict_keys (wl_subagents (wake_event p e w)))"
  by (auto simp: wake_event_def apply_text_message_def apply_assistant_message_def apply_tool_result_def
      apply_subagent_started_def apply_subagent_completed_def Let_def distinct_dict_keys_set distinct_pop split: option.splits)

lemma replay_distinct: "distinct (dict_keys (wl_subagents (replay p es empty_wake_loop)))"
proof (induction es rule: rev_induct)
  case (snoc e es)
  then show ?case using wake_event_distinct by (simp add: replay_append replay_Cons) (simp add: replay_def)
qed (simp add: replay_def empty_wake_loop_def)

text \<open>The pending child agents are exactly those whose newest event is a start.\<close>

theorem wake_pending_children:
  "d \<in> set (ws_pending_subagents (wake p s org es)) \<longleftrightarrow>
     (\<exists>i e. find (about_child p i) (rev es) = Some e \<and> se_event_type e = ''subagent_started''
        \<and> d = [(''child_session_id'', PStr i), (''task'', PDict (coerce_task_provenance p (event_fields p e)))])"
proof -
  have "d \<in> set (ws_pending_subagents (wake p s org es)) \<longleftrightarrow> (\<exists>i. dict_get (wl_subagents (replay p es empty_wake_loop)) i = Some d)"
  proof -
    have "dict_get (wl_subagents (replay p es empty_wake_loop)) i = Some d \<longleftrightarrow> (i, d) \<in> set (wl_subagents (replay p es empty_wake_loop))" for i
      using replay_distinct [of p es] by (auto simp: dict_get_def dict_keys_def dest: map_of_SomeD)
    then show ?thesis by (force simp: wake_def Let_def)
  qed
  also have "\<dots> \<longleftrightarrow> (\<exists>i e. find (about_child p i) (rev es) = Some e \<and> se_event_type e \<noteq> ''subagent_completed''
        \<and> d = [(''child_session_id'', PStr i), (''task'', PDict (coerce_task_provenance p (event_fields p e)))])"
    by (auto simp: replay_child split: option.splits if_splits)
  also have "\<dots> \<longleftrightarrow> (\<exists>i e. find (about_child p i) (rev es) = Some e \<and> se_event_type e = ''subagent_started''
        \<and> d = [(''child_session_id'', PStr i), (''task'', PDict (coerce_task_provenance p (event_fields p e)))])"
  proof -
    have "se_event_type e = ''subagent_started'' \<or> se_event_type e = ''subagent_completed''"
      if "find (about_child p i) (rev es) = Some e" for i e
      using that by (auto simp: find_Some_iff about_child_def)
    then show ?thesis by fastforce
  qed
  finally show ?thesis .
qed

end
