(* ===== verification/Runtime_Lifecycle.thy ===== *)
theory Runtime_Lifecycle
  imports Sanitizer "HOL-Library.Multiset"
begin

text \<open>
  \<open>app/engine/runtime/lifecycle.py\<close>: the registry of lifecycle hooks, firing a hook point, and the report
  on registrations. What a hook does is an argument, \<open>run\<close>: it takes the hook, the payload dictionary
  and the state of the rest of the program, and returns how the call ended, the payload as it left it
  (all hooks of one firing share the dictionary) and the new state.
\<close>

section \<open>Hooks and registrations\<close>

datatype hook_point = OnRunStart | OnRunEnd | OnRunError | OnToolStart | OnToolEnd | OnSubagentStart | OnSubagentEnd

fun hook_point_value :: "hook_point \<Rightarrow> string" where
  "hook_point_value OnRunStart = ''on_run_start''"
| "hook_point_value OnRunEnd = ''on_run_end''"
| "hook_point_value OnRunError = ''on_run_error''"
| "hook_point_value OnToolStart = ''on_tool_start''"
| "hook_point_value OnToolEnd = ''on_tool_end''"
| "hook_point_value OnSubagentStart = ''on_subagent_start''"
| "hook_point_value OnSubagentEnd = ''on_subagent_end''"

definition hook_points :: "hook_point list" where
  "hook_points = [OnRunStart, OnRunEnd, OnRunError, OnToolStart, OnToolEnd, OnSubagentStart, OnSubagentEnd]"

text \<open>A hook: its identity, and its \<open>__module__\<close> and \<open>__name__\<close>.\<close>

record hook =
  hk_id :: nat
  hk_module :: string
  hk_name :: string

record hook_registration =
  hr_hook :: hook
  hr_owner :: string
  hr_name :: string
  hr_module :: string

section \<open>Owners and labels\<close>

text \<open>\<open>s.split(".")\<close>.\<close>

fun split_dots :: "string \<Rightarrow> string list" where
  "split_dots [] = [[]]"
| "split_dots (c # cs) = (if c = CHR ''.'' then [] # split_dots cs
     else (case split_dots cs of [] \<Rightarrow> [[c]] | w # ws \<Rightarrow> (c # w) # ws))"

text \<open>\<open>casefold\<close> on code points below 256; the micro sign is kept, which no use of the result can tell from
  its folded form: neither is a letter, a digit or one of the three marks of a label.\<close>

definition py_casefold :: "string \<Rightarrow> string" where
  "py_casefold s = concat (map (\<lambda>c. if code c = 223 then ''ss'' else [lower_char c]) s)"

definition owner_char :: "char \<Rightarrow> bool" where
  "owner_char c = (c \<in> set ''abcdefghijklmnopqrstuvwxyz0123456789._-'')"

text \<open>A full match of \<open>[a-z0-9][a-z0-9._-]{0,63}\<close>.\<close>

definition hook_owner_ok :: "string \<Rightarrow> bool" where
  "hook_owner_ok s = (s \<noteq> [] \<and> length s \<le> 64 \<and> list_all owner_char s \<and> hd s \<notin> set ''._-'')"

definition infer_hook_owner :: "hook \<Rightarrow> string" where
  "infer_hook_owner h =
     (let module = hk_module h; parts = split_dots module in
      if py_startswith ''app.engine.'' module
      then (if length parts > 2 then ''engine.'' @ parts ! 2 else ''engine'')
      else if py_startswith ''app.services.'' module then ''services''
      else if py_startswith ''app.api.'' module then ''api''
      else if py_startswith ''app.repositories.'' module then ''repositories''
      else if py_startswith ''app.'' module then (if length parts > 1 then parts ! 1 else ''app'')
      else if py_startswith ''tests.'' module \<or> py_startswith ''test_'' module then ''tests''
      else ''external'')"

definition normalize_hook_owner :: "string option \<Rightarrow> hook \<Rightarrow> string" where
  "normalize_hook_owner owner h =
     (let candidate = py_casefold (py_strip (case owner of None \<Rightarrow> [] | Some s \<Rightarrow> s)) in
      if candidate \<noteq> [] \<and> hook_owner_ok candidate then candidate
      else let inferred = infer_hook_owner h in
        if hook_owner_ok inferred then inferred else ''external'')"

text \<open>\<open>re.sub(r"[^a-z0-9._-]+", "_", s)\<close>.\<close>

fun squash_others :: "bool \<Rightarrow> string \<Rightarrow> string" where
  "squash_others inside [] = []"
| "squash_others inside (c # cs) =
     (if owner_char c then c # squash_others False cs
      else if inside then squash_others True cs else CHR ''_'' # squash_others True cs)"

definition strip_underscores :: "string \<Rightarrow> string" where
  "strip_underscores s =
     rev (dropWhile (\<lambda>c. c = CHR ''_'') (rev (dropWhile (\<lambda>c. c = CHR ''_'') s)))"

definition normalize_metric_label :: "pyval \<Rightarrow> string \<Rightarrow> string" where
  "normalize_metric_label v fallback =
     (let candidate = strip_underscores (squash_others False (py_casefold (py_strip (str_or_empty v)))) in
      if candidate = [] then fallback else take 64 candidate)"

definition new_hook_registration :: "hook \<Rightarrow> string option \<Rightarrow> hook_registration" where
  "new_hook_registration h owner =
     \<lparr> hr_hook = h, hr_owner = normalize_hook_owner owner h,
       hr_name = (if hk_name h = [] then ''hook'' else hk_name h), hr_module = hk_module h \<rparr>"

section \<open>The registry\<close>

type_synonym hook_registry = "hook_point \<Rightarrow> hook_registration list"

definition new_lifecycle :: hook_registry where
  "new_lifecycle = (\<lambda>p. [])"

definition register_hook :: "hook_point \<Rightarrow> hook \<Rightarrow> string option \<Rightarrow> hook_registry \<Rightarrow> hook_registry" where
  "register_hook p h owner l =
     (if list_ex (\<lambda>r. hr_hook r = h) (l p) then l
      else l(p := l p @ [new_hook_registration h owner]))"

fun remove_first_hook :: "hook \<Rightarrow> hook_registration list \<Rightarrow> bool \<times> hook_registration list" where
  "remove_first_hook h [] = (False, [])"
| "remove_first_hook h (r # rs) =
     (if hr_hook r = h then (True, rs) else (let (b, rs') = remove_first_hook h rs in (b, r # rs')))"

definition unregister_hook :: "hook_point \<Rightarrow> hook \<Rightarrow> hook_registry \<Rightarrow> bool \<times> hook_registry" where
  "unregister_hook p h l = (let (b, rs) = remove_first_hook h (l p) in (b, l(p := rs)))"

definition hooks_at :: "hook_registry \<Rightarrow> hook_point \<Rightarrow> hook list" where
  "hooks_at l p = map hr_hook (l p)"

definition reset_hooks :: "hook_registry \<Rightarrow> hook_registry" where
  "reset_hooks l = (\<lambda>p. [])"

section \<open>Firing a hook point\<close>

definition sanitize_hook_payload ::
    "(string \<Rightarrow> pyval option) \<Rightarrow> (string \<Rightarrow> string) \<Rightarrow> pydict option \<Rightarrow> pydict" where
  "sanitize_hook_payload loads digest payload =
     (case sanitize_payload loads digest 0 (PDict (case payload of None \<Rightarrow> [] | Some d \<Rightarrow> d)) of
        PDict d \<Rightarrow> d | _ \<Rightarrow> [])"

text \<open>A hook returns, raises an exception, or is cancelled, which \<open>except Exception\<close> does not catch.\<close>

datatype hook_outcome = Returned | Raised | CancelledHook

record hook_call =
  hc_hook :: hook
  hc_payload :: pydict
  hc_outcome :: hook_outcome

text \<open>The labels of one increment of \<open>runtime.lifecycle.hook_failures\<close>.\<close>

type_synonym failure_labels = "string \<times> string"

fun fire_hooks ::
    "(hook \<Rightarrow> pydict \<Rightarrow> 's \<Rightarrow> hook_outcome \<times> pydict \<times> 's) \<Rightarrow> hook_point \<Rightarrow> hook_registration list \<Rightarrow> pydict \<Rightarrow>
     's \<Rightarrow> 's \<times> hook_call list \<times> failure_labels list" where
  "fire_hooks run p [] data s = (s, [], [])"
| "fire_hooks run p (r # rs) data s =
     (let (outcome, data', s') = run (hr_hook r) data s;
          made = \<lparr> hc_hook = hr_hook r, hc_payload = data, hc_outcome = outcome \<rparr>
      in if outcome = CancelledHook then (s', [made], [])
         else let (t, calls, failures) = fire_hooks run p rs data' s'
           in (t, made # calls,
               (if outcome = Raised then [(hr_owner r, hook_point_value p)] else []) @ failures))"

text \<open>The bucket is copied before the first hook runs.\<close>

definition fire ::
    "(hook \<Rightarrow> pydict \<Rightarrow> 's \<Rightarrow> hook_outcome \<times> pydict \<times> 's) \<Rightarrow> (string \<Rightarrow> pyval option) \<Rightarrow> (string \<Rightarrow> string) \<Rightarrow>
     hook_registry \<Rightarrow> hook_point \<Rightarrow> pydict option \<Rightarrow> 's \<Rightarrow> 's \<times> hook_call list \<times> failure_labels list" where
  "fire run loads digest l p payload s =
     (if l p = [] then (s, [], [])
      else fire_hooks run p (l p) (sanitize_hook_payload loads digest payload) s)"

section \<open>Default hooks\<close>

definition run_end_hook :: hook where
  "run_end_hook = \<lparr> hk_id = 0, hk_module = ''app.engine.runtime.lifecycle'', hk_name = ''_record_run_end_hook'' \<rparr>"

definition run_error_hook :: hook where
  "run_error_hook = \<lparr> hk_id = 1, hk_module = ''app.engine.runtime.lifecycle'', hk_name = ''_record_run_error_hook'' \<rparr>"

definition default_runtime_hooks :: "(hook_point \<times> hook) list" where
  "default_runtime_hooks = [(OnRunEnd, run_end_hook), (OnRunError, run_error_hook)]"

definition default_hook_owner :: string where
  "default_hook_owner = ''engine.runtime''"

definition get_or_none :: "pydict \<Rightarrow> string \<Rightarrow> pyval" where
  "get_or_none d k = (case dict_get d k of None \<Rightarrow> PNone | Some v \<Rightarrow> v)"

text \<open>The labels of one increment of \<open>runtime.lifecycle.hook_runs\<close>: owner, point and status.\<close>

definition hook_run_labels :: "hook_point \<Rightarrow> pydict \<Rightarrow> string \<times> string \<times> string" where
  "hook_run_labels p payload =
     (let status = (if truthy (get_or_none payload ''status'') then get_or_none payload ''status''
        else if truthy (get_or_none payload ''error'') then PStr ''error'' else PStr ''unknown'')
      in (default_hook_owner, hook_point_value p, normalize_metric_label status ''unknown''))"

text \<open>What the default hooks do; the state is the list of increments.\<close>

definition run_default_hook ::
    "hook \<Rightarrow> pydict \<Rightarrow> (string \<times> string \<times> string) list \<Rightarrow>
     hook_outcome \<times> pydict \<times> (string \<times> string \<times> string) list" where
  "run_default_hook h payload runs =
     (Returned, payload,
      if h = run_end_hook then runs @ [hook_run_labels OnRunEnd payload]
      else if h = run_error_hook then runs @ [hook_run_labels OnRunError payload] else runs)"

definition register_default_hooks :: "hook_registry \<Rightarrow> hook_registration list \<times> hook_registry" where
  "register_default_hooks l =
     (let l' = foldl (\<lambda>l (p, h). register_hook p h (Some default_hook_owner) l) l default_runtime_hooks;
          defaults = map snd default_runtime_hooks
      in (concat (map (\<lambda>(p, h). filter (\<lambda>r. hr_hook r \<in> set defaults \<and> hr_owner r = default_hook_owner) (l' p))
            default_runtime_hooks), l'))"

section \<open>The registration report\<close>

text \<open>\<open>Counter\<close>: counts in the order of first occurrence, and \<open>most_common\<close>, largest first and stable.\<close>

fun count_in :: "string \<Rightarrow> (string \<times> nat) list \<Rightarrow> (string \<times> nat) list" where
  "count_in k [] = [(k, 1)]"
| "count_in k ((j, n) # cs) = (if j = k then (j, n + 1) # cs else (j, n) # count_in k cs)"

definition most_common :: "(string \<times> nat) list \<Rightarrow> (string \<times> nat) list" where
  "most_common cs = sort_key (\<lambda>(k, n). - int n) cs"

record registration_report =
  rr_registration_count :: nat
  rr_owner_counts :: "(string \<times> nat) list"
  rr_point_counts :: "(string \<times> nat) list"
  rr_registrations :: "(string \<times> string \<times> string) list"  \<comment> \<open>point, owner, name\<close>
  rr_default_hooks :: "(string \<times> string \<times> bool) list"  \<comment> \<open>point, name, registered\<close>
  rr_registered_count :: nat
  rr_installed :: bool

definition lifecycle_report :: "hook_registry \<Rightarrow> registration_report" where
  "lifecycle_report l =
     (let all = concat (map (\<lambda>p. map (\<lambda>r. (hook_point_value p, hr_owner r, hr_name r)) (l p)) hook_points);
          defaults = map (\<lambda>(p, h). (hook_point_value p, if hk_name h = [] then ''hook'' else hk_name h,
            list_ex (\<lambda>r. hr_hook r = h \<and> hr_owner r = default_hook_owner) (l p))) default_runtime_hooks;
          registered = length (filter (\<lambda>(p, n, b). b) defaults)
      in \<lparr> rr_registration_count = length all,
           rr_owner_counts = most_common (foldl (\<lambda>cs (p, o1, n). count_in o1 cs) [] all),
           rr_point_counts = map (\<lambda>p. (hook_point_value p, length (l p))) hook_points,
           rr_registrations = all, rr_default_hooks = defaults, rr_registered_count = registered,
           rr_installed = (registered = length defaults) \<rparr>)"

section \<open>Lemmas on the registry\<close>

lemma hooks_at_register:
  "hooks_at (register_hook p h owner l) q
     = (if q = p \<and> h \<notin> set (hooks_at l p) then hooks_at l p @ [h] else hooks_at l q)"
  by (auto simp: hooks_at_def register_hook_def new_hook_registration_def list_ex_iff)

lemma remove_first_hook:
  "map hr_hook (snd (remove_first_hook h rs)) = remove1 h (map hr_hook rs)"
  "fst (remove_first_hook h rs) \<longleftrightarrow> h \<in> set (map hr_hook rs)"
  "set (snd (remove_first_hook h rs)) \<subseteq> set rs"
  by (induction rs) (auto split: prod.splits)

lemma hooks_at_unregister:
  "hooks_at (snd (unregister_hook p h l)) q = (if q = p then remove1 h (hooks_at l p) else hooks_at l q)"
  "fst (unregister_hook p h l) \<longleftrightarrow> h \<in> set (hooks_at l p)"
  by (simp_all add: hooks_at_def unregister_hook_def remove_first_hook case_prod_unfold Let_def)

lemma normalized_owner_ok: "hook_owner_ok (normalize_hook_owner owner h)"
proof -
  have "hook_owner_ok ''external''" by code_simp
  then show ?thesis by (simp add: normalize_hook_owner_def Let_def)
qed

datatype registry_op = Register hook_point hook "string option" | Unregister hook_point hook | ResetAll

fun registry_step :: "hook_registry \<Rightarrow> registry_op \<Rightarrow> hook_registry" where
  "registry_step l (Register p h owner) = register_hook p h owner l"
| "registry_step l (Unregister p h) = snd (unregister_hook p h l)"
| "registry_step l ResetAll = reset_hooks l"

definition registry_ok :: "hook_registry \<Rightarrow> bool" where
  "registry_ok l = (\<forall>p. distinct (hooks_at l p) \<and> list_all (\<lambda>r. hook_owner_ok (hr_owner r)) (l p))"

lemma registry_step_ok: "registry_ok l \<Longrightarrow> registry_ok (registry_step l x)"
proof (cases x)
  case (Register p h owner)
  assume "registry_ok l"
  then show ?thesis
    unfolding Register registry_step.simps registry_ok_def hooks_at_register
    by (auto simp: register_hook_def new_hook_registration_def normalized_owner_ok)
next
  case (Unregister p h)
  assume ok: "registry_ok l"
  have "list_all (\<lambda>r. hook_owner_ok (hr_owner r)) (snd (unregister_hook p h l) q)" for q
    using ok remove_first_hook(3) [of h "l p"]
    by (auto simp: registry_ok_def unregister_hook_def list_all_iff case_prod_unfold Let_def)
  then show ?thesis
    using ok unfolding Unregister registry_step.simps registry_ok_def hooks_at_unregister
    by (auto intro: distinct_remove1)
next
  case ResetAll
  then show ?thesis by (simp add: registry_ok_def reset_hooks_def hooks_at_def)
qed

lemma registry_run_ok: "registry_ok l \<Longrightarrow> registry_ok (foldl registry_step l ops)"
  by (induction ops arbitrary: l) (auto intro: registry_step_ok)

section \<open>Lemmas on firing\<close>

lemma fire_hooks_spec:
  "case fire_hooks run p rs data s of (t, calls, failures) \<Rightarrow>
     map hc_hook calls = take (length calls) (map hr_hook rs)
     \<and> list_all (\<lambda>c. hc_outcome c \<noteq> CancelledHook) (butlast calls)
     \<and> (length calls = length rs \<or> (calls \<noteq> [] \<and> hc_outcome (last calls) = CancelledHook))
     \<and> failures = map (\<lambda>(r, c). (hr_owner r, hook_point_value p))
         (filter (\<lambda>(r, c). hc_outcome c = Raised) (zip rs calls))"
proof (induction rs arbitrary: data s)
  case (Cons r rs)
  obtain outcome data' s' where run: "run (hr_hook r) data s = (outcome, data', s')" by (metis prod_cases3)
  obtain t calls failures where rest: "fire_hooks run p rs data' s' = (t, calls, failures)" by (metis prod_cases3)
  show ?case using Cons.IH [of data' s'] by (auto simp: run rest Let_def split: if_splits)
qed simp

text \<open>The contract hooks are asked to keep: the payload is read-only.\<close>

locale read_only_hooks =
  fixes run :: "hook \<Rightarrow> pydict \<Rightarrow> 's \<Rightarrow> hook_outcome \<times> pydict \<times> 's"
  assumes payload_kept: "fst (snd (run h d s)) = d"
begin

lemma same_payload:
  "list_all (\<lambda>c. hc_payload c = data) (fst (snd (fire_hooks run p rs data s)))"
proof (induction rs arbitrary: s)
  case (Cons r rs)
  obtain outcome data' s' where call: "run (hr_hook r) data s = (outcome, data', s')" by (metis prod_cases3)
  then have "data' = data" using payload_kept [of "hr_hook r" data s] by simp
  then show ?case using Cons.IH [of s'] call by (auto simp: Let_def case_prod_unfold)
qed simp

lemma fired_payload:
  "list_all (\<lambda>c. hc_payload c = sanitize_hook_payload loads digest payload)
     (fst (snd (fire run loads digest l p payload s)))"
  using same_payload by (simp add: fire_def)

end

interpretation default_hooks: read_only_hooks run_default_hook
  by unfold_locales (simp add: run_default_hook_def)

lemma hook_payload_safe: "log_safe (PDict (sanitize_hook_payload loads digest payload))"
  using sanitize_log_safe_all(1) [of loads digest 0 "PDict (case payload of None \<Rightarrow> [] | Some d \<Rightarrow> d)"]
  by (auto simp: sanitize_hook_payload_def log_safe_empty simp del: log_safe.simps(1) split: pyval.splits)

section \<open>Properties\<close>

text \<open>After any sequence of registrations, removals and resets, no hook is registered twice at a point and
  every owner is a bounded label; registering adds a new hook at the end and nothing else, removing
  takes out that hook alone and says whether it was there.\<close>

theorem hook_registry_invariant:
  "(let l = foldl registry_step new_lifecycle ops
    in distinct (hooks_at l p) \<and> list_all (\<lambda>r. hook_owner_ok (hr_owner r)) (l p))
   \<and> hooks_at (register_hook p h owner l) q
       = (if q = p \<and> h \<notin> set (hooks_at l p) then hooks_at l p @ [h] else hooks_at l q)
   \<and> hooks_at (snd (unregister_hook p h l)) q = (if q = p then remove1 h (hooks_at l p) else hooks_at l q)
   \<and> fst (unregister_hook p h l) = (h \<in> set (hooks_at l p))"
proof -
  have "registry_ok (foldl registry_step new_lifecycle ops)"
    by (rule registry_run_ok) (simp add: registry_ok_def new_lifecycle_def hooks_at_def)
  then show ?thesis
    by (simp only: registry_ok_def Let_def hooks_at_register hooks_at_unregister)
qed

text \<open>Property C35: whatever the hooks do, and whatever they do to the registry while they run, firing a point calls the
  hooks that were registered there, in their order, each once; an exception of one is counted
  under its owner and does not keep the next from running; only a cancellation ends the firing early.\<close>

theorem fire_isolates_failures:
  "case fire run loads digest l p payload s of (t, calls, failures) \<Rightarrow>
     map hc_hook calls = take (length calls) (hooks_at l p)
     \<and> (if list_ex (\<lambda>c. hc_outcome c = CancelledHook) calls
        then hc_outcome (last calls) = CancelledHook
          \<and> list_all (\<lambda>c. hc_outcome c \<noteq> CancelledHook) (butlast calls)
        else map hc_hook calls = hooks_at l p)
     \<and> failures = map (\<lambda>(r, c). (hr_owner r, hook_point_value p))
         (filter (\<lambda>(r, c). hc_outcome c = Raised) (zip (l p) calls))"
proof -
  obtain t calls failures where run: "fire run loads digest l p payload s = (t, calls, failures)" by (metis prod_cases3)
  then have spec: "map hc_hook calls = take (length calls) (hooks_at l p)
      \<and> list_all (\<lambda>c. hc_outcome c \<noteq> CancelledHook) (butlast calls)
      \<and> (length calls = length (l p) \<or> (calls \<noteq> [] \<and> hc_outcome (last calls) = CancelledHook))
      \<and> failures = map (\<lambda>(r, c). (hr_owner r, hook_point_value p))
          (filter (\<lambda>(r, c). hc_outcome c = Raised) (zip (l p) calls))"
    using fire_hooks_spec [where run = run and p = p and rs = "l p"
      and data = "sanitize_hook_payload loads digest payload" and s = s]
    by (auto simp: fire_def hooks_at_def split: if_splits)
  have early: "hc_outcome (last calls) = CancelledHook" if ex: "list_ex (\<lambda>c. hc_outcome c = CancelledHook) calls"
  proof -
    obtain c where c: "c \<in> set calls" "hc_outcome c = CancelledHook" using ex unfolding list_ex_iff by blast
    then have "calls \<noteq> []" by auto
    then have "c \<in> set (butlast calls) \<or> c = last calls"
      using c(1) append_butlast_last_id [of calls] by (metis Un_iff empty_iff empty_set insert_iff list.simps(15) set_append)
    then show ?thesis using spec c(2) by (auto simp: list_all_iff)
  qed
  have full: "map hc_hook calls = hooks_at l p" if "\<not> list_ex (\<lambda>c. hc_outcome c = CancelledHook) calls"
  proof -
    have "length calls = length (l p)" using spec that by (auto simp: list_ex_iff)
    then show ?thesis using spec by (simp add: hooks_at_def)
  qed
  show ?thesis using run spec early full by auto
qed

text \<open>Installing the default hooks is idempotent; with them, the end of a run is counted exactly once under a
  bounded status, and what the hooks are given is log-safe whatever the payload.\<close>

theorem default_hooks_count_runs:
  "let (regs, l) = register_default_hooks new_lifecycle;
       (t, calls, failures) = fire run_default_hook loads digest l OnRunEnd payload runs
   in register_default_hooks l = (regs, l) \<and> map hr_hook regs = map snd default_runtime_hooks
      \<and> t = runs @ [hook_run_labels OnRunEnd (sanitize_hook_payload loads digest payload)]
      \<and> failures = [] \<and> list_all (\<lambda>c. log_safe (PDict (hc_payload c))) calls \<and> length calls = 1"
proof -
  define l where "l = snd (register_default_hooks new_lifecycle)"
  define regs where "regs = fst (register_default_hooks new_lifecycle)"
  have owner: "normalize_hook_owner (Some default_hook_owner) run_end_hook = default_hook_owner"
    "normalize_hook_owner (Some default_hook_owner) run_error_hook = default_hook_owner" by code_simp+
  have distinct: "run_end_hook \<noteq> run_error_hook" by (simp add: run_end_hook_def run_error_hook_def)
  let ?e = "new_hook_registration run_end_hook (Some default_hook_owner)"
  let ?x = "new_hook_registration run_error_hook (Some default_hook_owner)"
  have l: "l = (\<lambda>p. [])(OnRunEnd := [?e], OnRunError := [?x])" "regs = [?e, ?x]"
    unfolding l_def regs_def
    by (simp_all add: register_default_hooks_def default_runtime_hooks_def register_hook_def new_lifecycle_def Let_def
        new_hook_registration_def owner)
  have again: "register_default_hooks l = (regs, l)"
    unfolding l by (simp add: register_default_hooks_def default_runtime_hooks_def register_hook_def Let_def
        new_hook_registration_def owner)
  have fired: "fire run_default_hook loads digest l OnRunEnd payload runs
      = (runs @ [hook_run_labels OnRunEnd (sanitize_hook_payload loads digest payload)],
         [\<lparr> hc_hook = run_end_hook, hc_payload = sanitize_hook_payload loads digest payload, hc_outcome = Returned \<rparr>], [])"
    unfolding l by (simp add: fire_def run_default_hook_def new_hook_registration_def)
  have "register_default_hooks new_lifecycle = (regs, l)" by (simp add: l_def regs_def)
  then show ?thesis
    using again fired hook_payload_safe [of loads digest payload]
    by (simp add: l(2) new_hook_registration_def default_runtime_hooks_def del: log_safe.simps)
qed

lemma sum_count_in: "sum_list (map snd (count_in k cs)) = sum_list (map snd cs) + 1"
  by (induction cs) auto

lemma sum_counts: "sum_list (map snd (foldl (\<lambda>cs (p, o1, n). count_in o1 cs) cs xs)) = sum_list (map snd cs) + length xs"
  by (induction xs arbitrary: cs) (auto simp: sum_count_in)

text \<open>The report adds up: the number of registrations is the sum of the counts per point and the sum of the
  counts per owner.\<close>

theorem lifecycle_report_adds_up:
  "rr_registration_count (lifecycle_report l) = sum_list (map snd (rr_point_counts (lifecycle_report l)))
   \<and> rr_registration_count (lifecycle_report l) = sum_list (map snd (rr_owner_counts (lifecycle_report l)))"
proof -
  have sorted: "sum_list (map snd (most_common cs)) = sum_list (map snd cs)" for cs
  proof -
    have "mset (map snd (most_common cs)) = mset (map snd cs)" unfolding most_common_def mset_map by simp
    then show ?thesis by (metis sum_mset_sum_list)
  qed
  show ?thesis
    by (simp add: lifecycle_report_def Let_def sorted sum_counts length_concat comp_def)
qed

end
