(* ===== verification/Native_Dispatch.thy ===== *)
theory Native_Dispatch
  imports Session_Wake Runtime_Lifecycle
begin

text \<open>
  \<open>app/engine/runtime/native_dispatch.py\<close> and \<open>native_stream_dispatch.py\<close>: a chat turn and a streamed turn,
  each run between its events in the session log, its lifecycle hooks and its metrics. The log is the
  \<open>SessionEventLog\<close> interface: an append either gives the event or raises. The chat service and the inner
  generator are arguments that act on the whole world; a hook acts on the rest of it, not on the log or the
  registry. Tracing spans change nothing here.
\<close>

section \<open>The world of a run\<close>

type_synonym metric_labels = "(string \<times> string) list"

datatype metric = Counted string metric_labels nat | Measured string metric_labels int

text \<open>The log, the state that hooks act on, the hook points fired and the metrics recorded, in their order.\<close>

record ('l, 's) turn_world =
  rw_log :: 'l
  rw_rest :: 's
  rw_fired :: "hook_point list"
  rw_metrics :: "metric list"

text \<open>Why a coroutine stops before its end: an exception with its type and its text, or a cancellation, which
  \<open>except Exception\<close> does not catch.\<close>

datatype stop = Raises string string | Cancelled

type_synonym ('w, 'a) run = "'w \<Rightarrow> (stop + 'a) \<times> 'w"

definition and_then :: "('w, 'a) run \<Rightarrow> ('a \<Rightarrow> ('w, 'b) run) \<Rightarrow> ('w, 'b) run" where
  "and_then m f w = (case m w of (Inl e, w1) \<Rightarrow> (Inl e, w1) | (Inr a, w1) \<Rightarrow> f a w1)"

definition giving :: "'a \<Rightarrow> ('w, 'a) run" where
  "giving a w = (Inr a, w)"

text \<open>What the runs take from their surroundings.\<close>

record ('l, 's) run_env =
  re_ports :: log_ports
  re_hooks :: hook_registry
  re_run_hook :: "hook \<Rightarrow> pydict \<Rightarrow> 's \<Rightarrow> hook_outcome \<times> pydict \<times> 's"
  re_append :: "append_request \<Rightarrow> 'l \<Rightarrow> (stop + session_event) \<times> 'l"

definition record_metrics :: "metric list \<Rightarrow> (('l, 's) turn_world, unit) run" where
  "record_metrics ms w = (Inr (), w\<lparr>rw_metrics := rw_metrics w @ ms\<rparr>)"

definition fire_at :: "('l, 's) run_env \<Rightarrow> hook_point \<Rightarrow> pydict \<Rightarrow> (('l, 's) turn_world, unit) run" where
  "fire_at env p payload w =
     (let (s, calls, failures) = fire (re_run_hook env) (lp_loads (re_ports env)) (lp_digest (re_ports env))
            (re_hooks env) p (Some payload) (rw_rest w);
          w1 = w\<lparr>rw_rest := s, rw_fired := rw_fired w @ [p],
            rw_metrics := rw_metrics w @ map (\<lambda>(owner, point).
              Counted ''runtime.lifecycle.hook_failures'' [(''owner'', owner), (''point'', point)] 1) failures\<rparr>
      in (if list_ex (\<lambda>c. hc_outcome c = CancelledHook) calls then Inl Cancelled else Inr (), w1))"

definition append_to_log :: "('l, 's) run_env \<Rightarrow> append_request \<Rightarrow> (('l, 's) turn_world, session_event) run" where
  "append_to_log env q w = (let (r, l) = re_append env q (rw_log w) in (r, w\<lparr>rw_log := l\<rparr>))"

section \<open>One chat turn\<close>

record chat_request =
  dq_session_id :: "string option"
  dq_user_id :: string
  dq_organization_id :: "string option"
  dq_message :: string
  dq_role :: string
  dq_domain_id :: "string option"

record chat_response =
  dr_message :: string
  dr_agent_type :: string
  dr_metadata :: pyval

definition serialise_tool_calls :: "log_ports \<Rightarrow> pyval \<Rightarrow> pydict list" where
  "serialise_tool_calls p metadata =
     (let shaped = (\<lambda>k xs. map (\<lambda>c. safe_payload_dict p (case c of PDict d \<Rightarrow> PDict d | _ \<Rightarrow> PDict [(k, PStr (py_str c))])) xs)
      in case metadata of
        PDict d \<Rightarrow> (case payload_field d ''tool_calls'' of
            PList (x # xs) \<Rightarrow> shaped ''raw'' (x # xs)
          | _ \<Rightarrow> (case payload_field d ''tools_used'' of
              PList (x # xs) \<Rightarrow> shaped ''name'' (x # xs)
            | _ \<Rightarrow> []))
      | _ \<Rightarrow> [])"

definition opt_str :: "string option \<Rightarrow> pyval" where
  "opt_str s = (case s of None \<Rightarrow> PNone | Some t \<Rightarrow> PStr t)"

definition run_session_id :: "string \<Rightarrow> chat_request \<Rightarrow> string" where
  "run_session_id lane q = str_or (or_default (dq_session_id q) []) (lane @ dq_user_id q)"

definition error_text :: "string \<Rightarrow> string \<Rightarrow> string" where
  "error_text kind message = redact_default (kind @ '': '' @ message)"

definition finalization_metric :: "string \<Rightarrow> string \<Rightarrow> string \<Rightarrow> metric" where
  "finalization_metric stage status run_status = Counted ''runtime.native_dispatch.finalization''
     [(''stage'', stage), (''status'', status), (''run_status'', run_status), (''transport'', ''chat'')] 1"

text \<open>An append of the finalization: it is counted, and its exception goes on.\<close>

definition append_finalization ::
    "('l, 's) run_env \<Rightarrow> append_request \<Rightarrow> string \<Rightarrow> string \<Rightarrow> (('l, 's) turn_world, unit) run" where
  "append_finalization env q stage run_status w =
     (case append_to_log env q w of
        (Inl (Raises k t), w1) \<Rightarrow>
          (Inl (Raises k t), snd (record_metrics [finalization_metric stage ''error'' run_status] w1))
      | (Inl Cancelled, w1) \<Rightarrow> (Inl Cancelled, w1)
      | (Inr e, w1) \<Rightarrow> record_metrics [finalization_metric stage ''success'' run_status] w1)"

definition user_message_event :: "string \<Rightarrow> chat_request \<Rightarrow> pydict \<Rightarrow> append_request" where
  "user_message_event session_id q extra =
     \<lparr> er_session_id = session_id, er_event_type = ''user_message'',
       er_payload = [(''text'', PStr (dq_message q)), (''user_id'', PStr (dq_user_id q)), (''role'', PStr (dq_role q)),
         (''domain_id'', opt_str (dq_domain_id q))] @ extra,
       er_org_id = dq_organization_id q \<rparr>"

definition assistant_event :: "string \<Rightarrow> string option \<Rightarrow> pydict \<Rightarrow> append_request" where
  "assistant_event session_id org payload = \<lparr> er_session_id = session_id, er_event_type = ''assistant_message'',
     er_payload = payload, er_org_id = org \<rparr>"

definition tool_result_event :: "string \<Rightarrow> string option \<Rightarrow> pydict \<Rightarrow> append_request" where
  "tool_result_event session_id org call = \<lparr> er_session_id = session_id, er_event_type = ''tool_result'',
     er_payload = [(''tool_call_id'', PStr (str_or_word (payload_field call ''id'')
         (str_or_word (payload_field call ''name'') ''unknown''))),
       (''name'', payload_field call ''name''),
       (''content'', PStr (py_str (or_default (dict_get call ''result'') (or_default (dict_get call ''description'') (PStr [])))))],
     er_org_id = org \<rparr>"

fun append_tool_results ::
    "('l, 's) run_env \<Rightarrow> string \<Rightarrow> string option \<Rightarrow> pydict list \<Rightarrow> (('l, 's) turn_world, unit) run" where
  "append_tool_results env session_id org [] = giving ()"
| "append_tool_results env session_id org (c # cs) =
     and_then (append_finalization env (tool_result_event session_id org c) ''tool_result_append'' ''success'')
       (\<lambda>_. append_tool_results env session_id org cs)"

definition start_payload :: "string \<Rightarrow> chat_request \<Rightarrow> pydict" where
  "start_payload session_id q =
     [(''session_id'', PStr session_id), (''org_id'', opt_str (dq_organization_id q)),
      (''user_id'', PStr (dq_user_id q)), (''user_message'', PStr (dq_message q))]"

text \<open>What comes before the inner call: the hooks of the start, and the message in the log.\<close>

definition open_run ::
    "('l, 's) run_env \<Rightarrow> string \<Rightarrow> chat_request \<Rightarrow> pydict \<Rightarrow> (('l, 's) turn_world, session_event) run" where
  "open_run env session_id q extra =
     and_then (fire_at env OnRunStart (start_payload session_id q @ extra))
       (\<lambda>_. append_to_log env (user_message_event session_id q extra))"

definition closing_payload :: "string \<Rightarrow> chat_request \<Rightarrow> int \<Rightarrow> pydict \<Rightarrow> pydict" where
  "closing_payload session_id q duration extra =
     [(''session_id'', PStr session_id), (''org_id'', opt_str (dq_organization_id q)),
      (''duration_ms'', PInt duration)] @ extra"

definition run_metrics :: "string \<Rightarrow> string \<Rightarrow> int \<Rightarrow> metric list" where
  "run_metrics name status duration =
     [Counted (name @ ''.runs'') [(''status'', status)] 1,
      Measured (name @ ''.duration_ms'') [(''status'', status)] duration]"

definition finish_failed_chat ::
    "('l, 's) run_env \<Rightarrow> chat_request \<Rightarrow> int \<Rightarrow> string \<Rightarrow> string \<Rightarrow> (('l, 's) turn_world, chat_response) run" where
  "finish_failed_chat env q duration kind message =
     (let i = run_session_id ''native::'' q; text = error_text kind message in
      and_then (append_finalization env (assistant_event i (dq_organization_id q)
          [(''text'', PStr []), (''status'', PStr ''error''), (''error'', PStr text), (''duration_ms'', PInt duration)])
          ''assistant_message_append'' ''error'')
      (\<lambda>_. and_then (record_metrics (run_metrics ''runtime.native_dispatch'' ''error'' duration))
      (\<lambda>_. and_then (fire_at env OnRunError (closing_payload i q duration [(''error'', PStr text)]))
      (\<lambda>_. and_then (fire_at env OnRunEnd (closing_payload i q duration [(''status'', PStr ''error'')]))
      (\<lambda>_ w. (Inl (Raises kind message), w))))))"

definition finish_chat ::
    "('l, 's) run_env \<Rightarrow> chat_request \<Rightarrow> int \<Rightarrow> chat_response \<Rightarrow> (('l, 's) turn_world, chat_response) run" where
  "finish_chat env q duration r =
     (let i = run_session_id ''native::'' q; calls = serialise_tool_calls (re_ports env) (dr_metadata r) in
      and_then (append_finalization env (assistant_event i (dq_organization_id q)
          [(''text'', PStr (dr_message r)), (''status'', PStr ''success''), (''tool_calls'', PList (map PDict calls)),
           (''duration_ms'', PInt duration), (''agent_type'', PStr (dr_agent_type r))])
          ''assistant_message_append'' ''success'')
      (\<lambda>_. and_then (append_tool_results env i (dq_organization_id q) calls)
      (\<lambda>_. and_then (record_metrics (run_metrics ''runtime.native_dispatch'' ''success'' duration))
      (\<lambda>_. and_then (fire_at env OnRunEnd (closing_payload i q duration
          [(''status'', PStr ''success''), (''tool_call_count'', PInt (int (length calls)))]))
      (\<lambda>_. giving r)))))"

definition native_chat_dispatch ::
    "('l, 's) run_env \<Rightarrow> chat_request \<Rightarrow> (('l, 's) turn_world, chat_response) run \<Rightarrow> int \<Rightarrow>
     (('l, 's) turn_world, chat_response) run" where
  "native_chat_dispatch env q inner duration =
     and_then (open_run env (run_session_id ''native::'' q) q [])
       (\<lambda>_ w. case inner w of
         (Inr r, w1) \<Rightarrow> finish_chat env q duration r w1
       | (Inl (Raises kind message), w1) \<Rightarrow> finish_failed_chat env q duration kind message w1
       | (Inl Cancelled, w1) \<Rightarrow> (Inl Cancelled, w1))"

section \<open>A streamed turn\<close>

text \<open>Server-sent events: \<open>re\<close> searches a line that begins with the field; \<open>\s*\<close> may run over line ends.\<close>

fun line_starts :: "string \<Rightarrow> string list" where
  "line_starts [] = []"
| "line_starts (c # cs) = (if c = CHR 0x0A then cs # line_starts cs else line_starts cs)"

definition field_rest :: "string \<Rightarrow> string \<Rightarrow> string option" where
  "field_rest name chunk =
     map_option (\<lambda>s. dropWhile py_isspace (drop (length name) s))
       (find (\<lambda>s. py_startswith name s \<and> dropWhile py_isspace (drop (length name) s) \<noteq> []) (chunk # line_starts chunk))"

definition sse_event :: "string \<Rightarrow> string option" where
  "sse_event chunk = map_option (takeWhile (\<lambda>c. \<not> py_isspace c)) (field_rest ''event:'' chunk)"

definition sse_body :: "log_ports \<Rightarrow> string \<Rightarrow> pydict option" where
  "sse_body p chunk =
     (case field_rest ''data:'' chunk of
        None \<Rightarrow> None
      | Some rest \<Rightarrow>
          let raw = py_strip (takeWhile (\<lambda>c. c \<noteq> CHR 0x0A) rest) in
          if raw = [] then None
          else (case lp_loads p raw of Some (PDict d) \<Rightarrow> Some d | _ \<Rightarrow> None))"

definition extract_answer_token :: "log_ports \<Rightarrow> string \<Rightarrow> string option" where
  "extract_answer_token p chunk =
     (if sse_event chunk = Some ''answer''
      then (case sse_body p chunk of
          None \<Rightarrow> None
        | Some body \<Rightarrow> (case payload_field body ''content'' of PStr (c # cs) \<Rightarrow> Some (c # cs) | _ \<Rightarrow> None))
      else None)"

definition extract_runtime_flow_ledger :: "log_ports \<Rightarrow> string \<Rightarrow> pydict option" where
  "extract_runtime_flow_ledger p chunk =
     (if sse_event chunk \<in> {Some ''metadata'', Some ''done''}
      then (case sse_body p chunk of
          None \<Rightarrow> None
        | Some body \<Rightarrow> (case payload_field body ''runtime_flow_ledger'' of PDict d \<Rightarrow> Some d | _ \<Rightarrow> None))
      else None)"

definition stream_finalization_metric :: "string \<Rightarrow> string \<Rightarrow> string \<Rightarrow> metric" where
  "stream_finalization_metric stage status stream_status = Counted ''runtime.native_stream_dispatch.finalization''
     [(''stage'', stage), (''status'', status), (''stream_status'', stream_status), (''transport'', ''stream/v3'')] 1"

text \<open>An append after the stream: its exception is swallowed and counted.\<close>

definition append_after_stream ::
    "('l, 's) run_env \<Rightarrow> append_request \<Rightarrow> string \<Rightarrow> string \<Rightarrow> (('l, 's) turn_world, unit) run" where
  "append_after_stream env q stage stream_status w =
     (case append_to_log env q w of
        (Inl (Raises k t), w1) \<Rightarrow> record_metrics [stream_finalization_metric stage ''error'' stream_status] w1
      | (Inl Cancelled, w1) \<Rightarrow> (Inl Cancelled, w1)
      | (Inr e, w1) \<Rightarrow> record_metrics [stream_finalization_metric stage ''success'' stream_status] w1)"

text \<open>The report of the flow doctor on a ledger is an argument; \<open>None\<close> is an exception, which is swallowed.\<close>

definition flow_ledger_metrics :: "(pydict \<Rightarrow> pydict option) \<Rightarrow> pydict \<Rightarrow> string \<Rightarrow> metric list" where
  "flow_ledger_metrics doctor ledger status =
     (case doctor ledger of
        None \<Rightarrow> []
      | Some report \<Rightarrow>
          Counted ''runtime.runtime_flow_ledger.events''
            [(''status'', status), (''doctor_status'', str_or_word (payload_field report ''status'') ''unknown''),
             (''transport'', ''stream/v3'')] 1
          # (case payload_field report ''alerts'' of
              PList xs \<Rightarrow> List.map_filter (\<lambda>x. case x of
                PDict alert \<Rightarrow> Some (Counted ''runtime.runtime_flow_ledger.alerts''
                  [(''code'', take 96 (str_or_word (payload_field alert ''code'') ''unknown'')),
                   (''severity'', take 32 (str_or_word (payload_field alert ''severity'') ''warning'')),
                   (''status'', status), (''transport'', ''stream/v3'')]
                  (case payload_field alert ''count'' of PInt k \<Rightarrow> if k > 0 then nat k else 1 | _ \<Rightarrow> 1))
              | _ \<Rightarrow> None) xs
            | _ \<Rightarrow> []))"

definition append_flow_ledger ::
    "('l, 's) run_env \<Rightarrow> (pydict \<Rightarrow> pydict option) \<Rightarrow> chat_request \<Rightarrow> string \<Rightarrow> int \<Rightarrow> pydict option \<Rightarrow>
     (('l, 's) turn_world, unit) run" where
  "append_flow_ledger env doctor q status duration ledger =
     (case ledger of
        None \<Rightarrow> giving ()
      | Some d \<Rightarrow> and_then (record_metrics (flow_ledger_metrics doctor d status))
          (\<lambda>_. append_after_stream env
            \<lparr> er_session_id = run_session_id ''native-stream::'' q, er_event_type = ''runtime_flow_ledger'',
              er_payload = [(''runtime_flow_ledger'', PDict d), (''status'', PStr status),
                (''duration_ms'', PInt duration), (''transport'', PStr ''stream/v3'')],
              er_org_id = dq_organization_id q \<rparr> ''runtime_flow_ledger_append'' status))"

text \<open>How the inner generator ends. \<open>Abandoned\<close> is a cancellation, or a consumer that closes the stream.\<close>

datatype stream_end = Exhausted | Failed string string | Abandoned

text \<open>A step of the inner generator is a chunk together with what happens to the world before it arrives. The
  consumer takes chunks up to \<open>left\<close>, when it is a number, and then closes the stream.\<close>

record 'w pumped =
  pu_yielded :: "string list"
  pu_tokens :: "string list"
  pu_ledger :: "pydict option"
  pu_end :: stream_end
  pu_world :: 'w

fun pump ::
    "log_ports \<Rightarrow> nat option \<Rightarrow> (string \<times> ('w \<Rightarrow> 'w)) list \<Rightarrow> stream_end \<times> ('w \<Rightarrow> 'w) \<Rightarrow> 'w \<Rightarrow> 'w pumped" where
  "pump p left [] (e, f) w = \<lparr> pu_yielded = [], pu_tokens = [], pu_ledger = None, pu_end = e, pu_world = f w \<rparr>"
| "pump p left ((chunk, f) # rest) final w =
     (let tokens = (case extract_answer_token p chunk of None \<Rightarrow> [] | Some t \<Rightarrow> [t]);
          ledger = extract_runtime_flow_ledger p chunk;
          later = (if left = Some 1
            then \<lparr> pu_yielded = [], pu_tokens = [], pu_ledger = None, pu_end = Abandoned, pu_world = f w \<rparr>
            else pump p (map_option (\<lambda>n. n - 1) left) rest final (f w))
      in later\<lparr>pu_yielded := chunk # pu_yielded later, pu_tokens := tokens @ pu_tokens later,
           pu_ledger := (case pu_ledger later of None \<Rightarrow> ledger | Some d \<Rightarrow> Some d)\<rparr>)"

definition stream_payload :: "pydict" where
  "stream_payload = [(''transport'', PStr ''stream/v3'')]"

definition finish_stream ::
    "('l, 's) run_env \<Rightarrow> (pydict \<Rightarrow> pydict option) \<Rightarrow> chat_request \<Rightarrow> int \<Rightarrow> string \<Rightarrow> pydict option \<Rightarrow>
     (('l, 's) turn_world, unit) run" where
  "finish_stream env doctor q duration text ledger =
     (let i = run_session_id ''native-stream::'' q in
      and_then (append_after_stream env (assistant_event i (dq_organization_id q)
          ([(''text'', PStr text), (''status'', PStr ''success''), (''duration_ms'', PInt duration)] @ stream_payload))
          ''assistant_message_append'' ''success'')
      (\<lambda>_. and_then (record_metrics (run_metrics ''runtime.native_stream_dispatch'' ''success'' duration))
      (\<lambda>_. and_then (fire_at env OnRunEnd (closing_payload i q duration ((''status'', PStr ''success'') # stream_payload)))
      (\<lambda>_. append_flow_ledger env doctor q ''success'' duration ledger))))"

definition finish_failed_stream ::
    "('l, 's) run_env \<Rightarrow> (pydict \<Rightarrow> pydict option) \<Rightarrow> chat_request \<Rightarrow> int \<Rightarrow> string \<Rightarrow> pydict option \<Rightarrow> string \<Rightarrow>
     (('l, 's) turn_world, unit) run" where
  "finish_failed_stream env doctor q duration text ledger error =
     (let i = run_session_id ''native-stream::'' q in
      and_then (append_after_stream env (assistant_event i (dq_organization_id q)
          ([(''text'', PStr text), (''status'', PStr ''error''), (''error'', PStr error),
            (''duration_ms'', PInt duration)] @ stream_payload))
          ''assistant_message_append'' ''error'')
      (\<lambda>_. and_then (record_metrics (run_metrics ''runtime.native_stream_dispatch'' ''error'' duration))
      (\<lambda>_. and_then (fire_at env OnRunError (closing_payload i q duration ((''error'', PStr error) # stream_payload)))
      (\<lambda>_. and_then (fire_at env OnRunEnd (closing_payload i q duration ((''status'', PStr ''error'') # stream_payload)))
      (\<lambda>_. and_then (append_flow_ledger env doctor q ''error'' duration ledger)
      (\<lambda>_ w. (Inl (Raises ''RuntimeError'' error), w)))))))"

text \<open>The chunks the consumer gets, how the stream ends for it, and the world. A consumer that closes before it
  takes a chunk never starts the generator.\<close>

definition native_stream_dispatch ::
    "('l, 's) run_env \<Rightarrow> (pydict \<Rightarrow> pydict option) \<Rightarrow> chat_request \<Rightarrow>
     (string \<times> (('l, 's) turn_world \<Rightarrow> ('l, 's) turn_world)) list \<Rightarrow>
     stream_end \<times> (('l, 's) turn_world \<Rightarrow> ('l, 's) turn_world) \<Rightarrow> int \<Rightarrow> nat option \<Rightarrow> ('l, 's) turn_world \<Rightarrow>
     string list \<times> (stop + unit) \<times> ('l, 's) turn_world" where
  "native_stream_dispatch env doctor q steps final duration left w =
     (if left = Some 0 then ([], Inr (), w)
      else case open_run env (run_session_id ''native-stream::'' q) q stream_payload w of
          (Inl e, w1) \<Rightarrow> ([], Inl e, w1)
        | (Inr _, w1) \<Rightarrow>
            let u = pump (re_ports env) left steps final w1; text = concat (pu_tokens u)
            in (pu_yielded u, case pu_end u of
                Exhausted \<Rightarrow> finish_stream env doctor q duration text (pu_ledger u) (pu_world u)
              | Failed kind message \<Rightarrow> finish_failed_stream env doctor q duration text (pu_ledger u)
                  (error_text kind message) (pu_world u)
              | Abandoned \<Rightarrow> (Inl Cancelled, pu_world u)))"


section \<open>Lemmas on runs\<close>

lemma and_then_Inr: "m w = (Inr a, w1) \<Longrightarrow> and_then m f w = f a w1"
  by (simp add: and_then_def)

lemma and_then_Inl: "m w = (Inl e, w1) \<Longrightarrow> and_then m f w = (Inl e, w1)"
  by (simp add: and_then_def)

lemma record_metrics_run: "record_metrics ms w = (Inr (), w\<lparr>rw_metrics := rw_metrics w @ ms\<rparr>)"
  by (simp add: record_metrics_def)

text \<open>Hooks that are not cancelled: a firing goes through and changes neither the log nor the metrics of the run.\<close>

definition hooks_finish :: "('l, 's) run_env \<Rightarrow> bool" where
  "hooks_finish env \<longleftrightarrow> (\<forall>h d s. fst (re_run_hook env h d s) \<noteq> CancelledHook)"

lemma fire_hooks_finish:
  "(\<And>h d s. fst (run h d s) \<noteq> CancelledHook) \<Longrightarrow>
     \<not> list_ex (\<lambda>c. hc_outcome c = CancelledHook) (fst (snd (fire_hooks run p rs data s)))"
proof (induction rs arbitrary: data s)
  case (Cons r rs)
  show ?case using Cons.IH [OF Cons.prems] Cons.prems [of "hr_hook r" data s]
    by (simp add: Let_def case_prod_unfold)
qed simp

lemma fire_at_run:
  assumes "hooks_finish env"
  obtains w1 where "fire_at env p payload w = (Inr (), w1)" "rw_log w1 = rw_log w" "rw_fired w1 = rw_fired w @ [p]"
proof -
  have "\<not> list_ex (\<lambda>c. hc_outcome c = CancelledHook)
      (fst (snd (fire (re_run_hook env) (lp_loads (re_ports env)) (lp_digest (re_ports env)) (re_hooks env) p
         (Some payload) (rw_rest w))))"
    using assms unfolding fire_def hooks_finish_def by (simp add: fire_hooks_finish)
  then show thesis by (intro that [of "snd (fire_at env p payload w)"]) (simp_all add: fire_at_def Let_def case_prod_unfold)
qed

section \<open>A chat turn on the in-memory log\<close>

definition memory_port ::
    "log_ports \<Rightarrow> (memory_log \<Rightarrow> int) \<Rightarrow> append_request \<Rightarrow> memory_log \<Rightarrow> (stop + session_event) \<times> memory_log" where
  "memory_port p clock q l = (let (e, l1) = memory_append p (clock l) q l in (Inr e, l1))"

abbreviation logged :: "(memory_log, 's) turn_world \<Rightarrow> string \<Rightarrow> session_event list" where
  "logged w i \<equiv> memory_get_events (rw_log w) i None None"

text \<open>From one world to the next the session gets these events, and no other session changes.\<close>

definition grows :: "string \<Rightarrow> session_event list \<Rightarrow> (memory_log, 's) turn_world \<Rightarrow> (memory_log, 's) turn_world \<Rightarrow> bool" where
  "grows i es w w1 \<longleftrightarrow> memory_invar (rw_log w1) \<and> (\<forall>j. logged w1 j = logged w j @ (if j = i then es else []))"

lemma grows_trans: "grows i es w w1 \<Longrightarrow> grows i fs w1 w2 \<Longrightarrow> grows i (es @ fs) w w2"
  by (simp add: grows_def)

lemma grows_same_log: "memory_invar (rw_log w) \<Longrightarrow> rw_log w1 = rw_log w \<Longrightarrow> grows i [] w w1"
  by (simp add: grows_def)

text \<open>An event of a session holds this payload, as the log keeps it.\<close>

definition holds :: "log_ports \<Rightarrow> string \<Rightarrow> string option \<Rightarrow> session_event \<Rightarrow> string \<Rightarrow> pydict \<Rightarrow> bool" where
  "holds p i org e event_type payload \<longleftrightarrow> se_session_id e = i \<and> se_org_id e = org \<and> se_event_type e = event_type
     \<and> se_payload e = safe_payload_dict p (PDict payload)"

lemma append_to_memory:
  assumes "re_append env = memory_port (re_ports env) clock" "memory_invar (rw_log w)"
  obtains e w1 where "append_to_log env q w = (Inr e, w1)" "grows (er_session_id q) [e] w w1"
    "holds (re_ports env) (er_session_id q) (er_org_id q) e (er_event_type q) (er_payload q)" "rw_fired w1 = rw_fired w"
proof -
  have e: "append_to_log env q w
      = (Inr (fst (memory_append (re_ports env) (clock (rw_log w)) q (rw_log w))),
         w\<lparr>rw_log := snd (memory_append (re_ports env) (clock (rw_log w)) q (rw_log w))\<rparr>)"
    by (simp add: append_to_log_def assms memory_port_def Let_def case_prod_unfold)
  show thesis
    using mem.append_events [OF assms(2), of "re_ports env" "(q, clock (rw_log w))"]
      memory_append_invar [OF assms(2)]
    by (intro that [OF e]) (simp_all add: grows_def, simp add: memory_append_def holds_def Let_def)
qed

lemma append_finalization_memory:
  assumes "re_append env = memory_port (re_ports env) clock" "memory_invar (rw_log w)"
  obtains e w1 where "append_finalization env q stage status w = (Inr (), w1)" "grows (er_session_id q) [e] w w1"
    "holds (re_ports env) (er_session_id q) (er_org_id q) e (er_event_type q) (er_payload q)" "rw_fired w1 = rw_fired w"
proof -
  obtain e w1 where "append_to_log env q w = (Inr e, w1)" "grows (er_session_id q) [e] w w1"
      "holds (re_ports env) (er_session_id q) (er_org_id q) e (er_event_type q) (er_payload q)" "rw_fired w1 = rw_fired w"
    by (rule append_to_memory [OF assms])
  then show thesis
    by (intro that [of "w1\<lparr>rw_metrics := rw_metrics w1 @ [finalization_metric stage ''success'' status]\<rparr>" e]) (simp_all add: append_finalization_def record_metrics_def grows_def)
qed

lemma grows_invar: "grows i es w w1 \<Longrightarrow> memory_invar (rw_log w1)"
  by (simp add: grows_def)

text \<open>What is meant by a declared call and by its result, without the code that shapes them: the entries of \<open>tool_calls\<close>, or
  when there are none those of \<open>tools_used\<close>; a call is referred to by its id, or else its name; its outcome is what it says of
  its result, or else its description.\<close>

definition declared_entries :: "pyval \<Rightarrow> pydict list" where
  "declared_entries metadata =
     (let entries = (\<lambda>k label. case metadata of
            PDict d \<Rightarrow> (case dict_get d k of
                Some (PList xs) \<Rightarrow> map (\<lambda>x. case x of PDict c \<Rightarrow> c | _ \<Rightarrow> [(label, PStr (py_str x))]) xs
              | _ \<Rightarrow> [])
          | _ \<Rightarrow> [])
      in if entries ''tool_calls'' ''raw'' \<noteq> [] then entries ''tool_calls'' ''raw'' else entries ''tools_used'' ''name'')"

definition calls_declared :: "log_ports \<Rightarrow> pyval \<Rightarrow> pydict list" where
  "calls_declared p metadata = map (\<lambda>c. safe_payload_dict p (PDict c)) (declared_entries metadata)"

definition call_reference :: "pydict \<Rightarrow> string" where
  "call_reference c =
     (case [v. k \<leftarrow> [''id'', ''name''], Some v \<leftarrow> [dict_get c k], truthy v] of [] \<Rightarrow> ''unknown'' | v # rest \<Rightarrow> py_str v)"

definition call_outcome :: "pydict \<Rightarrow> string" where
  "call_outcome c =
     (case [v. k \<leftarrow> [''result'', ''description''], Some v \<leftarrow> [dict_get c k]] of [] \<Rightarrow> [] | v # rest \<Rightarrow> py_str v)"

definition reports :: "log_ports \<Rightarrow> string \<Rightarrow> string option \<Rightarrow> pydict \<Rightarrow> session_event \<Rightarrow> bool" where
  "reports p i org c e = holds p i org e ''tool_result''
     [(''tool_call_id'', PStr (call_reference c)), (''name'', or_default (dict_get c ''name'') PNone),
      (''content'', PStr (call_outcome c))]"

lemma calls_declared_eq: "serialise_tool_calls p metadata = calls_declared p metadata"
proof (cases metadata)
  case (PDict d)
  have shape: "map (\<lambda>x. safe_payload_dict p (case x of PDict c \<Rightarrow> PDict c | _ \<Rightarrow> PDict [(label, PStr (py_str x))])) xs
      = map (\<lambda>c. safe_payload_dict p (PDict c)) (map (\<lambda>x. case x of PDict c \<Rightarrow> c | _ \<Rightarrow> [(label, PStr (py_str x))]) xs)"
    for label :: string and xs by (auto split: pyval.split)
  show ?thesis
    unfolding PDict serialise_tool_calls_def calls_declared_def declared_entries_def payload_field_def or_default_def Let_def
      shape pyval.case
    by (cases "dict_get d ''tool_calls''"; cases "dict_get d ''tools_used''")
      (auto split: pyval.split list.split)
qed (simp_all add: serialise_tool_calls_def calls_declared_def declared_entries_def Let_def)

lemma tool_result_payload:
  "er_payload (tool_result_event i org c) = [(''tool_call_id'', PStr (call_reference c)),
     (''name'', or_default (dict_get c ''name'') PNone), (''content'', PStr (call_outcome c))]"
  by (simp add: tool_result_event_def call_reference_def call_outcome_def payload_field_def or_default_def str_or_word_def
      split: option.split)

lemma append_tool_results_memory:
  assumes "re_append env = memory_port (re_ports env) clock" "memory_invar (rw_log w)"
  shows "\<exists>es w1. append_tool_results env i org cs w = (Inr (), w1) \<and> grows i es w w1 \<and> rw_fired w1 = rw_fired w
     \<and> list_all2 (reports (re_ports env) i org) cs es"
  using assms(2)
proof (induction cs arbitrary: w)
  case Nil
  then show ?case by (intro exI [of _ "[]"] exI [of _ w]) (simp add: giving_def grows_def)
next
  case (Cons c cs)
  let ?q = "tool_result_event i org c"
  have ids: "er_session_id ?q = i" "er_org_id ?q = org" "er_event_type ?q = ''tool_result''"
    by (simp_all add: tool_result_event_def)
  obtain e w1 where 1: "append_finalization env ?q ''tool_result_append'' ''success'' w = (Inr (), w1)"
      "grows i [e] w w1" "reports (re_ports env) i org c e" "rw_fired w1 = rw_fired w"
    unfolding reports_def
    by (rule append_finalization_memory [OF assms(1) Cons.prems, where q = ?q, unfolded ids tool_result_payload])
  obtain es w2 where 2: "append_tool_results env i org cs w1 = (Inr (), w2)" "grows i es w1 w2" "rw_fired w2 = rw_fired w1"
      "list_all2 (reports (re_ports env) i org) cs es"
    using Cons.IH [OF grows_invar [OF 1(2)]] by blast
  show ?case
    using 1 2 grows_trans [OF 1(2) 2(2)]
    by (intro exI [of _ "e # es"] exI [of _ w2]) (simp add: and_then_def 1(1))
qed

lemma finish_chat_memory:
  assumes "re_append env = memory_port (re_ports env) clock" "memory_invar (rw_log w)" "hooks_finish env"
  shows "\<exists>answer results w1. finish_chat env q d r w = (Inr r, w1)
     \<and> grows (run_session_id ''native::'' q) (answer # results) w w1 \<and> rw_fired w1 = rw_fired w @ [OnRunEnd]
     \<and> holds (re_ports env) (run_session_id ''native::'' q) (dq_organization_id q) answer ''assistant_message''
          [(''text'', PStr (dr_message r)), (''status'', PStr ''success''),
           (''tool_calls'', PList (map PDict (calls_declared (re_ports env) (dr_metadata r)))),
           (''duration_ms'', PInt d), (''agent_type'', PStr (dr_agent_type r))]
     \<and> list_all2 (reports (re_ports env) (run_session_id ''native::'' q) (dq_organization_id q))
          (calls_declared (re_ports env) (dr_metadata r)) results"
proof -
  define i where "i = run_session_id ''native::'' q"
  define calls where "calls = calls_declared (re_ports env) (dr_metadata r)"
  let ?payload = "[(''text'', PStr (dr_message r)), (''status'', PStr ''success''), (''tool_calls'', PList (map PDict calls)),
           (''duration_ms'', PInt d), (''agent_type'', PStr (dr_agent_type r))]"
  define a where "a = assistant_event i (dq_organization_id q) ?payload"
  have ids: "er_session_id a = i" "er_event_type a = ''assistant_message''" "er_org_id a = dq_organization_id q"
      "er_payload a = ?payload" by (simp_all add: a_def assistant_event_def)
  obtain e w1 where 1: "append_finalization env a ''assistant_message_append'' ''success'' w = (Inr (), w1)"
      "grows i [e] w w1" "holds (re_ports env) i (dq_organization_id q) e ''assistant_message'' ?payload" "rw_fired w1 = rw_fired w"
    by (rule append_finalization_memory [OF assms(1,2), where q = a, unfolded ids])
  obtain es w2 where 2: "append_tool_results env i (dq_organization_id q) calls w1 = (Inr (), w2)" "grows i es w1 w2"
      "rw_fired w2 = rw_fired w1" "list_all2 (reports (re_ports env) i (dq_organization_id q)) calls es"
    using append_tool_results_memory [OF assms(1) grows_invar [OF 1(2)]] by blast
  define w3 where "w3 = w2\<lparr>rw_metrics := rw_metrics w2 @ run_metrics ''runtime.native_dispatch'' ''success'' d\<rparr>"
  obtain w4 where 4: "fire_at env OnRunEnd (closing_payload i q d
          [(''status'', PStr ''success''), (''tool_call_count'', PInt (int (length calls)))]) w3 = (Inr (), w4)"
      "rw_log w4 = rw_log w3" "rw_fired w4 = rw_fired w3 @ [OnRunEnd]"
    by (rule fire_at_run [OF assms(3)])
  have "finish_chat env q d r w = (Inr r, w4)"
    by (simp add: finish_chat_def Let_def and_then_def record_metrics_def giving_def 2(1) 4(1)
        1(1) [unfolded a_def] i_def [symmetric] calls_declared_eq calls_def [symmetric] w3_def [symmetric])
  moreover have "grows i (e # es) w w4"
    using 1(2) 2(2) 4(2) by (simp add: grows_def w3_def)
  ultimately show ?thesis
    using 1(3,4) 2(3,4) 4(3) unfolding i_def [symmetric] calls_def [symmetric]
    by (intro exI [of _ e] exI [of _ es] exI [of _ w4]) (simp add: w3_def)
qed

lemma finish_failed_chat_memory:
  assumes "re_append env = memory_port (re_ports env) clock" "memory_invar (rw_log w)" "hooks_finish env"
  shows "\<exists>answer w1. finish_failed_chat env q d k m w = (Inl (Raises k m), w1)
     \<and> grows (run_session_id ''native::'' q) [answer] w w1 \<and> rw_fired w1 = rw_fired w @ [OnRunError, OnRunEnd]
     \<and> holds (re_ports env) (run_session_id ''native::'' q) (dq_organization_id q) answer ''assistant_message''
          [(''text'', PStr []), (''status'', PStr ''error''), (''error'', PStr (redact_default (k @ '': '' @ m))),
           (''duration_ms'', PInt d)]"
proof -
  define i where "i = run_session_id ''native::'' q"
  let ?payload = "[(''text'', PStr []), (''status'', PStr ''error''), (''error'', PStr (redact_default (k @ '': '' @ m))),
           (''duration_ms'', PInt d)]"
  define a where "a = assistant_event i (dq_organization_id q) ?payload"
  have ids: "er_session_id a = i" "er_event_type a = ''assistant_message''" "er_org_id a = dq_organization_id q"
      "er_payload a = ?payload" by (simp_all add: a_def assistant_event_def)
  obtain e w1 where 1: "append_finalization env a ''assistant_message_append'' ''error'' w = (Inr (), w1)"
      "grows i [e] w w1" "holds (re_ports env) i (dq_organization_id q) e ''assistant_message'' ?payload" "rw_fired w1 = rw_fired w"
    by (rule append_finalization_memory [OF assms(1,2), where q = a, unfolded ids])
  define w2 where "w2 = w1\<lparr>rw_metrics := rw_metrics w1 @ run_metrics ''runtime.native_dispatch'' ''error'' d\<rparr>"
  obtain w3 where 3: "fire_at env OnRunError (closing_payload i q d [(''error'', PStr (redact_default (k @ '': '' @ m)))]) w2 = (Inr (), w3)"
      "rw_log w3 = rw_log w2" "rw_fired w3 = rw_fired w2 @ [OnRunError]"
    by (rule fire_at_run [OF assms(3)])
  obtain w4 where 4: "fire_at env OnRunEnd (closing_payload i q d [(''status'', PStr ''error'')]) w3 = (Inr (), w4)"
      "rw_log w4 = rw_log w3" "rw_fired w4 = rw_fired w3 @ [OnRunEnd]"
    by (rule fire_at_run [OF assms(3)])
  have "finish_failed_chat env q d k m w = (Inl (Raises k m), w4)"
    by (simp add: finish_failed_chat_def error_text_def Let_def and_then_def record_metrics_def 3(1) [simplified] 4(1)
        1(1) [unfolded a_def, simplified] i_def [symmetric] w2_def [symmetric])
  then show ?thesis
    using 1(2,3,4) 3(2,3) 4(2,3) unfolding i_def [symmetric]
    by (intro exI [of _ e] exI [of _ w4]) (simp add: w2_def grows_def)
qed

lemma open_run_memory:
  assumes "re_append env = memory_port (re_ports env) clock" "memory_invar (rw_log w)" "hooks_finish env"
  obtains e w1 where "open_run env i q extra w = (Inr e, w1)" "grows i [e] w w1"
    "holds (re_ports env) i (dq_organization_id q) e ''user_message'' ([(''text'', PStr (dq_message q)),
       (''user_id'', PStr (dq_user_id q)), (''role'', PStr (dq_role q)),
       (''domain_id'', case dq_domain_id q of None \<Rightarrow> PNone | Some domain \<Rightarrow> PStr domain)] @ extra)"
    "rw_fired w1 = rw_fired w @ [OnRunStart]"
proof -
  obtain w1 where 1: "fire_at env OnRunStart (start_payload i q @ extra) w = (Inr (), w1)" "rw_log w1 = rw_log w"
      "rw_fired w1 = rw_fired w @ [OnRunStart]"
    by (rule fire_at_run [OF assms(3)])
  let ?q = "user_message_event i q extra"
  have "memory_invar (rw_log w1)" using 1(2) assms(2) by simp
  then obtain e w2 where 2: "append_to_log env ?q w1 = (Inr e, w2)" "grows (er_session_id ?q) [e] w1 w2"
      "holds (re_ports env) (er_session_id ?q) (er_org_id ?q) e (er_event_type ?q) (er_payload ?q)" "rw_fired w2 = rw_fired w1"
    by (rule append_to_memory [OF assms(1)])
  have "grows i [e] w w2" using 2(2) 1(2) by (simp add: user_message_event_def grows_def)
  then show thesis
    using 1 2 by (intro that [of e w2]) (simp_all add: open_run_def and_then_def user_message_event_def opt_str_def)
qed

definition own_session :: "chat_request \<Rightarrow> string" where
  "own_session q = (case dq_session_id q of Some s \<Rightarrow> if s \<noteq> [] then s else ''native::'' @ dq_user_id q
     | None \<Rightarrow> ''native::'' @ dq_user_id q)"

lemma own_session_eq: "run_session_id ''native::'' q = own_session q"
  by (simp add: run_session_id_def own_session_def str_or_def or_default_def split: option.split)


section \<open>A streamed turn\<close>

lemma pump_yields:
  "left \<noteq> Some 0 \<Longrightarrow> pu_yielded (pump p left steps final w)
     = map fst (case left of None \<Rightarrow> steps | Some n \<Rightarrow> take n steps)"
proof (induction steps arbitrary: left w)
  case (Cons s steps)
  obtain chunk f where s: "s = (chunk, f)" by fastforce
  show ?case
  proof (cases "left = Some 1")
    case True
    then show ?thesis by (simp add: s Let_def)
  next
    case False
    then have "map_option (\<lambda>n. n - 1) left \<noteq> Some 0" using Cons.prems by (cases left) auto
    then show ?thesis
      using Cons.IH [of "map_option (\<lambda>n. n - 1) left"] False Cons.prems
      by (cases left) (auto simp: s Let_def take_Cons' split: nat_diff_split)
  qed
qed (cases final, simp split: option.split)


lemma append_after_stream_run:
  assumes "\<And>q l. fst (re_append env q l) \<noteq> Inl Cancelled"
  obtains w1 where "append_after_stream env q stage status w = (Inr (), w1)" "rw_fired w1 = rw_fired w"
proof -
  obtain r l where r: "re_append env q (rw_log w) = (r, l)" by fastforce
  consider k t where "r = Inl (Raises k t)" | e where "r = Inr e"
    using assms [of q "rw_log w"] r by (cases r rule: sum.exhaust; cases "projl r") auto
  then show thesis
    by cases (auto simp: append_after_stream_def append_to_log_def r record_metrics_def intro: that)
qed

lemma append_flow_ledger_run:
  assumes "\<And>q l. fst (re_append env q l) \<noteq> Inl Cancelled"
  obtains w1 where "append_flow_ledger env doctor q status d ledger w = (Inr (), w1)" "rw_fired w1 = rw_fired w"
proof (cases ledger)
  case None
  then show thesis by (intro that [of w]) (simp_all add: append_flow_ledger_def giving_def)
next
  case (Some l)
  then obtain ev where ev: "\<And>v. append_flow_ledger env doctor q status d ledger v
      = append_after_stream env ev ''runtime_flow_ledger_append'' status
          (v\<lparr>rw_metrics := rw_metrics v @ flow_ledger_metrics doctor l status\<rparr>)"
    by (simp add: append_flow_ledger_def and_then_def record_metrics_def)
  obtain w1 where "append_after_stream env ev ''runtime_flow_ledger_append'' status
      (w\<lparr>rw_metrics := rw_metrics w @ flow_ledger_metrics doctor l status\<rparr>) = (Inr (), w1)" "rw_fired w1 = rw_fired w"
    by (rule append_after_stream_run [OF assms, where w = "w\<lparr>rw_metrics := rw_metrics w @ flow_ledger_metrics doctor l status\<rparr>"
          and q = ev and stage = "''runtime_flow_ledger_append''" and status = status]) simp
  then show thesis by (intro that [of w1]) (simp_all add: ev)
qed

lemma finish_stream_run:
  assumes "hooks_finish env" "\<And>q l. fst (re_append env q l) \<noteq> Inl Cancelled"
  shows "\<exists>w1. finish_stream env doctor q d text ledger w = (Inr (), w1) \<and> rw_fired w1 = rw_fired w @ [OnRunEnd]"
proof -
  define i where "i = run_session_id ''native-stream::'' q"
  define a where "a = assistant_event i (dq_organization_id q)
          ([(''text'', PStr text), (''status'', PStr ''success''), (''duration_ms'', PInt d)] @ stream_payload)"
  obtain w1 where 1: "append_after_stream env a ''assistant_message_append'' ''success'' w = (Inr (), w1)"
      "rw_fired w1 = rw_fired w" by (rule append_after_stream_run [OF assms(2)])
  define w2 where "w2 = w1\<lparr>rw_metrics := rw_metrics w1 @ run_metrics ''runtime.native_stream_dispatch'' ''success'' d\<rparr>"
  obtain w3 where 3: "fire_at env OnRunEnd (closing_payload i q d ((''status'', PStr ''success'') # stream_payload)) w2
      = (Inr (), w3)" "rw_log w3 = rw_log w2" "rw_fired w3 = rw_fired w2 @ [OnRunEnd]" by (rule fire_at_run [OF assms(1)])
  obtain w4 where 4: "append_flow_ledger env doctor q ''success'' d ledger w3 = (Inr (), w4)" "rw_fired w4 = rw_fired w3"
    by (rule append_flow_ledger_run [OF assms(2)])
  have "finish_stream env doctor q d text ledger w = (Inr (), w4)"
    by (simp add: finish_stream_def Let_def and_then_def record_metrics_def 3(1) 4(1) i_def [symmetric]
        1(1) [unfolded a_def, simplified] w2_def [symmetric])
  then show ?thesis using 1 3 4 by (simp add: w2_def)
qed

lemma finish_failed_stream_run:
  assumes "hooks_finish env" "\<And>q l. fst (re_append env q l) \<noteq> Inl Cancelled"
  shows "\<exists>w1. finish_failed_stream env doctor q d text ledger error w = (Inl (Raises ''RuntimeError'' error), w1)
     \<and> rw_fired w1 = rw_fired w @ [OnRunError, OnRunEnd]"
proof -
  define i where "i = run_session_id ''native-stream::'' q"
  define a where "a = assistant_event i (dq_organization_id q)
          ([(''text'', PStr text), (''status'', PStr ''error''), (''error'', PStr error), (''duration_ms'', PInt d)] @ stream_payload)"
  obtain w1 where 1: "append_after_stream env a ''assistant_message_append'' ''error'' w = (Inr (), w1)"
      "rw_fired w1 = rw_fired w" by (rule append_after_stream_run [OF assms(2)])
  define w2 where "w2 = w1\<lparr>rw_metrics := rw_metrics w1 @ run_metrics ''runtime.native_stream_dispatch'' ''error'' d\<rparr>"
  obtain w3 where 3: "fire_at env OnRunError (closing_payload i q d ((''error'', PStr error) # stream_payload)) w2
      = (Inr (), w3)" "rw_log w3 = rw_log w2" "rw_fired w3 = rw_fired w2 @ [OnRunError]" by (rule fire_at_run [OF assms(1)])
  obtain w4 where 4: "fire_at env OnRunEnd (closing_payload i q d ((''status'', PStr ''error'') # stream_payload)) w3
      = (Inr (), w4)" "rw_log w4 = rw_log w3" "rw_fired w4 = rw_fired w3 @ [OnRunEnd]" by (rule fire_at_run [OF assms(1)])
  obtain w5 where 5: "append_flow_ledger env doctor q ''error'' d ledger w4 = (Inr (), w5)" "rw_fired w5 = rw_fired w4"
    by (rule append_flow_ledger_run [OF assms(2)])
  have "finish_failed_stream env doctor q d text ledger error w = (Inl (Raises ''RuntimeError'' error), w5)"
    by (simp add: finish_failed_stream_def Let_def and_then_def record_metrics_def 3(1) 4(1) 5(1) i_def [symmetric]
        1(1) [unfolded a_def, simplified] w2_def [symmetric])
  then show ?thesis using 1 3 4 5 by (simp add: w2_def)
qed


text \<open>The append of the message is not guarded: when it raises, the consumer gets the exception and no chunk.\<close>

theorem stream_stopped_by_failing_append:
  assumes "hooks_finish env" "left \<noteq> Some 0" "\<And>q l. re_append env q l = (Inl (Raises k m), l)"
  shows "\<exists>w1. native_stream_dispatch env doctor q steps final d left w = ([], Inl (Raises k m), w1)
     \<and> rw_fired w1 = rw_fired w @ [OnRunStart]"
proof -
  obtain w1 where "fire_at env OnRunStart (start_payload (run_session_id ''native-stream::'' q) q @ stream_payload) w
      = (Inr (), w1)" "rw_log w1 = rw_log w" "rw_fired w1 = rw_fired w @ [OnRunStart]" by (rule fire_at_run [OF assms(1)])
  then show ?thesis
    by (simp add: native_stream_dispatch_def open_run_def and_then_def append_to_log_def assms)
qed

section \<open>Examples\<close>

definition run_ports :: log_ports where
  "run_ports = \<lparr> lp_loads = (\<lambda>s. None), lp_digest = id, lp_isoformat = (\<lambda>n. ''2026-01-01T00:00:00+00:00''),
     lp_instant = (\<lambda>s. Some 0), lp_jsonb = (\<lambda>d. []) \<rparr>"

definition plain_env :: "(memory_log, nat) run_env" where
  "plain_env = \<lparr> re_ports = run_ports, re_hooks = register_hook OnRunEnd run_end_hook (Some default_hook_owner) new_lifecycle,
     re_run_hook = (\<lambda>h d n. (Returned, d, n + 1)), re_append = memory_port run_ports (\<lambda>l. 0) \<rparr>"

definition fresh_world :: "(memory_log, nat) turn_world" where
  "fresh_world = \<lparr> rw_log = empty_memory_log, rw_rest = 0, rw_fired = [], rw_metrics = [] \<rparr>"

definition plain_request :: chat_request where
  "plain_request = \<lparr> dq_session_id = Some ''s1'', dq_user_id = ''u1'', dq_organization_id = None, dq_message = ''Hello'',
     dq_role = ''student'', dq_domain_id = None \<rparr>"

definition plain_response :: chat_response where
  "plain_response = \<lparr> dr_message = ''Hi'', dr_agent_type = ''chat'',
     dr_metadata = PDict [(''tools_used'', PList [PDict [(''name'', PStr ''search'')]])] \<rparr>"

lemma plain_env_hooks: "hooks_finish plain_env"
  by (simp add: hooks_finish_def plain_env_def)

lemma plain_env_append: "re_append plain_env = memory_port (re_ports plain_env) (\<lambda>l. 0)"
  by (simp add: plain_env_def)

lemma fresh_world_invar: "memory_invar (rw_log fresh_world)"
  by (simp add: fresh_world_def empty_memory_log_def memory_invar_def dict_keys_def)


text \<open>A log that only takes the message of the user.\<close>

definition down_after_message :: "append_request \<Rightarrow> nat \<Rightarrow> (stop + session_event) \<times> nat" where
  "down_after_message q n =
     (if er_event_type q = ''user_message''
      then (Inr \<lparr> se_session_id = er_session_id q, se_event_type = er_event_type q, se_payload = [], se_seq = n + 1,
          se_org_id = er_org_id q, se_created_at = None \<rparr>, n + 1)
      else (Inl (Raises ''OSError'' ''log down''), n))"

definition failing_env :: "(nat, nat) run_env" where
  "failing_env = \<lparr> re_ports = run_ports, re_hooks = register_hook OnRunEnd run_end_hook (Some default_hook_owner) new_lifecycle,
     re_run_hook = (\<lambda>h d n. (Raised, d, n + 1)), re_append = down_after_message \<rparr>"

definition start_world :: "(nat, nat) turn_world" where
  "start_world = \<lparr> rw_log = 0, rw_rest = 0, rw_fired = [], rw_metrics = [] \<rparr>"

definition answer_chunk :: string where
  "answer_chunk = ''event: answer'' @ [CHR 0x0A] @ ''data: hello'' @ [CHR 0x0A, CHR 0x0A]"


end
