(* ===== verification/Subagents.thy ===== *)
theory Subagents
  imports Native_Dispatch
begin

text \<open>
  \<open>app/engine/runtime/subagent_runner.py\<close>: a task that an agent delegates to a child agent in a session of its
  own. Only two events of it reach the log of the parent's session. The runner of the child is an argument that
  acts on the whole world; the eight digits of the child's id (\<open>uuid4\<close>) and the measured duration are arguments.
\<close>

section \<open>Tasks and results\<close>

record subagent_task =
  tsk_description :: string
  tsk_parent_session_id :: string
  tsk_parent_org_id :: "string option"
  tsk_max_steps :: int
  tsk_context_hints :: pydict
  tsk_metadata :: pydict

record subagent_result =
  res_status :: string
  res_summary :: string
  res_sources :: "pyval list"
  res_tool_calls_made :: int
  res_child_session_id :: string
  res_duration_ms :: int
  res_error :: "string option"
  res_raw_output :: "string option"

text \<open>What a runner returns: a result, or another object, by its text.\<close>

datatype runner_output = SubagentOutput subagent_result | OtherOutput string

definition new_result :: "string \<Rightarrow> subagent_result" where
  "new_result status = \<lparr> res_status = status, res_summary = [], res_sources = [], res_tool_calls_made = 0,
     res_child_session_id = [], res_duration_ms = 0, res_error = None, res_raw_output = None \<rparr>"

definition derive_child_session_id :: "string \<Rightarrow> string \<Rightarrow> string" where
  "derive_child_session_id parent digits = parent @ ''::sub::'' @ digits"

section \<open>What the parent's log keeps\<close>

definition task_metadata_keys :: "log_ports \<Rightarrow> pydict \<Rightarrow> string list" where
  "task_metadata_keys p d = sort (filter (\<lambda>k. k \<noteq> ''redacted_secret_count'') (dict_keys (safe_payload_dict p (PDict d))))"

definition task_event_metadata :: "log_ports \<Rightarrow> subagent_task \<Rightarrow> pydict" where
  "task_event_metadata p t =
     [(''version'', PStr ''wiii.subagent_task_provenance.v1''),
      (''description'', PDict (text_provenance (PStr (tsk_description t)))),
      (''context_hint_count'', PInt (int (length (tsk_context_hints t)))),
      (''metadata_keys'', str_list (task_metadata_keys p (tsk_metadata t))),
      (''max_steps'', PInt (tsk_max_steps t))]"

definition result_event_metadata :: "subagent_result \<Rightarrow> pydict" where
  "result_event_metadata r =
     [(''version'', PStr ''wiii.subagent_result_provenance.v1''),
      (''status'', PStr (res_status r)),
      (''summary'', PDict (text_provenance (PStr (res_summary r)))),
      (''source_count'', PInt (int (length (res_sources r)))),
      (''tool_calls_made'', PInt (res_tool_calls_made r)),
      (''duration_ms'', PInt (res_duration_ms r)),
      (''error'', PDict (text_provenance (opt_str (res_error r))))]"

definition error_event_metadata :: "string \<Rightarrow> string \<Rightarrow> int \<Rightarrow> pydict" where
  "error_event_metadata kind message duration =
     [(''version'', PStr ''wiii.subagent_result_provenance.v1''),
      (''status'', PStr ''error''),
      (''duration_ms'', PInt duration),
      (''error_type'', PStr kind),
      (''error'', PDict (text_provenance (PStr (error_text kind message))))]"

definition child_event :: "subagent_task \<Rightarrow> string \<Rightarrow> string \<Rightarrow> string \<Rightarrow> pydict \<Rightarrow> append_request" where
  "child_event t child event_type part metadata =
     \<lparr> er_session_id = tsk_parent_session_id t, er_event_type = event_type,
       er_payload = [(''child_session_id'', PStr child), (part, PDict metadata)], er_org_id = tsk_parent_org_id t \<rparr>"

section \<open>Running a task\<close>

definition coerce_output :: "string \<Rightarrow> int \<Rightarrow> runner_output \<Rightarrow> subagent_result" where
  "coerce_output child duration out =
     (let r = (case out of SubagentOutput r \<Rightarrow> r
            | OtherOutput s \<Rightarrow> (new_result ''success'')\<lparr>res_summary := s, res_child_session_id := child\<rparr>);
          r1 = (if res_child_session_id r = [] then r\<lparr>res_child_session_id := child\<rparr> else r)
      in if res_duration_ms r1 = 0 then r1\<lparr>res_duration_ms := duration\<rparr> else r1)"

definition failed_result :: "string \<Rightarrow> int \<Rightarrow> string \<Rightarrow> string \<Rightarrow> subagent_result" where
  "failed_result child duration kind message =
     (new_result ''error'')\<lparr>res_error := Some (error_text kind message), res_child_session_id := child,
       res_duration_ms := duration\<rparr>"

definition finish_child ::
    "('l, 's) run_env \<Rightarrow> subagent_task \<Rightarrow> string \<Rightarrow> pydict \<Rightarrow> subagent_result \<Rightarrow>
     (('l, 's) turn_world, subagent_result) run" where
  "finish_child env t child metadata r =
     and_then (append_to_log env (child_event t child ''subagent_completed'' ''result'' metadata))
     (\<lambda>_. and_then (record_metrics (run_metrics ''runtime.subagent'' (res_status r) (res_duration_ms r)))
     (\<lambda>_. giving r))"

definition subagent_refused :: "string \<Rightarrow> subagent_result \<Rightarrow> (('l, 's) turn_world, subagent_result) run" where
  "subagent_refused label r =
     and_then (record_metrics [Counted ''runtime.subagent.runs'' [(''status'', label)] 1]) (\<lambda>_. giving r)"

definition run_subagent ::
    "('l, 's) run_env \<Rightarrow> bool \<Rightarrow> (subagent_task \<Rightarrow> string \<Rightarrow> (('l, 's) turn_world, runner_output) run) option \<Rightarrow>
     string \<Rightarrow> int \<Rightarrow> subagent_task \<Rightarrow> (('l, 's) turn_world, subagent_result) run" where
  "run_subagent env enabled runner digits duration t =
     (if \<not> enabled
      then subagent_refused ''disabled'' ((new_result ''disabled'')\<lparr>res_error := Some ''enable_subagent_isolation is False''\<rparr>)
      else case runner of
        None \<Rightarrow> subagent_refused ''no_runner'' ((new_result ''error'')
          \<lparr>res_error := Some ''SubagentRunner has no runner_callable bound''\<rparr>)
      | Some f \<Rightarrow>
          let child = derive_child_session_id (tsk_parent_session_id t) digits in
          and_then (append_to_log env (child_event t child ''subagent_started'' ''task''
              (task_event_metadata (re_ports env) t)))
          (\<lambda>_ w. case f t child w of
             (Inr out, w1) \<Rightarrow> (let r = coerce_output child duration out
               in finish_child env t child (result_event_metadata r) r w1)
           | (Inl (Raises kind message), w1) \<Rightarrow> finish_child env t child (error_event_metadata kind message duration)
               (failed_result child duration kind message) w1
           | (Inl Cancelled, w1) \<Rightarrow> (Inl Cancelled, w1)))"

section \<open>A field the sanitizer keeps\<close>

definition child_key :: string where
  "child_key = ''child_session_id''"

lemma plan_child_key:
  "plan_item loads digest child_key (PStr s) = Descend child_key (PStr s) (snd (redact_secret_text (take max_sanitized_string s)))"
proof -
  have key: "normalize_key child_key = child_key" "\<not> looks_sensitive_key child_key" "child_key \<notin> set json_string_keys"
      "child_key \<noteq> [] \<and> child_key \<notin> set control_keys" "child_key \<noteq> ''user_id''" "child_key \<noteq> ''redacted_secret_count''"
    by code_simp+
  show ?thesis by (simp add: plan_item_def key Let_def)
qed

lemma plan_other_key:
  "key \<noteq> child_key \<Longrightarrow> (case plan_item loads digest key item of Put k v \<Rightarrow> k \<noteq> child_key | Descend k v m \<Rightarrow> k \<noteq> child_key | _ \<Rightarrow> True)"
  by (auto simp: plan_item_def Let_def child_key_def split: option.split pyval.split)

lemma dict_set_later: "k \<noteq> j \<Longrightarrow> dict_set k v ((j, x) # d) = (j, x) # dict_set k v d"
  by (simp add: dict_set_def)

lemma dict_set_avoids: "j \<notin> fst ` set d \<Longrightarrow> k \<noteq> j \<Longrightarrow> j \<notin> fst ` set (dict_set k v d) \<and> length (dict_set k v d) \<le> Suc (length d)"
  using length_dict_set_le [of k v d] set_dict_keys_set [of k v d] by (simp add: dict_keys_def)

definition headed :: "pyval \<Rightarrow> nat \<Rightarrow> pydict \<Rightarrow> bool" where
  "headed x n d \<longleftrightarrow> (\<exists>rest. d = (child_key, x) # rest \<and> child_key \<notin> fst ` set rest \<and> length rest \<le> n)"

lemma headed_dict_set: "headed x n d \<Longrightarrow> k \<noteq> child_key \<Longrightarrow> headed x (Suc n) (dict_set k v d)"
proof -
  assume "headed x n d" and k: "k \<noteq> child_key"
  then obtain rest where d: "d = (child_key, x) # rest" "child_key \<notin> fst ` set rest" "length rest \<le> n"
    by (auto simp: headed_def)
  have "dict_set k v d = (child_key, x) # dict_set k v rest" by (simp only: d(1) dict_set_later [OF k])
  moreover have "child_key \<notin> fst ` set (dict_set k v rest)" "length (dict_set k v rest) \<le> Suc n"
    using dict_set_avoids [OF d(2) k, of v] d(3) by auto
  ultimately show ?thesis by (simp add: headed_def)
qed

lemma headed_mono: "headed x n d \<Longrightarrow> n \<le> m \<Longrightarrow> headed x m d"
  by (auto simp: headed_def)

lemma sanitize_items_headed:
  "child_key \<notin> fst ` set ys \<Longrightarrow> headed x m cleaned \<Longrightarrow> depth \<le> max_sanitized_depth \<Longrightarrow>
     headed x (m + length ys) (fst (sanitize_items loads digest depth ys cleaned n))"
proof (induction ys arbitrary: cleaned n m)
  case Nil
  then show ?case by (simp add: sanitize_items.simps)
next
  case (Cons y ys)
  obtain key item where y: "y = (key, item)" by fastforce
  have key: "key \<noteq> child_key" and rest: "child_key \<notin> fst ` set ys" using Cons.prems(1) y by auto
  have set: "headed x (m + length (y # ys)) (fst (sanitize_items loads digest depth ys (dict_set k v cleaned) n'))"
    if "k \<noteq> child_key" for k v n'
    using Cons.IH [OF rest headed_dict_set [OF Cons.prems(2) that] Cons.prems(3)] by simp
  have same: "headed x (m + length (y # ys)) (fst (sanitize_items loads digest depth ys cleaned n'))" for n'
    using Cons.IH [OF rest Cons.prems(2,3)] by (rule headed_mono) simp
  show ?case
    using plan_other_key [OF key, of loads digest item] set same Cons.prems(3)
    by (cases "plan_item loads digest key item") (simp_all add: y sanitize_items.simps(2))
qed

lemma safe_payload_headed:
  assumes "headed (PStr c) n d" "n < 63"
  shows "headed (PStr (redact_default c)) (Suc n) (safe_payload_dict p (PDict d))"
proof -
  obtain rest where d: "d = (child_key, PStr c) # rest" "child_key \<notin> fst ` set rest" "length rest \<le> n"
    using assms(1) by (auto simp: headed_def)
  define m where "m = snd (redact_secret_text (take max_sanitized_string c))"
  define out where "out = sanitize_items (lp_loads p) (lp_digest p) 0 rest [(child_key, PStr (redact_default c))] m"
  have short: "take max_sanitized_items d = d" using d assms(2) by (simp add: max_sanitized_items_def)
  have one: "dict_set child_key v [] = [(child_key, v)]" for v :: pyval by (simp add: dict_set_def)
  have item: "sanitize_payload l g (Suc 0) (PStr c) = PStr (redact_default c)" for l g
    by (simp add: sanitize_payload.simps max_sanitized_depth_def)
  have items: "sanitize_items (lp_loads p) (lp_digest p) 0 d [] 0 = out"
    by (simp add: d(1) sanitize_items.simps(2) plan_child_key one item out_def m_def max_sanitized_depth_def)
  have "safe_payload_dict p (PDict d) = (case finish_dict (fst out) (snd out) of PDict x \<Rightarrow> x | _ \<Rightarrow> [])"
    by (simp add: safe_payload_dict_def sanitize_payload.simps short items max_sanitized_depth_def case_prod_unfold)
  moreover have h: "headed (PStr (redact_default c)) n (fst out)"
    using sanitize_items_headed [OF d(2), of "PStr (redact_default c)" 0 "[(child_key, PStr (redact_default c))]" 0
        "lp_loads p" "lp_digest p" m] d(3)
    unfolding out_def by (auto simp: headed_def elim!: headed_mono)
  moreover have "(''redacted_secret_count'' :: string) \<noteq> child_key" by (simp add: child_key_def)
  ultimately show ?thesis
    using headed_dict_set [OF h] headed_mono [OF h] by (simp add: finish_dict_def)
qed


section \<open>The parent's session\<close>

text \<open>The child's id as a waking worker reads it.\<close>

definition logged_child :: "string \<Rightarrow> string option" where
  "logged_child c = (let i = redact_default (redact_default c) in if i = [] then None else Some i)"

definition tells_child :: "wake_ports \<Rightarrow> string \<Rightarrow> session_event \<Rightarrow> bool" where
  "tells_child wp c e \<longleftrightarrow> text_field ''child_session_id'' (event_fields wp e) = logged_child c"

lemma child_event_field:
  assumes "se_payload e = safe_payload_dict p (PDict [(''child_session_id'', PStr c), (part, PDict d)])" "part \<noteq> child_key"
  shows "tells_child wp c e"
proof -
  have "headed (PStr c) 1 [(''child_session_id'', PStr c), (part, PDict d)]"
    using assms(2) by (auto simp: headed_def child_key_def)
  then have "headed (PStr (redact_default c)) 2 (se_payload e)"
    unfolding assms(1) using safe_payload_headed by (metis Suc_1 one_less_numeral_iff semiring_norm(77) num.distinct(1) numeral_less_iff)
  then have "headed (PStr (redact_default (redact_default c))) 3 (event_fields wp e)"
    unfolding event_fields_def using safe_payload_headed [of "redact_default c" 2 "se_payload e" "wp_log wp"] by simp
  then show ?thesis
    by (auto simp: tells_child_def logged_child_def text_field_def payload_field_def headed_def child_key_def
        dict_get_def or_default_def Let_def)
qed

lemma pop_set: "dict_pop k (dict_set k v d) = dict_pop k d"
  by (induction d) (auto simp: dict_pop_def dict_set_def)

text \<open>A start and a completion of the same child add no message, answer no call and leave no child pending.\<close>

lemma wake_child_pair:
  assumes "tells_child wp c s" "tells_child wp c e" "se_event_type s = ''subagent_started''" "se_event_type e = ''subagent_completed''"
  shows "let before = wake wp i org es; after = wake wp i org (es @ [s, e]) in
     ws_messages after = ws_messages before \<and> ws_pending_tool_calls after = ws_pending_tool_calls before
     \<and> set (ws_pending_subagents after) \<subseteq> set (ws_pending_subagents before)
     \<and> ws_event_count after = ws_event_count before + 2"
proof -
  define w where "w = replay wp es empty_wake_loop"
  have after: "replay wp (es @ [s, e]) empty_wake_loop = wake_event wp e (wake_event wp s w)"
    by (simp add: replay_append replay_Cons w_def) (simp add: replay_def)
  have fields: "text_field ''child_session_id'' (event_fields wp s) = logged_child c"
      "text_field ''child_session_id'' (event_fields wp e) = logged_child c"
    using assms(1,2) by (simp_all add: tells_child_def)
  have "set (map snd (dict_pop k (wl_subagents w))) \<subseteq> set (map snd (wl_subagents w))" for k
    by (auto simp: dict_pop_def)
  then show ?thesis
    unfolding wake_def after w_def [symmetric] Let_def using fields
    by (cases "logged_child c")
      (simp_all add: wake_event_def apply_subagent_started_def apply_subagent_completed_def assms(3,4) Let_def
        event_fields_def pop_set)
qed

text \<open>One of them alone adds no message and answers no call; a completion leaves no more children pending than before, and
  not its own.\<close>

lemma wake_child_event:
  assumes "se_event_type e = ''subagent_started'' \<or> se_event_type e = ''subagent_completed''"
  shows "ws_messages (wake wp i org (es @ [e])) = ws_messages (wake wp i org es)"
    "ws_pending_tool_calls (wake wp i org (es @ [e])) = ws_pending_tool_calls (wake wp i org es)"
    "se_event_type e = ''subagent_completed'' \<Longrightarrow>
       set (ws_pending_subagents (wake wp i org (es @ [e]))) \<subseteq> set (ws_pending_subagents (wake wp i org es))"
proof -
  define w where "w = replay wp es empty_wake_loop"
  have after: "replay wp (es @ [e]) empty_wake_loop = wake_event wp e w"
    by (simp add: replay_append replay_Cons w_def) (simp add: replay_def)
  have "set (map snd (dict_pop k (wl_subagents w))) \<subseteq> set (map snd (wl_subagents w))" for k
    by (auto simp: dict_pop_def)
  then show "ws_messages (wake wp i org (es @ [e])) = ws_messages (wake wp i org es)"
    "ws_pending_tool_calls (wake wp i org (es @ [e])) = ws_pending_tool_calls (wake wp i org es)"
    "se_event_type e = ''subagent_completed'' \<Longrightarrow>
       set (ws_pending_subagents (wake wp i org (es @ [e]))) \<subseteq> set (ws_pending_subagents (wake wp i org es))"
    unfolding wake_def after w_def [symmetric] Let_def using assms
    by (auto simp: wake_event_def apply_subagent_started_def apply_subagent_completed_def Let_def split: option.split)
qed

lemma completed_not_pending:
  assumes "tells_child wp c e" "se_event_type e = ''subagent_completed''" "logged_child c = Some k"
    and "x \<in> set (ws_pending_subagents (wake wp i org (es @ [e])))"
  shows "dict_get x ''child_session_id'' \<noteq> Some (PStr k)"
proof
  assume k: "dict_get x ''child_session_id'' = Some (PStr k)"
  obtain j e' where "find (about_child wp j) (rev (es @ [e])) = Some e'" "se_event_type e' = ''subagent_started''"
      "x = [(''child_session_id'', PStr j), (''task'', PDict (coerce_task_provenance wp (event_fields wp e')))]"
    using assms(4) unfolding wake_pending_children by blast
  then show False using assms(1-3) k by (auto simp: about_child_def tells_child_def)
qed

lemma append_child_event:
  assumes "re_append env = memory_port (re_ports env) clock" "memory_invar (rw_log w)" "part \<noteq> child_key"
  obtains e w1 where "append_to_log env (child_event t c kind part d) w = (Inr e, w1)"
    "grows (tsk_parent_session_id t) [e] w w1"
    "holds (re_ports env) (tsk_parent_session_id t) (tsk_parent_org_id t) e kind [(''child_session_id'', PStr c), (part, PDict d)]"
    "\<forall>wp. tells_child wp c e"
proof -
  define q where "q = child_event t c kind part d"
  obtain e w1 where 1: "append_to_log env q w = (Inr e, w1)" "grows (er_session_id q) [e] w w1"
      "holds (re_ports env) (er_session_id q) (er_org_id q) e (er_event_type q) (er_payload q)"
    by (rule append_to_memory [OF assms(1,2)])
  have "tells_child wp c e" for wp
    using 1(3) by (intro child_event_field [OF _ assms(3)]) (simp add: q_def child_event_def holds_def)
  then show thesis
    using 1 by (intro that [of e w1]) (simp_all add: q_def child_event_def)
qed

lemma finish_child_memory:
  assumes "re_append env = memory_port (re_ports env) clock" "memory_invar (rw_log w)"
  obtains e w1 where "finish_child env t c d r w = (Inr r, w1)" "grows (tsk_parent_session_id t) [e] w w1"
    "holds (re_ports env) (tsk_parent_session_id t) (tsk_parent_org_id t) e ''subagent_completed''
       [(''child_session_id'', PStr c), (''result'', PDict d)]"
    "\<forall>wp. tells_child wp c e"
proof -
  have part: "(''result'' :: string) \<noteq> child_key" by (simp add: child_key_def)
  obtain e w1 where 1: "append_to_log env (child_event t c ''subagent_completed'' ''result'' d) w = (Inr e, w1)"
      "grows (tsk_parent_session_id t) [e] w w1"
      "holds (re_ports env) (tsk_parent_session_id t) (tsk_parent_org_id t) e ''subagent_completed''
         [(''child_session_id'', PStr c), (''result'', PDict d)]" "\<forall>wp. tells_child wp c e"
    by (rule append_child_event [OF assms part, where t = t and c = c and kind = "''subagent_completed''" and d = d])
  show thesis
    by (rule that [OF _ _ 1(3,4), of "w1\<lparr>rw_metrics := rw_metrics w1
        @ run_metrics ''runtime.subagent'' (res_status r) (res_duration_ms r)\<rparr>"])
      (use 1(2) in \<open>simp_all add: finish_child_def and_then_def 1(1) record_metrics_def giving_def grows_def\<close>)
qed

text \<open>The steps of a run: the start in the parent's log, the runner, and what follows it.\<close>

lemma run_subagent_steps:
  assumes "re_append env = memory_port (re_ports env) clock" "memory_invar (rw_log w)"
    and c: "c = derive_child_session_id (tsk_parent_session_id t) digits"
  obtains s v where "grows (tsk_parent_session_id t) [s] w v"
    "holds (re_ports env) (tsk_parent_session_id t) (tsk_parent_org_id t) s ''subagent_started''
       [(''child_session_id'', PStr c), (''task'', PDict (task_event_metadata (re_ports env) t))]"
    "\<forall>wp. tells_child wp c s"
    "run_subagent env True (Some f) digits d t w = (case f t c v of
         (Inr out, v1) \<Rightarrow> finish_child env t c (result_event_metadata (coerce_output c d out)) (coerce_output c d out) v1
       | (Inl (Raises k m), v1) \<Rightarrow> finish_child env t c (error_event_metadata k m d) (failed_result c d k m) v1
       | (Inl Cancelled, v1) \<Rightarrow> (Inl Cancelled, v1))"
proof -
  have part: "(''task'' :: string) \<noteq> child_key" by (simp add: child_key_def)
  obtain s v where 1: "append_to_log env (child_event t c ''subagent_started'' ''task''
        (task_event_metadata (re_ports env) t)) w = (Inr s, v)" "grows (tsk_parent_session_id t) [s] w v"
      "holds (re_ports env) (tsk_parent_session_id t) (tsk_parent_org_id t) s ''subagent_started''
         [(''child_session_id'', PStr c), (''task'', PDict (task_event_metadata (re_ports env) t))]" "\<forall>wp. tells_child wp c s"
    by (rule append_child_event [OF assms(1,2) part, where t = t and c = c and kind = "''subagent_started''"
          and d = "task_event_metadata (re_ports env) t"])
  show thesis
    by (rule that [OF 1(2-4)])
      (simp add: run_subagent_def and_then_def c [symmetric] 1(1) Let_def split: prod.split sum.split stop.split)
qed

text \<open>A run with a runner that leaves the parent's session alone: its two events, and the result it comes to.\<close>

lemma run_subagent_memory:
  assumes "re_append env = memory_port (re_ports env) clock" "memory_invar (rw_log w)"
    and c: "c = derive_child_session_id (tsk_parent_session_id t) digits"
    and runner: "\<And>v. memory_invar (rw_log v) \<Longrightarrow> memory_invar (rw_log (snd (f t c v)))
        \<and> logged (snd (f t c v)) (tsk_parent_session_id t) = logged v (tsk_parent_session_id t)"
      "\<And>v. fst (f t c v) \<noteq> Inl Cancelled"
  obtains r s e w1 v where "run_subagent env True (Some f) digits d t w = (Inr r, w1)"
    "logged w1 (tsk_parent_session_id t) = logged w (tsk_parent_session_id t) @ [s, e]"
    "se_event_type s = ''subagent_started''" "se_event_type e = ''subagent_completed''"
    "\<forall>wp. tells_child wp c s \<and> tells_child wp c e"
    "(\<exists>out. fst (f t c v) = Inr out \<and> r = coerce_output c d out)
       \<or> (\<exists>k m. fst (f t c v) = Inl (Raises k m) \<and> r = failed_result c d k m)"
proof -
  define i where "i = tsk_parent_session_id t"
  obtain s v where 1: "grows i [s] w v" "holds (re_ports env) i (tsk_parent_org_id t) s ''subagent_started''
         [(''child_session_id'', PStr c), (''task'', PDict (task_event_metadata (re_ports env) t))]" "\<forall>wp. tells_child wp c s"
      "run_subagent env True (Some f) digits d t w = (case f t c v of
         (Inr out, v1) \<Rightarrow> finish_child env t c (result_event_metadata (coerce_output c d out)) (coerce_output c d out) v1
       | (Inl (Raises k m), v1) \<Rightarrow> finish_child env t c (error_event_metadata k m d) (failed_result c d k m) v1
       | (Inl Cancelled, v1) \<Rightarrow> (Inl Cancelled, v1))"
    unfolding i_def by (rule run_subagent_steps [OF assms(1-3)])
  obtain outcome v1 where run: "f t c v = (outcome, v1)" by fastforce
  have v1: "memory_invar (rw_log v1)" "logged v1 i = logged v i"
    using runner(1) [OF grows_invar [OF 1(1)]] by (simp_all add: run i_def)
  have "\<exists>meta r. run_subagent env True (Some f) digits d t w = finish_child env t c meta r v1
      \<and> ((\<exists>out. outcome = Inr out \<and> r = coerce_output c d out) \<or> (\<exists>k m. outcome = Inl (Raises k m) \<and> r = failed_result c d k m))"
    using runner(2) [of v] unfolding 1(4) run by (cases outcome) (auto split: stop.split)
  then obtain meta r where whole: "run_subagent env True (Some f) digits d t w = finish_child env t c meta r v1"
      and r: "(\<exists>out. outcome = Inr out \<and> r = coerce_output c d out) \<or> (\<exists>k m. outcome = Inl (Raises k m) \<and> r = failed_result c d k m)"
    by blast
  obtain e w1 where 3: "finish_child env t c meta r v1 = (Inr r, w1)" "grows i [e] v1 w1"
      "holds (re_ports env) i (tsk_parent_org_id t) e ''subagent_completed'' [(''child_session_id'', PStr c), (''result'', PDict meta)]"
      "\<forall>wp. tells_child wp c e"
    unfolding i_def by (rule finish_child_memory [OF assms(1) v1(1)])
  have "logged w1 i = logged w i @ [s, e]" using 1(1) 3(2) v1(2) by (simp add: grows_def)
  moreover have "se_event_type s = ''subagent_started''" "se_event_type e = ''subagent_completed''"
    using 1(2) 3(3) by (simp_all add: holds_def)
  ultimately show thesis
    using 1(3) 3(4) r run unfolding i_def by (intro that [of r w1 s e v]) (simp_all add: whole 3(1))
qed


section \<open>Example\<close>

definition plain_task :: subagent_task where
  "plain_task = \<lparr> tsk_description = ''Look up the rule'', tsk_parent_session_id = ''s1'', tsk_parent_org_id = None,
     tsk_max_steps = 10, tsk_context_hints = [], tsk_metadata = [] \<rparr>"

definition plain_wake :: wake_ports where
  "plain_wake = \<lparr> wp_log = run_ports, wp_validate = (\<lambda>d. None), wp_dumps = (\<lambda>v. []) \<rparr>"


end
