(* ===== verification/Subagent_Bridge.thy ===== *)
theory Subagent_Bridge
  imports Subagents
begin

text \<open>
  \<open>app/engine/runtime/subagent_chatservice_bridge.py\<close>: the default runner of a child agent, which asks the chat
  service in the child's session. The chat service, \<open>json.dumps\<close> with sorted keys and the text of a validation
  error (pydantic) are arguments.
\<close>

section \<open>What the child is told\<close>

definition max_context_hints :: nat where "max_context_hints = 12"
definition max_context_hint_value_chars :: nat where "max_context_hint_value_chars = 480"
definition max_sources :: nat where "max_sources = 16"
definition max_source_text_chars :: nat where "max_source_text_chars = 240"

definition safe_source_keys :: "string list" where
  "safe_source_keys = [''id'', ''node_id'', ''source_id'', ''title'', ''source'', ''source_type'', ''content_type'', ''page'',
     ''page_number'', ''document_id'', ''image_url'', ''url'', ''relevance_score'', ''score'', ''bounding_boxes'']"

definition compact_public_value :: "(pyval \<Rightarrow> string) \<Rightarrow> nat \<Rightarrow> pyval \<Rightarrow> string" where
  "compact_public_value dumps max_chars v =
     (let raw = (case v of PDict d \<Rightarrow> dumps v | PList xs \<Rightarrow> dumps v | _ \<Rightarrow> py_str v);
          text = redact_default (squash_spaces raw)
      in if length text > max_chars then take (max_chars - 1) text @ ''...'' else text)"

fun render_hints :: "(pyval \<Rightarrow> string) \<Rightarrow> pydict \<Rightarrow> (string \<times> string) list \<Rightarrow> (string \<times> string) list" where
  "render_hints dumps [] rendered = rendered"
| "render_hints dumps ((raw_key, v) # rest) rendered =
     (let key = py_strip (redact_default raw_key); value = compact_public_value dumps max_context_hint_value_chars v
      in render_hints dumps rest (if key = [] \<or> value = [] then rendered else dict_set key value rendered))"

definition safe_context_hints :: "log_ports \<Rightarrow> (pyval \<Rightarrow> string) \<Rightarrow> pydict \<Rightarrow> (string \<times> string) list" where
  "safe_context_hints p dumps hints =
     render_hints dumps (take max_context_hints (safe_payload_dict p (PDict hints))) []"

definition format_description :: "log_ports \<Rightarrow> (pyval \<Rightarrow> string) \<Rightarrow> subagent_task \<Rightarrow> string" where
  "format_description p dumps t =
     (let hints = safe_context_hints p dumps (tsk_context_hints t) in
      py_join [CHR 0x0A] (py_strip (tsk_description t)
        # (if hints = [] then []
           else [] # ''Context hints (do not echo verbatim):'' # map (\<lambda>(k, v). ''- '' @ k @ '': '' @ v) hints)))"

section \<open>What comes back\<close>

text \<open>A source: a dictionary, or an object whose \<open>model_dump\<close> gives one, or anything else.\<close>

datatype source_item = SourceFields pydict | SourceUnreadable

record child_response =
  cp_message :: string
  cp_sources :: "source_item list"
  cp_metadata :: pydict

definition count_tool_calls :: "child_response \<Rightarrow> int" where
  "count_tool_calls r =
     (case payload_field (cp_metadata r) ''tools_used'' of PList xs \<Rightarrow> int (length xs)
      | _ \<Rightarrow> (case payload_field (cp_metadata r) ''tool_calls'' of PList xs \<Rightarrow> int (length xs) | _ \<Rightarrow> 0))"

definition plain_item :: "pyval \<Rightarrow> bool" where
  "plain_item v = (case v of PStr s \<Rightarrow> True | PBool b \<Rightarrow> True | PInt i \<Rightarrow> True | PNone \<Rightarrow> True | _ \<Rightarrow> False)"

definition sanitize_source_value :: "(pyval \<Rightarrow> string) \<Rightarrow> pyval \<Rightarrow> pyval" where
  "sanitize_source_value dumps v =
     (case v of
        PStr s \<Rightarrow> PStr (compact_public_value dumps max_source_text_chars v)
      | PBool b \<Rightarrow> v
      | PInt i \<Rightarrow> v
      | PNone \<Rightarrow> v
      | PList xs \<Rightarrow> PList (take 8 xs)
      | PDict d \<Rightarrow> PDict (filter (\<lambda>(k, item). plain_item item) (take 16 d))
      | PTuple xs \<Rightarrow> PStr (compact_public_value dumps max_source_text_chars v))"

definition citation_of :: "log_ports \<Rightarrow> (pyval \<Rightarrow> string) \<Rightarrow> pydict \<Rightarrow> pydict" where
  "citation_of p dumps raw =
     map (\<lambda>(k, v). (k, sanitize_source_value dumps v))
       (filter (\<lambda>(k, v). k \<in> set safe_source_keys \<and> nonempty_item v) (safe_payload_dict p (PDict raw)))"

definition coerce_sources :: "log_ports \<Rightarrow> (pyval \<Rightarrow> string) \<Rightarrow> child_response \<Rightarrow> pyval list" where
  "coerce_sources p dumps r =
     List.map_filter (\<lambda>x. case x of
         SourceUnreadable \<Rightarrow> None
       | SourceFields raw \<Rightarrow> (let citation = citation_of p dumps raw in if citation = [] then None else Some (PDict citation)))
       (take max_sources (cp_sources r))"

section \<open>The runner\<close>

definition child_chat_request :: "log_ports \<Rightarrow> (pyval \<Rightarrow> string) \<Rightarrow> subagent_task \<Rightarrow> string \<Rightarrow> chat_request" where
  "child_chat_request p dumps t child =
     \<lparr> dq_session_id = Some child, dq_user_id = ''subagent::'' @ tsk_parent_session_id t,
       dq_organization_id = tsk_parent_org_id t, dq_message = format_description p dumps t, dq_role = ''student'',
       dq_domain_id = None \<rparr>"

text \<open>A message of a chat request has between one and ten thousand characters.\<close>

definition message_valid :: "chat_request \<Rightarrow> bool" where
  "message_valid q = (1 \<le> length (dq_message q) \<and> length (dq_message q) \<le> 10000)"

definition chatservice_subagent_runner ::
    "log_ports \<Rightarrow> (pyval \<Rightarrow> string) \<Rightarrow> (chat_request \<Rightarrow> string) \<Rightarrow> (chat_request \<Rightarrow> ('w, child_response) run) \<Rightarrow>
     subagent_task \<Rightarrow> string \<Rightarrow> ('w, runner_output) run" where
  "chatservice_subagent_runner p dumps invalid chat t child w =
     (let q = child_chat_request p dumps t child in
      if \<not> message_valid q then (Inl (Raises ''ValidationError'' (invalid q)), w)
      else and_then (chat q) (\<lambda>r. giving (SubagentOutput ((new_result ''success'')
        \<lparr>res_summary := cp_message r, res_sources := coerce_sources p dumps r,
         res_tool_calls_made := count_tool_calls r, res_child_session_id := child,
         res_raw_output := Some (cp_message r)\<rparr>))) w)"

text \<open>The runner bound to a \<open>SubagentRunner\<close>; the singleton is made and bound at its first use. \<open>given\<close> is the
  argument of the wiring, the results are the binding of its target and the singleton.\<close>

definition bind_if_unbound :: "'f \<Rightarrow> 'f option \<Rightarrow> 'f option" where
  "bind_if_unbound bridge slot = (case slot of None \<Rightarrow> Some bridge | Some f \<Rightarrow> Some f)"

definition get_subagent_runner :: "'f \<Rightarrow> 'f option option \<Rightarrow> 'f option" where
  "get_subagent_runner bridge singleton = bind_if_unbound bridge (case singleton of None \<Rightarrow> None | Some slot \<Rightarrow> slot)"

definition wire_default_subagent_runner :: "'f \<Rightarrow> 'f option option \<Rightarrow> 'f option option \<Rightarrow> 'f option \<times> 'f option option" where
  "wire_default_subagent_runner bridge given singleton =
     (case given of
        Some slot \<Rightarrow> (bind_if_unbound bridge slot, singleton)
      | None \<Rightarrow> (let slot = bind_if_unbound bridge (get_subagent_runner bridge singleton) in (slot, Some slot)))"

text \<open>A binding that is there stays.\<close>

theorem wiring_keeps_binding: "fst (wire_default_subagent_runner bridge (Some (Some f)) singleton) = Some f"
  by (simp add: wire_default_subagent_runner_def bind_if_unbound_def)

section \<open>Bounds\<close>

text \<open>The cut keeps one character less than the limit and then adds three.\<close>

lemma compact_public_value_length: "0 < m \<Longrightarrow> length (compact_public_value dumps m v) \<le> m + 2"
  by (simp add: compact_public_value_def Let_def)

theorem compact_exceeds_its_limit: "length (compact_public_value dumps 4 (PStr ''abcdef'')) = 6"
proof -
  have "compact_public_value (\<lambda>v. []) 4 (PStr ''abcdef'') = ''abc...''" by code_simp
  then show ?thesis by (simp add: compact_public_value_def)
qed

definition source_safe :: "pyval \<Rightarrow> bool" where
  "source_safe s = (case s of PDict d \<Rightarrow> d \<noteq> [] \<and> list_all (\<lambda>(k, v). k \<in> set safe_source_keys) d | _ \<Rightarrow> False)"

lemma coerce_sources_safe: "list_all source_safe (coerce_sources p dumps r)" "length (coerce_sources p dumps r) \<le> max_sources"
proof -
  have "list_all (\<lambda>(k, v). k \<in> set safe_source_keys) (citation_of p dumps raw)" for raw
    by (auto simp: citation_of_def list_all_iff)
  then show "list_all source_safe (coerce_sources p dumps r)"
    by (auto simp: coerce_sources_def list_all_iff map_filter_def source_safe_def Let_def split: source_item.splits if_splits)
  show "length (coerce_sources p dumps r) \<le> max_sources"
    unfolding coerce_sources_def map_filter_def by (simp add: le_trans [OF length_filter_le])
qed


section \<open>A child on the chat service\<close>

lemma bridged_output:
  assumes "fst (chatservice_subagent_runner p dumps invalid chat t c v) = Inr out" "c \<noteq> []"
  shows "list_all source_safe (res_sources (coerce_output c d out)) \<and> length (res_sources (coerce_output c d out)) \<le> max_sources
     \<and> res_child_session_id (coerce_output c d out) = c \<and> res_status (coerce_output c d out) = ''success''"
  using assms
  by (auto simp: chatservice_subagent_runner_def and_then_def giving_def coerce_output_def new_result_def coerce_sources_safe Let_def
      split: if_splits prod.splits sum.splits)

lemma derived_child: "derive_child_session_id i digits \<noteq> i" "derive_child_session_id i digits \<noteq> []"
  by (simp_all add: derive_child_session_id_def)

lemma bridge_keeps:
  assumes "\<And>q v. memory_invar (rw_log v) \<Longrightarrow> memory_invar (rw_log (snd (chat q v)))
      \<and> (\<forall>i. dq_session_id q \<noteq> Some i \<longrightarrow> logged (snd (chat q v)) i = logged v i)" "c \<noteq> i" "memory_invar (rw_log v)"
  shows "memory_invar (rw_log (snd (chatservice_subagent_runner p dumps invalid chat t c v)))
      \<and> logged (snd (chatservice_subagent_runner p dumps invalid chat t c v)) i = logged v i"
  using assms(1) [OF assms(3), of "child_chat_request p dumps t c"] assms(2,3)
  by (auto simp: chatservice_subagent_runner_def and_then_def giving_def child_chat_request_def Let_def
      split: prod.split sum.split)

text \<open>Property C19: a child agent that runs on the chat service, when the service writes only to the session of its request: the
  child works in its own session, so the parent's gets the start and the completion only, and its conversation
  and waiting calls are those of before; the result names that session, and its sources are at most sixteen,
  each with public fields only.\<close>

theorem bridged_child_isolated:
  assumes "re_append env = memory_port (re_ports env) clock" "memory_invar (rw_log w)"
    and chat: "\<And>q v. memory_invar (rw_log v) \<Longrightarrow> memory_invar (rw_log (snd (chat q v)))
        \<and> (\<forall>i. dq_session_id q \<noteq> Some i \<longrightarrow> logged (snd (chat q v)) i = logged v i)"
      "\<And>q v. fst (chat q v) \<noteq> Inl Cancelled"
  shows "\<exists>result started completed. let i = tsk_parent_session_id t;
       (r, w1) = run_subagent env True (Some (chatservice_subagent_runner (re_ports env) dumps invalid chat)) digits d t w;
       before = wake wp i org (logged w i); after = wake wp i org (logged w1 i)
     in r = Inr result \<and> logged w1 i = logged w i @ [started, completed]
        \<and> ws_messages after = ws_messages before \<and> ws_pending_tool_calls after = ws_pending_tool_calls before
        \<and> set (ws_pending_subagents after) \<subseteq> set (ws_pending_subagents before)
        \<and> res_child_session_id result = derive_child_session_id i digits \<and> res_status result \<in> {''success'', ''error''}
        \<and> list_all source_safe (res_sources result) \<and> length (res_sources result) \<le> 16"
proof -
  define i where "i = tsk_parent_session_id t"
  define c where "c = derive_child_session_id i digits"
  define f where "f = chatservice_subagent_runner (re_ports env) dumps invalid chat"
  have c: "c \<noteq> i" "c \<noteq> []" unfolding c_def by (rule derived_child)+
  have finishes: "fst (f t c v) \<noteq> Inl Cancelled" for v
    using chat(2) [of "child_chat_request (re_ports env) dumps t c" v]
    by (auto simp: f_def chatservice_subagent_runner_def and_then_def giving_def Let_def split: prod.split sum.split)
  have keeps: "memory_invar (rw_log (snd (f t c v))) \<and> logged (snd (f t c v)) (tsk_parent_session_id t)
      = logged v (tsk_parent_session_id t)" if "memory_invar (rw_log v)" for v
    unfolding f_def i_def [symmetric] by (rule bridge_keeps [OF chat(1) c(1) that])
  obtain r s e w1 v where 1: "run_subagent env True (Some f) digits d t w = (Inr r, w1)" "logged w1 i = logged w i @ [s, e]"
      "se_event_type s = ''subagent_started''" "se_event_type e = ''subagent_completed''"
      "\<forall>wp. tells_child wp c s \<and> tells_child wp c e"
      "(\<exists>out. fst (f t c v) = Inr out \<and> r = coerce_output c d out)
         \<or> (\<exists>k m. fst (f t c v) = Inl (Raises k m) \<and> r = failed_result c d k m)"
    unfolding i_def
    by (rule run_subagent_memory [OF assms(1,2) c_def [unfolded i_def], where f = f and d = d]) (use keeps finishes in auto)
  have result: "res_child_session_id r = c \<and> res_status r \<in> {''success'', ''error''} \<and> list_all source_safe (res_sources r)
      \<and> length (res_sources r) \<le> 16"
    using 1(6) bridged_output [OF _ c(2), of "re_ports env" dumps invalid chat t v _ d]
    by (auto simp: f_def failed_result_def new_result_def max_sources_def)
  show ?thesis
    using wake_child_pair [OF 1(5) [rule_format, THEN conjunct1] 1(5) [rule_format, THEN conjunct2] 1(3,4),
        of wp i org "logged w i"] result
    by (intro exI [of _ r] exI [of _ s] exI [of _ e])
      (simp add: i_def [symmetric] c_def [symmetric] f_def [symmetric] 1(1-4) Let_def)
qed

definition plain_chat :: "chat_request \<Rightarrow> ((memory_log, nat) turn_world, child_response) run" where
  "plain_chat q = giving \<lparr> cp_message = ''Rule 5'', cp_sources = [SourceFields [(''title'', PStr ''COLREG'')], SourceUnreadable],
     cp_metadata = [(''tools_used'', PList [PStr ''search''])] \<rparr>"

theorem bridged_child_isolated_witness:
  "\<exists>result started completed. let i = tsk_parent_session_id plain_task;
       (r, w1) = run_subagent plain_env True (Some (chatservice_subagent_runner (re_ports plain_env) (\<lambda>v. []) (\<lambda>q. []) plain_chat))
         ''0a1b2c3d'' 12 plain_task fresh_world;
       before = wake plain_wake i None (logged fresh_world i); after = wake plain_wake i None (logged w1 i)
     in r = Inr result \<and> logged w1 i = logged fresh_world i @ [started, completed]
        \<and> ws_messages after = ws_messages before \<and> ws_pending_tool_calls after = ws_pending_tool_calls before
        \<and> set (ws_pending_subagents after) \<subseteq> set (ws_pending_subagents before)
        \<and> res_child_session_id result = derive_child_session_id i ''0a1b2c3d'' \<and> res_status result \<in> {''success'', ''error''}
        \<and> list_all source_safe (res_sources result) \<and> length (res_sources result) \<le> 16"
  by (rule bridged_child_isolated [OF plain_env_append fresh_world_invar]) (simp_all add: plain_chat_def giving_def)

end
