(* ===== verification/Integration_Worker.thy ===== *)
theory Integration_Worker
  imports Composio_Config
begin

text \<open>
  \<open>app/engine/wiii_connect/integration_worker.py\<close>: the worker that stands between a delegate of the main model
  and the action executor. It validates the provider, lets the action policy select one action, maps the prompt
  to arguments where the model may not author them, and classifies what came back.
\<close>

section \<open>Plans\<close>

record worker_plan =
  iw_ready_status :: bool
  iw_reason :: string
  iw_provider_slug :: string
  iw_requested_provider_slug :: string
  iw_allowed_provider_slugs :: "string list"
  iw_prompt_present :: bool
  iw_requested_action_slug :: string
  iw_requested_mutation :: mutation
  iw_action_slug :: string
  iw_selected_mutation :: mutation
  iw_action_allowlist :: "string list"
  iw_action_policy :: "policy_decision option"
  iw_stage_sequence :: "string list"

definition worker_ready :: "worker_plan \<Rightarrow> bool" where
  "worker_ready w \<longleftrightarrow> iw_ready_status w \<and> iw_action_slug w \<noteq> []"

definition worker_status_name :: "worker_plan \<Rightarrow> string" where
  "worker_status_name w = (if iw_ready_status w then ''ready'' else ''blocked'')"

definition worker_plan_metadata :: "worker_plan \<Rightarrow> pydict" where
  "worker_plan_metadata w =
     [(''version'', PStr ''wiii_connect_integration_worker.v1''), (''status'', PStr (worker_status_name w)),
      (''reason'', PStr (iw_reason w)), (''executor'', PStr ''provider_worker''),
      (''provider_slug'', PStr (iw_provider_slug w)),
      (''requested_provider_slug'', PStr (iw_requested_provider_slug w)),
      (''allowed_provider_slugs'', str_list (iw_allowed_provider_slugs w)),
      (''prompt_present'', PBool (iw_prompt_present w)),
      (''requested_action_slug'', PStr (iw_requested_action_slug w)),
      (''requested_mutation'', PStr (scope_str (iw_requested_mutation w))),
      (''action_slug'', PStr (iw_action_slug w)),
      (''selected_mutation'', PStr (scope_str (iw_selected_mutation w))),
      (''action_allowlist'', str_list (iw_action_allowlist w)),
      (''stage_sequence'', str_list (iw_stage_sequence w))]
     @ (case iw_action_policy w of None \<Rightarrow> [] | Some d \<Rightarrow> [(''action_policy'', PDict (policy_decision_metadata d))])"

text \<open>\<open>_normalize_provider_allowlist\<close> and \<open>_normalize_action_allowlist\<close>.\<close>

definition worker_provider_allowlist :: "string list \<Rightarrow> string list" where
  "worker_provider_allowlist values = append_new [] (filter (\<lambda>s. s \<noteq> []) (map provider_slug80 values))"

definition worker_action_allowlist :: "string list \<Rightarrow> string list" where
  "worker_action_allowlist values = append_new [] (filter (\<lambda>s. s \<noteq> []) (map action_slug120 values))"

definition action_allowlists_by_provider :: "(string \<times> string list) list option \<Rightarrow> (string \<times> string list) list" where
  "action_allowlists_by_provider values =
     (case values of
        None \<Rightarrow> []
      | Some d \<Rightarrow> foldl (\<lambda>result (provider, actions).
          let slug = provider_slug80 provider; slugs = worker_action_allowlist actions
          in if slug \<noteq> [] \<and> slugs \<noteq> [] then dict_set slug slugs result else result) [] d)"

definition action_allowlist_for_provider ::
    "string \<Rightarrow> (string \<times> string list) list option \<Rightarrow> string list \<Rightarrow> string list" where
  "action_allowlist_for_provider provider scoped fallback =
     (case dict_get (action_allowlists_by_provider scoped) (provider_slug80 provider) of
        Some (a # as) \<Rightarrow> a # as
      | _ \<Rightarrow> worker_action_allowlist fallback)"

definition worker_policy_reason :: "policy_reason \<Rightarrow> string" where
  "worker_policy_reason r =
     (let reason = policy_reason_name r in
      if reason = ''missing_provider_slug'' then ''missing_provider_slug_policy''
      else if reason \<in> {''selected_explicit_action'', ''selected_single_read_action'', ''unknown_curated_action'',
          ''action_not_allowlisted'', ''no_enabled_actions'', ''explicit_action_required_for_mutation'',
          ''ambiguous_action_selection''}
      then reason else ''ready'')"

text \<open>The keyword arguments of a delegate call.\<close>

record worker_call =
  wk_provider_slug :: string
  wk_prompt :: string
  wk_action_slug :: string
  wk_mutation :: string
  wk_allowed_provider_slugs :: "string list"
  wk_allowed_action_slugs :: "(string \<times> string list) list option"

definition worker_base :: "worker_call \<Rightarrow> worker_plan" where
  "worker_base k =
     \<lparr> iw_ready_status = False, iw_reason = [], iw_provider_slug = [],
       iw_requested_provider_slug = provider_slug80 (wk_provider_slug k),
       iw_allowed_provider_slugs = worker_provider_allowlist (wk_allowed_provider_slugs k),
       iw_prompt_present = (py_strip (wk_prompt k) \<noteq> []),
       iw_requested_action_slug = action_slug120 (wk_action_slug k),
       iw_requested_mutation = safe_mutation (wk_mutation k), iw_action_slug = [],
       iw_selected_mutation = safe_mutation (wk_mutation k), iw_action_allowlist = [], iw_action_policy = None,
       iw_stage_sequence = [''provider_gate'', ''blocked''] \<rparr>"

definition plan_integration_worker :: "composio_config \<Rightarrow> worker_call \<Rightarrow> worker_plan" where
  "plan_integration_worker config k =
     (let allowed = worker_provider_allowlist (wk_allowed_provider_slugs k);
          named = provider_slug80 (wk_provider_slug k);
          provider = (if named = [] \<and> length allowed = 1 then hd allowed else named);
          base = worker_base k
      in if provider = [] then base\<lparr>iw_reason := ''missing_provider_slug''\<rparr>
         else if allowed \<noteq> [] \<and> provider \<notin> set allowed
         then base\<lparr>iw_reason := ''provider_not_agent_ready'', iw_provider_slug := provider\<rparr>
         else (case get_provider_entry provider of
           None \<Rightarrow> base\<lparr>iw_reason := ''unknown_wiii_connect_provider'', iw_provider_slug := provider\<rparr>
         | Some entry0 \<Rightarrow> let
             entry = composio_execution_enabled_entry entry0 config;
             allowlist = action_allowlist_for_provider (pe_slug entry) (wk_allowed_action_slugs k)
               (pe_action_allowlist entry);
             policy = select_action (pe_slug entry) (action_slug120 (wk_action_slug k))
               (scope_str (safe_mutation (wk_mutation k))) allowlist (wk_prompt k);
             chosen = base\<lparr>iw_reason := worker_policy_reason (pd_reason policy), iw_provider_slug := pe_slug entry,
               iw_action_slug := pd_action_slug policy, iw_action_allowlist := allowlist,
               iw_action_policy := Some policy\<rparr>
           in (case pd_selected_action policy of
                 None \<Rightarrow> chosen\<lparr>iw_stage_sequence := [''provider_gate'', ''action_policy'', ''blocked'']\<rparr>
               | Some a \<Rightarrow> if \<not> policy_selected policy
                   then chosen\<lparr>iw_stage_sequence := [''provider_gate'', ''action_policy'', ''blocked'']\<rparr>
                   else chosen\<lparr>iw_ready_status := True, iw_selected_mutation := ca_mutation a,
                     iw_stage_sequence := [''provider_gate'', ''action_policy'', ''ready'']\<rparr>)))"

section \<open>Arguments\<close>

definition worker_surface :: "string \<Rightarrow> string" where
  "worker_surface value =
     str_or (take 80 (dash_to_underscore (py_lower (py_strip value)))) ''unknown''"

record argument_plan =
  wa_source :: string
  wa_reason :: string
  wa_arguments :: pydict

definition argument_plan_keys :: "argument_plan \<Rightarrow> string list" where
  "argument_plan_keys r =
     sort (map safe_public_argument_key (filter (\<lambda>k. k \<noteq> []) (dict_keys (wa_arguments r))))"

definition argument_plan_metadata :: "argument_plan \<Rightarrow> pydict" where
  "argument_plan_metadata r =
     [(''version'', PStr ''wiii_connect_integration_worker.v1''), (''source'', PStr (wa_source r)),
      (''reason'', PStr (worker_surface (wa_reason r))),
      (''argument_keys'', str_list (argument_plan_keys r)),
      (''argument_count'', PInt (int (length (argument_plan_keys r))))]"

text \<open>The pattern \<open>\b(?:from|to|subject|label|older_than|newer_than|after|before):[^\s,;]{1,96}\<close>, ignoring case, and
  \<open>\b([1-9]|10)\b\<close>; the first argument says whether the character before is a word character.\<close>

definition query_words :: "string list" where
  "query_words = [''from'', ''to'', ''subject'', ''label'', ''older_than'', ''newer_than'', ''after'', ''before'']"

definition query_at :: "string \<Rightarrow> string option" where
  "query_at s =
     (case find (\<lambda>w. py_startswith (w @ '':'') (py_lower s)) query_words of
        None \<Rightarrow> None
      | Some w \<Rightarrow>
          let n = Suc (length w);
              tail = take 96 (takeWhile (\<lambda>c. \<not> py_isspace c \<and> c \<noteq> CHR '','' \<and> c \<noteq> CHR '';'') (drop n s))
          in if tail = [] then None else Some (take n s @ tail))"

fun search_query :: "bool \<Rightarrow> string \<Rightarrow> string option" where
  "search_query in_word [] = None"
| "search_query in_word (c # s) =
     (case (if in_word then None else query_at (c # s)) of
        Some m \<Rightarrow> Some m
      | None \<Rightarrow> search_query (py_isword c) s)"

definition extract_explicit_gmail_query :: "string \<Rightarrow> string" where
  "extract_explicit_gmail_query prompt =
     (case search_query False (py_strip prompt) of None \<Rightarrow> [] | Some m \<Rightarrow> take 120 m)"

definition word_ends :: "string \<Rightarrow> bool" where
  "word_ends s \<longleftrightarrow> (case s of [] \<Rightarrow> True | c # _ \<Rightarrow> \<not> py_isword c)"

fun search_limit :: "bool \<Rightarrow> string \<Rightarrow> nat option" where
  "search_limit in_word [] = None"
| "search_limit in_word (c # s) =
     (if \<not> in_word \<and> 49 \<le> code c \<and> code c \<le> 57 \<and> word_ends s then Some (code c - 48)
      else if \<not> in_word \<and> c = CHR ''1'' \<and> py_startswith ''0'' s \<and> word_ends (tl s) then Some 10
      else search_limit (py_isword c) s)"

definition worker_tokens :: "string \<Rightarrow> string list" where
  "worker_tokens value =
     remdups (token_runs [] (py_replace_char (CHR ''_'') (CHR '' '') (py_lower (ascii_fold value))))"

definition gmail_fetch_email_arguments :: "string \<Rightarrow> pydict" where
  "gmail_fetch_email_arguments prompt =
     (let tokens = set (worker_tokens prompt); explicit = extract_explicit_gmail_query prompt;
          q1 = (if explicit = [] \<and> (''teacher'' \<in> tokens \<or> {''giao'', ''vien''} \<subseteq> tokens)
            then ''from:teacher'' else explicit);
          q2 = (if q1 = [] \<and> (''unread'' \<in> tokens \<or> {''chua'', ''doc''} \<subseteq> tokens) then ''is:unread'' else q1)
      in if q2 = [] then []
         else [(''query'', PStr q2), (''max_results'', PInt (int (or_default (search_limit False prompt) 3)))])"

definition worker_safe_arguments :: "worker_plan \<Rightarrow> pydict option \<Rightarrow> pydict" where
  "worker_safe_arguments w values =
     (case values of
        None \<Rightarrow> []
      | Some d \<Rightarrow>
          let allowed = model_visible_argument_keys (iw_provider_slug w) (iw_action_slug w) (dict_keys d)
          in foldl (\<lambda>result (key, v).
              let safe = take 80 (normalize_argument_key key)
              in if safe \<noteq> [] \<and> safe \<in> set allowed then dict_set safe v result else result) [] d)"

definition build_worker_arguments :: "worker_plan \<Rightarrow> string \<Rightarrow> pydict option \<Rightarrow> argument_plan" where
  "build_worker_arguments w prompt provided =
     (let caller = worker_safe_arguments w provided in
      if caller \<noteq> []
      then \<lparr> wa_source = ''caller_provided'', wa_reason = ''internal_arguments_provided'', wa_arguments = caller \<rparr>
      else if \<not> worker_ready w
      then \<lparr> wa_source = ''none'', wa_reason = ''worker_plan_not_ready'', wa_arguments = [] \<rparr>
      else if iw_action_slug w = ''GMAIL_FETCH_EMAILS''
      then let arguments = gmail_fetch_email_arguments prompt in
        \<lparr> wa_source = (if arguments \<noteq> [] then ''backend_prompt_mapper'' else ''none''),
          wa_reason = (if arguments \<noteq> [] then ''gmail_fetch_email_prompt_mapper'' else ''missing_supported_gmail_query''),
          wa_arguments = arguments \<rparr>
      else if iw_action_slug w = ''FACEBOOK_LIST_MANAGED_PAGES''
      then \<lparr> wa_source = ''backend_prompt_mapper'', wa_reason = ''facebook_pages_default_read_arguments'',
        wa_arguments = [(''fields'', PStr ''id,name''), (''limit'', PInt 25)] \<rparr>
      else \<lparr> wa_source = ''none'', wa_reason = ''unsupported_worker_argument_mapper'', wa_arguments = [] \<rparr>)"

section \<open>Results\<close>

definition worker_block_payload :: "worker_plan \<Rightarrow> pydict" where
  "worker_block_payload w =
     [(''integration_worker'', PDict (worker_plan_metadata w)),
      (''action_catalog'', if iw_provider_slug w = [] then PNone
        else PDict (action_catalog_public_metadata (Some (iw_provider_slug w)) True (Some (iw_action_allowlist w))))]
     @ (case iw_action_policy w of None \<Rightarrow> [] | Some d \<Rightarrow> [(''action_policy'', PDict (policy_decision_metadata d))])"

definition worker_field :: "pydict \<Rightarrow> string \<Rightarrow> pyval" where
  "worker_field d k = or_default (dict_get d k) PNone"

definition worker_text :: "pydict \<Rightarrow> string \<Rightarrow> string" where
  "worker_text d k = py_strip (str_or_empty (worker_field d k))"

definition failed_stage_for_blocked_plan :: "worker_plan \<Rightarrow> string" where
  "failed_stage_for_blocked_plan w =
     (let sequence = filter (\<lambda>s. s \<noteq> [] \<and> s \<noteq> ''blocked'') (iw_stage_sequence w)
      in if sequence \<noteq> [] then last sequence else ''provider_gate'')"

definition failed_stage_for_payload :: "pydict \<Rightarrow> string" where
  "failed_stage_for_payload payload =
     (let error = py_lower (worker_text payload ''error'');
          at_gateway = (case worker_field payload ''gateway'' of
            PDict g \<Rightarrow> py_lower (worker_text g ''status'') = ''blocked'' \<or> py_lower (worker_text g ''reason'') \<noteq> []
          | _ \<Rightarrow> False);
          at_schema = (case worker_field payload ''schema'' of
            PDict s \<Rightarrow> worker_field s ''ready'' = PBool False | _ \<Rightarrow> False)
      in if error \<in> {''missing_required_arguments'', ''invalid_argument''} then ''argument_validation''
         else if at_gateway then ''gateway''
         else if at_schema then ''schema''
         else ''execute'')"

definition classification :: "worker_plan \<Rightarrow> string \<Rightarrow> string \<Rightarrow> string \<Rightarrow> string \<Rightarrow> pydict" where
  "classification w outcome status reason failed_stage =
     [(''version'', PStr ''wiii_connect_integration_worker.v1''), (''outcome'', PStr outcome),
      (''status'', PStr (worker_surface status)), (''reason'', PStr (worker_surface reason)),
      (''failed_stage'', PStr (if failed_stage \<noteq> [] then worker_surface failed_stage else [])),
      (''provider_slug'', PStr (iw_provider_slug w)), (''action_slug'', PStr (iw_action_slug w)),
      (''plan_status'', PStr (worker_status_name w)), (''plan_reason'', PStr (iw_reason w))]"

definition classify_worker_result :: "pydict \<Rightarrow> worker_plan \<Rightarrow> pydict" where
  "classify_worker_result payload w =
     (let status = worker_text payload ''status''; success = worker_field payload ''success'';
          error = worker_field payload ''error'';
          reason = (if truthy error then py_strip (py_str error) else worker_text payload ''reason'')
      in if \<not> iw_ready_status w
         then classification w ''blocked'' (str_or status ''action_failed'') (str_or reason (iw_reason w))
           (failed_stage_for_blocked_plan w)
         else if status = ''action_completed'' \<or> success = PBool True
         then classification w ''completed'' (str_or status ''action_completed'') (str_or reason ''completed'') []
         else if status = ''action_requested''
         then classification w ''requested'' status (str_or reason ''action_requested'') []
         else if status = ''validation_failed''
         then classification w ''validation_required'' status (str_or reason ''validation_failed'') ''argument_validation''
         else if status = ''approval_required''
         then classification w ''approval_required'' status (str_or reason ''approval_required'') ''approval''
         else if status = ''preview_required''
         then classification w ''preview_required'' status (str_or reason ''preview_required'') ''preview''
         else if status = ''action_failed'' \<or> success = PBool False
         then classification w ''failed'' (str_or status ''action_failed'') (str_or reason ''action_failed'')
           (failed_stage_for_payload payload)
         else classification w ''unknown'' (str_or status ''unknown'') (str_or reason ''unknown'') ''unknown'')"

section \<open>Lemmas\<close>

lemma registry_slug80:
  assumes "get_provider_entry slug = Some e"
  shows "provider_slug80 (pe_slug e) = pe_slug e"
proof -
  have "list_all (\<lambda>e. provider_slug80 (pe_slug e) = pe_slug e) provider_registry" by code_simp
  with get_provider_entry_Some [OF assms] show ?thesis by (simp add: list_all_iff)
qed

lemma worker_base_fields [simp]:
  "\<not> iw_ready_status (worker_base k)"
  "iw_allowed_provider_slugs (worker_base k) = worker_provider_allowlist (wk_allowed_provider_slugs k)"
  by (simp_all add: worker_base_def)

text \<open>A ready plan is one the action policy selected, for an entry of the catalogue.\<close>

lemma plan_ready_cases:
  assumes "worker_ready (plan_integration_worker config k)"
  obtains provider e act where
    "provider = (if provider_slug80 (wk_provider_slug k) = []
        \<and> length (worker_provider_allowlist (wk_allowed_provider_slugs k)) = 1
      then hd (worker_provider_allowlist (wk_allowed_provider_slugs k)) else provider_slug80 (wk_provider_slug k))"
    "worker_provider_allowlist (wk_allowed_provider_slugs k) = []
      \<or> provider \<in> set (worker_provider_allowlist (wk_allowed_provider_slugs k))"
    "get_provider_entry provider = Some e"
    "iw_provider_slug (plan_integration_worker config k) = pe_slug e"
    "iw_action_allowlist (plan_integration_worker config k)
      = action_allowlist_for_provider (pe_slug e) (wk_allowed_action_slugs k)
          (pe_action_allowlist (composio_execution_enabled_entry e config))"
    "policy_selected (select_action (pe_slug e) (action_slug120 (wk_action_slug k))
      (scope_str (safe_mutation (wk_mutation k)))
      (iw_action_allowlist (plan_integration_worker config k)) (wk_prompt k))"
    "pd_selected_action (select_action (pe_slug e) (action_slug120 (wk_action_slug k))
      (scope_str (safe_mutation (wk_mutation k)))
      (iw_action_allowlist (plan_integration_worker config k)) (wk_prompt k)) = Some act"
    "iw_action_slug (plan_integration_worker config k)
      = pd_action_slug (select_action (pe_slug e) (action_slug120 (wk_action_slug k))
      (scope_str (safe_mutation (wk_mutation k)))
      (iw_action_allowlist (plan_integration_worker config k)) (wk_prompt k))"
    "iw_selected_mutation (plan_integration_worker config k) = ca_mutation act"
  using assms
  by (auto simp: plan_integration_worker_def worker_ready_def Let_def enabled_entry_slug split: option.splits if_splits)

lemma search_query_le: "search_query b s = Some m \<Longrightarrow> m \<noteq> []"
  by (induction b s rule: search_query.induct)
    (auto simp: query_at_def Let_def split: option.splits if_splits)

lemma search_limit_range: "search_limit b s = Some n \<Longrightarrow> 1 \<le> n \<and> n \<le> 10"
  by (induction b s rule: search_limit.induct) (auto split: if_splits)

lemma gmail_arguments_shape:
  "gmail_fetch_email_arguments prompt = [] \<or> (\<exists>query n. gmail_fetch_email_arguments prompt
      = [(''query'', PStr query), (''max_results'', PInt n)]
    \<and> query \<noteq> [] \<and> length query \<le> 120 \<and> 1 \<le> n \<and> n \<le> 10)"
proof -
  have "length (extract_explicit_gmail_query prompt) \<le> 120"
    by (auto simp: extract_explicit_gmail_query_def split: option.split)
  moreover have "1 \<le> or_default (search_limit False prompt) 3" "or_default (search_limit False prompt) 3 \<le> 10"
    using search_limit_range [of False prompt] by (auto simp: or_default_def split: option.split)
  ultimately show ?thesis
    by (auto simp: gmail_fetch_email_arguments_def Let_def)
qed

lemma worker_safe_arguments_keys:
  "set (dict_keys (foldl (\<lambda>result (key, v).
        let safe = take 80 (normalize_argument_key key)
        in if safe \<noteq> [] \<and> safe \<in> set allowed then dict_set safe v result else result) r d))
     \<subseteq> set allowed \<union> set (dict_keys (r :: pydict))"
proof (induction d arbitrary: r)
  case (Cons kv d)
  obtain key v where kv: "kv = (key, v)" by force
  let ?safe = "take 80 (normalize_argument_key key)"
  let ?r = "if ?safe \<noteq> [] \<and> ?safe \<in> set allowed then dict_set ?safe v r else r"
  have "set (dict_keys ?r) \<subseteq> set allowed \<union> set (dict_keys r)" by simp
  with Cons [of ?r] show ?case by (simp only: kv foldl_Cons prod.case Let_def) blast
qed simp

lemma worker_safe_arguments_not_sensitive:
  assumes "k \<in> set (dict_keys (worker_safe_arguments w values))"
  shows "\<not> is_sensitive_argument_key k"
proof (cases "values")
  case (Some d)
  with assms worker_safe_arguments_keys [of "model_visible_argument_keys (iw_provider_slug w) (iw_action_slug w)
      (dict_keys d)" "[]" d]
  have "k \<in> set (model_visible_argument_keys (iw_provider_slug w) (iw_action_slug w) (dict_keys d))"
    by (simp only: worker_safe_arguments_def option.case dict_keys_empty Let_def list.set Un_empty_right) blast
  then show ?thesis by (rule model_visible_keys_not_sensitive)
qed (use assms in \<open>simp add: worker_safe_arguments_def\<close>)

lemma curated_slug120: "act \<in> set curated_actions \<Longrightarrow> action_slug120 (ca_slug act) = ca_slug act"
proof -
  have "list_all (\<lambda>a. action_slug120 (ca_slug a) = ca_slug a) curated_actions" by code_simp
  then show "act \<in> set curated_actions \<Longrightarrow> ?thesis" by (simp add: list_all_iff)
qed

section \<open>Properties\<close>

text \<open>Property C20: a plan that is ready stays in its scope: its action is reviewed for the plan's provider and is on the
  allowlist the plan used, its mutation is that of the catalogue, the provider is one the delegate was given,
  and an action that changes anything, or previews a change, was named by the caller.\<close>

theorem worker_plan_in_scope:
  assumes "worker_ready (plan_integration_worker config k)"
  shows "let w = plan_integration_worker config k; allowed = worker_provider_allowlist (wk_allowed_provider_slugs k);
      asked = action_slug120 (wk_action_slug k)
    in \<exists>act \<in> set curated_actions. ca_slug act = iw_action_slug w \<and> ca_provider_slug act = iw_provider_slug w
      \<and> ca_mutation act = iw_selected_mutation w
      \<and> (\<exists>listed \<in> set (iw_action_allowlist w). action_slug120 (action_slug120 listed) = iw_action_slug w)
      \<and> (allowed \<noteq> [] \<longrightarrow> (\<exists>p \<in> set allowed. normalize_provider_slug p = iw_provider_slug w))
      \<and> (iw_selected_mutation w \<noteq> Read \<longrightarrow> action_slug120 asked \<noteq> [])
      \<and> (action_slug120 asked \<noteq> [] \<longrightarrow> iw_action_slug w = normalize_action_slug (action_slug120 asked))"
  using assms
proof (rule plan_ready_cases)
  fix provider and e :: provider_entry and act
  let ?w = "plan_integration_worker config k"
  let ?d = "select_action (pe_slug e) (action_slug120 (wk_action_slug k)) (scope_str (safe_mutation (wk_mutation k)))
      (iw_action_allowlist ?w) (wk_prompt k)"
  assume allowed: "worker_provider_allowlist (wk_allowed_provider_slugs k) = []
      \<or> provider \<in> set (worker_provider_allowlist (wk_allowed_provider_slugs k))"
    and entry: "get_provider_entry provider = Some e" and slug: "iw_provider_slug ?w = pe_slug e"
    and sel: "policy_selected ?d" and act: "pd_selected_action ?d = Some act"
    and action: "iw_action_slug ?w = pd_action_slug ?d" and mutation: "iw_selected_mutation ?w = ca_mutation act"
  have norm: "normalize_provider_slug (provider_slug80 (pe_slug e)) = pe_slug e"
    "normalize_provider_slug provider = pe_slug e"
    using provider_slug_normal [OF entry] registry_slug80 [OF entry] by simp_all
  note facts = select_action_selected [OF sel, unfolded act, simplified]
  have in_list: "\<exists>listed \<in> set al. action_slug120 (action_slug120 listed) = ca_slug act"
    if "ca_slug act \<in> set (allowed_action_set al) \<or> ca_slug act \<in> set (allowed_action_set (allowed_action_set al))"
      and "act \<in> set curated_actions" for al
    using that curated_slug120 [of act] by (auto simp: allowed_action_set_def)
  show ?thesis
    using facts allowed slug action mutation norm in_list [of "iw_action_allowlist ?w"]
    by (auto simp: Let_def split: if_splits)
qed

definition example_worker_call :: worker_call where
  "example_worker_call =
     \<lparr> wk_provider_slug = [], wk_prompt = [], wk_action_slug = [], wk_mutation = ''read'',
       wk_allowed_provider_slugs = ['' Gmail ''], wk_allowed_action_slugs = Some [(''gmail'', [''gmail-fetch-emails''])] \<rparr>"

theorem worker_plan_in_scope_witness:
  "\<exists>act \<in> set curated_actions. ca_slug act = ''GMAIL_FETCH_EMAILS'' \<and> ca_provider_slug act = ''gmail''
     \<and> ca_mutation act = Read"
proof -
  let ?w = "plan_integration_worker example_config example_worker_call"
  have ready: "worker_ready ?w" by code_simp
  have "iw_action_slug ?w = ''GMAIL_FETCH_EMAILS'' \<and> iw_provider_slug ?w = ''gmail''
      \<and> iw_selected_mutation ?w = Read" by code_simp
  with worker_plan_in_scope [OF ready] show ?thesis unfolding Let_def by force
qed

text \<open>Property C33: what the worker sends as arguments never holds a sensitive key. Arguments the caller did not provide
  are made for a ready plan only, for two read actions, and are bounded: a search of at most 120 characters
  with at most ten results, or the fixed list of Pages.\<close>

theorem worker_arguments_safe:
  "let r = build_worker_arguments w prompt provided in
     filter is_sensitive_argument_key (dict_keys (wa_arguments r)) = []
   \<and> (wa_source r = ''caller_provided'' \<or> wa_arguments r = []
      \<or> worker_ready w \<and> iw_action_slug w = ''GMAIL_FETCH_EMAILS''
         \<and> (\<exists>query n. wa_arguments r = [(''query'', PStr query), (''max_results'', PInt n)]
              \<and> query \<noteq> [] \<and> length query \<le> 120 \<and> 1 \<le> n \<and> n \<le> 10)
      \<or> worker_ready w \<and> iw_action_slug w = ''FACEBOOK_LIST_MANAGED_PAGES''
         \<and> wa_arguments r = [(''fields'', PStr ''id,name''), (''limit'', PInt 25)])"
proof -
  let ?r = "build_worker_arguments w prompt provided"
  have clean: "\<not> is_sensitive_argument_key ''query''" "\<not> is_sensitive_argument_key ''max_results''"
    "\<not> is_sensitive_argument_key ''fields''" "\<not> is_sensitive_argument_key ''limit''"
    by code_simp+
  have "filter is_sensitive_argument_key (dict_keys (wa_arguments ?r)) = []"
  proof (cases "worker_safe_arguments w provided = []")
    case True
    then show ?thesis
      using gmail_arguments_shape [of prompt]
      by (auto simp: build_worker_arguments_def Let_def dict_keys_def clean)
  next
    case False
    then show ?thesis
      using worker_safe_arguments_not_sensitive
      by (auto simp: build_worker_arguments_def filter_empty_conv)
  qed
  then show ?thesis
    using gmail_arguments_shape [of prompt] by (auto simp: build_worker_arguments_def Let_def)
qed

text \<open>The result of a blocked plan is always reported as blocked, at a stage of the plan; a completed result
  only for a ready plan.\<close>

theorem classify_worker_result_outcome:
  "dict_get (classify_worker_result payload w) ''outcome''
     = Some (PStr (if \<not> iw_ready_status w then ''blocked''
         else if worker_text payload ''status'' = ''action_completed'' \<or> worker_field payload ''success'' = PBool True
         then ''completed''
         else (case map_of [(''action_requested'', ''requested''), (''validation_failed'', ''validation_required''),
             (''approval_required'', ''approval_required''), (''preview_required'', ''preview_required'')]
             (worker_text payload ''status'') of
           Some outcome \<Rightarrow> outcome
         | None \<Rightarrow> if worker_text payload ''status'' = ''action_failed'' \<or> worker_field payload ''success'' = PBool False
             then ''failed'' else ''unknown'')))"
  by (simp add: classify_worker_result_def classification_def dict_get_def Let_def)

text \<open>The scoped allowlist of a delegate takes the place of the operator's allowlist: whatever the
  configuration is, a plan is ready for an apply action that the scope names, also when it was asked for as a
  read. Only the executor's own checks stop it later.\<close>

theorem worker_scope_replaces_operator_list:
  "let w = plan_integration_worker config (example_worker_call\<lparr>wk_provider_slug := ''facebook'',
         wk_allowed_provider_slugs := [], wk_action_slug := ''FACEBOOK_CREATE_POST'',
         wk_allowed_action_slugs := Some [(''facebook'', [''FACEBOOK_CREATE_POST''])]\<rparr>)
   in worker_ready w \<and> iw_action_slug w = ''FACEBOOK_CREATE_POST'' \<and> iw_selected_mutation w = Apply
      \<and> iw_requested_mutation w = Read"
proof -
  let ?scoped = "Some [(''facebook'', [''FACEBOOK_CREATE_POST''])]"
  let ?d = "select_action ''facebook'' ''FACEBOOK_CREATE_POST'' ''read'' [''FACEBOOK_CREATE_POST''] []"
  have entry: "get_provider_entry ''facebook'' = Some (hd provider_registry)" "pe_slug (hd provider_registry) = ''facebook''"
    by code_simp+
  have allow: "action_allowlist_for_provider ''facebook'' ?scoped fallback = [''FACEBOOK_CREATE_POST'']" for fallback
    by (simp add: action_allowlist_for_provider_def, code_simp)
  have sel: "policy_selected ?d" "pd_action_slug ?d = ''FACEBOOK_CREATE_POST''"
    "map_option ca_mutation (pd_selected_action ?d) = Some Apply"
    by code_simp+
  have words: "provider_slug80 ''facebook'' = ''facebook''" "worker_provider_allowlist [] = []"
    "action_slug120 ''FACEBOOK_CREATE_POST'' = ''FACEBOOK_CREATE_POST''" "scope_str (safe_mutation ''read'') = ''read''"
    "safe_mutation ''read'' = Read"
    by code_simp+
  have "\<exists>act. pd_selected_action ?d = Some act \<and> ca_mutation act = Apply"
    using sel(3) by (cases "pd_selected_action ?d") auto
  then show ?thesis
    using sel(1,2) by (auto simp: plan_integration_worker_def worker_base_def worker_ready_def example_worker_call_def
        words entry enabled_entry_slug allow Let_def)
qed

end
