(* ===== verification/Readiness.thy ===== *)
theory Readiness
  imports Connection_Routes Composio_Config
begin

text \<open>
  What a provider can do right now: \<open>app/engine/wiii_connect/action_inventory.py\<close>, the rows of the effective
  actions, \<open>app/engine/wiii_connect/activation_readiness.py\<close>, the ladder of activation gates, and the read-only
  routes of \<open>app/api/v1/wiii_connect.py\<close> that show them. Both project the execution gateway.
\<close>

section \<open>The action inventory\<close>

datatype stage_status = StageReady | StagePending | StageBlocked
datatype row_status = RowReady | RowGuarded | RowBlocked

fun stage_status_name :: "stage_status \<Rightarrow> string" where
  "stage_status_name StageReady = ''ready''"
| "stage_status_name StagePending = ''pending''"
| "stage_status_name StageBlocked = ''blocked''"

fun row_status_name :: "row_status \<Rightarrow> string" where
  "row_status_name RowReady = ''ready''"
| "row_status_name RowGuarded = ''guarded''"
| "row_status_name RowBlocked = ''blocked''"

definition guarded_reasons :: "deny_reason list" where
  "guarded_reasons = [MissingPreviewEvidence, MissingApprovalToken]"

record action_stage =
  eg_key :: string
  eg_status :: stage_status
  eg_reason :: string
  eg_required_next :: "string list"

definition action_stage_metadata :: "action_stage \<Rightarrow> pydict" where
  "action_stage_metadata s =
     [(''key'', PStr (eg_key s)), (''status'', PStr (stage_status_name (eg_status s))),
      (''reason'', PStr (eg_reason s)), (''required_next'', str_list (eg_required_next s))]"

record effective_action =
  ef_slug :: string
  ef_provider_slug :: string
  ef_label :: string
  ef_mutation :: mutation
  ef_path :: string
  ef_status :: row_status
  ef_reason :: string
  ef_runtime_enabled :: bool
  ef_visible_to_agent :: bool
  ef_executable_now :: bool
  ef_requires_preview :: bool
  ef_requires_approval :: bool
  ef_required_scopes :: "scope_name list"
  ef_argument_keys :: "string list"
  ef_hidden_argument_count :: nat
  ef_stages :: "action_stage list"
  ef_gateway :: "gateway_decision option"
  ef_warnings :: "string list"

definition effective_action_metadata :: "effective_action \<Rightarrow> pydict" where
  "effective_action_metadata a =
     [(''version'', PStr ''wiii_connect_action_inventory.v1''),
      (''slug'', PStr (ef_slug a)), (''provider_slug'', PStr (ef_provider_slug a)), (''label'', PStr (ef_label a)),
      (''mutation'', PStr (scope_str (ef_mutation a))), (''path'', PStr (ef_path a)),
      (''status'', PStr (row_status_name (ef_status a))), (''reason'', PStr (ef_reason a)),
      (''runtime_enabled'', PBool (ef_runtime_enabled a)),
      (''visible_to_agent'', PBool (ef_visible_to_agent a)),
      (''executable_now'', PBool (ef_executable_now a)),
      (''requires_preview'', PBool (ef_requires_preview a)),
      (''requires_approval'', PBool (ef_requires_approval a)),
      (''required_scopes'', str_list (map scope_str (ef_required_scopes a))),
      (''argument_policy_version'', PStr ''wiii_connect_argument_key_policy.v1''),
      (''argument_keys'', str_list (ef_argument_keys a)),
      (''model_argument_keys'', str_list (ef_argument_keys a)),
      (''hidden_argument_count'', PInt (int (ef_hidden_argument_count a))),
      (''stages'', PList (map (\<lambda>s. PDict (action_stage_metadata s)) (ef_stages a))),
      (''gateway'', case ef_gateway a of None \<Rightarrow> PNone | Some g \<Rightarrow> PDict (gateway_to_public_metadata g)),
      (''warnings'', str_list (ef_warnings a))]"

record effective_inventory =
  iv_provider_slug :: string
  iv_provider_kind :: provider_kind
  iv_status :: row_status
  iv_reason :: string
  iv_connection_ref_present :: bool
  iv_connection_present :: bool
  iv_connection_active :: bool
  iv_selected_connection_required :: bool
  iv_catalog_action_count :: nat
  iv_runtime_enabled_action_count :: nat
  iv_visible_action_count :: nat
  iv_executable_action_count :: nat
  iv_actions :: "effective_action list"
  iv_storage :: "pydict option"

definition inventory_storage_keys :: "string list" where
  "inventory_storage_keys = [''version'', ''enabled'', ''persistent'', ''connection_table_ready'', ''audit_ledger_ready'',
     ''backend'', ''reason'']"

fun is_scalar :: "pyval \<Rightarrow> bool" where
  "is_scalar (PDict d) = False"
| "is_scalar (PList xs) = False"
| "is_scalar (PTuple xs) = False"
| "is_scalar _ = True"

definition inventory_storage_metadata :: "pydict \<Rightarrow> pydict" where
  "inventory_storage_metadata storage =
     filter (\<lambda>(key, v). key \<in> set inventory_storage_keys \<and> is_scalar v) storage"

definition effective_inventory_metadata :: "effective_inventory \<Rightarrow> pydict" where
  "effective_inventory_metadata i =
     [(''version'', PStr ''wiii_connect_action_inventory.v1''),
      (''provider_slug'', PStr (iv_provider_slug i)),
      (''provider_kind'', PStr (provider_kind_name (iv_provider_kind i))),
      (''status'', PStr (row_status_name (iv_status i))), (''reason'', PStr (iv_reason i)),
      (''connection_ref_present'', PBool (iv_connection_ref_present i)),
      (''connection_present'', PBool (iv_connection_present i)),
      (''connection_active'', PBool (iv_connection_active i)),
      (''selected_connection_required'', PBool (iv_selected_connection_required i)),
      (''catalog_action_count'', PInt (int (iv_catalog_action_count i))),
      (''runtime_enabled_action_count'', PInt (int (iv_runtime_enabled_action_count i))),
      (''visible_action_count'', PInt (int (iv_visible_action_count i))),
      (''executable_action_count'', PInt (int (iv_executable_action_count i))),
      (''actions'', PList (map (\<lambda>a. PDict (effective_action_metadata a)) (iv_actions i))),
      (''storage'', PDict (inventory_storage_metadata (or_default (iv_storage i) [])))]"

definition required_scope_granted :: "curated_action \<Rightarrow> connection_record option \<Rightarrow> bool" where
  "required_scope_granted a connection =
     (case connection of
        None \<Rightarrow> False
      | Some c \<Rightarrow> list_all (scope_allows (cr_scopes c)) (list_or (ca_required_scopes a) [Read]))"

definition action_block_reason :: "bool \<Rightarrow> string \<Rightarrow> string" where
  "action_block_reason runtime_enabled reason =
     (if \<not> runtime_enabled then ''action_not_runtime_enabled'' else str_or reason ''blocked'')"

definition is_active :: "connection_record option \<Rightarrow> bool" where
  "is_active connection = (case connection of None \<Rightarrow> False | Some c \<Rightarrow> conn_active c)"

definition action_stages ::
    "bool \<Rightarrow> provider_entry \<Rightarrow> connection_record option \<Rightarrow> bool \<Rightarrow> gateway_decision \<Rightarrow> action_stage list" where
  "action_stages runtime_enabled entry connection scope_visible gateway =
     (let reason = xd_reason (gd_decision gateway) in
      [\<lparr> eg_key = ''catalog'', eg_status = StageReady, eg_reason = ''curated'', eg_required_next = [] \<rparr>,
       \<lparr> eg_key = ''runtime_enablement'', eg_status = (if runtime_enabled then StageReady else StageBlocked),
         eg_reason = (if runtime_enabled then ''enabled'' else ''action_not_runtime_enabled''),
         eg_required_next = (if runtime_enabled then [] else [''enable_action_runtime_allowlist'']) \<rparr>,
       \<lparr> eg_key = ''account'',
         eg_status = (if is_active connection then StageReady else if connection \<noteq> None then StagePending else StageBlocked),
         eg_reason = (if is_active connection then ''connected''
           else if connection \<noteq> None then ''connection_not_connected'' else ''connection_missing''),
         eg_required_next = (if is_active connection then []
           else if connection \<noteq> None then [''refresh_or_reconnect_provider_account'']
           else [''connect_provider_account'']) \<rparr>,
       \<lparr> eg_key = ''agent_policy'',
         eg_status = (if pe_enabled entry \<and> pe_agent_ready entry \<and> scope_visible then StageReady else StageBlocked),
         eg_reason = (if pe_enabled entry \<and> pe_agent_ready entry
           then (if scope_visible then ''agent_ready'' else ''missing_scope'') else ''provider_not_agent_ready''),
         eg_required_next = (if pe_enabled entry \<and> pe_agent_ready entry
           then (if scope_visible then [] else [''grant_required_scope'']) else [''enable_provider_agent_policy'']) \<rparr>,
       \<lparr> eg_key = ''gateway'',
         eg_status = (if gateway_allowed gateway then StageReady
           else if reason \<in> set guarded_reasons then StagePending else StageBlocked),
         eg_reason = deny_reason_name reason, eg_required_next = gd_required_next gateway \<rparr>])"

text \<open>The arguments of the inventory that its rows share.\<close>

record inventory_args =
  ia_entry :: provider_entry
  ia_connection :: "connection_record option"
  ia_adapter :: adapter_capability
  ia_ledger :: "pydict option"
  ia_connection_selection_required :: bool
  ia_scope_policy :: "scope_policy option"

definition inventory_request :: "provider_entry \<Rightarrow> curated_action \<Rightarrow> exec_request" where
  "inventory_request entry a =
     \<lparr> xr_provider_slug = pe_slug entry, xr_action_slug = ca_slug a, xr_path = ca_path a,
       xr_mutation = ca_mutation a, xr_approval_token_present = False, xr_preview_evidence_id = None,
       xr_preview_evidence_required = ca_requires_preview a, xr_argument_keys = ca_argument_keys a,
       xr_request_id = [] \<rparr>"

definition inventory_gateway :: "inventory_args \<Rightarrow> curated_action \<Rightarrow> gateway_decision" where
  "inventory_gateway g a =
     decide_execution_gateway
       \<lparr> ga_entry = ia_entry g, ga_connection = ia_connection g, ga_request = inventory_request (ia_entry g) a,
         ga_adapter = Some (ia_adapter g), ga_ledger = Some (or_default (ia_ledger g) []),
         ga_require_persistent_audit = True,
         ga_connection_selection_required = ia_connection_selection_required g,
         ga_scope_policy = Some (or_default (ia_scope_policy g) (scope_policy_for_provider_entry (ia_entry g))) \<rparr>"

definition effective_action_record :: "inventory_args \<Rightarrow> bool \<Rightarrow> curated_action \<Rightarrow> effective_action" where
  "effective_action_record g runtime_enabled a =
     (let gateway = inventory_gateway g a;
          reason = xd_reason (gd_decision gateway);
          scope_visible = required_scope_granted a (ia_connection g);
          visible = (runtime_enabled \<and> pe_enabled (ia_entry g) \<and> pe_agent_ready (ia_entry g)
            \<and> is_active (ia_connection g) \<and> scope_visible);
          executable = (runtime_enabled \<and> gateway_allowed gateway);
          guarded = (visible \<and> reason \<in> set guarded_reasons)
      in \<lparr> ef_slug = ca_slug a, ef_provider_slug = ca_provider_slug a, ef_label = ca_label a,
           ef_mutation = ca_mutation a, ef_path = ca_path a,
           ef_status = (if executable then RowReady else if guarded then RowGuarded else RowBlocked),
           ef_reason = (if executable then ''ready'' else if guarded then deny_reason_name reason
             else action_block_reason runtime_enabled (deny_reason_name reason)),
           ef_runtime_enabled = runtime_enabled, ef_visible_to_agent = visible, ef_executable_now = executable,
           ef_requires_preview = ca_requires_preview a, ef_requires_approval = ca_requires_approval a,
           ef_required_scopes = ca_required_scopes a,
           ef_argument_keys = model_visible_argument_keys (ca_provider_slug a) (ca_slug a) (ca_argument_keys a),
           ef_hidden_argument_count =
             hidden_model_argument_key_count (ca_provider_slug a) (ca_slug a) (ca_argument_keys a),
           ef_stages = action_stages runtime_enabled (ia_entry g) (ia_connection g) scope_visible gateway,
           ef_gateway = Some gateway, ef_warnings = ca_warnings a \<rparr>)"

definition inventory_block_reason ::
    "provider_entry \<Rightarrow> connection_record option \<Rightarrow> bool \<Rightarrow> effective_action list \<Rightarrow> string" where
  "inventory_block_reason entry connection selection_required actions =
     (if \<not> pe_enabled entry \<or> \<not> pe_agent_ready entry then ''provider_not_agent_ready''
      else if selection_required then ''connection_selection_required''
      else if connection = None then ''connection_missing''
      else if \<not> is_active connection then ''connection_not_connected''
      else if actions = [] then ''no_curated_actions''
      else if list_all (\<lambda>a. \<not> ef_runtime_enabled a) actions then ''no_runtime_enabled_actions''
      else if list_all (\<lambda>a. ef_reason a = ''missing_scope'') actions then ''missing_scope''
      else ef_reason (hd actions))"

definition build_effective_action_inventory ::
    "inventory_args \<Rightarrow> string list \<Rightarrow> bool \<Rightarrow> pydict option \<Rightarrow> effective_inventory" where
  "build_effective_action_inventory g runtime_enabled_slugs ref_present storage =
     (let enabled = map normalize_action_slug (filter (\<lambda>s. py_strip s \<noteq> []) runtime_enabled_slugs);
          actions = map (\<lambda>a. effective_action_record g (ca_slug a \<in> set enabled) a)
            (list_curated_actions (Some (pe_slug (ia_entry g))) True);
          visible = length (filter ef_visible_to_agent actions);
          executable = length (filter ef_executable_now actions)
      in \<lparr> iv_provider_slug = pe_slug (ia_entry g), iv_provider_kind = pe_provider_kind (ia_entry g),
           iv_status = (if executable > 0 then RowReady else if visible > 0 then RowGuarded else RowBlocked),
           iv_reason = (if executable > 0 then ''ready'' else if visible > 0 then ''preview_or_approval_required''
             else inventory_block_reason (ia_entry g) (ia_connection g) (ia_connection_selection_required g) actions),
           iv_connection_ref_present = ref_present,
           iv_connection_present = (ia_connection g \<noteq> None), iv_connection_active = is_active (ia_connection g),
           iv_selected_connection_required = ia_connection_selection_required g,
           iv_catalog_action_count = length actions,
           iv_runtime_enabled_action_count = length (filter ef_runtime_enabled actions),
           iv_visible_action_count = visible, iv_executable_action_count = executable,
           iv_actions = actions, iv_storage = storage \<rparr>)"


section \<open>Activation readiness\<close>

definition activation_sensitive_markers :: "string list" where
  "activation_sensitive_markers = [''token'', ''secret'', ''password'', ''credential'', ''api_key'', ''client_key'',
     ''private_key'', ''authorization_code'', ''oauth_code'']"

definition activation_safe_key :: "string \<Rightarrow> string" where
  "activation_safe_key value = str_or (take 120 (dash_to_underscore (py_lower (py_strip value)))) ''unknown''"

definition activation_safe_reason :: "string \<Rightarrow> string" where
  "activation_safe_reason value =
     (let text = dash_to_underscore (py_lower (py_strip value)) in
      if contains_any activation_sensitive_markers text then ''redacted_sensitive_value''
      else str_or (take 160 text) ''ready'')"

definition activation_safe_text :: "string \<Rightarrow> string" where
  "activation_safe_text value =
     (let text = py_strip value in
      if contains_any activation_sensitive_markers (py_lower text) then ''redacted_sensitive_value'' else take 240 text)"

fun activation_safe_value :: "pyval \<Rightarrow> pyval"
  and activation_safe_items :: "pydict \<Rightarrow> pydict \<Rightarrow> pydict" where
  "activation_safe_value (PDict d) = PDict (activation_safe_items [] d)"
| "activation_safe_value (PList xs) = PList (map activation_safe_value xs)"
| "activation_safe_value (PTuple xs) = PList (map activation_safe_value xs)"
| "activation_safe_value (PStr s) = PStr (activation_safe_text s)"
| "activation_safe_value v = v"
| "activation_safe_items acc [] = acc"
| "activation_safe_items acc ((key, v) # rest) = activation_safe_items
     (let k = activation_safe_key key in
      if contains_any activation_sensitive_markers (py_lower k)
      then dict_set ''redacted_sensitive_field'' (PStr ''[redacted]'') acc
      else dict_set k (activation_safe_value v) acc) rest"

definition activation_safe_metadata :: "pydict \<Rightarrow> pydict" where
  "activation_safe_metadata d = activation_safe_items [] d"

record activation_gate =
  ag_key :: string
  ag_ready :: bool
  ag_reason :: string
  ag_required_next :: "string list"
  ag_metadata :: pydict

definition activation_gate_metadata :: "activation_gate \<Rightarrow> pydict" where
  "activation_gate_metadata g =
     [(''key'', PStr (activation_safe_key (ag_key g))), (''ready'', PBool (ag_ready g)),
      (''reason'', PStr (activation_safe_reason (ag_reason g))),
      (''required_next'', str_list (map activation_safe_key (ag_required_next g))),
      (''metadata'', PDict (activation_safe_metadata (ag_metadata g)))]"

definition activation_provider_gate :: "provider_entry option \<Rightarrow> activation_gate" where
  "activation_provider_gate entry =
     (case entry of
        None \<Rightarrow> \<lparr> ag_key = ''provider_registered'', ag_ready = False, ag_reason = ''unknown_provider'',
          ag_required_next = [''register_provider''], ag_metadata = [] \<rparr>
      | Some e \<Rightarrow>
          let metadata = [(''provider_kind'', PStr (provider_kind_name (pe_provider_kind e)))] in
          if pe_provider_kind e \<noteq> Composio
          then \<lparr> ag_key = ''provider_registered'', ag_ready = False, ag_reason = ''provider_kind_not_composio'',
            ag_required_next = [''select_composio_provider''], ag_metadata = metadata \<rparr>
          else \<lparr> ag_key = ''provider_registered'', ag_ready = True, ag_reason = ''ready'', ag_required_next = [],
            ag_metadata = metadata \<rparr>)"

definition activation_adapter_gate :: "adapter_capability \<Rightarrow> activation_gate" where
  "activation_adapter_gate c =
     \<lparr> ag_key = ''provider_adapter'', ag_ready = authorization_ready c, ag_reason = ac_reason c,
       ag_required_next = (if authorization_ready c then [] else [''configure_composio_adapter'']),
       ag_metadata = [(''bound'', PBool (ac_bound c)), (''configured'', PBool (ac_configured c)),
         (''can_create_authorization_url'', PBool (ac_can_create_authorization_url c)),
         (''can_execute_actions'', PBool (ac_can_execute_actions c))] \<rparr>"

definition activation_vault_gate :: "vault_capability \<Rightarrow> activation_gate" where
  "activation_vault_gate c =
     \<lparr> ag_key = ''vault'', ag_ready = can_store_external_secret c, ag_reason = vc_reason c,
       ag_required_next = (if can_store_external_secret c then [] else [''configure_provider_managed_vault'']),
       ag_metadata = [(''backend'', PStr (vault_backend_name (vc_backend c))),
         (''provider_managed'', PBool (vc_provider_managed c))] \<rparr>"

definition storage_reason :: "pydict \<Rightarrow> string \<Rightarrow> string" where
  "storage_reason storage word =
     (case dict_get storage ''reason'' of None \<Rightarrow> word | Some v \<Rightarrow> if truthy v then py_str v else word)"

definition activation_storage_gate :: "pydict \<Rightarrow> activation_gate" where
  "activation_storage_gate storage =
     (let ready = connection_storage_ready storage in
      \<lparr> ag_key = ''persistent_storage'', ag_ready = ready,
        ag_reason = storage_reason storage (if ready then ''ready'' else ''storage_not_ready''),
        ag_required_next = (if ready then [] else [''apply_wiii_connect_storage_migration'']),
        ag_metadata = [(''persistent'', PBool (get_flag storage ''persistent'')),
          (''connection_table_ready'', PBool (get_flag storage ''connection_table_ready'')),
          (''audit_ledger_ready'', PBool (get_flag storage ''audit_ledger_ready''))] \<rparr>)"

definition activation_audit_gate :: "pydict \<Rightarrow> activation_gate" where
  "activation_audit_gate storage =
     (let ready = audit_persistent storage in
      \<lparr> ag_key = ''audit_ledger'', ag_ready = ready,
        ag_reason = storage_reason storage (if ready then ''ready'' else ''audit_not_ready''),
        ag_required_next = (if ready then [] else [''configure_persistent_audit_ledger'']),
        ag_metadata = [(''persistent'', PBool (get_flag storage ''persistent'')),
          (''audit_ledger_ready'', PBool (get_flag storage ''audit_ledger_ready''))] \<rparr>)"

definition activation_policy_gate :: "provider_entry option \<Rightarrow> activation_gate" where
  "activation_policy_gate entry =
     (let ready = (case entry of None \<Rightarrow> False | Some e \<Rightarrow> pe_enabled e) in
      \<lparr> ag_key = ''connect_policy'', ag_ready = ready, ag_reason = (if ready then ''ready'' else ''provider_disabled''),
        ag_required_next = (if ready then [] else [''enable_connect_policy'']),
        ag_metadata = [(''agent_ready'', PBool (case entry of None \<Rightarrow> False | Some e \<Rightarrow> pe_agent_ready e)),
          (''connect_requirements'', str_list (case entry of None \<Rightarrow> [] | Some e \<Rightarrow> connection_requirements e)),
          (''agent_ready_requirements'', str_list (case entry of None \<Rightarrow> [] | Some e \<Rightarrow> pe_agent_ready_requirements e))] \<rparr>)"

definition activation_action_gate :: "curated_action option \<Rightarrow> bool \<Rightarrow> activation_gate" where
  "activation_action_gate action runtime_enabled =
     (case action of
        None \<Rightarrow> \<lparr> ag_key = ''curated_action'', ag_ready = False, ag_reason = ''action_not_curated'',
          ag_required_next = [''curate_action''], ag_metadata = [] \<rparr>
      | Some a \<Rightarrow>
          \<lparr> ag_key = (if ca_mutation a = Read then ''curated_readonly_action'' else ''curated_action''),
            ag_ready = runtime_enabled,
            ag_reason = (if runtime_enabled then ''ready'' else ''action_not_runtime_enabled''),
            ag_required_next = (if runtime_enabled then [] else [''enable_action_allowlist'']),
            ag_metadata = [(''action_slug'', PStr (ca_slug a)), (''mutation'', PStr (scope_str (ca_mutation a))),
              (''runtime_enabled'', PBool runtime_enabled), (''requires_preview'', PBool (ca_requires_preview a)),
              (''requires_approval'', PBool (ca_requires_approval a))] \<rparr>)"

definition activation_connection_metadata :: "connection_record option \<Rightarrow> pydict" where
  "activation_connection_metadata connection =
     (case connection of
        None \<Rightarrow> [(''present'', PBool False), (''state'', PStr ''missing''), (''active'', PBool False),
          (''vault_ref_present'', PBool False), (''scopes'', PDict []), (''reason'', PStr ''connection_missing''),
          (''warnings'', PList [])]
      | Some c \<Rightarrow> [(''present'', PBool True), (''provider_slug'', PStr (activation_safe_key (cr_provider_slug c))),
          (''state'', PStr (state_name (cr_state c))), (''active'', PBool (conn_active c)),
          (''scopes'', PDict (scope_to_metadata (cr_scopes c))),
          (''vault_ref_present'', PBool (cr_vault_ref c \<noteq> None)),
          (''account_label_present'', PBool (cr_account_label c \<noteq> [])),
          (''external_account_ref_present'', PBool (cr_external_account_ref c \<noteq> [])),
          (''last_checked_at_present'', PBool (present (cr_last_checked_at c))),
          (''reason'', PStr (activation_safe_reason (cr_reason c))),
          (''warnings'', str_list (map activation_safe_reason (cr_warnings c)))])"

definition activation_connection_gate :: "connection_record option \<Rightarrow> activation_gate" where
  "activation_connection_gate connection =
     (case connection of
        None \<Rightarrow> \<lparr> ag_key = ''local_connection'', ag_ready = False, ag_reason = ''connection_missing'',
          ag_required_next = [''complete_provider_oauth''], ag_metadata = [] \<rparr>
      | Some c \<Rightarrow>
          \<lparr> ag_key = ''local_connection'', ag_ready = conn_active c,
            ag_reason = (if conn_active c then ''ready'' else ''connection_not_connected''),
            ag_required_next = (if conn_active c then [] else [''refresh_or_reconnect_provider_account'']),
            ag_metadata = activation_connection_metadata connection \<rparr>)"

definition activation_gateway_gate :: "gateway_decision option \<Rightarrow> activation_gate" where
  "activation_gateway_gate gateway =
     (case gateway of
        None \<Rightarrow> \<lparr> ag_key = ''execution_gateway'', ag_ready = False, ag_reason = ''gateway_not_evaluated'',
          ag_required_next = [''evaluate_execution_gateway''], ag_metadata = [] \<rparr>
      | Some g \<Rightarrow>
          \<lparr> ag_key = ''execution_gateway'', ag_ready = gateway_allowed g,
            ag_reason = deny_reason_name (xd_reason (gd_decision g)), ag_required_next = gd_required_next g,
            ag_metadata = [(''connection_present'', PBool (gd_connection_present g)),
              (''audit_persistent'', PBool (gd_audit_persistent g))] \<rparr>)"

definition first_blocked_gate_reason :: "activation_gate list \<Rightarrow> string" where
  "first_blocked_gate_reason gates =
     (case find (\<lambda>g. \<not> ag_ready g) gates of None \<Rightarrow> ''connected'' | Some g \<Rightarrow> ag_reason g)"

definition activation_storage_keys :: "string list" where
  "activation_storage_keys = [''version'', ''enabled'', ''persistent'', ''backend'', ''connection_table_ready'',
     ''audit_ledger_ready'', ''reason'', ''warnings'']"

definition activation_storage_metadata :: "pydict \<Rightarrow> pydict" where
  "activation_storage_metadata storage =
     map (\<lambda>(key, v). (key, activation_safe_value v)) (filter (\<lambda>(key, v). key \<in> set activation_storage_keys) storage)"

definition activation_action_metadata :: "curated_action option \<Rightarrow> bool \<Rightarrow> pyval" where
  "activation_action_metadata action runtime_enabled =
     (case action of None \<Rightarrow> PNone
      | Some a \<Rightarrow> PDict (activation_safe_metadata
          (dict_set ''runtime_enabled'' (PBool runtime_enabled) (curated_action_metadata a))))"

record readiness_args =
  ra_provider_slug :: string
  ra_connect_entry :: "provider_entry option"
  ra_execution_entry :: "provider_entry option"
  ra_adapter :: adapter_capability
  ra_vault :: vault_capability
  ra_storage :: pydict
  ra_action :: "curated_action option"
  ra_action_runtime_enabled :: bool
  ra_connection :: "connection_record option"
  ra_gateway :: "gateway_decision option"

definition activation_gates :: "readiness_args \<Rightarrow> activation_gate list" where
  "activation_gates r =
     [activation_provider_gate (ra_connect_entry r), activation_adapter_gate (ra_adapter r),
      activation_vault_gate (ra_vault r), activation_storage_gate (ra_storage r),
      activation_audit_gate (ra_storage r), activation_policy_gate (ra_connect_entry r),
      activation_action_gate (ra_action r) (ra_action_runtime_enabled r),
      activation_connection_gate (ra_connection r), activation_gateway_gate (ra_gateway r)]"

definition ready_to_connect :: "readiness_args \<Rightarrow> bool" where
  "ready_to_connect r \<longleftrightarrow>
     (case ra_connect_entry r of None \<Rightarrow> False | Some e \<Rightarrow> pe_enabled e)
     \<and> authorization_ready (ra_adapter r) \<and> can_store_external_secret (ra_vault r)
     \<and> connection_storage_ready (ra_storage r) \<and> audit_persistent (ra_storage r)"

definition ready_to_execute_action :: "readiness_args \<Rightarrow> bool" where
  "ready_to_execute_action r \<longleftrightarrow>
     ready_to_connect r \<and> (ra_action r \<noteq> None \<and> ra_action_runtime_enabled r) \<and> is_active (ra_connection r)
     \<and> (case ra_gateway r of None \<Rightarrow> False | Some g \<Rightarrow> gateway_allowed g)"

definition activation_lifecycle :: "readiness_args \<Rightarrow> lifecycle_decision" where
  "activation_lifecycle r =
     build_connection_lifecycle_decision
       \<lparr> la_provider_slug = ra_provider_slug r, la_connection = map_option connection_view_of (ra_connection r),
         la_status = None,
         la_reason = (case ra_connection r of
            Some c \<Rightarrow> if cr_reason c \<noteq> [] then activation_safe_reason (cr_reason c)
              else first_blocked_gate_reason (activation_gates r)
          | None \<Rightarrow> first_blocked_gate_reason (activation_gates r)),
         la_connection_present = None, la_active = None,
         la_agent_ready = (case ra_execution_entry r of None \<Rightarrow> False | Some e \<Rightarrow> pe_agent_ready e),
         la_ready_to_connect = ready_to_connect r, la_ready_to_execute_action = ready_to_execute_action r,
         la_required_next = None \<rparr>"

definition build_activation_readiness_metadata :: "readiness_args \<Rightarrow> pydict" where
  "build_activation_readiness_metadata r =
     (let entry_metadata = (\<lambda>entry. case entry of None \<Rightarrow> PNone | Some e \<Rightarrow> PDict (provider_to_public_metadata e)) in
      [(''version'', PStr ''wiii_connect_activation_readiness.v1''),
       (''status'', PStr (if ready_to_execute_action r then ''ready'' else ''blocked'')),
       (''provider_slug'', PStr (activation_safe_key (ra_provider_slug r))),
       (''provider_kind'', PStr (provider_kind_name (case ra_connect_entry r of
          None \<Rightarrow> ac_provider_kind (ra_adapter r) | Some e \<Rightarrow> pe_provider_kind e))),
       (''ready_to_connect'', PBool (ready_to_connect r)),
       (''ready_to_execute_action'', PBool (ready_to_execute_action r)),
       (''ready_to_execute_readonly'', PBool (ready_to_execute_action r
          \<and> (case ra_action r of None \<Rightarrow> False | Some a \<Rightarrow> ca_mutation a = Read))),
       (''gates'', PList (map (\<lambda>g. PDict (activation_gate_metadata g)) (activation_gates r))),
       (''provider'', entry_metadata (ra_connect_entry r)),
       (''execution_provider'', entry_metadata (ra_execution_entry r)),
       (''adapter'', PDict (adapter_metadata (ra_adapter r))),
       (''vault'', PDict (vault_capability_metadata (ra_vault r))),
       (''storage'', PDict (activation_storage_metadata (ra_storage r))),
       (''action'', activation_action_metadata (ra_action r) (ra_action_runtime_enabled r)),
       (''connection'', PDict (activation_connection_metadata (ra_connection r))),
       (''connection_lifecycle'', PDict (lifecycle_to_public_metadata (activation_lifecycle r))),
       (''execution_gateway'', case ra_gateway r of None \<Rightarrow> PNone | Some g \<Rightarrow> PDict (gateway_to_public_metadata g))])"


section \<open>The routes\<close>

text \<open>\<open>GET /providers/{slug}/effective-actions\<close> and \<open>GET /providers/{slug}/activation-readiness\<close>.\<close>

definition route_inventory_args ::
    "post_env \<Rightarrow> provider_entry \<Rightarrow> connection_record option \<Rightarrow> string \<Rightarrow> pydict \<Rightarrow> inventory_args" where
  "route_inventory_args n entry connection ref storage =
     \<lparr> ia_entry = entry, ia_connection = connection, ia_adapter = composio_capability (en_config n),
       ia_ledger = Some [(''persistent'', PBool (audit_persistent storage))],
       ia_connection_selection_required = (ref = []),
       ia_scope_policy = Some (scope_policy_for_provider_entry entry) \<rparr>"

definition effective_inventory_of ::
    "post_env \<Rightarrow> provider_entry \<Rightarrow> string option \<Rightarrow> bool \<Rightarrow> world \<Rightarrow> effective_inventory \<times> world" where
  "effective_inventory_of n entry0 conn_ref probe w =
     (let entry = composio_execution_enabled_entry entry0 (en_config n);
          storage = probed_storage probe n;
          (connection, ref, _, w1) = load_selected_connection storage (en_clock n) entry (en_user n)
            (or_default conn_ref []) w
      in (build_effective_action_inventory (route_inventory_args n entry connection ref storage)
            (executable_action_slugs_for_provider (en_config n) (pe_slug entry)) (ref \<noteq> []) (Some storage), w1))"

definition effective_actions_route ::
    "post_env \<Rightarrow> string \<Rightarrow> string option \<Rightarrow> bool \<Rightarrow> world \<Rightarrow> (api_error + pydict) \<times> world" where
  "effective_actions_route n slug conn_ref probe w =
     (case get_provider_entry slug of
        None \<Rightarrow> (Inl unknown_provider, w)
      | Some entry \<Rightarrow> let (i, w1) = effective_inventory_of n entry conn_ref probe w
          in (Inr (effective_inventory_metadata i), w1))"

definition default_activation_action_slug :: "string \<Rightarrow> string" where
  "default_activation_action_slug provider_slug =
     (let actions = list_curated_actions (Some provider_slug) True;
          candidates = list_or (filter (\<lambda>a. ca_mutation a = Read) actions) actions
      in if candidates = [] then [] else ca_slug (hd candidates))"

definition activation_request :: "provider_entry \<Rightarrow> string \<Rightarrow> curated_action option \<Rightarrow> exec_request" where
  "activation_request entry action curated =
     \<lparr> xr_provider_slug = pe_slug entry, xr_action_slug = action,
       xr_path = (case curated of None \<Rightarrow> ''external_app_action'' | Some a \<Rightarrow> ca_path a),
       xr_mutation = (case curated of None \<Rightarrow> Read | Some a \<Rightarrow> ca_mutation a),
       xr_approval_token_present = False, xr_preview_evidence_id = None,
       xr_preview_evidence_required = (case curated of None \<Rightarrow> False | Some a \<Rightarrow> ca_requires_preview a),
       xr_argument_keys = (case curated of None \<Rightarrow> [] | Some a \<Rightarrow> ca_argument_keys a), xr_request_id = [] \<rparr>"

definition activation_args_of ::
    "post_env \<Rightarrow> provider_entry \<Rightarrow> string option \<Rightarrow> string option \<Rightarrow> string \<Rightarrow> bool \<Rightarrow> world \<Rightarrow>
     readiness_args \<times> world" where
  "activation_args_of n entry0 connection_id conn_ref action_slug probe w =
     (let config = en_config n;
          connect_entry = composio_connect_enabled_entry entry0 config;
          entry = composio_execution_enabled_entry entry0 config;
          action = str_or (action_slug120 action_slug) (default_activation_action_slug (pe_slug entry));
          storage = probed_storage probe n;
          (connection, ref, _, w1) = load_selected_connection storage (en_clock n) entry (en_user n)
            (or_default (opt_or conn_ref connection_id) []) w;
          curated = get_curated_action (pe_slug entry) action;
          enabled = (case curated of None \<Rightarrow> False
            | Some a \<Rightarrow> ca_slug a \<in> set (executable_action_slugs_for_provider config (pe_slug entry)));
          gateway = post_gateway config entry connection (activation_request entry action curated) storage ref
      in (\<lparr> ra_provider_slug = pe_slug connect_entry, ra_connect_entry = Some connect_entry,
            ra_execution_entry = Some entry, ra_adapter = composio_capability config,
            ra_vault = composio_vault_capability config, ra_storage = storage, ra_action = curated,
            ra_action_runtime_enabled = enabled, ra_connection = connection, ra_gateway = Some gateway \<rparr>, w1))"

definition activation_readiness_route ::
    "post_env \<Rightarrow> string \<Rightarrow> string option \<Rightarrow> string option \<Rightarrow> string \<Rightarrow> bool \<Rightarrow> world \<Rightarrow>
     (api_error + pydict) \<times> world" where
  "activation_readiness_route n slug connection_id conn_ref action_slug probe w =
     (case get_provider_entry slug of
        None \<Rightarrow> (Inl unknown_provider, w)
      | Some entry \<Rightarrow> let (r, w1) = activation_args_of n entry connection_id conn_ref action_slug probe w
          in (Inr (build_activation_readiness_metadata r), w1))"

text \<open>The routes that read no connection.\<close>

definition provider_actions_route :: "composio_config \<Rightarrow> string \<Rightarrow> api_error + pydict" where
  "provider_actions_route config slug =
     (case get_provider_entry slug of
        None \<Rightarrow> Inl unknown_provider
      | Some entry \<Rightarrow> Inr (action_catalog_public_metadata (Some (pe_slug entry)) True
          (Some (executable_action_slugs_for_provider config (pe_slug entry)))))"

definition provider_status_route :: "composio_config \<Rightarrow> string \<Rightarrow> api_error + pydict" where
  "provider_status_route config slug =
     (case get_provider_entry slug of
        None \<Rightarrow> Inl unknown_provider
      | Some entry \<Rightarrow> Inr (session_status_metadata (provider_connection_status_for_entry
          (composio_execution_enabled_entry entry config))))"

definition audit_ledger_status_route :: "bool \<Rightarrow> post_env \<Rightarrow> pydict" where
  "audit_ledger_status_route probe n =
     (let storage = probed_storage probe n;
          backend = (case dict_get storage ''backend'' of
            Some v \<Rightarrow> if truthy v then py_str v else ''memory_contract'' | None \<Rightarrow> ''memory_contract'')
      in dict_set ''storage'' (PDict storage)
           (audit_ledger_status_public_metadata (audit_persistent storage)
             (if probe then backend else ''memory_contract'')))"

definition adapter_status_route :: "composio_config \<Rightarrow> pydict" where
  "adapter_status_route config = provider_adapter_status_public_metadata [] [composio_capability config]"


section \<open>Lemmas\<close>

text \<open>The catalogue: every action is a read, or an apply that needs a preview; slugs are upper case and no patterns.\<close>

lemma catalogue_facts:
  assumes "a \<in> set curated_actions"
  shows "ca_mutation a = Read \<or> ca_mutation a = Apply" "ca_requires_preview a \<longleftrightarrow> ca_mutation a = Apply"
    "ca_path a = ''external_app_action''" "ca_required_scopes a = [ca_mutation a]"
    "py_upper (py_strip (ca_slug a)) = ca_slug a" "ca_slug a \<noteq> []" "CHR ''-'' \<notin> set (ca_slug a)"
    "b \<in> set curated_actions \<Longrightarrow> pattern_grants (ca_slug a) (ca_slug b) \<longleftrightarrow> ca_slug a = ca_slug b"
    "b \<in> set curated_actions \<Longrightarrow> ca_slug a = ca_slug b \<Longrightarrow> a = b"
proof -
  have "list_all (\<lambda>a. (ca_mutation a = Read \<or> ca_mutation a = Apply) \<and> (ca_requires_preview a \<longleftrightarrow> ca_mutation a = Apply)
      \<and> ca_path a = ''external_app_action'' \<and> ca_required_scopes a = [ca_mutation a]
      \<and> py_upper (py_strip (ca_slug a)) = ca_slug a \<and> ca_slug a \<noteq> [] \<and> CHR ''-'' \<notin> set (ca_slug a)) curated_actions"
    "list_all (\<lambda>a. list_all (\<lambda>b. pattern_grants (ca_slug a) (ca_slug b) = (ca_slug a = ca_slug b)
      \<and> (ca_slug a = ca_slug b \<longrightarrow> a = b)) curated_actions) curated_actions"
    by code_simp+
  with assms show "ca_mutation a = Read \<or> ca_mutation a = Apply" "ca_requires_preview a \<longleftrightarrow> ca_mutation a = Apply"
    "ca_path a = ''external_app_action''" "ca_required_scopes a = [ca_mutation a]"
    "py_upper (py_strip (ca_slug a)) = ca_slug a" "ca_slug a \<noteq> []" "CHR ''-'' \<notin> set (ca_slug a)"
    "b \<in> set curated_actions \<Longrightarrow> pattern_grants (ca_slug a) (ca_slug b) \<longleftrightarrow> ca_slug a = ca_slug b"
    "b \<in> set curated_actions \<Longrightarrow> ca_slug a = ca_slug b \<Longrightarrow> a = b"
    by (simp_all add: list_all_iff)
qed

lemma registry_path: "e \<in> set provider_registry \<Longrightarrow> ''external_app_action'' \<in> set (pe_allowed_paths e)"
proof -
  have "list_all (\<lambda>e. ''external_app_action'' \<in> set (pe_allowed_paths e)) provider_registry" by code_simp
  then show "e \<in> set provider_registry \<Longrightarrow> ?thesis" by (simp add: list_all_iff)
qed

lemma allows_permitted:
  fixes e :: provider_entry
  assumes e: "e \<in> set provider_registry" and a: "a \<in> set curated_actions" and p: "ca_provider_slug a = pe_slug e"
    and s: "py_upper (py_strip s) = ca_slug a"
  shows "allows_action (composio_execution_enabled_entry e c) s \<longleftrightarrow> adapter_usable c \<and> operator_permits c (pe_slug e) a"
proof -
  let ?listed = "registry_reads c (pe_slug e) @ registry_applies c (pe_slug e)"
  have norm: "normalize_provider_slug (pe_slug e) = pe_slug e" using registry_slug_normal [OF e] by simp
  have listed: "set ?listed = ca_slug ` {b. operator_permits c (pe_slug e) b}"
    using set_registry_actions [of c "pe_slug e"] by (simp only: norm)
  have "(\<exists>b. operator_permits c (pe_slug e) b \<and> pattern_grants (ca_slug a) (ca_slug b)) \<longleftrightarrow> operator_permits c (pe_slug e) a"
    using catalogue_facts(8,9) [OF a] a by (auto simp: operator_permits_def)
  then have "list_ex (pattern_grants (ca_slug a)) ?listed \<longleftrightarrow> operator_permits c (pe_slug e) a"
    unfolding list_ex_iff listed by blast
  then show ?thesis
    using catalogue_facts(6) [OF a]
    by (simp add: allows_action_def s registry_execution_entry(6) [OF e] list_ex_iff Bex_def)
qed

lemma capability_executes:
  assumes "adapter_usable c" "operator_permits c p a"
  shows "ac_can_execute_actions (composio_capability c)"
proof -
  have pos: "0 < sum_list (map (length \<circ> snd) table)"
    if member: "x \<in> set (normalized_slugs (or_default (dict_get table p) []))" for x :: string and table :: "(string \<times> string list) list"
  proof -
    obtain xs where "dict_get table p = Some xs" "xs \<noteq> []"
      using member by (cases "dict_get table p") (fastforce simp: or_default_def normalized_slugs_def)+
    then have "(p, xs) \<in> set table" "0 < length xs" by (auto simp: dict_get_def dest: map_of_SomeD)
    then show ?thesis by (force simp: sum_list_nonneg_eq_0_iff simp flip: neq0_conv)
  qed
  have "cx_readonly_execute_enabled c \<and> readonly_action_count c > 0 \<or> cx_apply_execute_enabled c \<and> apply_action_count c > 0"
    using assms(2) pos unfolding operator_permits_def readonly_action_count_def apply_action_count_def by blast
  then show ?thesis
    using assms(1) by (auto simp: composio_capability_def adapter_usable_def Let_def)
qed


text \<open>Both projections ask the gateway of the post routes.\<close>

lemma inventory_gateway_post:
  "inventory_gateway (route_inventory_args n entry connection ref storage) a
     = post_gateway (en_config n) entry connection (activation_request entry (ca_slug a) (Some a)) storage ref"
  by (simp add: inventory_gateway_def route_inventory_args_def post_gateway_def inventory_request_def
      activation_request_def or_default_def)

text \<open>What an action needs apart from preview and approval.\<close>

definition action_open :: "composio_config \<Rightarrow> string \<Rightarrow> connection_record option \<Rightarrow> string \<Rightarrow> curated_action \<Rightarrow> bool" where
  "action_open config provider connection ref a \<longleftrightarrow>
     adapter_usable config \<and> operator_permits config provider a \<and> ref \<noteq> []
     \<and> (\<exists>c. connection = Some c \<and> conn_active c \<and> scope_allows (cr_scopes c) (ca_mutation a))"

lemma projected_reason:
  fixes e :: provider_entry and storage :: pydict and config :: composio_config and s ref :: string
    and connection :: "connection_record option" and a :: curated_action
  assumes e: "e \<in> set provider_registry" and a: "a \<in> set curated_actions" and p: "ca_provider_slug a = pe_slug e"
    and s: "py_upper (py_strip s) = ca_slug a"
    and con: "list_all (\<lambda>c. cr_provider_slug c = pe_slug e \<and> audit_persistent storage) (case connection of None \<Rightarrow> [] | Some c \<Rightarrow> [c])"
  defines "entry \<equiv> composio_execution_enabled_entry e config"
  defines "reason \<equiv> xd_reason (gd_decision (post_gateway config entry connection (activation_request entry s (Some a)) storage ref))"
  shows "reason = ReasonAllowed \<longleftrightarrow> action_open config (pe_slug e) connection ref a \<and> ca_mutation a = Read"
    "reason \<in> set guarded_reasons \<longleftrightarrow> action_open config (pe_slug e) connection ref a \<and> ca_mutation a = Apply"
proof -
  let ?g = "\<lparr> ga_entry = entry, ga_connection = connection, ga_request = activation_request entry s (Some a),
         ga_adapter = Some (composio_capability config),
         ga_ledger = Some [(''persistent'', PBool (audit_persistent storage))],
         ga_require_persistent_audit = True, ga_connection_selection_required = (ref = []),
         ga_scope_policy = Some (scope_policy_for_provider_entry entry) \<rparr>"
  have reason: "reason = first_failure (gateway_checks ?g) ReasonAllowed"
    unfolding reason_def post_gateway_def gateway_reason_def [symmetric] by (rule gateway.reason_checks)
  have norm: "normalize_provider_slug (pe_slug e) = pe_slug e" using registry_slug_normal [OF e] by simp
  have entry: "pe_slug entry = pe_slug e" "pe_provider_kind entry = Composio" "pe_enabled entry = adapter_usable config"
      "''external_app_action'' \<in> set (pe_allowed_paths entry)"
      "allows_action entry s \<longleftrightarrow> adapter_usable config \<and> operator_permits config (pe_slug e) a"
    using registry_path [OF e] allows_permitted [OF e a p s]
    by (simp_all add: entry_def registry_execution_entry [OF e])
  have permitted: "pe_agent_ready entry" "scope_allows (pe_default_scopes entry) (ca_mutation a)"
      "ac_bound (composio_capability config)" "ac_configured (composio_capability config)"
      "ac_can_execute_actions (composio_capability config)"
    if "adapter_usable config" "operator_permits config (pe_slug e) a"
  proof -
    have "registry_reads config (pe_slug e) @ registry_applies config (pe_slug e) \<noteq> []"
      "ca_mutation a = Apply \<Longrightarrow> registry_applies config (pe_slug e) \<noteq> []"
      using that(2) registry_actions_empty [of config "pe_slug e"] registry_applies_empty [of config "pe_slug e"]
      unfolding norm by blast+
    then show "pe_agent_ready entry" "scope_allows (pe_default_scopes entry) (ca_mutation a)"
      using that(1) catalogue_facts(1) [OF a] by (auto simp: entry_def registry_execution_entry [OF e] no_scopes_def)
    show "ac_bound (composio_capability config)" "ac_configured (composio_capability config)"
      using that(1) by (auto simp: composio_capability_def adapter_usable_def Let_def)
    show "ac_can_execute_actions (composio_capability config)" by (rule capability_executes [OF that])
  qed
  have kind: "ac_provider_kind (composio_capability config) = Composio"
    by (simp add: composio_capability_def Let_def)
  note eval = reason gateway_checks_def external_checks_def ga_audit_persistent_def ledger_persistent_def policy_passes_def
    scope_policy_passes scope_policy_for_provider_entry_def kind entry ga_resolved_adapter_def or_default_def
    activation_request_def catalogue_facts(2,3) [OF a] action_open_def guarded_reasons_def
  show "reason = ReasonAllowed \<longleftrightarrow> action_open config (pe_slug e) connection ref a \<and> ca_mutation a = Read"
    using permitted con catalogue_facts(1) [OF a] by (cases connection) (auto simp: eval present_def)
  show "reason \<in> set guarded_reasons \<longleftrightarrow> action_open config (pe_slug e) connection ref a \<and> ca_mutation a = Apply"
    using permitted con catalogue_facts(1) [OF a] by (cases connection) (auto simp: eval present_def)
qed


lemma upper_no_dash:
  assumes "CHR ''-'' \<notin> set s"
  shows "CHR ''-'' \<notin> set (py_upper s)"
proof
  assume "CHR ''-'' \<in> set (py_upper s)"
  then obtain c where c: "c \<in> set s" "CHR ''-'' \<in> set (upper_char c)"
    unfolding py_upper_def set_concat set_map by blast
  show False
  proof (cases rule: upper_char_cases [of c])
    case kept
    then show False using c assms by simp
  next
    case double
    then show False using c by simp
  next
    case (letter d)
    then show False using c by simp
  qed
qed

lemma dash_to_underscore_id: "CHR ''-'' \<notin> set s \<Longrightarrow> dash_to_underscore s = s"
  by (auto simp: dash_to_underscore_def py_replace_char_def intro: map_idI)

lemma no_dash_left: "CHR ''-'' \<notin> set (dash_to_underscore s)"
  by (auto simp: dash_to_underscore_def py_replace_char_def)

text \<open>The action a readiness request asks about, under the name it has in the catalogue.\<close>

lemma asked_action:
  assumes "get_curated_action p (str_or (action_slug120 s) (default_activation_action_slug q)) = Some a"
  shows "py_upper (py_strip (str_or (action_slug120 s) (default_activation_action_slug q))) = ca_slug a"
proof -
  let ?action = "str_or (action_slug120 s) (default_activation_action_slug q)"
  have "default_activation_action_slug q = [] \<or> (\<exists>b \<in> set curated_actions. default_activation_action_slug q = ca_slug b)"
  proof -
    let ?all = "list_curated_actions (Some q) True"
    have "b \<in> set curated_actions" if "b \<in> set (list_or (filter (\<lambda>a. ca_mutation a = Read) ?all) ?all)" for b
      using that by (auto simp: list_or_def set_list_curated split: if_splits)
    then show ?thesis
      by (cases "list_or (filter (\<lambda>a. ca_mutation a = Read) ?all) ?all") (auto simp: default_activation_action_slug_def Let_def)
  qed
  then have "CHR ''-'' \<notin> set (default_activation_action_slug q)" using catalogue_facts(7) by auto
  moreover have "CHR ''-'' \<notin> set (action_slug120 s)"
    using no_dash_left by (auto simp: action_slug120_def dest: in_set_takeD)
  ultimately have "CHR ''-'' \<notin> set ?action" by (simp add: str_or_def)
  then have "CHR ''-'' \<notin> set (py_strip ?action)"
    using set_mono_sublist [OF sublist_py_strip [of ?action]] by auto
  then have "dash_to_underscore (py_upper (py_strip ?action)) = py_upper (py_strip ?action)"
    by (intro dash_to_underscore_id upper_no_dash)
  then show ?thesis using assms by (auto simp: get_curated_Some normalize_action_slug_def)
qed

lemma filter_head: "filter P xs = y # ys \<Longrightarrow> y \<in> set xs"
  by (metis filter_is_subset list.set_intros(1) subset_iff)

text \<open>A connection that was loaded is one of the provider, and was read from tables that are all there.\<close>

lemma loaded_connection:
  assumes "load_selected_connection storage clock entry user t w = (Some c, ref, i, w1)"
    and "normalize_provider_slug (pe_slug entry) = pe_slug entry" "pe_slug entry \<noteq> []"
  shows "cr_provider_slug c = pe_slug entry" "connection_storage_ready storage" "audit_persistent storage"
proof -
  have storage: "connection_storage_ready storage"
    and row: "\<exists>up table. get_connection_record up (owner_organization_id user) (us_user_id user) (pe_slug entry) (Some i) table = Some c"
    using assms(1) by (auto simp: load_selected_connection_def Let_def split: if_splits)
  show "connection_storage_ready storage" "audit_persistent storage"
    using storage by (simp_all add: connection_storage_ready_def audit_persistent_def)
  obtain up table where "get_connection_record up (owner_organization_id user) (us_user_id user) (pe_slug entry) (Some i) table = Some c"
    using row by blast
  then obtain owner j r where "(j, r) \<in> set (select_rows owner (pe_slug entry) table)"
      "connection_record_from_row (pe_slug entry) (j, r) = Some c"
    using assms(2) by (auto simp: get_connection_record_def Let_def dest!: filter_head split: option.splits if_splits list.splits)
  then show "cr_provider_slug c = pe_slug entry"
    using normal_slug_parts [OF assms(2,3)] assms(2,3)
    by (auto simp: connection_record_from_row_def select_rows_sound owned_by_def str_or_def Let_def split: if_splits)
qed


lemma loaded_projects:
  assumes e: "get_provider_entry slug = Some e"
    and load: "load_selected_connection storage clock (composio_execution_enabled_entry e config) user t w = (connection, ref, i, w1)"
  shows "list_all (\<lambda>c. cr_provider_slug c = pe_slug e \<and> audit_persistent storage)
      (case connection of None \<Rightarrow> [] | Some c \<Rightarrow> [c])"
    "connection \<noteq> None \<Longrightarrow> connection_storage_ready storage"
proof -
  have slug: "pe_slug (composio_execution_enabled_entry e config) = pe_slug e" by (simp add: enabled_entry_slug)
  note normal = provider_slug_normal [OF e]
  show "list_all (\<lambda>c. cr_provider_slug c = pe_slug e \<and> audit_persistent storage)
      (case connection of None \<Rightarrow> [] | Some c \<Rightarrow> [c])"
    and "connection \<noteq> None \<Longrightarrow> connection_storage_ready storage"
    using loaded_connection [of storage clock "composio_execution_enabled_entry e config" user t w] load normal
    by (auto simp: slug split: option.split)
qed

lemma runtime_enabled_permits:
  assumes e: "e \<in> set provider_registry" and a: "a \<in> set curated_actions" and p: "ca_provider_slug a = pe_slug e"
  shows "ca_slug a \<in> set (map normalize_action_slug (filter (\<lambda>s. py_strip s \<noteq> [])
      (executable_action_slugs_for_provider config (pe_slug e)))) \<longleftrightarrow> operator_permits config (pe_slug e) a"
    "ca_slug a \<in> set (executable_action_slugs_for_provider config (pe_slug e)) \<longleftrightarrow> operator_permits config (pe_slug e) a"
proof -
  have norm: "normalize_provider_slug (pe_slug e) = pe_slug e" using registry_slug_normal [OF e] by simp
  show exec: "ca_slug a \<in> set (executable_action_slugs_for_provider config (pe_slug e)) \<longleftrightarrow> operator_permits config (pe_slug e) a"
    using a catalogue_facts(9) [OF a] by (auto simp: executable_action_slugs_permitted norm operator_permits_def)
  have same: "normalize_action_slug s = s \<and> py_strip s \<noteq> []"
    if listed: "s \<in> set (executable_action_slugs_for_provider config (pe_slug e))" for s
  proof -
    obtain b where "b \<in> set curated_actions" "s = ca_slug b"
      using listed by (auto simp: executable_action_slugs_permitted operator_permits_def)
    then show ?thesis using curated_slug_normal [of b] by (auto simp: normalize_action_slug_def py_upper_def dash_to_underscore_def py_replace_char_def)
  qed
  then have "map normalize_action_slug (filter (\<lambda>s. py_strip s \<noteq> []) (executable_action_slugs_for_provider config (pe_slug e)))
      = executable_action_slugs_for_provider config (pe_slug e)"
    by (simp add: map_idI)
  with exec show "ca_slug a \<in> set (map normalize_action_slug (filter (\<lambda>s. py_strip s \<noteq> [])
      (executable_action_slugs_for_provider config (pe_slug e)))) \<longleftrightarrow> operator_permits config (pe_slug e) a"
    by simp
qed

text \<open>A row of the inventory, for an action of the provider and a connection that was loaded.\<close>

lemma inventory_row_status:
  assumes e: "e \<in> set provider_registry" and a: "a \<in> set curated_actions" and p: "ca_provider_slug a = pe_slug e"
    and con: "list_all (\<lambda>c. cr_provider_slug c = pe_slug e \<and> audit_persistent storage) (case connection of None \<Rightarrow> [] | Some c \<Rightarrow> [c])"
  shows "ef_status (effective_action_record (route_inventory_args n (composio_execution_enabled_entry e (en_config n))
        connection ref storage) (operator_permits (en_config n) (pe_slug e) a) a)
      = (if \<not> action_open (en_config n) (pe_slug e) connection ref a then RowBlocked
         else if ca_mutation a = Read then RowReady else RowGuarded)"
proof -
  let ?entry = "composio_execution_enabled_entry e (en_config n)"
  let ?g = "route_inventory_args n ?entry connection ref storage"
  note reason = projected_reason [OF e a p catalogue_facts(5) [OF a] con, of "en_config n" ref,
      folded inventory_gateway_post]
  have allowed: "gateway_allowed (inventory_gateway ?g a) \<longleftrightarrow> xd_reason (gd_decision (inventory_gateway ?g a)) = ReasonAllowed"
    by (simp add: inventory_gateway_def gateway_allowed_iff_reason gateway_reason_def)
  have visible: "is_active connection \<and> required_scope_granted a connection \<and> pe_enabled ?entry \<and> pe_agent_ready ?entry"
    if "action_open (en_config n) (pe_slug e) connection ref a"
  proof -
    have norm: "normalize_provider_slug (pe_slug e) = pe_slug e" using registry_slug_normal [OF e] by simp
    have "registry_reads (en_config n) (pe_slug e) @ registry_applies (en_config n) (pe_slug e) \<noteq> []"
      using that registry_actions_empty [of "en_config n" "pe_slug e"] unfolding norm action_open_def by blast
    then show ?thesis
      using that by (auto simp: action_open_def is_active_def required_scope_granted_def list_or_def
          catalogue_facts(4) [OF a] registry_execution_entry [OF e])
  qed
  have args: "ia_connection ?g = connection" "ia_entry ?g = ?entry" by (simp_all add: route_inventory_args_def)
  have permits: "action_open (en_config n) (pe_slug e) connection ref a \<Longrightarrow> operator_permits (en_config n) (pe_slug e) a"
    by (simp add: action_open_def)
  have status: "ef_status (effective_action_record ?g (operator_permits (en_config n) (pe_slug e) a) a) =
      (if operator_permits (en_config n) (pe_slug e) a \<and> gateway_allowed (inventory_gateway ?g a) then RowReady
       else if (operator_permits (en_config n) (pe_slug e) a \<and> pe_enabled ?entry \<and> pe_agent_ready ?entry
           \<and> is_active connection \<and> required_scope_granted a connection)
         \<and> xd_reason (gd_decision (inventory_gateway ?g a)) \<in> set guarded_reasons then RowGuarded else RowBlocked)"
    by (simp add: effective_action_record_def Let_def args)
  show ?thesis
  proof (cases "action_open (en_config n) (pe_slug e) connection ref a")
    case True
    then show ?thesis
      unfolding status allowed reason using permits visible catalogue_facts(1) [OF a] by auto
  next
    case False
    then show ?thesis unfolding status allowed reason by simp
  qed
qed


lemma effective_rows:
  assumes slug: "get_provider_entry slug = Some e"
    and load: "load_selected_connection (probed_storage probe n) (en_clock n) (composio_execution_enabled_entry e (en_config n))
      (en_user n) (or_default refq []) w = (connection, ref, i, w1)"
  shows "snd (effective_inventory_of n e refq probe w) = w1"
    "map (\<lambda>row. (ef_slug row, ef_status row)) (iv_actions (fst (effective_inventory_of n e refq probe w)))
      = map (\<lambda>a. (ca_slug a, if \<not> action_open (en_config n) (pe_slug e) connection ref a then RowBlocked
          else if ca_mutation a = Read then RowReady else RowGuarded)) (list_curated_actions (Some (pe_slug e)) True)"
proof -
  let ?entry = "composio_execution_enabled_entry e (en_config n)"
  have same: "pe_slug ?entry = pe_slug e" by (simp add: enabled_entry_slug)
  have e: "e \<in> set provider_registry" by (rule get_provider_entry_Some [OF slug])
  note con = loaded_projects(1) [OF slug load]
  have row: "ef_slug (effective_action_record g b a) = ca_slug a" for g b a
    by (simp add: effective_action_record_def Let_def)
  have listed: "a \<in> set curated_actions" "ca_provider_slug a = pe_slug e"
    if "a \<in> set (list_curated_actions (Some (pe_slug e)) True)" for a
    using that provider_slug_normal [OF slug] by (auto simp: set_list_curated or_default_def)
  show "snd (effective_inventory_of n e refq probe w) = w1"
    by (simp add: effective_inventory_of_def load Let_def)
  show "map (\<lambda>row. (ef_slug row, ef_status row)) (iv_actions (fst (effective_inventory_of n e refq probe w)))
      = map (\<lambda>a. (ca_slug a, if \<not> action_open (en_config n) (pe_slug e) connection ref a then RowBlocked
          else if ca_mutation a = Read then RowReady else RowGuarded)) (list_curated_actions (Some (pe_slug e)) True)"
    using inventory_row_status [OF e _ _ con, of _ n ref] runtime_enabled_permits(1) [OF e, of _ "en_config n"] listed
    by (simp add: effective_inventory_of_def load same row Let_def
        build_effective_action_inventory_def route_inventory_args_def [of n ?entry])
qed

text \<open>What the readiness ladder says about the action it was asked for.\<close>

lemma activation_ready:
  assumes slug: "get_provider_entry slug = Some e"
    and load: "load_selected_connection (probed_storage probe n) (en_clock n) (composio_execution_enabled_entry e (en_config n))
      (en_user n) (or_default refq []) w = (connection, ref, i, w1)"
  shows "snd (activation_args_of n e None refq action probe w) = w1"
    "ready_to_execute_action (fst (activation_args_of n e None refq action probe w)) \<longleftrightarrow>
      (\<exists>a \<in> set (list_curated_actions (Some (pe_slug e)) True).
        ra_action (fst (activation_args_of n e None refq action probe w)) = Some a \<and> action_open (en_config n) (pe_slug e) connection ref a \<and> ca_mutation a = Read)"
    "ra_action (fst (activation_args_of n e None refq action probe w)) = Some b \<Longrightarrow> b \<in> set curated_actions"
proof -
  let ?config = "en_config n" and ?storage = "probed_storage probe n"
  let ?entry = "composio_execution_enabled_entry e ?config"
  let ?asked = "str_or (action_slug120 action) (default_activation_action_slug (pe_slug e))"
  have same: "pe_slug ?entry = pe_slug e" by (simp add: enabled_entry_slug)
  have e: "e \<in> set provider_registry" by (rule get_provider_entry_Some [OF slug])
  have none: "or_default (opt_or refq None) [] = or_default refq []"
    by (auto simp: opt_or_def present_def or_default_def split: option.split)
  show "snd (activation_args_of n e None refq action probe w) = w1"
    by (simp add: activation_args_of_def load none Let_def)
  show "ra_action (fst (activation_args_of n e None refq action probe w)) = Some b \<Longrightarrow> b \<in> set curated_actions"
    by (simp add: activation_args_of_def load none Let_def get_curated_Some)
  have ra: "ra_action (fst (activation_args_of n e None refq action probe w)) = get_curated_action (pe_slug e) ?asked"
    by (simp add: activation_args_of_def load none Let_def same)
  show "ready_to_execute_action (fst (activation_args_of n e None refq action probe w)) \<longleftrightarrow>
      (\<exists>a \<in> set (list_curated_actions (Some (pe_slug e)) True).
        ra_action (fst (activation_args_of n e None refq action probe w)) = Some a \<and> action_open (en_config n) (pe_slug e) connection ref a \<and> ca_mutation a = Read)"
  proof (cases "get_curated_action (pe_slug e) ?asked")
    case None
    then show ?thesis by (simp add: ra ready_to_execute_action_def)
  next
    case (Some a)
    then have a: "a \<in> set curated_actions" "ca_provider_slug a = pe_slug e"
        "a \<in> set (list_curated_actions (Some (pe_slug e)) True)"
      using provider_slug_normal [OF slug] by (auto simp: get_curated_Some set_list_curated or_default_def)
    note con = loaded_projects [OF slug load]
    have gateway: "gateway_allowed (post_gateway ?config ?entry connection (activation_request ?entry ?asked (Some a)) ?storage ref)
        \<longleftrightarrow> action_open ?config (pe_slug e) connection ref a \<and> ca_mutation a = Read"
      using projected_reason(1) [OF e a(1,2) asked_action [OF Some] con(1), of ?config ref]
      by (simp add: post_gateway_def gateway_allowed_iff_reason gateway_reason_def)
    have "ready_to_execute_action (fst (activation_args_of n e None refq action probe w)) \<longleftrightarrow> ready_to_connect (fst (activation_args_of n e None refq action probe w)) \<and> operator_permits ?config (pe_slug e) a \<and> is_active connection
        \<and> action_open ?config (pe_slug e) connection ref a \<and> ca_mutation a = Read"
      using Some gateway runtime_enabled_permits(2) [OF e a(1,2), of ?config]
      by (simp add: ready_to_execute_action_def activation_args_of_def load none Let_def same)
    moreover have "ready_to_connect (fst (activation_args_of n e None refq action probe w))" if "action_open ?config (pe_slug e) connection ref a"
      using that con(2) registry_entries [OF e]
      by (auto simp: action_open_def ready_to_connect_def activation_args_of_def load none Let_def can_store_external_secret_def
          composio_connect_enabled_entry_def composio_vault_capability_def connection_storage_ready_def audit_persistent_def)
    ultimately have "ready_to_execute_action (fst (activation_args_of n e None refq action probe w)) \<longleftrightarrow> action_open ?config (pe_slug e) connection ref a \<and> ca_mutation a = Read"
      by (auto simp: action_open_def is_active_def)
    then show ?thesis using a(3) by (auto simp: ra Some)
  qed
qed

section \<open>Properties\<close>


text \<open>Property C31: the two projections agree: for the same provider and connection, the activation ladder calls an action ready
  exactly when the inventory has a ready row for it, and both leave the tables in the same state.\<close>

theorem activation_agrees_with_inventory:
  "case get_provider_entry slug of
     None \<Rightarrow> activation_readiness_route n slug None refq action probe w = (Inl unknown_provider, w)
   | Some e \<Rightarrow>
       let (i, w1) = effective_inventory_of n e refq probe w;
           (r, w2) = activation_args_of n e None refq action probe w
       in w1 = w2 \<and> activation_readiness_route n slug None refq action probe w = (Inr (build_activation_readiness_metadata r), w1)
         \<and> (ready_to_execute_action r \<longleftrightarrow>
             (\<exists>row \<in> set (iv_actions i). Some (ef_slug row) = map_option ca_slug (ra_action r) \<and> ef_status row = RowReady))"
proof (cases "get_provider_entry slug")
  case None
  then show ?thesis by (simp add: activation_readiness_route_def)
next
  case (Some e)
  obtain connection ref i w2 where load: "load_selected_connection (probed_storage probe n) (en_clock n)
      (composio_execution_enabled_entry e (en_config n)) (en_user n) (or_default refq []) w = (connection, ref, i, w2)"
    by (metis prod_cases4)
  let ?rows = "iv_actions (fst (effective_inventory_of n e refq probe w))"
    and ?r = "fst (activation_args_of n e None refq action probe w)" and ?all = "list_curated_actions (Some (pe_slug e)) True"
  note rows = effective_rows [OF Some load] and ready = activation_ready [OF Some load, of action]
  have unique: "a = b" if "a \<in> set ?all" "b \<in> set curated_actions" "ca_slug a = ca_slug b" for a b
    using that catalogue_facts(9) [of a b] by (auto simp: set_list_curated)
  have "(\<exists>row \<in> set ?rows. Some (ef_slug row) = k \<and> ef_status row = RowReady)
      \<longleftrightarrow> (\<exists>p \<in> set (map (\<lambda>row. (ef_slug row, ef_status row)) ?rows). Some (fst p) = k \<and> snd p = RowReady)" for k
    by force
  also have "\<dots> k \<longleftrightarrow> (\<exists>a \<in> set ?all. Some (ca_slug a) = k
      \<and> action_open (en_config n) (pe_slug e) connection ref a \<and> ca_mutation a = Read)" for k
    unfolding rows(2) by (simp, intro bex_cong refl, auto)
  finally have row_iff: "(\<exists>row \<in> set ?rows. Some (ef_slug row) = k \<and> ef_status row = RowReady)
      \<longleftrightarrow> (\<exists>a \<in> set ?all. Some (ca_slug a) = k
      \<and> action_open (en_config n) (pe_slug e) connection ref a \<and> ca_mutation a = Read)" for k .
  have "(\<exists>row \<in> set ?rows. Some (ef_slug row) = map_option ca_slug (ra_action ?r) \<and> ef_status row = RowReady)
      \<longleftrightarrow> ready_to_execute_action ?r"
    unfolding row_iff ready(2) using ready(3) unique by (cases "ra_action ?r") auto
  then show ?thesis
    using rows(1) ready(1) by (simp add: Some activation_readiness_route_def case_prod_unfold Let_def)
qed

end
