(* ===== verification/Action_Lane.thy ===== *)
theory Action_Lane
  imports Readiness Integration_Worker
begin

text \<open>
  \<open>app/engine/multi_agent/external_app_action_runtime.py\<close> and \<open>external_app_integration_lane.py\<close>: before the
  main model sees a tool, a turn that asks for an external app gets a plan (which provider, which actions) and
  a lane (which tools). Both are kept in the agent's state as metadata and read back where a tool runs. What the
  intent module and the snapshot read from the query and the state is an argument (\<open>turn_view\<close>).
\<close>

section \<open>Words and names\<close>

definition list_actions_tool :: string where
  "list_actions_tool = ''tool_wiii_connect_list_actions''"

definition delegate_tool :: string where
  "delegate_tool = ''tool_wiii_connect_delegate_to_integration''"

definition execute_action_tool :: string where
  "execute_action_tool = ''tool_wiii_connect_execute_action''"

definition direct_apply_tool :: string where
  "direct_apply_tool = ''host_action__wiii_connect__facebook_post__direct_apply''"

definition direct_apply_action :: string where
  "direct_apply_action = ''wiii_connect.facebook_post.direct_apply''"

datatype plan_status = PlanNotApplicable | PlanReady | PlanBlocked

fun plan_status_name :: "plan_status \<Rightarrow> string" where
  "plan_status_name PlanNotApplicable = ''not_applicable''"
| "plan_status_name PlanReady = ''ready''"
| "plan_status_name PlanBlocked = ''blocked''"

datatype plan_kind = NoActionKind | FacebookDirectApply | ProviderAction

fun plan_kind_name :: "plan_kind \<Rightarrow> string" where
  "plan_kind_name NoActionKind = ''none''"
| "plan_kind_name FacebookDirectApply = ''facebook_post_direct_apply''"
| "plan_kind_name ProviderAction = ''provider_action''"

datatype lane_executor = NoExecutor | ProviderWorker | SpecializedDirectTool

fun lane_executor_name :: "lane_executor \<Rightarrow> string" where
  "lane_executor_name NoExecutor = ''none''"
| "lane_executor_name ProviderWorker = ''provider_worker''"
| "lane_executor_name SpecializedDirectTool = ''specialized_direct_tool''"

text \<open>\<open>_safe_status\<close>, \<open>_safe_kind\<close> and \<open>_safe_executor\<close>: any other word is the first of the list.\<close>

definition plan_status_of :: "pyval \<Rightarrow> plan_status" where
  "plan_status_of v = or_default (find (\<lambda>s. plan_status_name s = py_strip (str_or_empty v))
     [PlanNotApplicable, PlanReady, PlanBlocked]) PlanNotApplicable"

definition plan_kind_of :: "pyval \<Rightarrow> plan_kind" where
  "plan_kind_of v = or_default (find (\<lambda>k. plan_kind_name k = py_strip (str_or_empty v))
     [NoActionKind, FacebookDirectApply, ProviderAction]) NoActionKind"

definition lane_executor_of :: "pyval \<Rightarrow> lane_executor" where
  "lane_executor_of v = or_default (find (\<lambda>k. lane_executor_name k = py_strip (str_or_empty v))
     [NoExecutor, ProviderWorker, SpecializedDirectTool]) NoExecutor"

text \<open>The items of a list or tuple as the loops of \<open>_safe_slugs\<close> and its siblings read them; nothing of any
  other value.\<close>

definition py_items :: "pyval \<Rightarrow> string list" where
  "py_items v = (case v of PList xs \<Rightarrow> map str_or_empty xs | PTuple xs \<Rightarrow> map str_or_empty xs | _ \<Rightarrow> [])"

definition lane_slugs :: "string list \<Rightarrow> string list" where
  "lane_slugs values = append_new [] (filter (\<lambda>s. s \<noteq> []) (map provider_slug80 values))"

definition lane_text160 :: "string \<Rightarrow> string" where
  "lane_text160 s = take 160 (py_strip s)"

definition safe_tool_names :: "string list \<Rightarrow> string list" where
  "safe_tool_names values = append_new [] (filter (\<lambda>s. s \<noteq> []) (map lane_text160 values))"

definition safe_action_slugs :: "string list \<Rightarrow> string list" where
  "safe_action_slugs values = append_new [] (filter (\<lambda>s. s \<noteq> [])
     (map (\<lambda>s. take 160 (dash_to_underscore (py_upper (py_strip s)))) values))"

type_synonym allowlists = "(string \<times> string list) list"

definition allowlists_with :: "(string list \<Rightarrow> string list) \<Rightarrow> allowlists \<Rightarrow> allowlists" where
  "allowlists_with clean values =
     foldl (\<lambda>result (provider, actions).
       let slug = provider_slug80 provider; names = clean actions
       in if slug \<noteq> [] \<and> names \<noteq> [] then dict_set slug names result else result) [] values"

definition lane_action_allowlists :: "allowlists \<Rightarrow> allowlists" where
  "lane_action_allowlists = allowlists_with safe_tool_names"

definition normalize_action_allowlists :: "allowlists option \<Rightarrow> allowlists" where
  "normalize_action_allowlists values = (case values of None \<Rightarrow> [] | Some d \<Rightarrow> allowlists_with safe_action_slugs d)"

definition allowlists_value :: "pyval \<Rightarrow> allowlists" where
  "allowlists_value v = (case v of PDict d \<Rightarrow> map (\<lambda>(k, x). (k, py_items x)) d | _ \<Rightarrow> [])"

definition allowlists_metadata :: "allowlists \<Rightarrow> pyval" where
  "allowlists_metadata d = PDict (map (\<lambda>(p, actions). (p, str_list actions)) (sort_key fst d))"

section \<open>Plans\<close>

record turn_plan =
  tp_version :: string
  tp_status :: plan_status
  tp_kind :: plan_kind
  tp_provider_slug :: string
  tp_action_slug :: string
  tp_reason :: string
  tp_forced_tool_name :: string
  tp_allowed_tool_names :: "string list"
  tp_requested_providers :: "string list"
  tp_ready_providers :: "string list"
  tp_allowlists :: allowlists
  tp_lifecycle :: pydict
  tp_unavailable_answer :: string

definition plan_active :: "turn_plan \<Rightarrow> bool" where
  "plan_active p \<longleftrightarrow> tp_status p \<in> {PlanReady, PlanBlocked} \<and> tp_kind p \<noteq> NoActionKind"

definition plan_ready :: "turn_plan \<Rightarrow> bool" where
  "plan_ready p \<longleftrightarrow> tp_status p = PlanReady"

definition turn_plan_metadata :: "turn_plan \<Rightarrow> pydict" where
  "turn_plan_metadata p =
     (let lifecycle = sanitize_connection_lifecycle_metadata (PDict (tp_lifecycle p)) in
      [(''version'', PStr (tp_version p)), (''status'', PStr (plan_status_name (tp_status p))),
       (''kind'', PStr (plan_kind_name (tp_kind p))), (''provider_slug'', PStr (tp_provider_slug p)),
       (''action_slug'', PStr (tp_action_slug p)), (''reason'', PStr (tp_reason p)),
       (''forced_tool_name'', PStr (tp_forced_tool_name p)),
       (''allowed_tool_names'', str_list (tp_allowed_tool_names p)),
       (''requested_provider_slugs'', str_list (tp_requested_providers p)),
       (''ready_provider_slugs'', str_list (tp_ready_providers p)),
       (''action_allowlists_by_provider'', allowlists_metadata (tp_allowlists p)),
       (''unavailable_answer_present'', PBool (tp_unavailable_answer p \<noteq> []))]
      @ (if lifecycle \<noteq> [] then [(''connection_lifecycle'', PDict lifecycle)] else []))"

definition plan_version :: string where
  "plan_version = ''external_app_action_plan.v1''"

definition lane_version :: string where
  "lane_version = ''external_app_integration_lane.v1''"

definition plan_state_key :: string where
  "plan_state_key = ''_external_app_action_plan''"

definition lane_state_key :: string where
  "lane_state_key = ''_external_app_integration_lane''"

definition field_value :: "pydict \<Rightarrow> string \<Rightarrow> pyval" where
  "field_value d k = or_default (dict_get d k) PNone"

definition field_text :: "pydict \<Rightarrow> string \<Rightarrow> string" where
  "field_text d k = str_or_empty (field_value d k)"

definition plan_of_metadata :: "pydict \<Rightarrow> turn_plan" where
  "plan_of_metadata m =
     \<lparr> tp_version = str_or (field_text m ''version'') plan_version,
       tp_status = plan_status_of (field_value m ''status''),
       tp_kind = plan_kind_of (field_value m ''kind''),
       tp_provider_slug = provider_slug80 (field_text m ''provider_slug''),
       tp_action_slug = lane_text160 (field_text m ''action_slug''),
       tp_reason = lane_text160 (field_text m ''reason''),
       tp_forced_tool_name = lane_text160 (field_text m ''forced_tool_name''),
       tp_allowed_tool_names = safe_tool_names (py_items (field_value m ''allowed_tool_names'')),
       tp_requested_providers = lane_slugs (py_items (field_value m ''requested_provider_slugs'')),
       tp_ready_providers = lane_slugs (py_items (field_value m ''ready_provider_slugs'')),
       tp_allowlists = allowlists_with safe_action_slugs
         (allowlists_value (field_value m ''action_allowlists_by_provider'')),
       tp_lifecycle = sanitize_connection_lifecycle_metadata (field_value m ''connection_lifecycle''),
       tp_unavailable_answer = [] \<rparr>"

definition plan_from_state :: "pydict \<Rightarrow> turn_plan option" where
  "plan_from_state state =
     (case dict_get state plan_state_key of Some (PDict m) \<Rightarrow> Some (plan_of_metadata m) | _ \<Rightarrow> None)"

section \<open>Lanes\<close>

record lane =
  ln_version :: string
  ln_status :: plan_status
  ln_executor :: lane_executor
  ln_provider_slug :: string
  ln_action_slug :: string
  ln_reason :: string
  ln_visible_tool_names :: "string list"
  ln_forced_tool_name :: string
  ln_requested_providers :: "string list"
  ln_ready_providers :: "string list"
  ln_allowlists :: allowlists
  ln_activity_title :: string

definition lane_active :: "lane \<Rightarrow> bool" where
  "lane_active l \<longleftrightarrow> ln_status l \<in> {PlanReady, PlanBlocked} \<and> ln_executor l \<noteq> NoExecutor"

definition lane_ready :: "lane \<Rightarrow> bool" where
  "lane_ready l \<longleftrightarrow> ln_status l = PlanReady"

definition lane_metadata :: "lane \<Rightarrow> pydict" where
  "lane_metadata l =
     [(''version'', PStr (ln_version l)), (''status'', PStr (plan_status_name (ln_status l))),
      (''executor'', PStr (lane_executor_name (ln_executor l))),
      (''provider_slug'', PStr (ln_provider_slug l)), (''action_slug'', PStr (ln_action_slug l)),
      (''reason'', PStr (ln_reason l)),
      (''visible_tool_names'', str_list (ln_visible_tool_names l)),
      (''forced_tool_name'', PStr (ln_forced_tool_name l)),
      (''requested_provider_slugs'', str_list (ln_requested_providers l)),
      (''ready_provider_slugs'', str_list (ln_ready_providers l)),
      (''action_allowlists_by_provider'', allowlists_metadata (ln_allowlists l)),
      (''ui_activity_title'', PStr (ln_activity_title l))]"

fun executor_for_plan :: "plan_kind \<Rightarrow> lane_executor" where
  "executor_for_plan FacebookDirectApply = SpecializedDirectTool"
| "executor_for_plan ProviderAction = ProviderWorker"
| "executor_for_plan NoActionKind = NoExecutor"

text \<open>\<open>tuple(dict.fromkeys(\<dots>))\<close> keeps the first occurrence of each name.\<close>

definition visible_tool_names_for_plan :: "turn_plan \<Rightarrow> lane_executor \<Rightarrow> string list" where
  "visible_tool_names_for_plan p executor =
     (case executor of
        SpecializedDirectTool \<Rightarrow>
          [str_or (py_strip (tp_forced_tool_name p)) direct_apply_tool]
      | ProviderWorker \<Rightarrow>
          let allowed = safe_tool_names (tp_allowed_tool_names p)
          in if allowed \<noteq> [] then append_new [] (list_actions_tool # allowed)
             else [list_actions_tool, delegate_tool]
      | NoExecutor \<Rightarrow> [])"

definition activity_title_for_provider :: "string \<Rightarrow> string" where
  "activity_title_for_provider slug =
     (let provider = provider_slug80 slug in
      if provider = ''facebook'' then ''Working with your Facebook connection''
      else if provider \<noteq> [] then ''Working with your '' @ provider @ '' connection''
      else ''Checking your connected app'')"

definition idle_lane :: "string \<Rightarrow> lane" where
  "idle_lane reason =
     \<lparr> ln_version = lane_version, ln_status = PlanNotApplicable, ln_executor = NoExecutor,
       ln_provider_slug = [], ln_action_slug = [], ln_reason = reason, ln_visible_tool_names = [],
       ln_forced_tool_name = [], ln_requested_providers = [], ln_ready_providers = [], ln_allowlists = [],
       ln_activity_title = [] \<rparr>"

definition lane_from_plan :: "turn_plan option \<Rightarrow> lane" where
  "lane_from_plan plan =
     (case plan of
        None \<Rightarrow> idle_lane ''no_external_app_action_plan''
      | Some p \<Rightarrow>
          if tp_kind p = NoActionKind then idle_lane ''no_external_app_action_plan''
          else let
            executor = executor_for_plan (tp_kind p);
            named = (idle_lane (take 160 (tp_reason p)))\<lparr>
              ln_provider_slug := provider_slug80 (tp_provider_slug p),
              ln_action_slug := lane_text160 (tp_action_slug p),
              ln_requested_providers := lane_slugs (tp_requested_providers p)\<rparr>;
            scoped = named\<lparr>ln_executor := executor,
              ln_ready_providers := lane_slugs (tp_ready_providers p),
              ln_allowlists := lane_action_allowlists (tp_allowlists p),
              ln_activity_title := activity_title_for_provider (tp_provider_slug p)\<rparr>
          in if tp_status p = PlanBlocked then scoped\<lparr>ln_status := PlanBlocked\<rparr>
             else if \<not> plan_ready p then named
             else scoped\<lparr>ln_status := PlanReady,
               ln_visible_tool_names := visible_tool_names_for_plan p executor,
               ln_forced_tool_name := (if executor = SpecializedDirectTool
                 then py_strip (tp_forced_tool_name p) else [])\<rparr>)"

definition lane_of_metadata :: "pydict \<Rightarrow> lane" where
  "lane_of_metadata m =
     \<lparr> ln_version = str_or (field_text m ''version'') lane_version,
       ln_status = plan_status_of (field_value m ''status''),
       ln_executor = lane_executor_of (field_value m ''executor''),
       ln_provider_slug = provider_slug80 (field_text m ''provider_slug''),
       ln_action_slug = lane_text160 (field_text m ''action_slug''),
       ln_reason = take 160 (field_text m ''reason''),
       ln_visible_tool_names = safe_tool_names (py_items (field_value m ''visible_tool_names'')),
       ln_forced_tool_name = lane_text160 (field_text m ''forced_tool_name''),
       ln_requested_providers = lane_slugs (py_items (field_value m ''requested_provider_slugs'')),
       ln_ready_providers = lane_slugs (py_items (field_value m ''ready_provider_slugs'')),
       ln_allowlists = lane_action_allowlists
         (allowlists_value (field_value m ''action_allowlists_by_provider'')),
       ln_activity_title = take 160 (field_text m ''ui_activity_title'') \<rparr>"

definition lane_from_state :: "pydict \<Rightarrow> lane option" where
  "lane_from_state state =
     (case dict_get state lane_state_key of Some (PDict m) \<Rightarrow> Some (lane_of_metadata m) | _ \<Rightarrow> None)"

definition record_lane :: "pydict option \<Rightarrow> lane \<Rightarrow> pydict option" where
  "record_lane state l = map_option (dict_set lane_state_key (PDict (lane_metadata l))) state"

definition record_plan :: "pydict option \<Rightarrow> turn_plan \<Rightarrow> pydict option" where
  "record_plan state p =
     record_lane (map_option (dict_set plan_state_key (PDict (turn_plan_metadata p))) state)
       (lane_from_plan (Some p))"

section \<open>Narrowing the tools\<close>

record agent_tool =
  tl_name :: string
  tl_function_name :: string
  tl_action_owner :: string

definition tool_name :: "agent_tool \<Rightarrow> string" where
  "tool_name t = py_strip (str_or (tl_name t) (tl_function_name t))"

definition is_backend_gateway_tool :: "agent_tool \<Rightarrow> bool" where
  "is_backend_gateway_tool t \<longleftrightarrow> tl_action_owner t = ''backend_gateway''"

definition dedupe_specialized_direct_tools :: "agent_tool list \<Rightarrow> agent_tool list" where
  "dedupe_specialized_direct_tools tools =
     map snd (foldl (\<lambda>by_name t.
       let name = tool_name t
       in if name = [] then by_name
          else if dict_get by_name name = None \<or> is_backend_gateway_tool t then dict_set name t by_name
          else by_name) [] tools)"

definition select_tools_for_lane :: "agent_tool list \<Rightarrow> lane option \<Rightarrow> agent_tool list \<times> string option" where
  "select_tools_for_lane tools lane =
     (case lane of
        None \<Rightarrow> (tools, None)
      | Some l \<Rightarrow>
          if ln_status l = PlanBlocked then ([], None)
          else if \<not> lane_ready l then (tools, None)
          else if ln_visible_tool_names l = [] then ([], or_null (ln_forced_tool_name l))
          else let selected = filter (\<lambda>t. tool_name t \<in> set (ln_visible_tool_names l)) tools
            in (if ln_executor l = SpecializedDirectTool then dedupe_specialized_direct_tools selected else selected,
                or_null (ln_forced_tool_name l)))"

definition force_tools_for_plan :: "agent_tool list \<Rightarrow> turn_plan option \<Rightarrow> agent_tool list \<times> string option" where
  "force_tools_for_plan tools plan =
     (case plan of
        None \<Rightarrow> (tools, None)
      | Some p \<Rightarrow> if \<not> plan_ready p then (tools, None)
          else select_tools_for_lane tools (Some (lane_from_plan (Some p))))"

section \<open>Resolving a plan\<close>

text \<open>What \<open>wiii_connect_intent\<close> and the snapshot say about a query and a state: the providers that are agent
  ready, the providers the query names, whether it asks for a Facebook post or another action at an external
  app, the answer when Facebook is not ready (empty when it is), the stored lifecycle of a provider, and the
  wording of the answers.\<close>

record turn_view =
  tv_ready_providers :: "string list"
  tv_requested_providers :: "string list"
  tv_facebook_post :: bool
  tv_external_action :: bool
  tv_facebook_answer :: string
  tv_no_actions_answer :: string
  tv_facebook_default_answer :: string
  tv_default_answer :: string
  tv_provider_answer :: "string \<Rightarrow> string \<Rightarrow> string list \<Rightarrow> string list \<Rightarrow> string"
  tv_lifecycle :: "string \<Rightarrow> pydict"

definition facebook_post_action_slugs :: "string list" where
  "facebook_post_action_slugs = [''FACEBOOK_CREATE_POST'', ''FACEBOOK_CREATE_PHOTO_POST'']"

definition has_action_allowlist :: "allowlists \<Rightarrow> string \<Rightarrow> string list \<Rightarrow> bool" where
  "has_action_allowlist values slug required_actions =
     (let provider = provider_slug80 slug;
          actions = or_default (dict_get (allowlists_with safe_action_slugs values) provider) [];
          required = map (\<lambda>a. dash_to_underscore (py_upper (py_strip a)))
            (filter (\<lambda>a. py_strip a \<noteq> []) required_actions)
      in provider \<noteq> [] \<and> actions \<noteq> []
         \<and> (required = [] \<or> list_ex (\<lambda>a. a \<in> set required) actions))"

definition scope_action_allowlists :: "allowlists \<Rightarrow> string \<Rightarrow> allowlists" where
  "scope_action_allowlists values slug =
     (let provider = provider_slug80 slug; normalized = allowlists_with safe_action_slugs values
      in if provider = [] then normalized
         else case dict_get normalized provider of
           Some (a # as) \<Rightarrow> [(provider, a # as)]
         | _ \<Rightarrow> [])"

definition configured_action_allowlists :: "composio_config \<Rightarrow> string list \<Rightarrow> allowlists" where
  "configured_action_allowlists config providers =
     foldl (\<lambda>result provider.
       case get_provider_entry provider of
         None \<Rightarrow> result
       | Some entry0 \<Rightarrow>
           let entry = composio_execution_enabled_entry entry0 config;
               actions = safe_action_slugs (pe_action_allowlist entry)
           in if actions \<noteq> [] then dict_set (pe_slug entry) actions result else result) [] providers"

text \<open>The rows of the effective inventory that are visible to the agent, for the connection the executor
  would choose.\<close>

definition turn_inventory :: "post_env \<Rightarrow> auth_user \<Rightarrow> provider_entry \<Rightarrow> world \<Rightarrow> effective_inventory" where
  "turn_inventory n user entry w =
     (let storage = env_storage n;
          connection = select_wiii_connect_connection (pe_slug entry) user storage [] w
      in build_effective_action_inventory
           \<lparr> ia_entry = entry, ia_connection = connection, ia_adapter = composio_capability (en_config n),
             ia_ledger = Some [(''persistent'', PBool (audit_persistent storage))],
             ia_connection_selection_required = False,
             ia_scope_policy = Some (scope_policy_for_provider_entry entry) \<rparr>
           (executable_action_slugs_for_provider (en_config n) (pe_slug entry))
           (case connection of None \<Rightarrow> False
              | Some c \<Rightarrow> public_connection_ref (cr_provider_slug c) (cr_connection_id c) \<noteq> [])
           (Some storage))"

definition effective_action_allowlists :: "post_env \<Rightarrow> pydict \<Rightarrow> string list \<Rightarrow> world \<Rightarrow> allowlists" where
  "effective_action_allowlists n state providers w =
     (let user = authenticated_user_from_state state in
      foldl (\<lambda>result provider.
        case get_provider_entry provider of
          None \<Rightarrow> result
        | Some entry0 \<Rightarrow>
            let entry = composio_execution_enabled_entry entry0 (en_config n);
                visible = map ef_slug (filter ef_visible_to_agent (iv_actions (turn_inventory n user entry w)))
            in if visible \<noteq> [] then dict_set (pe_slug entry) (safe_action_slugs visible) result else result)
        [] providers)"

definition action_allowlists_for_providers ::
    "post_env \<Rightarrow> pydict option \<Rightarrow> string list \<Rightarrow> world \<Rightarrow> allowlists" where
  "action_allowlists_for_providers n state providers w =
     (if providers = [] then []
      else case state of
        Some s \<Rightarrow> effective_action_allowlists n s providers w
      | None \<Rightarrow> configured_action_allowlists (en_config n) providers)"

definition plan_lifecycle :: "turn_view \<Rightarrow> string \<Rightarrow> pydict" where
  "plan_lifecycle tv slug =
     (let provider = provider_slug80 slug in
      if provider = [] then [] else sanitize_connection_lifecycle_metadata (PDict (tv_lifecycle tv provider)))"

definition empty_plan :: turn_plan where
  "empty_plan =
     \<lparr> tp_version = plan_version, tp_status = PlanNotApplicable, tp_kind = NoActionKind, tp_provider_slug = [],
       tp_action_slug = [], tp_reason = [], tp_forced_tool_name = [], tp_allowed_tool_names = [],
       tp_requested_providers = [], tp_ready_providers = [], tp_allowlists = [], tp_lifecycle = [],
       tp_unavailable_answer = [] \<rparr>"

definition ready_facebook_plan :: "string list \<Rightarrow> string list \<Rightarrow> allowlists \<Rightarrow> turn_plan" where
  "ready_facebook_plan requested ready allowlists =
     empty_plan\<lparr>tp_status := PlanReady, tp_kind := FacebookDirectApply, tp_provider_slug := ''facebook'',
       tp_action_slug := direct_apply_action, tp_reason := ''facebook_post_request'',
       tp_forced_tool_name := direct_apply_tool, tp_allowed_tool_names := [direct_apply_tool],
       tp_requested_providers := requested, tp_ready_providers := ready,
       tp_allowlists := allowlists_with safe_action_slugs allowlists\<rparr>"

definition blocked_facebook_plan ::
    "turn_view \<Rightarrow> string \<Rightarrow> string list \<Rightarrow> string list \<Rightarrow> allowlists \<Rightarrow> string \<Rightarrow> turn_plan" where
  "blocked_facebook_plan tv reason requested ready allowlists answer =
     empty_plan\<lparr>tp_status := PlanBlocked, tp_kind := FacebookDirectApply, tp_provider_slug := ''facebook'',
       tp_action_slug := direct_apply_action, tp_reason := reason,
       tp_requested_providers := requested, tp_ready_providers := ready,
       tp_allowlists := allowlists_with safe_action_slugs allowlists,
       tp_lifecycle := plan_lifecycle tv ''facebook'', tp_unavailable_answer := answer\<rparr>"

definition blocked_provider_plan ::
    "turn_view \<Rightarrow> string \<Rightarrow> string \<Rightarrow> string list \<Rightarrow> string list \<Rightarrow> allowlists \<Rightarrow> turn_plan" where
  "blocked_provider_plan tv reason provider requested ready allowlists =
     empty_plan\<lparr>tp_status := PlanBlocked, tp_kind := ProviderAction, tp_provider_slug := provider,
       tp_reason := reason, tp_requested_providers := requested, tp_ready_providers := ready,
       tp_allowlists := (if provider \<noteq> [] then scope_action_allowlists allowlists provider
         else allowlists_with safe_action_slugs allowlists),
       tp_lifecycle := plan_lifecycle tv provider,
       tp_unavailable_answer := tv_provider_answer tv reason provider requested ready\<rparr>"

text \<open>The keyword arguments of \<open>resolve_external_app_action_plan\<close> that callers may leave out are options.\<close>

definition resolve_plan ::
    "post_env \<Rightarrow> turn_view \<Rightarrow> string list option \<Rightarrow> allowlists option \<Rightarrow> pydict option \<Rightarrow> world \<Rightarrow> turn_plan" where
  "resolve_plan n tv ready_given allowlists_given state w =
     (let ready = (case ready_given of Some xs \<Rightarrow> lane_slugs xs
            | None \<Rightarrow> (case state of Some _ \<Rightarrow> tv_ready_providers tv | None \<Rightarrow> []));
          requested = tv_requested_providers tv;
          allowlists = (case allowlists_given of Some d \<Rightarrow> normalize_action_allowlists (Some d)
            | None \<Rightarrow> action_allowlists_for_providers n state ready w);
          posting = list_or requested [''facebook''];
          no_actions = (\<not> has_action_allowlist allowlists ''facebook'' facebook_post_action_slugs);
          blocked_post = (\<lambda>reason answer. blocked_facebook_plan tv reason posting ready allowlists answer);
          blocked = (\<lambda>reason provider. blocked_provider_plan tv reason provider requested ready allowlists)
      in if tv_facebook_post tv
         then (if ready_given \<noteq> None
               then (if ''facebook'' \<notin> set ready
                     then blocked_post ''provider_not_agent_ready'' (tv_facebook_answer tv)
                     else if no_actions then blocked_post ''no_agent_ready_actions'' (tv_no_actions_answer tv)
                     else ready_facebook_plan posting ready allowlists)
               else if tv_facebook_answer tv \<noteq> []
               then blocked_post ''provider_not_agent_ready'' (tv_facebook_answer tv)
               else if no_actions then blocked_post ''no_agent_ready_actions'' (tv_no_actions_answer tv)
               else ready_facebook_plan posting ready allowlists)
         else if \<not> tv_external_action tv
         then empty_plan\<lparr>tp_reason := ''no_external_app_action_intent'', tp_requested_providers := requested,
           tp_ready_providers := ready, tp_allowlists := allowlists\<rparr>
         else if length requested > 1 then blocked ''ambiguous_provider_target'' []
         else let target = (case requested of [] \<Rightarrow> [] | t # _ \<Rightarrow> t)
           in if target = [] then blocked ''missing_provider_target'' []
              else if target \<notin> set ready then blocked ''provider_not_agent_ready'' target
              else let scoped = scope_action_allowlists allowlists target
                in if scoped = [] then blocked ''no_agent_ready_actions'' target
                   else empty_plan\<lparr>tp_status := PlanReady, tp_kind := ProviderAction,
                     tp_provider_slug := target, tp_reason := ''registered_provider_action_request'',
                     tp_allowed_tool_names := [delegate_tool], tp_requested_providers := requested,
                     tp_ready_providers := ready, tp_allowlists := scoped\<rparr>)"

section \<open>Preparing a turn\<close>

definition blocked_plan_answer :: "turn_view \<Rightarrow> turn_plan \<Rightarrow> string" where
  "blocked_plan_answer tv p =
     (case tp_kind p of
        FacebookDirectApply \<Rightarrow>
          if tp_reason p = ''no_agent_ready_actions'' then tv_no_actions_answer tv
          else str_or (tv_facebook_answer tv) (tv_facebook_default_answer tv)
      | ProviderAction \<Rightarrow> tv_provider_answer tv (str_or (tp_reason p) ''external_app_action_plan_not_ready'')
          (tp_provider_slug p) (tp_requested_providers p) (tp_ready_providers p)
      | NoActionKind \<Rightarrow> tv_default_answer tv)"

text \<open>The answer of a preempted turn is the text handed to \<open>build_assistant_message\<close>.\<close>

record turn_preparation =
  tn_plan :: turn_plan
  tn_lane :: lane
  tn_tools :: "agent_tool list"
  tn_forced :: "string option"
  tn_preflight :: "string option"

definition prepare_turn ::
    "post_env \<Rightarrow> turn_view \<Rightarrow> pydict option \<Rightarrow> agent_tool list \<Rightarrow> string option \<Rightarrow> world \<Rightarrow>
     turn_preparation \<times> pydict option" where
  "prepare_turn n tv state tools forced w =
     (let (plan, state1) = (case Option.bind state plan_from_state of
            Some p \<Rightarrow> (p, state)
          | None \<Rightarrow> let p = resolve_plan n tv None None state w in (p, record_plan state p));
          lane = lane_from_plan (Some plan)
      in if tp_status plan = PlanBlocked
         then (\<lparr> tn_plan = plan, tn_lane = lane, tn_tools = tools, tn_forced = forced,
                 tn_preflight = Some (str_or (tp_unavailable_answer plan) (blocked_plan_answer tv plan)) \<rparr>, state1)
         else let (selected, lane_forced) = select_tools_for_lane tools (Some lane)
           in (\<lparr> tn_plan = plan, tn_lane = lane, tn_tools = selected, tn_forced = opt_or lane_forced forced,
                 tn_preflight = None \<rparr>, record_lane state1 lane))"

section \<open>Lemmas\<close>

text \<open>Lists and dictionaries the cleaning loops leave alone.\<close>

lemma append_new_distinct: "distinct (acc @ xs) \<Longrightarrow> append_new acc xs = acc @ xs"
  by (induction acc xs rule: append_new.induct) auto

definition clean_list :: "(string \<Rightarrow> string) \<Rightarrow> string list \<Rightarrow> bool" where
  "clean_list f xs \<longleftrightarrow> distinct xs \<and> list_all (\<lambda>s. s \<noteq> [] \<and> f s = s) xs"

definition clean_allowlists :: "allowlists \<Rightarrow> bool" where
  "clean_allowlists d \<longleftrightarrow> distinct (map fst d) \<and> list_all (\<lambda>(p, actions). p \<noteq> [] \<and> provider_slug80 p = p
     \<and> actions \<noteq> [] \<and> clean_list (\<lambda>s. take 160 (dash_to_underscore (py_upper (py_strip s)))) actions
     \<and> clean_list lane_text160 actions) d"

lemma clean_list_fixed:
  assumes "clean_list f xs"
  shows "append_new [] (filter (\<lambda>s. s \<noteq> []) (map f xs)) = xs"
proof -
  have "map f xs = xs" "filter (\<lambda>s. s \<noteq> []) xs = xs"
    using assms by (auto simp: clean_list_def list_all_iff intro: map_idI filter_True)
  then show ?thesis using assms by (simp add: append_new_distinct clean_list_def)
qed

lemmas clean_fixed = clean_list_fixed [of provider_slug80, folded lane_slugs_def]
  clean_list_fixed [of lane_text160, folded safe_tool_names_def]
  clean_list_fixed [of "\<lambda>s. take 160 (dash_to_underscore (py_upper (py_strip s)))", folded safe_action_slugs_def]

lemma dict_set_new: "k \<notin> set (map fst d) \<Longrightarrow> dict_set k v d = d @ [(k, v)]"
  by (induction d) (auto simp: dict_set_def)

lemma allowlists_with_fixed:
  assumes "distinct (map fst (acc @ d))"
    and "\<forall>(p, actions) \<in> set d. p \<noteq> [] \<and> provider_slug80 p = p \<and> actions \<noteq> [] \<and> clean actions = actions"
  shows "foldl (\<lambda>result (provider, actions).
       let slug = provider_slug80 provider; names = clean actions
       in if slug \<noteq> [] \<and> names \<noteq> [] then dict_set slug names result else result) acc d = acc @ d"
  using assms
proof (induction d arbitrary: acc)
  case (Cons pa d)
  obtain p actions where pa: "pa = (p, actions)" by force
  then have "p \<noteq> []" "provider_slug80 p = p" "actions \<noteq> []" "clean actions = actions"
    using Cons.prems(2) by auto
  moreover have "p \<notin> set (map fst acc)" using Cons.prems(1) pa by auto
  ultimately show ?case
    using Cons.IH [of "acc @ [pa]"] Cons.prems pa by (simp add: dict_set_new)
qed simp

lemma clean_allowlists_fixed:
  assumes "clean_allowlists d"
  shows "allowlists_with safe_action_slugs d = d" "lane_action_allowlists d = d"
proof -
  have "p \<noteq> [] \<and> provider_slug80 p = p \<and> actions \<noteq> [] \<and> safe_action_slugs actions = actions
      \<and> safe_tool_names actions = actions" if "(p, actions) \<in> set d" for p actions
    using that assms clean_fixed by (auto simp: clean_allowlists_def list_all_iff)
  then show "allowlists_with safe_action_slugs d = d" "lane_action_allowlists d = d"
    using allowlists_with_fixed [of "[]" d safe_action_slugs] allowlists_with_fixed [of "[]" d safe_tool_names] assms
    by (auto simp: allowlists_with_def lane_action_allowlists_def clean_allowlists_def)
qed

lemma clean_allowlists_sort: "clean_allowlists (sort_key fst d) = clean_allowlists d"
proof -
  have "mset (map fst (sort_key fst d)) = mset (map fst d)" by simp
  then have "distinct (map fst (sort_key fst d)) = distinct (map fst d)"
    by (metis mset_eq_imp_distinct_iff)
  then show ?thesis by (simp add: clean_allowlists_def list_all_iff)
qed

lemma py_items_list [simp]: "py_items (str_list xs) = xs"
  by (simp add: py_items_def str_list_def comp_def)

lemma allowlists_value_metadata [simp]: "allowlists_value (allowlists_metadata d) = sort_key fst d"
  by (simp add: allowlists_value_def allowlists_metadata_def comp_def case_prod_unfold)

lemma status_words [simp]:
  "plan_status_of (PStr (plan_status_name s)) = s" "plan_kind_of (PStr (plan_kind_name k)) = k"
  "lane_executor_of (PStr (lane_executor_name x)) = x"
proof -
  have "plan_status_of (PStr ''not_applicable'') = PlanNotApplicable" "plan_status_of (PStr ''ready'') = PlanReady"
    "plan_status_of (PStr ''blocked'') = PlanBlocked" "plan_kind_of (PStr ''none'') = NoActionKind"
    "plan_kind_of (PStr ''facebook_post_direct_apply'') = FacebookDirectApply"
    "plan_kind_of (PStr ''provider_action'') = ProviderAction" "lane_executor_of (PStr ''none'') = NoExecutor"
    "lane_executor_of (PStr ''provider_worker'') = ProviderWorker"
    "lane_executor_of (PStr ''specialized_direct_tool'') = SpecializedDirectTool"
    by code_simp+
  then show "plan_status_of (PStr (plan_status_name s)) = s" "plan_kind_of (PStr (plan_kind_name k)) = k"
    "lane_executor_of (PStr (lane_executor_name x)) = x" by (cases s, simp_all) (cases k, simp_all, cases x, simp_all)
qed

lemma sanitize_lifecycle_fixed:
  assumes "lifecycle_dict_ok d"
  shows "sanitize_connection_lifecycle_metadata (PDict d) = d"
proof -
  have item: "sanitize_lifecycle_item k v acc = dict_set k v acc" if "k \<in> set lifecycle_allowed_keys" "lifecycle_value_ok v" for k v acc
  proof -
    have list: "sanitize_lifecycle_list xs = PList xs" if "lifecycle_value_ok (PList xs)" for xs
    proof -
      have ok: "\<forall>x \<in> set xs. \<exists>s. x = PStr s \<and> s \<noteq> [] \<and> is_token s" "length xs \<le> 8" using that by simp_all
      have "\<forall>x \<in> set xs. PStr (safe_public_lifecycle_token x) = x \<and> safe_public_lifecycle_token x \<noteq> []"
        using ok(1) lifecycle_token_fixed by fastforce
      then have "map (PStr \<circ> safe_public_lifecycle_token) xs = xs"
        "filter (\<lambda>t. t \<noteq> []) (map safe_public_lifecycle_token xs) = map safe_public_lifecycle_token xs"
        by (auto intro: map_idI filter_True)
      then show ?thesis using ok(2) by (simp add: sanitize_lifecycle_list_def)
    qed
    show ?thesis
      using that list lifecycle_token_fixed by (cases v) (simp_all add: sanitize_lifecycle_item_def)
  qed
  have "foldl (\<lambda>safe (key, v). sanitize_lifecycle_item key v safe) acc d = acc @ d"
    if "distinct (map fst (acc @ d))" "\<forall>(k, v) \<in> set d. k \<in> set lifecycle_allowed_keys \<and> lifecycle_value_ok v" for acc
    using that
  proof (induction d arbitrary: acc)
    case (Cons kv d)
    then show ?case
      using Cons.IH [of "acc @ [kv]"] item by (cases kv) (auto simp: dict_set_new)
  qed simp
  then show ?thesis
    using assms [unfolded lifecycle_dict_ok_def dict_keys_def]
    by (simp add: sanitize_connection_lifecycle_metadata_def)
qed

text \<open>Plans that metadata carries whole.\<close>

definition clean_plan :: "turn_plan \<Rightarrow> bool" where
  "clean_plan p \<longleftrightarrow> tp_version p \<noteq> [] \<and> provider_slug80 (tp_provider_slug p) = tp_provider_slug p
     \<and> list_all (\<lambda>s. lane_text160 s = s) [tp_action_slug p, tp_reason p, tp_forced_tool_name p]
     \<and> clean_list lane_text160 (tp_allowed_tool_names p)
     \<and> clean_list provider_slug80 (tp_requested_providers p) \<and> clean_list provider_slug80 (tp_ready_providers p)
     \<and> clean_allowlists (tp_allowlists p) \<and> lifecycle_dict_ok (tp_lifecycle p)"

lemma metadata_lookups [simp]:
  "field_value [] k = PNone" "field_value ((k', v) # m) k = (if k' = k then v else field_value m k)"
  "field_text m k = str_or_empty (field_value m k)"
  by (simp_all add: field_value_def field_text_def or_default_def)

lemma plan_metadata_roundtrip:
  assumes "clean_plan p"
  shows "plan_of_metadata (turn_plan_metadata p)
    = p\<lparr>tp_allowlists := sort_key fst (tp_allowlists p), tp_unavailable_answer := []\<rparr>"
proof -
  note clean = assms [unfolded clean_plan_def]
  have keep: "sanitize_connection_lifecycle_metadata (PDict (tp_lifecycle p)) = tp_lifecycle p"
    using clean sanitize_lifecycle_fixed by blast
  have none: "sanitize_connection_lifecycle_metadata PNone = []"
    by (simp add: sanitize_connection_lifecycle_metadata_def)
  have allow: "allowlists_with safe_action_slugs (sort_key fst (tp_allowlists p)) = sort_key fst (tp_allowlists p)"
    using clean clean_allowlists_fixed clean_allowlists_sort by blast
  show ?thesis
    using clean clean_fixed
    by (simp add: plan_of_metadata_def turn_plan_metadata_def Let_def keep none allow str_or_def)
qed

text \<open>Lanes that metadata carries whole, and the lane of a clean plan.\<close>

lemma lane_text_take: "take 160 (lane_text160 s) = lane_text160 s" "lane_text160 s = s \<Longrightarrow> take 160 s = s"
  by (simp add: lane_text160_def) (metis lane_text160_def length_take min.cobounded2 take_all)

lemma clean_append_new: "distinct xs \<Longrightarrow> append_new [] xs = xs"
  using append_new_distinct [of "[]" xs] by simp

lemma title_short: "length (activity_title_for_provider s) \<le> 160"
proof -
  have "length (provider_slug80 s) \<le> 80" by (simp add: provider_slug80_def)
  then show ?thesis by (simp add: activity_title_for_provider_def Let_def)
qed

lemma tool_words:
  "lane_text160 direct_apply_tool = direct_apply_tool" "lane_text160 delegate_tool = delegate_tool"
  "lane_text160 list_actions_tool = list_actions_tool" "lane_text160 direct_apply_action = direct_apply_action"
  "py_strip direct_apply_tool = direct_apply_tool"
  "direct_apply_tool \<noteq> []" "delegate_tool \<noteq> []" "list_actions_tool \<noteq> []" "direct_apply_action \<noteq> []"
  "delegate_tool \<noteq> list_actions_tool" "provider_slug80 ''facebook'' = ''facebook''" "provider_slug80 [] = []"
  "lane_text160 [] = []" "lane_version \<noteq> []" "plan_version \<noteq> []" "plan_state_key \<noteq> lane_state_key"
  by code_simp+

definition clean_lane :: "lane \<Rightarrow> bool" where
  "clean_lane l \<longleftrightarrow> ln_version l \<noteq> [] \<and> provider_slug80 (ln_provider_slug l) = ln_provider_slug l
     \<and> list_all (\<lambda>s. lane_text160 s = s) [ln_action_slug l, ln_forced_tool_name l]
     \<and> length (ln_reason l) \<le> 160 \<and> length (ln_activity_title l) \<le> 160
     \<and> clean_list lane_text160 (ln_visible_tool_names l)
     \<and> clean_list provider_slug80 (ln_requested_providers l) \<and> clean_list provider_slug80 (ln_ready_providers l)
     \<and> clean_allowlists (ln_allowlists l)"

lemma lane_metadata_roundtrip:
  assumes "clean_lane l"
  shows "lane_of_metadata (lane_metadata l) = l\<lparr>ln_allowlists := sort_key fst (ln_allowlists l)\<rparr>"
proof -
  note clean = assms [unfolded clean_lane_def]
  have allow: "lane_action_allowlists (sort_key fst (ln_allowlists l)) = sort_key fst (ln_allowlists l)"
    using clean clean_allowlists_fixed clean_allowlists_sort by blast
  show ?thesis
    using clean clean_fixed by (simp add: lane_of_metadata_def lane_metadata_def Let_def allow str_or_def)
qed

lemma clean_list_Nil [simp]: "clean_list f []"
  by (simp add: clean_list_def)

lemma clean_allowlists_Nil [simp]: "clean_allowlists []"
  by (simp add: clean_allowlists_def)

lemma safe_tool_names_clean:
  assumes "clean_list lane_text160 xs"
  shows "clean_list lane_text160 (append_new [] (list_actions_tool # xs))"
  using assms distinct_append_new [of "[]" "list_actions_tool # xs"] tool_words(3,8)
  by (auto simp: clean_list_def list_all_iff)

lemma lane_of_clean_plan:
  assumes p: "clean_plan p" and forced: "py_strip (tp_forced_tool_name p) = tp_forced_tool_name p"
  shows "clean_lane (lane_from_plan (Some p))"
proof -
  note clean = p [unfolded clean_plan_def]
  have fixed: "lane_slugs (tp_requested_providers p) = tp_requested_providers p"
    "lane_slugs (tp_ready_providers p) = tp_ready_providers p"
    "lane_action_allowlists (tp_allowlists p) = tp_allowlists p"
    "safe_tool_names (tp_allowed_tool_names p) = tp_allowed_tool_names p"
    using clean clean_fixed clean_allowlists_fixed by blast+
  have visible: "clean_list lane_text160 (visible_tool_names_for_plan p x)" for x
    using clean tool_words safe_tool_names_clean [of "tp_allowed_tool_names p"]
    by (cases x) (auto simp: visible_tool_names_for_plan_def Let_def fixed forced str_or_def clean_list_def)
  show ?thesis
    using clean visible title_short [of "tp_provider_slug p"] tool_words
    by (auto simp: lane_from_plan_def idle_lane_def clean_lane_def Let_def fixed forced)
qed

lemma dict_set_twice [simp]: "dict_set k v (dict_set k v' d) = dict_set k v d"
  by (induction d) (auto simp: dict_set_def)

lemma recorded_lookup:
  "record_plan (Some state) p = Some (dict_set lane_state_key (PDict (lane_metadata (lane_from_plan (Some p))))
     (dict_set plan_state_key (PDict (turn_plan_metadata p)) state))"
  by (simp add: record_plan_def record_lane_def)

lemma recorded_plan_read_back:
  assumes "clean_plan p" "py_strip (tp_forced_tool_name p) = tp_forced_tool_name p"
    and "record_plan (Some state) p = Some state1"
  shows "plan_from_state state1 = Some (p\<lparr>tp_allowlists := sort_key fst (tp_allowlists p), tp_unavailable_answer := []\<rparr>)"
    "lane_from_state state1 = Some ((lane_from_plan (Some p))
      \<lparr>ln_allowlists := sort_key fst (ln_allowlists (lane_from_plan (Some p)))\<rparr>)"
    "record_lane (Some state1) (lane_from_plan (Some p)) = Some state1"
  using assms(3) plan_metadata_roundtrip [OF assms(1)] lane_metadata_roundtrip [OF lane_of_clean_plan [OF assms(1,2)]]
    tool_words(16)
  by (auto simp: recorded_lookup plan_from_state_def lane_from_state_def record_lane_def)

text \<open>A plan resolved from a clean view is clean.\<close>

definition view_clean :: "turn_view \<Rightarrow> bool" where
  "view_clean tv \<longleftrightarrow> clean_list provider_slug80 (tv_requested_providers tv)
     \<and> clean_list provider_slug80 (tv_ready_providers tv)"

lemma catalogue_words:
  assumes "a \<in> set curated_actions"
  shows "ca_slug a \<noteq> []" "take 160 (dash_to_underscore (py_upper (py_strip (ca_slug a)))) = ca_slug a"
    "lane_text160 (ca_slug a) = ca_slug a"
proof -
  have "list_all (\<lambda>a. ca_slug a \<noteq> [] \<and> take 160 (dash_to_underscore (py_upper (py_strip (ca_slug a)))) = ca_slug a
      \<and> lane_text160 (ca_slug a) = ca_slug a) curated_actions"
    by code_simp
  with assms show "ca_slug a \<noteq> []" "take 160 (dash_to_underscore (py_upper (py_strip (ca_slug a)))) = ca_slug a"
    "lane_text160 (ca_slug a) = ca_slug a" by (simp_all add: list_all_iff)
qed

lemma registry_words:
  assumes "e \<in> set provider_registry"
  shows "pe_slug e \<noteq> []" "provider_slug80 (pe_slug e) = pe_slug e"
proof -
  have "list_all (\<lambda>e. pe_slug e \<noteq> [] \<and> provider_slug80 (pe_slug e) = pe_slug e) provider_registry"
    by code_simp
  with assms show "pe_slug e \<noteq> []" "provider_slug80 (pe_slug e) = pe_slug e" by (simp_all add: list_all_iff)
qed

lemma clean_catalogue_slugs:
  assumes "set xs \<subseteq> ca_slug ` set curated_actions"
  shows "clean_list (\<lambda>s. take 160 (dash_to_underscore (py_upper (py_strip s)))) (safe_action_slugs xs)"
    "clean_list lane_text160 (safe_action_slugs xs)" "set (safe_action_slugs xs) = set xs"
proof -
  have fixed: "s \<noteq> [] \<and> take 160 (dash_to_underscore (py_upper (py_strip s))) = s \<and> lane_text160 s = s" if s: "s \<in> set xs" for s
  proof -
    obtain a where "a \<in> set curated_actions" "s = ca_slug a" using s assms by blast
    then show ?thesis using catalogue_words [of a] by simp
  qed
  show elems: "set (safe_action_slugs xs) = set xs"
  proof -
    have "map (\<lambda>s. take 160 (dash_to_underscore (py_upper (py_strip s)))) xs = xs" using fixed by (auto intro: map_idI)
    moreover have "filter (\<lambda>s. s \<noteq> []) xs = xs" using fixed by (auto intro: filter_True)
    ultimately show ?thesis by (simp add: safe_action_slugs_def)
  qed
  have "distinct (safe_action_slugs xs)"
    by (simp add: safe_action_slugs_def distinct_append_new)
  then show "clean_list (\<lambda>s. take 160 (dash_to_underscore (py_upper (py_strip s)))) (safe_action_slugs xs)"
    "clean_list lane_text160 (safe_action_slugs xs)"
    using fixed by (simp_all add: clean_list_def list_all_iff elems)
qed

lemma inventory_slugs:
  "ef_slug ` set (iv_actions (turn_inventory n user entry w)) \<subseteq> ca_slug ` set curated_actions"
proof -
  have slug: "ef_slug (effective_action_record g b a) = ca_slug a" for g b a
    by (simp add: effective_action_record_def Let_def)
  have "set (list_curated_actions p True) \<subseteq> set curated_actions" for p by (auto simp: set_list_curated)
  then show ?thesis
    by (simp add: turn_inventory_def Let_def build_effective_action_inventory_def image_image slug image_mono)
qed

lemma clean_allowlists_set:
  assumes "clean_allowlists d" "clean_allowlists [(p, actions)]"
  shows "clean_allowlists (dict_set p actions d)"
proof -
  let ?ok = "\<lambda>(p, actions). p \<noteq> [] \<and> provider_slug80 p = p \<and> actions \<noteq> []
     \<and> clean_list (\<lambda>s. take 160 (dash_to_underscore (py_upper (py_strip s)))) actions \<and> clean_list lane_text160 actions"
  have ok: "clean_allowlists x \<longleftrightarrow> distinct (dict_keys x) \<and> (\<forall>y \<in> set x. ?ok y)" for x
    by (simp only: clean_allowlists_def list_all_iff dict_keys_def)
  have "\<forall>y \<in> insert (p, actions) (set d). ?ok y" using assms unfolding ok by simp
  then have "\<forall>y \<in> set (dict_set p actions d). ?ok y" using set_dict_set [of p actions d] by blast
  then show ?thesis using assms(1) distinct_dict_keys_set [of d p actions] unfolding ok by blast
qed

definition visible_slugs :: "post_env \<Rightarrow> auth_user \<Rightarrow> provider_entry \<Rightarrow> world \<Rightarrow> string list" where
  "visible_slugs n user entry w = map ef_slug (filter ef_visible_to_agent (iv_actions (turn_inventory n user entry w)))"

lemma visible_slugs_catalogue: "set (visible_slugs n user entry w) \<subseteq> ca_slug ` set curated_actions"
  using inventory_slugs [of n user entry w] by (auto simp: visible_slugs_def)

lemma clean_visible_entry:
  assumes "e \<in> set provider_registry" "visible_slugs n user entry w \<noteq> []" "pe_slug entry = pe_slug e"
  shows "clean_allowlists [(pe_slug entry, safe_action_slugs (visible_slugs n user entry w))]"
proof -
  have "safe_action_slugs (visible_slugs n user entry w) \<noteq> []"
    using clean_catalogue_slugs(3) [OF visible_slugs_catalogue] assms(2) by (metis set_empty)
  then show ?thesis
    using registry_words [OF assms(1)] clean_catalogue_slugs(1,2) [OF visible_slugs_catalogue] assms(3)
    by (simp add: clean_allowlists_def)
qed

lemma clean_effective_allowlists: "clean_allowlists (effective_action_allowlists n state providers w)"
proof -
  let ?user = "authenticated_user_from_state state" and ?entry = "\<lambda>e. composio_execution_enabled_entry e (en_config n)"
  let ?step = "\<lambda>result provider. case get_provider_entry provider of None \<Rightarrow> result
      | Some e \<Rightarrow> if visible_slugs n ?user (?entry e) w \<noteq> []
          then dict_set (pe_slug (?entry e)) (safe_action_slugs (visible_slugs n ?user (?entry e) w)) result else result"
  have step: "clean_allowlists (?step acc provider)" if "clean_allowlists acc" for acc provider
    using that by (auto intro!: clean_allowlists_set get_provider_entry_Some
        clean_visible_entry [OF _ _ enabled_entry_slug(2), unfolded enabled_entry_slug]
        simp: enabled_entry_slug split: option.split)
  have "clean_allowlists (foldl ?step acc providers)" if "clean_allowlists acc" for acc
    using that by (induction providers arbitrary: acc) (simp_all only: foldl.simps step)
  from this [OF clean_allowlists_Nil] show ?thesis
    unfolding effective_action_allowlists_def Let_def visible_slugs_def .
qed

lemma clean_configured_slugs:
  assumes "clean_allowlists d"
  shows "clean_allowlists (scope_action_allowlists d slug)"
  using assms clean_allowlists_fixed(1) [OF assms]
  by (auto simp: scope_action_allowlists_def Let_def clean_allowlists_def list_all_iff dict_get_def
      dest!: map_of_SomeD split: option.split list.split)

lemma lifecycle_ok_Nil [simp]: "lifecycle_dict_ok []"
  by (simp add: lifecycle_dict_ok_def)

lemma clean_lifecycle [simp]: "lifecycle_dict_ok (plan_lifecycle tv slug)"
  by (simp add: plan_lifecycle_def Let_def sanitize_connection_lifecycle_metadata_safe)

lemma reason_words:
  "list_all (\<lambda>s. lane_text160 s = s) [[], ''provider_not_agent_ready'', ''no_agent_ready_actions'', ''facebook_post_request'',
    ''no_external_app_action_intent'', ''ambiguous_provider_target'', ''missing_provider_target'',
    ''registered_provider_action_request'']"
  by code_simp

lemma resolve_plan_clean:
  assumes "view_clean tv"
  shows "clean_plan (resolve_plan n tv None None (Some state) w)"
    "py_strip (tp_forced_tool_name (resolve_plan n tv None None (Some state) w))
      = tp_forced_tool_name (resolve_plan n tv None None (Some state) w)"
proof -
  let ?al = "action_allowlists_for_providers n (Some state) (tv_ready_providers tv) w"
  have al: "clean_allowlists ?al"
    by (simp add: action_allowlists_for_providers_def clean_effective_allowlists)
  have tv: "clean_list provider_slug80 (tv_requested_providers tv)" "clean_list provider_slug80 (tv_ready_providers tv)"
    using assms by (simp_all add: view_clean_def)
  have posting: "clean_list provider_slug80 (list_or (tv_requested_providers tv) [''facebook''])"
    using tv(1) tool_words(11) by (simp add: list_or_def clean_list_def)
  have target: "provider_slug80 t = t" if "tv_requested_providers tv = t # ts" for t ts
    using tv(1) that by (simp add: clean_list_def)
  have words: "clean_list lane_text160 [delegate_tool]" "clean_list lane_text160 [direct_apply_tool]" "clean_list lane_text160 []"
    using tool_words by (simp_all add: clean_list_def)
  have strip: "py_strip [] = []" by code_simp
  note clean = al tv posting words tool_words(1-13,15) reason_words [simplified] clean_configured_slugs [OF al]
    clean_allowlists_fixed(1) [OF al] strip
  show "clean_plan (resolve_plan n tv None None (Some state) w)"
    "py_strip (tp_forced_tool_name (resolve_plan n tv None None (Some state) w))
      = tp_forced_tool_name (resolve_plan n tv None None (Some state) w)"
    using clean target
    by (simp_all add: resolve_plan_def Let_def clean_plan_def empty_plan_def ready_facebook_plan_def
        blocked_facebook_plan_def blocked_provider_plan_def split: list.split)
qed

section \<open>What a resolved plan lists\<close>

definition usable_action :: "post_env \<Rightarrow> auth_user \<Rightarrow> world \<Rightarrow> string \<Rightarrow> string \<Rightarrow> bool" where
  "usable_action n user w provider slug \<longleftrightarrow>
     (\<exists>a conn. operator_permits (en_config n) provider a \<and> ca_slug a = slug
        \<and> select_wiii_connect_connection provider user (env_storage n) [] w = Some conn
        \<and> conn_active conn \<and> scope_allows (cr_scopes conn) (ca_mutation a))"

lemma visible_slug_row:
  fixes n user w e
  defines "entry \<equiv> composio_execution_enabled_entry e (en_config n)"
    and "conn \<equiv> select_wiii_connect_connection (pe_slug e) user (env_storage n) [] w"
    and "enabled \<equiv> map normalize_action_slug (filter (\<lambda>s. py_strip s \<noteq> [])
        (executable_action_slugs_for_provider (en_config n) (pe_slug e)))"
  assumes e: "e \<in> set provider_registry"
  shows "s \<in> set (visible_slugs n user entry w) \<longleftrightarrow>
    (\<exists>a. a \<in> set curated_actions \<and> ca_provider_slug a = pe_slug e \<and> ca_slug a = s \<and> s \<in> set enabled
      \<and> pe_enabled entry \<and> pe_agent_ready entry \<and> is_active conn \<and> required_scope_granted a conn)"
proof -
  have norm: "normalize_provider_slug (pe_slug e) = pe_slug e" "pe_slug e \<noteq> []"
    using registry_slug_normal [OF e] by simp_all
  have row: "ef_slug (effective_action_record g b a) = ca_slug a"
    "ef_visible_to_agent (effective_action_record g b a) \<longleftrightarrow> b \<and> pe_enabled (ia_entry g) \<and> pe_agent_ready (ia_entry g)
       \<and> is_active (ia_connection g) \<and> required_scope_granted a (ia_connection g)" for g b a
    by (simp_all add: effective_action_record_def Let_def)
  have slug: "pe_slug entry = pe_slug e" by (simp add: entry_def enabled_entry_slug)
  obtain g where rows: "iv_actions (turn_inventory n user entry w)
      = map (\<lambda>a. effective_action_record g (ca_slug a \<in> set enabled) a) (list_curated_actions (Some (pe_slug e)) True)"
    and g: "ia_connection g = conn" "ia_entry g = entry"
    unfolding turn_inventory_def Let_def build_effective_action_inventory_def
    by (fastforce simp: slug conn_def enabled_def)
  have listed: "a \<in> set (list_curated_actions (Some (pe_slug e)) True) \<longleftrightarrow> a \<in> set curated_actions \<and> ca_provider_slug a = pe_slug e" for a
    using norm by (auto simp: set_list_curated or_default_def)
  have "s \<in> set (visible_slugs n user entry w) \<longleftrightarrow>
      (\<exists>a. a \<in> set (list_curated_actions (Some (pe_slug e)) True)
        \<and> ef_visible_to_agent (effective_action_record g (ca_slug a \<in> set enabled) a) \<and> ca_slug a = s)"
    by (simp only: visible_slugs_def rows filter_map set_map set_filter image_image row(1) comp_def) auto
  then show ?thesis by (auto simp: row(2) g listed)
qed

lemma visible_slug_iff:
  assumes e: "e \<in> set provider_registry"
  shows "s \<in> set (visible_slugs n user (composio_execution_enabled_entry e (en_config n)) w)
    \<longleftrightarrow> adapter_usable (en_config n) \<and> usable_action n user w (pe_slug e) s"
proof
  let ?entry = "composio_execution_enabled_entry e (en_config n)"
  let ?conn = "select_wiii_connect_connection (pe_slug e) user (env_storage n) [] w"
  let ?visible = "s \<in> set (visible_slugs n user ?entry w)"
  have norm: "normalize_provider_slug (pe_slug e) = pe_slug e" "pe_slug e \<noteq> []"
    using registry_slug_normal [OF e] by simp_all
  note permits = runtime_enabled_permits(1) [OF e, of _ "en_config n"]
  {
    assume ?visible
    then obtain a where a: "a \<in> set curated_actions" "ca_provider_slug a = pe_slug e" "ca_slug a = s"
        "pe_enabled ?entry" "is_active ?conn" "required_scope_granted a ?conn"
        "ca_slug a \<in> set (map normalize_action_slug (filter (\<lambda>s. py_strip s \<noteq> [])
          (executable_action_slugs_for_provider (en_config n) (pe_slug e))))"
      unfolding visible_slug_row [OF e] by blast
    have "operator_permits (en_config n) (pe_slug e) a" using permits [OF a(1,2)] a(7) by blast
    then show "adapter_usable (en_config n) \<and> usable_action n user w (pe_slug e) s"
      using a(3-6) catalogue_facts(4) [OF a(1)] registry_execution_entry [OF e]
      by (cases ?conn) (auto simp: usable_action_def is_active_def required_scope_granted_def list_or_def)
  next
    assume usable: "adapter_usable (en_config n) \<and> usable_action n user w (pe_slug e) s"
    then obtain a conn where a: "operator_permits (en_config n) (pe_slug e) a" "ca_slug a = s" "?conn = Some conn"
        "conn_active conn" "scope_allows (cr_scopes conn) (ca_mutation a)"
      by (auto simp: usable_action_def)
    then have known: "a \<in> set curated_actions" "ca_provider_slug a = pe_slug e"
      using norm(2) by (auto simp: operator_permits_def)
    have "registry_reads (en_config n) (pe_slug e) @ registry_applies (en_config n) (pe_slug e) \<noteq> []"
      using a(1) registry_actions_empty [of "en_config n" "pe_slug e"] unfolding norm(1) by blast
    then have "pe_enabled ?entry" "pe_agent_ready ?entry"
      using usable registry_execution_entry [OF e, of "en_config n"] by (auto simp: list_or_def)
    moreover have "is_active ?conn" "required_scope_granted a ?conn"
      using a(3-5) catalogue_facts(4) [OF known(1)]
      by (auto simp: is_active_def required_scope_granted_def list_or_def)
    ultimately show ?visible
      unfolding visible_slug_row [OF e] using a(2) known permits [OF known] a(1) by blast
  }
qed

lemma visible_slug_usable:
  assumes "e \<in> set provider_registry"
    and "s \<in> set (visible_slugs n user (composio_execution_enabled_entry e (en_config n)) w)"
  shows "usable_action n user w (pe_slug e) s"
  using assms visible_slug_iff by blast

lemma effective_allowlists_usable:
  "list_all (\<lambda>(p, actions). list_all (usable_action n (authenticated_user_from_state state) w p) actions)
     (effective_action_allowlists n state providers w)"
proof -
  let ?user = "authenticated_user_from_state state" and ?entry = "\<lambda>e. composio_execution_enabled_entry e (en_config n)"
  let ?ok = "list_all (\<lambda>(p, actions). list_all (usable_action n ?user w p) actions)"
  let ?step = "\<lambda>result provider. case get_provider_entry provider of None \<Rightarrow> result
      | Some e \<Rightarrow> if visible_slugs n ?user (?entry e) w \<noteq> []
          then dict_set (pe_slug (?entry e)) (safe_action_slugs (visible_slugs n ?user (?entry e) w)) result else result"
  have set_ok: "?ok (dict_set p actions d)" if "?ok d" "list_all (usable_action n ?user w p) actions" for p actions and d :: allowlists
    using that set_dict_set [of p actions d] unfolding list_all_iff by (blast dest: subsetD)
  have entry: "list_all (usable_action n ?user w (pe_slug e)) (safe_action_slugs (visible_slugs n ?user (?entry e) w))"
    if "e \<in> set provider_registry" for e
    using visible_slug_usable [OF that] clean_catalogue_slugs(3) [OF visible_slugs_catalogue]
    by (simp add: list_all_iff)
  have step: "?ok (?step acc provider)" if "?ok acc" for acc provider
    using that entry get_provider_entry_Some [of provider]
    by (auto intro!: set_ok simp: enabled_entry_slug split: option.split)
  have "?ok (foldl ?step acc providers)" if "?ok acc" for acc
    using that by (induction providers arbitrary: acc) (simp_all only: foldl.simps step)
  from this [of "[]"] show ?thesis
    unfolding effective_action_allowlists_def Let_def visible_slugs_def by simp
qed

text \<open>The shapes of a plan resolved without overrides.\<close>

lemma resolved_ready_cases:
  assumes "view_clean tv" "plan_ready (resolve_plan n tv None None (Some state) w)"
  obtains (facebook) "tp_kind (resolve_plan n tv None None (Some state) w) = FacebookDirectApply"
      "resolve_plan n tv None None (Some state) w = ready_facebook_plan
        (list_or (tv_requested_providers tv) [''facebook'']) (tv_ready_providers tv)
        (action_allowlists_for_providers n (Some state) (tv_ready_providers tv) w)"
    | (provider) target actions where "tv_requested_providers tv = [target]" "target \<noteq> []" "actions \<noteq> []"
      "target \<in> set (tv_ready_providers tv)" "\<not> tv_facebook_post tv" "tv_external_action tv"
      "dict_get (effective_action_allowlists n state (tv_ready_providers tv) w) target = Some actions"
      "resolve_plan n tv None None (Some state) w = empty_plan\<lparr>tp_status := PlanReady, tp_kind := ProviderAction,
         tp_provider_slug := target, tp_reason := ''registered_provider_action_request'',
         tp_allowed_tool_names := [delegate_tool], tp_requested_providers := [target],
         tp_ready_providers := tv_ready_providers tv, tp_allowlists := [(target, actions)]\<rparr>"
proof (cases "tv_facebook_post tv")
  case True
  then show thesis
    using assms(2) facebook
    by (auto simp: resolve_plan_def Let_def plan_ready_def blocked_facebook_plan_def ready_facebook_plan_def
        empty_plan_def split: if_splits)
next
  case False
  let ?al = "effective_action_allowlists n state (tv_ready_providers tv) w"
  have al: "clean_allowlists ?al" by (rule clean_effective_allowlists)
  from False assms(2) obtain target where target: "tv_requested_providers tv = [target]" "target \<noteq> []"
      "target \<in> set (tv_ready_providers tv)" "tv_external_action tv"
    and scoped: "scope_action_allowlists (action_allowlists_for_providers n (Some state) (tv_ready_providers tv) w) target \<noteq> []"
    by (cases "tv_requested_providers tv"; cases "tl (tv_requested_providers tv)")
      (auto simp: resolve_plan_def Let_def plan_ready_def blocked_provider_plan_def empty_plan_def split: if_splits)
  have lists: "action_allowlists_for_providers n (Some state) (tv_ready_providers tv) w = ?al"
    using target(3) by (auto simp: action_allowlists_for_providers_def)
  have slug: "provider_slug80 target = target"
    using assms(1) target(1) by (simp add: view_clean_def clean_list_def)
  obtain actions where actions: "dict_get ?al target = Some actions" "actions \<noteq> []"
      "scope_action_allowlists ?al target = [(target, actions)]"
    using scoped target(2) clean_allowlists_fixed(1) [OF al]
    by (auto simp: lists scope_action_allowlists_def Let_def slug split: option.splits list.splits)
  show thesis
    by (rule provider [OF target(1,2) actions(2) target(3) False target(4) actions(1)])
      (use False target in \<open>simp add: resolve_plan_def Let_def lists actions(3)\<close>)
qed

lemma normal_clean_slug:
  assumes "provider_slug80 t = t"
  shows "normalize_provider_slug t = t"
proof -
  have "length (normalize_provider_slug t) \<le> length t"
    using length_py_strip_le [of t] by (simp add: normalize_provider_slug_def)
  moreover have "take 80 (normalize_provider_slug t) = t"
    using assms by (simp add: provider_slug80_def normalize_provider_slug_def)
  ultimately show ?thesis by (metis take_all nat_le_linear length_take min_def)
qed

definition turn_slugs :: "post_env \<Rightarrow> pydict \<Rightarrow> world \<Rightarrow> string \<Rightarrow> string list" where
  "turn_slugs n state w t = (case get_provider_entry t of None \<Rightarrow> []
     | Some e \<Rightarrow> visible_slugs n (authenticated_user_from_state state) (composio_execution_enabled_entry e (en_config n)) w)"

lemma effective_allowlist_of:
  assumes "clean_list provider_slug80 providers"
  shows "dict_get (effective_action_allowlists n state providers w) t =
    (if t \<in> set providers \<and> turn_slugs n state w t \<noteq> [] then Some (safe_action_slugs (turn_slugs n state w t)) else None)"
proof -
  let ?user = "authenticated_user_from_state state" and ?entry = "\<lambda>e. composio_execution_enabled_entry e (en_config n)"
  let ?step = "\<lambda>result provider. case get_provider_entry provider of None \<Rightarrow> result
      | Some e \<Rightarrow> if visible_slugs n ?user (?entry e) w \<noteq> []
          then dict_set (pe_slug (?entry e)) (safe_action_slugs (visible_slugs n ?user (?entry e) w)) result else result"
  have step: "dict_get (?step acc p) t = (if t = p \<and> turn_slugs n state w t \<noteq> []
      then Some (safe_action_slugs (turn_slugs n state w t)) else dict_get acc t)" if "provider_slug80 p = p" for acc p
    using provider_slug_normal(3) [of p] normal_clean_slug [OF that]
    by (auto simp: turn_slugs_def enabled_entry_slug split: option.split)
  have "dict_get (foldl ?step acc providers) t =
      (if t \<in> set providers \<and> turn_slugs n state w t \<noteq> [] then Some (safe_action_slugs (turn_slugs n state w t))
       else dict_get acc t)" for acc
    using assms
  proof (induction providers arbitrary: acc)
    case (Cons p ps)
    then have "provider_slug80 p = p" "clean_list provider_slug80 ps" by (auto simp: clean_list_def)
    then show ?case using Cons.IH [of "?step acc p"] step [of p acc] by (simp only: foldl.simps list.set) auto
  qed simp
  from this [of "[]"] show ?thesis
    unfolding effective_action_allowlists_def Let_def visible_slugs_def by simp
qed

end
