(* ===== verification/Action_Tools.thy ===== *)
theory Action_Tools
  imports Action_Lane Endpoint
begin

text \<open>
  \<open>app/engine/tools/wiii_connect_tools.py\<close>: the tools through which the main model acts on an external account.
  Each run starts from the agent's state, where the turn's plan and lane were recorded, checks them
  (\<open>_external_action_execution_gate\<close>), and hands one action to the backend executor. A tool answers with a
  dictionary; its JSON text is what the model sees.
\<close>

section \<open>Allowlists and input types\<close>

text \<open>The type of an argument in a generated schema: any text, or one of a list of words (\<open>Literal\<close>).\<close>

datatype slug_type = AnyText | OneOf "string list"

definition provider_slug_type :: "string list \<Rightarrow> bool \<Rightarrow> slug_type" where
  "provider_slug_type allowed include_empty =
     (let values = worker_provider_allowlist allowed
      in if values = [] then AnyText else OneOf ((if include_empty then [[]] else []) @ values))"

definition action_slug_type :: "string list \<Rightarrow> slug_type" where
  "action_slug_type allowed =
     (let values = worker_action_allowlist allowed in if values = [] then AnyText else OneOf values)"

definition allowed_actions_by_provider ::
    "composio_config \<Rightarrow> string list \<Rightarrow> allowlists option \<Rightarrow> allowlists" where
  "allowed_actions_by_provider config allowed given =
     (if allowed = [] then []
      else let override = action_allowlists_by_provider given
        in if list_all (\<lambda>p. dict_get override p \<noteq> None) allowed
           then foldl (\<lambda>d p. dict_set p (or_default (dict_get override p) []) d) [] allowed
           else foldl (\<lambda>d p. case dict_get override p of
               Some actions \<Rightarrow> dict_set p actions d
             | None \<Rightarrow> (case get_provider_entry p of
                 None \<Rightarrow> d
               | Some entry0 \<Rightarrow> let entry = composio_execution_enabled_entry entry0 config
                   in dict_set (pe_slug entry) (pe_action_allowlist entry) d)) [] allowed)"

section \<open>What a tool reads from the state\<close>

definition query_text :: "pydict \<Rightarrow> string option" where
  "query_text d =
     (case List.map_filter (\<lambda>k. case dict_get d k of
          Some (PStr s) \<Rightarrow> if py_strip s \<noteq> [] then Some (take 800 (py_strip s)) else None
        | _ \<Rightarrow> None) [''query'', ''current_query'', ''user_query'', ''question''] of
        [] \<Rightarrow> None
      | q # _ \<Rightarrow> Some q)"

definition action_policy_prompt_from_state :: "pydict \<Rightarrow> string" where
  "action_policy_prompt_from_state state =
     (case query_text state of
        Some q \<Rightarrow> q
      | None \<Rightarrow> or_default (query_text (state_context state)) [])"

definition safe_intent_prompt :: "string \<Rightarrow> pydict \<Rightarrow> string" where
  "safe_intent_prompt value state =
     (let prompt = py_strip value in
      if prompt \<noteq> [] then take 800 (squash_spaces prompt) else action_policy_prompt_from_state state)"

definition request_id_from_state :: "string option \<Rightarrow> pydict \<Rightarrow> string option" where
  "request_id_from_state runtime_id state =
     find (\<lambda>s. s \<noteq> [])
       [py_strip (field_text state ''request_id''), py_strip (field_text (state_context state) ''request_id''),
        py_strip (or_default runtime_id [])]"

text \<open>What a run has beside its arguments and the state: settings, storage probe, clock, nonce and key
  (\<open>te_base\<close>), the request id of the runtime, and the two sentences of the Facebook tool, whose letters
  are outside the alphabet of \<open>char\<close>.\<close>

record tool_env =
  te_base :: post_env
  te_runtime_request_id :: "string option"
  te_posted_text :: string
  te_not_posted_text :: string

definition tool_post_env :: "tool_env \<Rightarrow> pydict \<Rightarrow> post_env" where
  "tool_post_env n state = (te_base n)
     \<lparr>en_user := authenticated_user_from_state state,
      en_request_id := request_id_from_state (te_runtime_request_id n) state\<rparr>"

section \<open>The execution gate\<close>

definition planned_action :: "string \<Rightarrow> string" where
  "planned_action action_slug =
     (let raw = py_strip action_slug in if py_startswith ''wiii_connect.'' raw then raw else action_slug120 raw)"

definition gate_metadata ::
    "turn_plan option \<Rightarrow> lane option \<Rightarrow> string \<Rightarrow> string \<Rightarrow> string \<Rightarrow> plan_kind \<Rightarrow> lane_executor \<Rightarrow> pydict" where
  "gate_metadata plan lane provider_slug action_slug tool kind executor =
     [(''plan'', opt_dict (map_option turn_plan_metadata plan)),
      (''lane'', opt_dict (map_option lane_metadata lane)),
      (''requested_provider_slug'', PStr (provider_slug80 provider_slug)),
      (''requested_action_slug'', PStr (planned_action action_slug)),
      (''requested_tool_name'', PStr (py_strip tool)),
      (''expected_kind'', PStr (plan_kind_name kind)),
      (''expected_executor'', PStr (lane_executor_name executor))]"

definition execution_gate ::
    "pydict \<Rightarrow> string \<Rightarrow> string \<Rightarrow> string \<Rightarrow> plan_kind \<Rightarrow> lane_executor \<Rightarrow> bool \<times> string \<times> pydict" where
  "execution_gate state provider_slug action_slug tool kind executor =
     (let plan = plan_from_state state; lane = lane_from_state state;
          action = planned_action action_slug; normalized = action_slug120 (py_strip action_slug);
          provider = provider_slug80 provider_slug; tool_text = py_strip tool;
          metadata = gate_metadata plan lane provider_slug action_slug tool kind executor;
          deny = (\<lambda>reason. (False, reason, metadata))
      in case plan of
        None \<Rightarrow> deny ''missing_external_app_action_plan''
      | Some p \<Rightarrow>
          if \<not> plan_ready p then deny (str_or (tp_reason p) ''external_app_action_plan_not_ready'')
          else if tp_kind p \<noteq> kind then deny ''external_app_action_kind_mismatch''
          else if provider \<noteq> [] \<and> tp_provider_slug p \<noteq> [] \<and> tp_provider_slug p \<noteq> provider
          then deny ''external_app_action_provider_mismatch''
          else if action \<noteq> [] \<and> tp_action_slug p \<noteq> [] \<and> tp_action_slug p \<noteq> action
          then deny ''external_app_action_slug_mismatch''
          else if provider \<noteq> [] \<and> tp_ready_providers p \<noteq> [] \<and> provider \<notin> set (tp_ready_providers p)
          then deny ''provider_not_agent_ready''
          else let allowlist = or_default (dict_get (tp_allowlists p) provider) []
            in if kind = ProviderAction \<and> allowlist \<noteq> [] \<and> normalized \<noteq> [] \<and> normalized \<notin> set allowlist
               then deny ''external_app_action_not_in_plan_allowlist''
               else (case lane of
                 None \<Rightarrow> deny ''missing_external_app_integration_lane''
               | Some l \<Rightarrow>
                   if \<not> lane_ready l then deny (str_or (ln_reason l) ''external_app_integration_lane_not_ready'')
                   else if ln_executor l \<noteq> executor then deny ''external_app_integration_executor_mismatch''
                   else if provider \<noteq> [] \<and> ln_provider_slug l \<noteq> [] \<and> ln_provider_slug l \<noteq> provider
                   then deny ''external_app_integration_provider_mismatch''
                   else if action \<noteq> [] \<and> ln_action_slug l \<noteq> [] \<and> ln_action_slug l \<noteq> action
                   then deny ''external_app_integration_action_mismatch''
                   else if ln_visible_tool_names l \<noteq> [] \<and> tool_text \<notin> set (map py_strip (ln_visible_tool_names l))
                   then deny ''external_app_integration_tool_not_visible''
                   else if ln_forced_tool_name l \<noteq> [] \<and> ln_forced_tool_name l \<noteq> tool_text
                   then deny ''external_app_integration_forced_tool_mismatch''
                   else (True, ''ready'', metadata)))"

section \<open>Answers\<close>

record answer_parts =
  an_gateway :: "pydict option"
  an_schema :: "pydict option"
  an_upload :: "pydict option"
  an_execution :: "pydict option"
  an_storage :: "pydict option"

definition no_parts :: answer_parts where
  "no_parts = \<lparr> an_gateway = None, an_schema = None, an_upload = None, an_execution = None, an_storage = None \<rparr>"

definition generic_failure_status :: "string \<Rightarrow> string" where
  "generic_failure_status reason =
     (if reason \<in> {''missing_required_arguments'', ''invalid_argument''} then ''validation_failed''
      else if reason = ''missing_preview_evidence'' then ''preview_required''
      else if reason = ''missing_approval_token'' then ''approval_required''
      else ''action_failed'')"

definition generic_failure :: "string \<Rightarrow> string \<Rightarrow> string \<Rightarrow> answer_parts \<Rightarrow> pydict \<Rightarrow> pydict" where
  "generic_failure reason provider action parts data =
     (let safe_reason = safe_surface reason in
      [(''version'', PStr ''wiii_connect_generic_direct_tool.v1''),
       (''status'', PStr (generic_failure_status safe_reason)), (''success'', PBool False),
       (''summary'', PStr (''Wiii Connect action blocked: '' @ safe_reason)), (''error'', PStr safe_reason),
       (''provider_slug'', PStr provider), (''action_slug'', PStr action),
       (''gateway'', opt_dict (an_gateway parts)), (''schema'', opt_dict (an_schema parts)),
       (''execution'', opt_dict (an_execution parts)), (''storage'', opt_dict (an_storage parts)),
       (''data'', PDict data)])"

definition generic_success :: "string \<Rightarrow> string \<Rightarrow> string \<Rightarrow> answer_parts \<Rightarrow> pydict \<Rightarrow> pydict" where
  "generic_success summary provider action parts data =
     [(''version'', PStr ''wiii_connect_generic_direct_tool.v1''), (''status'', PStr ''action_completed''),
      (''success'', PBool True), (''summary'', PStr summary), (''provider_slug'', PStr provider),
      (''action_slug'', PStr action), (''gateway'', opt_dict (an_gateway parts)),
      (''schema'', opt_dict (an_schema parts)), (''execution'', opt_dict (an_execution parts)),
      (''storage'', opt_dict (an_storage parts)), (''data'', PDict data)]"

definition result_parts :: "action_result \<Rightarrow> pydict \<Rightarrow> answer_parts" where
  "result_parts r storage = no_parts
     \<lparr>an_gateway := Some (gateway_to_public_metadata (rs_gateway r)),
      an_schema := map_option tool_schema_metadata (rs_schema r),
      an_execution := map_option execute_result_metadata (rs_execution r), an_storage := Some storage\<rparr>"

section \<open>Listing the catalogue\<close>

definition attach_ranked_candidates :: "pydict \<Rightarrow> string \<Rightarrow> string list \<Rightarrow> string \<Rightarrow> pydict" where
  "attach_ranked_candidates catalog provider allowlist intent_prompt =
     (let prompt = py_strip intent_prompt;
          ranked = rank_action_candidates provider allowlist prompt ''read'' 8
      in if prompt = [] then catalog
         else dict_set ''ranking'' (PDict
           [(''version'', PStr ''wiii_connect_action_policy.v1''), (''prompt_present'', PBool True),
            (''candidate_count'', PInt (int (length ranked))),
            (''candidates'', PList (map (\<lambda>c. PDict (candidate_metadata c)) ranked))]) catalog)"

definition catalog_actions :: "pydict \<Rightarrow> pydict list" where
  "catalog_actions catalog =
     (case dict_get catalog ''actions'' of
        Some (PList xs) \<Rightarrow> List.map_filter (\<lambda>x. case x of PDict d \<Rightarrow> Some d | _ \<Rightarrow> None) xs
      | _ \<Rightarrow> [])"

definition list_actions ::
    "composio_config \<Rightarrow> string \<Rightarrow> bool \<Rightarrow> string list \<Rightarrow> allowlists option \<Rightarrow> string \<Rightarrow> pydict" where
  "list_actions config provider_slug include_disabled allowed_slugs allowed_actions intent_prompt =
     (let provider = provider_slug80 provider_slug;
          allowed = worker_provider_allowlist allowed_slugs;
          by_provider = allowed_actions_by_provider config allowed allowed_actions
      in if allowed \<noteq> [] \<and> provider \<noteq> [] \<and> provider \<notin> set allowed
         then generic_failure ''provider_not_agent_ready'' provider [] no_parts
           [(''allowed_provider_slugs'', str_list allowed)]
         else if provider \<noteq> []
         then (case get_provider_entry provider of
             None \<Rightarrow> generic_failure ''unknown_wiii_connect_provider'' provider [] no_parts []
           | Some entry0 \<Rightarrow> let
               entry = composio_execution_enabled_entry entry0 config;
               enabled = (if allowed \<noteq> [] then or_default (dict_get by_provider (pe_slug entry)) []
                 else pe_action_allowlist entry);
               catalog = attach_ranked_candidates
                 (action_catalog_public_metadata (Some (pe_slug entry)) include_disabled (Some enabled))
                 (pe_slug entry) enabled intent_prompt
             in generic_success ''Action catalog loaded.'' (pe_slug entry) [] no_parts
               [(''action_catalog'', PDict catalog)])
         else let
           catalog = action_catalog_public_metadata None include_disabled None;
           slugs = concat (map snd by_provider);
           actions = filter (\<lambda>d. provider_slug80 (field_text d ''provider_slug'') \<in> set allowed
             \<and> (slugs = [] \<or> action_slug120 (field_text d ''slug'') \<in> set slugs)) (catalog_actions catalog);
           scoped = (if allowed = [] then catalog
             else dict_merge catalog
               [(''allowed_provider_slugs'', str_list allowed),
                (''action_count'', PInt (int (length actions))),
                (''enabled_action_count'', PInt (int (length (filter (\<lambda>d. get_flag d ''enabled'') actions)))),
                (''actions'', PList (map PDict actions))])
         in generic_success ''Action catalog loaded.'' [] [] no_parts [(''action_catalog'', PDict scoped)])"

section \<open>One provider action\<close>

definition tool_argument_policy_metadata :: "string \<Rightarrow> string \<Rightarrow> pydict \<Rightarrow> pydict \<Rightarrow> pydict" where
  "tool_argument_policy_metadata provider action raw_arguments safe_arguments =
     (let raw_keys = dict_keys raw_arguments; accepted_keys = dict_keys safe_arguments in
      [(''version'', PStr ''wiii_connect_argument_filter.v1''),
       (''provider_slug'', PStr (provider_slug80 provider)),
       (''action_slug'', PStr (action_slug120 action)),
       (''provided_argument_count'', PInt (int (length raw_keys))),
       (''accepted_argument_count'', PInt (int (length accepted_keys))),
       (''accepted_argument_keys'', str_list (sort (safe_public_argument_keys accepted_keys))),
       (''hidden_argument_count'', PInt (max 0 (int (length raw_keys) - int (length accepted_keys))))])"

text \<open>The keyword arguments of \<open>execute_wiii_connect_provider_action\<close>.\<close>

record action_call =
  tc_provider_slug :: string
  tc_action_slug :: string
  tc_connection_ref :: string
  tc_mutation :: string
  tc_arguments :: pydict
  tc_preview_evidence_id :: string
  tc_approval_token_present :: bool
  tc_allowed_providers :: "string list"
  tc_intent_prompt :: string
  tc_tool_name :: string
  tc_authorization_verified :: bool

definition call_authorization :: "action_call \<Rightarrow> curated_action \<Rightarrow> action_authorization" where
  "call_authorization k a = resolve_action_authorization (scope_str (ca_mutation a))
     (Some (tc_preview_evidence_id k)) (tc_approval_token_present k) (tc_authorization_verified k)"

text \<open>The two plans of a run differ in their stage and in what they add to the audit record.\<close>

definition tool_plan ::
    "post_env \<Rightarrow> provider_entry \<Rightarrow> connection_record option \<Rightarrow> policy_decision \<Rightarrow> curated_action \<Rightarrow> action_call \<Rightarrow>
     string \<Rightarrow> pydict \<Rightarrow> action_plan" where
  "tool_plan n entry connection policy a k stage extra =
     (let authorization = call_authorization k a;
          arguments = model_visible_arguments (pe_slug entry) (ca_slug a) (Some (tc_arguments k))
      in \<lparr> ap_entry = entry, ap_config = en_config n, ap_user = en_user n, ap_connection = connection,
           ap_storage = env_storage n, ap_action_slug = ca_slug a, ap_mutation = scope_str (ca_mutation a),
           ap_arguments = arguments,
           ap_argument_keys = safe_public_argument_keys (dict_keys arguments),
           ap_path = ''external_app_action'',
           ap_approval_token_present = aa_trusted_approval_token_present authorization,
           ap_preview_evidence_id = aa_trusted_preview_evidence_id authorization,
           ap_preview_evidence_required = ca_requires_preview a,
           ap_connection_selection_required = False, ap_surface = ''direct_tool'', ap_stage = stage,
           ap_request_id = en_request_id n,
           ap_audit_metadata = extra @
             [(''action_policy'', PDict (policy_decision_metadata policy)),
              (''operation_policy'', PDict (authorization_metadata authorization)),
              (''argument_policy'', PDict (tool_argument_policy_metadata (pe_slug entry) (ca_slug a)
                 (tc_arguments k) arguments)),
              (''catalog_action'', PDict (curated_action_metadata a))] \<rparr>)"

definition call_data :: "provider_entry \<Rightarrow> curated_action \<Rightarrow> action_call \<Rightarrow> pydict" where
  "call_data entry a k =
     [(''operation_policy'', PDict (authorization_metadata (call_authorization k a))),
      (''argument_policy'', PDict (tool_argument_policy_metadata (pe_slug entry) (ca_slug a) (tc_arguments k)
         (model_visible_arguments (pe_slug entry) (ca_slug a) (Some (tc_arguments k)))))]"

definition run_provider_action ::
    "http_client \<Rightarrow> post_env \<Rightarrow> provider_entry \<Rightarrow> policy_decision \<Rightarrow> curated_action \<Rightarrow> action_call \<Rightarrow> world \<Rightarrow>
     pydict \<times> world" where
  "run_provider_action client n entry policy a k w =
     (let storage = env_storage n;
          connection = select_wiii_connect_connection (pe_slug entry) (en_user n) storage (tc_connection_ref k) w;
          (pre, w1) = preflight client (en_now n) (tool_plan n entry connection policy a k ''generic_preflight''
            [(''connection_ref_present'', PBool (tc_connection_ref k \<noteq> [])),
             (''connection_found'', PBool (connection \<noteq> None))]) w
      in if rs_status pre \<noteq> ''ready''
         then (generic_failure (rs_reason pre) (pe_slug entry) (ca_slug a)
             ((result_parts pre storage)\<lparr>an_execution := None\<rparr>) (call_data entry a k), w1)
         else let
           (r, w2) = execute_action client (en_now n)
             (tool_plan n entry connection policy a k ''generic_execute'' []) (Some pre) w1
         in (if rs_status r = ''succeeded''
             then generic_success ''Provider action completed.'' (pe_slug entry) (ca_slug a)
               (result_parts r storage) (call_data entry a k)
             else generic_failure (rs_reason r) (pe_slug entry) (ca_slug a) (result_parts r storage)
               (call_data entry a k @ (if rs_missing_argument_keys r = [] then []
                 else [(''missing_argument_keys'', str_list (rs_missing_argument_keys r))])), w2))"

definition execute_provider_action ::
    "http_client \<Rightarrow> tool_env \<Rightarrow> pydict \<Rightarrow> action_call \<Rightarrow> world \<Rightarrow> pydict \<times> world" where
  "execute_provider_action client n0 state k w =
     (let n = tool_post_env n0 state;
          provider = provider_slug80 (tc_provider_slug k);
          allowed = worker_provider_allowlist (tc_allowed_providers k)
      in if provider = [] then (generic_failure ''missing_provider_slug'' [] [] no_parts [], w)
         else if allowed \<noteq> [] \<and> provider \<notin> set allowed
         then (generic_failure ''provider_not_agent_ready'' provider [] no_parts
           [(''allowed_provider_slugs'', str_list allowed)], w)
         else (case get_provider_entry provider of
           None \<Rightarrow> (generic_failure ''unknown_wiii_connect_provider'' provider [] no_parts [], w)
         | Some entry0 \<Rightarrow> let
             entry = composio_execution_enabled_entry entry0 (en_config n);
             policy = select_action (pe_slug entry) (tc_action_slug k) (tc_mutation k) (pe_action_allowlist entry)
               (safe_intent_prompt (tc_intent_prompt k) state);
             refused = (generic_failure (policy_reason_name (pd_reason policy)) (pe_slug entry)
               (pd_action_slug policy) no_parts
               [(''action_policy'', PDict (policy_decision_metadata policy)),
                (''action_catalog'', PDict (action_catalog_public_metadata (Some (pe_slug entry)) True
                  (Some (pe_action_allowlist entry))))], w)
           in (case pd_selected_action policy of
                 None \<Rightarrow> refused
               | Some a \<Rightarrow>
                   if \<not> policy_selected policy then refused
                   else let (open_gate, reason, metadata) = (if allowed = [] then (True, [], [])
                       else execution_gate state (pe_slug entry) (ca_slug a) (tc_tool_name k)
                         ProviderAction ProviderWorker)
                     in if \<not> open_gate
                        then (generic_failure reason (pe_slug entry) (ca_slug a) no_parts
                          [(''execution_gate'', PDict metadata),
                           (''action_policy'', PDict (policy_decision_metadata policy))], w)
                        else run_provider_action client n entry policy a k w)))"

section \<open>Delegating to the worker\<close>

definition delegate_envelope :: "pydict \<Rightarrow> worker_plan \<Rightarrow> argument_plan option \<Rightarrow> pydict" where
  "delegate_envelope payload plan arguments =
     (let previous = field_text payload ''version'';
          result = dict_set ''version'' (PStr ''wiii_connect_integration_delegate_tool.v1'') payload;
          metadata = dict_merge (worker_plan_metadata plan)
            ([(''delegate_version'', PStr ''wiii_connect_integration_delegate_tool.v1''),
              (''planner_version'', PStr ''wiii_connect_integration_worker.v1''),
              (''worker_result_version'', PStr previous)]
             @ (case arguments of None \<Rightarrow> [] | Some r \<Rightarrow> [(''argument_plan'', PDict (argument_plan_metadata r))])
             @ [(''result_classification'', PDict (classify_worker_result result plan))]);
          data = (case dict_get result ''data'' of Some (PDict d) \<Rightarrow> d | _ \<Rightarrow> [])
      in dict_set ''data'' (PDict (dict_merge data [(''integration_worker'', PDict metadata)])) result)"

record delegate_call =
  dc_provider_slug :: string
  dc_prompt :: string
  dc_action_slug :: string
  dc_mutation :: string
  dc_connection_ref :: string
  dc_arguments :: "pydict option"
  dc_preview_evidence_id :: string
  dc_approval_token_present :: bool
  dc_allowed_providers :: "string list"
  dc_allowed_actions :: "allowlists option"

definition delegate_worker_call :: "pydict \<Rightarrow> delegate_call \<Rightarrow> worker_call" where
  "delegate_worker_call state d =
     \<lparr> wk_provider_slug = dc_provider_slug d, wk_prompt = safe_intent_prompt (dc_prompt d) state,
       wk_action_slug = dc_action_slug d, wk_mutation = dc_mutation d,
       wk_allowed_provider_slugs = worker_provider_allowlist (dc_allowed_providers d),
       wk_allowed_action_slugs = dc_allowed_actions d \<rparr>"

definition delegated_call :: "pydict \<Rightarrow> delegate_call \<Rightarrow> worker_plan \<Rightarrow> pydict \<Rightarrow> action_call" where
  "delegated_call state d plan arguments =
     \<lparr> tc_provider_slug = iw_provider_slug plan, tc_action_slug = iw_action_slug plan,
       tc_connection_ref = dc_connection_ref d, tc_mutation = scope_str (iw_selected_mutation plan),
       tc_arguments = arguments, tc_preview_evidence_id = dc_preview_evidence_id d,
       tc_approval_token_present = dc_approval_token_present d,
       tc_allowed_providers = worker_provider_allowlist (dc_allowed_providers d),
       tc_intent_prompt = safe_intent_prompt (dc_prompt d) state, tc_tool_name = delegate_tool,
       tc_authorization_verified = False \<rparr>"

definition delegate_to_integration ::
    "http_client \<Rightarrow> tool_env \<Rightarrow> pydict \<Rightarrow> delegate_call \<Rightarrow> world \<Rightarrow> pydict \<times> world" where
  "delegate_to_integration client n state d w =
     (let prompt = safe_intent_prompt (dc_prompt d) state;
          plan = plan_integration_worker (en_config (te_base n)) (delegate_worker_call state d)
      in if \<not> worker_ready plan
         then (delegate_envelope (generic_failure (iw_reason plan) (iw_provider_slug plan) (iw_action_slug plan)
             no_parts (worker_block_payload plan)) plan None, w)
         else let (open_gate, reason, metadata) = execution_gate state (iw_provider_slug plan)
             (iw_action_slug plan) delegate_tool ProviderAction ProviderWorker
           in if \<not> open_gate
              then (delegate_envelope (generic_failure reason (iw_provider_slug plan) (iw_action_slug plan) no_parts
                  [(''execution_gate'', PDict metadata), (''worker'', PDict (worker_block_payload plan))]) plan None, w)
              else let
                arguments = build_worker_arguments plan prompt (dc_arguments d);
                (result, w1) = execute_provider_action client n state
                  (delegated_call state d plan (wa_arguments arguments)) w
              in (delegate_envelope result plan (Some arguments), w1))"

section \<open>Publishing a Facebook post\<close>

record image_payload =
  im_bytes :: "nat list"
  im_media_type :: string
  im_filename :: string
  im_url :: string
  im_error :: string

definition no_image :: image_payload where
  "no_image = \<lparr> im_bytes = [], im_media_type = [], im_filename = [], im_url = [], im_error = [] \<rparr>"

definition latest_state_image :: "pydict \<Rightarrow> pydict" where
  "latest_state_image state =
     (let images = (case dict_get (state_context state) ''images'' of
            Some (PList xs) \<Rightarrow> xs
          | _ \<Rightarrow> (case dict_get state ''images'' of Some (PList xs) \<Rightarrow> xs | _ \<Rightarrow> []))
      in case List.map_filter (\<lambda>x. case x of
            PDict d \<Rightarrow> if truthy (field_value d ''data'') then Some d else None
          | _ \<Rightarrow> None) images of
           [] \<Rightarrow> []
         | d # _ \<Rightarrow> d)"

text \<open>The arguments of a direct post that name an image.\<close>

record image_request =
  iq_policy :: string
  iq_base64 :: "string option"
  iq_media_type :: "string option"
  iq_filename :: "string option"
  iq_url :: "string option"

definition resolve_image_payload :: "pydict \<Rightarrow> image_request \<Rightarrow> image_payload" where
  "resolve_image_payload state q =
     (let url = normalize_image_url (or_default (iq_url q) []);
          given = py_strip (or_default (iq_base64 q) []);
          latest = latest_state_image state;
          from_state = (given = [] \<and> py_strip (iq_policy q) = ''use_latest_user_image'');
          raw0 = (if from_state then py_strip (field_text latest ''data'') else given);
          media_type = (if from_state
            then py_strip (str_or_empty (first_truthy latest [''media_type''] (field_value latest ''mime_type'')))
            else py_strip (or_default (iq_media_type q) []));
          filename = (if from_state then py_strip (str_or (field_text latest ''filename'') ''wiii-chat-image'')
            else py_strip (or_default (iq_filename q) []))
      in if raw0 = [] then no_image\<lparr>im_url := url\<rparr>
         else let
           raw = (if CHR '','' \<in> set raw0 \<and> py_startswith ''data:'' (py_lower raw0)
             then after_comma raw0 else raw0);
           normal_type = normalize_image_media_type (Some media_type)
         in if normal_type = [] then no_image\<lparr>im_error := ''unsupported_image_type''\<rparr>
            else (case strict_b64decode raw of
              None \<Rightarrow> no_image\<lparr>im_error := ''invalid_image_base64''\<rparr>
            | Some content \<Rightarrow>
                if content = [] then no_image\<lparr>im_error := ''missing_image''\<rparr>
                else if length content > 10 * 1024 * 1024 then no_image\<lparr>im_error := ''image_too_large''\<rparr>
                else \<lparr> im_bytes = content, im_media_type = normal_type,
                  im_filename = normalize_image_filename (Some filename) normal_type,
                  im_url = [], im_error = [] \<rparr>))"

text \<open>The content of a direct post, as the post routes have it.\<close>

definition direct_content :: "image_payload \<Rightarrow> string \<Rightarrow> string \<Rightarrow> post_content" where
  "direct_content im message page_id =
     \<lparr> pc_image_bytes = im_bytes im, pc_media_type = im_media_type im, pc_filename = im_filename im,
       pc_image_url = im_url im, pc_message = message, pc_page_id = page_id, pc_error = im_error im \<rparr>"

definition direct_success :: "tool_env \<Rightarrow> string \<Rightarrow> string \<Rightarrow> string \<Rightarrow> answer_parts \<Rightarrow> pydict \<Rightarrow> pydict" where
  "direct_success n provider action page_id parts data =
     [(''version'', PStr ''wiii_connect_facebook_direct_tool.v1''), (''status'', PStr ''action_completed''),
      (''action'', PStr direct_apply_action), (''success'', PBool True),
      (''summary'', PStr (te_posted_text n)), (''provider_slug'', PStr provider),
      (''action_slug'', PStr action), (''page_id_present'', PBool (page_id \<noteq> [])),
      (''gateway'', opt_dict (an_gateway parts)), (''execution'', opt_dict (an_execution parts)),
      (''storage'', opt_dict (an_storage parts)), (''data'', PDict data)]"

definition direct_failure ::
    "tool_env \<Rightarrow> string \<Rightarrow> string \<Rightarrow> string \<Rightarrow> answer_parts \<Rightarrow> bool option \<Rightarrow> pydict \<Rightarrow> pydict" where
  "direct_failure n reason provider action parts ref_present data =
     [(''version'', PStr ''wiii_connect_facebook_direct_tool.v1''), (''status'', PStr ''action_failed''),
      (''action'', PStr direct_apply_action), (''success'', PBool False),
      (''summary'', PStr (te_not_posted_text n @ safe_surface reason)), (''error'', PStr (safe_surface reason)),
      (''provider_slug'', PStr provider), (''action_slug'', PStr action),
      (''gateway'', opt_dict (an_gateway parts)), (''schema'', opt_dict (an_schema parts)),
      (''upload'', opt_dict (an_upload parts)), (''execution'', opt_dict (an_execution parts)),
      (''storage'', opt_dict (an_storage parts)),
      (''action_catalog'', PDict (action_catalog_public_metadata (Some provider) True (Some []))),
      (''data'', PDict data)]
     @ (case ref_present of None \<Rightarrow> [] | Some b \<Rightarrow> [(''connection_ref_present'', PBool b)])"

text \<open>\<open>_select_default_facebook_page\<close>: a failure is the left part, a page id the right one.\<close>

definition page_list_request :: "provider_entry \<Rightarrow> string option \<Rightarrow> exec_request" where
  "page_list_request entry request_id =
     build_execution_request (pe_slug entry) ''FACEBOOK_LIST_MANAGED_PAGES'' ''read'' ''external_app_action''
       False None False [''fields'', ''limit''] request_id"

definition page_list_gateway :: "post_env \<Rightarrow> provider_entry \<Rightarrow> connection_record \<Rightarrow> gateway_decision" where
  "page_list_gateway n entry connection = decide_execution_gateway
     \<lparr> ga_entry = entry, ga_connection = Some connection, ga_request = page_list_request entry (en_request_id n),
       ga_adapter = Some (composio_capability (en_config n)),
       ga_ledger = Some [(''persistent'', PBool (audit_persistent (env_storage n)))],
       ga_require_persistent_audit = True, ga_connection_selection_required = False,
       ga_scope_policy = Some (scope_policy_for_provider_entry entry) \<rparr>"

definition select_default_page ::
    "http_client \<Rightarrow> post_env \<Rightarrow> provider_entry \<Rightarrow> connection_record \<Rightarrow> world \<Rightarrow>
     (string \<times> gateway_decision + string) \<times> world" where
  "select_default_page client n entry connection w =
     (let request = page_list_request entry (en_request_id n);
          gateway = page_list_gateway n entry connection; storage = env_storage n
      in if \<not> gateway_allowed gateway
         then (Inl (deny_reason_name (xd_reason (gd_decision gateway)), gateway),
           append_execution_audit (en_now n) gateway request storage (en_user n)
             [(''surface'', PStr ''direct_tool''), (''stage'', PStr ''page_list'')] w)
         else let
           (l, requests) = list_facebook_pages client (en_config n)
             (composio_external_user_id (us_organization_id (en_user n)) (us_user_id (en_user n)))
             (cr_connection_id connection) (xr_request_id request);
           w1 = append_execution_stage_audit (en_now n) gateway request storage (en_user n)
             (if pg_ready l then ''succeeded'' else ''blocked'') (pg_reason l)
             [(''surface'', PStr ''direct_tool''), (''stage'', PStr ''page_list''),
              (''page_list'', PDict (page_list_metadata l))] (send_requests requests w)
         in (case (if pg_ready l then pg_pages l else []) of
               [] \<Rightarrow> (Inl (str_or (pg_reason l) ''facebook_page_missing'', gateway), w1)
             | page # _ \<Rightarrow> (Inr (po_page_id page), w1)))"

record direct_call =
  dp_provider_slug :: string
  dp_connection_ref :: string
  dp_page_id :: string
  dp_message :: string
  dp_image :: image_request

text \<open>The plan of a direct post: it vouches for its own preview and approval.\<close>

definition direct_plan ::
    "post_env \<Rightarrow> provider_entry \<Rightarrow> connection_record option \<Rightarrow> post_content \<Rightarrow> string \<Rightarrow> bool \<Rightarrow> bool \<Rightarrow> pydict \<Rightarrow>
     string \<Rightarrow> pydict \<Rightarrow> action_plan" where
  "direct_plan n entry connection c evidence evidence_required selection_required arguments stage metadata =
     \<lparr> ap_entry = entry, ap_config = en_config n, ap_user = en_user n, ap_connection = connection,
       ap_storage = env_storage n, ap_action_slug = post_action_slug c, ap_mutation = ''apply'',
       ap_arguments = arguments, ap_argument_keys = post_argument_keys c, ap_path = ''external_app_action'',
       ap_approval_token_present = True, ap_preview_evidence_id = Some evidence,
       ap_preview_evidence_required = evidence_required,
       ap_connection_selection_required = selection_required, ap_surface = ''direct_tool'', ap_stage = stage,
       ap_request_id = en_request_id n, ap_audit_metadata = metadata \<rparr>"

definition direct_audit_base :: "post_env \<Rightarrow> provider_entry \<Rightarrow> connection_record \<Rightarrow> post_content \<Rightarrow> pydict" where
  "direct_audit_base n entry connection c =
     (let ref = public_connection_ref (cr_provider_slug connection) (cr_connection_id connection);
          opn = post_operation (pe_slug entry) c ref in
      [(''connection_ref_present'', PBool (ref \<noteq> [])),
       (''connection_id_present'', PBool (cr_connection_id connection \<noteq> [])),
       (''preview_evidence_id_present'', PBool (preview_evidence_id opn \<noteq> [])),
       (''approval_token_present'', PBool (build_approval_token opn (en_secret n) (en_clock n div 1000000)
          (en_nonce n) \<noteq> [])),
       (''message_length'', PInt (int (length (pc_message c)))),
       (''image_present'', PBool (pc_image_bytes c \<noteq> [] \<or> pc_image_url c \<noteq> [])),
       (''image_size_bytes'', PInt (int (length (pc_image_bytes c))))])"

definition publish_direct ::
    "http_client \<Rightarrow> tool_env \<Rightarrow> post_env \<Rightarrow> provider_entry \<Rightarrow> connection_record \<Rightarrow> post_content \<Rightarrow> world \<Rightarrow>
     pydict \<times> world" where
  "publish_direct client n0 n entry connection c w =
     (let storage = env_storage n; action = post_action_slug c;
          evidence = preview_evidence_id (post_operation (pe_slug entry) c
            (public_connection_ref (cr_provider_slug connection) (cr_connection_id connection)));
          base = direct_audit_base n entry connection c;
          failed = (\<lambda>reason parts data. direct_failure n0 reason (pe_slug entry) action parts None data);
          (pre, w1) = preflight client (en_now n)
            (direct_plan n entry (Some connection) c evidence True False [] ''apply'' base) w;
          gateway = Some (gateway_to_public_metadata (rs_gateway pre));
          schema = map_option tool_schema_metadata (rs_schema pre)
      in if rs_status pre \<noteq> ''ready''
         then (failed (rs_reason pre)
           (no_parts\<lparr>an_gateway := gateway, an_schema := schema, an_storage := Some storage\<rparr>) [], w1)
         else let
           (upload, sent) = (if pc_image_bytes c = [] then (None, [])
             else map_prod Some id (stage_file_upload client (en_config n) (pe_slug entry) action
               (pc_filename c) (pc_media_type c) (pc_image_bytes c) (or_default (en_request_id n) [])));
           upload_md = map_option file_upload_metadata upload;
           w2 = send_requests sent w1
         in if (case upload of None \<Rightarrow> False | Some u \<Rightarrow> \<not> fu_ready u)
            then (failed (fu_reason (the upload))
                (no_parts\<lparr>an_gateway := gateway, an_schema := schema, an_upload := upload_md,
                  an_storage := Some storage\<rparr>) [],
              append_execution_stage_audit (en_now n) (rs_gateway pre) (rs_request pre) storage (en_user n)
                ''blocked'' (fu_reason (the upload))
                (dict_merge ((''surface'', PStr ''direct_tool'') # base)
                  [(''stage'', PStr ''file_upload''), (''upload'', opt_dict upload_md)]) w2)
            else let
              arguments = post_arguments c
                @ (case upload of Some u \<Rightarrow> [(''photo'', PDict (fu_file_descriptor u))]
                   | None \<Rightarrow> if pc_image_url c \<noteq> [] then [(''url'', PStr (pc_image_url c))] else []);
              (r, w3) = execute_action client (en_now n)
                (direct_plan n entry (Some connection) c evidence True False arguments ''apply''
                  (base @ [(''upload'', opt_dict upload_md)])) (Some pre) w2
            in (if rs_status r = ''succeeded''
                then direct_success n0 (pe_slug entry) action (pc_page_id c)
                  ((result_parts r storage)\<lparr>an_schema := None\<rparr>)
                  [(''preview_evidence_id_present'', PBool True), (''approval_token_present'', PBool True),
                   (''image_present'', PBool (pc_image_bytes c \<noteq> [] \<or> pc_image_url c \<noteq> []))]
                else failed (rs_reason r) (result_parts r storage)
                  (if rs_missing_argument_keys r = [] then []
                   else [(''missing_argument_keys'', str_list (rs_missing_argument_keys r))]), w3))"

definition direct_apply ::
    "http_client \<Rightarrow> tool_env \<Rightarrow> pydict \<Rightarrow> direct_call \<Rightarrow> world \<Rightarrow> pydict \<times> world" where
  "direct_apply client n0 state d w =
     (let n = tool_post_env n0 state; provider = provider_slug80 (dp_provider_slug d);
          fail = (\<lambda>reason slug action parts ref_present data.
            direct_failure n0 reason slug action parts ref_present data)
      in if provider \<noteq> ''facebook''
         then (fail ''unsupported_provider_post'' provider [] no_parts None [], w)
         else (case get_provider_entry provider of
           None \<Rightarrow> (fail ''unknown_wiii_connect_provider'' provider [] no_parts None [], w)
         | Some entry0 \<Rightarrow>
             let (open_gate, reason, metadata) = execution_gate state provider direct_apply_action
               direct_apply_tool FacebookDirectApply SpecializedDirectTool
             in if \<not> open_gate
                then (fail reason provider direct_apply_action no_parts None
                  [(''execution_gate'', PDict metadata)], w)
                else let
                  entry = composio_execution_enabled_entry entry0 (en_config n);
                  storage = env_storage n;
                  connection = select_wiii_connect_connection (pe_slug entry) (en_user n) storage
                    (dp_connection_ref d) w;
                  message = normalize_post_message (dp_message d);
                  im = resolve_image_payload state (dp_image d);
                  page = normalize_page_id (dp_page_id d)
                in if im_error im \<noteq> [] \<or> message = []
                   then (fail (str_or (im_error im) ''missing_message'') (pe_slug entry) []
                     (no_parts\<lparr>an_storage := Some storage\<rparr>)
                     (Some (case connection of None \<Rightarrow> False
                        | Some c \<Rightarrow> public_connection_ref (cr_provider_slug c) (cr_connection_id c) \<noteq> [])) [], w)
                   else (case connection of
                     None \<Rightarrow> let
                       (pre, w1) = preflight client (en_now n)
                         (direct_plan n entry None (direct_content im message page) ''connection_missing'' False
                           (dp_connection_ref d = []) [] ''connection''
                           [(''connection_ref_present'', PBool (dp_connection_ref d \<noteq> []))]) w
                       in (fail (rs_reason pre) (pe_slug entry) []
                         ((result_parts pre storage)\<lparr>an_execution := None\<rparr>) None [], w1)
                   | Some c \<Rightarrow>
                       if page \<noteq> [] then publish_direct client n0 n entry c (direct_content im message page) w
                       else (case select_default_page client n entry c w of
                         (Inl (refusal, gateway), w1) \<Rightarrow>
                           (fail refusal (pe_slug entry) []
                             (no_parts\<lparr>an_gateway := Some (gateway_to_public_metadata gateway),
                               an_storage := Some storage\<rparr>) None [], w1)
                       | (Inr found, w1) \<Rightarrow>
                           publish_direct client n0 n entry c (direct_content im message found) w1))))"

section \<open>The tools bound to a turn\<close>

text \<open>What \<open>make_wiii_connect_\<dots>_tool\<close> captures. The flags are those set on the generated tool.\<close>

record bound_tool =
  bt_name :: string
  bt_state :: pydict
  bt_allowed_providers :: "string list"
  bt_allowed_actions :: allowlists
  bt_provider_type :: slug_type
  bt_action_type :: slug_type
  bt_mutates_state :: bool
  bt_action_owner :: string

definition bind_tool ::
    "composio_config \<Rightarrow> string \<Rightarrow> pydict option \<Rightarrow> string list \<Rightarrow> allowlists option \<Rightarrow> bound_tool" where
  "bind_tool config name state allowed_slugs given =
     (let allowed = worker_provider_allowlist allowed_slugs;
          actions = allowed_actions_by_provider config allowed given
      in \<lparr> bt_name = name, bt_state = or_default state [], bt_allowed_providers = allowed,
           bt_allowed_actions = actions, bt_provider_type = provider_slug_type allowed False,
           bt_action_type = action_slug_type (enabled_action_slugs_for_providers allowed actions),
           bt_mutates_state = True, bt_action_owner = [] \<rparr>)"

definition make_list_actions_tool ::
    "composio_config \<Rightarrow> pydict option \<Rightarrow> string list \<Rightarrow> allowlists option \<Rightarrow> bound_tool" where
  "make_list_actions_tool config state allowed given =
     (bind_tool config list_actions_tool state allowed given)
       \<lparr>bt_provider_type := provider_slug_type (worker_provider_allowlist allowed) True,
        bt_action_type := AnyText, bt_mutates_state := False\<rparr>"

definition make_execute_action_tool ::
    "composio_config \<Rightarrow> pydict option \<Rightarrow> string list \<Rightarrow> allowlists option \<Rightarrow> bound_tool" where
  "make_execute_action_tool config state allowed given =
     (bind_tool config execute_action_tool state allowed given)\<lparr>bt_action_owner := ''backend_gateway''\<rparr>"

definition make_delegate_tool ::
    "composio_config \<Rightarrow> pydict option \<Rightarrow> string list \<Rightarrow> allowlists option \<Rightarrow> bound_tool" where
  "make_delegate_tool config state allowed given = bind_tool config delegate_tool state allowed given"

definition run_list_actions_tool :: "composio_config \<Rightarrow> bound_tool \<Rightarrow> string \<Rightarrow> bool \<Rightarrow> string \<Rightarrow> pydict" where
  "run_list_actions_tool config t provider include_disabled intent_prompt =
     list_actions config provider (bt_allowed_providers t = [] \<and> include_disabled) (bt_allowed_providers t)
       (Some (bt_allowed_actions t)) (str_or intent_prompt (action_policy_prompt_from_state (bt_state t)))"

text \<open>The model fills the slugs, the mutation, the arguments and the claims; scope and state are the tool's.\<close>

definition run_execute_action_tool ::
    "http_client \<Rightarrow> tool_env \<Rightarrow> bound_tool \<Rightarrow> action_call \<Rightarrow> world \<Rightarrow> pydict \<times> world" where
  "run_execute_action_tool client n t k w = execute_provider_action client n (bt_state t)
     (k\<lparr>tc_allowed_providers := bt_allowed_providers t, tc_intent_prompt := [],
        tc_tool_name := execute_action_tool, tc_authorization_verified := False\<rparr>) w"

definition run_delegate_tool ::
    "http_client \<Rightarrow> tool_env \<Rightarrow> bound_tool \<Rightarrow> delegate_call \<Rightarrow> world \<Rightarrow> pydict \<times> world" where
  "run_delegate_tool client n t d w = delegate_to_integration client n (bt_state t)
     (d\<lparr>dc_allowed_providers := bt_allowed_providers t, dc_allowed_actions := Some (bt_allowed_actions t)\<rparr>) w"

section \<open>Lemmas\<close>

text \<open>The gate, exactly.\<close>

definition plan_authorizes :: "turn_plan \<Rightarrow> plan_kind \<Rightarrow> string \<Rightarrow> string \<Rightarrow> bool" where
  "plan_authorizes p kind provider action_slug \<longleftrightarrow>
     plan_ready p \<and> tp_kind p = kind
     \<and> (provider = [] \<or> tp_provider_slug p = [] \<or> tp_provider_slug p = provider)
     \<and> (planned_action action_slug = [] \<or> tp_action_slug p = [] \<or> tp_action_slug p = planned_action action_slug)
     \<and> (provider = [] \<or> tp_ready_providers p = [] \<or> provider \<in> set (tp_ready_providers p))
     \<and> (kind \<noteq> ProviderAction \<or> or_default (dict_get (tp_allowlists p) provider) [] = []
        \<or> action_slug120 (py_strip action_slug) = []
        \<or> action_slug120 (py_strip action_slug) \<in> set (or_default (dict_get (tp_allowlists p) provider) []))"

definition lane_authorizes :: "lane \<Rightarrow> lane_executor \<Rightarrow> string \<Rightarrow> string \<Rightarrow> string \<Rightarrow> bool" where
  "lane_authorizes l executor provider action_slug tool \<longleftrightarrow>
     lane_ready l \<and> ln_executor l = executor
     \<and> (provider = [] \<or> ln_provider_slug l = [] \<or> ln_provider_slug l = provider)
     \<and> (planned_action action_slug = [] \<or> ln_action_slug l = [] \<or> ln_action_slug l = planned_action action_slug)
     \<and> (ln_visible_tool_names l = [] \<or> tool \<in> set (map py_strip (ln_visible_tool_names l)))
     \<and> (ln_forced_tool_name l = [] \<or> ln_forced_tool_name l = tool)"

lemma gate_open_iff:
  "fst (execution_gate state provider action_slug tool kind executor) \<longleftrightarrow>
     (\<exists>p l. plan_from_state state = Some p \<and> lane_from_state state = Some l
       \<and> plan_authorizes p kind (provider_slug80 provider) action_slug
       \<and> lane_authorizes l executor (provider_slug80 provider) action_slug (py_strip tool))"
proof (cases "plan_from_state state")
  case None
  then show ?thesis by (simp add: execution_gate_def)
next
  case (Some p)
  have deny: "fst (if c then (False, r, m) else x) \<longleftrightarrow> \<not> c \<and> fst x" for c r m and x :: "bool \<times> string \<times> pydict"
    by simp
  show ?thesis
  proof (cases "lane_from_state state")
    case None
    then show ?thesis
      by (simp only: execution_gate_def Let_def Some option.case deny fst_conv) simp
  next
    case lane: (Some l)
    show ?thesis
      by (simp only: execution_gate_def Let_def Some lane option.case deny fst_conv option.inject
          plan_authorizes_def lane_authorizes_def de_Morgan_conj not_not simp_thms conj_assoc ex_simps
          cong: conj_cong)
  qed
qed

text \<open>Two plans that ask for the same thing: the second may run on the preflight of the first.\<close>

lemma posts_two_plans:
  assumes "plan_request q = plan_request p" "plan_gateway q = plan_gateway p"
    "plan_schema client q = plan_schema client p"
  shows "posts (wd_trace (snd (preflight client now p w))) = posts (wd_trace w)"
    "posts (wd_trace (snd (execute_action client now q (Some (fst (preflight client now p w))) w'))) =
      posts (wd_trace w') @ (if plan_reaches_provider client q then snd (plan_execution client q) else [])"
proof -
  show "posts (wd_trace (snd (preflight client now p w))) = posts (wd_trace w)"
    by (simp add: preflight_eq Let_def append_execution_audit_def append_audit_trace plan_schema_no_post)
  have same: "fst (preflight client now p w) = fst (preflight client now q w')"
    using assms by (simp add: preflight_eq Let_def)
  show "posts (wd_trace (snd (execute_action client now q (Some (fst (preflight client now p w))) w'))) =
      posts (wd_trace w') @ (if plan_reaches_provider client q then snd (plan_execution client q) else [])"
    unfolding same execute_action_def option.case
    by (cases rule: run_cases [of q _ client])
      (auto simp: execute_after_preflight_def preflight_eq Let_def plan_reaches_provider_def append_audit_trace
        plan_missing_def plan_execution_def case_prod_unfold posts_plan_execution [unfolded plan_execution_def])
qed

text \<open>One provider action: what it posts, and that it is a read.\<close>

lemma tool_plan_same:
  "plan_request (tool_plan n e c pol a k s x) = plan_request (tool_plan n e c pol a k s' x')"
  "plan_gateway (tool_plan n e c pol a k s x) = plan_gateway (tool_plan n e c pol a k s' x')"
  "plan_schema client (tool_plan n e c pol a k s x) = plan_schema client (tool_plan n e c pol a k s' x')"
  by (simp_all add: plan_gateway_def plan_gateway_args_def plan_schema_def plan_request_def tool_plan_def Let_def)

definition call_plan ::
    "post_env \<Rightarrow> provider_entry \<Rightarrow> policy_decision \<Rightarrow> curated_action \<Rightarrow> action_call \<Rightarrow> world \<Rightarrow> action_plan" where
  "call_plan n entry policy a k w = tool_plan n entry
     (select_wiii_connect_connection (pe_slug entry) (en_user n) (env_storage n) (tc_connection_ref k) w)
     policy a k ''generic_execute'' []"

lemma preflight_ready_iff:
  "rs_status (fst (preflight client now p w)) = ''ready'' \<longleftrightarrow>
     gateway_allowed (plan_gateway p) \<and> ts_ready (fst (plan_schema client p))"
  by (simp add: preflight_eq Let_def)

lemma run_provider_posts:
  "posts (wd_trace (snd (run_provider_action client n entry policy a k w))) = posts (wd_trace w) @
     (if plan_reaches_provider client (call_plan n entry policy a k w)
      then snd (plan_execution client (call_plan n entry policy a k w)) else [])"
proof -
  let ?connection = "select_wiii_connect_connection (pe_slug entry) (en_user n) (env_storage n) (tc_connection_ref k) w"
  let ?p = "tool_plan n entry ?connection policy a k ''generic_preflight''
            [(''connection_ref_present'', PBool (tc_connection_ref k \<noteq> [])),
             (''connection_found'', PBool (?connection \<noteq> None))]" and ?q = "call_plan n entry policy a k w"
  have same: "plan_request ?q = plan_request ?p" "plan_gateway ?q = plan_gateway ?p"
    "plan_schema client ?q = plan_schema client ?p"
    unfolding call_plan_def by (rule tool_plan_same)+
  show ?thesis
  proof (cases "rs_status (fst (preflight client (en_now n) ?p w)) = ''ready''")
    case True
    then show ?thesis
      using posts_two_plans [OF same, of "en_now n" w]
      by (simp add: run_provider_action_def Let_def case_prod_unfold call_plan_def)
  next
    case False
    then have "\<not> plan_reaches_provider client ?q"
      unfolding preflight_ready_iff plan_reaches_provider_def same by blast
    with False show ?thesis
      using posts_two_plans(1) [OF same, of "en_now n" w]
      by (simp add: run_provider_action_def Let_def case_prod_unfold)
  qed
qed

lemma call_plan_reads:
  assumes "gateway_allowed (plan_gateway (call_plan n entry policy a k w))" "a \<in> set curated_actions"
    and "\<not> tc_authorization_verified k"
  shows "ca_mutation a = Read"
    "\<exists>conn. ap_connection (call_plan n entry policy a k w) = Some conn \<and> conn_active conn \<and> sg_read (cr_scopes conn)"
proof -
  let ?p = "call_plan n entry policy a k w"
  have mutation: "xr_mutation (plan_request ?p) = ca_mutation a"
    by (cases "ca_mutation a") (simp_all add: call_plan_def tool_plan_def plan_request_def
        build_execution_request_def valid_mutation_def or_default_def Let_def)
  have approval: "xr_approval_token_present (plan_request ?p) = False"
    using assms(3) by (simp add: call_plan_def tool_plan_def plan_request_def build_execution_request_def
        call_authorization_def resolve_action_authorization_def Let_def)
  have "decision_allowed (decide_external_execution (ap_entry ?p) (ap_connection ?p) (plan_request ?p))"
    using assms(1) by (simp add: plan_gateway_def gateway_allowed_cases plan_gateway_args_def)
  then show "ca_mutation a = Read"
    "\<exists>conn. ap_connection (call_plan n entry policy a k w) = Some conn \<and> conn_active conn \<and> sg_read (cr_scopes conn)"
    using catalogue_facts(1) [OF assms(2)] unfolding external_allowed_iff mutation approval by auto
qed

text \<open>The events a tool run adds.\<close>

definition tool_posts :: "(world \<Rightarrow> pydict \<times> world) \<Rightarrow> world \<Rightarrow> http_request list" where
  "tool_posts run w = drop (length (posts (wd_trace w))) (posts (wd_trace (snd (run w))))"

lemma tool_posts_same [simp]: "snd (run w) = w \<Longrightarrow> tool_posts run w = []"
  by (simp add: tool_posts_def)

lemma tool_posts_append: "posts (wd_trace (snd (run w))) = posts (wd_trace w) @ qs \<Longrightarrow> tool_posts run w = qs"
  by (simp add: tool_posts_def)

text \<open>A run of the executor tool that posts: the call passed the gate of its scope, the policy selected a
  catalogue action, and the executor posted it.\<close>

lemma execute_posts_cases:
  assumes "tool_posts (execute_provider_action client n0 state k) w \<noteq> []"
  obtains entry0 a policy where
    "get_provider_entry (provider_slug80 (tc_provider_slug k)) = Some entry0"
    "policy = select_action (pe_slug entry0) (tc_action_slug k) (tc_mutation k)
      (pe_action_allowlist (composio_execution_enabled_entry entry0 (en_config (te_base n0))))
      (safe_intent_prompt (tc_intent_prompt k) state)"
    "policy_selected policy" "pd_selected_action policy = Some a"
    "worker_provider_allowlist (tc_allowed_providers k) = []
      \<or> fst (execution_gate state (pe_slug entry0) (ca_slug a) (tc_tool_name k) ProviderAction ProviderWorker)"
    "plan_reaches_provider client (call_plan (tool_post_env n0 state)
      (composio_execution_enabled_entry entry0 (en_config (te_base n0))) policy a k w)"
    "tool_posts (execute_provider_action client n0 state k) w = snd (plan_execution client
      (call_plan (tool_post_env n0 state)
        (composio_execution_enabled_entry entry0 (en_config (te_base n0))) policy a k w))"
proof -
  let ?n = "tool_post_env n0 state" and ?provider = "provider_slug80 (tc_provider_slug k)"
    and ?allowed = "worker_provider_allowlist (tc_allowed_providers k)"
  have config: "en_config ?n = en_config (te_base n0)" by (simp add: tool_post_env_def)
  note defs = execute_provider_action_def Let_def config enabled_entry_slug
  have quiet: "snd (execute_provider_action client n0 state k w) \<noteq> w" using assms by auto
  have named: "?provider \<noteq> []" "?allowed = [] \<or> ?provider \<in> set ?allowed"
  proof -
    have "snd (execute_provider_action client n0 state k w) = w"
      if "?provider = [] \<or> ?allowed \<noteq> [] \<and> ?provider \<notin> set ?allowed"
      using that by (auto simp: execute_provider_action_def Let_def)
    with quiet show "?provider \<noteq> []" "?allowed = [] \<or> ?provider \<in> set ?allowed" by blast+
  qed
  obtain entry0 where entry: "get_provider_entry ?provider = Some entry0"
    using quiet named by (cases "get_provider_entry ?provider") (auto simp: execute_provider_action_def Let_def)
  let ?entry = "composio_execution_enabled_entry entry0 (en_config (te_base n0))"
  let ?policy = "select_action (pe_slug entry0) (tc_action_slug k) (tc_mutation k)
      (pe_action_allowlist ?entry) (safe_intent_prompt (tc_intent_prompt k) state)"
  obtain a where sel: "pd_selected_action ?policy = Some a" "policy_selected ?policy"
    using quiet named entry by (cases "pd_selected_action ?policy") (auto simp: defs split: if_splits)
  have gate: "?allowed = [] \<or> fst (execution_gate state (pe_slug entry0) (ca_slug a) (tc_tool_name k)
      ProviderAction ProviderWorker)"
    using quiet named entry sel by (auto simp: defs case_prod_unfold split: if_splits)
  have "execute_provider_action client n0 state k w = run_provider_action client ?n ?entry ?policy a k w"
    using named entry sel gate by (auto simp: defs case_prod_unfold)
  then have run: "tool_posts (execute_provider_action client n0 state k) w =
      (if plan_reaches_provider client (call_plan ?n ?entry ?policy a k w)
       then snd (plan_execution client (call_plan ?n ?entry ?policy a k w)) else [])"
    using run_provider_posts [of client ?n ?entry ?policy a k w] by (intro tool_posts_append) simp
  have "plan_reaches_provider client (call_plan ?n ?entry ?policy a k w)"
    by (rule ccontr) (use assms run in simp)
  with run show thesis using that [OF entry refl sel(2,1) gate] by simp
qed

lemma execute_posts_reads:
  assumes posted: "tool_posts (execute_provider_action client n0 state k) w \<noteq> []"
    and unverified: "\<not> tc_authorization_verified k"
  shows "\<exists>a conn args. operator_permits (en_config (te_base n0)) (ca_provider_slug a) a \<and> ca_mutation a = Read
    \<and> ca_provider_slug a = normalize_provider_slug (provider_slug80 (tc_provider_slug k))
    \<and> (action_slug120 (tc_action_slug k) = [] \<or> ca_slug a = normalize_action_slug (action_slug120 (tc_action_slug k)))
    \<and> conn_active conn \<and> sg_read (cr_scopes conn)
    \<and> (worker_provider_allowlist (tc_allowed_providers k) = []
       \<or> fst (execution_gate state (ca_provider_slug a) (ca_slug a) (tc_tool_name k) ProviderAction ProviderWorker))
    \<and> list_all (\<lambda>key. \<not> is_sensitive_argument_key key) (dict_keys args)
    \<and> tool_posts (execute_provider_action client n0 state k) w =
      [HttpPost (tool_url (en_config (te_base n0)) ''/tools/execute/'' (ca_slug a))
        [(''user_id'', PStr (composio_external_user_id (us_organization_id (authenticated_user_from_state state))
            (us_user_id (authenticated_user_from_state state)))),
         (''connected_account_id'', PStr (cr_connection_id conn)), (''arguments'', PDict args)]
        (provider_request_headers (en_config (te_base n0)) (composio_safe_request_id
          (or_default (request_id_from_state (te_runtime_request_id n0) state) [])))]"
  using posted
proof (rule execute_posts_cases)
  fix entry0 a and policy :: policy_decision
  let ?config = "en_config (te_base n0)"
  let ?entry = "composio_execution_enabled_entry entry0 ?config"
  let ?p = "call_plan (tool_post_env n0 state) ?entry policy a k w"
  assume entry: "get_provider_entry (provider_slug80 (tc_provider_slug k)) = Some entry0"
    and policy: "policy = select_action (pe_slug entry0) (tc_action_slug k) (tc_mutation k)
      (pe_action_allowlist ?entry) (safe_intent_prompt (tc_intent_prompt k) state)"
    and sel: "policy_selected policy" "pd_selected_action policy = Some a"
    and gate: "worker_provider_allowlist (tc_allowed_providers k) = []
      \<or> fst (execution_gate state (pe_slug entry0) (ca_slug a) (tc_tool_name k) ProviderAction ProviderWorker)"
    and reach: "plan_reaches_provider client ?p"
    and posts: "tool_posts (execute_provider_action client n0 state k) w = snd (plan_execution client ?p)"
  have slug: "normalize_provider_slug (provider_slug80 (pe_slug entry0)) = pe_slug entry0"
    "normalize_provider_slug (provider_slug80 (tc_provider_slug k)) = pe_slug entry0"
    "normalize_provider_slug (pe_slug entry0) = pe_slug entry0"
    using provider_slug_normal [OF entry] registry_slug80 [OF entry] by simp_all
  note facts = select_action_selected [OF sel(1) [unfolded policy], folded policy, unfolded sel(2), simplified]
  have a: "a \<in> set curated_actions" "ca_provider_slug a = pe_slug entry0"
    using facts slug by auto
  have named: "action_slug120 (tc_action_slug k) = [] \<or> ca_slug a = normalize_action_slug (action_slug120 (tc_action_slug k))"
    using facts by (auto split: if_splits)
  have fields: "ap_config ?p = ?config" "ap_entry ?p = ?entry" "ap_user ?p = authenticated_user_from_state state"
    "xr_action_slug (plan_request ?p) = ca_slug a"
    "xr_request_id (plan_request ?p) = or_default (request_id_from_state (te_runtime_request_id n0) state) []"
    by (simp_all add: call_plan_def tool_plan_def plan_request_def build_execution_request_def Let_def
        tool_post_env_def curated_slug120 [OF a(1)])
  obtain b conn where b: "operator_permits ?config (pe_slug entry0) b" "ca_slug b = normalize_action_slug (ca_slug a)"
      "ap_connection ?p = Some conn" and sent: "snd (plan_execution client ?p) =
        [HttpPost (tool_url ?config ''/tools/execute/'' (ca_slug b))
          [(''user_id'', PStr (composio_external_user_id (us_organization_id (authenticated_user_from_state state))
            (us_user_id (authenticated_user_from_state state)))),
           (''connected_account_id'', PStr (cr_connection_id conn)), (''arguments'', PDict (ap_arguments ?p))]
          (provider_request_headers ?config (composio_safe_request_id
            (or_default (request_id_from_state (te_runtime_request_id n0) state) [])))]"
    using plan_execution_request [of client ?p] posted posts
    by (auto simp: fields enabled_entry_slug slug)
  have "normalize_action_slug (ca_slug a) = ca_slug a"
    using catalogue_facts(5,7) [OF a(1)] by (simp add: normalize_action_slug_def dash_to_underscore_id)
  then have "b = a" using b(1,2) a(1) catalogue_facts(9) by (auto simp: operator_permits_def)
  have keys: "list_all (\<lambda>key. \<not> is_sensitive_argument_key key) (dict_keys (ap_arguments ?p))"
    using model_visible_arguments_never_sensitive
    by (force simp: call_plan_def tool_plan_def Let_def list_all_iff dict_keys_def)
  have allowed: "gateway_allowed (plan_gateway ?p)" using reach by (simp add: plan_reaches_provider_def)
  show ?thesis
    using b sent named keys gate slug a call_plan_reads [OF allowed a(1) unverified] \<open>b = a\<close>
    by (intro exI [of _ a] exI [of _ conn] exI [of _ "ap_arguments ?p"]) (auto simp: posts)
qed

text \<open>A delegate run that posts was gated twice, and its executor call is that of its plan.\<close>

lemma delegate_posts_cases:
  assumes "tool_posts (delegate_to_integration client n state d) w \<noteq> []"
  obtains p k where
    "p = plan_integration_worker (en_config (te_base n)) (delegate_worker_call state d)" "worker_ready p"
    "fst (execution_gate state (iw_provider_slug p) (iw_action_slug p) delegate_tool ProviderAction ProviderWorker)"
    "tc_provider_slug k = iw_provider_slug p" "tc_action_slug k = iw_action_slug p"
    "\<not> tc_authorization_verified k"
    "tool_posts (delegate_to_integration client n state d) w = tool_posts (execute_provider_action client n state k) w"
proof -
  let ?p = "plan_integration_worker (en_config (te_base n)) (delegate_worker_call state d)"
  let ?k = "delegated_call state d ?p
    (wa_arguments (build_worker_arguments ?p (safe_intent_prompt (dc_prompt d) state) (dc_arguments d)))"
  have quiet: "snd (delegate_to_integration client n state d w) \<noteq> w" using assms by auto
  have ready: "worker_ready ?p"
    by (rule ccontr) (use quiet in \<open>simp add: delegate_to_integration_def Let_def\<close>)
  have gate: "fst (execution_gate state (iw_provider_slug ?p) (iw_action_slug ?p) delegate_tool ProviderAction ProviderWorker)"
    by (rule ccontr) (use quiet ready in \<open>simp add: delegate_to_integration_def Let_def case_prod_unfold\<close>)
  have "snd (delegate_to_integration client n state d w) = snd (execute_provider_action client n state ?k w)"
    using ready gate by (simp add: delegate_to_integration_def Let_def case_prod_unfold)
  then show thesis
    using that [of ?p ?k] ready gate by (simp add: delegated_call_def tool_posts_def)
qed

lemma delegate_tool_text: "py_strip delegate_tool = delegate_tool"
  by code_simp

section \<open>Properties\<close>

text \<open>Property C22: whatever the model passes to the delegate tool (its claims of a preview and an approval included), a run
  posts to a provider at most once, and then a catalogue action that is a read and that the operator permits, on
  an active connection with the read scope, with no sensitive argument, and only where the plan and the lane
  recorded for the turn authorise this provider, this action and this tool.\<close>

theorem delegate_posts_planned_reads:
  "case tool_posts (delegate_to_integration client n state d) w of
     [] \<Rightarrow> True
   | q # qs \<Rightarrow> qs = [] \<and> (\<exists>a conn p l args.
       operator_permits (en_config (te_base n)) (ca_provider_slug a) a \<and> ca_mutation a = Read
       \<and> conn_active conn \<and> sg_read (cr_scopes conn)
       \<and> plan_from_state state = Some p \<and> lane_from_state state = Some l
       \<and> plan_authorizes p ProviderAction (ca_provider_slug a) (ca_slug a)
       \<and> lane_authorizes l ProviderWorker (ca_provider_slug a) (ca_slug a) delegate_tool
       \<and> list_all (\<lambda>key. \<not> is_sensitive_argument_key key) (dict_keys args)
       \<and> q = HttpPost (tool_url (en_config (te_base n)) ''/tools/execute/'' (ca_slug a))
        [(''user_id'', PStr (composio_external_user_id (us_organization_id (authenticated_user_from_state state))
            (us_user_id (authenticated_user_from_state state)))),
         (''connected_account_id'', PStr (cr_connection_id conn)), (''arguments'', PDict args)]
        (provider_request_headers (en_config (te_base n)) (composio_safe_request_id
          (or_default (request_id_from_state (te_runtime_request_id n) state) []))))"
proof (cases "tool_posts (delegate_to_integration client n state d) w = []")
  case False
  then show ?thesis
  proof (rule delegate_posts_cases)
    fix p and k :: action_call
    assume p: "p = plan_integration_worker (en_config (te_base n)) (delegate_worker_call state d)" "worker_ready p"
      and gate: "fst (execution_gate state (iw_provider_slug p) (iw_action_slug p) delegate_tool ProviderAction ProviderWorker)"
      and k: "tc_provider_slug k = iw_provider_slug p" "tc_action_slug k = iw_action_slug p" "\<not> tc_authorization_verified k"
      and same: "tool_posts (delegate_to_integration client n state d) w = tool_posts (execute_provider_action client n state k) w"
    obtain e act where plan: "iw_provider_slug p = pe_slug e" "e \<in> set provider_registry"
        "act \<in> set curated_actions" "iw_action_slug p = ca_slug act"
      using p(2) unfolding p(1)
      by (rule plan_ready_cases) (metis get_provider_entry_Some select_action_selected option.inject)
    have slugs: "normalize_provider_slug (iw_provider_slug p) = iw_provider_slug p"
      "provider_slug80 (iw_provider_slug p) = iw_provider_slug p"
      "action_slug120 (iw_action_slug p) = iw_action_slug p" "iw_action_slug p \<noteq> []"
      "normalize_action_slug (iw_action_slug p) = iw_action_slug p"
      using registry_words [OF plan(2)] registry_slug_normal [OF plan(2)] catalogue_facts(5,6,7) [OF plan(3)]
        curated_slug120 [OF plan(3)]
      by (simp_all add: plan normalize_action_slug_def dash_to_underscore_id)
    have "tool_posts (execute_provider_action client n state k) w \<noteq> []" using False same by simp
    note run = execute_posts_reads [OF this k(3), unfolded k slugs]
    obtain pl l where gated: "plan_from_state state = Some pl" "lane_from_state state = Some l"
        "plan_authorizes pl ProviderAction (iw_provider_slug p) (iw_action_slug p)"
        "lane_authorizes l ProviderWorker (iw_provider_slug p) (iw_action_slug p) delegate_tool"
      using gate [unfolded gate_open_iff slugs delegate_tool_text] by blast
    obtain a conn args where sent: "operator_permits (en_config (te_base n)) (ca_provider_slug a) a" "ca_mutation a = Read"
        "ca_provider_slug a = iw_provider_slug p" "ca_slug a = iw_action_slug p" "conn_active conn"
        "sg_read (cr_scopes conn)" "list_all (\<lambda>key. \<not> is_sensitive_argument_key key) (dict_keys args)"
        "tool_posts (execute_provider_action client n state k) w =
          [HttpPost (tool_url (en_config (te_base n)) ''/tools/execute/'' (ca_slug a))
            [(''user_id'', PStr (composio_external_user_id (us_organization_id (authenticated_user_from_state state))
                (us_user_id (authenticated_user_from_state state)))),
             (''connected_account_id'', PStr (cr_connection_id conn)), (''arguments'', PDict args)]
            (provider_request_headers (en_config (te_base n)) (composio_safe_request_id
              (or_default (request_id_from_state (te_runtime_request_id n) state) [])))]"
      using run slugs(4) by blast
    show ?thesis
      unfolding same sent(8) list.case
      using sent(1-7) gated [folded sent(3,4)] by blast
  qed
qed simp

end
