(* ===== verification/Action_Turn.thy ===== *)
theory Action_Turn
  imports Action_Tools
begin

text \<open>
  The agent tools in a turn: what the plan and the lane that a turn records (\<open>Action_Lane\<close>) let through at the gate of
  a tool (\<open>Action_Tools\<close>), and what the direct Facebook post sends once it is through.
\<close>

section \<open>The direct post\<close>

text \<open>The direct post. The preview plan and the final plan differ in their arguments and metadata only, and
  both name the same argument keys.\<close>

lemma direct_plan_same:
  "plan_request (direct_plan n e conn c v r s args st md) = plan_request (direct_plan n e conn c v r s args' st' md')"
  "plan_gateway (direct_plan n e conn c v r s args st md) = plan_gateway (direct_plan n e conn c v r s args' st' md')"
  "plan_schema client (direct_plan n e conn c v r s args st md) = plan_schema client (direct_plan n e conn c v r s args' st' md')"
proof -
  have "post_argument_keys c \<noteq> []" by (simp add: post_argument_keys_def)
  then show "plan_request (direct_plan n e conn c v r s args st md) = plan_request (direct_plan n e conn c v r s args' st' md')"
    "plan_gateway (direct_plan n e conn c v r s args st md) = plan_gateway (direct_plan n e conn c v r s args' st' md')"
    "plan_schema client (direct_plan n e conn c v r s args st md) = plan_schema client (direct_plan n e conn c v r s args' st' md')"
    by (simp_all add: plan_gateway_def plan_gateway_args_def plan_schema_def plan_request_def direct_plan_def list_or_def)
qed

text \<open>The executions a run adds to the trace; a file upload is not one of them.\<close>

definition tool_executions :: "(world \<Rightarrow> pydict \<times> world) \<Rightarrow> world \<Rightarrow> http_request list" where
  "tool_executions run w = drop (length (executions (wd_trace w))) (executions (wd_trace (snd (run w))))"

lemma tool_executions_append:
  "executions (wd_trace (snd (run w))) = executions (wd_trace w) @ qs \<Longrightarrow> tool_executions run w = qs"
  by (simp add: tool_executions_def)

lemma executions_audit [simp]:
  "executions (wd_trace (append_execution_stage_audit now g r st u status reason m w)) = executions (wd_trace w)"
  by (simp add: append_audit_trace)

lemma executions_preflight [simp]: "executions (wd_trace (snd (preflight client now p w))) = executions (wd_trace w)"
  by (simp add: preflight_eq Let_def append_execution_audit_def plan_schema_def)

text \<open>What a step adds to the trace; the preflight and the audit execute nothing.\<close>

lemma preflight_trace:
  obtains es where "wd_trace (snd (preflight client now p w)) = wd_trace w @ es" "executions es = []"
  by (rule that [of "drop (length (wd_trace w)) (wd_trace (snd (preflight client now p w)))"])
    (auto simp: preflight_eq Let_def append_execution_audit_def append_audit_trace plan_schema_def)

text \<open>An execution on the preflight of a plan that asks for the same thing.\<close>

lemma execute_trace:
  assumes "plan_request q = plan_request p" "plan_gateway q = plan_gateway p" "plan_schema client q = plan_schema client p"
  obtains before after where "wd_trace (snd (execute_action client now q (Some (fst (preflight client now p w))) w')) = wd_trace w'
      @ before @ map Request (if plan_reaches_provider client q then snd (plan_execution client q) else []) @ after"
    "executions before = []" "executions after = []"
proof -
  have same: "fst (preflight client now p w) = fst (preflight client now q w')"
    using assms by (simp add: preflight_eq Let_def)
  have "\<exists>before after. wd_trace (snd (execute_action client now q (Some (fst (preflight client now q w'))) w')) = wd_trace w'
      @ before @ map Request (if plan_reaches_provider client q then snd (plan_execution client q) else []) @ after
      \<and> executions before = [] \<and> executions after = []"
  proof (cases "plan_reaches_provider client q")
    case True
    then have reach: "gateway_allowed (plan_gateway q)" "ts_ready (fst (plan_schema client q))" "plan_missing client q = []"
      by (simp_all add: plan_reaches_provider_def)
    have "\<exists>b r b' r'. wd_trace (snd (execute_action client now q (Some (fst (preflight client now q w'))) w'))
        = wd_trace w' @ [AuditAppend b r] @ map Request (snd (plan_execution client q)) @ [AuditAppend b' r']"
      using reach gateway_allowed_persistent [OF reach(1)]
      by (simp add: execute_action_def execute_after_preflight_def preflight_eq Let_def append_audit_trace
          plan_missing_def plan_execution_def case_prod_unfold)
    then obtain b r b' r' where "wd_trace (snd (execute_action client now q (Some (fst (preflight client now q w'))) w'))
        = wd_trace w' @ [AuditAppend b r] @ map Request (snd (plan_execution client q)) @ [AuditAppend b' r']" by blast
    then show ?thesis
      using True by (intro exI [of _ "[AuditAppend b r]"] exI [of _ "[AuditAppend b' r']"]) simp
  next
    case False
    then have "\<exists>es. wd_trace (snd (execute_action client now q (Some (fst (preflight client now q w'))) w')) = wd_trace w' @ es
        \<and> executions es = []"
      by (cases rule: run_cases [of q _ client])
        (auto simp: execute_action_def execute_after_preflight_def preflight_eq Let_def plan_reaches_provider_def
          append_audit_trace plan_missing_def)
    then show ?thesis using False by (metis append_Nil executions_simps(1) list.map(1))
  qed
  then show thesis using that unfolding same by blast
qed

definition published_plan ::
    "post_env \<Rightarrow> provider_entry \<Rightarrow> connection_record \<Rightarrow> post_content \<Rightarrow> pydict \<Rightarrow> pydict \<Rightarrow> action_plan" where
  "published_plan n entry connection c media md = direct_plan n entry (Some connection) c
     (preview_evidence_id (post_operation (pe_slug entry) c
       (public_connection_ref (cr_provider_slug connection) (cr_connection_id connection))))
     True False (post_arguments c @ media) ''apply'' md"

text \<open>A publication: what it adds to the trace, with the staging of the image before the post.\<close>

lemma publish_direct_trace:
  assumes slug: "pe_slug entry = ''facebook''"
  obtains media md staging before qs after where
    "wd_trace (snd (publish_direct client n0 n entry conn c w)) = wd_trace w @ before @ map Request qs @ after"
    "executions before = []" "executions after = []"
    "qs = [] \<or> plan_reaches_provider client (published_plan n entry conn c media md)
       \<and> qs = snd (plan_execution client (published_plan n entry conn c media md))
       \<and> media_of client (en_config n) (composio_safe_request_id (or_default (en_request_id n) [])) c media staging
       \<and> set (map Request staging) \<subseteq> set before"
proof -
  let ?evidence = "preview_evidence_id (post_operation (pe_slug entry) c
      (public_connection_ref (cr_provider_slug conn) (cr_connection_id conn)))"
  let ?p = "direct_plan n entry (Some conn) c ?evidence True False [] ''apply'' (direct_audit_base n entry conn c)"
  let ?upload = "stage_file_upload client (en_config n) (pe_slug entry) (post_action_slug c) (pc_filename c)
      (pc_media_type c) (pc_image_bytes c) (or_default (en_request_id n) [])"
  let ?sent = "if pc_image_bytes c = [] then [] else snd ?upload"
  let ?media = "if pc_image_bytes c \<noteq> [] then [(''photo'', PDict (fu_file_descriptor (fst ?upload)))]
      else if pc_image_url c \<noteq> [] then [(''url'', PStr (pc_image_url c))] else []"
  let ?md = "direct_audit_base n entry conn c @ [(''upload'', opt_dict
      (if pc_image_bytes c = [] then None else Some (file_upload_metadata (fst ?upload))))]"
  let ?q = "published_plan n entry conn c ?media ?md"
  let ?pre = "preflight client (en_now n) ?p w"
  let ?w2 = "send_requests ?sent (snd ?pre)"
  obtain es where es: "wd_trace (snd ?pre) = wd_trace w @ es" "executions es = []" by (rule preflight_trace)
  have quiet: "executions (map Request ?sent) = []" by simp
  consider (refused) "rs_status (fst ?pre) \<noteq> ''ready''"
    | (upload) "rs_status (fst ?pre) = ''ready''" "pc_image_bytes c \<noteq> []" "\<not> fu_ready (fst ?upload)"
    | (sent) "rs_status (fst ?pre) = ''ready''" "pc_image_bytes c = [] \<or> fu_ready (fst ?upload)"
    by blast
  then show thesis
  proof cases
    case refused
    then have "snd (publish_direct client n0 n entry conn c w) = snd ?pre"
      by (simp add: publish_direct_def Let_def case_prod_unfold)
    then show thesis using es by (intro that [of es "[]" "[]"]) simp_all
  next
    case upload
    then have "\<exists>fs. wd_trace (snd (publish_direct client n0 n entry conn c w)) = wd_trace w @ fs \<and> executions fs = []"
      using es quiet by (auto simp: publish_direct_def Let_def case_prod_unfold map_prod_def append_audit_trace)
    then obtain fs where "wd_trace (snd (publish_direct client n0 n entry conn c w)) = wd_trace w @ fs" "executions fs = []" by blast
    then show thesis by (intro that [of fs "[]" "[]"]) simp_all
  next
    case sent
    then have final: "snd (publish_direct client n0 n entry conn c w)
        = snd (execute_action client (en_now n) ?q (Some (fst ?pre)) ?w2)"
      by (cases "pc_image_bytes c = []")
        (simp_all add: publish_direct_def Let_def case_prod_unfold map_prod_def published_plan_def)
    obtain before after where run: "wd_trace (snd (execute_action client (en_now n) ?q (Some (fst ?pre)) ?w2)) = wd_trace ?w2
        @ before @ map Request (if plan_reaches_provider client ?q then snd (plan_execution client ?q) else []) @ after"
        "executions before = []" "executions after = []"
      unfolding published_plan_def by (rule execute_trace) (rule direct_plan_same)+
    have media: "media_of client (en_config n) (composio_safe_request_id (or_default (en_request_id n) [])) c ?media ?sent"
      using sent(2) staged_ready [OF prod.collapse [symmetric], of client "en_config n" c "or_default (en_request_id n) []"]
      by (auto simp: media_of_def slug)
    show thesis
      by (rule that [of "es @ map Request ?sent @ before"
          "if plan_reaches_provider client ?q then snd (plan_execution client ?q) else []" after ?media ?md ?sent])
        (use run es quiet media in \<open>auto simp: final\<close>)
  qed
qed

text \<open>One execution at the provider, for the user of a run and an account of theirs.\<close>

definition execution_for :: "post_env \<Rightarrow> connection_record \<Rightarrow> string \<Rightarrow> pydict \<Rightarrow> http_request" where
  "execution_for n conn action args = HttpPost (tool_url (en_config n) ''/tools/execute/'' action)
     [(''user_id'', PStr (composio_external_user_id (us_organization_id (en_user n)) (us_user_id (en_user n)))),
      (''connected_account_id'', PStr (cr_connection_id conn)), (''arguments'', PDict args)]
     (provider_request_headers (en_config n) (composio_safe_request_id (or_default (en_request_id n) [])))"

lemma list_pages_requests:
  "snd (list_facebook_pages client c user account rid) = [] \<or>
   snd (list_facebook_pages client c user account rid) =
     [HttpPost (tool_url c ''/tools/execute/'' ''FACEBOOK_LIST_MANAGED_PAGES'')
        [(''user_id'', PStr user), (''connected_account_id'', PStr account),
         (''arguments'', PDict [(''fields'', PStr ''id,name,category,link''), (''limit'', PInt 25)])]
        (provider_request_headers c (composio_safe_request_id rid))]"
  by (simp add: list_facebook_pages_def Let_def)

lemma select_page_trace:
  obtains es where "wd_trace (snd (select_default_page client n entry conn w)) = wd_trace w @ es"
    "executions es = [] \<or> gateway_allowed (page_list_gateway n entry conn)
       \<and> executions es = [execution_for n conn ''FACEBOOK_LIST_MANAGED_PAGES''
      [(''fields'', PStr ''id,name,category,link''), (''limit'', PInt 25)]]"
proof -
  let ?user = "composio_external_user_id (us_organization_id (en_user n)) (us_user_id (en_user n))"
  let ?sent = "snd (list_facebook_pages client (en_config n) ?user (cr_connection_id conn) (or_default (en_request_id n) []))"
  have rid: "xr_request_id (page_list_request entry (en_request_id n)) = or_default (en_request_id n) []"
    by (simp add: page_list_request_def build_execution_request_def Let_def)
  have sent: "?sent = [] \<or> ?sent = [execution_for n conn ''FACEBOOK_LIST_MANAGED_PAGES''
      [(''fields'', PStr ''id,name,category,link''), (''limit'', PInt 25)]]"
    unfolding execution_for_def by (rule list_pages_requests)
  then have "executions (map Request ?sent) = ?sent"
    by (auto simp: executions_def execution_for_def is_execution_def)
  then have "\<exists>es. wd_trace (snd (select_default_page client n entry conn w)) = wd_trace w @ es \<and>
      executions es = (if gateway_allowed (page_list_gateway n entry conn) then ?sent else [])"
    by (auto simp: select_default_page_def Let_def case_prod_unfold rid append_execution_audit_def append_audit_trace split: list.split)
  then show thesis using that sent by (cases "gateway_allowed (page_list_gateway n entry conn)") auto
qed

lemma page_gateway_reads:
  assumes "gateway_allowed (page_list_gateway n entry conn)"
  shows "conn_active conn" "sg_read (cr_scopes conn)"
proof -
  have "xr_mutation (page_list_request entry (en_request_id n)) = Read"
    by (simp add: page_list_request_def build_execution_request_def Let_def valid_mutation_def or_default_def)
  then show "conn_active conn" "sg_read (cr_scopes conn)"
    using assms by (auto simp: page_list_gateway_def gateway_allowed_cases external_allowed_iff)
qed

lemma post_action_slug120: "normalize_action_slug (action_slug120 (post_action_slug c)) = post_action_slug c"
proof -
  have "normalize_action_slug (action_slug120 ''FACEBOOK_CREATE_PHOTO_POST'') = ''FACEBOOK_CREATE_PHOTO_POST''"
    "normalize_action_slug (action_slug120 ''FACEBOOK_CREATE_POST'') = ''FACEBOOK_CREATE_POST''"
    by code_simp+
  then show ?thesis by (simp add: post_action_slug_def)
qed

lemma published_request:
  assumes "plan_reaches_provider client (published_plan n entry conn c media md)" and "pe_slug entry = ''facebook''"
    and "snd (plan_execution client (published_plan n entry conn c media md)) \<noteq> []"
  shows "conn_active conn" "sg_apply (cr_scopes conn)"
    "\<exists>a. operator_permits (en_config n) ''facebook'' a \<and> ca_slug a = post_action_slug c"
    "snd (plan_execution client (published_plan n entry conn c media md))
      = [execution_for n conn (post_action_slug c) (post_arguments c @ media)]"
proof -
  let ?q = "published_plan n entry conn c media md"
  have fields: "ap_connection ?q = Some conn" "ap_config ?q = en_config n" "ap_user ?q = en_user n" "ap_entry ?q = entry"
    "ap_arguments ?q = post_arguments c @ media"
    "xr_mutation (plan_request ?q) = Apply" "xr_request_id (plan_request ?q) = or_default (en_request_id n) []"
    by (simp_all add: published_plan_def direct_plan_def plan_request_def build_execution_request_def Let_def
        valid_mutation_def or_default_def)
  have slug: "normalize_action_slug (xr_action_slug (plan_request ?q)) = post_action_slug c"
    by (simp add: published_plan_def direct_plan_def plan_request_def build_execution_request_def Let_def post_action_slug120)
  have "gateway_allowed (plan_gateway ?q)" using assms(1) by (simp add: plan_reaches_provider_def)
  then have "decision_allowed (decide_external_execution (ap_entry ?q) (ap_connection ?q) (plan_request ?q))"
    by (simp add: plan_gateway_def gateway_allowed_cases plan_gateway_args_def)
  then show "conn_active conn" "sg_apply (cr_scopes conn)"
    unfolding external_allowed_iff fields by auto
  show "\<exists>a. operator_permits (en_config n) ''facebook'' a \<and> ca_slug a = post_action_slug c"
    "snd (plan_execution client ?q) = [execution_for n conn (post_action_slug c) (post_arguments c @ media)]"
    using plan_execution_request [OF assms(3)]
    by (auto simp: fields slug assms(2) facebook_slug execution_for_def)
qed

lemma direct_apply_cases:
  assumes quiet: "executions (wd_trace (snd (direct_apply client n0 state d w))) \<noteq> executions (wd_trace w)"
  obtains entry conn where "fst (execution_gate state ''facebook'' direct_apply_action
        direct_apply_tool FacebookDirectApply SpecializedDirectTool)"
      "pe_slug entry = ''facebook''" "im_error (resolve_image_payload state (dp_image d)) = []"
      "snd (direct_apply client n0 state d w) =
        (if normalize_page_id (dp_page_id d) \<noteq> []
         then snd (publish_direct client n0 (tool_post_env n0 state) entry conn
           (direct_content (resolve_image_payload state (dp_image d)) (normalize_post_message (dp_message d))
             (normalize_page_id (dp_page_id d))) w)
         else case select_default_page client (tool_post_env n0 state) entry conn w of
           (Inl _, w1) \<Rightarrow> w1
         | (Inr found, w1) \<Rightarrow> snd (publish_direct client n0 (tool_post_env n0 state) entry conn
             (direct_content (resolve_image_payload state (dp_image d)) (normalize_post_message (dp_message d)) found) w1))"
proof -
  let ?n = "tool_post_env n0 state"
  have provider: "provider_slug80 (dp_provider_slug d) = ''facebook''"
    by (rule ccontr) (use quiet in \<open>simp add: direct_apply_def Let_def\<close>)
  have entry0: "get_provider_entry ''facebook'' = Some (hd provider_registry)" by code_simp
  have gate: "fst (execution_gate state ''facebook'' direct_apply_action direct_apply_tool FacebookDirectApply SpecializedDirectTool)"
    by (rule ccontr) (use quiet in \<open>simp add: direct_apply_def Let_def case_prod_unfold provider entry0\<close>)
  let ?entry = "composio_execution_enabled_entry (hd provider_registry) (en_config ?n)"
  let ?im = "resolve_image_payload state (dp_image d)" and ?message = "normalize_post_message (dp_message d)"
  let ?connection = "select_wiii_connect_connection (pe_slug ?entry) (en_user ?n) (env_storage ?n) (dp_connection_ref d) w"
  have content: "im_error ?im = [] \<and> ?message \<noteq> []"
    by (rule ccontr) (use quiet gate in \<open>simp add: direct_apply_def Let_def case_prod_unfold provider entry0\<close>)
  obtain conn where conn: "?connection = Some conn"
    using quiet gate content
    by (cases ?connection) (simp_all add: direct_apply_def Let_def case_prod_unfold provider entry0)
  have slug: "pe_slug ?entry = ''facebook''"
    by (simp add: enabled_entry_slug) code_simp
  show thesis
    by (rule that [OF gate slug content [THEN conjunct1], of conn])
      (use gate content conn in \<open>simp add: direct_apply_def Let_def case_prod_unfold provider entry0
        split: sum.split prod.split\<close>)
qed

text \<open>A publication of a content: one post on an active connection with the apply scope, with a permitted action; its image
  was staged in the events before.\<close>

definition publishes ::
    "http_client \<Rightarrow> post_env \<Rightarrow> connection_record \<Rightarrow> post_content \<Rightarrow> run_event list \<Rightarrow> http_request list \<Rightarrow> bool" where
  "publishes client n conn c before published \<longleftrightarrow> conn_active conn \<and> sg_apply (cr_scopes conn) \<and> (\<exists>a media staging.
     operator_permits (en_config n) ''facebook'' a
     \<and> ca_slug a = (if media = [] then ''FACEBOOK_CREATE_POST'' else ''FACEBOOK_CREATE_PHOTO_POST'')
     \<and> media_of client (en_config n) (composio_safe_request_id (or_default (en_request_id n) [])) c media staging
     \<and> set (map Request staging) \<subseteq> set before
     \<and> published = [execution_for n conn (ca_slug a) ([(''page_id'', PStr (pc_page_id c)), (''message'', PStr (pc_message c)),
         (''published'', PBool True)] @ media)])"

text \<open>The image of a call: the base64 text it gives, or that of the latest image of the conversation when it gives none and asks for
  that, decoded; and its link, when there is no such text.\<close>

definition latest_image_text :: "pydict \<Rightarrow> string" where
  "latest_image_text state =
     (case [v. PDict d \<leftarrow> (case dict_get (state_context state) ''images'' of Some (PList xs) \<Rightarrow> xs
          | _ \<Rightarrow> (case dict_get state ''images'' of Some (PList xs) \<Rightarrow> xs | _ \<Rightarrow> [])),
          Some v \<leftarrow> [dict_get d ''data''], truthy v] of
        [] \<Rightarrow> [] | v # rest \<Rightarrow> py_str v)"

definition image_of_call :: "pydict \<Rightarrow> image_request \<Rightarrow> nat list \<Rightarrow> string \<Rightarrow> bool" where
  "image_of_call state q octets url \<longleftrightarrow>
     (let given = or_default (iq_base64 q) [];
          base64 = (if py_strip given = [] \<and> py_strip (iq_policy q) = ''use_latest_user_image'' then latest_image_text state else given)
      in image_given base64 octets
         \<and> url = (if py_strip base64 = [] then normalize_image_url (or_default (iq_url q) []) else []))"

lemma latest_image_text_eq: "field_text (latest_state_image state) ''data'' = latest_image_text state"
proof -
  have "field_text (case List.map_filter (\<lambda>x. case x of PDict d \<Rightarrow> if truthy (field_value d ''data'') then Some d else None | _ \<Rightarrow> None) xs
        of [] \<Rightarrow> [] | d # _ \<Rightarrow> d) ''data''
      = (case [v. PDict d \<leftarrow> xs, Some v \<leftarrow> [dict_get d ''data''], truthy v] of [] \<Rightarrow> [] | v # rest \<Rightarrow> py_str v)" for xs
    by (induction xs)
      (auto simp: map_filter_simps field_text_def field_value_def or_default_def str_or_empty_def split: pyval.split option.split)
  then show ?thesis unfolding latest_state_image_def latest_image_text_def Let_def .
qed

lemma resolved_image:
  assumes "im_error (resolve_image_payload state q) = []"
  shows "image_of_call state q (im_bytes (resolve_image_payload state q)) (im_url (resolve_image_payload state q))"
proof -
  let ?given = "or_default (iq_base64 q) []"
  define latest where "latest \<longleftrightarrow> py_strip ?given = [] \<and> py_strip (iq_policy q) = ''use_latest_user_image''"
  define base64 where "base64 = (if latest then latest_image_text state else ?given)"
  have "im_bytes (resolve_image_payload state q) = [] \<and> py_strip base64 = []
        \<and> im_url (resolve_image_payload state q) = normalize_image_url (or_default (iq_url q) [])
      \<or> im_bytes (resolve_image_payload state q) \<noteq> [] \<and> py_strip base64 \<noteq> [] \<and> im_url (resolve_image_payload state q) = []
        \<and> length (im_bytes (resolve_image_payload state q)) \<le> 10 * 1024 * 1024
        \<and> strict_b64decode (if CHR '','' \<in> set (py_strip base64) \<and> py_startswith ''data:'' (py_lower (py_strip base64))
            then after_comma (py_strip base64) else py_strip base64) = Some (im_bytes (resolve_image_payload state q))"
  proof -
    have raw: "(if latest then py_strip (field_text (latest_state_image state) ''data'') else py_strip ?given) = py_strip base64"
      unfolding base64_def latest_image_text_eq by simp
    define encoded where "encoded = (if CHR '','' \<in> set (py_strip base64) \<and> py_startswith ''data:'' (py_lower (py_strip base64))
        then after_comma (py_strip base64) else py_strip base64)"
    show ?thesis
      using assms unfolding resolve_image_payload_def Let_def latest_def [symmetric] raw encoded_def [symmetric]
      by (cases "strict_b64decode encoded"; cases "py_strip base64 = []") (simp_all add: no_image_def split: if_splits)
  qed
  then show ?thesis
    unfolding image_of_call_def Let_def latest_def [symmetric] base64_def [symmetric] image_given_def after_comma_def
    by (cases "py_strip base64 = []") (simp_all add: conj_commute)
qed

lemma publish_direct_posts:
  assumes "pe_slug entry = ''facebook''"
  obtains before published after where
    "wd_trace (snd (publish_direct client n0 n entry conn c w)) = wd_trace w @ before @ map Request published @ after"
    "executions before = []" "executions after = []" "published = [] \<or> publishes client n conn c before published"
proof (rule publish_direct_trace [OF assms, of client n0 n conn c w])
  fix media staging qs and md :: pydict and before after
  let ?q = "published_plan n entry conn c media md"
  assume trace: "wd_trace (snd (publish_direct client n0 n entry conn c w)) = wd_trace w @ before @ map Request qs @ after"
      "executions before = []" "executions after = []"
    and qs: "qs = [] \<or> plan_reaches_provider client ?q \<and> qs = snd (plan_execution client ?q)
      \<and> media_of client (en_config n) (composio_safe_request_id (or_default (en_request_id n) [])) c media staging
      \<and> set (map Request staging) \<subseteq> set before"
  show thesis
  proof (cases "qs = []")
    case False
    then have sent: "plan_reaches_provider client ?q" "snd (plan_execution client ?q) \<noteq> []" "qs = snd (plan_execution client ?q)"
        and media: "media_of client (en_config n) (composio_safe_request_id (or_default (en_request_id n) [])) c media staging"
        "set (map Request staging) \<subseteq> set before"
      using qs by auto
    note request = published_request [OF sent(1) assms sent(2)]
    have "post_action_slug c = (if media = [] then ''FACEBOOK_CREATE_POST'' else ''FACEBOOK_CREATE_PHOTO_POST'')"
      using media(1) by (auto simp: media_of_def post_action_slug_def split: if_splits)
    moreover have "post_arguments c = [(''page_id'', PStr (pc_page_id c)), (''message'', PStr (pc_message c)),
        (''published'', PBool True)]"
      by (simp add: post_arguments_def)
    ultimately have "publishes client n conn c before qs"
      using request media unfolding publishes_def sent(3) by metis
    with trace show thesis using that by blast
  qed (use that [of before "[]" after] trace in simp)
qed

lemma direct_steps:
  fixes n0 state and d :: direct_call
  defines "n \<equiv> tool_post_env n0 state" and "given \<equiv> normalize_page_id (dp_page_id d)"
  assumes run: "w' = (if given \<noteq> [] then snd (publish_direct client n0 n entry conn (c given) w)
         else case select_default_page client n entry conn w of
           (Inl _, w1) \<Rightarrow> w1
         | (Inr found, w1) \<Rightarrow> snd (publish_direct client n0 n entry conn (c found) w1))"
    and slug: "pe_slug entry = ''facebook''"
  obtains page before published after where "wd_trace w' = wd_trace w @ before @ map Request published @ after"
      "executions after = []" "given = [] \<or> page = given"
      "executions before = [] \<or> gateway_allowed (page_list_gateway n entry conn) \<and> given = [] \<and> executions before =
        [execution_for n conn ''FACEBOOK_LIST_MANAGED_PAGES'' [(''fields'', PStr ''id,name,category,link''), (''limit'', PInt 25)]]"
      "published = [] \<or> publishes client n conn (c page) before published"
proof (cases "given = []")
  case False
  then have w': "w' = snd (publish_direct client n0 n entry conn (c given) w)" using run by simp
  obtain before published after where "wd_trace w' = wd_trace w @ before @ map Request published @ after"
      "executions before = []" "executions after = []" "published = [] \<or> publishes client n conn (c given) before published"
    by (rule publish_direct_posts [OF slug, of client n0 n conn "c given" w, folded w'])
  then show thesis using that [of before published after given] by simp
next
  case True
  obtain outcome w1 where found: "select_default_page client n entry conn w = (outcome, w1)" by force
  obtain es where listing: "wd_trace w1 = wd_trace w @ es"
      "executions es = [] \<or> gateway_allowed (page_list_gateway n entry conn) \<and> executions es =
        [execution_for n conn ''FACEBOOK_LIST_MANAGED_PAGES'' [(''fields'', PStr ''id,name,category,link''), (''limit'', PInt 25)]]"
    using select_page_trace [of client n entry conn w] unfolding found snd_conv by metis
  show thesis
  proof (cases outcome)
    case (Inl refusal)
    then have "w' = w1" using run True found by (simp split: prod.split)
    then show thesis using that [of es "[]" "[]" "[]"] listing True by simp
  next
    case (Inr page)
    then have w': "w' = snd (publish_direct client n0 n entry conn (c page) w1)" using run True found by simp
    obtain before published after where post: "wd_trace w' = wd_trace w1 @ before @ map Request published @ after"
        "executions before = []" "executions after = []" "published = [] \<or> publishes client n conn (c page) before published"
      by (rule publish_direct_posts [OF slug, of client n0 n conn "c page" w1, folded w'])
    have "publishes client n conn (c page) (es @ before) published" if "publishes client n conn (c page) before published"
    proof -
      have "set xs \<subseteq> set (es @ before)" if "set xs \<subseteq> set before" for xs using that by auto
      then show ?thesis using that unfolding publishes_def by blast
    qed
    then show thesis using that [of "es @ before" published after page] listing post True by auto
  qed
qed

section \<open>A turn, from its intent to the gate\<close>

text \<open>The state a turn leaves behind: the plan it resolved and its lane, each once.\<close>

lemma prepared_records:
  assumes view: "view_clean tv" and fresh: "plan_from_state state = None"
    and p: "p = resolve_plan n tv None None (Some state) w"
  obtains state' where "snd (prepare_turn n tv (Some state) tools forced w) = Some state'"
    "plan_from_state state' = Some (p\<lparr>tp_allowlists := sort_key fst (tp_allowlists p), tp_unavailable_answer := []\<rparr>)"
    "lane_from_state state' = Some ((lane_from_plan (Some p))
      \<lparr>ln_allowlists := sort_key fst (ln_allowlists (lane_from_plan (Some p)))\<rparr>)"
proof -
  obtain state' where recorded: "record_plan (Some state) p = Some state'" by (simp add: recorded_lookup)
  note again = recorded_plan_read_back [OF resolve_plan_clean [OF view, of n state w, folded p] recorded]
  have "snd (prepare_turn n tv (Some state) tools forced w) = Some state'"
    using again(3) by (simp add: prepare_turn_def Let_def fresh recorded p [symmetric] case_prod_unfold)
  with again show thesis using that by blast
qed

lemma turn_slugs_usable:
  assumes "get_provider_entry t = Some e"
  shows "s \<in> set (turn_slugs n state w t) \<longleftrightarrow>
    adapter_usable (en_config n) \<and> usable_action n (authenticated_user_from_state state) w (pe_slug e) s"
  using assms visible_slug_iff [OF get_provider_entry_Some(1) [OF assms]] by (simp add: turn_slugs_def)

lemma safe_turn_slugs: "set (safe_action_slugs (turn_slugs n state w t)) = set (turn_slugs n state w t)"
proof (rule clean_catalogue_slugs(3))
  show "set (turn_slugs n state w t) \<subseteq> ca_slug ` set curated_actions"
    by (cases "get_provider_entry t") (simp_all add: turn_slugs_def visible_slugs_catalogue)
qed

text \<open>What the gate asks of a catalogue action of a registered provider.\<close>

lemma catalogue_gate_words:
  assumes "a \<in> set curated_actions"
  shows "planned_action (ca_slug a) = ca_slug a" "action_slug120 (py_strip (ca_slug a)) = ca_slug a"
proof -
  have "list_all (\<lambda>a. planned_action (ca_slug a) = ca_slug a \<and> action_slug120 (py_strip (ca_slug a)) = ca_slug a) curated_actions"
    by code_simp
  with assms show "planned_action (ca_slug a) = ca_slug a" "action_slug120 (py_strip (ca_slug a)) = ca_slug a"
    by (simp_all add: list_all_iff)
qed

definition turn_targets :: "turn_view \<Rightarrow> string \<Rightarrow> bool" where
  "turn_targets tv provider \<longleftrightarrow> tv_external_action tv \<and> \<not> tv_facebook_post tv
     \<and> tv_requested_providers tv = [provider] \<and> provider \<in> set (tv_ready_providers tv)"

lemma resolved_provider_plan:
  assumes view: "view_clean tv" and target: "turn_targets tv provider" "provider \<noteq> []"
    and slugs: "turn_slugs n state w provider \<noteq> []"
  shows "resolve_plan n tv None None (Some state) w = empty_plan\<lparr>tp_status := PlanReady, tp_kind := ProviderAction,
         tp_provider_slug := provider, tp_reason := ''registered_provider_action_request'',
         tp_allowed_tool_names := [delegate_tool], tp_requested_providers := [provider],
         tp_ready_providers := tv_ready_providers tv,
         tp_allowlists := [(provider, safe_action_slugs (turn_slugs n state w provider))]\<rparr>"
proof -
  let ?al = "effective_action_allowlists n state (tv_ready_providers tv) w"
  have lists: "action_allowlists_for_providers n (Some state) (tv_ready_providers tv) w = ?al"
    using target(1) by (auto simp: turn_targets_def action_allowlists_for_providers_def)
  have "dict_get ?al provider = Some (safe_action_slugs (turn_slugs n state w provider))"
    using effective_allowlist_of [of "tv_ready_providers tv" n state w provider] view target(1) slugs
    by (simp add: view_clean_def turn_targets_def)
  moreover have "safe_action_slugs (turn_slugs n state w provider) \<noteq> []"
    using safe_turn_slugs [of n state w provider] slugs by (metis set_empty)
  moreover have "provider_slug80 provider = provider"
    using view target(1) by (simp add: view_clean_def clean_list_def turn_targets_def)
  ultimately have "scope_action_allowlists ?al provider = [(provider, safe_action_slugs (turn_slugs n state w provider))]"
    using target(2) clean_allowlists_fixed(1) [OF clean_effective_allowlists, of n state "tv_ready_providers tv" w]
    by (auto simp: scope_action_allowlists_def Let_def split: list.split)
  then show ?thesis
    using target by (simp add: resolve_plan_def Let_def lists turn_targets_def)
qed

lemma resolved_provider_ready:
  assumes view: "view_clean tv" and kind: "tp_kind (resolve_plan n tv None None (Some state) w) = ProviderAction"
    and ready: "plan_ready (resolve_plan n tv None None (Some state) w)"
  obtains target where "turn_targets tv target" "target \<noteq> []" "turn_slugs n state w target \<noteq> []"
proof (rule resolved_ready_cases [OF view ready])
  assume "tp_kind (resolve_plan n tv None None (Some state) w) = FacebookDirectApply"
  then show thesis using kind by simp
next
  fix target actions
  assume target: "tv_requested_providers tv = [target]" "target \<noteq> []" "target \<in> set (tv_ready_providers tv)"
      "\<not> tv_facebook_post tv" "tv_external_action tv"
    and actions: "dict_get (effective_action_allowlists n state (tv_ready_providers tv) w) target = Some actions"
  have "turn_slugs n state w target \<noteq> []"
    using actions effective_allowlist_of [of "tv_ready_providers tv" n state w target] view
    by (auto simp: view_clean_def split: if_splits)
  with target show thesis using that [of target] by (simp add: turn_targets_def)
qed

lemma provider_lane:
  "lane_from_plan (Some (empty_plan\<lparr>tp_status := PlanReady, tp_kind := ProviderAction, tp_provider_slug := provider,
     tp_reason := r, tp_allowed_tool_names := [delegate_tool], tp_requested_providers := xs,
     tp_ready_providers := ys, tp_allowlists := al\<rparr>)) =
   (idle_lane (take 160 r))\<lparr>ln_status := PlanReady, ln_executor := ProviderWorker,
     ln_provider_slug := provider_slug80 provider, ln_requested_providers := lane_slugs xs,
     ln_ready_providers := lane_slugs ys, ln_allowlists := lane_action_allowlists al,
     ln_activity_title := activity_title_for_provider provider,
     ln_visible_tool_names := [list_actions_tool, delegate_tool]\<rparr>"
proof -
  have "append_new [] (list_actions_tool # safe_tool_names [delegate_tool]) = [list_actions_tool, delegate_tool]"
      "safe_tool_names [delegate_tool] \<noteq> []"
    by code_simp+
  then show ?thesis
    using tool_words
    by (simp add: lane_from_plan_def empty_plan_def idle_lane_def Let_def plan_ready_def visible_tool_names_for_plan_def)
qed

text \<open>A user with a connected Facebook account asks for it; the operator permits one read.\<close>

definition pages_action :: curated_action where
  "pages_action = the (get_curated_action ''facebook'' ''FACEBOOK_LIST_MANAGED_PAGES'')"

definition turn_env :: post_env where
  "turn_env = \<lparr> en_config = example_config, en_probe = TablesPresent True True True, en_clock = 1000000,
     en_now = ''2026-01-01T00:00:00'',
     en_nonce = ''n'', en_secret = ''key'', en_request_id = None, en_user = example_user \<rparr>"

definition turn_state :: pydict where
  "turn_state = [(''user_id'', PStr ''u1''), (''organization_id'', PStr ''org'')]"

definition facebook_turn :: turn_view where
  "facebook_turn = \<lparr> tv_ready_providers = [''facebook''], tv_requested_providers = [''facebook''],
     tv_facebook_post = False, tv_external_action = True, tv_facebook_answer = [], tv_no_actions_answer = [],
     tv_facebook_default_answer = [], tv_default_answer = [], tv_provider_answer = (\<lambda>_ _ _ _. []),
     tv_lifecycle = (\<lambda>_. []) \<rparr>"

lemma turn_facts:
  "view_clean facebook_turn" "plan_from_state turn_state = None" "hd provider_registry \<in> set provider_registry"
  "pe_slug (hd provider_registry) = ''facebook''" "turn_targets facebook_turn ''facebook''"
  "adapter_usable (en_config turn_env)" "py_strip delegate_tool = delegate_tool"
  by (code_simp, code_simp, simp add: provider_registry_def, code_simp+)

lemma pages_facts:
  "pages_action \<in> set curated_actions" "ca_slug pages_action = ''FACEBOOK_LIST_MANAGED_PAGES''"
  "operator_permits (en_config turn_env) ''facebook'' pages_action" "ca_mutation pages_action = Read"
  by code_simp+

lemma pages_usable:
  "usable_action turn_env (authenticated_user_from_state turn_state) connected_world ''facebook'' (ca_slug pages_action)"
proof -
  have user: "owner_organization_id (authenticated_user_from_state turn_state) = ''org''"
    "us_user_id (authenticated_user_from_state turn_state) = ''u1''"
    by code_simp+
  have ready: "connection_storage_ready (env_storage turn_env)" "safe_public_connection_ref160 [] = []"
    "provider_slug80 ''facebook'' = ''facebook''" "conn_active facebook_connection"
    "scope_allows (cr_scopes facebook_connection) Read"
    by code_simp+
  have conn: "cr_provider_slug facebook_connection = ''facebook''" by (simp add: facebook_connection_def)
  have "select_wiii_connect_connection ''facebook'' (authenticated_user_from_state turn_state) (env_storage turn_env) []
      connected_world = Some facebook_connection"
    using ready example_stored by (simp add: select_wiii_connect_connection_def user conn connected_world_def
        example_world_def db_up_def Let_def)
  then show ?thesis
    unfolding usable_action_def using pages_facts(3,4) ready(4,5) by metis
qed

section \<open>A tool without a scope\<close>

text \<open>An executor tool bound to no provider answers and posts the same whatever plan and lane are recorded.\<close>

lemma state_keys:
  "plan_state_key \<notin> set [''context'', ''user_id'', ''organization_id'', ''session_id'', ''user_role'', ''request_id'',
     ''query'', ''current_query'', ''user_query'', ''question'']"
  "lane_state_key \<notin> set [''context'', ''user_id'', ''organization_id'', ''session_id'', ''user_role'', ''request_id'',
     ''query'', ''current_query'', ''user_query'', ''question'']"
  by code_simp+

lemma state_reads_no_plan:
  assumes "key \<notin> set [''context'', ''user_id'', ''organization_id'', ''session_id'', ''user_role'', ''request_id'',
     ''query'', ''current_query'', ''user_query'', ''question'']"
  shows "tool_post_env n (dict_set key v state) = tool_post_env n state"
    "safe_intent_prompt prompt (dict_set key v state) = safe_intent_prompt prompt state"
proof -
  have keep: "dict_get (dict_set key v state) k = dict_get state k"
    if "k \<in> set [''context'', ''user_id'', ''organization_id'', ''session_id'', ''user_role'', ''request_id'',
     ''query'', ''current_query'', ''user_query'', ''question'']" for k
  proof -
    have "k \<noteq> key" using assms that by blast
    then show ?thesis by simp
  qed
  have same_context: "state_context (dict_set key v state) = state_context state"
    using keep [of "''context''"] by (simp add: state_context_def)
  have truthy: "first_truthy (dict_set key v state) [k] x = first_truthy state [k] x"
    if "dict_get (dict_set key v state) k = dict_get state k" for k x
    using that by (simp del: dict_get_set split: option.split)
  have texts: "first_text (dict_set key v state) k1 b k2 x = first_text state k1 b k2 x"
      "first_text b k2 (dict_set key v state) k1 x = first_text b k2 state k1 x"
    if "dict_get (dict_set key v state) k1 = dict_get state k1" for k1 b k2 x
    using truthy [OF that] by (simp_all add: first_text_def del: first_truthy.simps dict_get_set)
  have user: "authenticated_user_from_state (dict_set key v state) = authenticated_user_from_state state"
    by (simp add: authenticated_user_from_state_def same_context texts keep del: dict_get_set)
  have request: "request_id_from_state r (dict_set key v state) = request_id_from_state r state" for r
    using keep [of "''request_id''"] by (simp add: request_id_from_state_def same_context field_text_def field_value_def)
  show "tool_post_env n (dict_set key v state) = tool_post_env n state"
    by (simp add: tool_post_env_def user request)
  have "query_text (dict_set key v state) = query_text state"
    by (simp add: query_text_def List.map_filter_def keep del: dict_get_set)
  then show "safe_intent_prompt prompt (dict_set key v state) = safe_intent_prompt prompt state"
    unfolding safe_intent_prompt_def action_policy_prompt_from_state_def same_context by (simp only:)
qed

theorem unscoped_execute_ignores_plan:
  "run_execute_action_tool client n (make_execute_action_tool config
      (Some (dict_set plan_state_key p (dict_set lane_state_key l state))) [] given) k w
   = run_execute_action_tool client n (make_execute_action_tool config (Some state) [] given) k w"
proof -
  have unscoped: "worker_provider_allowlist [] = []" by code_simp
  note reads = state_reads_no_plan [OF state_keys(1)] state_reads_no_plan [OF state_keys(2)]
  have "execute_provider_action client n (dict_set plan_state_key p (dict_set lane_state_key l state)) j w
      = execute_provider_action client n state j w" if "tc_allowed_providers j = []" for j
    unfolding execute_provider_action_def Let_def reads that unscoped by (simp only: if_True simp_thms case_prod_conv)
  then show ?thesis
    by (simp add: run_execute_action_tool_def make_execute_action_tool_def bind_tool_def Let_def unscoped or_default_def)
qed

section \<open>Properties\<close>



text \<open>Property C24: the direct Facebook post sends nothing on behalf of an account unless the plan and the lane of the turn authorise
  it; then at most one page listing, when no page was named, with the read scope, and after it at most one post, a
  permitted action under the apply scope with the message of the call and its image: the descriptor of a file that was staged
  before, in this run, from exactly the bytes the call or the conversation gives, or else the link of the call, or none.\<close>

theorem direct_apply_posts_planned:
  "tool_executions (direct_apply client n0 state d) w = [] \<or>
   (\<exists>p l conn page before published after.
      plan_from_state state = Some p \<and> lane_from_state state = Some l
      \<and> plan_authorizes p FacebookDirectApply ''facebook'' direct_apply_action
      \<and> lane_authorizes l SpecializedDirectTool ''facebook'' direct_apply_action direct_apply_tool
      \<and> (normalize_page_id (dp_page_id d) = [] \<or> page = normalize_page_id (dp_page_id d))
      \<and> wd_trace (snd (direct_apply client n0 state d w)) = wd_trace w @ before @ map Request published @ after
      \<and> executions after = []
      \<and> tool_executions (direct_apply client n0 state d) w = executions before @ published
      \<and> (executions before = [] \<or> conn_active conn \<and> sg_read (cr_scopes conn) \<and> normalize_page_id (dp_page_id d) = []
         \<and> executions before = [execution_for (tool_post_env n0 state) conn ''FACEBOOK_LIST_MANAGED_PAGES''
           [(''fields'', PStr ''id,name,category,link''), (''limit'', PInt 25)]])
      \<and> (published = [] \<or> (let im = resolve_image_payload state (dp_image d);
            c = direct_content im (normalize_post_message (dp_message d)) page
          in publishes client (tool_post_env n0 state) conn c before published
             \<and> pc_page_id c = page \<and> pc_message c = normalize_post_message (dp_message d)
             \<and> image_of_call state (dp_image d) (pc_image_bytes c) (pc_image_url c))))"
proof (cases "tool_executions (direct_apply client n0 state d) w = []")
  case False
  let ?n = "tool_post_env n0 state" and ?page = "normalize_page_id (dp_page_id d)"
  let ?c = "direct_content (resolve_image_payload state (dp_image d)) (normalize_post_message (dp_message d))"
  have quiet: "executions (wd_trace (snd (direct_apply client n0 state d w))) \<noteq> executions (wd_trace w)"
    using False by (auto simp: tool_executions_def)
  show ?thesis
  proof (rule direct_apply_cases [OF quiet])
    fix entry conn
    assume gate: "fst (execution_gate state ''facebook'' direct_apply_action direct_apply_tool FacebookDirectApply
        SpecializedDirectTool)" and slug: "pe_slug entry = ''facebook''"
      and clean: "im_error (resolve_image_payload state (dp_image d)) = []"
      and run: "snd (direct_apply client n0 state d w) =
        (if ?page \<noteq> [] then snd (publish_direct client n0 ?n entry conn (?c ?page) w)
         else case select_default_page client ?n entry conn w of
           (Inl _, w1) \<Rightarrow> w1
         | (Inr found, w1) \<Rightarrow> snd (publish_direct client n0 ?n entry conn (?c found) w1))"
    obtain page before published after where
      posted: "wd_trace (snd (direct_apply client n0 state d w)) = wd_trace w @ before @ map Request published @ after"
      "executions after = []" "?page = [] \<or> page = ?page"
      "executions before = [] \<or> gateway_allowed (page_list_gateway ?n entry conn) \<and> ?page = [] \<and> executions before =
        [execution_for ?n conn ''FACEBOOK_LIST_MANAGED_PAGES'' [(''fields'', PStr ''id,name,category,link''), (''limit'', PInt 25)]]"
      "published = [] \<or> publishes client ?n conn (?c page) before published"
      by (rule direct_steps [OF run slug])
    have "executions (map Request published) = published"
      using posted(5) by (auto simp: publishes_def executions_def execution_for_def is_execution_def)
    then have "tool_executions (direct_apply client n0 state d) w = executions before @ published"
      using posted(1,2) by (intro tool_executions_append) simp
    moreover obtain p l where "plan_from_state state = Some p" "lane_from_state state = Some l"
      "plan_authorizes p FacebookDirectApply ''facebook'' direct_apply_action"
      "lane_authorizes l SpecializedDirectTool ''facebook'' direct_apply_action direct_apply_tool"
      using gate unfolding gate_open_iff tool_words(5,11) by blast
    moreover have "pc_page_id (?c page) = page \<and> pc_message (?c page) = normalize_post_message (dp_message d)
        \<and> image_of_call state (dp_image d) (pc_image_bytes (?c page)) (pc_image_url (?c page))"
      using resolved_image [OF clean] by (simp add: direct_content_def)
    ultimately show ?thesis
      using posted page_gateway_reads [of ?n entry conn] unfolding Let_def by blast
  qed
qed simp

end
