(* ===== verification/Resilience.thy ===== *)
theory Resilience
  imports Complex_Main Sanitizer
begin

text \<open>
  \<open>app/core/resilience.py\<close>: the circuit breaker around an external service, the registry of
  breakers and the retry loop on transient errors. Times and delays are rational numbers of seconds,
  the clock is an argument of each operation. The asyncio lock makes every operation atomic, so a
  concurrent execution is a sequence of operations in any order.
\<close>

section \<open>The circuit breaker\<close>

datatype circuit_state = Closed | Open | HalfOpen

fun circuit_state_name :: "circuit_state \<Rightarrow> string" where
  "circuit_state_name Closed = ''closed''"
| "circuit_state_name Open = ''open''"
| "circuit_state_name HalfOpen = ''half_open''"

record circuit_breaker =
  cb_name :: string
  cb_failure_threshold :: int
  cb_recovery_timeout :: rat
  cb_state :: circuit_state
  cb_failure_count :: nat
  cb_success_count :: nat
  cb_last_failure_time :: rat
  cb_last_state_change :: rat

record circuit_open_error =
  ce_name :: string
  ce_retry_after :: rat

definition new_breaker :: "string \<Rightarrow> int \<Rightarrow> rat \<Rightarrow> rat \<Rightarrow> circuit_breaker" where
  "new_breaker name failure_threshold recovery_timeout now =
     \<lparr> cb_name = name, cb_failure_threshold = failure_threshold,
       cb_recovery_timeout = recovery_timeout, cb_state = Closed, cb_failure_count = 0,
       cb_success_count = 0, cb_last_failure_time = 0, cb_last_state_change = now \<rparr>"

definition is_available :: "rat \<Rightarrow> circuit_breaker \<Rightarrow> bool" where
  "is_available now b =
     (if cb_state b = Closed then True
      else if cb_state b = Open then now - cb_last_failure_time b \<ge> cb_recovery_timeout b
      else True)"

definition retry_after :: "rat \<Rightarrow> circuit_breaker \<Rightarrow> rat" where
  "retry_after now b =
     (if cb_state b \<noteq> Open then 0
      else max 0 (cb_recovery_timeout b - (now - cb_last_failure_time b)))"

text \<open>The statistics; \<open>round(x, 1)\<close> is an argument.\<close>

record breaker_stats =
  bs_name :: string
  bs_state :: string
  bs_failure_count :: nat
  bs_success_count :: nat
  bs_failure_threshold :: int
  bs_recovery_timeout :: rat
  bs_retry_after :: rat

definition get_stats :: "(rat \<Rightarrow> rat) \<Rightarrow> rat \<Rightarrow> circuit_breaker \<Rightarrow> breaker_stats" where
  "get_stats round1 now b =
     \<lparr> bs_name = cb_name b, bs_state = circuit_state_name (cb_state b),
       bs_failure_count = cb_failure_count b, bs_success_count = cb_success_count b,
       bs_failure_threshold = cb_failure_threshold b, bs_recovery_timeout = cb_recovery_timeout b,
       bs_retry_after = round1 (retry_after now b) \<rparr>"

definition record_success :: "rat \<Rightarrow> circuit_breaker \<Rightarrow> circuit_breaker" where
  "record_success now b =
     (let b1 = b\<lparr>cb_failure_count := 0, cb_success_count := cb_success_count b + 1\<rparr>
      in if cb_state b \<noteq> Closed then b1\<lparr>cb_state := Closed, cb_last_state_change := now\<rparr> else b1)"

definition record_failure :: "rat \<Rightarrow> circuit_breaker \<Rightarrow> circuit_breaker" where
  "record_failure now b =
     (let b1 = b\<lparr>cb_failure_count := cb_failure_count b + 1, cb_last_failure_time := now\<rparr>
      in if cb_state b = HalfOpen then b1\<lparr>cb_state := Open, cb_last_state_change := now\<rparr>
         else if cb_state b = Closed \<and> int (cb_failure_count b1) \<ge> cb_failure_threshold b
         then b1\<lparr>cb_state := Open, cb_last_state_change := now\<rparr>
         else b1)"

definition check_and_acquire ::
    "rat \<Rightarrow> circuit_breaker \<Rightarrow> (circuit_open_error + unit) \<times> circuit_breaker" where
  "check_and_acquire now b =
     (if cb_state b = Closed then (Inr (), b)
      else if cb_state b = Open then
        (let elapsed = now - cb_last_failure_time b in
         if elapsed \<ge> cb_recovery_timeout b
         then (Inr (), b\<lparr>cb_state := HalfOpen, cb_last_state_change := now\<rparr>)
         else (Inl \<lparr> ce_name = cb_name b, ce_retry_after = cb_recovery_timeout b - elapsed \<rparr>, b))
      else (Inr (), b))"

text \<open>A protected call that takes from \<open>start\<close> to \<open>finish\<close>: it returns, raises an \<open>Exception\<close>, or is
  cancelled (a \<open>BaseException\<close>, which \<open>except Exception\<close> does not catch).\<close>

datatype ('v, 'e) outcome = Returned 'v | Raised 'e | Cancelled

datatype ('v, 'e) call_result = CircuitOpen circuit_open_error | Outcome "('v, 'e) outcome"

definition protect ::
    "rat \<Rightarrow> rat \<Rightarrow> ('v, 'e) outcome \<Rightarrow> circuit_breaker \<Rightarrow> ('v, 'e) call_result \<times> circuit_breaker" where
  "protect start finish out b =
     (case check_and_acquire start b of
        (Inl e, b1) \<Rightarrow> (CircuitOpen e, b1)
      | (Inr u, b1) \<Rightarrow> (Outcome out,
          (case out of Returned v \<Rightarrow> record_success finish b1 | Raised e \<Rightarrow> record_failure finish b1
           | Cancelled \<Rightarrow> b1)))"

text \<open>The context manager: \<open>__aexit__\<close> sees every exception, a cancellation too.\<close>

definition breaker_aexit :: "rat \<Rightarrow> ('v, 'e) outcome \<Rightarrow> circuit_breaker \<Rightarrow> circuit_breaker" where
  "breaker_aexit now out b =
     (case out of Returned v \<Rightarrow> record_success now b | _ \<Rightarrow> record_failure now b)"

definition with_breaker ::
    "rat \<Rightarrow> rat \<Rightarrow> ('v, 'e) outcome \<Rightarrow> circuit_breaker \<Rightarrow> ('v, 'e) call_result \<times> circuit_breaker" where
  "with_breaker start finish out b =
     (case check_and_acquire start b of
        (Inl e, b1) \<Rightarrow> (CircuitOpen e, b1)
      | (Inr u, b1) \<Rightarrow> (Outcome out, breaker_aexit finish out b1))"

section \<open>The registry\<close>

type_synonym breaker_registry = "(string \<times> circuit_breaker) list"

definition get_circuit_breaker ::
    "string \<Rightarrow> int \<Rightarrow> rat \<Rightarrow> rat \<Rightarrow> breaker_registry \<Rightarrow> circuit_breaker \<times> breaker_registry" where
  "get_circuit_breaker name failure_threshold recovery_timeout now registry =
     (case dict_get registry name of
        Some b \<Rightarrow> (b, registry)
      | None \<Rightarrow> (let b = new_breaker name failure_threshold recovery_timeout now
                 in (b, dict_set name b registry)))"

definition get_all_circuit_breakers ::
    "(rat \<Rightarrow> rat) \<Rightarrow> rat \<Rightarrow> breaker_registry \<Rightarrow> (string \<times> breaker_stats) list" where
  "get_all_circuit_breakers round1 now registry = map (\<lambda>(n, b). (n, get_stats round1 now b)) registry"

section \<open>Retry on transient errors\<close>

text \<open>What the classifier looks at in an exception: whether it is an instance of \<open>ConnectionError\<close> or
  \<open>TimeoutError\<close>, its attributes \<open>status_code\<close> and \<open>status\<close>, and the name of its class.\<close>

record exception =
  xn_connection_or_timeout :: bool
  xn_status_code :: "int option"
  xn_status :: "int option"
  xn_class :: string

definition transient_http_codes :: "int set" where
  "transient_http_codes = {429, 502, 503, 504}"

definition is_transient :: "exception \<Rightarrow> bool" where
  "is_transient x =
     (if xn_connection_or_timeout x then True
      else let status = (case xn_status_code x of
             Some c \<Rightarrow> if c \<noteq> 0 then Some c else xn_status x | None \<Rightarrow> xn_status x)
      in if (case status of None \<Rightarrow> False | Some c \<Rightarrow> c \<noteq> 0 \<and> c \<in> transient_http_codes) then True
         else xn_class x \<in> {''ResourceExhausted'', ''RateLimitError'', ''ServiceUnavailable''})"

datatype 'v retry_result = RetReturned 'v | RetRaised exception
  | RetRaiseNone  \<comment> \<open>\<open>raise last_exc\<close> with \<open>None\<close>: a \<open>TypeError\<close>\<close>

record retry_config =
  rc_max_attempts :: int
  rc_base_delay :: rat
  rc_max_delay :: rat
  rc_jitter :: bool

definition retry_delay :: "retry_config \<Rightarrow> (nat \<Rightarrow> rat) \<Rightarrow> nat \<Rightarrow> rat" where
  "retry_delay c random attempt =
     (let delay = min (rc_base_delay c * 2 ^ (attempt - 1)) (rc_max_delay c)
      in if rc_jitter c then delay * (1 / 2 + random attempt) else delay)"

text \<open>The loop \<open>for attempt in range(1, max_attempts + 1)\<close>: \<open>f\<close> gives the outcome of each attempt; the
  result comes with the number of calls made and the delays slept. A \<open>BaseException\<close> is not
  modelled here: it ends the loop like a permanent error.\<close>

function retry_loop ::
    "retry_config \<Rightarrow> (nat \<Rightarrow> rat) \<Rightarrow> (nat \<Rightarrow> 'v + exception) \<Rightarrow> nat \<Rightarrow> exception option \<Rightarrow>
     'v retry_result \<times> nat \<times> rat list" where
  "retry_loop c random f attempt last_exc =
     (if int attempt > rc_max_attempts c
      then ((case last_exc of None \<Rightarrow> RetRaiseNone | Some x \<Rightarrow> RetRaised x), attempt - 1, [])
      else case f attempt of
        Inl v \<Rightarrow> (RetReturned v, attempt, [])
      | Inr x \<Rightarrow>
          if \<not> is_transient x \<or> int attempt = rc_max_attempts c then (RetRaised x, attempt, [])
          else (let (r, calls, delays) = retry_loop c random f (attempt + 1) (Some x)
                in (r, calls, retry_delay c random attempt # delays)))"
  by pat_completeness auto
termination
  by (relation "measure (\<lambda>(c, random, f, attempt, last_exc). nat (rc_max_attempts c + 1 - int attempt))")
    auto

declare retry_loop.simps [simp del]

definition retry_on_transient ::
    "retry_config \<Rightarrow> (nat \<Rightarrow> rat) \<Rightarrow> (nat \<Rightarrow> 'v + exception) \<Rightarrow> 'v retry_result \<times> nat \<times> rat list" where
  "retry_on_transient c random f = retry_loop c random f 1 None"

section \<open>Runs of a breaker\<close>

datatype breaker_event = Acquire rat | Success rat | Failure rat

fun breaker_step :: "circuit_breaker \<Rightarrow> breaker_event \<Rightarrow> circuit_breaker" where
  "breaker_step b (Acquire t) = snd (check_and_acquire t b)"
| "breaker_step b (Success t) = record_success t b"
| "breaker_step b (Failure t) = record_failure t b"

definition breaker_run :: "circuit_breaker \<Rightarrow> breaker_event list \<Rightarrow> circuit_breaker" where
  "breaker_run = foldl breaker_step"

lemma breaker_run_simps [simp]:
  "breaker_run b [] = b" "breaker_run b (e # es) = breaker_run (breaker_step b e) es"
  "breaker_run b (es @ [e]) = breaker_step (breaker_run b es) e"
  by (simp_all add: breaker_run_def)

text \<open>The abstract breaker: the number of failures since the last success.\<close>

fun consecutive_failures :: "breaker_event list \<Rightarrow> nat" where
  "consecutive_failures [] = 0"
| "consecutive_failures (Failure t # past) = Suc (consecutive_failures past)"
| "consecutive_failures (Success t # past) = 0"
| "consecutive_failures (Acquire t # past) = consecutive_failures past"

lemma breaker_constants [simp]:
  "cb_failure_threshold (breaker_step b e) = cb_failure_threshold b"
  "cb_recovery_timeout (breaker_step b e) = cb_recovery_timeout b"
  "cb_name (breaker_step b e) = cb_name b"
  by (cases e; simp add: check_and_acquire_def record_success_def record_failure_def Let_def)+

lemma breaker_count_step:
  "cb_failure_count (breaker_step b e) =
     (case e of Acquire t \<Rightarrow> cb_failure_count b | Success t \<Rightarrow> 0
      | Failure t \<Rightarrow> Suc (cb_failure_count b))"
  by (cases e) (simp_all add: check_and_acquire_def record_success_def record_failure_def Let_def)

text \<open>Closed exactly below the threshold.\<close>

definition breaker_inv :: "circuit_breaker \<Rightarrow> bool" where
  "breaker_inv b \<longleftrightarrow>
     (cb_state b = Closed \<longleftrightarrow> int (cb_failure_count b) < max 1 (cb_failure_threshold b))"

lemma breaker_inv_new: "breaker_inv (new_breaker name n t now)"
  by (simp add: breaker_inv_def new_breaker_def)

lemma breaker_inv_step: "breaker_inv b \<Longrightarrow> breaker_inv (breaker_step b e)"
  by (cases e) (auto simp: breaker_inv_def check_and_acquire_def record_success_def
      record_failure_def Let_def)

lemma breaker_run_refines:
  "breaker_inv (breaker_run (new_breaker name n t now) es)
   \<and> cb_failure_count (breaker_run (new_breaker name n t now) es) = consecutive_failures (rev es)
   \<and> cb_failure_threshold (breaker_run (new_breaker name n t now) es) = n"
proof (induction es rule: rev_induct)
  case Nil
  then show ?case using breaker_inv_new by (simp add: new_breaker_def)
next
  case (snoc e es)
  let ?b = "breaker_run (new_breaker name n t now) es"
  show ?case
    using snoc breaker_inv_step [of ?b e] breaker_count_step [of ?b e] breaker_constants(1) [of ?b e]
    by (cases e) (simp_all del: breaker_step.simps)
qed

section \<open>Properties of the breaker\<close>

text \<open>Property C27: the breaker counts exactly the failures since the last success, in every interleaving of calls, and it
  is closed exactly while their number is below the threshold (below one for a threshold of zero or
  less): it opens with the failure that reaches the threshold and only a success closes it.\<close>

theorem breaker_closed_iff_below_threshold:
  "let b = breaker_run (new_breaker name threshold timeout now) es
   in cb_failure_count b = consecutive_failures (rev es)
      \<and> (cb_state b = Closed \<longleftrightarrow> int (consecutive_failures (rev es)) < max 1 threshold)"
  using breaker_run_refines [of name threshold timeout now es]
  by (simp add: Let_def breaker_inv_def)

text \<open>The lock-free check agrees with the locked one, a refused call leaves the breaker as it was, and the
  error carries the remaining time, which is positive and what \<open>retry_after\<close> reports.\<close>

theorem acquire_granted_iff_available:
  "(fst (check_and_acquire now b) = Inr () \<longleftrightarrow> is_available now b)
   \<and> (case check_and_acquire now b of
        (Inl e, b') \<Rightarrow> b' = b \<and> ce_name e = cb_name b \<and> ce_retry_after e = retry_after now b
          \<and> ce_retry_after e > 0
      | (Inr u, b') \<Rightarrow> retry_after now b = 0 \<and> cb_state b' \<noteq> Open)"
  by (cases "cb_state b") (auto simp: check_and_acquire_def is_available_def retry_after_def Let_def)

text \<open>An event that cannot end the open phase that began at \<open>t0\<close> and ends at \<open>t1\<close>.\<close>

fun within_window :: "rat \<Rightarrow> rat \<Rightarrow> breaker_event \<Rightarrow> bool" where
  "within_window t0 t1 (Acquire s) = (s < t1)"
| "within_window t0 t1 (Success s) = False"
| "within_window t0 t1 (Failure s) = (t0 \<le> s)"

lemma open_stays_open:
  assumes "cb_state b = Open" "t0 \<le> cb_last_failure_time b"
    "list_all (within_window t0 (t0 + cb_recovery_timeout b)) es"
  shows "cb_state (breaker_run b es) = Open \<and> t0 \<le> cb_last_failure_time (breaker_run b es)"
  using assms
proof (induction es arbitrary: b)
  case (Cons e es)
  have step: "cb_state (breaker_step b e) = Open \<and> t0 \<le> cb_last_failure_time (breaker_step b e)"
    using Cons.prems
    by (cases e) (auto simp: check_and_acquire_def record_failure_def Let_def)
  show ?case
    using step Cons.prems(3) Cons.IH [of "breaker_step b e"] by (simp del: breaker_step.simps)
qed simp

text \<open>An open breaker refuses every call until its recovery timeout has passed since the last failure,
  whatever late failures of calls in flight arrive, as long as no success does.\<close>

theorem open_rejects_until_timeout:
  assumes "cb_state b = Open"
    "list_all (within_window (cb_last_failure_time b)
       (cb_last_failure_time b + cb_recovery_timeout b)) es"
    "now < cb_last_failure_time b + cb_recovery_timeout b"
  shows "\<not> is_available now (breaker_run b es)"
proof -
  have "cb_recovery_timeout (breaker_run b es) = cb_recovery_timeout b"
    by (induction es arbitrary: b) simp_all
  then show ?thesis
    using open_stays_open [OF assms(1) order.refl assms(2)] assms(3) by (simp add: is_available_def)
qed

theorem open_rejects_until_timeout_witness:
  "\<not> is_available 50 (breaker_run (breaker_run (new_breaker ''gemini'' 1 60 0) [Failure 10])
     [Acquire 20, Failure 30])"
  by (rule open_rejects_until_timeout) (simp_all add: new_breaker_def record_failure_def)

text \<open>Recovery: once the timeout has passed since the last failure, an open breaker grants the next call, a
  success of that call closes it with a clean count, and a failure opens it again with the timer
  restarted.\<close>

theorem open_recovers:
  assumes "cb_state b = Open" "cb_last_failure_time b + cb_recovery_timeout b \<le> now"
  shows "fst (check_and_acquire now b) = Inr ()
    \<and> cb_state (snd (check_and_acquire now b)) = HalfOpen
    \<and> cb_state (breaker_run b [Acquire now, Success later]) = Closed
    \<and> cb_failure_count (breaker_run b [Acquire now, Success later]) = 0
    \<and> cb_state (breaker_run b [Acquire now, Failure later]) = Open
    \<and> cb_last_failure_time (breaker_run b [Acquire now, Failure later]) = later"
  using assms
  by (simp add: check_and_acquire_def record_success_def record_failure_def Let_def)

theorem open_recovers_witness:
  "cb_state (breaker_run (breaker_run (new_breaker ''gemini'' 1 60 0) [Failure 10])
     [Acquire 70, Success 71]) = Closed"
proof -
  let ?b = "breaker_run (new_breaker ''gemini'' 1 60 0) [Failure 10]"
  have "cb_state ?b = Open" "cb_last_failure_time ?b + cb_recovery_timeout ?b \<le> 70"
    by (simp_all add: new_breaker_def record_failure_def)
  then show ?thesis using open_recovers [of ?b 70 71] by blast
qed

text \<open>Half open is not one test request: after the timeout an open breaker grants every call that comes
  before the first result, however many there are.\<close>

theorem half_open_admits_every_call:
  assumes "cb_state b = Open" "list_all (\<lambda>t. cb_last_failure_time b + cb_recovery_timeout b \<le> t) ts"
    "cb_last_failure_time b + cb_recovery_timeout b \<le> now"
  shows "is_available now (breaker_run b (map Acquire ts))"
proof -
  have half: "cb_state c = HalfOpen \<Longrightarrow> breaker_run c (map Acquire us) = c" for c us
    by (induction us) (simp_all add: check_and_acquire_def)
  show ?thesis
  proof (cases ts)
    case Nil
    then show ?thesis using assms by (simp add: is_available_def)
  next
    case (Cons t us)
    then have "cb_state (breaker_step b (Acquire t)) = HalfOpen"
      using assms by (simp add: check_and_acquire_def)
    then show ?thesis using Cons half [of _ us] by (simp add: is_available_def)
  qed
qed

theorem half_open_admits_every_call_witness:
  "is_available 73 (breaker_run (breaker_run (new_breaker ''gemini'' 1 60 0) [Failure 10])
     (map Acquire [70, 71, 72]))"
  by (rule half_open_admits_every_call) (simp_all add: new_breaker_def record_failure_def)

text \<open>The decorator and the context manager treat a call alike except when it is cancelled: the decorator
  then records nothing, the context manager a failure.\<close>

theorem protect_agrees_with_context_manager:
  "if out = Cancelled
   then snd (protect start finish out b) = snd (check_and_acquire start b)
     \<and> snd (with_breaker start finish out b) = (if is_available start b
          then record_failure finish (snd (check_and_acquire start b)) else b)
   else protect start finish out b = with_breaker start finish out b"
  by (cases out; cases "cb_state b")
    (simp_all add: protect_def with_breaker_def breaker_aexit_def check_and_acquire_def Let_def
      is_available_def)

section \<open>Properties of the retry loop\<close>

definition transient_failure :: "('v + exception) \<Rightarrow> bool" where
  "transient_failure out = (case out of Inl v \<Rightarrow> False | Inr x \<Rightarrow> is_transient x)"

definition result_of_outcome :: "('v + exception) \<Rightarrow> 'v retry_result" where
  "result_of_outcome out = (case out of Inl v \<Rightarrow> RetReturned v | Inr x \<Rightarrow> RetRaised x)"

lemma retry_loop_spec:
  assumes "int attempt \<le> rc_max_attempts c"
  shows "\<exists>k \<ge> attempt. int k \<le> rc_max_attempts c
    \<and> (\<forall>j \<in> {attempt..<k}. transient_failure (f j))
    \<and> (\<not> transient_failure (f k) \<or> int k = rc_max_attempts c)
    \<and> retry_loop c random f attempt last_exc
        = (result_of_outcome (f k), k, map (retry_delay c random) [attempt..<k])"
  using assms
proof (induction c random f attempt last_exc rule: retry_loop.induct)
  case (1 c random f attempt last_exc)
  show ?case
  proof (cases "transient_failure (f attempt) \<and> int attempt \<noteq> rc_max_attempts c")
    case False
    then show ?thesis using 1(2)
      by (intro exI [of _ attempt]) (auto simp: retry_loop.simps [of _ _ _ attempt]
          transient_failure_def result_of_outcome_def split: sum.splits)
  next
    case True
    then obtain x where x: "f attempt = Inr x" "is_transient x"
      by (auto simp: transient_failure_def split: sum.splits)
    have next_attempt: "int (attempt + 1) \<le> rc_max_attempts c" using True 1(2) by simp
    obtain k where k: "k \<ge> attempt + 1" "int k \<le> rc_max_attempts c"
        "\<forall>j \<in> {attempt + 1..<k}. transient_failure (f j)"
        "\<not> transient_failure (f k) \<or> int k = rc_max_attempts c"
        "retry_loop c random f (attempt + 1) (Some x)
          = (result_of_outcome (f k), k, map (retry_delay c random) [attempt + 1..<k])"
      using 1(1) [OF _ x(1) _ next_attempt] True x 1(2) by auto
    have "\<forall>j \<in> {attempt..<k}. transient_failure (f j)"
      using k(3) True by (metis Suc_eq_plus1 Suc_leI atLeastLessThan_iff le_neq_implies_less)
    moreover have "[attempt..<k] = attempt # [attempt + 1..<k]"
      using k(1) by (simp add: upt_conv_Cons)
    ultimately show ?thesis
      using k True x 1(2)
      by (intro exI [of _ k]) (simp add: retry_loop.simps [of _ _ _ attempt])
  qed
qed

text \<open>With at least one attempt the loop stops at the first attempt that returns, fails for good, or is the
  last one allowed: every attempt before it failed transiently, its outcome is the outcome of the
  whole, it is the number of calls made, and one delay was slept after each attempt before it.\<close>

theorem retry_stops_at_first_final_attempt:
  assumes "rc_max_attempts c \<ge> 1"
  shows "\<exists>k \<ge> 1. int k \<le> rc_max_attempts c \<and> (\<forall>j \<in> {1..<k}. transient_failure (f j))
    \<and> (\<not> transient_failure (f k) \<or> int k = rc_max_attempts c)
    \<and> retry_on_transient c random f
        = (result_of_outcome (f k), k, map (retry_delay c random) [1..<k])"
  using retry_loop_spec [of 1 c f random None] assms by (simp add: retry_on_transient_def)

definition example_retry :: retry_config where
  "example_retry = \<lparr> rc_max_attempts = 3, rc_base_delay = 1, rc_max_delay = 8, rc_jitter = False \<rparr>"

definition rate_limited :: exception where
  "rate_limited = \<lparr> xn_connection_or_timeout = False, xn_status_code = Some 429, xn_status = None,
     xn_class = ''HTTPError'' \<rparr>"

lemma retry_loop_returns:
  "f attempt = Inl v \<Longrightarrow> int attempt \<le> rc_max_attempts c \<Longrightarrow>
     retry_loop c random f attempt last_exc = (RetReturned v, attempt, [])"
  by (subst retry_loop.simps) simp

lemma retry_loop_again:
  "f attempt = Inr x \<Longrightarrow> is_transient x \<Longrightarrow> int attempt < rc_max_attempts c \<Longrightarrow>
     retry_loop c random f attempt last_exc =
       (let (r, calls, delays) = retry_loop c random f (attempt + 1) (Some x)
        in (r, calls, retry_delay c random attempt # delays))"
  by (subst retry_loop.simps) simp

lemma rate_limited_transient: "is_transient rate_limited"
  by (simp add: rate_limited_def is_transient_def transient_http_codes_def)

definition second_attempt_ok :: "nat \<Rightarrow> string + exception" where
  "second_attempt_ok k = (if k = 2 then Inl ''ok'' else Inr rate_limited)"

lemma example_retry_run:
  "retry_on_transient example_retry (\<lambda>k. 0) second_attempt_ok = (RetReturned ''ok'', 2, [1])"
proof -
  have "retry_loop example_retry (\<lambda>k. 0) second_attempt_ok 1 None =
      (let (r, calls, delays) = retry_loop example_retry (\<lambda>k. 0) second_attempt_ok (1 + 1) (Some rate_limited)
       in (r, calls, retry_delay example_retry (\<lambda>k. 0) 1 # delays))"
    by (rule retry_loop_again) (simp_all add: second_attempt_ok_def rate_limited_transient example_retry_def)
  moreover have "retry_loop example_retry (\<lambda>k. 0) second_attempt_ok (1 + 1) (Some rate_limited)
      = (RetReturned ''ok'', 1 + 1, [])"
    by (rule retry_loop_returns) (simp_all add: second_attempt_ok_def example_retry_def)
  moreover have "retry_delay example_retry (\<lambda>k. 0) 1 = 1"
    by (simp add: retry_delay_def example_retry_def)
  ultimately show ?thesis by (simp add: retry_on_transient_def)
qed

theorem retry_stops_at_first_final_attempt_witness:
  "transient_failure (second_attempt_ok 1) \<and> result_of_outcome (second_attempt_ok 2) = RetReturned ''ok''
   \<and> retry_on_transient example_retry (\<lambda>k. 0) second_attempt_ok = (RetReturned ''ok'', 2, [1])"
proof -
  have "rc_max_attempts example_retry \<ge> 1" by (simp add: example_retry_def)
  from retry_stops_at_first_final_attempt [OF this, of second_attempt_ok "\<lambda>k. 0"]
  obtain k where earlier: "\<forall>j \<in> {1..<k}. transient_failure (second_attempt_ok j)"
      and k: "(RetReturned ''ok'', 2, [1]) = (result_of_outcome (second_attempt_ok k), k,
        map (retry_delay example_retry (\<lambda>k. 0)) [1..<k])"
    unfolding example_retry_run by (elim exE conjE) (rule that)
  from k have two: "k = 2" "result_of_outcome (second_attempt_ok k) = RetReturned ''ok''"
    by (simp_all only: prod.inject)
  have "transient_failure (second_attempt_ok 1)" using earlier unfolding two(1) by simp
  then show ?thesis using two(2) example_retry_run unfolding two(1) by blast
qed

text \<open>Without an attempt there is no call and nothing to raise: \<open>raise last_exc\<close> raises \<open>None\<close>, which Python
  turns into a \<open>TypeError\<close>.\<close>

theorem retry_without_attempts:
  "(rc_max_attempts c < 1) = (retry_on_transient c random f = (RetRaiseNone, 0, []))"
proof (cases "rc_max_attempts c < 1")
  case True
  then show ?thesis by (simp add: retry_on_transient_def retry_loop.simps)
next
  case False
  then show ?thesis
    using retry_loop_spec [of 1 c f random None]
    by (auto simp: retry_on_transient_def)
qed

text \<open>The delays are bounded: with a random number below one and delays that are not negative, every delay is
  at least zero and below one and a half times the maximal delay, the jitter included, and fewer
  delays than attempts are slept.\<close>

theorem retry_delays_bounded:
  assumes "0 \<le> rc_base_delay c" "0 < rc_max_delay c" "\<And>k. 0 \<le> random k \<and> random k < 1"
  shows "list_all (\<lambda>d. 0 \<le> d \<and> d < 3 / 2 * rc_max_delay c) (snd (snd (retry_on_transient c random f)))
    \<and> length (snd (snd (retry_on_transient c random f))) \<le> nat (rc_max_attempts c - 1)"
proof -
  have bound: "0 \<le> retry_delay c random k \<and> retry_delay c random k < 3 / 2 * rc_max_delay c" for k
  proof -
    let ?d = "min (rc_base_delay c * 2 ^ (k - 1)) (rc_max_delay c)"
    have d: "0 \<le> ?d" "?d \<le> rc_max_delay c" using assms(1,2) by simp_all
    have r: "0 \<le> 1 / 2 + random k" "1 / 2 + random k < 3 / 2" using assms(3) [of k] by auto
    have "?d * (1 / 2 + random k) \<le> rc_max_delay c * (1 / 2 + random k)"
      using d r by (intro mult_right_mono) auto
    also have "\<dots> < rc_max_delay c * (3 / 2)"
      using assms(2) r by (intro mult_strict_left_mono) auto
    finally show ?thesis using d r assms(2) by (auto simp: retry_delay_def Let_def)
  qed
  show ?thesis
  proof (cases "rc_max_attempts c \<ge> 1")
    case True
    then show ?thesis
      using retry_loop_spec [of 1 c f random None] bound
      by (auto simp: retry_on_transient_def list_all_iff)
  next
    case False
    then show ?thesis by (simp add: retry_on_transient_def retry_loop.simps)
  qed
qed

theorem retry_delays_bounded_witness:
  "list_all (\<lambda>d. 0 \<le> d \<and> d < 12) [1 :: rat]"
proof -
  have "0 \<le> rc_base_delay example_retry" "0 < rc_max_delay example_retry"
    by (simp_all add: example_retry_def)
  from retry_delays_bounded [OF this, of "\<lambda>k. 0" second_attempt_ok]
  show ?thesis unfolding example_retry_run by (simp add: example_retry_def)
qed

end
