(* ===== verification/Run_State.thy ===== *)
theory Run_State
  imports Complex_Main Adapter_V1
begin

text \<open>
  \<open>app/engine/runtime/run_state.py\<close>: the state machine of one chat run. The asyncio lock makes a
  transition atomic. Listeners are names; a transition notifies them in order and swallows what they
  raise, so the model returns the notifications it makes. A listener that awaits a transition of the
  same machine would wait for the lock forever; that is outside the model. The clock is an argument.
\<close>

section \<open>States and transitions\<close>

datatype run_state =
  Pending | Dispatching | Running | Completing | Succeeded | Failed | Retrying

fun run_state_name :: "run_state \<Rightarrow> string" where
  "run_state_name Pending = ''pending''"
| "run_state_name Dispatching = ''dispatching''"
| "run_state_name Running = ''running''"
| "run_state_name Completing = ''completing''"
| "run_state_name Succeeded = ''succeeded''"
| "run_state_name Failed = ''failed''"
| "run_state_name Retrying = ''retrying''"

fun valid_transitions :: "run_state \<Rightarrow> run_state set" where
  "valid_transitions Pending = {Dispatching, Failed}"
| "valid_transitions Dispatching = {Running, Retrying, Failed}"
| "valid_transitions Running = {Completing, Retrying, Failed}"
| "valid_transitions Completing = {Succeeded, Failed}"
| "valid_transitions Retrying = {Dispatching, Failed}"
| "valid_transitions Succeeded = {}"
| "valid_transitions Failed = {}"

section \<open>The retry policy\<close>

record retry_policy =
  rp_max_attempts :: int
  rp_backoff_base_seconds :: rat

definition default_retry_policy :: retry_policy where
  "default_retry_policy = \<lparr> rp_max_attempts = 3, rp_backoff_base_seconds = 1 / 2 \<rparr>"

definition should_retry :: "retry_policy \<Rightarrow> int \<Rightarrow> bool" where
  "should_retry p attempt = (attempt < rp_max_attempts p)"

definition backoff_for :: "retry_policy \<Rightarrow> int \<Rightarrow> rat" where
  "backoff_for p attempt = rp_backoff_base_seconds p * 2 ^ nat (max 0 (attempt - 1))"

section \<open>The machine\<close>

record run_machine =
  rm_run_id :: string
  rm_retry_policy :: retry_policy
  rm_metadata :: pydict
  rm_state :: run_state
  rm_attempt :: int
  rm_error :: "string option"
  rm_started_at :: rat
  rm_last_transition_at :: rat
  rm_listeners :: "string list"

definition run_safe_metadata ::
    "(string \<Rightarrow> pyval option) \<Rightarrow> (string \<Rightarrow> string) \<Rightarrow> pydict \<Rightarrow> pydict" where
  "run_safe_metadata loads digest metadata =
     (case sanitize_payload loads digest 0 (PDict metadata) of PDict d \<Rightarrow> d | _ \<Rightarrow> [])"

definition new_run_machine ::
    "(string \<Rightarrow> pyval option) \<Rightarrow> (string \<Rightarrow> string) \<Rightarrow> string \<Rightarrow> retry_policy \<Rightarrow> pydict \<Rightarrow> rat \<Rightarrow>
     run_machine" where
  "new_run_machine loads digest run_id policy metadata now =
     \<lparr> rm_run_id = run_id, rm_retry_policy = policy,
       rm_metadata = run_safe_metadata loads digest metadata, rm_state = Pending, rm_attempt = 1,
       rm_error = None, rm_started_at = now, rm_last_transition_at = now, rm_listeners = [] \<rparr>"

definition is_terminal :: "run_machine \<Rightarrow> bool" where
  "is_terminal m = (rm_state m = Succeeded \<or> rm_state m = Failed)"

definition add_listener :: "string \<Rightarrow> run_machine \<Rightarrow> run_machine" where
  "add_listener l m =
     (if l \<notin> set (rm_listeners m) then m\<lparr>rm_listeners := rm_listeners m @ [l]\<rparr> else m)"

definition remove_listener :: "string \<Rightarrow> run_machine \<Rightarrow> run_machine" where
  "remove_listener l m =
     (if l \<in> set (rm_listeners m) then m\<lparr>rm_listeners := remove1 l (rm_listeners m)\<rparr> else m)"

datatype illegal_transition = IllegalTransition run_state run_state

type_synonym notification = "string \<times> run_state \<times> run_state"

definition transition_to ::
    "rat \<Rightarrow> run_state \<Rightarrow> string option \<Rightarrow> run_machine \<Rightarrow>
     (illegal_transition + unit) \<times> run_machine \<times> notification list" where
  "transition_to now target error m =
     (let prev = rm_state m in
      if target \<notin> valid_transitions prev then (Inl (IllegalTransition prev target), m, [])
      else let
        m1 = m\<lparr>rm_state := target, rm_last_transition_at := now\<rparr>;
        m2 = (case error of
          None \<Rightarrow> m1
        | Some e \<Rightarrow> if e \<noteq> [] then m1\<lparr>rm_error := Some (redact_default e)\<rparr> else m1);
        m3 = (if target = Retrying then m2\<lparr>rm_attempt := rm_attempt m2 + 1, rm_error := None\<rparr> else m2)
      in (Inr (), m3, map (\<lambda>l. (l, prev, target)) (rm_listeners m3)))"

record run_snapshot =
  ss_run_id :: string
  ss_state :: run_state
  ss_attempt :: int
  ss_started_at :: rat
  ss_last_transition_at :: rat
  ss_error :: "string option"
  ss_metadata :: pydict

definition snapshot ::
    "(string \<Rightarrow> pyval option) \<Rightarrow> (string \<Rightarrow> string) \<Rightarrow> run_machine \<Rightarrow> run_snapshot" where
  "snapshot loads digest m =
     \<lparr> ss_run_id = rm_run_id m, ss_state = rm_state m, ss_attempt = rm_attempt m,
       ss_started_at = rm_started_at m, ss_last_transition_at = rm_last_transition_at m,
       ss_error = rm_error m, ss_metadata = run_safe_metadata loads digest (rm_metadata m) \<rparr>"

section \<open>Runs\<close>

text \<open>A run: the accepted transitions from one machine to another, oldest first.\<close>

inductive run_path :: "run_machine \<Rightarrow> run_state list \<Rightarrow> run_machine \<Rightarrow> bool" where
  start: "run_path m [] m"
| move: "run_path m path m' \<Longrightarrow> transition_to now target error m' = (Inr (), m'', sent) \<Longrightarrow>
    run_path m (path @ [target]) m''"

inductive_cases run_path_snocE: "run_path m (path @ [target]) m''"

lemma transition_accepted:
  "transition_to now target error m = (Inr (), m', sent) \<Longrightarrow>
     target \<in> valid_transitions (rm_state m) \<and> rm_state m' = target
     \<and> rm_attempt m' = rm_attempt m + (if target = Retrying then 1 else 0)
     \<and> rm_retry_policy m' = rm_retry_policy m \<and> rm_listeners m' = rm_listeners m
     \<and> rm_last_transition_at m' = now
     \<and> (target = Retrying \<longrightarrow> rm_error m' = None)"
  by (auto simp: transition_to_def Let_def split: if_splits option.splits)

text \<open>How far a state is into its attempt.\<close>

fun state_rank :: "run_state \<Rightarrow> int" where
  "state_rank Pending = -1"
| "state_rank Retrying = -1"
| "state_rank Dispatching = 0"
| "state_rank Running = 1"
| "state_rank Completing = 2"
| "state_rank Succeeded = 3"
| "state_rank Failed = 3"

lemma transition_rank:
  "target \<in> valid_transitions s \<Longrightarrow> target \<noteq> Retrying \<Longrightarrow> state_rank s < state_rank target"
  "Retrying \<in> valid_transitions s \<Longrightarrow> state_rank s \<le> 1"
  by (cases s; auto)+

text \<open>Every transition raises the rank or starts a new attempt.\<close>

lemma run_path_rank:
  "run_path m path m' \<Longrightarrow>
     int (length path) \<le> 3 * (rm_attempt m' - rm_attempt m) + (state_rank (rm_state m') - state_rank (rm_state m))
     \<and> rm_attempt m' = rm_attempt m + int (count_list path Retrying)"
proof (induction rule: run_path.induct)
  case (move m path m' now target error m'' sent)
  note t = transition_accepted [OF move.hyps(2)]
  show ?case
  proof (cases "target = Retrying")
    case True
    then have "state_rank (rm_state m') \<le> 1" using t transition_rank(2) by blast
    then show ?thesis using move.IH t True by simp
  next
    case False
    then have "state_rank (rm_state m') < state_rank target" using t transition_rank(1) by blast
    then show ?thesis using move.IH t False by simp
  qed
qed simp


text \<open>A run that enters \<open>retrying\<close> only when its policy still allows a retry.\<close>

inductive policed_path :: "run_machine \<Rightarrow> run_state list \<Rightarrow> run_machine \<Rightarrow> bool" where
  policed_start: "policed_path m [] m"
| policed_move: "policed_path m path m' \<Longrightarrow> transition_to now target error m' = (Inr (), m'', sent) \<Longrightarrow>
    (target = Retrying \<Longrightarrow> should_retry (rm_retry_policy m') (rm_attempt m')) \<Longrightarrow>
    policed_path m (path @ [target]) m''"

lemma policed_run_path: "policed_path m path m' \<Longrightarrow> run_path m path m'"
  by (induction rule: policed_path.induct) (auto intro: start move)

lemma policed_attempts:
  "policed_path m path m' \<Longrightarrow>
     rm_retry_policy m' = rm_retry_policy m
     \<and> rm_attempt m' \<le> max (rm_attempt m) (rp_max_attempts (rm_retry_policy m))"
proof (induction rule: policed_path.induct)
  case (policed_move m path m' now target error m'' sent)
  then show ?case
    using transition_accepted [OF policed_move.hyps(2)] by (auto simp: should_retry_def)
qed simp

text \<open>One more transition of a run.\<close>

lemma policed_step:
  assumes "policed_path m path m'" "target \<in> valid_transitions (rm_state m')"
    "target = Retrying \<Longrightarrow> should_retry (rm_retry_policy m') (rm_attempt m')"
  shows "\<exists>m''. policed_path m (path @ [target]) m'' \<and> rm_state m'' = target
    \<and> rm_retry_policy m'' = rm_retry_policy m'
    \<and> rm_attempt m'' = rm_attempt m' + (if target = Retrying then 1 else 0)"
proof -
  obtain m'' sent where t: "transition_to 0 target None m' = (Inr (), m'', sent)"
    using assms(2) by (auto simp: transition_to_def Let_def)
  show ?thesis
    using policed_move [OF assms(1) t assms(3)] transition_accepted [OF t] by auto
qed

text \<open>The transitions of a list are allowed, one after the other, from a state and an attempt.\<close>

fun policed_from :: "retry_policy \<Rightarrow> int \<Rightarrow> run_state \<Rightarrow> run_state list \<Rightarrow> bool" where
  "policed_from p a s [] = True"
| "policed_from p a s (t # ts) = (t \<in> valid_transitions s \<and> (t = Retrying \<longrightarrow> should_retry p a)
     \<and> policed_from p (a + (if t = Retrying then 1 else 0)) t ts)"

lemma policed_extend:
  "policed_path m path m' \<Longrightarrow> policed_from (rm_retry_policy m') (rm_attempt m') (rm_state m') ts \<Longrightarrow>
     \<exists>m''. policed_path m (path @ ts) m''"
proof (induction ts arbitrary: path m')
  case (Cons t ts)
  then obtain m1 where "policed_path m (path @ [t]) m1" "rm_state m1 = t"
      "rm_retry_policy m1 = rm_retry_policy m'"
      "rm_attempt m1 = rm_attempt m' + (if t = Retrying then 1 else 0)"
    using policed_step [of m path m' t] by auto
  then show ?case using Cons.IH [of "path @ [t]" m1] Cons.prems(2) by auto
qed auto

lemma run_step:
  assumes "run_path m path m'" "target \<in> valid_transitions (rm_state m')"
  shows "\<exists>m''. run_path m (path @ [target]) m'' \<and> rm_state m'' = target"
proof -
  obtain m'' sent where t: "transition_to 0 target None m' = (Inr (), m'', sent)"
    using assms(2) by (auto simp: transition_to_def Let_def)
  then show ?thesis using move [OF assms(1) t] transition_accepted [OF t] by auto
qed

section \<open>Properties\<close>

text \<open>A transition is accepted exactly when the table allows it. An accepted one puts the machine in the
  target, counts an attempt exactly for a retry, keeps the error text only in redacted form and drops
  it for a retry, and notifies every listener once and in order; a refused one changes nothing and
  notifies nobody. A terminal state accepts no transition.\<close>

theorem transition_to_exact:
  "(if target \<in> valid_transitions (rm_state m)
    then transition_to now target error m =
      (Inr (), m\<lparr>rm_state := target, rm_last_transition_at := now,
         rm_attempt := rm_attempt m + (if target = Retrying then 1 else 0),
         rm_error := (if target = Retrying then None
           else if present error then Some (redact_default (the error)) else rm_error m)\<rparr>,
       map (\<lambda>l. (l, rm_state m, target)) (rm_listeners m))
    else transition_to now target error m = (Inl (IllegalTransition (rm_state m) target), m, []))
   \<and> (is_terminal m \<longleftrightarrow> valid_transitions (rm_state m) = {})"
proof -
  have "is_terminal m \<longleftrightarrow> valid_transitions (rm_state m) = {}"
    by (cases "rm_state m") (simp_all add: is_terminal_def)
  then show ?thesis
    by (auto simp: transition_to_def Let_def present_def split: option.splits)
qed

text \<open>Every driver can keep a run going: whatever the policy is, the table leads back from a retry to the next
  dispatch.\<close>

lemma run_unbounded: "\<exists>path m'. run_path m path m' \<and> length path = length start_path + 2 * n \<and> rm_state m' = Retrying"
  if "run_path m start_path m0" "rm_state m0 = Retrying" for start_path
proof (induction n)
  case 0
  then show ?case using that by auto
next
  case (Suc n)
  then obtain path m1 where m1: "run_path m path m1" "length path = length start_path + 2 * n" "rm_state m1 = Retrying" by blast
  from run_step [OF m1(1), of Dispatching] m1(3) obtain m2 where
    m2: "run_path m (path @ [Dispatching]) m2" "rm_state m2 = Dispatching" by auto
  from run_step [OF m2(1), of Retrying] m2(2) obtain m3 where
    "run_path m ((path @ [Dispatching]) @ [Retrying]) m3" "rm_state m3 = Retrying" by auto
  then show ?case using m1(2) by (intro exI [of _ "(path @ [Dispatching]) @ [Retrying]"] exI [of _ m3]) simp
qed

lemma run_as_long_as_wanted:
  assumes "rm_state m = Pending"
  shows "\<exists>path m'. run_path m path m' \<and> n \<le> length path"
proof -
  from run_step [OF start, of Dispatching m] assms obtain m1 where
    m1: "run_path m [Dispatching] m1" "rm_state m1 = Dispatching" by auto
  from run_step [OF m1(1), of Retrying] m1(2) obtain m2 where
    m2: "run_path m [Dispatching, Retrying] m2" "rm_state m2 = Retrying" by auto
  from run_unbounded [OF m2, of n] obtain path m3 where
    "run_path m path m3" "length path = length [Dispatching, Retrying] + 2 * n" by blast
  then show ?thesis by (intro exI [of _ path] exI [of _ m3]) simp
qed

text \<open>Property C26: the table alone does not bound a run, the attempts do. Whoever drives a new machine, its attempt counter is
  one more than the retries taken and it makes at most three transitions per attempt and one more. A driver that asks
  \<open>should_retry\<close> before each retry makes at most three per attempt of the policy and one more. A driver that does not ask
  can make a run as long as it wants, whatever the policy is: \<open>transition_to\<close> accepts the retry.\<close>

theorem run_terminates:
  "let fresh = new_run_machine loads digest run_id policy metadata t0 in
     (\<forall>path m. run_path fresh path m \<longrightarrow>
        rm_attempt m = 1 + int (count_list path Retrying) \<and> int (length path) \<le> 3 * rm_attempt m + 1)
     \<and> (\<forall>path m. policed_path fresh path m \<longrightarrow>
        run_path fresh path m \<and> rm_attempt m \<le> max 1 (rp_max_attempts policy)
        \<and> int (length path) \<le> 3 * max 1 (rp_max_attempts policy) + 1)
     \<and> (\<forall>n. \<exists>path m. run_path fresh path m \<and> n \<le> length path)"
proof -
  let ?fresh = "new_run_machine loads digest run_id policy metadata t0"
  have last_rank: "state_rank (rm_state m) \<le> 3" for m by (cases "rm_state m") simp_all
  have free: "rm_attempt m = 1 + int (count_list path Retrying) \<and> int (length path) \<le> 3 * rm_attempt m + 1"
    if "run_path ?fresh path m" for path m
    using run_path_rank [OF that] last_rank [of m] by (simp add: new_run_machine_def)
  have policed: "rm_attempt m \<le> max 1 (rp_max_attempts policy)" if "policed_path ?fresh path m" for path m
    using policed_attempts [OF that] by (simp add: new_run_machine_def)
  have "\<exists>path m. run_path ?fresh path m \<and> n \<le> length path" for n
    by (rule run_as_long_as_wanted) (simp add: new_run_machine_def)
  moreover have "int (length path) \<le> 3 * max 1 (rp_max_attempts policy) + 1" if "policed_path ?fresh path m" for path m
    using free [OF policed_run_path [OF that]] policed [OF that] by linarith
  ultimately show ?thesis using free policed policed_run_path unfolding Let_def by blast
qed

theorem run_terminates_witness:
  "\<exists>m. policed_path (new_run_machine (\<lambda>s. None) (\<lambda>s. s) ''r1'' default_retry_policy [] 0)
       [Dispatching, Retrying, Dispatching, Failed] m
     \<and> rm_attempt m = 2 \<and> rm_attempt m \<le> max 1 (rp_max_attempts default_retry_policy)"
proof -
  let ?m0 = "new_run_machine (\<lambda>s. None) (\<lambda>s. s) ''r1'' default_retry_policy [] 0"
  have "policed_from default_retry_policy 1 Pending [Dispatching, Retrying, Dispatching, Failed]"
    by (simp add: should_retry_def default_retry_policy_def)
  then obtain m where m: "policed_path ?m0 [Dispatching, Retrying, Dispatching, Failed] m"
    using policed_extend [OF policed_start, of ?m0 "[Dispatching, Retrying, Dispatching, Failed]"]
    by (auto simp: new_run_machine_def)
  have "rm_attempt m = 2"
    using run_terminates [of "\<lambda>s. None" "\<lambda>s. s" "''r1''" default_retry_policy "[]" 0] m unfolding Let_def by fastforce
  moreover have "rm_attempt m \<le> max 1 (rp_max_attempts default_retry_policy)"
    using run_terminates [of "\<lambda>s. None" "\<lambda>s. s" "''r1''" default_retry_policy "[]" 0] m unfolding Let_def by blast
  ultimately show ?thesis using m by blast
qed

text \<open>A shortest way to success from every state that is not terminal.\<close>

fun way_to_success :: "run_state \<Rightarrow> run_state list" where
  "way_to_success Pending = [Dispatching, Running, Completing, Succeeded]"
| "way_to_success Retrying = [Dispatching, Running, Completing, Succeeded]"
| "way_to_success Dispatching = [Running, Completing, Succeeded]"
| "way_to_success Running = [Completing, Succeeded]"
| "way_to_success Completing = [Succeeded]"
| "way_to_success s = []"

text \<open>The transitions of a list are allowed one after the other from a state.\<close>

fun allowed_from :: "run_state \<Rightarrow> run_state list \<Rightarrow> bool" where
  "allowed_from s [] = True"
| "allowed_from s (t # ts) = (t \<in> valid_transitions s \<and> allowed_from t ts)"

lemma run_path_extend:
  "run_path m path m' \<Longrightarrow> allowed_from (rm_state m') ts \<Longrightarrow>
     \<exists>m''. run_path m (path @ ts) m'' \<and> rm_state m'' = last (rm_state m' # ts)"
proof (induction ts arbitrary: path m')
  case (Cons t ts)
  then obtain m1 where m1: "run_path m (path @ [t]) m1" "rm_state m1 = t"
    using run_step [of m path m' t] by auto
  then show ?case using Cons.IH [OF m1(1)] Cons.prems(2) by auto
qed auto

text \<open>A run can always be finished: from every state that is not terminal a failure is one transition away,
  and success at most four.\<close>

theorem run_can_always_finish:
  assumes "\<not> is_terminal m"
  shows "(\<exists>m'. run_path m [Failed] m' \<and> is_terminal m')
    \<and> (\<exists>m'. run_path m (way_to_success (rm_state m)) m' \<and> rm_state m' = Succeeded
         \<and> length (way_to_success (rm_state m)) \<le> 4)"
proof -
  have way: "allowed_from (rm_state m) (way_to_success (rm_state m))
      \<and> last (rm_state m # way_to_success (rm_state m)) = Succeeded
      \<and> length (way_to_success (rm_state m)) \<le> 4"
    using assms by (cases "rm_state m") (simp_all add: is_terminal_def)
  have fail: "allowed_from (rm_state m) [Failed]"
    using assms by (cases "rm_state m") (simp_all add: is_terminal_def)
  show ?thesis
    using run_path_extend [OF start, of m "way_to_success (rm_state m)"] way
      run_path_extend [OF start fail]
    by (auto simp: is_terminal_def)
qed

theorem run_can_always_finish_witness:
  "\<exists>m'. run_path (new_run_machine (\<lambda>s. None) (\<lambda>s. s) ''r1'' default_retry_policy [] 0)
     [Dispatching, Running, Completing, Succeeded] m' \<and> rm_state m' = Succeeded"
proof -
  let ?m0 = "new_run_machine (\<lambda>s. None) (\<lambda>s. s) ''r1'' default_retry_policy [] 0"
  have "\<not> is_terminal ?m0" "way_to_success (rm_state ?m0) = [Dispatching, Running, Completing, Succeeded]"
    by (simp_all add: new_run_machine_def is_terminal_def)
  then show ?thesis using run_can_always_finish [of ?m0] by auto
qed

end
