(* ===== verification/Spec2Isabelle.thy ===== *)
theory Spec2Isabelle
  imports Post_Flow Account_Flow Subagent_Bridge Integration_Worker Readiness Action_Turn Resilience Run_State
    Tool_Guardrails Callback_State Connection_Lifecycle Runtime_Lifecycle
begin

text \<open>
  Verification development for the Wiii backend (the FastAPI service under
  \<open>src/wiii-main/wiii-main/maritime-ai-service/app\<close>; the paths below are relative to it).

  The program. Wiii is a tutoring assistant whose agents may act on a user's accounts at
  external providers. What stands between a model and such an account is \<^emph>\<open>Wiii Connect\<close>
  (\<open>engine/wiii_connect\<close> and the routes of \<open>api/v1/wiii_connect.py\<close>): a catalogue of providers, sessions
  that connect an account, a policy that chooses an action, approvals of mutations, a gateway that decides
  each execution, an executor that makes it, and ledgers that record it. Below it lies a runtime
  substrate (\<open>engine/runtime\<close>, \<open>core/resilience.py\<close>): payload sanitization, run states, tool guardrails,
  lifecycle hooks, circuit breakers and retries. The development models these two parts, because the
  guarantees the service makes to its users rest on them.

  \<^bold>\<open>How the parts interact.\<close> A user connects an account: \<open>connection_sessions\<close> asks \<open>provider_adapters\<close>
  whether a URL may be issued, \<open>callback_state\<close> signs the state the provider hands back,
  \<open>callback_boundary\<close> accepts the callback and \<open>persistent_storage\<close> stores the connection. A request to act
  passes \<open>action_policy\<close> and \<open>action_authorization\<close>, and \<open>execution_gateway\<close>, which asks \<open>adapter_v1\<close>,
  \<open>scope_policy\<close> and \<open>provider_adapters\<close>; \<open>backend_action_executor\<close> reads the live schema through
  \<open>composio_adapter\<close>, checks the arguments, audits the start, posts, and audits the end. The routes call the
  same functions. A Facebook post takes two requests: \<open>facebook_post_preview\<close> builds evidence and a signed
  token, \<open>operation_approval\<close> a row in the ledger; the apply route verifies the token, consumes the row and posts.

  \<^bold>\<open>The theories.\<close> Each opens with the files it models; definitions keep the names of the source.

  \<^item> \<open>Py_Prelude\<close>: Python strings, dynamic values (\<open>pyval\<close>), insertion-ordered dictionaries and the
    conversions between them; \<open>Py_Hashlib\<close>: UTF-8, SHA-256 and HMAC on 32-bit words; \<open>Gates\<close>: the locale
    \<open>ordered_gate\<close>, a fail-closed chain of checks that reports the first failure.
  \<^item> \<open>Sanitizer\<close> (\<open>engine/runtime/event_payload_sanitizer.py\<close>), \<open>Argument_Keys\<close> (\<open>argument_key_policy\<close>),
    \<open>Connection_Lifecycle\<close> (\<open>connection_lifecycle\<close>), \<open>Audit_Ledger\<close> (\<open>audit_ledger\<close>), \<open>Vault\<close> (\<open>vault\<close>).
  \<^item> \<open>Adapter_V1\<close> (\<open>adapter_v1\<close>), \<open>Gateway\<close> (\<open>scope_policy\<close>, \<open>provider_adapters\<close>, \<open>execution_gateway\<close>),
    \<open>Sessions\<close> (\<open>provider_registry\<close>, \<open>connection_sessions\<close>, \<open>callback_boundary\<close>), \<open>Actions\<close>
    (\<open>action_catalog\<close>, \<open>action_policy\<close>, \<open>action_authorization\<close>).
  \<^item> \<open>Approvals\<close> (\<open>operation_approval\<close> and the approval table of \<open>persistent_storage\<close>), \<open>Connection_Store\<close> (its
    connection and audit tables), \<open>Composio\<close>, \<open>Composio_Upload\<close>, \<open>Composio_Config\<close> and
    \<open>Composio_Accounts\<close> (\<open>composio_adapter\<close>), \<open>Executor\<close> (\<open>backend_action_executor\<close>), \<open>Endpoint\<close> (the
    execution routes of \<open>api/v1/wiii_connect.py\<close>).
  \<^item> \<open>Connection_Routes\<close>: the routes that connect, list, grant and disconnect accounts; \<open>Account_Flow\<close>: their
    interleavings and what a stored connection says about the requests before it.
  \<^item> \<open>Callback_State\<close> (\<open>callback_state\<close>), \<open>Post_Preview\<close> (\<open>facebook_post_preview\<close>), \<open>Post_Routes\<close> (the preview
    and apply routes), \<open>Post_Flow\<close> (their interleavings). \<open>Integration_Worker\<close> (\<open>integration_worker\<close>): the plan,
    the arguments and the outcome of one delegated action.
  \<^item> \<open>Readiness\<close> (\<open>action_inventory\<close>, \<open>activation_readiness\<close> and their routes): which actions a user could run now.
  \<^item> \<open>Action_Lane\<close> (\<open>engine/multi_agent/external_app_action_runtime.py\<close>, \<open>external_app_integration_lane.py\<close>): the plan
    and the lane of a turn, and which tools they leave to the model; \<open>Action_Tools\<close>
    (\<open>engine/tools/wiii_connect_tools.py\<close>): the tools themselves, each behind the gate that reads plan and lane;
    \<open>Action_Turn\<close>: what a whole turn lets through.
  \<^item> \<open>Resilience\<close> (\<open>core/resilience.py\<close>), \<open>Run_State\<close>, \<open>Tool_Guardrails\<close>, \<open>Runtime_Lifecycle\<close> (the files of
    \<open>engine/runtime\<close> with these names).
  \<^item> \<open>Event_Log\<close> (\<open>engine/runtime/session_event_log.py\<close>): the in-memory and the Postgres log under one locale
    \<open>event_log\<close>; \<open>Event_Log_Flow\<close>: that they agree, pruning, and concurrent writers; \<open>Session_Wake\<close>
    (\<open>engine/runtime/session_wake.py\<close>): the conversation rebuilt from a session's events.
  \<^item> \<open>Native_Dispatch\<close> (\<open>engine/runtime/native_dispatch.py\<close>, \<open>native_stream_dispatch.py\<close>): a chat turn and a
    streamed turn, which write those events, fire the hooks and count the run; \<open>Subagents\<close>
    (\<open>engine/runtime/subagent_runner.py\<close>): a child agent and the two events its parent's session keeps of it;
    \<open>Subagent_Bridge\<close> (\<open>engine/runtime/subagent_chatservice_bridge.py\<close>): its run on the chat service.
\<close>

text \<open>
  \<^bold>\<open>State and operations.\<close> A frozen dataclass is a \<open>record\<close>, a \<open>Literal\<close> or enumeration a \<open>datatype\<close> with its
  wire word in a \<open>fun\<close>, a dictionary that reaches a log, a table or a provider a \<open>pydict\<close>. Tables are
  finite maps from their keys; a database call is its effect on the table together with a flag that says
  whether the database served it, so every \<open>except\<close> branch is a branch of the model. The executor and the routes
  run over a world (\<open>world\<close>, \<open>post_world\<close>): tables, the database flags by call number, and the
  trace of HTTP requests and audit attempts in their order. An exception is the left part of a sum.
  Mutable objects (\<open>CircuitBreaker\<close>, the run machine, the hook registry, the context that guardrails share) are passed as
  state. A route that waits for the provider is split at its wait, so that \<open>Post_Flow\<close> and \<open>Account_Flow\<close> can
  interleave requests as the event loop does.

  \<^bold>\<open>What the lemmas show.\<close> The gateway and the adapter contract are characterised exactly, and fail closed
  (\<open>Gateway\<close>, \<open>Adapter_V1\<close>, \<open>Vault\<close>, \<open>Sessions\<close>, all interpretations of \<open>ordered_gate\<close>). From there the
  executor is shown to post at most once, behind every gate, between its two audit attempts; the routes
  to post only declared reads, or the approved content of a preview, its image as the descriptor of a file staged from
  exactly these bytes (\<open>Post_Routes\<close>, and for the direct post \<open>Action_Turn\<close>). Approvals are used once in every
  history (\<open>Approvals\<close>, the locale \<open>single_use_ledger\<close>), and no interleaving of previews and applies turns
  a preview into two posts while the ledger answers (\<open>Post_Flow\<close>). A stored apply scope goes back to a
  request of its owner in every interleaving of the account routes, a callback stores only for the user
  whose state it carries, and a disconnect is stored before it is sent (\<open>Account_Flow\<close>). Tokens and states that verify are signed
  (\<open>Callback_State\<close>, \<open>Post_Preview\<close>). Nothing sensitive reaches a log, a hook, the model or the audit
  ledger (\<open>Sanitizer\<close>, \<open>Argument_Keys\<close>, \<open>Audit_Ledger\<close>, \<open>Runtime_Lifecycle\<close>). Run states follow their table; a
  run ends when its driver asks the retry policy, as it is documented to, and need not otherwise (\<open>Run_State\<close>); breakers count
  failures and recover; the retry loop stops; a chain of guardrails fails closed, also when they write into the context they share
  (\<open>Tool_Guardrails\<close>). The two event logs give the same events, payloads included, while nothing is pruned and no writers
  compete, and cursors that are complete from any state on as long as that holds; what a pruning does to them is shown as well. An
  append gives up only under contention, and a woken session has exactly the conversation and the open calls of
  its events (\<open>Event_Log_Flow\<close>, \<open>Session_Wake\<close>). A turn writes its message before it runs and its answer and the results of its calls after,
  each with its content, a stream
  passes its chunks through whatever the log does after its message (\<open>Native_Dispatch\<close>), and the run of a child agent adds to its
  parent's session a start and a completion that leave its conversation as it was, whatever the runner does (\<open>Subagents\<close>, and on the chat service \<open>Subagent_Bridge\<close>). A delegated plan stays in its scope (\<open>Integration_Worker\<close>); the
  inventory and the readiness ladder show exactly what the gateway would decide (\<open>Readiness\<close>). The plan and the
  lane of a turn survive their way through the agent's state (\<open>Action_Lane\<close>), so that the gate of a tool opens exactly for
  what the operator, the user's connection and the turn allow (\<open>Action_Turn\<close>, a refinement through the recorded metadata);
  what a model passes to the delegate tool ends in at most one read that both authorise (\<open>Action_Tools\<close>). Some
  theorems show where the code falls short of its documents; they are listed as findings beside the development.

  \<^bold>\<open>Parameters.\<close> The clock (microseconds, or a real in \<open>Resilience\<close>), nonces, identifiers from \<open>uuid\<close>, random
  jitter, environment settings, the HTTP client (a function from a request to a response or an exception),
  \<open>json.loads\<close>, \<open>int\<close> of a string, timestamp parsing, setting a query parameter of a URL (\<open>ports\<close> gathers those of
  the account routes, \<open>log_ports\<close> and \<open>wake_ports\<close> those of the event logs) and the outcomes of wrapped calls,
  guardrails, hooks, the chat service and the runner of a child are arguments of the definitions that use them. Theorems that need a fact about one of them name it as a hypothesis (that
  \<open>json.loads\<close> reads back what \<open>json.dumps\<close> wrote, that the JSONB column gives back the payload put into it) and have a witness that instantiates it.

  \<^bold>\<open>Bounds.\<close> Nothing runs on fuel: the recursions are structural or have a termination proof (the sanitizer by
  its depth bound and the size of the value, the regex scan by the rest of the string, the retry loop by
  the attempts left). Strings are lists of characters with code points below 256: Latin-1 is the
  largest alphabet HOL's \<open>char\<close> has, and where the code treats characters outside ASCII in a way of their own
  the model has that branch. Words of SHA-256 and MD5 are 32 bits wide and wrap.

  \<^bold>\<open>Not modelled.\<close> Of Wiii Connect: \<open>snapshot\<close> (a read-only projection over the modelled parts and the MCP servers)
  with the routes that show it and the storage doctor, and the HTML page of the callback, which is text. Of the agent
  tools: the JSON text of an answer, the validation of tool inputs (pydantic) and the wording of final answers. What the
  intent module and the snapshot say of a turn is the argument \<open>turn_view\<close>, and the two Vietnamese sentences of the
  Facebook tool, which have letters outside Latin-1, are fields of \<open>tool_env\<close>. Of the runtime: tracing and the storage of
  metrics. Outside it: agents, retrieval and LLM providers (their behaviour is that
  of external services), SQLAlchemy sessions and migrations (library glue), FastAPI routing
  and request parsing, and logging.
\<close>

end
